(* ===== verification/Prelude.thy ===== *)
theory Prelude
  imports Main "HOL-Library.Word" "HOL-Library.Monad_Syntax"
begin

text \<open>
  Shared vocabulary of the development: the machine types of the firmware
  (\<open>uint8_t\<close>, \<open>uint16_t\<close>, \<open>uint32_t\<close>), byte buffers, the C library's memory and string
  routines as the sources use them, and the generic lemmas on them.

  A C array is a list of bytes of fixed length. An operation that would read or write
  outside its array, or run past a string without terminator, is undefined behaviour
  in C; here it is the value \<open>None\<close> of the option type, so that every such path of the
  sources is a visible branch of the model. \<open>Some v\<close> means that the operation ran
  within its arrays and produced \<open>v\<close>. Plain \<open>char\<close> is unsigned on the target
  (arm-none-eabi, no \<open>-fsigned-char\<close> in src/cmake), so it is an 8-bit word like
  \<open>unsigned char\<close>.
\<close>

unbundle bit_operations_syntax

type_synonym u8 = "8 word"
type_synonym u16 = "16 word"
type_synonym u32 = "32 word"
type_synonym buf = "8 word list"

named_theorems buf_simps \<open>unfolding rules for the buffer primitives\<close>
named_theorems cstr_simps \<open>rules relating C string routines to the text they denote\<close>

section \<open>Arrays of bytes\<close>

definition rd :: "'a list \<Rightarrow> nat \<Rightarrow> 'a option" where
  "rd b i = (if i < length b then Some (b ! i) else None)"

definition wr :: "'a list \<Rightarrow> nat \<Rightarrow> 'a \<Rightarrow> 'a list option" where
  "wr b i v = (if i < length b then Some (b[i := v]) else None)"

definition buf_read :: "'a list \<Rightarrow> nat \<Rightarrow> nat \<Rightarrow> 'a list option" where
  "buf_read b i n = (if i + n \<le> length b then Some (take n (drop i b)) else None)"

text \<open>\<open>memcpy\<close> of the bytes \<open>xs\<close> to offset \<open>i\<close> of an array.\<close>

definition buf_write :: "'a list \<Rightarrow> nat \<Rightarrow> 'a list \<Rightarrow> 'a list option" where
  "buf_write b i xs =
     (if i + length xs \<le> length b then Some (take i b @ xs @ drop (i + length xs) b) else None)"

text \<open>\<open>memset (b + i, v, n)\<close>.\<close>

definition buf_fill :: "'a list \<Rightarrow> nat \<Rightarrow> 'a \<Rightarrow> nat \<Rightarrow> 'a list option" where
  "buf_fill b i v n = buf_write b i (replicate n v)"

section \<open>C strings\<close>

text \<open>A string literal of the sources, without its terminating zero.\<close>

definition str :: "string \<Rightarrow> buf" where
  "str s = map of_char s"

text \<open>The text a buffer holds: the bytes before the first zero.\<close>

definition c_str :: "buf \<Rightarrow> buf" where
  "c_str b = takeWhile (\<lambda>x. x \<noteq> 0) b"

definition terminated :: "buf \<Rightarrow> bool" where
  "terminated b = (0 \<in> set b)"

fun c_strlen :: "buf \<Rightarrow> nat option" where
  "c_strlen [] = None"
| "c_strlen (x # b) = (if x = 0 then Some 0 else map_option Suc (c_strlen b))"

text \<open>\<open>strcat (dst, src)\<close> for a source text \<open>src\<close>: writes the text and a terminator
  over the terminator of \<open>dst\<close>.\<close>

definition c_strcat :: "buf \<Rightarrow> buf \<Rightarrow> buf option" where
  "c_strcat dst src = do { n \<leftarrow> c_strlen dst; buf_write dst n (src @ [0]) }"

text \<open>\<open>strstr (s, pat)\<close>: the offset of the first occurrence of a text in a text.\<close>

fun is_prefix_of :: "buf \<Rightarrow> buf \<Rightarrow> bool" where
  "is_prefix_of [] s = True"
| "is_prefix_of (p # ps) [] = False"
| "is_prefix_of (p # ps) (x # xs) = (p = x \<and> is_prefix_of ps xs)"

fun c_strstr :: "buf \<Rightarrow> buf \<Rightarrow> nat option" where
  "c_strstr [] pat = (if pat = [] then Some 0 else None)"
| "c_strstr (x # xs) pat =
     (if is_prefix_of pat (x # xs) then Some 0 else map_option Suc (c_strstr xs pat))"

section \<open>Searching an array\<close>

text \<open>The index at which \<open>for (i = 0; i < n; i++) if (p (a[i])) break;\<close> stops early.\<close>

fun first_idx :: "('a \<Rightarrow> bool) \<Rightarrow> 'a list \<Rightarrow> nat option" where
  "first_idx p [] = None"
| "first_idx p (x # xs) = (if p x then Some 0 else map_option Suc (first_idx p xs))"

lemma first_idx_Some:
  "first_idx p xs = Some i \<Longrightarrow> i < length xs \<and> p (xs ! i) \<and> (\<forall>j < i. \<not> p (xs ! j))"
proof (induction xs arbitrary: i)
  case Nil
  then show ?case by simp
next
  case (Cons x xs)
  show ?case
  proof (cases "p x")
    case True
    with Cons.prems show ?thesis by simp
  next
    case False
    with Cons.prems obtain k where "first_idx p xs = Some k" "i = Suc k" by auto
    with Cons.IH [of k] False show ?thesis by (auto simp: less_Suc_eq_0_disj)
  qed
qed

lemma first_idx_None_iff: "first_idx p xs = None \<longleftrightarrow> (\<forall>x \<in> set xs. \<not> p x)"
  by (induction xs) auto

section \<open>Lemmas on arrays\<close>

lemma rd_Some_iff [simp]: "rd b i = Some v \<longleftrightarrow> i < length b \<and> b ! i = v"
  by (auto simp: rd_def)

lemma rd_in_range [simp]: "i < length b \<Longrightarrow> rd b i = Some (b ! i)"
  by (simp add: rd_def)

lemma rd_None_iff: "rd b i = None \<longleftrightarrow> length b \<le> i"
  by (auto simp: rd_def)

lemma wr_in_range [simp]: "i < length b \<Longrightarrow> wr b i v = Some (b[i := v])"
  by (simp add: wr_def)

lemma wr_length: "wr b i v = Some b' \<Longrightarrow> length b' = length b"
  by (auto simp: wr_def split: if_splits)

lemma buf_read_Some_iff: "buf_read b i n = Some xs \<longleftrightarrow> i + n \<le> length b \<and> xs = take n (drop i b)"
  by (auto simp: buf_read_def)

lemma buf_write_Some_iff:
  "buf_write b i xs = Some b' \<longleftrightarrow>
     i + length xs \<le> length b \<and> b' = take i b @ xs @ drop (i + length xs) b"
  by (auto simp: buf_write_def)

lemma buf_write_length: "buf_write b i xs = Some b' \<Longrightarrow> length b' = length b"
  by (auto simp: buf_write_Some_iff)

lemma buf_write_read_back:
  "buf_write b i xs = Some b' \<Longrightarrow> buf_read b' i (length xs) = Some xs"
  by (auto simp: buf_write_Some_iff buf_read_Some_iff)

lemma buf_write_nth:
  assumes "buf_write b i xs = Some b'" and "k < length b"
  shows "b' ! k = (if i \<le> k \<and> k < i + length xs then xs ! (k - i) else b ! k)"
  using assms by (auto simp: buf_write_Some_iff nth_append min_def)

lemma buf_write_prefix_kept: "buf_write b i xs = Some b' \<Longrightarrow> take i b' = take i b"
  by (auto simp: buf_write_Some_iff)

lemma buf_fill_length: "buf_fill b i v n = Some b' \<Longrightarrow> length b' = length b"
  by (auto simp: buf_fill_def dest: buf_write_length)

lemma buf_fill_all: "n = length b \<Longrightarrow> buf_fill b 0 v n = Some (replicate n v)"
  by (simp add: buf_fill_def buf_write_def)

section \<open>Lemmas on C strings\<close>

lemma str_Nil [simp]: "str [] = []"
  by (simp add: str_def)

lemma length_str [simp]: "length (str s) = length s"
  by (simp add: str_def)

lemma str_append: "str (s @ t) = str s @ str t"
  by (simp add: str_def)

lemma unat_of_nat_u8: "n < 256 \<Longrightarrow> unat (word_of_nat n :: u8) = n"
  by (simp add: unsigned_of_nat take_bit_nat_eq_self)

lemma of_char_zero_iff: "(of_char c :: u8) = 0 \<longleftrightarrow> c = CHR 0x00"
proof -
  have "unat (word_of_nat (of_char c) :: u8) = of_char c"
    by (rule unat_of_nat_u8) (rule nat_of_char_less_256)
  then have "unat (of_char c :: u8) = of_char c" by (simp only: of_nat_of_char)
  then have "(of_char c :: u8) = 0 \<longleftrightarrow> (of_char c :: nat) = 0" by (simp only: unat_eq_0 [symmetric])
  also have "(of_char c :: nat) = 0 \<longleftrightarrow> (of_char c :: nat) = of_char (CHR 0x00)" by simp
  also have "\<dots> \<longleftrightarrow> c = CHR 0x00" by (rule of_char_eq_iff)
  finally show ?thesis .
qed

lemma zero_in_str [simp]: "0 \<in> set (str s) \<longleftrightarrow> CHR 0x00 \<in> set s"
proof -
  have "0 \<in> set (str s) \<longleftrightarrow> (\<exists>c \<in> set s. (of_char c :: u8) = 0)" by (auto simp: str_def)
  then show ?thesis by (simp add: of_char_zero_iff)
qed

lemma c_strlen_eq: "c_strlen b = (if 0 \<in> set b then Some (length (c_str b)) else None)"
  by (induction b) (auto simp: c_str_def)

lemma c_str_nonzero [simp]: "0 \<notin> set (c_str b)"
  by (auto simp: c_str_def dest: set_takeWhileD)

lemma c_str_id: "0 \<notin> set s \<Longrightarrow> c_str s = s"
  by (auto simp: c_str_def takeWhile_eq_all_conv)

lemma c_str_append_zero: "0 \<notin> set s \<Longrightarrow> c_str (s @ 0 # r) = s"
  unfolding c_str_def by (subst takeWhile_append2) auto

lemma c_str_length_le: "length (c_str b) \<le> length b"
  by (simp add: c_str_def length_takeWhile_le)

lemma terminated_split: "terminated b \<Longrightarrow> \<exists>r. b = c_str b @ 0 # r"
proof (induction b)
  case Nil
  then show ?case by (simp add: terminated_def)
next
  case (Cons x b)
  then show ?case by (auto simp: terminated_def c_str_def)
qed

lemma terminated_length: "terminated b \<Longrightarrow> length (c_str b) < length b"
  using terminated_split [of b] by (metis length_append less_add_same_cancel1 length_Cons zero_less_Suc)

lemma c_strlen_terminated [cstr_simps]: "terminated b \<Longrightarrow> c_strlen b = Some (length (c_str b))"
  by (simp add: c_strlen_eq terminated_def)

lemma c_strcat_Some:
  assumes "terminated d" and "length (c_str d) + length s < length d"
  shows "c_strcat d s = Some (c_str d @ s @ 0 # drop (length (c_str d) + length s + 1) d)"
proof -
  obtain r where r: "d = c_str d @ 0 # r"
    using terminated_split [OF assms(1)] by blast
  have "take (length (c_str d)) d = c_str d"
    by (metis append_eq_conv_conj r)
  then show ?thesis
    using assms by (simp add: c_strcat_def cstr_simps buf_write_def)
qed

lemma c_strcat_None:
  assumes "terminated d" and "length d \<le> length (c_str d) + length s"
  shows "c_strcat d s = None"
  using assms by (simp add: c_strcat_def cstr_simps buf_write_def)

lemma c_strcat_length: "c_strcat d s = Some d' \<Longrightarrow> length d' = length d"
  by (auto simp: c_strcat_def Option.bind_eq_Some_conv dest: buf_write_length)

lemma is_prefix_of_iff: "is_prefix_of p s \<longleftrightarrow> (\<exists>r. s = p @ r)"
  by (induction p s rule: is_prefix_of.induct) auto

lemma c_strstr_Some_split:
  "c_strstr s pat = Some i \<Longrightarrow> \<exists>a r. s = a @ pat @ r \<and> length a = i"
proof (induction s pat arbitrary: i rule: c_strstr.induct)
  case (1 pat)
  then show ?case by (auto split: if_splits)
next
  case (2 x xs pat)
  show ?case
  proof (cases "is_prefix_of pat (x # xs)")
    case True
    with 2 show ?thesis by (auto simp: is_prefix_of_iff)
  next
    case False
    with 2 obtain a r where "xs = a @ pat @ r" "Suc (length a) = i"
      by auto
    then show ?thesis by (intro exI [of _ "x # a"] exI [of _ r]) auto
  qed
qed

lemma c_strstr_None_iff: "c_strstr s pat = None \<longleftrightarrow> (\<nexists>a r. s = a @ pat @ r)"
proof (induction s pat rule: c_strstr.induct)
  case (1 pat)
  then show ?case by auto
next
  case (2 x xs pat)
  show ?case
  proof (cases "is_prefix_of pat (x # xs)")
    case True
    then have "\<exists>r. x # xs = [] @ pat @ r" by (simp add: is_prefix_of_iff)
    with True show ?thesis by (simp del: append.simps) blast
  next
    case False
    then have no0: "\<nexists>r. x # xs = pat @ r" by (simp add: is_prefix_of_iff)
    have "(\<exists>a r. x # xs = a @ pat @ r) \<longleftrightarrow> (\<exists>a r. xs = a @ pat @ r)"
      using no0 by (metis append_Cons append_Nil list.inject neq_Nil_conv)
    with False 2 show ?thesis by simp
  qed
qed

section \<open>Bytes of a 16-bit value\<close>

lemma xor_zero_iff: "x XOR y = 0 \<longleftrightarrow> x = y" for x y :: "'a::len word"
proof
  assume "x XOR y = 0"
  then have "bit (x XOR y) n = bit (0 :: 'a word) n" for n by simp
  then show "x = y" by (intro bit_word_eqI) (simp add: bit_xor_iff)
qed simp

definition hi8 :: "u16 \<Rightarrow> u8" where
  "hi8 w = ucast (drop_bit 8 w)"

definition lo8 :: "u16 \<Rightarrow> u8" where
  "lo8 w = ucast (w AND 0xFF)"

definition join16 :: "u8 \<Rightarrow> u8 \<Rightarrow> u16" where
  "join16 h l = push_bit 8 (ucast h) OR ucast l"

lemma bit_hi8: "bit (hi8 w) n \<longleftrightarrow> n < 8 \<and> bit w (n + 8)"
  by (auto simp: hi8_def bit_simps ac_simps)

lemma bit_lo8: "bit (lo8 w) n \<longleftrightarrow> n < 8 \<and> bit w n"
proof -
  have "lo8 w = ucast (take_bit 8 w)"
    by (simp add: lo8_def take_bit_eq_mask mask_eq_exp_minus_1)
  then show ?thesis by (auto simp: bit_simps)
qed

lemma bit_join16: "bit (join16 h l) n \<longleftrightarrow> (if n < 8 then bit l n else n < 16 \<and> bit h (n - 8))"
  by (auto simp: join16_def bit_simps dest: bit_imp_le_length)

lemma hi8_join16 [simp]: "hi8 (join16 h l) = h"
  by (rule bit_word_eqI) (auto simp: bit_hi8 bit_join16)

lemma lo8_join16 [simp]: "lo8 (join16 h l) = l"
  by (rule bit_word_eqI) (auto simp: bit_lo8 bit_join16)

lemma join16_hi8_lo8 [simp]: "join16 (hi8 w) (lo8 w) = w"
  by (rule bit_word_eqI) (auto simp: bit_join16 bit_hi8 bit_lo8)

lemma hi8_ucast [simp]: "hi8 (ucast x) = 0" for x :: u8
proof -
  have "ucast x = join16 0 x" by (simp add: join16_def)
  then show ?thesis by simp
qed

lemma join16_inject: "join16 h l = join16 h' l' \<longleftrightarrow> h = h' \<and> l = l'"
  by (metis hi8_join16 lo8_join16)

lemma join16_xor: "join16 a b XOR join16 c d = join16 (a XOR c) (b XOR d)"
  by (rule bit_word_eqI) (auto simp: bit_join16 bit_simps)

lemma join16_plus: "join16 h l = push_bit 8 (ucast h) + ucast l"
  unfolding join16_def
  by (rule disjunctive_add [symmetric]) (auto simp: bit_simps dest: bit_imp_le_length)

lemma word_eqI_uint: "uint a = uint b \<Longrightarrow> a = b"
  by (metis word_of_int_uint)

lemma u8_lt_256: "unat x < 256" for x :: u8
  using unsigned_less [of x, where ?'a = nat] by simp

lemma uint_u8_lt_256: "uint x < 256" for x :: u8
  using unsigned_less [of x, where ?'a = int] by simp

lemma uint_ucast_8_16 [simp]: "uint (ucast x :: u16) = uint x" for x :: u8
  using uint_u8_lt_256 [of x] by (simp add: unsigned_ucast_eq take_bit_int_eq_self)

lemma take_bit_16_uint [simp]: "take_bit 16 (uint w) = uint w" for w :: u16
  using unsigned_less [of w, where ?'a = int] by (simp add: take_bit_int_eq_self)

lemma uint_ucast_16_32: "uint (ucast x :: u32) = uint x" for x :: u16
  using unsigned_less [of x, where ?'a = int] by (simp add: unsigned_ucast_eq take_bit_int_eq_self)

lemma ucast_16_32_inject: "(ucast a :: u32) = ucast b \<longleftrightarrow> a = b" for a b :: u16
  by (metis uint_ucast_16_32 word_eqI_uint)

lemma uint_join16: "uint (join16 h l) = 256 * uint h + uint l"
proof -
  have h: "uint h < 256" and l: "uint l < 256"
    by (rule uint_u8_lt_256)+
  have p: "uint (push_bit 8 (ucast h :: u16)) = 256 * uint h"
    using h by (simp add: push_bit_eq_mult uint_word_ariths)
  with h l show ?thesis
    by (simp add: join16_plus uint_word_ariths del: push_bit_eq_mult)
qed

lemma unat_join16: "unat (join16 h l) = 256 * unat h + unat l"
proof -
  have "int (unat (join16 h l)) = int (256 * unat h + unat l)"
    by (simp add: uint_join16)
  then show ?thesis by (simp only: of_nat_eq_iff)
qed

lemma uint_of_nat_u8: "n < 256 \<Longrightarrow> uint (word_of_nat n :: u8) = int n"
  using unat_of_nat_u8 [of n] by (metis uint_nat)

section \<open>Nibbles\<close>

lemma nibble_cases:
  assumes "n < (16 :: u8)"
  shows "n \<in> {0, 1, 2, 3, 4, 5, 6, 7, 8, 9, 10, 11, 12, 13, 14, 15}"
proof -
  have "unat n \<in> {..<16}" using assms by (simp add: word_less_nat_alt)
  also have "{..<16} = {0, 1, 2, 3, 4, 5, 6, 7, 8, 9, 10, 11, 12, 13, 14, 15 :: nat}" by (auto simp: numeral_eq_Suc less_Suc_eq)
  finally have "word_of_nat (unat n) \<in> (word_of_nat :: nat \<Rightarrow> u8) ` {0, 1, 2, 3, 4, 5, 6, 7, 8, 9, 10, 11, 12, 13, 14, 15}"
    by (rule imageI)
  then show ?thesis by simp
qed

lemma low_nibble_eq: "x AND 0x0F = take_bit 4 x" for x :: u8
  by (simp add: take_bit_eq_mask mask_eq_exp_minus_1)

lemma high_nibble_eq: "drop_bit 4 (x AND 0xF0) = drop_bit 4 x" for x :: u8
proof -
  have "(0xF0 :: u8) = push_bit 4 (mask 4)" by (simp add: mask_eq_exp_minus_1)
  then have F0: "bit (0xF0 :: u8) k \<longleftrightarrow> 4 \<le> k \<and> k < 8" for k
    by (simp only: bit_push_bit_iff bit_mask_iff possible_bit_word) auto
  have "bit x (4 + k) \<Longrightarrow> 4 + k < 8" for k by (drule bit_imp_le_length) simp
  then show ?thesis
    by (intro bit_word_eqI) (auto simp only: bit_drop_bit_eq bit_and_iff F0 comp_apply)
qed

lemma high_nibble_mask [simp]: "drop_bit 4 x AND 0x0F = drop_bit 4 x" for x :: u8
  using high_nibble_eq [of x] by simp

lemma low_nibble_less: "x AND 0x0F < 16" for x :: u8
  using take_bit_int_less_exp [of 4 "uint x"]
  by (simp add: low_nibble_eq word_less_def unsigned_take_bit_eq)

lemma high_nibble_less: "drop_bit 4 x < 16" for x :: u8
proof -
  have "uint (drop_bit 4 x) = uint x div 16"
    by (simp add: unsigned_drop_bit_eq drop_bit_eq_div [of _ "uint x"] take_bit_int_eq_self uint_u8_lt_256
        del: drop_bit_numeral_minus_bit1)
  then show ?thesis using uint_u8_lt_256 [of x] by (simp add: word_less_def)
qed

lemma nibbles_join: "push_bit 4 (drop_bit 4 x) OR (x AND 0x0F) = x" for x :: u8
  unfolding low_nibble_eq by (rule bit_word_eqI) (auto simp: bit_simps)

lemma nibble_mult_16: "n < 16 \<Longrightarrow> m < 16 \<Longrightarrow> n * 16 + m = push_bit 4 n OR m" for n m :: u8
  by (drule nibble_cases, drule nibble_cases) (elim insertE emptyE; simp)

end
