(* ===== verification/CString.thy ===== *)
theory CString
  imports Prelude
begin

text \<open>
  The part of the C library's string code the firmware calls: \<open>strtok\<close>, \<open>strcmp\<close>,
  \<open>strncpy\<close>, \<open>atoi\<close> (newlib's, which saturates at the limits of \<open>int\<close>) and the
  conversions \<open>%d\<close>, \<open>%02x\<close>, \<open>%04x\<close> of \<open>snprintf\<close>. The locale \<open>text_builder\<close> is the
  contract of code that assembles a message by repeated appending; it is interpreted
  on \<open>strcat\<close>.
\<close>

section \<open>Tokens\<close>

text \<open>
  \<open>strtok\<close> with the one-character delimiter \<open>d\<close>, resuming at offset \<open>p\<close> of the buffer:
  \<open>None\<close> when no terminator follows \<open>p\<close> (the scan leaves the array); otherwise the
  offset of the token (\<open>None\<close> for the null pointer), the offset to resume at, and the
  buffer with the delimiter after the token overwritten by zero.
\<close>

definition c_strtok :: "u8 \<Rightarrow> buf \<Rightarrow> nat \<Rightarrow> (nat option \<times> nat \<times> buf) option" where
  "c_strtok d b p =
     (if 0 \<notin> set (drop p b) then None
      else let t = p + length (takeWhile (\<lambda>x. x = d) (drop p b));
               n = length (takeWhile (\<lambda>x. x \<noteq> d \<and> x \<noteq> 0) (drop t b))
           in if b ! t = 0 then Some (None, t, b)
              else if b ! (t + n) = 0 then Some (Some t, t + n, b)
              else Some (Some t, t + n + 1, b[t + n := 0]))"

text \<open>\<open>strcmp (a, b) == 0\<close> on two buffers.\<close>

definition c_streq :: "buf \<Rightarrow> buf \<Rightarrow> bool option" where
  "c_streq a b = (if terminated a \<and> terminated b then Some (c_str a = c_str b) else None)"

section \<open>Numbers\<close>

definition is_digit :: "u8 \<Rightarrow> bool" where
  "is_digit c = (48 \<le> c \<and> c \<le> 57)"

definition is_space :: "u8 \<Rightarrow> bool" where
  "is_space c = (c = 32 \<or> (9 \<le> c \<and> c \<le> 13))"

definition digits_val :: "buf \<Rightarrow> int" where
  "digits_val ds = foldl (\<lambda>v c. 10 * v + (uint c - 48)) 0 ds"

definition int_max :: int where
  "int_max = 2147483647"

definition c_atoi :: "buf \<Rightarrow> int" where
  "c_atoi s =
     (let s1 = dropWhile is_space s;
          neg = (s1 \<noteq> [] \<and> hd s1 = 45);
          s2 = (if s1 \<noteq> [] \<and> (hd s1 = 45 \<or> hd s1 = 43) then tl s1 else s1);
          v = digits_val (takeWhile is_digit s2)
      in if neg then max (- int_max - 1) (- v) else min int_max v)"

text \<open>A character array passed as a string: without a terminator the callee reads on.\<close>

definition arr_text :: "buf \<Rightarrow> buf option" where
  "arr_text a = (if terminated a then Some (c_str a) else None)"

lemma arr_text_Some [simp]: "terminated a \<Longrightarrow> arr_text a = Some (c_str a)"
  by (simp add: arr_text_def)

fun dec_digits :: "nat \<Rightarrow> buf" where
  "dec_digits n = (if n < 10 then [of_nat (48 + n)] else dec_digits (n div 10) @ [of_nat (48 + n mod 10)])"

declare dec_digits.simps [simp del]

text \<open>The \<open>%d\<close> conversion.\<close>

definition fmt_d :: "int \<Rightarrow> buf" where
  "fmt_d v = (if v < 0 then 45 # dec_digits (nat (- v)) else dec_digits (nat v))"

definition hex_digit :: "nat \<Rightarrow> u8" where
  "hex_digit n = (if n < 10 then of_nat (48 + n) else of_nat (87 + n))"

fun hex_digits :: "nat \<Rightarrow> buf" where
  "hex_digits n = (if n < 16 then [hex_digit n] else hex_digits (n div 16) @ [hex_digit (n mod 16)])"

declare hex_digits.simps [simp del]

text \<open>The \<open>%02x\<close> conversion of an unsigned value.\<close>

definition fmt_02x :: "nat \<Rightarrow> buf" where
  "fmt_02x n = (let h = hex_digits n in replicate (2 - length h) 48 @ h)"

text \<open>\<open>snprintf (buf, sz, fmt, ..)\<close> into an array it fits: at most \<open>sz - 1\<close> bytes of the
  conversion and a terminator.\<close>

definition c_snprintf :: "buf \<Rightarrow> nat \<Rightarrow> buf \<Rightarrow> buf option" where
  "c_snprintf b sz s = (if sz = 0 then Some b else buf_write b 0 (take (sz - 1) s @ [0]))"

text \<open>\<open>strncpy (dst + i, src, n)\<close>: the text up to \<open>n\<close> bytes, padded with zeros to \<open>n\<close>.\<close>

definition c_strncpy :: "buf \<Rightarrow> nat \<Rightarrow> buf \<Rightarrow> nat \<Rightarrow> buf option" where
  "c_strncpy dst i src n =
     (let t = take n (c_str src) in buf_write dst i (t @ replicate (n - length t) 0))"

section \<open>Lemmas\<close>

lemma digits_val_Nil [simp]: "digits_val [] = 0"
  by (simp add: digits_val_def)

lemma digits_val_snoc [simp]: "digits_val (ds @ [c]) = 10 * digits_val ds + (uint c - 48)"
  by (simp add: digits_val_def)

lemma is_digit_range: "is_digit c \<Longrightarrow> 48 \<le> uint c \<and> uint c \<le> 57"
  by (simp add: is_digit_def word_le_def)

lemma digits_val_nonneg: "list_all is_digit ds \<Longrightarrow> 0 \<le> digits_val ds"
  by (induction ds rule: rev_induct) (auto dest: is_digit_range)

lemma digits_val_bound: "list_all is_digit ds \<Longrightarrow> digits_val ds < 10 ^ length ds"
  by (induction ds rule: rev_induct) (force dest: is_digit_range)+

lemma uint_of_nat_digit: "n < 10 \<Longrightarrow> uint (of_nat (48 + n) :: u8) = 48 + int n"
  using uint_of_nat_u8 [of "48 + n"] by simp

lemma dec_digits_are_digits: "list_all is_digit (dec_digits n)"
proof (induction n rule: dec_digits.induct)
  case (1 n)
  have d: "is_digit (of_nat (48 + k))" if "k < 10" for k
    using uint_of_nat_digit [OF that] that by (simp add: is_digit_def word_le_def)
  show ?case
    using 1 d [of n] d [of "n mod 10"] by (subst dec_digits.simps) auto
qed

lemma digits_val_dec_digits: "digits_val (dec_digits n) = int n"
proof (induction n rule: dec_digits.induct)
  case (1 n)
  show ?case
  proof (cases "n < 10")
    case True
    then show ?thesis
      using digits_val_snoc [of "[]" "of_nat (48 + n)"] uint_of_nat_digit [OF True]
      by (subst dec_digits.simps) simp
  next
    case False
    with 1 have "digits_val (dec_digits (n div 10)) = int (n div 10)" by simp
    moreover have "uint (of_nat (48 + n mod 10) :: u8) = 48 + int (n mod 10)"
      by (rule uint_of_nat_digit) simp
    ultimately show ?thesis
      using False by (subst dec_digits.simps) (simp add: zdiv_int zmod_int)
  qed
qed

lemma dec_digits_nonempty [simp]: "dec_digits n \<noteq> []"
  by (subst dec_digits.simps) simp

lemma atoi_digits:
  assumes "list_all is_digit ds" and "ds \<noteq> []" and "r = [] \<or> \<not> is_digit (hd r)"
  shows "c_atoi (ds @ r) = min int_max (digits_val ds)"
proof -
  have h: "is_digit (hd ds)" using assms(1,2) by (cases ds) auto
  then have "\<not> is_space (hd ds)" "hd ds \<noteq> 45" "hd ds \<noteq> 43"
    by (auto simp: is_digit_def is_space_def word_le_def)
  then have sp: "dropWhile is_space (ds @ r) = ds @ r"
    using assms(2) by (cases ds) auto
  have "takeWhile is_digit (ds @ r) = ds"
    using assms(1,3) by (cases r) (auto simp: list_all_iff)
  then show ?thesis
    using assms(2) sp \<open>hd ds \<noteq> 45\<close> \<open>hd ds \<noteq> 43\<close> by (simp add: c_atoi_def Let_def)
qed

lemma atoi_fmt_d: "0 \<le> v \<Longrightarrow> v \<le> int_max \<Longrightarrow> c_atoi (fmt_d v) = v"
  using atoi_digits [of "dec_digits (nat v)" "[]"]
  by (simp add: fmt_d_def dec_digits_are_digits digits_val_dec_digits)

lemma digit_nonzero: "list_all is_digit ds \<Longrightarrow> 0 \<notin> set ds"
  by (auto simp: list_all_iff is_digit_def word_le_def)

lemma zero_notin_fmt_d [simp]: "0 \<notin> set (fmt_d v)"
  using digit_nonzero [OF dec_digits_are_digits] by (auto simp: fmt_d_def)

lemma hex_digit_nonzero: "n < 16 \<Longrightarrow> hex_digit n \<noteq> 0"
  using uint_of_nat_u8 [of "48 + n"] uint_of_nat_u8 [of "87 + n"] by (auto simp: hex_digit_def)

lemma zero_notin_hex_digits [simp]: "0 \<notin> set (hex_digits n)"
proof (induction n rule: hex_digits.induct)
  case (1 n)
  then show ?case
    using hex_digit_nonzero [of n] hex_digit_nonzero [of "n mod 16"]
    by (subst hex_digits.simps) auto
qed

lemma zero_notin_fmt_02x [simp]: "0 \<notin> set (fmt_02x n)"
  by (simp add: fmt_02x_def Let_def)

lemma hex_digits_short: "n < 256 \<Longrightarrow> length (hex_digits n) \<le> 2"
  by (subst hex_digits.simps, subst hex_digits.simps) auto

lemma length_fmt_02x: "n < 256 \<Longrightarrow> length (fmt_02x n) = 2"
proof -
  assume "n < 256"
  then have "length (hex_digits n) \<le> 2" by (rule hex_digits_short)
  then show ?thesis by (simp add: fmt_02x_def Let_def)
qed

section \<open>Assembling a message\<close>

text \<open>
  Code that appends texts to a buffer: \<open>contents\<close> is the text so far, \<open>room\<close> the number
  of bytes that can still be appended. \<open>append_all\<close> is a whole sequence of appends.
\<close>

locale text_builder =
  fixes append :: "'b \<Rightarrow> buf \<Rightarrow> 'b option"
    and contents :: "'b \<Rightarrow> buf"
    and room :: "'b \<Rightarrow> nat"
    and ready :: "'b \<Rightarrow> bool"
  assumes append_ok: "ready b \<Longrightarrow> 0 \<notin> set t \<Longrightarrow> length t \<le> room b \<Longrightarrow>
      \<exists>b'. append b t = Some b' \<and> ready b' \<and> contents b' = contents b @ t \<and> room b' = room b - length t"
    and append_full: "ready b \<Longrightarrow> room b < length t \<Longrightarrow> append b t = None"
begin

fun append_all :: "'b \<Rightarrow> buf list \<Rightarrow> 'b option" where
  "append_all b [] = Some b"
| "append_all b (t # ts) = do { b' \<leftarrow> append b t; append_all b' ts }"

lemma append_all_append: "append_all b (ts @ us) = do { b' \<leftarrow> append_all b ts; append_all b' us }"
  by (induction b ts rule: append_all.induct) (auto split: Option.bind_splits)

lemma append_all_ok:
  assumes "ready b" and "\<forall>t \<in> set ts. 0 \<notin> set t" and "length (concat ts) \<le> room b"
  shows "\<exists>b'. append_all b ts = Some b' \<and> ready b' \<and> contents b' = contents b @ concat ts
           \<and> room b' = room b - length (concat ts)"
  using assms
proof (induction ts arbitrary: b)
  case Nil
  then show ?case by simp
next
  case (Cons t ts)
  then obtain b1 where b1: "append b t = Some b1" "ready b1" "contents b1 = contents b @ t"
      "room b1 = room b - length t"
    using append_ok [of b t] by auto
  then obtain b2 where "append_all b1 ts = Some b2" "ready b2" "contents b2 = contents b1 @ concat ts"
      "room b2 = room b1 - length (concat ts)"
    using Cons.IH [of b1] Cons.prems by fastforce
  with b1 show ?case by auto
qed

lemma append_all_full:
  assumes "ready b" and "\<forall>t \<in> set ts. 0 \<notin> set t" and "room b < length (concat ts)"
  shows "append_all b ts = None"
  using assms
proof (induction ts arbitrary: b)
  case Nil
  then show ?case by simp
next
  case (Cons t ts)
  show ?case
  proof (cases "length t \<le> room b")
    case True
    then obtain b1 where "append b t = Some b1" "ready b1" "room b1 = room b - length t"
      using append_ok [of b t] Cons.prems by auto
    then show ?thesis using Cons.IH [of b1] Cons.prems True by auto
  next
    case False
    then show ?thesis using append_full [of b t] Cons.prems by simp
  qed
qed

end

text \<open>The room of a terminated array: what fits between its text and its last byte.\<close>

definition c_room :: "buf \<Rightarrow> nat" where
  "c_room b = length b - 1 - length (c_str b)"

interpretation cat: text_builder c_strcat c_str c_room terminated
proof unfold_locales
  fix b t :: buf
  assume b: "terminated b" and t: "0 \<notin> set t" and fits: "length t \<le> c_room b"
  have lt: "length (c_str b) < length b" using b by (rule terminated_length)
  then have fit: "length (c_str b) + length t < length b" using fits by (simp add: c_room_def)
  let ?b' = "(c_str b @ t) @ 0 # drop (length (c_str b) + length t + 1) b"
  have cat: "c_strcat b t = Some ?b'"
    using c_strcat_Some [OF b fit] by simp
  have "c_str ?b' = c_str b @ t" by (rule c_str_append_zero) (simp add: t)
  moreover have "length ?b' = length b" using c_strcat_length [OF cat] .
  ultimately show "\<exists>b'. c_strcat b t = Some b' \<and> terminated b' \<and> c_str b' = c_str b @ t
      \<and> c_room b' = c_room b - length t"
    using cat by (auto simp: terminated_def c_room_def)
next
  fix b t :: buf
  assume "terminated b" and "c_room b < length t"
  moreover have "length (c_str b) < length b" using \<open>terminated b\<close> by (rule terminated_length)
  ultimately show "c_strcat b t = None"
    by (intro c_strcat_None) (auto simp: c_room_def)
qed

lemma terminated_zeros [simp]: "0 < n \<Longrightarrow> terminated (replicate n 0)"
  by (simp add: terminated_def)

lemma c_str_zeros [simp]: "c_str (replicate n 0) = []"
  by (induction n) (simp_all add: c_str_def)

lemma c_room_zeros [simp]: "c_room (replicate n 0) = n - 1"
  by (simp add: c_room_def)

end
