(* ===== verification/HexText.thy ===== *)
theory HexText
  imports CString
begin

text \<open>
  The three pairs of hexadecimal conversions of the firmware: \<open>convert_hex_Asc\<close> /
  \<open>Conver_Asc_Hex\<close> of src/mqtt.c, \<open>nwy_hex_to_string\<close> / \<open>nwy_HexStrToByte\<close> of
  src/hello_world.c, and \<open>asciiToText\<close> / \<open>textToAscii\<close> of src/nwy_utf8_gbk_ucs2.c.
  The locale \<open>nibble_code\<close> states what a digit code must satisfy and proves the round
  trip of whole byte strings once; it is interpreted on each of the three codes. The loops
  are shown to compute the code's text, within the bounds of the destination array.
\<close>

section \<open>src/mqtt.c\<close>

definition Asc_of_nibble :: "u8 \<Rightarrow> u8" where
  "Asc_of_nibble tmp = (if 0 \<le> tmp \<and> tmp \<le> 9 then tmp + 48 else tmp - 10 + 97)"

fun convert_hex_Asc_loop :: "nat \<Rightarrow> nat \<Rightarrow> buf \<Rightarrow> buf \<Rightarrow> buf option" where
  "convert_hex_Asc_loop 0 i b result = Some result"
| "convert_hex_Asc_loop (Suc n) i b result =
     do { x \<leftarrow> rd b i;
          r1 \<leftarrow> wr result (2 * i) (Asc_of_nibble (drop_bit 4 (x AND 0xF0)));
          r2 \<leftarrow> wr r1 (2 * i + 1) (Asc_of_nibble (x AND 0x0F));
          convert_hex_Asc_loop n (i + 1) b r2 }"

definition convert_hex_Asc :: "buf \<Rightarrow> nat \<Rightarrow> buf \<Rightarrow> buf option" where
  "convert_hex_Asc b len result = convert_hex_Asc_loop len 0 b result"

text \<open>One character of the second loop of \<open>Conver_Asc_Hex\<close>: \<open>tmp\<close> keeps its value when no
  branch matches.\<close>

definition nibble_of_Asc :: "u8 \<Rightarrow> u8 \<Rightarrow> u8" where
  "nibble_of_Asc tmp c =
     (if 48 \<le> c \<and> c \<le> 57 then c - 48
      else if 97 \<le> c \<and> c \<le> 102 then c - 97 + 10
      else if 65 \<le> c \<and> c \<le> 70 then c - 65 + 10
      else tmp)"

definition is_Asc_hex :: "u8 \<Rightarrow> bool" where
  "is_Asc_hex c = (48 \<le> c \<and> c \<le> 57 \<or> 97 \<le> c \<and> c \<le> 102 \<or> 65 \<le> c \<and> c \<le> 70)"

text \<open>The first loop tests \<open>*buf\<close> in every round and never advances it.\<close>

fun Conver_Asc_Hex_check :: "nat \<Rightarrow> buf \<Rightarrow> bool option" where
  "Conver_Asc_Hex_check 0 b = Some True"
| "Conver_Asc_Hex_check (Suc n) b =
     do { c \<leftarrow> rd b 0; if is_Asc_hex c then Conver_Asc_Hex_check n b else Some False }"

text \<open>The second loop, two characters a round; \<open>j\<close> counts bytes of the result.\<close>

fun Conver_Asc_Hex_loop :: "nat \<Rightarrow> nat \<Rightarrow> u8 \<Rightarrow> buf \<Rightarrow> buf \<Rightarrow> buf option" where
  "Conver_Asc_Hex_loop 0 j tmp b result = Some result"
| "Conver_Asc_Hex_loop (Suc n) j tmp b result =
     do { c0 \<leftarrow> rd b (2 * j);
          let t0 = nibble_of_Asc tmp c0;
          r1 \<leftarrow> wr result j (t0 * 16);
          c1 \<leftarrow> rd b (2 * j + 1);
          let t1 = nibble_of_Asc t0 c1;
          r2 \<leftarrow> wr r1 j (t0 * 16 + t1);
          Conver_Asc_Hex_loop n (j + 1) t1 b r2 }"

text \<open>The return value and the destination array. \<open>tmp0\<close> is the indeterminate initial
  value of \<open>tmp\<close>.\<close>

definition Conver_Asc_Hex :: "u8 \<Rightarrow> buf \<Rightarrow> buf \<Rightarrow> (u8 \<times> buf) option" where
  "Conver_Asc_Hex tmp0 b result =
     do { len \<leftarrow> c_strlen b;
          if len mod 2 \<noteq> 0 then Some (0, result)
          else do { ok \<leftarrow> Conver_Asc_Hex_check len b;
                    if \<not> ok then Some (0, result)
                    else do { r \<leftarrow> Conver_Asc_Hex_loop (len div 2) 0 tmp0 b result;
                              Some (1, r) } } }"

section \<open>src/hello_world.c\<close>

definition string_of_nibble :: "u8 \<Rightarrow> u8" where
  "string_of_nibble n = (if n + 0x30 > 0x39 then n + 0x30 + 0x07 else n + 0x30)"

text \<open>The text \<open>nwy_hex_to_string\<close> prints: \<open>data[i] >> 4\<close> and \<open>data[i] & 0x0f\<close> of \<open>len\<close> bytes.\<close>

fun nwy_hex_to_string :: "nat \<Rightarrow> buf \<Rightarrow> buf option" where
  "nwy_hex_to_string 0 d = Some []"
| "nwy_hex_to_string (Suc n) [] = None"
| "nwy_hex_to_string (Suc n) (x # d) =
     do { r \<leftarrow> nwy_hex_to_string n d;
          Some (string_of_nibble (drop_bit 4 x) # string_of_nibble (x AND 0x0F) # r) }"

definition c_toupper :: "u8 \<Rightarrow> u8" where
  "c_toupper c = (if 97 \<le> c \<and> c \<le> 122 then c - 32 else c)"

definition HexStr_nibble :: "u8 \<Rightarrow> u8" where
  "HexStr_nibble c = (let h = c_toupper c in if h > 0x39 then h - 0x37 else h - 0x30)"

text \<open>The loop over \<open>i = 0, 2, .. < sourceLen\<close>; an odd length reads one byte more.\<close>

fun nwy_HexStrToByte_loop :: "nat \<Rightarrow> nat \<Rightarrow> buf \<Rightarrow> buf \<Rightarrow> buf option" where
  "nwy_HexStrToByte_loop 0 k source dest = Some dest"
| "nwy_HexStrToByte_loop (Suc n) k source dest =
     do { h \<leftarrow> rd source (2 * k);
          l \<leftarrow> rd source (2 * k + 1);
          d \<leftarrow> wr dest k (push_bit 4 (HexStr_nibble h) OR HexStr_nibble l);
          nwy_HexStrToByte_loop n (k + 1) source d }"

definition nwy_HexStrToByte :: "buf \<Rightarrow> nat \<Rightarrow> buf \<Rightarrow> buf option" where
  "nwy_HexStrToByte source sourceLen dest = nwy_HexStrToByte_loop ((sourceLen + 1) div 2) 0 source dest"

section \<open>src/nwy_utf8_gbk_ucs2.c\<close>

definition str_table :: buf where
  "str_table = str ''0123456789ABCDEF''"

definition asciiToText :: "u8 \<Rightarrow> buf \<Rightarrow> buf option" where
  "asciiToText ascii outText =
     do { let temp1 = ascii AND 0x0F;
          let temp2 = drop_bit 4 ascii AND 0x0F;
          c0 \<leftarrow> rd str_table (unat temp2);
          o1 \<leftarrow> wr outText 0 c0;
          c1 \<leftarrow> rd str_table (unat temp1);
          wr o1 1 c1 }"

text \<open>One character of \<open>textToAscii\<close>: the last of the sixteen positions whose digit, or digit
  plus 0x20, equals the character; without a match the variable keeps its value.\<close>

definition textToAscii_nibble :: "u8 \<Rightarrow> u8 \<Rightarrow> u8" where
  "textToAscii_nibble temp0 c =
     foldl (\<lambda>t i. if str_table ! i = c \<or> str_table ! i + 0x20 = c then word_of_nat i else t)
       temp0 [0..<16]"

definition textToAscii :: "u8 \<Rightarrow> u8 \<Rightarrow> buf \<Rightarrow> u8 option" where
  "textToAscii temp1_0 temp2_0 text =
     do { c0 \<leftarrow> rd text 0;
          c1 \<leftarrow> rd text 1;
          let temp1 = push_bit 4 (textToAscii_nibble temp1_0 c0) AND 0xF0;
          Some (temp1 OR textToAscii_nibble temp2_0 c1) }"

section \<open>The contract of a digit code\<close>

locale nibble_code =
  fixes enc :: "u8 \<Rightarrow> u8" and dec :: "u8 \<Rightarrow> u8"
  assumes dec_enc: "n < 16 \<Longrightarrow> dec (enc n) = n"
    and enc_nonzero: "n < 16 \<Longrightarrow> enc n \<noteq> 0"
begin

definition text_of :: "buf \<Rightarrow> buf" where
  "text_of bs = concat (map (\<lambda>x. [enc (drop_bit 4 x), enc (x AND 0x0F)]) bs)"

fun bytes_of :: "buf \<Rightarrow> buf" where
  "bytes_of (a # b # r) = (push_bit 4 (dec a) OR dec b) # bytes_of r"
| "bytes_of _ = []"

lemma text_of_Nil [simp]: "text_of [] = []"
  by (simp add: text_of_def)

lemma text_of_Cons [simp]: "text_of (x # bs) = enc (drop_bit 4 x) # enc (x AND 0x0F) # text_of bs"
  by (simp add: text_of_def)

lemma text_of_append: "text_of (a @ b) = text_of a @ text_of b"
  by (simp add: text_of_def)

lemma length_text_of [simp]: "length (text_of bs) = 2 * length bs"
  by (induction bs) simp_all

lemma zero_notin_text_of [simp]: "0 \<notin> set (text_of bs)"
  using enc_nonzero [OF high_nibble_less] enc_nonzero [OF low_nibble_less]
  by (induction bs) auto

lemma text_of_nth:
  "i < length bs \<Longrightarrow> text_of bs ! (2 * i) = enc (drop_bit 4 (bs ! i))
     \<and> text_of bs ! (2 * i + 1) = enc (bs ! i AND 0x0F)"
proof (induction bs arbitrary: i)
  case Nil
  then show ?case by simp
next
  case (Cons x bs)
  then show ?case by (cases i) auto
qed

theorem bytes_of_text_of: "bytes_of (text_of bs) = bs"
  by (induction bs)
    (simp_all add: dec_enc [OF high_nibble_less] dec_enc [OF low_nibble_less] nibbles_join)

lemma text_of_inject: "text_of a = text_of b \<longleftrightarrow> a = b"
  by (metis bytes_of_text_of)

end

text \<open>The code of src/mqtt.c writes lower case and reads both cases.\<close>

interpretation asc: nibble_code Asc_of_nibble "nibble_of_Asc tmp"
  by unfold_locales
    (drule nibble_cases, elim insertE emptyE; simp add: Asc_of_nibble_def nibble_of_Asc_def)+

interpretation hexstr: nibble_code string_of_nibble HexStr_nibble
  by unfold_locales
    (drule nibble_cases, elim insertE emptyE; simp add: string_of_nibble_def HexStr_nibble_def c_toupper_def)+

lemma str_table_eq:
  "str_table = [48, 49, 50, 51, 52, 53, 54, 55, 56, 57, 65, 66, 67, 68, 69, 70]"
  by (simp add: str_table_def str_def)

lemma upt_16: "[0..<16] = [0, 1, 2, 3, 4, 5, 6, 7, 8, 9, 10, 11, 12, 13, 14, 15]"
  by (simp add: upt_rec)

lemma textToAscii_nibble_eq:
  "textToAscii_nibble t c =
     (if c = 70 \<or> c = 102 then 15 else if c = 69 \<or> c = 101 then 14 else if c = 68 \<or> c = 100 then 13
      else if c = 67 \<or> c = 99 then 12 else if c = 66 \<or> c = 98 then 11 else if c = 65 \<or> c = 97 then 10
      else if c = 57 \<or> c = 89 then 9 else if c = 56 \<or> c = 88 then 8 else if c = 55 \<or> c = 87 then 7
      else if c = 54 \<or> c = 86 then 6 else if c = 53 \<or> c = 85 then 5 else if c = 52 \<or> c = 84 then 4
      else if c = 51 \<or> c = 83 then 3 else if c = 50 \<or> c = 82 then 2 else if c = 49 \<or> c = 81 then 1
      else if c = 48 \<or> c = 80 then 0 else t)"
  by (simp add: textToAscii_nibble_def upt_16 str_table_eq eq_commute [of _ c])

interpretation ascii_text: nibble_code "\<lambda>n. str_table ! unat n" "textToAscii_nibble t"
  by unfold_locales
    (drule nibble_cases, elim insertE emptyE; simp add: str_table_eq textToAscii_nibble_eq)+

section \<open>The loops compute the code's text\<close>

lemma list_update_append2: "length a = i \<Longrightarrow> (a @ x # y)[i := v] = a @ v # y"
  by (simp add: list_update_append)

lemma drop_split2:
  assumes "i + 2 \<le> length r"
  shows "drop i r = r ! i # r ! (i + 1) # drop (i + 2) r"
proof -
  have "drop i r = r ! i # drop (i + 1) r" using assms by (simp add: Cons_nth_drop_Suc [symmetric])
  moreover have "drop (i + 1) r = r ! (i + 1) # drop (i + 2) r"
    using assms Cons_nth_drop_Suc [of "i + 1" r] by simp
  ultimately show ?thesis by simp
qed

lemma convert_hex_Asc_loop_eq:
  assumes "i \<le> length b" and "2 * i \<le> length r"
  shows "convert_hex_Asc_loop n i b (asc.text_of (take i b) @ drop (2 * i) r) =
    (if i + n \<le> length b \<and> 2 * (i + n) \<le> length r
     then Some (asc.text_of (take (i + n) b) @ drop (2 * (i + n)) r) else None)"
  using assms
proof (induction n arbitrary: i)
  case 0
  then show ?case by simp
next
  case (Suc n)
  let ?T = "asc.text_of (take i b)"
  show ?case
  proof (cases "i < length b \<and> 2 * i + 2 \<le> length r")
    case True
    have len: "length ?T = 2 * i" using True by simp
    have d: "drop (2 * i) r = r ! (2 * i) # r ! (2 * i + 1) # drop (2 * i + 2) r"
      using True by (intro drop_split2) simp
    have T: "asc.text_of (take (Suc i) b) =
        ?T @ [Asc_of_nibble (drop_bit 4 (b ! i)), Asc_of_nibble (b ! i AND 0x0F)]"
      using True by (simp add: take_Suc_conv_app_nth asc.text_of_append)
    have "convert_hex_Asc_loop (Suc n) i b (?T @ drop (2 * i) r) =
        convert_hex_Asc_loop n (i + 1) b (asc.text_of (take (i + 1) b) @ drop (2 * (i + 1)) r)"
      using True len by (auto simp: d T wr_def list_update_append2 list_update_append nth_append)
    also have "\<dots> = (if i + 1 + n \<le> length b \<and> 2 * (i + 1 + n) \<le> length r
        then Some (asc.text_of (take (i + 1 + n) b) @ drop (2 * (i + 1 + n)) r) else None)"
      using True by (intro Suc.IH) auto
    finally show ?thesis by simp
  next
    case False
    then show ?thesis
    proof (cases "i < length b")
      case True
      with False Suc.prems have "length r < 2 * i + 2" by auto
      then show ?thesis using True Suc.prems
        by (auto simp: wr_def Option.bind_eq_None_conv)
    next
      case False
      then show ?thesis by (simp add: rd_def)
    qed
  qed
qed

lemma convert_hex_Asc_eq:
  "convert_hex_Asc b len r =
    (if len \<le> length b \<and> 2 * len \<le> length r
     then Some (asc.text_of (take len b) @ drop (2 * len) r) else None)"
  using convert_hex_Asc_loop_eq [of 0 b r len] by (simp add: convert_hex_Asc_def)

lemma Conver_Asc_Hex_check_eq:
  "b \<noteq> [] \<Longrightarrow> Conver_Asc_Hex_check n b = Some (n = 0 \<or> is_Asc_hex (b ! 0))"
  by (induction n) auto

lemma Conver_Asc_Hex_loop_text:
  assumes "j \<le> length bs" and "length bs \<le> length out"
  shows "Conver_Asc_Hex_loop (length bs - j) j t (asc.text_of bs @ r) (take j bs @ drop j out)
    = Some (bs @ drop (length bs) out)"
  using assms
proof (induction "length bs - j" arbitrary: j t)
  case 0
  then show ?case by simp
next
  case (Suc n)
  have j: "j < length bs" and "length bs - j = Suc n" using Suc.hyps(2) by auto
  then have n: "length bs - j = Suc (length bs - (j + 1))" by simp
  let ?h = "Asc_of_nibble (drop_bit 4 (bs ! j))" and ?l = "Asc_of_nibble (bs ! j AND 0x0F)"
  have c: "(asc.text_of bs @ r) ! (2 * j) = ?h" "(asc.text_of bs @ r) ! (2 * j + 1) = ?l"
    using asc.text_of_nth [OF j] j by (simp_all add: nth_append)
  have d: "drop j out = out ! j # drop (j + 1) out"
    using j Suc.prems by (simp add: Cons_nth_drop_Suc [symmetric])
  have v: "drop_bit 4 (bs ! j) * 16 + (bs ! j AND 0x0F) = bs ! j"
    by (simp add: nibble_mult_16 [OF high_nibble_less low_nibble_less] nibbles_join)
  have "Conver_Asc_Hex_loop (length bs - j) j t (asc.text_of bs @ r) (take j bs @ drop j out) =
      Conver_Asc_Hex_loop (length bs - (j + 1)) (j + 1) (bs ! j AND 0x0F) (asc.text_of bs @ r)
        (take (j + 1) bs @ drop (j + 1) out)"
    using j c Suc.prems unfolding n Conver_Asc_Hex_loop.simps
    by (simp add: asc.dec_enc [OF high_nibble_less] asc.dec_enc [OF low_nibble_less] d v
        list_update_append2 take_Suc_conv_app_nth)
  also have "\<dots> = Some (bs @ drop (length bs) out)"
    using Suc.hyps Suc.prems j by (intro Suc.hyps(1)) auto
  finally show ?case .
qed

lemma is_Asc_hex_enc: "n < 16 \<Longrightarrow> is_Asc_hex (Asc_of_nibble n)"
  by (drule nibble_cases, elim insertE emptyE; simp add: Asc_of_nibble_def is_Asc_hex_def)

lemma Conver_Asc_Hex_text:
  assumes "length bs \<le> length out"
  shows "Conver_Asc_Hex t (asc.text_of bs @ 0 # r) out = Some (1, bs @ drop (length bs) out)"
proof -
  have "c_strlen (asc.text_of bs @ 0 # r) = Some (2 * length bs)"
    using c_str_append_zero [of "asc.text_of bs" r] by (simp add: c_strlen_eq)
  moreover have "Conver_Asc_Hex_check (2 * length bs) (asc.text_of bs @ 0 # r) = Some True"
    by (cases bs) (simp_all add: Conver_Asc_Hex_check_eq is_Asc_hex_enc [OF high_nibble_less])
  ultimately show ?thesis
    using Conver_Asc_Hex_loop_text [of 0 bs out t "0 # r"] assms by (simp add: Conver_Asc_Hex_def)
qed


lemma nwy_hex_to_string_eq:
  "nwy_hex_to_string n d = (if n \<le> length d then Some (hexstr.text_of (take n d)) else None)"
  by (induction n d rule: nwy_hex_to_string.induct) simp_all

lemma nwy_HexStrToByte_loop_text:
  assumes "k \<le> length bs" and "length bs \<le> length out"
  shows "nwy_HexStrToByte_loop (length bs - k) k (hexstr.text_of bs @ r) (take k bs @ drop k out)
    = Some (bs @ drop (length bs) out)"
  using assms
proof (induction "length bs - k" arbitrary: k)
  case 0
  then show ?case by simp
next
  case (Suc n)
  have k: "k < length bs" and "length bs - k = Suc n" using Suc.hyps(2) by auto
  then have n: "length bs - k = Suc (length bs - (k + 1))" by simp
  have c: "(hexstr.text_of bs @ r) ! (2 * k) = string_of_nibble (drop_bit 4 (bs ! k))"
    "(hexstr.text_of bs @ r) ! (2 * k + 1) = string_of_nibble (bs ! k AND 0x0F)"
    using hexstr.text_of_nth [OF k] k by (simp_all add: nth_append)
  have d: "drop k out = out ! k # drop (k + 1) out"
    using k Suc.prems by (simp add: Cons_nth_drop_Suc [symmetric])
  have "nwy_HexStrToByte_loop (length bs - k) k (hexstr.text_of bs @ r) (take k bs @ drop k out) =
      nwy_HexStrToByte_loop (length bs - (k + 1)) (k + 1) (hexstr.text_of bs @ r)
        (take (k + 1) bs @ drop (k + 1) out)"
    using k c Suc.prems unfolding n nwy_HexStrToByte_loop.simps
    by (simp add: hexstr.dec_enc [OF high_nibble_less] hexstr.dec_enc [OF low_nibble_less] nibbles_join d
        list_update_append2 take_Suc_conv_app_nth)
  also have "\<dots> = Some (bs @ drop (length bs) out)"
    using Suc.hyps Suc.prems k by (intro Suc.hyps(1)) auto
  finally show ?case .
qed

lemma textToAscii_asciiToText_bytes:
  assumes "2 \<le> length out"
  shows "asciiToText x out = Some (ascii_text.text_of [x] @ drop 2 out)"
proof -
  have "unat (x AND 0x0F) < 16" "unat (drop_bit 4 x) < 16"
    using low_nibble_less [of x] high_nibble_less [of x] by (simp_all add: word_less_nat_alt)
  moreover obtain a b r where "out = a # b # r"
    using assms by (metis One_nat_def Suc_1 Suc_le_length_iff)
  moreover have "length str_table = 16" by (simp add: str_table_def)
  ultimately show ?thesis
    by (simp add: asciiToText_def rd_def)
qed

section \<open>Properties\<close>

text \<open>C38: The hexadecimal round trip of the MQTT transport. Whatever bytes are sent, the text that
  \<open>convert_hex_Asc\<close> writes (followed by the terminator) is turned back by \<open>Conver_Asc_Hex\<close> into exactly
  those bytes, with return value 1, and both stay inside arrays of the stated sizes.\<close>

theorem Conver_Asc_Hex_convert_hex_Asc:
  assumes "2 * length bs \<le> length txt" and "length bs \<le> length out"
  shows "\<exists>t. convert_hex_Asc bs (length bs) txt = Some t \<and>
    Conver_Asc_Hex tmp0 (take (2 * length bs) t @ [0]) out = Some (1, bs @ drop (length bs) out)"
  using Conver_Asc_Hex_text [OF assms(2), of tmp0 "[]"] assms(1) by (simp add: convert_hex_Asc_eq)

theorem Conver_Asc_Hex_convert_hex_Asc_witness:
  "\<exists>t. convert_hex_Asc [0xA5, 0x01] 2 (replicate 8 0) = Some t \<and>
    Conver_Asc_Hex 0 (take 4 t @ [0]) (replicate 4 0) = Some (1, [0xA5, 0x01, 0, 0])"
  using Conver_Asc_Hex_convert_hex_Asc [of "[0xA5, 0x01]" "replicate 8 0" "replicate 4 0" 0]
  by (simp add: numeral_eq_Suc)

text \<open>The check of \<open>Conver_Asc_Hex\<close> looks at the first character only: a text of even length is
  accepted as soon as its first character is a hexadecimal digit, whatever follows, and is refused
  when it is not.\<close>

theorem Conver_Asc_Hex_checks_first_only:
  assumes "even (length s)" and "s \<noteq> []" and "0 \<notin> set s"
    and "length s div 2 \<le> length out"
  shows "\<exists>r. Conver_Asc_Hex tmp0 (s @ [0]) out = Some (if is_Asc_hex (hd s) then 1 else 0, r)"
proof -
  have loop: "\<exists>r'. Conver_Asc_Hex_loop n j t (s @ [0]) r = Some r'"
    if "2 * (j + n) \<le> length s" "j + n \<le> length r" for n j t r
    using that
  proof (induction n arbitrary: j t r)
    case (Suc n)
    then show ?case by (simp add: rd_def wr_def Let_def)
  qed simp
  have "c_strlen (s @ [0]) = Some (length s)"
    using c_str_append_zero [OF assms(3)] by (simp add: c_strlen_eq)
  moreover have "(s @ [0]) ! 0 = hd s" using assms(2) by (cases s) auto
  moreover have "\<exists>r. Conver_Asc_Hex_loop (length s div 2) 0 tmp0 (s @ [0]) out = Some r"
    using assms(1,4) by (intro loop) auto
  ultimately show ?thesis
    using assms(1,2) by (auto simp: Conver_Asc_Hex_def Conver_Asc_Hex_check_eq)
qed

theorem Conver_Asc_Hex_checks_first_only_witness:
  "\<exists>r. Conver_Asc_Hex 0 ([97, 122, 33, 33] @ [0]) (replicate 4 0) = Some (1, r)"
  using Conver_Asc_Hex_checks_first_only [of "[97, 122, 33, 33]" "replicate 4 0" 0] by (simp add: is_Asc_hex_def)

text \<open>\<open>nwy_HexStrToByte\<close> decodes the text that \<open>nwy_hex_to_string\<close> prints: for every byte string the
  printed digits give back the same bytes and nothing beyond them is written.\<close>

theorem nwy_HexStrToByte_hex_to_string:
  assumes "length bs \<le> length out"
  shows "\<exists>t. nwy_hex_to_string (length bs) bs = Some t \<and>
    nwy_HexStrToByte t (length t) out = Some (bs @ drop (length bs) out)"
  using nwy_HexStrToByte_loop_text [of 0 bs out "[]"] assms
  by (simp add: nwy_hex_to_string_eq nwy_HexStrToByte_def)

theorem nwy_HexStrToByte_hex_to_string_witness:
  "\<exists>t. nwy_hex_to_string 2 [0xBE, 0x07] = Some t \<and> nwy_HexStrToByte t (length t) [0, 0, 9] = Some [0xBE, 0x07, 9]"
  using nwy_HexStrToByte_hex_to_string [of "[0xBE, 0x07]" "[0, 0, 9]"] by (simp add: numeral_eq_Suc)

text \<open>\<open>textToAscii\<close> inverts \<open>asciiToText\<close> on every byte, whatever the indeterminate initial values of
  its two accumulators.\<close>

theorem textToAscii_asciiToText:
  assumes "2 \<le> length out"
  shows "\<exists>t. asciiToText x out = Some t \<and> textToAscii t1 t2 t = Some x"
proof -
  let ?h = "str_table ! unat (drop_bit 4 x)" and ?l = "str_table ! unat (x AND 0x0F)"
  have "textToAscii t1 t2 (?h # ?l # drop 2 out) = Some (push_bit 4 (drop_bit 4 x) AND 0xF0 OR (x AND 0x0F))"
    by (simp add: textToAscii_def ascii_text.dec_enc [OF high_nibble_less] ascii_text.dec_enc [OF low_nibble_less])
  moreover have "push_bit 4 (drop_bit 4 x) AND 0xF0 = push_bit 4 (drop_bit 4 x)"
    using nibble_cases [OF high_nibble_less [of x]] by (elim insertE emptyE; simp)
  ultimately show ?thesis
    using textToAscii_asciiToText_bytes [OF assms, of x] nibbles_join [of x] by simp
qed

theorem textToAscii_asciiToText_witness:
  "\<exists>t. asciiToText 0x7E [0, 0, 0] = Some t \<and> textToAscii 5 9 t = Some 0x7E"
  by (rule textToAscii_asciiToText) simp

end
