(* ===== verification/Crc16.thy ===== *)
theory Crc16
  imports Prelude
begin

text \<open>
  The frame checksum of the RS485 and MQTT protocols: \<open>N_CRC16\<close> of src/call.c with its two
  256-entry tables, and \<open>conver_Crc\<close> of src/parse.c that stores a checksum in a frame.
  The reference is the bit-serial CRC-16 with reflected polynomial 0xA001 and initial
  value 0xFFFF. Shown: the table routine computes it on every message, it reads exactly
  its \<open>len\<close> bytes, and two messages that differ only inside one pair of adjacent bytes
  never have the same checksum. The locale \<open>checksummed_frames\<close> is what the frame
  senders and receivers rely on; it is interpreted on \<open>N_CRC16\<close>.
\<close>

section \<open>The code\<close>

definition auchCRCHi :: "int list" where
  "auchCRCHi = [
     0x00, 0xC1, 0x81, 0x40, 0x01, 0xC0, 0x80, 0x41, 0x01, 0xC0, 0x80, 0x41, 0x00, 0xC1, 0x81,
     0x40, 0x01, 0xC0, 0x80, 0x41, 0x00, 0xC1, 0x81, 0x40, 0x00, 0xC1, 0x81, 0x40, 0x01, 0xC0,
     0x80, 0x41, 0x01, 0xC0, 0x80, 0x41, 0x00, 0xC1, 0x81, 0x40, 0x00, 0xC1, 0x81, 0x40, 0x01,
     0xC0, 0x80, 0x41, 0x00, 0xC1, 0x81, 0x40, 0x01, 0xC0, 0x80, 0x41, 0x01, 0xC0, 0x80, 0x41,
     0x00, 0xC1, 0x81, 0x40, 0x01, 0xC0, 0x80, 0x41, 0x00, 0xC1, 0x81, 0x40, 0x00, 0xC1, 0x81,
     0x40, 0x01, 0xC0, 0x80, 0x41, 0x00, 0xC1, 0x81, 0x40, 0x01, 0xC0, 0x80, 0x41, 0x01, 0xC0,
     0x80, 0x41, 0x00, 0xC1, 0x81, 0x40, 0x00, 0xC1, 0x81, 0x40, 0x01, 0xC0, 0x80, 0x41, 0x01,
     0xC0, 0x80, 0x41, 0x00, 0xC1, 0x81, 0x40, 0x01, 0xC0, 0x80, 0x41, 0x00, 0xC1, 0x81, 0x40,
     0x00, 0xC1, 0x81, 0x40, 0x01, 0xC0, 0x80, 0x41, 0x01, 0xC0, 0x80, 0x41, 0x00, 0xC1, 0x81,
     0x40, 0x00, 0xC1, 0x81, 0x40, 0x01, 0xC0, 0x80, 0x41, 0x00, 0xC1, 0x81, 0x40, 0x01, 0xC0,
     0x80, 0x41, 0x01, 0xC0, 0x80, 0x41, 0x00, 0xC1, 0x81, 0x40, 0x00, 0xC1, 0x81, 0x40, 0x01,
     0xC0, 0x80, 0x41, 0x01, 0xC0, 0x80, 0x41, 0x00, 0xC1, 0x81, 0x40, 0x01, 0xC0, 0x80, 0x41,
     0x00, 0xC1, 0x81, 0x40, 0x00, 0xC1, 0x81, 0x40, 0x01, 0xC0, 0x80, 0x41, 0x00, 0xC1, 0x81,
     0x40, 0x01, 0xC0, 0x80, 0x41, 0x01, 0xC0, 0x80, 0x41, 0x00, 0xC1, 0x81, 0x40, 0x01, 0xC0,
     0x80, 0x41, 0x00, 0xC1, 0x81, 0x40, 0x00, 0xC1, 0x81, 0x40, 0x01, 0xC0, 0x80, 0x41, 0x01,
     0xC0, 0x80, 0x41, 0x00, 0xC1, 0x81, 0x40, 0x00, 0xC1, 0x81, 0x40, 0x01, 0xC0, 0x80, 0x41,
     0x00, 0xC1, 0x81, 0x40, 0x01, 0xC0, 0x80, 0x41, 0x01, 0xC0, 0x80, 0x41, 0x00, 0xC1, 0x81,
     0x40]"

definition auchCRCLo :: "int list" where
  "auchCRCLo = [
     0x00, 0xC0, 0xC1, 0x01, 0xC3, 0x03, 0x02, 0xC2, 0xC6, 0x06, 0x07, 0xC7, 0x05, 0xC5, 0xC4,
     0x04, 0xCC, 0x0C, 0x0D, 0xCD, 0x0F, 0xCF, 0xCE, 0x0E, 0x0A, 0xCA, 0xCB, 0x0B, 0xC9, 0x09,
     0x08, 0xC8, 0xD8, 0x18, 0x19, 0xD9, 0x1B, 0xDB, 0xDA, 0x1A, 0x1E, 0xDE, 0xDF, 0x1F, 0xDD,
     0x1D, 0x1C, 0xDC, 0x14, 0xD4, 0xD5, 0x15, 0xD7, 0x17, 0x16, 0xD6, 0xD2, 0x12, 0x13, 0xD3,
     0x11, 0xD1, 0xD0, 0x10, 0xF0, 0x30, 0x31, 0xF1, 0x33, 0xF3, 0xF2, 0x32, 0x36, 0xF6, 0xF7,
     0x37, 0xF5, 0x35, 0x34, 0xF4, 0x3C, 0xFC, 0xFD, 0x3D, 0xFF, 0x3F, 0x3E, 0xFE, 0xFA, 0x3A,
     0x3B, 0xFB, 0x39, 0xF9, 0xF8, 0x38, 0x28, 0xE8, 0xE9, 0x29, 0xEB, 0x2B, 0x2A, 0xEA, 0xEE,
     0x2E, 0x2F, 0xEF, 0x2D, 0xED, 0xEC, 0x2C, 0xE4, 0x24, 0x25, 0xE5, 0x27, 0xE7, 0xE6, 0x26,
     0x22, 0xE2, 0xE3, 0x23, 0xE1, 0x21, 0x20, 0xE0, 0xA0, 0x60, 0x61, 0xA1, 0x63, 0xA3, 0xA2,
     0x62, 0x66, 0xA6, 0xA7, 0x67, 0xA5, 0x65, 0x64, 0xA4, 0x6C, 0xAC, 0xAD, 0x6D, 0xAF, 0x6F,
     0x6E, 0xAE, 0xAA, 0x6A, 0x6B, 0xAB, 0x69, 0xA9, 0xA8, 0x68, 0x78, 0xB8, 0xB9, 0x79, 0xBB,
     0x7B, 0x7A, 0xBA, 0xBE, 0x7E, 0x7F, 0xBF, 0x7D, 0xBD, 0xBC, 0x7C, 0xB4, 0x74, 0x75, 0xB5,
     0x77, 0xB7, 0xB6, 0x76, 0x72, 0xB2, 0xB3, 0x73, 0xB1, 0x71, 0x70, 0xB0, 0x50, 0x90, 0x91,
     0x51, 0x93, 0x53, 0x52, 0x92, 0x96, 0x56, 0x57, 0x97, 0x55, 0x95, 0x94, 0x54, 0x9C, 0x5C,
     0x5D, 0x9D, 0x5F, 0x9F, 0x9E, 0x5E, 0x5A, 0x9A, 0x9B, 0x5B, 0x99, 0x59, 0x58, 0x98, 0x88,
     0x48, 0x49, 0x89, 0x4B, 0x8B, 0x8A, 0x4A, 0x4E, 0x8E, 0x8F, 0x4F, 0x8D, 0x4D, 0x4C, 0x8C,
     0x44, 0x84, 0x85, 0x45, 0x87, 0x47, 0x46, 0x86, 0x82, 0x42, 0x43, 0x83, 0x41, 0x81, 0x80,
     0x40]"

text \<open>The body of \<open>while (len--)\<close>; the list is what \<open>updata\<close> points to.\<close>

fun N_CRC16_loop :: "nat \<Rightarrow> buf \<Rightarrow> u8 \<Rightarrow> u8 \<Rightarrow> (u8 \<times> u8) option" where
  "N_CRC16_loop 0 updata uchCRCHi uchCRCLo = Some (uchCRCHi, uchCRCLo)"
| "N_CRC16_loop (Suc len) [] uchCRCHi uchCRCLo = None"
| "N_CRC16_loop (Suc len) (x # updata) uchCRCHi uchCRCLo =
     (let uindex = unat (uchCRCHi XOR x) in
      N_CRC16_loop len updata (uchCRCLo XOR word_of_int (auchCRCHi ! uindex))
        (word_of_int (auchCRCLo ! uindex)))"

definition N_CRC16 :: "buf \<Rightarrow> u32 \<Rightarrow> u32 option" where
  "N_CRC16 updata len =
     do { (uchCRCHi, uchCRCLo) \<leftarrow> N_CRC16_loop (unat len) updata 0xFF 0xFF;
          Some (push_bit 8 (ucast uchCRCLo) OR ucast uchCRCHi) }"

text \<open>\<open>conver_Crc (crc, buf)\<close>: the two bytes it stores, high byte first.\<close>

definition conver_Crc :: "u16 \<Rightarrow> buf \<Rightarrow> nat \<Rightarrow> buf option" where
  "conver_Crc crc b i = do { b1 \<leftarrow> wr b i (hi8 crc); wr b1 (i + 1) (lo8 crc) }"

section \<open>The reference\<close>

definition crc_bit :: "u16 \<Rightarrow> u16" where
  "crc_bit x = drop_bit 1 x XOR (if bit x 0 then 0xA001 else 0)"

definition crc_byte :: "u16 \<Rightarrow> u8 \<Rightarrow> u16" where
  "crc_byte reg x = (crc_bit ^^ 8) (reg XOR ucast x)"

definition crc16_modbus :: "buf \<Rightarrow> u16" where
  "crc16_modbus m = foldl crc_byte 0xFFFF m"

section \<open>Tables\<close>

lemma length_auchCRCHi [simp]: "length auchCRCHi = 256"
  by (simp add: auchCRCHi_def)

lemma length_auchCRCLo [simp]: "length auchCRCLo = 256"
  by (simp add: auchCRCLo_def)

text \<open>The reference step on integers, where the tables can be compared by evaluation.\<close>

definition crc_bit_int :: "int \<Rightarrow> int" where
  "crc_bit_int x = (if bit x 0 then drop_bit 1 x XOR 0xA001 else drop_bit 1 x)"

lemma crc_tables_checked:
  "map2 (\<lambda>l h. 256 * l + h) auchCRCLo auchCRCHi = map (crc_bit_int ^^ 8) [0..255]"
  by code_simp

lemma auchCRC_range: "list_all (\<lambda>x. 0 \<le> x \<and> x < 256) auchCRCLo \<and> list_all (\<lambda>x. 0 \<le> x \<and> x < 256) auchCRCHi"
  by code_simp

lemma auchCRCLo_nonzero: "list_all (\<lambda>x. x \<noteq> 0) (tl auchCRCLo)"
  by code_simp

section \<open>The reference step is linear and injective\<close>

lemma crc_bit_xor: "crc_bit (x XOR y) = crc_bit x XOR crc_bit y"
  by (rule bit_word_eqI) (auto simp: crc_bit_def bit_simps)

lemma crc_bits_xor: "(crc_bit ^^ n) (x XOR y) = (crc_bit ^^ n) x XOR (crc_bit ^^ n) y"
  by (induction n) (simp_all add: crc_bit_xor)

lemma crc_bits_shift: "(\<And>k. k < n \<Longrightarrow> \<not> bit y k) \<Longrightarrow> (crc_bit ^^ n) y = drop_bit n y"
proof (induction n arbitrary: y)
  case 0
  then show ?case by simp
next
  case (Suc n)
  have "crc_bit y = drop_bit 1 y"
    using Suc.prems [of 0] by (simp add: crc_bit_def)
  moreover have "(crc_bit ^^ n) (drop_bit 1 y) = drop_bit n (drop_bit 1 y)"
    using Suc.prems by (intro Suc.IH) (simp add: bit_simps)
  ultimately show ?case
    by (simp add: funpow_swap1)
qed

lemma crc_bits_0 [simp]: "(crc_bit ^^ n) 0 = 0"
  by (induction n) (simp_all add: crc_bit_def)

lemma crc_bit_eq_0D: "crc_bit z = 0 \<Longrightarrow> z = 0"
proof -
  assume z: "crc_bit z = 0"
  have top: "\<not> bit (drop_bit 1 z) 15" by (auto simp: bit_simps dest: bit_imp_le_length)
  have even: "\<not> bit z 0"
  proof
    assume "bit z 0"
    with z have "bit (drop_bit 1 z XOR 0xA001 :: u16) 15 = bit (0 :: u16) 15"
      by (simp only: crc_bit_def if_True)
    with top show False by (simp add: bit_xor_iff)
  qed
  with z have "drop_bit 1 z = 0" by (simp add: crc_bit_def)
  then have "bit (drop_bit 1 z) k = bit (0 :: u16) k" for k by simp
  then have "\<not> bit z (Suc k)" for k by (simp add: bit_drop_bit_eq)
  with even have "\<not> bit z k" for k by (cases k) auto
  then show "z = 0" by (auto intro: bit_word_eqI)
qed

lemma crc_bits_eq_0D: "(crc_bit ^^ n) z = 0 \<Longrightarrow> z = 0"
  by (induction n) (auto dest: crc_bit_eq_0D)

lemma crc_byte_xor: "crc_byte r x XOR crc_byte r' x' = (crc_bit ^^ 8) ((r XOR r') XOR ucast (x XOR x'))"
proof -
  have "(r XOR ucast x) XOR (r' XOR ucast x') = (r XOR r') XOR ucast (x XOR x')"
    by (rule bit_word_eqI) (auto simp: bit_simps)
  then show ?thesis by (simp add: crc_byte_def flip: crc_bits_xor)
qed

lemma crc_byte_inject: "crc_byte r x = crc_byte r' x \<Longrightarrow> r = r'"
proof -
  assume "crc_byte r x = crc_byte r' x"
  then have "(crc_bit ^^ 8) (r XOR r') = 0"
    using crc_byte_xor [of r x r' x] by simp
  then have "r XOR r' = 0" by (rule crc_bits_eq_0D)
  then show "r = r'" by (simp add: xor_zero_iff)
qed

lemma foldl_crc_byte_inject: "foldl crc_byte r m = foldl crc_byte r' m \<Longrightarrow> r = r'"
  by (induction m arbitrary: r r') (auto dest: crc_byte_inject)

section \<open>The table routine computes the reference\<close>

lemma uint_crc_bit: "uint (crc_bit w) = crc_bit_int (uint w)"
  by (simp add: crc_bit_def crc_bit_int_def unsigned_xor_eq unsigned_drop_bit_eq bit_unsigned_iff)

lemma uint_crc_bits: "uint ((crc_bit ^^ n) w) = (crc_bit_int ^^ n) (uint w)"
  by (induction n) (simp_all add: uint_crc_bit)

lemma auchCRC_nth_range:
  assumes "i < 256"
  shows "0 \<le> auchCRCLo ! i" "auchCRCLo ! i < 256" "0 \<le> auchCRCHi ! i" "auchCRCHi ! i < 256"
  using assms auchCRC_range by (auto simp: list_all_length)

lemma crc_table_nth:
  "join16 (word_of_int (auchCRCLo ! unat x)) (word_of_int (auchCRCHi ! unat x)) = (crc_bit ^^ 8) (ucast x)"
  for x :: u8
proof (rule word_eqI_uint)
  have i: "unat x < 256" by (rule u8_lt_256)
  have "map2 (\<lambda>l h. 256 * l + h) auchCRCLo auchCRCHi ! unat x = map (crc_bit_int ^^ 8) [0..255] ! unat x"
    by (simp only: crc_tables_checked)
  moreover have "[0..255] ! unat x = uint x"
    using uint_u8_lt_256 [of x] nth_upto [of 0 "unat x" 255] by simp
  ultimately have "256 * (auchCRCLo ! unat x) + auchCRCHi ! unat x = (crc_bit_int ^^ 8) (uint x)"
    using i by simp
  with auchCRC_nth_range [OF i]
  show "uint (join16 (word_of_int (auchCRCLo ! unat x)) (word_of_int (auchCRCHi ! unat x)) :: u16)
      = uint ((crc_bit ^^ 8) (ucast x))"
    by (simp add: uint_join16 uint_crc_bits unsigned_ucast_eq take_bit_int_eq_self uint_word_of_int)
qed

lemma crc8_join16: "(crc_bit ^^ 8) (join16 h l) = (crc_bit ^^ 8) (ucast l) XOR ucast h"
proof -
  have "join16 h l = ucast l XOR join16 h 0"
    by (rule bit_word_eqI) (auto simp: bit_join16 bit_simps dest: bit_imp_le_length)
  moreover have "(crc_bit ^^ 8) (join16 h 0) = drop_bit 8 (join16 h 0)"
    by (rule crc_bits_shift) (simp add: bit_join16)
  moreover have "drop_bit 8 (join16 h 0) = ucast h"
    by (rule bit_word_eqI) (auto simp: bit_join16 bit_simps dest: bit_imp_le_length)
  ultimately show ?thesis by (simp add: crc_bits_xor)
qed

lemma crc_byte_table:
  "crc_byte (join16 lo hi) x =
     join16 (word_of_int (auchCRCLo ! unat (hi XOR x))) (lo XOR word_of_int (auchCRCHi ! unat (hi XOR x)))"
proof -
  have "join16 lo hi XOR ucast x = join16 lo (hi XOR x)"
    by (rule bit_word_eqI) (auto simp: bit_join16 bit_simps dest: bit_imp_le_length)
  moreover have "join16 a b XOR ucast lo = join16 a (lo XOR b)" for a b
    by (rule bit_word_eqI) (auto simp: bit_join16 bit_simps dest: bit_imp_le_length)
  ultimately show ?thesis
    by (simp add: crc_byte_def crc8_join16 flip: crc_table_nth)
qed

lemma N_CRC16_loop_eq:
  "N_CRC16_loop n d hi lo =
     (if n \<le> length d
      then Some (lo8 (foldl crc_byte (join16 lo hi) (take n d)), hi8 (foldl crc_byte (join16 lo hi) (take n d)))
      else None)"
  by (induction n d hi lo rule: N_CRC16_loop.induct) (simp_all add: crc_byte_table Let_def)

lemma N_CRC16_eq:
  "N_CRC16 d len =
     (if unat len \<le> length d then Some (ucast (crc16_modbus (take (unat len) d))) else None)"
proof -
  have init: "join16 0xFF 0xFF = 0xFFFF" by (simp add: join16_def)
  have "(push_bit 8 (ucast (hi8 r)) OR ucast (lo8 r) :: u32) = ucast r" for r
    by (rule bit_word_eqI) (auto simp: bit_hi8 bit_lo8 bit_simps dest: bit_imp_le_length)
  then show ?thesis
    by (simp add: N_CRC16_def N_CRC16_loop_eq crc16_modbus_def init)
qed

section \<open>Error detection\<close>

lemma crc8_high_nonzero: "hi8 ((crc_bit ^^ 8) (ucast x)) = 0 \<Longrightarrow> x = 0" for x :: u8
proof -
  assume "hi8 ((crc_bit ^^ 8) (ucast x)) = 0"
  then have "(word_of_int (auchCRCLo ! unat x) :: u8) = 0"
    by (metis crc_table_nth hi8_join16)
  moreover have i: "unat x < 256" by (rule u8_lt_256)
  ultimately have "auchCRCLo ! unat x = 0"
    using auchCRC_nth_range (1,2) [OF i] by (auto simp: word_of_int_eq_0_iff dest: zdvd_imp_le)
  moreover have "auchCRCLo ! k \<noteq> 0" if "0 < k" "k < 256" for k
    using auchCRCLo_nonzero that by (cases k) (auto simp: list_all_length nth_tl)
  ultimately have "unat x = 0" using i by (metis gr0I)
  then show "x = 0" by (simp add: unat_eq_0)
qed

lemma crc_two_bytes_inject:
  assumes "crc_byte (crc_byte r x) y = crc_byte (crc_byte r x') y'"
  shows "x = x' \<and> y = y'"
proof -
  let ?d = "(crc_bit ^^ 8) (ucast (x XOR x'))"
  have d: "crc_byte r x XOR crc_byte r x' = ?d"
    using crc_byte_xor [of r x r x'] by simp
  have "(crc_bit ^^ 8) (?d XOR ucast (y XOR y')) = 0"
    using crc_byte_xor [of "crc_byte r x" y "crc_byte r x'" y'] assms d by simp
  then have eq: "?d = ucast (y XOR y')"
    by (metis crc_bits_eq_0D xor_zero_iff)
  then have "hi8 ?d = 0" by simp
  then have x: "x XOR x' = 0" by (rule crc8_high_nonzero)
  with eq have "(ucast (y XOR y') :: u16) = 0" by simp
  then have "uint (ucast (y XOR y') :: u16) = uint (0 :: u16)" by simp
  then have "y XOR y' = 0" by (intro word_eqI_uint) (simp only: uint_ucast_8_16, simp)
  with x show ?thesis by (simp add: xor_zero_iff)
qed

lemma crc16_pair_error:
  assumes "(x, y) \<noteq> (x', y')"
  shows "crc16_modbus (p @ [x, y] @ q) \<noteq> crc16_modbus (p @ [x', y'] @ q)"
proof
  assume "crc16_modbus (p @ [x, y] @ q) = crc16_modbus (p @ [x', y'] @ q)"
  then have "crc_byte (crc_byte (crc16_modbus p) x) y = crc_byte (crc_byte (crc16_modbus p) x') y'"
    by (auto simp: crc16_modbus_def dest: foldl_crc_byte_inject)
  then show False using assms crc_two_bytes_inject by blast
qed

section \<open>The interface the frame code relies on\<close>

text \<open>
  A checksum that tells two payloads apart when they differ inside one pair of adjacent
  bytes. \<open>seal\<close> appends it high byte first, the way \<open>conver_Crc\<close> and the senders do;
  \<open>valid\<close> is the test of a received frame.
\<close>

locale checksummed_frames =
  fixes crc :: "buf \<Rightarrow> u16"
  assumes pair_error: "(x, y) \<noteq> (x', y') \<Longrightarrow> crc (p @ [x, y] @ q) \<noteq> crc (p @ [x', y'] @ q)"
begin

definition seal :: "buf \<Rightarrow> buf" where
  "seal m = m @ [hi8 (crc m), lo8 (crc m)]"

definition valid :: "buf \<Rightarrow> bool" where
  "valid f = (\<exists>m. f = seal m)"

lemma valid_seal [simp]: "valid (seal m)"
  by (auto simp: valid_def)

lemma seal_inject: "seal m = seal m' \<longleftrightarrow> m = m'"
  by (auto simp: seal_def)

lemma valid_iff: "valid (m @ [h, l]) \<longleftrightarrow> join16 h l = crc m"
  by (auto simp: valid_def seal_def dest: sym)

lemma corrupted_payload_rejected:
  assumes "(x, y) \<noteq> (x', y')" and "valid (p @ [x, y] @ q @ [h, l])"
  shows "\<not> valid (p @ [x', y'] @ q @ [h, l])"
  using pair_error [OF assms(1), of p q] assms(2) valid_iff [of "p @ [x, y] @ q" h l]
    valid_iff [of "p @ [x', y'] @ q" h l] by simp

lemma corrupted_checksum_rejected:
  assumes "(h, l) \<noteq> (h', l')" and "valid (m @ [h, l])"
  shows "\<not> valid (m @ [h', l'])"
  using assms join16_inject [of h l h' l'] by (auto simp: valid_iff)

end

interpretation crc_frames: checksummed_frames crc16_modbus
  by unfold_locales (rule crc16_pair_error)


section \<open>Properties\<close>

text \<open>C3: The table-driven \<open>N_CRC16\<close> computes the bit-serial CRC-16 (reflected polynomial 0xA001,
  initial value 0xFFFF) of the first \<open>len\<close> bytes, in the low 16 bits of its result, and stays inside the
  data exactly when there are at least \<open>len\<close> bytes.\<close>

theorem N_CRC16_is_modbus_crc:
  "N_CRC16 d len =
     (if unat len \<le> length d then Some (ucast (foldl crc_byte 0xFFFF (take (unat len) d))) else None)"
  by (simp add: N_CRC16_eq crc16_modbus_def)

text \<open>Error detection: when two messages of the same length differ only inside one pair of adjacent
  bytes (any burst of up to 16 bits in it), \<open>N_CRC16\<close> tells them apart, wherever the pair stands.\<close>

theorem N_CRC16_detects_pair_error:
  assumes "(x, y) \<noteq> (x', y')" and "unat len = length p + length q + 2"
  shows "\<exists>c c'. N_CRC16 (p @ [x, y] @ q) len = Some c \<and> N_CRC16 (p @ [x', y'] @ q) len = Some c' \<and> c \<noteq> c'"
  using crc16_pair_error [OF assms(1), of p q] assms(2) by (simp add: N_CRC16_eq ucast_16_32_inject)

theorem N_CRC16_detects_pair_error_witness:
  "\<exists>c c'. N_CRC16 [1, 3, 0, 0] 4 = Some c \<and> N_CRC16 [1, 2, 1, 0] 4 = Some c' \<and> c \<noteq> c'"
  using N_CRC16_detects_pair_error [of 3 0 2 1 4 "[1]" "[0]"] by simp

end
