(* ===== verification/Gateway.thy ===== *)
theory Gateway
  imports CString
begin

text \<open>
  The shared state of the gateway: the structs of src/components/include/prj.h, the
  globals the components exchange data through, and the calls into the module's SDK
  that the sources make for their effect only. Those calls (signals to threads, UART
  and GPIO output, sleeping, thread creation, power off) are recorded in order in
  \<open>trace\<close>; what the SDK does with them is outside the sources. Diagnostic output
  (\<open>nwy_ext_echo\<close>, \<open>OSI_LOGI\<close>) is left out throughout.
\<close>

section \<open>Single-precision numbers\<close>

text \<open>
  \<open>F32 m e\<close> is the value \<open>m * 2 ^ e\<close>. The sources multiply such a value by 10, compare it
  with integers, convert it to an integer and print it with \<open>%.1f\<close> and \<open>%.8f\<close>. A product is
  rounded to 24 significant bits, to nearest and ties to even; overflow, subnormal
  results and not-a-number do not arise for temperatures and voltages and are left out.
  The two position values are doubles; they are only printed, so the same type holds them.
\<close>

datatype f32 = F32 int int

fun bit_len :: "nat \<Rightarrow> nat" where
  "bit_len n = (if n = 0 then 0 else Suc (bit_len (n div 2)))"

declare bit_len.simps [simp del]

text \<open>\<open>a / d\<close> rounded to the nearest integer, ties to even.\<close>

definition round_div :: "int \<Rightarrow> int \<Rightarrow> int" where
  "round_div a d =
     (let q = a div d; r = a mod d
      in if 2 * r > d \<or> (2 * r = d \<and> odd q) then q + 1 else q)"

definition f32_round :: "int \<Rightarrow> int \<Rightarrow> f32" where
  "f32_round m e =
     (let k = bit_len (nat \<bar>m\<bar>) - 24
      in if k = 0 then F32 m e else F32 (sgn m * round_div \<bar>m\<bar> (2 ^ k)) (e + int k))"

fun f32_times :: "f32 \<Rightarrow> int \<Rightarrow> f32" where
  "f32_times (F32 m e) k = f32_round (m * k) e"

fun f32_gt :: "f32 \<Rightarrow> int \<Rightarrow> bool" where
  "f32_gt (F32 m e) k = (if 0 \<le> e then m * 2 ^ nat e > k else m > k * 2 ^ nat (- e))"

fun f32_lt :: "f32 \<Rightarrow> int \<Rightarrow> bool" where
  "f32_lt (F32 m e) k = (if 0 \<le> e then m * 2 ^ nat e < k else m < k * 2 ^ nat (- e))"

fun f32_trunc :: "f32 \<Rightarrow> int" where
  "f32_trunc (F32 m e) = (if 0 \<le> e then m * 2 ^ nat e else sgn m * (\<bar>m\<bar> div 2 ^ nat (- e)))"

text \<open>\<open>(uint16_t) x\<close>: undefined when the truncated value is not a \<open>uint16_t\<close>.\<close>

definition f32_to_u16 :: "f32 \<Rightarrow> u16 option" where
  "f32_to_u16 x = (let v = f32_trunc x in if 0 \<le> v \<and> v < 65536 then Some (word_of_int v) else None)"

text \<open>The conversion \<open>%.<d>f\<close>.\<close>

fun fmt_f :: "nat \<Rightarrow> f32 \<Rightarrow> buf" where
  "fmt_f d (F32 m e) =
     (let n = (if 0 \<le> e then \<bar>m\<bar> * 2 ^ nat e * 10 ^ d else round_div (\<bar>m\<bar> * 10 ^ d) (2 ^ nat (- e)));
          ip = dec_digits (nat (n div 10 ^ d));
          fp = dec_digits (nat (n mod 10 ^ d))
      in (if m < 0 then [45] else []) @ ip @ [46] @ replicate (d - length fp) 48 @ fp)"

section \<open>Structs\<close>

record Net_Set_Typedef =
  mqttip :: buf
  mqttport :: buf
  domain :: buf
  user :: buf
  pw :: buf
  hold_Time :: buf
  lastWill :: buf

definition Net_Set_sized :: "Net_Set_Typedef \<Rightarrow> bool" where
  "Net_Set_sized n = (length (mqttip n) = 16 \<and> length (mqttport n) = 8 \<and> length (domain n) = 96 \<and>
     length (user n) = 32 \<and> length (pw n) = 32 \<and> length (hold_Time n) = 8 \<and> length (lastWill n) = 32)"

text \<open>The bytes of the struct, in declaration order without padding (all members are
  character arrays), and the struct read back from \<open>224\<close> bytes.\<close>

definition Net_Set_bytes :: "Net_Set_Typedef \<Rightarrow> buf" where
  "Net_Set_bytes n = mqttip n @ mqttport n @ domain n @ user n @ pw n @ hold_Time n @ lastWill n"

definition Net_Set_of_bytes :: "buf \<Rightarrow> Net_Set_Typedef" where
  "Net_Set_of_bytes b =
     \<lparr>mqttip = take 16 b, mqttport = take 8 (drop 16 b), domain = take 96 (drop 24 b),
      user = take 32 (drop 120 b), pw = take 32 (drop 152 b), hold_Time = take 8 (drop 184 b),
      lastWill = take 32 (drop 192 b)\<rparr>"

record Zone_4_typedef =
  Temp_Set_Hig :: u16
  Temp_Set_Low :: u16
  Voltage_Over_Set :: u16
  Voltage_Low_Set :: u16
  BLE_Scan_Span :: u16
  BLE_Min :: u16
  BLE_Hour :: u16
  BLE_Week :: u8

record XB_Sub_Dev_Typedef =
  sn :: buf
  No_Ans_Cnt :: u16

record nwy_ble_Exist_dev =
  Fg_Is_White :: u8
  Fg_Need_Report :: u8
  bdAddress :: buf
  time_Dead :: int

record nwy_sim_result_type =
  iccid :: buf
  nImei :: buf

record nwy_time_t =
  year :: u16
  mon :: u8
  day :: u8
  hour :: u8
  min_of :: u8
  sec :: u8

section \<open>Threads, events and SDK calls\<close>

datatype thread = Mqtt_Snd_task | RS485_Ctrl_thread | Poll_Addr_thread | Reset_thread | Mqtt_Connect_thread | Ble_thread |
  App_thread | Call_thread | Key_thread

datatype effect =
    Send_Sig thread u32
  | Uart_Init nat
  | Uart_Reg_Recv nat
  | Uart_Set_Baud int nat
  | Uart_Send int buf
  | Gpio_Output nat
  | Gpio_Value nat nat
  | Sleep nat
  | Usleep nat
  | Create_Thread thread
  | Exit_Thread
  | Power_Off nat
  | Malloc nat
  | Start_Timer nat

definition RELAY_ALL_ON :: u32 where "RELAY_ALL_ON = 0x0055"

definition RELAY_ALL_OFF :: u32 where "RELAY_ALL_OFF = 0x1155"

definition RELAY_ALL_RS :: u32 where "RELAY_ALL_RS = 0x3355"

definition RELAY_ALL_CLEAR :: u32 where "RELAY_ALL_CLEAR = 0x2255"

definition EVENT_SND_485_CTRL :: u32 where "EVENT_SND_485_CTRL = 0x1122"

definition REPORT_MQTT_MSG :: u32 where "REPORT_MQTT_MSG = 0x1136"

definition REPORT_MQTT_WG_MSG :: u32 where "REPORT_MQTT_WG_MSG = 0x1137"

definition REPORT_MQTT_CTRL_CMD :: u32 where "REPORT_MQTT_CTRL_CMD = 0x1138"

definition EVENT_REC_485 :: u32 where "EVENT_REC_485 = 0x55AA"

definition MSG_REPLY_LEN :: nat where "MSG_REPLY_LEN = 512"

section \<open>The globals\<close>

record gateway =
  Net_Info :: Net_Set_Typedef
  Zone4_Info :: Zone_4_typedef
  xb_SubDev_SN :: "XB_Sub_Dev_Typedef list"
  Dev_Num :: u8
  poll_id :: u8
  Poll_Addr_id :: u8
  thread_Fg :: u8
  poll_Cmd :: buf
  poll_Ctrl_Cmd :: buf
  RS485_hd :: "int list"
  restart_fg :: u8
  mqtt_report_Msg :: buf
  mqtt_report_Len :: int
  value_zone_0 :: u16
  value_zone_1 :: u16
  temp_IC :: f32
  voltage_Xb :: f32
  voltage_Input :: f32
  fg_Snding_485 :: u8
  Fg_Snding_Mqtt :: u8
  BLE_num_Scan :: u8
  scan_info :: "buf list"
  White_Name_Num :: u8
  White_Name_Ble :: "buf list"
  Ble_Dev_Exist :: "nwy_ble_Exist_dev list"
  xb_sim :: nwy_sim_result_type
  xb_time :: nwy_time_t
  pos_lat :: f32
  pos_lng :: f32
  trace :: "effect list"

definition emit :: "effect \<Rightarrow> gateway \<Rightarrow> gateway" where
  "emit e s = s\<lparr>trace := trace s @ [e]\<rparr>"

text \<open>The arrays of the globals have their declared sizes.\<close>

definition sized :: "gateway \<Rightarrow> bool" where
  "sized s = (Net_Set_sized (Net_Info s) \<and>
     length (xb_SubDev_SN s) = 32 \<and> list_all (\<lambda>d. length (sn d) = 12) (xb_SubDev_SN s) \<and>
     length (poll_Cmd s) = 5 \<and> length (poll_Ctrl_Cmd s) = 5 \<and> length (RS485_hd s) = 2 \<and>
     length (mqtt_report_Msg s) = 512 \<and>
     length (scan_info s) = 30 \<and> list_all (\<lambda>a. length a = 6) (scan_info s) \<and>
     length (White_Name_Ble s) = 100 \<and> list_all (\<lambda>a. length a = 6) (White_Name_Ble s) \<and>
     length (Ble_Dev_Exist s) = 200 \<and> list_all (\<lambda>d. length (bdAddress d) = 6) (Ble_Dev_Exist s) \<and>
     length (iccid (xb_sim s)) = 23 \<and> length (nImei (xb_sim s)) = 16)"

text \<open>The state after the C start-up code: zero, but for the initialisers of the sources.\<close>

definition zero_addr :: buf where
  "zero_addr = replicate 6 0"

definition zero_dev :: nwy_ble_Exist_dev where
  "zero_dev = \<lparr>Fg_Is_White = 0, Fg_Need_Report = 0, bdAddress = zero_addr, time_Dead = 0\<rparr>"

definition init_gateway :: gateway where
  "init_gateway =
    \<lparr>Net_Info = Net_Set_of_bytes (replicate 224 0),
     Zone4_Info = \<lparr>Temp_Set_Hig = 0, Temp_Set_Low = 0, Voltage_Over_Set = 0, Voltage_Low_Set = 0,
       BLE_Scan_Span = 0, BLE_Min = 0, BLE_Hour = 0, BLE_Week = 0\<rparr>,
     xb_SubDev_SN = replicate 32 \<lparr>sn = replicate 12 0, No_Ans_Cnt = 0\<rparr>,
     Dev_Num = 0, poll_id = 1, Poll_Addr_id = 1, thread_Fg = 0,
     poll_Cmd = replicate 5 0, poll_Ctrl_Cmd = replicate 5 0, RS485_hd = [-1, -1], restart_fg = 0,
     mqtt_report_Msg = replicate 512 0, mqtt_report_Len = 0,
     value_zone_0 = 0xFDFF, value_zone_1 = 0x58,
     temp_IC = F32 0 0, voltage_Xb = F32 0 0, voltage_Input = F32 441 (-1),
     fg_Snding_485 = 0, Fg_Snding_Mqtt = 0,
     BLE_num_Scan = 0, scan_info = replicate 30 zero_addr,
     White_Name_Num = 0, White_Name_Ble = replicate 100 zero_addr,
     Ble_Dev_Exist = replicate 200 zero_dev,
     xb_sim = \<lparr>iccid = replicate 23 0, nImei = replicate 16 0\<rparr>,
     xb_time = \<lparr>year = 2020, mon = 3, day = 19, hour = 20, min_of = 33, sec = 30\<rparr>,
     pos_lat = F32 0 0, pos_lng = F32 0 0,
     trace = []\<rparr>"

section \<open>Lemmas\<close>

lemma sized_init: "sized init_gateway"
  by (simp add: sized_def init_gateway_def Net_Set_sized_def Net_Set_of_bytes_def zero_addr_def zero_dev_def
      list_all_iff)

lemma init_simps [simp]:
  "Net_Info init_gateway = Net_Set_of_bytes (replicate 224 0)" "Dev_Num init_gateway = 0"
  "xb_SubDev_SN init_gateway = replicate 32 \<lparr>sn = replicate 12 0, No_Ans_Cnt = 0\<rparr>"
  "poll_id init_gateway = 1" "Poll_Addr_id init_gateway = 1" "thread_Fg init_gateway = 0"
  "poll_Cmd init_gateway = replicate 5 0" "poll_Ctrl_Cmd init_gateway = replicate 5 0"
  "RS485_hd init_gateway = [-1, -1]" "restart_fg init_gateway = 0"
  "mqtt_report_Msg init_gateway = replicate 512 0" "mqtt_report_Len init_gateway = 0"
  "value_zone_0 init_gateway = 0xFDFF" "value_zone_1 init_gateway = 0x58"
  "temp_IC init_gateway = F32 0 0" "voltage_Xb init_gateway = F32 0 0" "voltage_Input init_gateway = F32 441 (-1)"
  "fg_Snding_485 init_gateway = 0" "Fg_Snding_Mqtt init_gateway = 0" "BLE_num_Scan init_gateway = 0"
  "scan_info init_gateway = replicate 30 zero_addr" "White_Name_Num init_gateway = 0"
  "White_Name_Ble init_gateway = replicate 100 zero_addr" "Ble_Dev_Exist init_gateway = replicate 200 zero_dev"
  "iccid (xb_sim init_gateway) = replicate 23 0" "nImei (xb_sim init_gateway) = replicate 16 0"
  "trace init_gateway = []"
  by (simp_all add: init_gateway_def)

lemma sized_emit [simp]: "sized (emit e s) = sized s"
  by (simp add: sized_def emit_def)

lemma emit_simps [simp]:
  "Net_Info (emit e s) = Net_Info s" "Zone4_Info (emit e s) = Zone4_Info s"
  "xb_SubDev_SN (emit e s) = xb_SubDev_SN s" "Dev_Num (emit e s) = Dev_Num s"
  "poll_id (emit e s) = poll_id s" "Poll_Addr_id (emit e s) = Poll_Addr_id s"
  "thread_Fg (emit e s) = thread_Fg s" "poll_Cmd (emit e s) = poll_Cmd s"
  "poll_Ctrl_Cmd (emit e s) = poll_Ctrl_Cmd s" "RS485_hd (emit e s) = RS485_hd s"
  "restart_fg (emit e s) = restart_fg s" "mqtt_report_Msg (emit e s) = mqtt_report_Msg s"
  "mqtt_report_Len (emit e s) = mqtt_report_Len s" "value_zone_0 (emit e s) = value_zone_0 s"
  "value_zone_1 (emit e s) = value_zone_1 s" "temp_IC (emit e s) = temp_IC s"
  "voltage_Xb (emit e s) = voltage_Xb s" "voltage_Input (emit e s) = voltage_Input s"
  "fg_Snding_485 (emit e s) = fg_Snding_485 s" "Fg_Snding_Mqtt (emit e s) = Fg_Snding_Mqtt s"
  "BLE_num_Scan (emit e s) = BLE_num_Scan s" "scan_info (emit e s) = scan_info s"
  "White_Name_Num (emit e s) = White_Name_Num s" "White_Name_Ble (emit e s) = White_Name_Ble s"
  "Ble_Dev_Exist (emit e s) = Ble_Dev_Exist s" "xb_sim (emit e s) = xb_sim s"
  "xb_time (emit e s) = xb_time s" "pos_lat (emit e s) = pos_lat s" "pos_lng (emit e s) = pos_lng s"
  "trace (emit e s) = trace s @ [e]"
  by (simp_all add: emit_def)

lemma Net_Set_bytes_roundtrip: "Net_Set_sized n \<Longrightarrow> Net_Set_of_bytes (Net_Set_bytes n) = n"
  by (simp add: Net_Set_sized_def Net_Set_bytes_def Net_Set_of_bytes_def)

lemma length_Net_Set_bytes: "Net_Set_sized n \<Longrightarrow> length (Net_Set_bytes n) = 224"
  by (simp add: Net_Set_sized_def Net_Set_bytes_def)

end
