(* ===== verification/Machine.thy ===== *)
theory Machine
  imports Prelude
begin

text \<open>
  The common shape of the firmware's threads and callbacks: a step function that takes an
  input from outside (an event, a received frame, a scan result) and either yields the
  next state or has no result. The locale states what an invariant of such a machine is
  and proves that it holds along every run and that a run of accepted inputs never gets
  stuck. The component theories interpret it on their own steps.
\<close>

fun run_machine :: "('s \<Rightarrow> 'e \<Rightarrow> 's option) \<Rightarrow> 's \<Rightarrow> 'e list \<Rightarrow> 's option" where
  "run_machine step s [] = Some s"
| "run_machine step s (e # es) = do { t \<leftarrow> step s e; run_machine step t es }"

lemma run_machine_append:
  "run_machine step s (xs @ ys) = do { t \<leftarrow> run_machine step s xs; run_machine step t ys }"
  by (induction xs arbitrary: s) (auto split: Option.bind_splits)

locale invariant_machine =
  fixes step :: "'s \<Rightarrow> 'e \<Rightarrow> 's option"
    and inv :: "'s \<Rightarrow> bool"
    and accepts :: "'e \<Rightarrow> bool"
  assumes step_inv: "inv s \<Longrightarrow> accepts e \<Longrightarrow> step s e = Some t \<Longrightarrow> inv t"
begin

lemma run_inv: "inv s \<Longrightarrow> list_all accepts es \<Longrightarrow> run_machine step s es = Some t \<Longrightarrow> inv t"
proof (induction es arbitrary: s)
  case Nil
  then show ?case by simp
next
  case (Cons e es)
  then obtain u where "step s e = Some u" "run_machine step u es = Some t"
    by (auto simp: Option.bind_eq_Some_conv)
  with Cons show ?case using step_inv [of s e u] by auto
qed

end

text \<open>Machines whose accepted inputs always have a next state.\<close>

locale total_machine = invariant_machine +
  assumes step_total: "inv s \<Longrightarrow> accepts e \<Longrightarrow> \<exists>t. step s e = Some t"
begin

lemma run_total:
  "inv s \<Longrightarrow> list_all accepts es \<Longrightarrow> \<exists>t. run_machine step s es = Some t \<and> inv t"
proof (induction es arbitrary: s)
  case Nil
  then show ?case by simp
next
  case (Cons e es)
  then obtain u where u: "step s e = Some u" "inv u"
    using step_total [of s e] step_inv [of s e] by auto
  with Cons.IH [of u] Cons.prems show ?case by auto
qed

end

end
