(* ===== verification/BleTable.thy ===== *)
theory BleTable
  imports Gateway Machine
begin

text \<open>
  The table of Bluetooth devices in range, src/ble_test.c: matching of addresses
  (\<open>Is_None_Ble\<close>, \<open>Is_Same_BLE\<close>), registration of a scanned device (\<open>Find_Ble\<close>), ageing
  (\<open>Update_DeatTime\<close>), white-list marking (\<open>Upate_White_Name\<close>), the scan callback and the
  body of the scanning thread. The table invariant is that no address occurs twice and
  that every age is at most \<open>BLE_DEAD_MAX_TIME\<close>; every operation keeps it.
\<close>

section \<open>The code\<close>

definition BLE_Exist_NUM :: nat where "BLE_Exist_NUM = 200"

definition BLE_DEAD_MAX_TIME :: int where "BLE_DEAD_MAX_TIME = 50"

definition BLE_SCAN_PERIOD :: nat where "BLE_SCAN_PERIOD = 50"

text \<open>\<open>while (i < 6) if (pt->addr[i]) return 0; else i++;\<close> on the remaining bytes.\<close>

fun Is_None_Ble :: "buf \<Rightarrow> int" where
  "Is_None_Ble [] = 1"
| "Is_None_Ble (x # addr) = (if x \<noteq> 0 then 0 else Is_None_Ble addr)"

text \<open>The loop counter \<open>i\<close> is returned when all six bytes agree.\<close>

fun Is_Same_BLE_loop :: "int \<Rightarrow> buf \<Rightarrow> buf \<Rightarrow> int" where
  "Is_Same_BLE_loop i (d # des) (x # src) = (if d \<noteq> x then -1 else Is_Same_BLE_loop (i + 1) des src)"
| "Is_Same_BLE_loop i _ _ = i"

definition Is_Same_BLE :: "buf \<Rightarrow> buf \<Rightarrow> int" where
  "Is_Same_BLE des src = Is_Same_BLE_loop 0 des src"

definition Find_Ble :: "buf \<Rightarrow> gateway \<Rightarrow> gateway option" where
  "Find_Ble pt s =
     (case first_idx (\<lambda>d. Is_Same_BLE pt (bdAddress d) \<ge> 0) (Ble_Dev_Exist s) of
        Some i \<Rightarrow>
          do { let pos = nat (Is_Same_BLE pt (bdAddress (Ble_Dev_Exist s ! i)));
               d \<leftarrow> rd (Ble_Dev_Exist s) pos;
               t \<leftarrow> wr (Ble_Dev_Exist s) pos (d\<lparr>time_Dead := 0\<rparr>);
               Some (s\<lparr>Ble_Dev_Exist := t\<rparr>) }
      | None \<Rightarrow>
          (case first_idx (\<lambda>d. Is_Same_BLE zero_addr (bdAddress d) \<ge> 0) (Ble_Dev_Exist s) of
             Some i \<Rightarrow>
               Some (s\<lparr>Ble_Dev_Exist := (Ble_Dev_Exist s)[i :=
                 (Ble_Dev_Exist s ! i)\<lparr>bdAddress := pt, time_Dead := 0, Fg_Need_Report := 1\<rparr>]\<rparr>)
           | None \<Rightarrow> Some s))"

text \<open>The body of the outer loop of \<open>Upate_White_Name\<close> on one entry.\<close>

definition mark_dev :: "buf list \<Rightarrow> nwy_ble_Exist_dev \<Rightarrow> nwy_ble_Exist_dev" where
  "mark_dev white d =
     (if Is_None_Ble (bdAddress d) = 0
      then (case first_idx (\<lambda>w. Is_Same_BLE w (bdAddress d) \<ge> 0) white of
              Some j \<Rightarrow> d\<lparr>Fg_Is_White := 1\<rparr>
            | None \<Rightarrow> d\<lparr>Fg_Is_White := 0\<rparr>)
      else d)"

definition Upate_White_Name :: "gateway \<Rightarrow> gateway" where
  "Upate_White_Name s = s\<lparr>Ble_Dev_Exist := map (mark_dev (White_Name_Ble s)) (Ble_Dev_Exist s)\<rparr>"

text \<open>The body of the loop of \<open>Update_DeatTime\<close> on one entry.\<close>

definition age_dev :: "nwy_ble_Exist_dev \<Rightarrow> nwy_ble_Exist_dev" where
  "age_dev d =
     (if time_Dead d < 2000
      then if time_Dead d + 1 > BLE_DEAD_MAX_TIME then zero_dev else d\<lparr>time_Dead := time_Dead d + 1\<rparr>
      else d)"

definition Update_DeatTime :: "gateway \<Rightarrow> gateway" where
  "Update_DeatTime s = s\<lparr>Ble_Dev_Exist := map age_dev (Ble_Dev_Exist s)\<rparr>"

definition Fun_Update_Ble :: "buf \<Rightarrow> gateway \<Rightarrow> gateway option" where
  "Fun_Update_Ble pt s = Find_Ble pt s"

text \<open>\<open>addr\<close> is the address that \<open>nwy_ble_client_scan_result\<close> stores.\<close>

definition nwy_ble_client_scan_dev_func :: "gateway \<Rightarrow> buf \<Rightarrow> gateway option" where
  "nwy_ble_client_scan_dev_func s addr =
     do { sc \<leftarrow> wr (scan_info s) (unat (BLE_num_Scan s)) addr;
          s1 \<leftarrow> Fun_Update_Ble addr (s\<lparr>scan_info := sc\<rparr>);
          Some (if BLE_num_Scan s1 < 30 then s1\<lparr>BLE_num_Scan := BLE_num_Scan s1 + 1\<rparr> else s1) }"

text \<open>One round of the loop of \<open>prvThreadEntry_Ble_Call\<close>; \<open>found\<close> lists the addresses for which
  the SDK calls the scan callback during \<open>nwy_ble_client_scan (3)\<close>.\<close>

definition prvThreadEntry_Ble_Call_body :: "gateway \<Rightarrow> buf list \<Rightarrow> gateway option" where
  "prvThreadEntry_Ble_Call_body s found =
     do { let s1 = Update_DeatTime (s\<lparr>BLE_num_Scan := 0\<rparr>);
          s2 \<leftarrow> run_machine nwy_ble_client_scan_dev_func s1 found;
          Some (emit (Sleep (1000 * (BLE_SCAN_PERIOD - 3))) (Upate_White_Name s2)) }"

section \<open>Addresses\<close>

lemma zero_addr_eq: "zero_addr = [0, 0, 0, 0, 0, 0]"
  by (simp add: zero_addr_def numeral_eq_Suc)

lemma Is_Same_BLE_loop_eq:
  "length a = length b \<Longrightarrow> Is_Same_BLE_loop i a b = (if a = b then i + int (length a) else -1)"
  by (induction i a b rule: Is_Same_BLE_loop.induct) auto

lemma Is_Same_BLE_eq:
  "length a = 6 \<Longrightarrow> length b = 6 \<Longrightarrow> Is_Same_BLE a b = (if a = b then 6 else -1)"
  by (simp add: Is_Same_BLE_def Is_Same_BLE_loop_eq)

lemma Is_None_Ble_eq: "Is_None_Ble a = (if \<forall>x \<in> set a. x = 0 then 1 else 0)"
  by (induction a) auto

lemma Is_None_Ble_zero: "length a = 6 \<Longrightarrow> Is_None_Ble a = (if a = zero_addr then 1 else 0)"
  by (auto simp: Is_None_Ble_eq zero_addr_def intro: replicate_eqI)

section \<open>The table invariant\<close>

definition addrs :: "gateway \<Rightarrow> buf list" where
  "addrs s = filter (\<lambda>a. a \<noteq> zero_addr) (map bdAddress (Ble_Dev_Exist s))"

definition ble_inv :: "gateway \<Rightarrow> bool" where
  "ble_inv s = (sized s \<and> distinct (addrs s) \<and>
     list_all (\<lambda>d. 0 \<le> time_Dead d \<and> time_Dead d \<le> BLE_DEAD_MAX_TIME) (Ble_Dev_Exist s) \<and>
     BLE_num_Scan s \<le> 30)"

lemma ble_inv_init: "ble_inv init_gateway"
  using sized_init
  by (simp add: ble_inv_def addrs_def init_gateway_def zero_dev_def BLE_DEAD_MAX_TIME_def list_all_iff)

lemma distinct_filter_update:
  assumes "distinct (filter P xs)" and "i < length xs" and "\<not> P (xs ! i)" and "x \<notin> set xs"
  shows "distinct (filter P (xs[i := x]))"
proof -
  have xs: "xs = take i xs @ xs ! i # drop (Suc i) xs" using assms(2) by (rule id_take_nth_drop)
  have "filter P xs = filter P (take i xs) @ filter P (drop (Suc i) xs)"
    by (subst xs) (simp add: assms(3))
  with assms(1) have "distinct (filter P (take i xs) @ filter P (drop (Suc i) xs))" by simp
  moreover have "x \<notin> set (take i xs)" "x \<notin> set (drop (Suc i) xs)"
    using assms(4) by (auto dest: in_set_takeD in_set_dropD)
  ultimately show ?thesis
    using assms(2) by (auto simp: upd_conv_take_nth_drop)
qed


lemma first_same_Some:
  assumes "sized s" and "length pt = 6"
    and "first_idx (\<lambda>d. Is_Same_BLE pt (bdAddress d) \<ge> 0) (Ble_Dev_Exist s) = Some i"
  shows "i < 200 \<and> bdAddress (Ble_Dev_Exist s ! i) = pt"
  using first_idx_Some [OF assms(3)] assms(1,2)
  by (auto simp: sized_def list_all_length Is_Same_BLE_eq split: if_splits)

lemma first_same_None:
  assumes "sized s" and "length pt = 6"
    and "first_idx (\<lambda>d. Is_Same_BLE pt (bdAddress d) \<ge> 0) (Ble_Dev_Exist s) = None"
  shows "pt \<notin> bdAddress ` set (Ble_Dev_Exist s)"
  using assms by (auto simp: first_idx_None_iff sized_def list_all_iff Is_Same_BLE_eq)

text \<open>The three branches of \<open>Find_Ble\<close>: an address already in the table resets the age of
  entry 6, whichever entry matched; a new address takes the first free entry; a new address
  is dropped when no entry is free.\<close>

lemma Find_Ble_known:
  assumes "sized s" and "length pt = 6" and "pt \<in> bdAddress ` set (Ble_Dev_Exist s)"
  shows "Find_Ble pt s = Some (s\<lparr>Ble_Dev_Exist := (Ble_Dev_Exist s)[6 := (Ble_Dev_Exist s ! 6)\<lparr>time_Dead := 0\<rparr>]\<rparr>)"
proof -
  obtain i where i: "first_idx (\<lambda>d. Is_Same_BLE pt (bdAddress d) \<ge> 0) (Ble_Dev_Exist s) = Some i"
    using assms first_same_None [OF assms(1,2)] by fastforce
  with first_same_Some [OF assms(1,2) i] assms(1,2) show ?thesis
    by (simp add: Find_Ble_def Is_Same_BLE_eq sized_def)
qed

lemma Find_Ble_new:
  assumes "sized s" and "length pt = 6" and "pt \<notin> bdAddress ` set (Ble_Dev_Exist s)"
    and "first_idx (\<lambda>d. Is_Same_BLE zero_addr (bdAddress d) \<ge> 0) (Ble_Dev_Exist s) = Some i"
  shows "Find_Ble pt s = Some (s\<lparr>Ble_Dev_Exist := (Ble_Dev_Exist s)[i :=
     (Ble_Dev_Exist s ! i)\<lparr>bdAddress := pt, time_Dead := 0, Fg_Need_Report := 1\<rparr>]\<rparr>)"
proof -
  have "first_idx (\<lambda>d. Is_Same_BLE pt (bdAddress d) \<ge> 0) (Ble_Dev_Exist s) = None"
    using assms by (auto simp: first_idx_None_iff sized_def list_all_iff Is_Same_BLE_eq)
  then show ?thesis using assms(4) by (simp add: Find_Ble_def)
qed

lemma Find_Ble_full:
  assumes "sized s" and "length pt = 6" and "pt \<notin> bdAddress ` set (Ble_Dev_Exist s)"
    and "zero_addr \<notin> bdAddress ` set (Ble_Dev_Exist s)"
  shows "Find_Ble pt s = Some s"
proof -
  have "first_idx (\<lambda>d. Is_Same_BLE a (bdAddress d) \<ge> 0) (Ble_Dev_Exist s) = None"
    if "length a = 6" "a \<notin> bdAddress ` set (Ble_Dev_Exist s)" for a
    using assms(1) that by (auto simp: first_idx_None_iff sized_def list_all_iff Is_Same_BLE_eq)
  then show ?thesis using assms by (simp add: Find_Ble_def zero_addr_def)
qed

text \<open>What \<open>Find_Ble\<close> may do to the table, in one statement for the invariant proofs.\<close>

lemma Find_Ble_cases:
  assumes "sized s" and "length pt = 6"
  obtains (known) "pt \<in> bdAddress ` set (Ble_Dev_Exist s)"
      "Find_Ble pt s = Some (s\<lparr>Ble_Dev_Exist := (Ble_Dev_Exist s)[6 := (Ble_Dev_Exist s ! 6)\<lparr>time_Dead := 0\<rparr>]\<rparr>)"
    | (new) i where "pt \<notin> bdAddress ` set (Ble_Dev_Exist s)" "i < 200" "bdAddress (Ble_Dev_Exist s ! i) = zero_addr"
      "Find_Ble pt s = Some (s\<lparr>Ble_Dev_Exist := (Ble_Dev_Exist s)[i :=
         (Ble_Dev_Exist s ! i)\<lparr>bdAddress := pt, time_Dead := 0, Fg_Need_Report := 1\<rparr>]\<rparr>)"
    | (full) "pt \<notin> bdAddress ` set (Ble_Dev_Exist s)" "zero_addr \<notin> bdAddress ` set (Ble_Dev_Exist s)"
      "Find_Ble pt s = Some s"
proof (cases "pt \<in> bdAddress ` set (Ble_Dev_Exist s)")
  case True
  then show thesis using Find_Ble_known [OF assms True] known by blast
next
  case False
  have z: "length zero_addr = 6" by (simp add: zero_addr_def)
  show thesis
  proof (cases "first_idx (\<lambda>d. Is_Same_BLE zero_addr (bdAddress d) \<ge> 0) (Ble_Dev_Exist s)")
    case None
    from first_same_None [OF assms(1) z None] show thesis
      using full Find_Ble_full [OF assms False] False by blast
  next
    case (Some i)
    from first_same_Some [OF assms(1) z Some] Find_Ble_new [OF assms False Some] show thesis
      using new False by blast
  qed
qed

lemma sized_table_update:
  assumes "sized s" and "length (bdAddress d) = 6"
  shows "sized (s\<lparr>Ble_Dev_Exist := (Ble_Dev_Exist s)[i := d]\<rparr>)"
  using assms by (auto simp: sized_def list_all_iff dest!: set_update_subset_insert [THEN subsetD])

lemma Find_Ble_inv:
  assumes inv: "ble_inv s" and pt: "length pt = 6"
  shows "\<exists>t. Find_Ble pt s = Some t \<and> ble_inv t \<and> scan_info t = scan_info s \<and> BLE_num_Scan t = BLE_num_Scan s"
proof -
  have s: "sized s" and len: "length (Ble_Dev_Exist s) = 200" using inv by (simp_all add: ble_inv_def sized_def)
  have six: "length (bdAddress (Ble_Dev_Exist s ! i)) = 6" if "i < 200" for i
    using s that by (simp add: sized_def list_all_length)
  from s pt show ?thesis
  proof (cases rule: Find_Ble_cases)
    case known
    have "map bdAddress ((Ble_Dev_Exist s)[6 := (Ble_Dev_Exist s ! 6)\<lparr>time_Dead := 0\<rparr>]) = map bdAddress (Ble_Dev_Exist s)"
      using len by (simp add: map_update list_update_same_conv)
    with known(2) inv six [of 6] show ?thesis
      by (simp add: ble_inv_def addrs_def sized_table_update list_all_iff BLE_DEAD_MAX_TIME_def)
        (auto dest!: set_update_subset_insert [THEN subsetD])
  next
    case (new i)
    have "distinct (filter (\<lambda>a. a \<noteq> zero_addr) ((map bdAddress (Ble_Dev_Exist s))[i := pt]))"
      using inv new len by (intro distinct_filter_update) (auto simp: ble_inv_def addrs_def)
    with new(4) inv pt show ?thesis
      by (simp add: ble_inv_def addrs_def sized_table_update map_update list_all_iff BLE_DEAD_MAX_TIME_def)
        (auto dest!: set_update_subset_insert [THEN subsetD])
  next
    case full
    with inv show ?thesis by simp
  qed
qed

section \<open>The scan callback\<close>

text \<open>The two halves of the callback: the write into \<open>scan_info\<close> and the count.\<close>

lemma scan_func_ok:
  assumes inv: "ble_inv s" and a: "length addr = 6" and room: "unat (BLE_num_Scan s) < 30"
  shows "\<exists>t. nwy_ble_client_scan_dev_func s addr = Some t \<and> ble_inv t \<and>
    unat (BLE_num_Scan t) = unat (BLE_num_Scan s) + 1"
proof -
  let ?n = "unat (BLE_num_Scan s)"
  let ?s1 = "s\<lparr>scan_info := (scan_info s)[?n := addr]\<rparr>"
  have len: "length (scan_info s) = 30" using inv by (simp add: ble_inv_def sized_def)
  have "ble_inv ?s1"
    using inv a by (auto simp: ble_inv_def sized_def addrs_def list_all_iff
        dest!: set_update_subset_insert [THEN subsetD])
  then obtain t where t: "Find_Ble addr ?s1 = Some t" "ble_inv t" "BLE_num_Scan t = BLE_num_Scan s"
    using Find_Ble_inv [OF _ a, of ?s1] by auto
  have lt: "BLE_num_Scan s < 30" using room by (simp add: word_less_nat_alt)
  have n1: "unat (BLE_num_Scan s + 1) = ?n + 1"
    using room by (simp add: unat_word_ariths)
  have inv': "ble_inv (t\<lparr>BLE_num_Scan := BLE_num_Scan s + 1\<rparr>)"
    using t(2) n1 room by (simp add: ble_inv_def sized_def addrs_def word_le_nat_alt)
  from t lt len room n1 inv' show ?thesis
    by (simp add: nwy_ble_client_scan_dev_func_def Fun_Update_Ble_def)
qed

lemma unat_eq_30: "unat n = 30 \<longleftrightarrow> n = 30" for n :: u8
  by (auto simp: word_unat_eq_iff)

lemma scan_func_overrun:
  assumes "sized s" and "BLE_num_Scan s = 30"
  shows "nwy_ble_client_scan_dev_func s addr = None"
  using assms by (simp add: nwy_ble_client_scan_dev_func_def sized_def wr_def)

lemma scan_func_inv:
  assumes "ble_inv s" and "length addr = 6" and "nwy_ble_client_scan_dev_func s addr = Some t"
  shows "ble_inv t"
proof -
  have "unat (BLE_num_Scan s) < 30"
  proof (rule ccontr)
    assume "\<not> ?thesis"
    with assms(1) have "unat (BLE_num_Scan s) = 30" by (simp add: ble_inv_def word_le_nat_alt)
    then have "BLE_num_Scan s = 30" by (simp add: unat_eq_30)
    with assms show False using scan_func_overrun [of s addr] by (simp add: ble_inv_def)
  qed
  with scan_func_ok [OF assms(1,2)] assms(3) show ?thesis by auto
qed

interpretation scan: invariant_machine nwy_ble_client_scan_dev_func ble_inv "\<lambda>a. length a = 6"
  by unfold_locales (rule scan_func_inv)

lemma scan_run_iff:
  assumes "ble_inv s" and "list_all (\<lambda>a. length a = 6) found"
  shows "(\<exists>t. run_machine nwy_ble_client_scan_dev_func s found = Some t) \<longleftrightarrow>
    unat (BLE_num_Scan s) + length found \<le> 30"
  using assms
proof (induction found arbitrary: s)
  case Nil
  then show ?case by (simp add: ble_inv_def word_le_nat_alt)
next
  case (Cons a found)
  show ?case
  proof (cases "unat (BLE_num_Scan s) < 30")
    case True
    then obtain t where t: "nwy_ble_client_scan_dev_func s a = Some t" "ble_inv t"
        "unat (BLE_num_Scan t) = unat (BLE_num_Scan s) + 1"
      using scan_func_ok [of s a] Cons.prems by auto
    then show ?thesis using Cons.IH [OF t(2)] Cons.prems by simp
  next
    case False
    with Cons.prems(1) have "unat (BLE_num_Scan s) = 30" by (simp add: ble_inv_def word_le_nat_alt)
    moreover from this have "BLE_num_Scan s = 30" by (simp add: unat_eq_30)
    ultimately show ?thesis
      using Cons.prems(1) scan_func_overrun [of s a] by (simp add: ble_inv_def)
  qed
qed

section \<open>Ageing, marking and the thread\<close>

lemma age_dev_addr: "bdAddress (age_dev d) = bdAddress d \<or> bdAddress (age_dev d) = zero_addr"
  by (simp add: age_dev_def zero_dev_def)

lemma distinct_filter_map:
  assumes "distinct (filter P (map f xs))" and "\<forall>x \<in> set xs. g x = f x \<or> \<not> P (g x)"
  shows "distinct (filter P (map g xs))"
  using assms
proof (induction xs)
  case Nil
  then show ?case by simp
next
  case (Cons x xs)
  have "set (filter P (map g xs)) \<subseteq> set (filter P (map f xs))"
    using Cons.prems(2) by force
  moreover have "distinct (filter P (map g xs))"
    using Cons.prems by (intro Cons.IH) (auto split: if_splits)
  ultimately show ?case using Cons.prems by (auto split: if_splits)
qed

lemma Update_DeatTime_inv: "ble_inv s \<Longrightarrow> ble_inv (Update_DeatTime s)"
  using distinct_filter_map [of "\<lambda>a. a \<noteq> zero_addr" bdAddress "Ble_Dev_Exist s" "\<lambda>d. bdAddress (age_dev d)"] age_dev_addr
  by (auto simp: ble_inv_def Update_DeatTime_def addrs_def sized_def list_all_iff comp_def
      age_dev_def zero_dev_def zero_addr_def BLE_DEAD_MAX_TIME_def)

lemma mark_dev_kept [simp]:
  "bdAddress (mark_dev w d) = bdAddress d" "time_Dead (mark_dev w d) = time_Dead d"
  "Fg_Need_Report (mark_dev w d) = Fg_Need_Report d"
  by (simp_all add: mark_dev_def split: option.split)

lemma mark_dev_flag:
  assumes "length (bdAddress d) = 6" and "list_all (\<lambda>a. length a = 6) white" and "bdAddress d \<noteq> zero_addr"
  shows "Fg_Is_White (mark_dev white d) = (if bdAddress d \<in> set white then 1 else 0)"
proof (cases "first_idx (\<lambda>w. Is_Same_BLE w (bdAddress d) \<ge> 0) white")
  case None
  then have "bdAddress d \<notin> set white"
    using assms by (auto simp: first_idx_None_iff Is_Same_BLE_eq)
  with None assms show ?thesis by (simp add: mark_dev_def Is_None_Ble_zero)
next
  case (Some j)
  with first_idx_Some [OF Some] assms have "bdAddress d = white ! j" "j < length white"
    by (auto simp: Is_Same_BLE_eq list_all_length split: if_splits)
  with Some assms show ?thesis by (simp add: mark_dev_def Is_None_Ble_zero)
qed

lemma Upate_White_Name_inv: "ble_inv s \<Longrightarrow> ble_inv (Upate_White_Name s)"
  by (simp add: ble_inv_def Upate_White_Name_def addrs_def sized_def list_all_iff comp_def)

lemma ble_inv_emit [simp]: "ble_inv (emit e s) = ble_inv s"
  by (simp add: ble_inv_def addrs_def)

lemma ble_inv_restart: "ble_inv s \<Longrightarrow> ble_inv (s\<lparr>BLE_num_Scan := 0\<rparr>)"
  by (simp add: ble_inv_def addrs_def sized_def)

definition scan_round :: "buf list \<Rightarrow> bool" where
  "scan_round found = (list_all (\<lambda>a. length a = 6) found \<and> length found \<le> 30)"

lemma round_start:
  "ble_inv s \<Longrightarrow> ble_inv (Update_DeatTime (s\<lparr>BLE_num_Scan := 0\<rparr>))
     \<and> BLE_num_Scan (Update_DeatTime (s\<lparr>BLE_num_Scan := 0\<rparr>)) = 0"
  using Update_DeatTime_inv [OF ble_inv_restart] by (simp add: Update_DeatTime_def)

lemma Ble_Call_body_inv:
  assumes "ble_inv s" and "list_all (\<lambda>a. length a = 6) found"
    and "prvThreadEntry_Ble_Call_body s found = Some t"
  shows "ble_inv t"
  using assms scan.run_inv [OF conjunct1 [OF round_start [OF assms(1)]] assms(2)]
  by (auto simp: prvThreadEntry_Ble_Call_body_def Let_def Option.bind_eq_Some_conv Upate_White_Name_inv)

lemma Ble_Call_body_iff:
  assumes "ble_inv s" and "list_all (\<lambda>a. length a = 6) found"
  shows "(\<exists>t. prvThreadEntry_Ble_Call_body s found = Some t) \<longleftrightarrow> length found \<le> 30"
  using round_start [OF assms(1)] scan_run_iff [OF _ assms(2)]
  by (simp add: prvThreadEntry_Ble_Call_body_def Let_def Option.bind_eq_Some_conv)

interpretation ble: total_machine prvThreadEntry_Ble_Call_body ble_inv scan_round
  by unfold_locales (auto simp: scan_round_def intro: Ble_Call_body_inv dest: Ble_Call_body_iff)

section \<open>Properties\<close>

text \<open>C24: Starting from power-on, any number of scan rounds, each with at most 30 reported
  devices, runs without a fault and leaves a table in which no Bluetooth address occurs
  twice and no entry is older than \<open>BLE_DEAD_MAX_TIME\<close> rounds.\<close>

theorem ble_rounds_safe:
  assumes "list_all scan_round rounds"
  shows "\<exists>t. run_machine prvThreadEntry_Ble_Call_body init_gateway rounds = Some t \<and>
    distinct (addrs t) \<and> (\<forall>d \<in> set (Ble_Dev_Exist t). 0 \<le> time_Dead d \<and> time_Dead d \<le> BLE_DEAD_MAX_TIME)"
  using ble.run_total [OF ble_inv_init assms] by (auto simp: ble_inv_def list_all_iff)

theorem ble_rounds_safe_witness:
  "\<exists>t. run_machine prvThreadEntry_Ble_Call_body init_gateway [[[1,2,3,4,5,6], [6,5,4,3,2,1]], [[1,2,3,4,5,6]]] = Some t \<and>
    distinct (addrs t) \<and> (\<forall>d \<in> set (Ble_Dev_Exist t). 0 \<le> time_Dead d \<and> time_Dead d \<le> BLE_DEAD_MAX_TIME)"
  by (rule ble_rounds_safe) (simp add: scan_round_def)

text \<open>A scan round stays within the 30-entry \<open>scan_info\<close> array exactly when the radio reports at
  most 30 devices; the 31st report of a round makes the callback write behind the array.\<close>

theorem scan_round_overrun_iff:
  assumes "ble_inv s" and "list_all (\<lambda>a. length a = 6) found"
  shows "prvThreadEntry_Ble_Call_body s found = None \<longleftrightarrow> 30 < length found"
  using Ble_Call_body_iff [OF assms] by (metis not_None_eq not_less)

theorem scan_round_overrun_iff_witness:
  "prvThreadEntry_Ble_Call_body init_gateway (replicate 31 [1,2,3,4,5,6]) = None"
  using scan_round_overrun_iff [OF ble_inv_init, of "replicate 31 [1,2,3,4,5,6]"] by (simp add: list_all_iff)

text \<open>After \<open>Upate_White_Name\<close> the white-list flag of every occupied entry is 1 exactly when
  its address is in the configured white list, and nothing else of the table has changed.\<close>

theorem Upate_White_Name_correct:
  assumes "sized s" and "i < 200"
  shows "(bdAddress (Ble_Dev_Exist s ! i) \<noteq> zero_addr \<longrightarrow>
      Fg_Is_White (Ble_Dev_Exist (Upate_White_Name s) ! i) =
        (if bdAddress (Ble_Dev_Exist s ! i) \<in> set (White_Name_Ble s) then 1 else 0)) \<and>
    bdAddress (Ble_Dev_Exist (Upate_White_Name s) ! i) = bdAddress (Ble_Dev_Exist s ! i) \<and>
    time_Dead (Ble_Dev_Exist (Upate_White_Name s) ! i) = time_Dead (Ble_Dev_Exist s ! i)"
  using assms mark_dev_flag [of "Ble_Dev_Exist s ! i" "White_Name_Ble s"]
  by (auto simp: sized_def list_all_length Upate_White_Name_def)

theorem Upate_White_Name_correct_witness:
  "Fg_Is_White (Ble_Dev_Exist (Upate_White_Name
     (init_gateway\<lparr>White_Name_Ble := replicate 100 [1,2,3,4,5,6],
       Ble_Dev_Exist := replicate 200 (zero_dev\<lparr>bdAddress := [1,2,3,4,5,6]\<rparr>)\<rparr>)) ! 7) = 1"
proof -
  let ?s = "init_gateway\<lparr>White_Name_Ble := replicate 100 [1,2,3,4,5,6],
       Ble_Dev_Exist := replicate 200 (zero_dev\<lparr>bdAddress := [1,2,3,4,5,6]\<rparr>)\<rparr>"
  have "sized ?s" using sized_init by (simp add: sized_def list_all_iff)
  then show ?thesis using Upate_White_Name_correct [of ?s 7] by (simp add: zero_addr_eq)
qed

text \<open>\<open>Find_Ble\<close> on an address the table already holds changes entry 6 only (the number of
  compared bytes is taken for the position): when the device sits in another entry, the age of that
  entry is not reset by the new sighting.\<close>

theorem Find_Ble_refreshes_entry_6:
  assumes "sized s" and "length pt = 6" and "bdAddress (Ble_Dev_Exist s ! i) = pt" and "i < 200"
  shows "\<exists>t. Find_Ble pt s = Some t \<and> time_Dead (Ble_Dev_Exist t ! 6) = 0 \<and>
    (i \<noteq> 6 \<longrightarrow> Ble_Dev_Exist t ! i = Ble_Dev_Exist s ! i)"
proof -
  have "length (Ble_Dev_Exist s) = 200" using assms(1) by (simp add: sized_def)
  with assms have "pt \<in> bdAddress ` set (Ble_Dev_Exist s)" by (metis imageI nth_mem)
  from Find_Ble_known [OF assms(1,2) this] \<open>length (Ble_Dev_Exist s) = 200\<close> show ?thesis by simp
qed

theorem Find_Ble_refreshes_entry_6_witness:
  "\<exists>t. Find_Ble [1,2,3,4,5,6] (init_gateway\<lparr>Ble_Dev_Exist := replicate 200 (zero_dev\<lparr>bdAddress := [1,2,3,4,5,6], time_Dead := 9\<rparr>)\<rparr>) = Some t
     \<and> time_Dead (Ble_Dev_Exist t ! 0) = 9"
proof -
  let ?s = "init_gateway\<lparr>Ble_Dev_Exist := replicate 200 (zero_dev\<lparr>bdAddress := [1,2,3,4,5,6], time_Dead := 9\<rparr>)\<rparr>"
  have "sized ?s" using sized_init by (simp add: sized_def list_all_iff)
  then show ?thesis using Find_Ble_refreshes_entry_6 [of ?s "[1,2,3,4,5,6]" 0] by force
qed

end
