(* ===== verification/Report.thy ===== *)
theory Report
  imports HexText Gateway
begin

text \<open>
  The texts the gateway sends: the string helpers and report generators of src/main_xb.c, the
  replies to cloud commands of src/parse.c and the topic and client texts of src/mqtt.c. Every
  generator appends to a C string; the lemmas reduce each of them to one run of the
  \<open>text_builder\<close> interface on \<open>strcat\<close>, from which both the produced text and the exact
  condition for overflowing the destination follow.
\<close>

section \<open>String helpers of src/main_xb.c\<close>

definition Str_2_Cat :: "buf \<Rightarrow> buf \<Rightarrow> buf \<Rightarrow> buf option" where
  "Str_2_Cat pDst p1 p2 = do { d \<leftarrow> c_strcat pDst p1; c_strcat d p2 }"

definition Str_3_Cat :: "buf \<Rightarrow> buf \<Rightarrow> buf \<Rightarrow> buf \<Rightarrow> buf option" where
  "Str_3_Cat pDst p1 p2 p3 = do { d \<leftarrow> Str_2_Cat pDst p1 p2; c_strcat d p3 }"

definition Str_4_Cat :: "buf \<Rightarrow> buf \<Rightarrow> buf \<Rightarrow> buf \<Rightarrow> buf \<Rightarrow> buf option" where
  "Str_4_Cat pDst p1 p2 p3 p4 = do { d \<leftarrow> Str_3_Cat pDst p1 p2 p3; c_strcat d p4 }"

section \<open>Replies of src/parse.c\<close>

text \<open>Each takes the destination array and returns it with the new state; \<open>len\<close> bytes are
  cleared first.\<close>

definition Reply_Restart :: "buf \<Rightarrow> nat \<Rightarrow> gateway \<Rightarrow> (buf \<times> gateway) option" where
  "Reply_Restart msg len s =
     do { m0 \<leftarrow> buf_fill msg 0 0 len;
          imei \<leftarrow> arr_text (nImei (xb_sim s));
          m1 \<leftarrow> Str_3_Cat m0 (str ''\"sn\":\"XBWG'') imei (str ''\",'');
          m2 \<leftarrow> c_strcat m1 (str ''\"cmd\": \"restart\"'');
          n \<leftarrow> c_strlen m2;
          Some (m2, s\<lparr>mqtt_report_Len := int n\<rparr>) }"

definition Reply_Set_Cmd :: "buf \<Rightarrow> nat \<Rightarrow> gateway \<Rightarrow> buf option" where
  "Reply_Set_Cmd msg len s =
     do { m0 \<leftarrow> buf_fill msg 0 0 len;
          imei \<leftarrow> arr_text (nImei (xb_sim s));
          Str_3_Cat m0 (str ''\"mqttip\":\"'') imei (str ''\",'') }"

definition Reply_Cloud_Cmd :: "buf \<Rightarrow> nat \<Rightarrow> gateway \<Rightarrow> (buf \<times> gateway) option" where
  "Reply_Cloud_Cmd msg len s =
     do { m0 \<leftarrow> buf_fill msg 0 0 len;
          m1 \<leftarrow> c_strcat m0 (str ''\"cmd\": \"cloud\"'');
          imei \<leftarrow> arr_text (nImei (xb_sim s));
          m2 \<leftarrow> Str_3_Cat m1 (str ''\"sn\":\"XBWG'') imei (str ''\",'');
          m3 \<leftarrow> c_strcat m2 (str ''\"model1\": \"XB1-2P4G/GZ\"'');
          m4 \<leftarrow> c_strcat m3 (str ''\"baud\": \"115200\"'');
          t_ip \<leftarrow> arr_text (mqttip (Net_Info s));
          m5 \<leftarrow> Str_3_Cat m4 (str ''\"mqttip\":\"'') t_ip (str ''\",'');
          t_port \<leftarrow> arr_text (mqttport (Net_Info s));
          m6 \<leftarrow> Str_3_Cat m5 (str ''\"mqttport\":\"'') t_port (str ''\",'');
          t_dom \<leftarrow> arr_text (domain (Net_Info s));
          m7 \<leftarrow> Str_3_Cat m6 (str ''\"mqttdomain\":\"'') t_dom (str ''\",'');
          t_user \<leftarrow> arr_text (user (Net_Info s));
          m8 \<leftarrow> Str_3_Cat m7 (str ''\"mqttuser\":\"'') t_user (str ''\",'');
          t_pw \<leftarrow> arr_text (pw (Net_Info s));
          m9 \<leftarrow> Str_3_Cat m8 (str ''\"mqttpsw\":\"'') t_pw (str ''\",'');
          t_hold \<leftarrow> arr_text (hold_Time (Net_Info s));
          m10 \<leftarrow> Str_3_Cat m9 (str ''\"mqtttime\":\"'') t_hold (str ''\",'');
          t_will \<leftarrow> arr_text (lastWill (Net_Info s));
          m11 \<leftarrow> Str_3_Cat m10 (str ''\"laswill\":\"'') t_will (str ''\",'');
          m12 \<leftarrow> Str_3_Cat m11 (str ''\"ts\":\":\"'') (str ''12345678'') (str ''\",'');
          t_ccid \<leftarrow> arr_text (iccid (xb_sim s));
          m13 \<leftarrow> Str_3_Cat m12 (str ''\"iccid\":\"'') t_ccid (str ''\"'');
          n \<leftarrow> c_strlen m13;
          Some (m13, s\<lparr>mqtt_report_Len := int n\<rparr>) }"

text \<open>\<open>Reply_Zone\<close> clears the 512 bytes of \<open>mqtt_report_Msg\<close>, whatever \<open>msg\<close> is.\<close>

definition Reply_Zone :: "buf \<Rightarrow> u16 \<Rightarrow> u8 \<Rightarrow> buf option" where
  "Reply_Zone msg v zone =
     do { m0 \<leftarrow> buf_fill msg 0 0 MSG_REPLY_LEN;
          m1 \<leftarrow> c_strcat m0 (str ''result'');
          m2 \<leftarrow> (if zone = 0 then c_strcat m1 (str ''0:'')
                else if zone = 1 then c_strcat m1 (str ''1:'') else Some m1);
          tmp_buf \<leftarrow> convert_hex_Asc [hi8 v, lo8 v] 2 (replicate 8 0);
          t \<leftarrow> arr_text tmp_buf;
          c_strcat m2 t }"

section \<open>Topics and client texts of src/mqtt.c\<close>

definition Getnrate_Will_Topic :: "buf option" where
  "Getnrate_Will_Topic = buf_write (replicate 64 0) 0 (str ''Gateway/xbzl/will'' @ [0])"

definition Getnrate_Will_Msg :: "gateway \<Rightarrow> buf option" where
  "Getnrate_Will_Msg s =
     do { imei \<leftarrow> arr_text (nImei (xb_sim s));
          m1 \<leftarrow> c_strcat (replicate 64 0) imei;
          c_strcat m1 (str ''offline'') }"

definition Generate_Client_id :: "buf \<Rightarrow> nat \<Rightarrow> gateway \<Rightarrow> buf option" where
  "Generate_Client_id pt len s =
     do { m0 \<leftarrow> buf_fill pt 0 0 len; imei \<leftarrow> arr_text (nImei (xb_sim s)); c_strcat m0 imei }"

definition Gernerate_Topic_ctrl :: "buf \<Rightarrow> nat \<Rightarrow> gateway \<Rightarrow> buf option" where
  "Gernerate_Topic_ctrl topic len s =
     do { m0 \<leftarrow> buf_fill topic 0 0 len;
          m1 \<leftarrow> c_strcat m0 (str ''Gateway/XBWG'');
          imei \<leftarrow> arr_text (nImei (xb_sim s));
          m2 \<leftarrow> c_strcat m1 imei;
          c_strcat m2 (str ''/state'') }"

definition Gernerate_Topic_Rec_Cmd :: "buf \<Rightarrow> nat \<Rightarrow> gateway \<Rightarrow> buf option" where
  "Gernerate_Topic_Rec_Cmd topic len s =
     do { m0 \<leftarrow> buf_fill topic 0 0 len;
          m1 \<leftarrow> c_strcat m0 (str ''Gateway/XBWG'');
          imei \<leftarrow> arr_text (nImei (xb_sim s));
          m2 \<leftarrow> c_strcat m1 imei;
          c_strcat m2 (str ''/ctr'') }"

section \<open>The periodic report of src/main_xb.c\<close>

text \<open>\<open>snprintf\<close> into a cleared local array of \<open>n\<close> bytes, then read as a string.\<close>

definition local_text :: "nat \<Rightarrow> buf \<Rightarrow> buf option" where
  "local_text n t = do { b \<leftarrow> c_snprintf (replicate n 0) n t; arr_text b }"

definition Generate_White_Name :: "buf \<Rightarrow> buf option" where
  "Generate_White_Name msg =
     do { m1 \<leftarrow> Str_3_Cat msg (str '','') (str ''111234567890'') (str ''-'');
          Str_2_Cat m1 (str ''221234567890'') (str '' '') }"

text \<open>The loop over \<open>scan_info[i]\<close>: \<open>i <= BLE_num_Scan - 1\<close> holds in every round, so the
  separator always follows the address.\<close>

fun Generate_All_Name_loop :: "nat \<Rightarrow> nat \<Rightarrow> gateway \<Rightarrow> buf \<Rightarrow> buf option" where
  "Generate_All_Name_loop 0 i s msg = Some msg"
| "Generate_All_Name_loop (Suc n) i s msg =
     do { a \<leftarrow> rd (scan_info s) i;
          mac \<leftarrow> convert_hex_Asc a 6 (replicate 16 0);
          t \<leftarrow> arr_text mac;
          m \<leftarrow> (if int i \<le> uint (BLE_num_Scan s) - 1 then Str_2_Cat msg t (str ''-'')
               else Str_2_Cat msg (str '','') t);
          Generate_All_Name_loop n (i + 1) s m }"

definition Generate_All_Name :: "buf \<Rightarrow> gateway \<Rightarrow> buf option" where
  "Generate_All_Name msg s =
     (if value_zone_0 s AND push_bit 9 1 = 0 then Some msg
      else if BLE_num_Scan s = 0 then Some msg
      else do { m1 \<leftarrow> c_strcat msg (str '','');
                Generate_All_Name_loop (unat (BLE_num_Scan s)) 0 s m1 })"

definition Generate_pos :: "buf \<Rightarrow> gateway \<Rightarrow> buf option" where
  "Generate_pos msg s =
     do { lat \<leftarrow> local_text 16 (fmt_f 8 (pos_lat s));
          m1 \<leftarrow> Str_2_Cat msg lat (str ''-'');
          lng \<leftarrow> local_text 16 (fmt_f 8 (pos_lng s));
          c_strcat m1 lng }"

definition time_text :: "nwy_time_t \<Rightarrow> buf" where
  "time_text t = fmt_d (uint (year t)) @ str ''-'' @ fmt_d (uint (mon t)) @ str ''-'' @ fmt_d (uint (day t)) @
     str '' '' @ fmt_d (uint (hour t)) @ str '':'' @ fmt_d (uint (min_of t)) @ str '':'' @ fmt_d (uint (sec t))"

text \<open>\<open>now\<close> is the time \<open>nwy_get_time\<close> stores in \<open>xb_time\<close>.\<close>

definition Generate_Time :: "nwy_time_t \<Rightarrow> buf \<Rightarrow> gateway \<Rightarrow> (buf \<times> gateway) option" where
  "Generate_Time now msg s =
     do { t \<leftarrow> local_text 32 (time_text now);
          m \<leftarrow> Str_2_Cat msg (str '','') t;
          Some (m, s\<lparr>xb_time := now\<rparr>) }"

definition Generate_Zone :: "buf \<Rightarrow> u16 \<Rightarrow> buf option" where
  "Generate_Zone msg v = do { t \<leftarrow> local_text 16 (fmt_02x (unat v)); Str_2_Cat msg (str '','') t }"

definition Generate_Tempera :: "buf \<Rightarrow> f32 \<Rightarrow> buf option" where
  "Generate_Tempera msg v = do { t \<leftarrow> local_text 16 (fmt_f 1 v); Str_2_Cat msg (str '','') t }"

definition Generate_Signal :: "buf \<Rightarrow> u8 \<Rightarrow> buf option" where
  "Generate_Signal msg v = do { t \<leftarrow> local_text 16 (fmt_d (uint v)); Str_2_Cat msg (str '','') t }"

definition Generate_Comm :: "buf \<Rightarrow> gateway \<Rightarrow> buf option" where
  "Generate_Comm msg s =
     do { m1 \<leftarrow> Generate_Zone msg (value_zone_0 s);
          m2 \<leftarrow> Generate_Zone m1 (value_zone_1 s);
          m3 \<leftarrow> Generate_Tempera m2 (temp_IC s);
          m4 \<leftarrow> Generate_Tempera m3 (voltage_Input s);
          m5 \<leftarrow> Generate_White_Name m4;
          Generate_All_Name m5 s }"

fun Generate_OnLine_loop :: "nat \<Rightarrow> nat \<Rightarrow> gateway \<Rightarrow> buf \<Rightarrow> buf option" where
  "Generate_OnLine_loop 0 i s msg = Some msg"
| "Generate_OnLine_loop (Suc n) i s msg =
     do { d \<leftarrow> rd (xb_SubDev_SN s) (i - 1);
          m \<leftarrow> c_strcat msg (if No_Ans_Cnt d = 3 then str ''0'' else str ''1'');
          Generate_OnLine_loop n (i + 1) s m }"

definition Generate_OnLine :: "buf \<Rightarrow> gateway \<Rightarrow> buf option" where
  "Generate_OnLine msg s =
     do { m1 \<leftarrow> c_strcat msg (str '','');
          m2 \<leftarrow> Generate_OnLine_loop (unat (Dev_Num s)) 1 s m1;
          c_strcat m2 (str '','') }"

text \<open>\<open>csq\<close> and \<open>now\<close> are what the module reports as signal quality and time.\<close>

definition Generate_Report_WG_Info :: "u8 \<Rightarrow> nwy_time_t \<Rightarrow> gateway \<Rightarrow> gateway option" where
  "Generate_Report_WG_Info csq now s =
     do { ccid \<leftarrow> arr_text (iccid (xb_sim s));
          m1 \<leftarrow> Str_2_Cat (replicate 1024 0) (str ''0,'') ccid;
          m2 \<leftarrow> Generate_Signal m1 csq;
          (m3, s1) \<leftarrow> Generate_Time now m2 s;
          m4 \<leftarrow> Generate_Comm m3 s1;
          m5 \<leftarrow> Generate_pos m4 s1;
          m6 \<leftarrow> Generate_Signal m5 (Dev_Num s1);
          m7 \<leftarrow> Generate_OnLine m6 s1;
          m8 \<leftarrow> c_strcat m7 (str ''}'');
          n \<leftarrow> c_strlen m8;
          r0 \<leftarrow> buf_fill (mqtt_report_Msg s1) 0 0 MSG_REPLY_LEN;
          r \<leftarrow> buf_write r0 0 (take n m8);
          Some (s1\<lparr>mqtt_report_Msg := r, mqtt_report_Len := int n\<rparr>) }"

definition Genrate_Zone1 :: "gateway \<Rightarrow> gateway" where
  "Genrate_Zone1 s =
     (let z1 = (if f32_gt (temp_IC s) 75 then value_zone_1 s OR push_bit 2 1 else value_zone_1 s);
          z2 = (if f32_lt (temp_IC s) (-30) then z1 OR push_bit 3 1 else z1);
          z3 = (if f32_gt (voltage_Input s) 275 then z2 OR push_bit 0 1 else z2);
          z4 = (if f32_lt (voltage_Input s) 161 then z3 OR push_bit 1 1 else z3)
      in s\<lparr>value_zone_1 := z4\<rparr>)"

text \<open>\<open>last_Zone1\<close> is the function's static variable.\<close>

definition Poll_Report_Zone1 :: "u16 \<Rightarrow> gateway \<Rightarrow> u16 \<times> gateway" where
  "Poll_Report_Zone1 last_Zone1 s =
     (let s1 = Genrate_Zone1 s
      in (if value_zone_1 s1 \<noteq> last_Zone1 then value_zone_1 s1 else last_Zone1, s1))"


section \<open>Appending as one run of the builder\<close>

lemma cat_1: "c_strcat d a = cat.append_all d [a]"
  by (simp add: Option.bind_eq_Some_conv)

lemma Str_2_Cat_eq: "Str_2_Cat d a b = cat.append_all d [a, b]"
  by (simp add: Str_2_Cat_def)

lemma Str_3_Cat_eq: "Str_3_Cat d a b c = cat.append_all d [a, b, c]"
  by (simp add: Str_3_Cat_def Str_2_Cat_def)

lemma Str_4_Cat_eq: "Str_4_Cat d a b c e = cat.append_all d [a, b, c, e]"
  by (simp add: Str_4_Cat_def Str_3_Cat_def Str_2_Cat_def)

lemma append_all_bind: "do { m \<leftarrow> cat.append_all d ts; cat.append_all m us } = cat.append_all d (ts @ us)"
  by (simp add: cat.append_all_append)

lemma append_all_bind2:
  "do { m \<leftarrow> cat.append_all d ts; do { m' \<leftarrow> cat.append_all m us; f m' } } =
   do { m' \<leftarrow> cat.append_all d (ts @ us); f m' }"
  by (simp add: cat.append_all_append Option.bind_assoc)

text \<open>A run on a cleared array of \<open>n\<close> bytes: the text is what was appended, and the run has a
  result exactly when text and terminator fit.\<close>

lemma fresh_run:
  assumes "0 < n" and "\<forall>t \<in> set ts. 0 \<notin> set t" and "length (concat ts) < n"
  obtains m where "cat.append_all (replicate n 0) ts = Some m" "terminated m" "length m = n" "c_str m = concat ts"
proof -
  obtain m where m: "cat.append_all (replicate n 0) ts = Some m" "terminated m" "c_str m = concat ts"
    using cat.append_all_ok [of "replicate n 0" ts] assms by force
  moreover have "length m' = length b" if "cat.append_all b us = Some m'" for b us m'
    using that by (induction b us rule: cat.append_all.induct) (auto simp: Option.bind_eq_Some_conv dest: c_strcat_length)
  ultimately show thesis using that by fastforce
qed

lemma fresh_run_full:
  assumes "0 < n" and "\<forall>t \<in> set ts. 0 \<notin> set t" and "n \<le> length (concat ts)"
  shows "cat.append_all (replicate n 0) ts = None"
  using cat.append_all_full [of "replicate n 0" ts] assms by simp

section \<open>The cloud reply\<close>

definition net_terminated :: "Net_Set_Typedef \<Rightarrow> bool" where
  "net_terminated n = (terminated (mqttip n) \<and> terminated (mqttport n) \<and> terminated (domain n) \<and>
     terminated (user n) \<and> terminated (pw n) \<and> terminated (hold_Time n) \<and> terminated (lastWill n))"

definition sim_terminated :: "nwy_sim_result_type \<Rightarrow> bool" where
  "sim_terminated x = (terminated (iccid x) \<and> terminated (nImei x))"

text \<open>The text the reply must have.\<close>

definition cloud_texts :: "gateway \<Rightarrow> buf list" where
  "cloud_texts s =
    [str ''\"cmd\": \"cloud\"'', str ''\"sn\":\"XBWG'', c_str (nImei (xb_sim s)), str ''\",'',
     str ''\"model1\": \"XB1-2P4G/GZ\"'', str ''\"baud\": \"115200\"'',
     str ''\"mqttip\":\"'', c_str (mqttip (Net_Info s)), str ''\",'',
     str ''\"mqttport\":\"'', c_str (mqttport (Net_Info s)), str ''\",'',
     str ''\"mqttdomain\":\"'', c_str (domain (Net_Info s)), str ''\",'',
     str ''\"mqttuser\":\"'', c_str (user (Net_Info s)), str ''\",'',
     str ''\"mqttpsw\":\"'', c_str (pw (Net_Info s)), str ''\",'',
     str ''\"mqtttime\":\"'', c_str (hold_Time (Net_Info s)), str ''\",'',
     str ''\"laswill\":\"'', c_str (lastWill (Net_Info s)), str ''\",'',
     str ''\"ts\":\":\"'', str ''12345678'', str ''\",'',
     str ''\"iccid\":\"'', c_str (iccid (xb_sim s)), str ''\"'']"

lemma Reply_Cloud_Cmd_eq:
  assumes "net_terminated (Net_Info s)" and "sim_terminated (xb_sim s)"
  shows "Reply_Cloud_Cmd msg len s =
    do { m0 \<leftarrow> buf_fill msg 0 0 len; m \<leftarrow> cat.append_all m0 (cloud_texts s); n \<leftarrow> c_strlen m;
         Some (m, s\<lparr>mqtt_report_Len := int n\<rparr>) }"
  using assms
  by (simp add: Reply_Cloud_Cmd_def cloud_texts_def net_terminated_def sim_terminated_def
      Str_3_Cat_def Str_2_Cat_def)

lemma cloud_texts_length:
  assumes "sized s" and "net_terminated (Net_Info s)" and "sim_terminated (xb_sim s)"
  shows "length (concat (cloud_texts s)) < 512"
  using assms terminated_length [of "nImei (xb_sim s)"] terminated_length [of "iccid (xb_sim s)"]
    terminated_length [of "mqttip (Net_Info s)"] terminated_length [of "mqttport (Net_Info s)"]
    terminated_length [of "domain (Net_Info s)"] terminated_length [of "user (Net_Info s)"]
    terminated_length [of "pw (Net_Info s)"] terminated_length [of "hold_Time (Net_Info s)"]
    terminated_length [of "lastWill (Net_Info s)"]
  by (simp add: cloud_texts_def net_terminated_def sim_terminated_def sized_def Net_Set_sized_def)

lemma cloud_texts_nonzero: "\<forall>t \<in> set (cloud_texts s). 0 \<notin> set t"
  by (simp add: cloud_texts_def)

lemma Reply_Cloud_Cmd_ok:
  assumes "sized s" and "net_terminated (Net_Info s)" and "sim_terminated (xb_sim s)" and "length msg = 512"
  shows "\<exists>m. Reply_Cloud_Cmd msg 512 s = Some (m, s\<lparr>mqtt_report_Len := int (length (concat (cloud_texts s)))\<rparr>) \<and>
    terminated m \<and> length m = 512 \<and> c_str m = concat (cloud_texts s)"
proof -
  obtain m where "cat.append_all (replicate 512 0) (cloud_texts s) = Some m" "terminated m" "length m = 512"
      "c_str m = concat (cloud_texts s)"
    using fresh_run [of 512 "cloud_texts s"] cloud_texts_nonzero cloud_texts_length [OF assms(1-3)] by auto
  with assms(4) show ?thesis
    by (simp add: Reply_Cloud_Cmd_eq [OF assms(2,3)] buf_fill_all cstr_simps)
qed


section \<open>The periodic report\<close>

lemma local_text_eq: "0 < n \<Longrightarrow> 0 \<notin> set t \<Longrightarrow> local_text n t = Some (take (n - 1) t)"
proof -
  assume n: "0 < n" and t: "0 \<notin> set t"
  have "0 \<notin> set (take (n - 1) t)" using t by (auto dest: in_set_takeD)
  then have "c_str (take (n - 1) t @ 0 # r) = take (n - 1) t" for r by (rule c_str_append_zero)
  then show ?thesis using n by (simp add: local_text_def c_snprintf_def buf_write_def arr_text_def terminated_def)
qed

lemma zero_notin_fmt_f: "0 \<notin> set (fmt_f d x)"
  by (cases x) (use digit_nonzero [OF dec_digits_are_digits] in \<open>auto simp: Let_def\<close>)

lemma zero_notin_time_text: "0 \<notin> set (time_text t)"
  by (simp add: time_text_def)

lemmas local_texts = local_text_eq zero_notin_fmt_f zero_notin_time_text

lemma mac_text:
  assumes "length a = 6"
  shows "\<exists>m. convert_hex_Asc a 6 (replicate 16 0) = Some m \<and> arr_text m = Some (asc.text_of a)"
proof -
  have "c_str (asc.text_of a @ 0 # r) = asc.text_of a" for r by (rule c_str_append_zero) simp
  moreover have "replicate 4 (0 :: u8) = 0 # replicate 3 0" by (simp add: numeral_eq_Suc)
  ultimately show ?thesis using assms by (simp add: convert_hex_Asc_eq arr_text_def terminated_def)
qed

definition mac_texts :: "buf list \<Rightarrow> buf list" where
  "mac_texts as = concat (map (\<lambda>a. [asc.text_of a, str ''-'']) as)"

lemma mac_texts_simps [simp]:
  "mac_texts [] = []" "mac_texts (a # as) = asc.text_of a # str ''-'' # mac_texts as"
  by (simp_all add: mac_texts_def)

lemma Generate_All_Name_loop_eq:
  assumes "i + n = unat (BLE_num_Scan s)" and "sized s" and "BLE_num_Scan s \<le> 30"
  shows "Generate_All_Name_loop n i s msg = cat.append_all msg (mac_texts (take n (drop i (scan_info s))))"
  using assms(1)
proof (induction n arbitrary: i msg)
  case 0
  then show ?case by simp
next
  case (Suc n)
  have b: "i < 30" using Suc.prems assms(3) by (simp add: word_le_nat_alt)
  then have i: "i < length (scan_info s)" "length (scan_info s ! i) = 6"
    using assms(2) by (auto simp: sized_def list_all_length)
  obtain m where m: "convert_hex_Asc (scan_info s ! i) 6 (replicate 16 0) = Some m"
      "arr_text m = Some (asc.text_of (scan_info s ! i))"
    using mac_text [OF i(2)] by blast
  have le: "int i \<le> uint (BLE_num_Scan s) - 1"
    using Suc.prems by (metis add_Suc_right le_diff_eq less_add_same_cancel1 of_nat_Suc of_nat_le_iff add.commute
        uint_nat Suc_leI zero_less_Suc)
  have "take (Suc n) (drop i (scan_info s)) = scan_info s ! i # take n (drop (i + 1) (scan_info s))"
    using i(1) by (simp add: Cons_nth_drop_Suc [symmetric])
  moreover have "Generate_All_Name_loop n (i + 1) s = (\<lambda>m. cat.append_all m (mac_texts (take n (drop (i + 1) (scan_info s)))))"
    using Suc.IH [of "i + 1"] Suc.prems by (intro ext) simp
  ultimately show ?case using i m le by (simp add: Str_2_Cat_def)
qed

definition ble_texts :: "gateway \<Rightarrow> buf list" where
  "ble_texts s =
     (if value_zone_0 s AND push_bit 9 1 = 0 \<or> BLE_num_Scan s = 0 then []
      else str '','' # mac_texts (take (unat (BLE_num_Scan s)) (scan_info s)))"

lemma Generate_All_Name_eq:
  "sized s \<Longrightarrow> BLE_num_Scan s \<le> 30 \<Longrightarrow> Generate_All_Name msg s = cat.append_all msg (ble_texts s)"
proof -
  assume "sized s" and "BLE_num_Scan s \<le> 30"
  then have "Generate_All_Name_loop (unat (BLE_num_Scan s)) 0 s =
      (\<lambda>m. cat.append_all m (mac_texts (take (unat (BLE_num_Scan s)) (scan_info s))))"
    using Generate_All_Name_loop_eq [of 0 "unat (BLE_num_Scan s)" s] by (intro ext) simp
  then show ?thesis by (simp add: Generate_All_Name_def ble_texts_def)
qed

definition online_texts :: "XB_Sub_Dev_Typedef list \<Rightarrow> buf list" where
  "online_texts ds = map (\<lambda>d. if No_Ans_Cnt d = 3 then str ''0'' else str ''1'') ds"

lemma Generate_OnLine_loop_eq:
  assumes "1 \<le> i" and "i - 1 + n \<le> 32" and "sized s"
  shows "Generate_OnLine_loop n i s msg = cat.append_all msg (online_texts (take n (drop (i - 1) (xb_SubDev_SN s))))"
  using assms(1,2)
proof (induction n arbitrary: i msg)
  case 0
  then show ?case by (simp add: online_texts_def)
next
  case (Suc n)
  have i: "i - 1 < length (xb_SubDev_SN s)" using Suc.prems assms(3) by (simp add: sized_def)
  have "take (Suc n) (drop (i - 1) (xb_SubDev_SN s)) = xb_SubDev_SN s ! (i - 1) # take n (drop i (xb_SubDev_SN s))"
    by (subst Cons_nth_drop_Suc [OF i, symmetric]) (use Suc.prems in simp)
  moreover have "Generate_OnLine_loop n (i + 1) s = (\<lambda>m. cat.append_all m (online_texts (take n (drop i (xb_SubDev_SN s)))))"
    using Suc.IH [of "i + 1"] Suc.prems by (intro ext) simp
  ultimately show ?case using i by (simp add: online_texts_def)
qed

text \<open>The text the report must have.\<close>

definition report_texts :: "u8 \<Rightarrow> nwy_time_t \<Rightarrow> gateway \<Rightarrow> buf list" where
  "report_texts csq now s =
     [str ''0,'', c_str (iccid (xb_sim s)), str '','', take 15 (fmt_d (uint csq)), str '','', take 31 (time_text now),
      str '','', take 15 (fmt_02x (unat (value_zone_0 s))), str '','', take 15 (fmt_02x (unat (value_zone_1 s))),
      str '','', take 15 (fmt_f 1 (temp_IC s)), str '','', take 15 (fmt_f 1 (voltage_Input s)),
      str '','', str ''111234567890'', str ''-'', str ''221234567890'', str '' ''] @ ble_texts s @
     [take 15 (fmt_f 8 (pos_lat s)), str ''-'', take 15 (fmt_f 8 (pos_lng s)), str '','', take 15 (fmt_d (uint (Dev_Num s))),
      str '',''] @ online_texts (take (unat (Dev_Num s)) (xb_SubDev_SN s)) @ [str '','', str ''}'']"

definition report_ready :: "gateway \<Rightarrow> bool" where
  "report_ready s = (sized s \<and> terminated (iccid (xb_sim s)) \<and> BLE_num_Scan s \<le> 30 \<and> Dev_Num s \<le> 32)"

lemma Generate_Report_eq:
  assumes "report_ready s"
  shows "Generate_Report_WG_Info csq now s =
    do { m \<leftarrow> cat.append_all (replicate 1024 0) (report_texts csq now s);
         n \<leftarrow> c_strlen m;
         r \<leftarrow> buf_write (replicate 512 0) 0 (take n m);
         Some (s\<lparr>xb_time := now, mqtt_report_Msg := r, mqtt_report_Len := int n\<rparr>) }"
proof -
  let ?s = "s\<lparr>xb_time := now\<rparr>"
  have sz: "sized ?s" using assms by (simp add: report_ready_def sized_def)
  have len: "length (mqtt_report_Msg s) = 512" using assms by (simp add: report_ready_def sized_def)
  have dn: "unat (Dev_Num s) \<le> 32" using assms by (simp add: report_ready_def word_le_nat_alt)
  have all: "Generate_All_Name m ?s = cat.append_all m (ble_texts s)" for m
    using Generate_All_Name_eq [OF sz] assms by (simp add: report_ready_def ble_texts_def)
  have on: "Generate_OnLine_loop (unat (Dev_Num s)) (Suc 0) ?s m =
      cat.append_all m (online_texts (take (unat (Dev_Num s)) (xb_SubDev_SN s)))" for m
    using Generate_OnLine_loop_eq [of 1 "unat (Dev_Num s)" ?s m] sz dn by simp
  show ?thesis
    using assms len
    by (simp add: Generate_Report_WG_Info_def report_texts_def report_ready_def Generate_Signal_def Generate_Time_def
        Generate_Comm_def Generate_Zone_def Generate_Tempera_def Generate_White_Name_def Generate_pos_def
        Generate_OnLine_def Str_3_Cat_def Str_2_Cat_def local_texts all on MSG_REPLY_LEN_def buf_fill_all
        cat.append_all_append)
qed


lemma length_le_takes: "length (take n t) \<le> n"
  by simp

lemma length_concat_mac_texts: "list_all (\<lambda>a. length a = 6) as \<Longrightarrow> length (concat (mac_texts as)) = 13 * length as"
  by (induction as) simp_all

lemma length_concat_online: "length (concat (online_texts ds)) = length ds"
  by (induction ds) (simp_all add: online_texts_def)

lemma ble_texts_length:
  assumes "sized s" and "BLE_num_Scan s \<le> 30"
  shows "length (concat (ble_texts s)) \<le> 391"
    and "value_zone_0 s AND push_bit 9 1 = 0 \<Longrightarrow> ble_texts s = []"
proof -
  have "list_all (\<lambda>a. length a = 6) (take n (scan_info s))" for n
    using assms(1) by (auto simp: sized_def list_all_iff dest: in_set_takeD)
  moreover have "length (take (unat (BLE_num_Scan s)) (scan_info s)) \<le> 30" using assms(1) by (simp add: sized_def)
  ultimately show "length (concat (ble_texts s)) \<le> 391"
    by (simp add: ble_texts_def length_concat_mac_texts)
qed (simp add: ble_texts_def)

lemma report_texts_length:
  assumes "report_ready s"
  shows "length (concat (report_texts csq now s)) \<le> 255 + length (concat (ble_texts s))"
proof -
  have "length (c_str (iccid (xb_sim s))) \<le> 22"
    using terminated_length [of "iccid (xb_sim s)"] assms by (simp add: report_ready_def sized_def)
  moreover have "length (concat (online_texts (take (unat (Dev_Num s)) (xb_SubDev_SN s)))) \<le> 32"
    using assms by (simp add: length_concat_online report_ready_def sized_def)
  ultimately show ?thesis
    using length_le_takes [of 15 "fmt_d (uint csq)"] length_le_takes [of 31 "time_text now"]
      length_le_takes [of 15 "fmt_02x (unat (value_zone_0 s))"] length_le_takes [of 15 "fmt_02x (unat (value_zone_1 s))"]
      length_le_takes [of 15 "fmt_f 1 (temp_IC s)"] length_le_takes [of 15 "fmt_f 1 (voltage_Input s)"]
      length_le_takes [of 15 "fmt_f 8 (pos_lat s)"] length_le_takes [of 15 "fmt_f 8 (pos_lng s)"]
      length_le_takes [of 15 "fmt_d (uint (Dev_Num s))"]
    by (simp add: report_texts_def del: length_take)
qed

lemma ble_texts_nonzero: "\<forall>t \<in> set (ble_texts s). 0 \<notin> set t"
  by (auto simp: ble_texts_def mac_texts_def)

lemma report_texts_nonzero: "\<forall>t \<in> set (report_texts csq now s). 0 \<notin> set t"
  using ble_texts_nonzero [of s] zero_notin_time_text [of now] zero_notin_fmt_f zero_notin_fmt_d zero_notin_fmt_02x
  by (auto simp: report_texts_def online_texts_def dest!: in_set_takeD)

lemma length_fmt_d_pos: "1 \<le> length (fmt_d v)"
  using dec_digits_nonempty by (simp add: fmt_d_def Suc_le_eq)

lemma length_fmt_02x_ge: "2 \<le> length (fmt_02x n)"
  by (simp add: fmt_02x_def Let_def)

lemma length_fmt_f: "d + 2 \<le> length (fmt_f d x)"
proof (cases x)
  case (F32 m e)
  have "Suc d \<le> a + (d - b + b)" if "a \<noteq> 0" for a b :: nat using that by arith
  moreover have "d \<le> a + (d - b + b)" for a b :: nat by arith
  ultimately show ?thesis by (simp add: F32 Let_def)
qed

lemma length_time_text: "11 \<le> length (time_text t)"
  using length_fmt_d_pos [of "uint (year t)"] length_fmt_d_pos [of "uint (mon t)"] length_fmt_d_pos [of "uint (day t)"]
    length_fmt_d_pos [of "uint (hour t)"] length_fmt_d_pos [of "uint (min_of t)"] length_fmt_d_pos [of "uint (sec t)"]
  by (simp add: time_text_def)

lemma take_ge: "k \<le> length t \<Longrightarrow> min n k \<le> length (take n t)"
  by simp

lemma take_c_str: "terminated m \<Longrightarrow> take (length (c_str m)) m = c_str m"
  by (metis append_eq_conv_conj terminated_split)

lemma Generate_Report_ok:
  assumes "report_ready s"
  shows "Generate_Report_WG_Info csq now s =
    (let t = concat (report_texts csq now s) in
     if length t \<le> 512
     then Some (s\<lparr>xb_time := now, mqtt_report_Msg := t @ replicate (512 - length t) 0, mqtt_report_Len := int (length t)\<rparr>)
     else None)"
proof -
  have lt: "length (concat (report_texts csq now s)) < 1024"
    using report_texts_length [OF assms, of csq now] ble_texts_length(1) [of s] assms by (simp add: report_ready_def)
  then obtain m where "cat.append_all (replicate 1024 0) (report_texts csq now s) = Some m" "terminated m"
      "length m = 1024" "c_str m = concat (report_texts csq now s)"
    using fresh_run [of 1024 "report_texts csq now s"] report_texts_nonzero by auto
  then show ?thesis
    using take_c_str [of m] lt by (simp add: Generate_Report_eq [OF assms] cstr_simps buf_write_def Let_def min_def)
qed

lemma report_without_ble:
  assumes "report_ready s" and "value_zone_0 s AND push_bit 9 1 = 0"
  shows "\<exists>r k. Generate_Report_WG_Info csq now s = Some (s\<lparr>xb_time := now, mqtt_report_Msg := r, mqtt_report_Len := int k\<rparr>) \<and>
    length r = 512 \<and> 0 < k \<and> k \<le> 255"
proof -
  have "length (concat (report_texts csq now s)) \<le> 255"
    using report_texts_length [OF assms(1), of csq now] ble_texts_length(2) [of s] assms by (simp add: report_ready_def)
  moreover have "2 \<le> length (concat (report_texts csq now s))" by (simp add: report_texts_def)
  ultimately show ?thesis
    by (intro exI [of _ "concat (report_texts csq now s) @ replicate (512 - length (concat (report_texts csq now s))) 0"]
        exI [of _ "length (concat (report_texts csq now s))"])
      (simp add: Generate_Report_ok [OF assms(1)] Let_def del: length_greater_0_conv length_concat)
qed

section \<open>Properties\<close>

text \<open>The cloud query reply never overflows its 512-byte buffer: whatever settings are stored, as long
  as every stored string is terminated inside its array, \<open>Reply_Cloud_Cmd\<close> writes exactly the
  reply text with all settings, terminated, and sets the length to be sent to the length of that text.\<close>

theorem Reply_Cloud_Cmd_safe:
  assumes "sized s" and "net_terminated (Net_Info s)" and "sim_terminated (xb_sim s)" and "length msg = 512"
  shows "\<exists>m. Reply_Cloud_Cmd msg 512 s = Some (m, s\<lparr>mqtt_report_Len := int (length (concat (cloud_texts s)))\<rparr>) \<and>
    terminated m \<and> length m = 512 \<and> c_str m = concat (cloud_texts s)"
  by (rule Reply_Cloud_Cmd_ok [OF assms])

theorem Reply_Cloud_Cmd_safe_witness:
  "\<exists>m. Reply_Cloud_Cmd (replicate 512 0) 512 init_gateway =
      Some (m, init_gateway\<lparr>mqtt_report_Len := int (length (concat (cloud_texts init_gateway)))\<rparr>) \<and>
    terminated m \<and> length m = 512 \<and> c_str m = concat (cloud_texts init_gateway)"
  by (rule Reply_Cloud_Cmd_safe)
    (simp_all add: sized_init net_terminated_def sim_terminated_def Net_Set_of_bytes_def)

text \<open>C22: The periodic report. With consistent tables (at most 30 scanned devices, at most 32
  sub-devices) \<open>Generate_Report_WG_Info\<close> leaves in \<open>mqtt_report_Msg\<close> exactly the report text followed by
  zeros, with its length in \<open>mqtt_report_Len\<close>, when that text has at most 512 bytes; a longer text is
  copied past the end of the 512-byte \<open>mqtt_report_Msg\<close>.\<close>

theorem Generate_Report_WG_Info_correct:
  assumes "report_ready s"
  shows "Generate_Report_WG_Info csq now s =
    (let t = concat (report_texts csq now s) in
     if length t \<le> 512
     then Some (s\<lparr>xb_time := now, mqtt_report_Msg := t @ replicate (512 - length t) 0, mqtt_report_Len := int (length t)\<rparr>)
     else None)"
  by (rule Generate_Report_ok [OF assms])

theorem Generate_Report_WG_Info_correct_witness:
  "Generate_Report_WG_Info 20 (xb_time init_gateway) init_gateway =
    (let t = concat (report_texts 20 (xb_time init_gateway) init_gateway) in
     if length t \<le> 512
     then Some (init_gateway\<lparr>xb_time := xb_time init_gateway, mqtt_report_Msg := t @ replicate (512 - length t) 0,
            mqtt_report_Len := int (length t)\<rparr>)
     else None)"
  by (rule Generate_Report_WG_Info_correct) (simp add: report_ready_def sized_init)

text \<open>As long as the reporting of Bluetooth names is switched off (bit 9 of \<open>value_zone_0\<close>, its
  power-on value), the periodic report always fits: the report is produced for every signal value,
  time, temperature, voltage, position and device table.\<close>

theorem report_fits_without_ble:
  assumes "report_ready s" and "value_zone_0 s AND push_bit 9 1 = 0"
  shows "\<exists>t. Generate_Report_WG_Info csq now s = Some t \<and> 0 < mqtt_report_Len t \<and> mqtt_report_Len t \<le> 255"
  using report_without_ble [OF assms, of csq now] by auto

theorem report_fits_without_ble_witness:
  "\<exists>t. Generate_Report_WG_Info 31 (xb_time init_gateway) (init_gateway\<lparr>Dev_Num := 32, BLE_num_Scan := 30\<rparr>) = Some t \<and>
     0 < mqtt_report_Len t \<and> mqtt_report_Len t \<le> 255"
  by (rule report_fits_without_ble) (use sized_init in \<open>simp_all add: report_ready_def sized_def\<close>)

text \<open>With the reporting of Bluetooth names switched on, 30 scanned devices, 32 sub-devices and a
  19-character card number the report does not fit and runs past \<open>mqtt_report_Msg\<close>.\<close>

theorem report_overflow_with_ble:
  assumes "report_ready s" and "BLE_num_Scan s = 30" and "Dev_Num s = 32" and "value_zone_0 s AND push_bit 9 1 \<noteq> 0"
    and "19 \<le> length (c_str (iccid (xb_sim s)))"
  shows "Generate_Report_WG_Info csq now s = None"
proof -
  have "list_all (\<lambda>a. length a = 6) (scan_info s)" "length (scan_info s) = 30" "length (xb_SubDev_SN s) = 32"
    using assms(1) by (simp_all add: report_ready_def sized_def)
  then have b: "length (concat (ble_texts s)) = 391" and o: "length (concat (online_texts (take (unat (Dev_Num s)) (xb_SubDev_SN s)))) = 32"
    using assms(2-4) length_concat_mac_texts [of "scan_info s"] by (simp_all add: ble_texts_def length_concat_online)
  have "512 < length (concat (report_texts csq now s))"
    using b o assms(5) take_ge [OF length_fmt_d_pos, of 15 "uint csq"] take_ge [OF length_time_text, of 31 now]
      take_ge [OF length_fmt_02x_ge, of 15 "unat (value_zone_0 s)"] take_ge [OF length_fmt_02x_ge, of 15 "unat (value_zone_1 s)"]
      take_ge [OF length_fmt_f, of 15 1 "temp_IC s"] take_ge [OF length_fmt_f, of 15 1 "voltage_Input s"]
      take_ge [OF length_fmt_f, of 15 8 "pos_lat s"] take_ge [OF length_fmt_f, of 15 8 "pos_lng s"]
      take_ge [OF length_fmt_d_pos, of 15 "uint (Dev_Num s)"]
    by (simp add: report_texts_def del: length_take length_concat)
  then show ?thesis by (simp add: Generate_Report_ok [OF assms(1)] Let_def)
qed

theorem report_overflow_with_ble_witness:
  "Generate_Report_WG_Info 31 (xb_time init_gateway)
     (init_gateway\<lparr>Dev_Num := 32, BLE_num_Scan := 30, value_zone_0 := 0xFFFF,
        xb_sim := \<lparr>iccid = replicate 20 56 @ [0, 0, 0], nImei = replicate 16 0\<rparr>\<rparr>) = None"
proof (rule report_overflow_with_ble)
  have "c_str (replicate 20 56 @ 0 # [0, 0]) = replicate 20 (56 :: u8)" by (rule c_str_append_zero) simp
  then show "19 \<le> length (c_str (iccid (xb_sim (init_gateway\<lparr>Dev_Num := 32, BLE_num_Scan := 30, value_zone_0 := 0xFFFF,
        xb_sim := \<lparr>iccid = replicate 20 56 @ [0, 0, 0], nImei = replicate 16 0\<rparr>\<rparr>))))" by simp
qed (use sized_init in \<open>simp_all add: report_ready_def sized_def terminated_def\<close>)

end
