(* ===== verification/Storage.thy ===== *)
theory Storage
  imports Gateway
begin

text \<open>
  Persistent data, src/file_save.c: the network settings, the zone 4 settings and the white list of
  serial numbers. The flash file system is the SDK's; its four calls are the fields of a record that
  the definitions take as an argument, over an arbitrary type \<open>'w\<close> of file-system states.
  \<open>vfs_spec\<close> is what the code relies on: a file that was truncated, written and closed reads back as
  written, and reading does not change files. Under it, settings survive a restart.
\<close>

section \<open>The file system interface\<close>

datatype open_mode = Rdonly | Creat_Rdwr_Trunc

record 'w vfs =
  nwy_sdk_fopen :: "string \<Rightarrow> open_mode \<Rightarrow> 'w \<Rightarrow> int \<times> 'w"
  nwy_sdk_fwrite :: "int \<Rightarrow> buf \<Rightarrow> 'w \<Rightarrow> int \<times> 'w"
  nwy_sdk_fread :: "int \<Rightarrow> nat \<Rightarrow> 'w \<Rightarrow> int \<times> buf \<times> 'w"
  nwy_sdk_fclose :: "int \<Rightarrow> 'w \<Rightarrow> 'w"

text \<open>The bytes \<open>nwy_sdk_fread\<close> delivers are the second component of its result; the caller's array
  receives them.\<close>

definition file_store :: "'w vfs \<Rightarrow> string \<Rightarrow> buf \<Rightarrow> 'w \<Rightarrow> 'w" where
  "file_store fs name bs w =
     (let (fd, w1) = nwy_sdk_fopen fs name Creat_Rdwr_Trunc w;
          (len, w2) = nwy_sdk_fwrite fs fd bs w1
      in nwy_sdk_fclose fs fd w2)"

definition file_load :: "'w vfs \<Rightarrow> string \<Rightarrow> buf \<Rightarrow> 'w \<Rightarrow> (buf \<times> 'w) option" where
  "file_load fs name dst w =
     (let (fd, w1) = nwy_sdk_fopen fs name Rdonly w;
          (len, bs, w2) = nwy_sdk_fread fs fd (length dst) w1
      in do { d \<leftarrow> buf_write dst 0 bs; Some (d, nwy_sdk_fclose fs fd w2) })"

text \<open>The third law is about the sequence \<open>open with truncation, read, write, close\<close> of the white list code.\<close>

definition vfs_spec :: "'w vfs \<Rightarrow> ('w \<Rightarrow> string \<Rightarrow> buf) \<Rightarrow> bool" where
  "vfs_spec fs files =
     ((\<forall>name bs w. files (file_store fs name bs w) = (files w)(name := bs)) \<and>
      (\<forall>name n w. case nwy_sdk_fopen fs name Rdonly w of (fd, w1) \<Rightarrow>
         case nwy_sdk_fread fs fd n w1 of (len, bs, w2) \<Rightarrow>
           bs = take n (files w name) \<and> files (nwy_sdk_fclose fs fd w2) = files w) \<and>
      (\<forall>name n w. case nwy_sdk_fopen fs name Creat_Rdwr_Trunc w of (fd, w1) \<Rightarrow>
         case nwy_sdk_fread fs fd n w1 of (len, bs, w2) \<Rightarrow>
           bs = [] \<and> files w2 = (files w)(name := []) \<and>
           (\<forall>cs. files (nwy_sdk_fclose fs fd (snd (nwy_sdk_fwrite fs fd cs w2))) = (files w)(name := cs))))"

section \<open>Network and zone 4 settings\<close>

text \<open>\<open>tmp\<close> is the indeterminate content of the local \<open>tmp_read\<close>, which is only printed.\<close>

definition Test_Add_Net_Info :: "'w vfs \<Rightarrow> buf \<Rightarrow> gateway \<Rightarrow> 'w \<Rightarrow> 'w option" where
  "Test_Add_Net_Info fs tmp s w =
     do { let w1 = file_store fs ''Net_Info_File'' (Net_Set_bytes (Net_Info s)) w;
          (tmp_read, w2) \<leftarrow> file_load fs ''Net_Info_File'' tmp w1;
          Some w2 }"

definition ReadNet_Info :: "'w vfs \<Rightarrow> gateway \<Rightarrow> 'w \<Rightarrow> (gateway \<times> 'w) option" where
  "ReadNet_Info fs s w =
     do { (b, w1) \<leftarrow> file_load fs ''Net_Info_File'' (Net_Set_bytes (Net_Info s)) w;
          Some (s\<lparr>Net_Info := Net_Set_of_bytes b\<rparr>, w1) }"

text \<open>The struct in memory: seven little-endian 16-bit members, one byte and one byte of padding.\<close>

definition le16 :: "u16 \<Rightarrow> buf" where
  "le16 v = [lo8 v, hi8 v]"

definition Zone4_bytes :: "u8 \<Rightarrow> Zone_4_typedef \<Rightarrow> buf" where
  "Zone4_bytes pad z =
     le16 (Temp_Set_Hig z) @ le16 (Temp_Set_Low z) @ le16 (Voltage_Over_Set z) @ le16 (Voltage_Low_Set z) @
     le16 (BLE_Scan_Span z) @ le16 (BLE_Min z) @ le16 (BLE_Hour z) @ [BLE_Week z, pad]"

definition Zone4_of_bytes :: "buf \<Rightarrow> Zone_4_typedef" where
  "Zone4_of_bytes b =
     \<lparr>Temp_Set_Hig = join16 (b ! 1) (b ! 0), Temp_Set_Low = join16 (b ! 3) (b ! 2),
      Voltage_Over_Set = join16 (b ! 5) (b ! 4), Voltage_Low_Set = join16 (b ! 7) (b ! 6),
      BLE_Scan_Span = join16 (b ! 9) (b ! 8), BLE_Min = join16 (b ! 11) (b ! 10),
      BLE_Hour = join16 (b ! 13) (b ! 12), BLE_Week = b ! 14\<rparr>"

text \<open>The read-back asks for \<open>sizeof (Net_Info)\<close> bytes into the 16-byte \<open>tmp_read\<close>.\<close>

definition Test_Write_Zone4_Info :: "'w vfs \<Rightarrow> u8 \<Rightarrow> buf \<Rightarrow> gateway \<Rightarrow> 'w \<Rightarrow> 'w option" where
  "Test_Write_Zone4_Info fs pad tmp s w =
     (let w1 = file_store fs ''Zone4_Info_File'' (Zone4_bytes pad (Zone4_Info s)) w;
          (fd, w2) = nwy_sdk_fopen fs ''Zone4_Info_File'' Rdonly w1;
          (len, bs, w3) = nwy_sdk_fread fs fd 224 w2
      in do { tmp_read \<leftarrow> buf_write tmp 0 bs; Some (nwy_sdk_fclose fs fd w3) })"

definition ReadZone4_Info :: "'w vfs \<Rightarrow> u8 \<Rightarrow> gateway \<Rightarrow> 'w \<Rightarrow> (gateway \<times> 'w) option" where
  "ReadZone4_Info fs pad s w =
     do { (b, w1) \<leftarrow> file_load fs ''Zone4_Info_File'' (Zone4_bytes pad (Zone4_Info s)) w;
          Some (s\<lparr>Zone4_Info := Zone4_of_bytes b\<rparr>, w1) }"

section \<open>The white list of serial numbers\<close>

definition SN_LEN :: nat where "SN_LEN = 8"

text \<open>\<open>strcmp (a, b) == 0\<close>, reading both arrays up to the first difference.\<close>

fun c_strcmp0 :: "buf \<Rightarrow> buf \<Rightarrow> bool option" where
  "c_strcmp0 (x # a) (y # b) = (if x \<noteq> y then Some False else if x = 0 then Some True else c_strcmp0 a b)"
| "c_strcmp0 _ _ = None"

text \<open>The walk \<open>while (*pt != 0)\<close> in steps of \<open>SN_LEN\<close> over \<open>File_White_Num\<close>: the index at which the name
  was found, or the index at which the walk ended.\<close>

function find_name :: "buf \<Rightarrow> buf \<Rightarrow> nat \<Rightarrow> (nat + nat) option" where
  "find_name arr name index =
     (case rd arr (SN_LEN * index) of
        None \<Rightarrow> None
      | Some c \<Rightarrow>
          if c = 0 then Some (Inr index)
          else do { eq \<leftarrow> c_strcmp0 (drop (SN_LEN * index) arr) name;
                    if eq then Some (Inl index) else find_name arr name (index + 1) })"
  by pat_completeness auto
termination
  by (relation "measure (\<lambda>(arr, name, index). length arr - index)") (auto simp: rd_def SN_LEN_def split: if_splits)

declare find_name.simps [simp del]

text \<open>Both operations open the list file with \<open>NWY_TRUNC\<close> and then read it into \<open>File_White_Num\<close>. They
  return the result, the array and the file-system state.\<close>

definition open_names :: "'w vfs \<Rightarrow> buf \<Rightarrow> 'w \<Rightarrow> (int \<times> buf \<times> 'w) option" where
  "open_names fs arr w =
     (let (fd, w1) = nwy_sdk_fopen fs ''White_Name_1'' Creat_Rdwr_Trunc w;
          (len, bs, w2) = nwy_sdk_fread fs fd 800 w1
      in do { a \<leftarrow> buf_write arr 0 bs; Some (fd, a, w2) })"

definition add_name :: "'w vfs \<Rightarrow> buf \<Rightarrow> buf \<Rightarrow> 'w \<Rightarrow> (int \<times> buf \<times> 'w) option" where
  "add_name fs arr name w =
     do { (fd, a, w1) \<leftarrow> open_names fs arr w;
          r \<leftarrow> find_name a name 0;
          case r of
            Inl i \<Rightarrow> Some (-1, a, w1)
          | Inr index \<Rightarrow>
              do { n \<leftarrow> (if terminated name then Some (c_str name) else None);
                   a' \<leftarrow> c_strcat a n;
                   k \<leftarrow> c_strlen a';
                   let (len, w2) = nwy_sdk_fwrite fs fd (take k a') w1;
                   Some (int index, a', nwy_sdk_fclose fs fd w2) } }"

text \<open>\<open>strcat (File_White_Num, pt_Last)\<close> copies inside one array; the regions overlap when eight or
  more bytes are moved, which is undefined.\<close>

definition Del_Name :: "'w vfs \<Rightarrow> buf \<Rightarrow> buf \<Rightarrow> 'w \<Rightarrow> (int \<times> buf \<times> 'w) option" where
  "Del_Name fs arr name w =
     do { (fd, a, w1) \<leftarrow> open_names fs arr w;
          r \<leftarrow> find_name a name 0;
          case r of
            Inr index \<Rightarrow> Some (-1, a, w1)
          | Inl i \<Rightarrow>
              do { a1 \<leftarrow> buf_fill a (SN_LEN * i) 0 SN_LEN;
                   rest \<leftarrow> (if terminated (drop (SN_LEN * i + SN_LEN) a1)
                           then Some (c_str (drop (SN_LEN * i + SN_LEN) a1)) else None);
                   a2 \<leftarrow> (if length rest < SN_LEN then c_strcat a1 rest else None);
                   k \<leftarrow> c_strlen a2;
                   let (len, w2) = nwy_sdk_fwrite fs fd (take k a2) w1;
                   Some (0, a2, nwy_sdk_fclose fs fd w2) } }"

section \<open>Settings survive a restart\<close>

lemma file_load_after:
  assumes "vfs_spec fs files" and "length (files w name) = length dst"
  shows "\<exists>w'. file_load fs name dst w = Some (files w name, w') \<and> files w' = files w"
proof -
  obtain fd w1 where o: "nwy_sdk_fopen fs name Rdonly w = (fd, w1)" by fastforce
  obtain len bs w2 where r: "nwy_sdk_fread fs fd (length dst) w1 = (len, bs, w2)"
    using prod_cases3 by blast
  have "bs = files w name" "files (nwy_sdk_fclose fs fd w2) = files w"
    using assms o r unfolding vfs_spec_def by (metis (mono_tags, lifting) case_prod_conv take_all_iff order_refl)+
  with o r assms(2) show ?thesis by (simp add: file_load_def buf_write_def)
qed

lemma file_store_files: "vfs_spec fs files \<Longrightarrow> files (file_store fs name bs w) = (files w)(name := bs)"
  by (simp add: vfs_spec_def)

lemma length_Zone4_bytes [simp]: "length (Zone4_bytes pad z) = 16"
  by (simp add: Zone4_bytes_def le16_def)

lemma Zone4_bytes_roundtrip: "Zone4_of_bytes (Zone4_bytes pad z) = z"
  by (simp add: Zone4_bytes_def le16_def Zone4_of_bytes_def numeral_eq_Suc)


lemma Test_Write_Zone4_ok:
  assumes "vfs_spec fs files" and "length tmp = 16"
  shows "\<exists>w1. Test_Write_Zone4_Info fs pad tmp s w = Some w1 \<and>
    files w1 = (files w)(''Zone4_Info_File'' := Zone4_bytes pad (Zone4_Info s))"
proof -
  let ?b = "Zone4_bytes pad (Zone4_Info s)" and ?w = "file_store fs ''Zone4_Info_File'' (Zone4_bytes pad (Zone4_Info s)) w"
  have f: "files ?w = (files w)(''Zone4_Info_File'' := ?b)" by (rule file_store_files [OF assms(1)])
  obtain fd w1 where o: "nwy_sdk_fopen fs ''Zone4_Info_File'' Rdonly ?w = (fd, w1)" by fastforce
  obtain len bs w2 where r: "nwy_sdk_fread fs fd 224 w1 = (len, bs, w2)" using prod_cases3 by blast
  have "case nwy_sdk_fopen fs ''Zone4_Info_File'' Rdonly ?w of (fd, w1) \<Rightarrow>
         case nwy_sdk_fread fs fd 224 w1 of (len, bs, w2) \<Rightarrow>
           bs = take 224 (files ?w ''Zone4_Info_File'') \<and> files (nwy_sdk_fclose fs fd w2) = files ?w"
    by (rule assms(1) [unfolded vfs_spec_def, THEN conjunct2, THEN conjunct1, THEN spec, THEN spec, THEN spec])
  then have "bs = ?b" "files (nwy_sdk_fclose fs fd w2) = files ?w" using o r f by simp_all
  with o r assms(2) f show ?thesis by (simp add: Test_Write_Zone4_Info_def Let_def buf_write_def)
qed

lemma open_names_eq:
  assumes "vfs_spec fs files"
  shows "\<exists>fd w1. open_names fs arr w = Some (fd, arr, w1) \<and> files w1 = (files w)(''White_Name_1'' := []) \<and>
    (\<forall>cs. files (nwy_sdk_fclose fs fd (snd (nwy_sdk_fwrite fs fd cs w1))) = (files w)(''White_Name_1'' := cs))"
proof -
  obtain fd w1 where o: "nwy_sdk_fopen fs ''White_Name_1'' Creat_Rdwr_Trunc w = (fd, w1)" by fastforce
  obtain len bs w2 where r: "nwy_sdk_fread fs fd 800 w1 = (len, bs, w2)"
    using prod_cases3 by blast
  have law: "case nwy_sdk_fopen fs ''White_Name_1'' Creat_Rdwr_Trunc w of (fd, w1) \<Rightarrow>
         case nwy_sdk_fread fs fd 800 w1 of (len, bs, w2) \<Rightarrow>
           bs = [] \<and> files w2 = (files w)(''White_Name_1'' := []) \<and>
           (\<forall>cs. files (nwy_sdk_fclose fs fd (snd (nwy_sdk_fwrite fs fd cs w2))) = (files w)(''White_Name_1'' := cs))"
    by (rule assms [unfolded vfs_spec_def, THEN conjunct2, THEN conjunct2, THEN spec, THEN spec, THEN spec])
  with o r show ?thesis by (simp add: open_names_def buf_write_def)
qed

section \<open>The list walk\<close>

text \<open>The array with the given serial numbers, and the numbers it can hold.\<close>

definition names_arr :: "buf list \<Rightarrow> buf" where
  "names_arr names = concat names @ replicate (800 - length (concat names)) 0"

definition sn_ok :: "buf \<Rightarrow> bool" where
  "sn_ok n = (length n = SN_LEN \<and> 0 \<notin> set n)"

lemma c_strcmp0_text:
  "0 \<notin> set a \<Longrightarrow> 0 \<notin> set b \<Longrightarrow> c_strcmp0 (a @ 0 # x) (b @ 0 # y) = Some (a = b)"
proof (induction a arbitrary: b)
  case Nil
  then show ?case by (cases b) auto
next
  case (Cons c a)
  then show ?case by (cases b) auto
qed

lemma concat_sn_length: "list_all sn_ok names \<Longrightarrow> length (concat names) = 8 * length names"
  by (induction names) (auto simp: sn_ok_def SN_LEN_def)

lemma concat_sn_nonzero: "list_all sn_ok names \<Longrightarrow> 0 \<notin> set (concat names)"
  by (induction names) (auto simp: sn_ok_def)

lemma concat_drop: "list_all sn_ok names \<Longrightarrow> drop (8 * i) (concat names) = concat (drop i names)"
proof (induction names arbitrary: i)
  case Nil
  then show ?case by simp
next
  case (Cons n names)
  then show ?case by (cases i) (auto simp: sn_ok_def SN_LEN_def)
qed

lemma drop_names_arr:
  assumes "list_all sn_ok names" and "length names < 100" and "i \<le> length names"
  shows "\<exists>x. drop (8 * i) (names_arr names) = concat (drop i names) @ 0 # x"
proof -
  have "8 * i \<le> length (concat names)" using assms concat_sn_length [of names] by simp
  moreover have "0 < 800 - length (concat names)" using assms concat_sn_length [of names] by simp
  then obtain k where "800 - length (concat names) = Suc k" using gr0_implies_Suc by blast
  ultimately show ?thesis
    using concat_drop [OF assms(1), of i] by (simp add: names_arr_def)
qed

lemma drop_last_one: "xs \<noteq> [] \<Longrightarrow> drop (length xs - 1) xs = [last xs]"
  by (induction xs rule: rev_induct) auto

lemma concat_drop_eq_iff:
  assumes "list_all sn_ok names" and "sn_ok nm" and "i < length names"
  shows "concat (drop i names) = nm \<longleftrightarrow> i = length names - 1 \<and> last names = nm"
proof -
  have ok: "list_all sn_ok (drop i names)" using assms(1) by (auto simp: list_all_iff dest: in_set_dropD)
  have len: "length (concat (drop i names)) = 8 * (length names - i)" using concat_sn_length [OF ok] by simp
  have last: "drop (length names - 1) names = [last names]" using assms(3) by (intro drop_last_one) auto
  show ?thesis
  proof
    assume eq: "concat (drop i names) = nm"
    with len assms(2) have "8 * (length names - i) = 8" by (simp add: sn_ok_def SN_LEN_def)
    with assms(3) have "i = length names - 1" by simp
    with eq last show "i = length names - 1 \<and> last names = nm" by auto
  qed (use last in auto)
qed

lemma find_name_eq:
  assumes "list_all sn_ok names" and "length names < 100" and "sn_ok nm" and "i \<le> length names"
  shows "find_name (names_arr names) (nm @ 0 # r) i =
    Some (if i < length names \<and> last names = nm then Inl (length names - 1) else Inr (length names))"
  using assms(4)
proof (induction "length names - i" arbitrary: i)
  case 0
  then have i: "i = length names" by simp
  obtain x where "drop (8 * i) (names_arr names) = 0 # x"
    using drop_names_arr [OF assms(1,2), of i] i by auto
  then have "rd (names_arr names) (8 * i) = Some 0"
    by (metis drop_eq_Nil2 hd_drop_conv_nth linorder_not_le list.discI list.sel(1) rd_in_range)
  then show ?case using i by (subst find_name.simps) (simp add: SN_LEN_def del: rd_Some_iff)
next
  case (Suc n)
  then have lt: "i < length names" by simp
  obtain x where x: "drop (8 * i) (names_arr names) = concat (drop i names) @ 0 # x"
    using drop_names_arr [OF assms(1,2), of i] lt by auto
  have ok: "list_all sn_ok (drop i names)" using assms(1) by (auto simp: list_all_iff dest: in_set_dropD)
  have nz: "0 \<notin> set (concat (drop i names))" by (rule concat_sn_nonzero [OF ok])
  have ne: "concat (drop i names) \<noteq> []" using concat_sn_length [OF ok] lt by (metis length_0_conv length_drop mult_eq_0_iff zero_neq_numeral zero_less_diff less_numeral_extra(3))
  then obtain c cs where c: "concat (drop i names) = c # cs" "c \<noteq> 0" using nz by (cases "concat (drop i names)") auto
  have "rd (names_arr names) (8 * i) = Some c"
    using x c by (metis append_Cons drop_eq_Nil2 hd_drop_conv_nth linorder_not_le list.discI list.sel(1) rd_in_range)
  moreover have "c_strcmp0 (drop (8 * i) (names_arr names)) (nm @ 0 # r) = Some (concat (drop i names) = nm)"
    using c_strcmp0_text [OF nz, of nm x r] assms(3) x by (simp add: sn_ok_def)
  moreover have "find_name (names_arr names) (nm @ 0 # r) (i + 1) =
      Some (if i + 1 < length names \<and> last names = nm then Inl (length names - 1) else Inr (length names))"
    using Suc by (intro Suc.hyps(1)) auto
  ultimately show ?case
    using c(2) lt concat_drop_eq_iff [OF assms(1,3) lt]
    by (subst find_name.simps) (auto simp: SN_LEN_def simp del: rd_Some_iff)
qed


lemma length_names_arr: "length (concat names) \<le> 800 \<Longrightarrow> length (names_arr names) = 800"
  by (simp add: names_arr_def)

lemma names_arr_text:
  assumes "list_all sn_ok names" and "length names < 100"
  shows "terminated (names_arr names)" "c_str (names_arr names) = concat names"
proof -
  obtain x where "names_arr names = concat names @ 0 # x"
    using drop_names_arr [OF assms, of 0] by auto
  then show "terminated (names_arr names)" "c_str (names_arr names) = concat names"
    using c_str_append_zero [OF concat_sn_nonzero [OF assms(1)], of x] by (simp_all add: terminated_def)
qed

lemma strcat_name:
  assumes "list_all sn_ok names" and "length names < 99" and "sn_ok nm"
  shows "c_strcat (names_arr names) nm = Some (names_arr (names @ [nm]))"
proof -
  have len: "length (concat names) = 8 * length names" by (rule concat_sn_length [OF assms(1)])
  have nm: "length nm = 8" using assms(3) by (simp add: sn_ok_def SN_LEN_def)
  have t: "terminated (names_arr names)" "c_str (names_arr names) = concat names"
    using names_arr_text [OF assms(1)] assms(2) by auto
  have "c_strcat (names_arr names) nm = Some (concat names @ nm @ 0 # drop (length (concat names) + length nm + 1) (names_arr names))"
    using c_strcat_Some [OF t(1), of nm] t(2) len nm assms(2) length_names_arr [of names] by simp
  moreover have "drop (length (concat names) + length nm + 1) (names_arr names) = replicate (799 - length (concat names) - 8) 0"
    using nm by (simp add: names_arr_def)
  moreover have "800 - (length (concat names) + 8) = Suc (799 - length (concat names) - 8)" using len assms(2) by simp
  ultimately show ?thesis using nm by (simp add: names_arr_def)
qed

lemma sn_array_text: "sn_ok nm \<Longrightarrow> terminated (nm @ 0 # r) \<and> c_str (nm @ 0 # r) = nm"
  by (simp add: terminated_def sn_ok_def c_str_append_zero)

lemma clear_last_name:
  assumes "list_all sn_ok (names @ [nm])" and "length names < 99"
  shows "buf_fill (names_arr (names @ [nm])) (8 * length names) 0 8 = Some (names_arr names)"
proof -
  have len: "length (concat names) = 8 * length names" using concat_sn_length [of names] assms(1) by simp
  have nm: "length nm = 8" using assms(1) by (simp add: sn_ok_def SN_LEN_def)
  have "replicate (800 - 8 * length names) (0 :: u8) = replicate 8 0 @ replicate (800 - (8 * length names + 8)) 0"
    using assms(2) by (simp flip: replicate_add)
  then show ?thesis
    using len nm assms(2) by (simp add: buf_fill_def buf_write_def names_arr_def)
qed

lemma strcat_Nil:
  assumes "terminated a"
  shows "c_strcat a [] = Some a"
proof -
  obtain r where r: "a = c_str a @ 0 # r" using terminated_split [OF assms] by blast
  then have "drop (length (c_str a) + 1) a = r" by (metis append_Cons append_Nil append_assoc append_eq_conv_conj length_append_singleton Suc_eq_plus1)
  with r show ?thesis using c_strcat_Some [OF assms, of "[]"] terminated_length [OF assms] by simp
qed

section \<open>A file system in memory\<close>

text \<open>One open file at a time; used to show that \<open>vfs_spec\<close> can be met.\<close>

definition ram_fs :: "((string \<Rightarrow> buf) \<times> string) vfs" where
  "ram_fs =
    \<lparr>nwy_sdk_fopen = (\<lambda>name m (f, cur). case m of Rdonly \<Rightarrow> (3, (f, name)) | Creat_Rdwr_Trunc \<Rightarrow> (3, (f(name := []), name))),
     nwy_sdk_fwrite = (\<lambda>fd bs (f, cur). (int (length bs), (f(cur := f cur @ bs), cur))),
     nwy_sdk_fread = (\<lambda>fd n (f, cur). (int (min n (length (f cur))), take n (f cur), (f, cur))),
     nwy_sdk_fclose = (\<lambda>fd w. w)\<rparr>"

lemma ram_fs_spec: "vfs_spec ram_fs fst"
  by (auto simp: vfs_spec_def ram_fs_def file_store_def)

section \<open>Properties\<close>

text \<open>C25: Network settings survive a restart: what \<open>Test_Add_Net_Info\<close> stores, \<open>ReadNet_Info\<close> loads into
  \<open>Net_Info\<close> of any later state, all seven strings unchanged, given a file system that keeps files.\<close>

theorem Net_Info_persists:
  assumes "vfs_spec fs files" and "Net_Set_sized (Net_Info s)" and "Net_Set_sized (Net_Info t)" and "length tmp = 224"
  shows "\<exists>w1 w2. Test_Add_Net_Info fs tmp s w = Some w1 \<and> ReadNet_Info fs t w1 = Some (t\<lparr>Net_Info := Net_Info s\<rparr>, w2)"
proof -
  let ?b = "Net_Set_bytes (Net_Info s)" and ?w = "file_store fs ''Net_Info_File'' (Net_Set_bytes (Net_Info s)) w"
  have f: "files ?w ''Net_Info_File'' = ?b" by (simp add: file_store_files [OF assms(1)])
  obtain w1 where w1: "file_load fs ''Net_Info_File'' tmp ?w = Some (?b, w1)" "files w1 = files ?w"
    using file_load_after [OF assms(1), of ?w "''Net_Info_File''" tmp] assms(2,4) f length_Net_Set_bytes by auto
  obtain w2 where "file_load fs ''Net_Info_File'' (Net_Set_bytes (Net_Info t)) w1 = Some (?b, w2)"
    using file_load_after [OF assms(1), of w1 "''Net_Info_File''" "Net_Set_bytes (Net_Info t)"] assms(2,3) w1(2) f
      length_Net_Set_bytes by auto
  with w1 show ?thesis
    using Net_Set_bytes_roundtrip [OF assms(2)] by (simp add: Test_Add_Net_Info_def ReadNet_Info_def Let_def)
qed

theorem Net_Info_persists_witness:
  "\<exists>w1 w2. Test_Add_Net_Info ram_fs (replicate 224 0) (init_gateway\<lparr>Net_Info := Net_Set_of_bytes (replicate 224 65)\<rparr>) (\<lambda>_. [], []) = Some w1 \<and>
     ReadNet_Info ram_fs init_gateway w1 = Some (init_gateway\<lparr>Net_Info := Net_Set_of_bytes (replicate 224 65)\<rparr>, w2)"
  using Net_Info_persists [OF ram_fs_spec, of "init_gateway\<lparr>Net_Info := Net_Set_of_bytes (replicate 224 65)\<rparr>" init_gateway
      "replicate 224 0" "(\<lambda>_. [], [])"]
  by (simp add: Net_Set_sized_def Net_Set_of_bytes_def)

text \<open>Zone 4 settings survive a restart, through the packed 16-byte struct and whatever the padding
  byte holds.\<close>

theorem Zone4_Info_persists:
  assumes "vfs_spec fs files" and "length tmp = 16"
  shows "\<exists>w1 w2. Test_Write_Zone4_Info fs pad tmp s w = Some w1 \<and>
    ReadZone4_Info fs pad' t w1 = Some (t\<lparr>Zone4_Info := Zone4_Info s\<rparr>, w2)"
proof -
  let ?b = "Zone4_bytes pad (Zone4_Info s)"
  obtain w1 where w1: "Test_Write_Zone4_Info fs pad tmp s w = Some w1" "files w1 = (files w)(''Zone4_Info_File'' := ?b)"
    using Test_Write_Zone4_ok [OF assms] by blast
  obtain w2 where "file_load fs ''Zone4_Info_File'' (Zone4_bytes pad' (Zone4_Info t)) w1 = Some (?b, w2)"
    using file_load_after [OF assms(1), of w1 "''Zone4_Info_File''" "Zone4_bytes pad' (Zone4_Info t)"] w1(2) by auto
  with w1 show ?thesis by (simp add: ReadZone4_Info_def Zone4_bytes_roundtrip)
qed

theorem Zone4_Info_persists_witness:
  "\<exists>w1 w2. Test_Write_Zone4_Info ram_fs 9 (replicate 16 0)
      (init_gateway\<lparr>Zone4_Info := (Zone4_Info init_gateway)\<lparr>BLE_Week := 5\<rparr>\<rparr>) (\<lambda>_. [], []) = Some w1 \<and>
    ReadZone4_Info ram_fs 0 init_gateway w1 =
      Some (init_gateway\<lparr>Zone4_Info := (Zone4_Info init_gateway)\<lparr>BLE_Week := 5\<rparr>\<rparr>, w2)"
  using Zone4_Info_persists [OF ram_fs_spec, of "replicate 16 0" 9
      "init_gateway\<lparr>Zone4_Info := (Zone4_Info init_gateway)\<lparr>BLE_Week := 5\<rparr>\<rparr>" "(\<lambda>_. [], [])" 0 init_gateway]
  by simp

text \<open>\<open>add_name\<close> on a list of 8-character serial numbers. The entries are stored without terminator, so
  the comparison sees the whole rest of the list: the name is recognised as present only when it is the
  last entry, and then the list file, already truncated by the open, stays empty. Any other name, a
  duplicate of an earlier entry included, is appended, the file holds the whole list and the index of the
  new entry is returned.\<close>

theorem add_name_spec:
  assumes "vfs_spec fs files" and "list_all sn_ok names" and "length names < 99" and "sn_ok nm"
  shows "\<exists>r arr w'. add_name fs (names_arr names) (nm @ 0 # x) w = Some (r, arr, w') \<and>
    (if names \<noteq> [] \<and> last names = nm
     then r = -1 \<and> arr = names_arr names \<and> files w' = (files w)(''White_Name_1'' := [])
     else r = int (length names) \<and> arr = names_arr (names @ [nm]) \<and>
          files w' = (files w)(''White_Name_1'' := concat (names @ [nm])))"
proof -
  obtain fd w1 where o: "open_names fs (names_arr names) w = Some (fd, names_arr names, w1)"
      "files w1 = (files w)(''White_Name_1'' := [])"
      "\<forall>cs. files (nwy_sdk_fclose fs fd (snd (nwy_sdk_fwrite fs fd cs w1))) = (files w)(''White_Name_1'' := cs)"
    using open_names_eq [OF assms(1)] by blast
  have fnd: "find_name (names_arr names) (nm @ 0 # x) 0 =
      Some (if names \<noteq> [] \<and> last names = nm then Inl (length names - 1) else Inr (length names))"
    using find_name_eq [OF assms(2) _ assms(4), of 0 x] assms(3) by simp
  have t: "terminated (names_arr (names @ [nm]))" "c_str (names_arr (names @ [nm])) = concat (names @ [nm])"
    using names_arr_text [of "names @ [nm]"] assms by auto
  have "take (length (concat (names @ [nm]))) (names_arr (names @ [nm])) = concat (names @ [nm])"
    unfolding names_arr_def by simp
  with o fnd t show ?thesis
    using strcat_name [OF assms(2-4)] sn_array_text [OF assms(4), of x]
    by (auto simp: add_name_def cstr_simps case_prod_beta Let_def)
qed

theorem add_name_spec_witness:
  "\<exists>r arr w'. add_name ram_fs (names_arr [replicate 8 49, replicate 8 50]) (replicate 8 49 @ [0]) (\<lambda>_. [], []) = Some (r, arr, w') \<and>
     r = 2 \<and> arr = names_arr [replicate 8 49, replicate 8 50, replicate 8 49]"
  using add_name_spec [OF ram_fs_spec, of "[replicate 8 49, replicate 8 50]" "replicate 8 49" "[]" "(\<lambda>_. [], [])"]
  by (auto simp: sn_ok_def SN_LEN_def)


text \<open>\<open>Del_Name\<close> removes a serial number only when it is the last entry; then the array and the file
  hold the list without it and the result is 0. For every other name the result is -1, the array keeps
  the list and the file, truncated by the open, is left empty.\<close>

theorem Del_Name_spec:
  assumes "vfs_spec fs files" and "list_all sn_ok names" and "length names < 100" and "sn_ok nm"
  shows "\<exists>r arr w'. Del_Name fs (names_arr names) (nm @ 0 # x) w = Some (r, arr, w') \<and>
    (if names \<noteq> [] \<and> last names = nm
     then r = 0 \<and> arr = names_arr (butlast names) \<and> files w' = (files w)(''White_Name_1'' := concat (butlast names))
     else r = -1 \<and> arr = names_arr names \<and> files w' = (files w)(''White_Name_1'' := []))"
proof -
  obtain fd w1 where o: "open_names fs (names_arr names) w = Some (fd, names_arr names, w1)"
      "files w1 = (files w)(''White_Name_1'' := [])"
      "\<forall>cs. files (nwy_sdk_fclose fs fd (snd (nwy_sdk_fwrite fs fd cs w1))) = (files w)(''White_Name_1'' := cs)"
    using open_names_eq [OF assms(1)] by blast
  have fnd: "find_name (names_arr names) (nm @ 0 # x) 0 =
      Some (if names \<noteq> [] \<and> last names = nm then Inl (length names - 1) else Inr (length names))"
    using find_name_eq [OF assms(2,3,4), of 0 x] by simp
  show ?thesis
  proof (cases "names \<noteq> [] \<and> last names = nm")
    case True
    then obtain ns where ns: "names = ns @ [nm]" by (metis append_butlast_last_id)
    then have ok: "list_all sn_ok ns" and lt: "length ns < 99" using assms(2,3) by simp_all
    have clr: "buf_fill (names_arr names) (8 * length ns) 0 8 = Some (names_arr ns)"
      using clear_last_name [of ns nm] assms(2) lt ns by simp
    have t: "terminated (names_arr ns)" "c_str (names_arr ns) = concat ns" using names_arr_text [OF ok] lt by auto
    have z: "drop (8 * length ns + 8) (names_arr ns) = replicate (792 - 8 * length ns) 0"
      using concat_sn_length [OF ok] by (simp add: names_arr_def)
    have "take (length (concat ns)) (names_arr ns) = concat ns" unfolding names_arr_def by simp
    with o fnd clr t z lt True show ?thesis
      using ns by (auto simp: Del_Name_def cstr_simps case_prod_beta Let_def SN_LEN_def strcat_Nil terminated_def)
  next
    case False
    then have "find_name (names_arr names) (nm @ 0 # x) 0 = Some (Inr (length names))" using fnd by auto
    with False o show ?thesis by (auto simp: Del_Name_def)
  qed
qed

theorem Del_Name_spec_witness:
  "\<exists>r arr w'. Del_Name ram_fs (names_arr [replicate 8 49, replicate 8 50]) (replicate 8 49 @ [0]) (\<lambda>_. [], []) = Some (r, arr, w') \<and>
     r = -1 \<and> arr = names_arr [replicate 8 49, replicate 8 50]"
  using Del_Name_spec [OF ram_fs_spec, of "[replicate 8 49, replicate 8 50]" "replicate 8 49" "[]" "(\<lambda>_. [], [])"]
  by (auto simp: sn_ok_def SN_LEN_def)

end
