(* ===== verification/Settings.thy ===== *)
theory Settings
  imports Storage
begin

text \<open>
  The settings command of src/parse.c: the address check \<open>Is_Valid_IP\<close> and \<open>Handle_Set_Cmd\<close>, which cuts
  the command into tokens with \<open>strtok\<close> on a copy in allocated memory and copies the values into
  \<open>Net_Info\<close>.

  Two memory objects matter here. The allocated copy is the list \<open>blk\<close>: the command, its terminator and
  the bytes that follow the block in memory (\<open>behind\<close>), because the fixed-size copies of the code read past
  the command. \<open>Net_Info\<close> is its 224 bytes in declaration order, because a copy longer than a member
  goes on into the next member.
\<close>

section \<open>Is_Valid_IP\<close>

text \<open>The character loop: \<open>None\<close> when it returns 0, else the number of dots (a \<open>uint8_t\<close>).\<close>

fun ip_chars :: "nat \<Rightarrow> u8 \<Rightarrow> buf \<Rightarrow> u8 option" where
  "ip_chars i num [] = Some num"
| "ip_chars i num (c # cs) =
     (if c = 46 then ip_chars (i + 1) (num + 1) cs
      else if 48 \<le> c \<and> c \<le> 57 then ip_chars (i + 1) num cs
      else if c = 0 then (if i < 7 then None else ip_chars (i + 1) num cs)
      else None)"

text \<open>\<open>atoi (strtok (.., ".")) \<close> stored in a \<open>uint16_t\<close>; \<open>atoi\<close> of a null pointer is undefined.\<close>

definition tok_u16 :: "buf \<Rightarrow> nat \<Rightarrow> (u16 \<times> nat \<times> buf) option" where
  "tok_u16 b p =
     do { (t, q, b1) \<leftarrow> c_strtok 46 b p;
          case t of None \<Rightarrow> None | Some o' \<Rightarrow> Some (word_of_int (c_atoi (c_str (drop o' b1))), q, b1) }"

definition Is_Valid_IP :: "buf \<Rightarrow> u8 option" where
  "Is_Valid_IP buf_in =
     do { x \<leftarrow> buf_read buf_in 0 16;
          let b = x @ replicate 16 0;
          case ip_chars 0 0 x of
            None \<Rightarrow> Some 0
          | Some num \<Rightarrow>
              if num \<noteq> 3 then Some 0
              else do { (ip1, p1, b1) \<leftarrow> tok_u16 b 0;
                        (ip2, p2, b2) \<leftarrow> tok_u16 b1 p1;
                        (para, p3, b3) \<leftarrow> c_strtok 46 b2 p2;
                        (ip3, p4, b4) \<leftarrow> tok_u16 b3 p3;
                        Some (if ip1 > 255 then 0 else if ip2 > 255 then 0 else if ip3 > 255 then 0 else 1) } }"

section \<open>Handle_Set_Cmd\<close>

definition KEY_mqttip :: buf where "KEY_mqttip = str ''\"mqttip\":\"''"

definition KEY_mqttport :: buf where "KEY_mqttport = str ''\"mqttport\":\"''"

definition KEY_mqttdomain :: buf where "KEY_mqttdomain = str ''\"mqttdomain\":\"''"

definition KEY_mqttuser :: buf where "KEY_mqttuser = str ''\"mqttuser\":\"''"

definition KEY_mqttpsw :: buf where "KEY_mqttpsw = str ''\"mqttpsw\":\"''"

definition KEY_mqtttime :: buf where "KEY_mqtttime = str ''\"mqtttime\":\"''"

definition KEY_laswill :: buf where "KEY_laswill = str ''\"laswill\":\"''"

text \<open>The body of the \<open>do\<close> loop for the token at offset \<open>para\<close>: the block with the last character of the
  token overwritten, and the bytes of \<open>Net_Info\<close>.\<close>

definition Set_Cmd_token :: "buf \<Rightarrow> nat \<Rightarrow> buf \<Rightarrow> (buf \<times> buf) option" where
  "Set_Cmd_token blk para net =
     do { len \<leftarrow> c_strlen (drop para blk);
          b \<leftarrow> (if len = 0 then None else wr blk (para + len - 1) 0);
          let t = c_str (drop para b);
          n \<leftarrow> (case c_strstr t KEY_mqttip of
                 Some o' \<Rightarrow>
                   do { let temp = para + o' + length KEY_mqttip;
                        l \<leftarrow> c_strlen (drop temp b);
                        n1 \<leftarrow> buf_fill net 0 0 16;
                        v \<leftarrow> buf_read b temp l;
                        buf_write n1 0 v }
               | None \<Rightarrow>
               (case c_strstr t KEY_mqttport of
                 Some o' \<Rightarrow>
                   do { v \<leftarrow> buf_read b (para + o' + length KEY_mqttport) len; buf_write net 16 v }
               | None \<Rightarrow>
               (case c_strstr t KEY_mqttdomain of
                 Some o' \<Rightarrow>
                   do { v \<leftarrow> buf_read b (para + o' + length KEY_mqttdomain) 96; buf_write net 24 v }
               | None \<Rightarrow>
               (case c_strstr t KEY_mqttuser of
                 Some o' \<Rightarrow>
                   do { v \<leftarrow> buf_read b (para + o' + length KEY_mqttuser) 32; buf_write net 120 v }
               | None \<Rightarrow>
               (case c_strstr t KEY_mqttpsw of
                 Some o' \<Rightarrow>
                   do { v \<leftarrow> buf_read b (para + o' + length KEY_mqttpsw) 32; buf_write net 152 v }
               | None \<Rightarrow>
               (case c_strstr t KEY_mqtttime of
                 Some o' \<Rightarrow>
                   do { v \<leftarrow> buf_read b (para + o' + length KEY_mqtttime) 8; buf_write net 184 v }
               | None \<Rightarrow>
               (case c_strstr t KEY_laswill of
                 Some o' \<Rightarrow>
                   do { n1 \<leftarrow> buf_fill net 192 0 32;
                        v \<leftarrow> buf_read b (para + o' + length KEY_laswill) 32; buf_write n1 192 v }
               | None \<Rightarrow> Some net)))))));
          Some (b, n) }"

lemma Set_Cmd_token_length: "Set_Cmd_token blk para net = Some (b, n) \<Longrightarrow> length b = length blk"
  by (auto simp: Set_Cmd_token_def Let_def Option.bind_eq_Some_conv split: if_splits dest: wr_length)

text \<open>Every token lies behind the point where the search for it started, so the loop ends.\<close>

lemma takeWhile_stops: "x \<in> set xs \<Longrightarrow> \<not> P x \<Longrightarrow> length (takeWhile P xs) < length xs"
  by (induction xs) auto

lemma in_set_dropWhile: "x \<in> set xs \<Longrightarrow> \<not> P x \<Longrightarrow> x \<in> set (dropWhile P xs)"
  by (induction xs) auto

lemma strtok_progress:
  assumes "c_strtok d b p = Some (Some t, q, b')" and "d \<noteq> 0"
  shows "p \<le> t \<and> t < q \<and> q \<le> length b \<and> length b' = length b"
proof -
  let ?k = "length (takeWhile (\<lambda>x. x = d) (drop p b))"
  let ?t = "p + ?k"
  let ?n = "length (takeWhile (\<lambda>x. x \<noteq> d \<and> x \<noteq> 0) (drop ?t b))"
  have z: "0 \<in> set (drop p b)" using assms by (auto simp: c_strtok_def split: if_splits)
  have tok: "t = ?t" "b ! ?t \<noteq> 0" using assms by (auto simp: c_strtok_def Let_def split: if_splits)
  have k: "?k < length (drop p b)" using takeWhile_stops [OF z] assms(2) by simp
  then have nd: "b ! ?t \<noteq> d" using nth_length_takeWhile [OF k] by simp
  have "dropWhile (\<lambda>x. x = d) (drop p b) = drop ?t b" by (simp add: dropWhile_eq_drop add.commute)
  then have z2: "0 \<in> set (drop ?t b)" using in_set_dropWhile [OF z, of "\<lambda>x. x = d"] assms(2) by simp
  have n: "?n < length (drop ?t b)" using takeWhile_stops [OF z2] by simp
  have "drop ?t b = b ! ?t # drop (Suc ?t) b" using k by (simp add: Cons_nth_drop_Suc)
  then have "0 < ?n" using tok(2) nd by simp
  then show ?thesis
    using assms(1) tok n unfolding c_strtok_def Let_def by (auto split: if_splits)
qed

text \<open>The loop; the first argument pair is the block and the offset at which \<open>strtok\<close> resumes.\<close>

function Set_Cmd_loop :: "buf \<Rightarrow> nat \<Rightarrow> nat \<Rightarrow> buf \<Rightarrow> buf option" where
  "Set_Cmd_loop blk para p net =
     (case Set_Cmd_token blk para net of
        None \<Rightarrow> None
      | Some (b, n) \<Rightarrow>
          (case c_strtok 44 b p of
             None \<Rightarrow> None
           | Some (None, q, b') \<Rightarrow> Some n
           | Some (Some para', q, b') \<Rightarrow> Set_Cmd_loop b' para' q n))"
  by pat_completeness auto
termination
proof (relation "measure (\<lambda>(blk, para, p, net). length blk - p)", simp)
  fix blk :: buf and para p :: nat and net :: buf and x :: "buf \<times> buf" and b n y z q w b' para'
  assume "Set_Cmd_token blk para net = Some x" "(b, n) = x"
    and "c_strtok 44 b p = Some y" "(z, w) = y" "(q, b') = w" "z = Some para'"
  then have "length b = length blk" "p < q" "q \<le> length b" "length b' = length b"
    using Set_Cmd_token_length [of blk para net b n] strtok_progress [of 44 b p para' q b'] by auto
  then show "((b', para', q, n), blk, para, p, net) \<in> measure (\<lambda>(blk, para, p, net). length blk - p)" by simp
qed

declare Set_Cmd_loop.simps [simp del]

text \<open>\<open>mem\<close> tells whether \<open>malloc\<close> gives a block; without one the settings are stored unchanged.\<close>

definition Set_Cmd_parse :: "bool \<Rightarrow> buf \<Rightarrow> buf \<Rightarrow> buf \<Rightarrow> (bool \<times> buf) option" where
  "Set_Cmd_parse mem behind txt net =
     (if \<not> mem then Some (True, net)
      else do { (t, p, b) \<leftarrow> c_strtok 44 (txt @ [0] @ behind) 0;
                case t of
                  None \<Rightarrow> Some (False, net)
                | Some para \<Rightarrow> do { n \<leftarrow> Set_Cmd_loop b para p net; Some (True, n) } })"

definition Handle_Set_Cmd :: "'w vfs \<Rightarrow> buf \<Rightarrow> bool \<Rightarrow> buf \<Rightarrow> buf \<Rightarrow> gateway \<Rightarrow> 'w \<Rightarrow> (gateway \<times> 'w) option" where
  "Handle_Set_Cmd fs tmp mem behind b s w =
     do { txt \<leftarrow> (if terminated b then Some (c_str b) else None);
          (done, n) \<leftarrow> Set_Cmd_parse mem behind txt (Net_Set_bytes (Net_Info s));
          let s1 = emit (Malloc (length txt + 1)) (s\<lparr>Net_Info := Net_Set_of_bytes n\<rparr>);
          if \<not> done then Some (s1, w)
          else do { w1 \<leftarrow> Test_Add_Net_Info fs tmp s1 w;
                    v \<leftarrow> Is_Valid_IP (mqttip (Net_Info s1));
                    let s2 = (if v = 0 then s1\<lparr>Net_Info := (Net_Info s1)\<lparr>mqttip := replicate 16 0\<rparr>\<rparr> else s1);
                    Some (emit (Sleep 1000) s2, w1) } }"


section \<open>Tokens of a text\<close>

lemma takeWhile_token: "\<forall>x \<in> set t. P x \<Longrightarrow> \<not> P y \<Longrightarrow> takeWhile P (t @ y # r) = t"
  by (induction t) auto

lemma c_strtok_mid:
  assumes "d \<noteq> 0" and "t \<noteq> []" and "d \<notin> set t" and "0 \<notin> set t" and "0 \<in> set r" and "p = length pre"
  shows "c_strtok d (pre @ t @ d # r) p = Some (Some p, p + length t + 1, pre @ t @ 0 # r)"
proof -
  obtain c cs where t: "t = c # cs" "c \<noteq> d" "c \<noteq> 0" using assms(2-4) by (cases t) auto
  have k: "takeWhile (\<lambda>x. x = d) (t @ d # r) = []" using t by simp
  have n: "takeWhile (\<lambda>x. x \<noteq> d \<and> x \<noteq> 0) (t @ d # r) = t"
    using assms(3,4) by (intro takeWhile_token) auto
  show ?thesis
    using assms(1,5,6) k n t by (simp add: c_strtok_def Let_def nth_append list_update_append)
qed

lemma c_strtok_end:
  assumes "d \<noteq> 0" and "t \<noteq> []" and "d \<notin> set t" and "0 \<notin> set t" and "p = length pre"
  shows "c_strtok d (pre @ t @ 0 # r) p = Some (Some p, p + length t, pre @ t @ 0 # r)"
proof -
  obtain c cs where t: "t = c # cs" "c \<noteq> d" "c \<noteq> 0" using assms(2-4) by (cases t) auto
  have k: "takeWhile (\<lambda>x. x = d) (t @ 0 # r) = []" using t by simp
  have n: "takeWhile (\<lambda>x. x \<noteq> d \<and> x \<noteq> 0) (t @ 0 # r) = t"
    using assms(3,4) by (intro takeWhile_token) auto
  show ?thesis
    using assms(1,5) k n t by (simp add: c_strtok_def Let_def nth_append)
qed

lemma c_strtok_none: "d \<noteq> 0 \<Longrightarrow> p = length pre \<Longrightarrow> c_strtok d (pre @ 0 # r) p = Some (None, p, pre @ 0 # r)"
  by (simp add: c_strtok_def Let_def)

lemmas strtok_eqs = c_strtok_mid c_strtok_end c_strtok_none

section \<open>Is_Valid_IP on dotted numbers\<close>

lemma digits_not_dot: "list_all is_digit ds \<Longrightarrow> 46 \<notin> set ds"
  by (auto simp: list_all_iff is_digit_def word_le_def)

lemma ip_chars_digits: "list_all is_digit ds \<Longrightarrow> ip_chars i num (ds @ r) = ip_chars (i + length ds) num r"
proof (induction ds arbitrary: i)
  case (Cons c ds)
  then have "48 \<le> c \<and> c \<le> 57" "c \<noteq> 46" by (auto simp: is_digit_def word_le_def)
  with Cons show ?case by simp
qed simp

lemma ip_chars_zeros: "7 \<le> i \<Longrightarrow> ip_chars i num (replicate n 0) = Some num"
  by (induction n arbitrary: i) simp_all

definition dotted :: "nat \<Rightarrow> nat \<Rightarrow> nat \<Rightarrow> nat \<Rightarrow> buf" where
  "dotted n1 n2 n3 n4 = dec_digits n1 @ 46 # dec_digits n2 @ 46 # dec_digits n3 @ 46 # dec_digits n4"

lemma length_dec_digits_pos: "0 < length (dec_digits n)"
  by simp

lemma length_dotted: "7 \<le> length (dotted n1 n2 n3 n4)"
  using length_dec_digits_pos [of n1] length_dec_digits_pos [of n2] length_dec_digits_pos [of n3]
    length_dec_digits_pos [of n4] by (simp add: dotted_def del: length_greater_0_conv)

lemma atoi_token:
  assumes "int n \<le> int_max"
  shows "c_atoi (c_str (dec_digits n @ 0 # r)) = int n"
proof -
  have "c_str (dec_digits n @ 0 # r) = dec_digits n"
    by (rule c_str_append_zero) (rule digit_nonzero [OF dec_digits_are_digits])
  then show ?thesis
    using atoi_digits [OF dec_digits_are_digits [of n], of "[]"] assms by (simp add: digits_val_dec_digits)
qed

lemma tok_u16_mid:
  assumes "int n \<le> int_max" and "0 \<in> set r" and "p = length pre"
  shows "tok_u16 (pre @ dec_digits n @ 46 # r) p =
    Some (word_of_nat n, p + length (dec_digits n) + 1, pre @ dec_digits n @ 0 # r)"
  using c_strtok_mid [of 46 "dec_digits n" r p pre] assms digits_not_dot [OF dec_digits_are_digits [of n]]
    digit_nonzero [OF dec_digits_are_digits [of n]] atoi_token [OF assms(1), of r]
  by (simp add: tok_u16_def)

lemma tok_u16_end:
  assumes "int n \<le> int_max" and "p = length pre"
  shows "tok_u16 (pre @ dec_digits n @ 0 # r) p =
    Some (word_of_nat n, p + length (dec_digits n), pre @ dec_digits n @ 0 # r)"
  using c_strtok_end [of 46 "dec_digits n" p pre r] assms digits_not_dot [OF dec_digits_are_digits [of n]]
    digit_nonzero [OF dec_digits_are_digits [of n]] atoi_token [OF assms(1), of r]
  by (simp add: tok_u16_def)

lemma u16_le_255: "(word_of_nat n :: u16) > 255 \<longleftrightarrow> n mod 65536 > 255"
  by (simp add: word_less_nat_alt unsigned_of_nat take_bit_eq_mod)

lemma dotted_tokens:
  fixes n1 n2 n3 n4 :: nat and r :: buf
  assumes "int n1 \<le> int_max" and "int n2 \<le> int_max" and "int n4 \<le> int_max"
  defines "b \<equiv> dotted n1 n2 n3 n4 @ 0 # r"
  shows "\<exists>p1 b1 p2 b2 para p3 b3 p4 b4. tok_u16 b 0 = Some (word_of_nat n1, p1, b1) \<and>
    tok_u16 b1 p1 = Some (word_of_nat n2, p2, b2) \<and> c_strtok 46 b2 p2 = Some (para, p3, b3) \<and>
    tok_u16 b3 p3 = Some (word_of_nat n4, p4, b4)"
proof -
  let ?d1 = "dec_digits n1" and ?d2 = "dec_digits n2" and ?d3 = "dec_digits n3" and ?d4 = "dec_digits n4"
  let ?P1 = "?d1 @ [0]" let ?P2 = "?P1 @ ?d2 @ [0]" let ?P3 = "?P2 @ ?d3 @ [0]"
  have "tok_u16 b 0 = Some (word_of_nat n1, length ?P1, ?P1 @ ?d2 @ 46 # ?d3 @ 46 # ?d4 @ 0 # r)"
    using tok_u16_mid [of n1 "?d2 @ 46 # ?d3 @ 46 # ?d4 @ 0 # r" 0 "[]"] assms(1) by (simp add: b_def dotted_def)
  moreover have "tok_u16 (?P1 @ ?d2 @ 46 # ?d3 @ 46 # ?d4 @ 0 # r) (length ?P1) =
      Some (word_of_nat n2, length ?P2, ?P2 @ ?d3 @ 46 # ?d4 @ 0 # r)"
    using tok_u16_mid [of n2 "?d3 @ 46 # ?d4 @ 0 # r" "length ?P1" ?P1] assms(2) by simp
  moreover have "c_strtok 46 (?P2 @ ?d3 @ 46 # ?d4 @ 0 # r) (length ?P2) =
      Some (Some (length ?P2), length ?P3, ?P3 @ ?d4 @ 0 # r)"
    using c_strtok_mid [of 46 ?d3 "?d4 @ 0 # r" "length ?P2" ?P2] digits_not_dot [OF dec_digits_are_digits [of n3]]
      digit_nonzero [OF dec_digits_are_digits [of n3]] by simp
  moreover have "tok_u16 (?P3 @ ?d4 @ 0 # r) (length ?P3) =
      Some (word_of_nat n4, length ?P3 + length ?d4, ?P3 @ ?d4 @ 0 # r)"
    using tok_u16_end [of n4 "length ?P3" ?P3 r] assms(3) by simp
  ultimately show ?thesis by blast
qed

lemma Is_Valid_IP_dotted_eq:
  assumes "int n1 \<le> int_max" and "int n2 \<le> int_max" and "int n4 \<le> int_max" and "length (dotted n1 n2 n3 n4) \<le> 16"
  shows "Is_Valid_IP (dotted n1 n2 n3 n4 @ replicate (16 - length (dotted n1 n2 n3 n4)) 0) =
    Some (if n1 mod 65536 \<le> 255 \<and> n2 mod 65536 \<le> 255 \<and> n4 mod 65536 \<le> 255 then 1 else 0)"
proof -
  let ?x = "dotted n1 n2 n3 n4 @ replicate (16 - length (dotted n1 n2 n3 n4)) 0"
  have chars: "ip_chars 0 0 ?x = Some 3"
    using length_dotted [of n1 n2 n3 n4] ip_chars_zeros
    by (simp add: dotted_def ip_chars_digits dec_digits_are_digits)
  have "?x @ replicate 16 0 = dotted n1 n2 n3 n4 @ 0 # replicate (31 - length (dotted n1 n2 n3 n4)) 0"
    using assms(4) by (simp flip: replicate_add replicate_Suc)
  then show ?thesis
    using dotted_tokens [OF assms(1-3), of n3 "replicate (31 - length (dotted n1 n2 n3 n4)) 0"] chars assms(4)
    by (auto simp: Is_Valid_IP_def buf_read_def u16_le_255)
qed


section \<open>Recognising the keys\<close>

lemma KEY_eqs:
  "KEY_mqttip = [34, 109, 113, 116, 116, 105, 112, 34, 58, 34]"
  "KEY_mqttport = [34, 109, 113, 116, 116, 112, 111, 114, 116, 34, 58, 34]"
  "KEY_mqttdomain = [34, 109, 113, 116, 116, 100, 111, 109, 97, 105, 110, 34, 58, 34]"
  "KEY_mqttuser = [34, 109, 113, 116, 116, 117, 115, 101, 114, 34, 58, 34]"
  "KEY_mqttpsw = [34, 109, 113, 116, 116, 112, 115, 119, 34, 58, 34]"
  "KEY_mqtttime = [34, 109, 113, 116, 116, 116, 105, 109, 101, 34, 58, 34]"
  "KEY_laswill = [34, 108, 97, 115, 119, 105, 108, 108, 34, 58, 34]"
  by (simp_all add: KEY_mqttip_def KEY_mqttport_def KEY_mqttdomain_def KEY_mqttuser_def KEY_mqttpsw_def
      KEY_mqtttime_def KEY_laswill_def str_def)

definition settings_keys :: "buf list" where
  "settings_keys = [KEY_mqttip, KEY_mqttport, KEY_mqttdomain, KEY_mqttuser, KEY_mqttpsw, KEY_mqtttime, KEY_laswill]"

text \<open>Every key starts with a quote, has three of them and is determined by the part before its colon.\<close>

lemma key_shape:
  assumes "k \<in> set settings_keys"
  shows "k \<noteq> []" "hd k = 34" "count_list k 34 = 3" "58 \<in> set k" "k = takeWhile (\<lambda>x. x \<noteq> 58) k @ [58, 34]"
proof -
  have "k \<noteq> [] \<and> hd k = 34 \<and> count_list k 34 = 3 \<and> 58 \<in> set k \<and> k = takeWhile (\<lambda>x. x \<noteq> 58) k @ [58, 34]"
    using assms unfolding settings_keys_def list.set insert_iff empty_iff
    by (elim disjE FalseE; simp add: KEY_eqs)
  then show "k \<noteq> []" "hd k = 34" "count_list k 34 = 3" "58 \<in> set k" "k = takeWhile (\<lambda>x. x \<noteq> 58) k @ [58, 34]"
    by blast+
qed

lemma takeWhile_in_first: "x \<in> set a \<Longrightarrow> \<not> P x \<Longrightarrow> takeWhile P (a @ b) = takeWhile P a"
  by (induction a) auto

lemma strstr_key:
  assumes v: "34 \<notin> set v" and k: "k \<in> set settings_keys" and k': "k' \<in> set settings_keys"
  shows "c_strstr (k @ v) k' = (if k = k' then Some 0 else None)"
proof (cases "k = k'")
  case True
  have "is_prefix_of k (k @ v)" by (auto simp: is_prefix_of_iff)
  then show ?thesis using True key_shape(1) [OF k] by (cases k) auto
next
  case False
  have "k @ v \<noteq> a @ k' @ r" for a r
  proof
    assume eq: "k @ v = a @ k' @ r"
    show False
    proof (cases a)
      case Nil
      then have "takeWhile (\<lambda>x. x \<noteq> 58) k = takeWhile (\<lambda>x. x \<noteq> 58) k'"
        using eq takeWhile_in_first [OF key_shape(4) [OF k], of "\<lambda>x. x \<noteq> 58" v]
          takeWhile_in_first [OF key_shape(4) [OF k'], of "\<lambda>x. x \<noteq> 58" r] by simp
      then show False using False key_shape(5) [OF k] key_shape(5) [OF k'] by metis
    next
      case (Cons x as)
      then have "x = 34" using eq key_shape(1,2) [OF k] by (metis append_Cons hd_append2 list.sel(1))
      then have "4 \<le> count_list (a @ k' @ r) 34" using Cons key_shape(3) [OF k'] by simp
      moreover have "count_list (k @ v) 34 = 3" using v key_shape(3) [OF k] by (simp add: count_list_0_iff)
      ultimately show False using eq by simp
    qed
  qed
  then show ?thesis using False by (auto simp: c_strstr_None_iff)
qed

text \<open>A token \<open>key value quote\<close> at the start of the block: the quote is cut off, and the key decides what
  is copied.\<close>

lemma token_cut:
  assumes "0 \<notin> set k" and "0 \<notin> set v"
  shows "c_strlen (k @ v @ 34 # 0 # r) = Some (length k + length v + 1)"
    and "wr (k @ v @ 34 # 0 # r) (length k + length v) 0 = Some (k @ v @ 0 # 0 # r)"
    and "c_str (k @ v @ 0 # 0 # r) = k @ v"
proof -
  have "c_str ((k @ v @ [34]) @ 0 # r) = k @ v @ [34]" using assms by (intro c_str_append_zero) auto
  then show "c_strlen (k @ v @ 34 # 0 # r) = Some (length k + length v + 1)" by (simp add: c_strlen_eq)
  show "wr (k @ v @ 34 # 0 # r) (length k + length v) 0 = Some (k @ v @ 0 # 0 # r)"
    by (simp add: wr_def list_update_append)
  have "c_str ((k @ v) @ 0 # 0 # r) = k @ v" using assms by (intro c_str_append_zero) auto
  then show "c_str (k @ v @ 0 # 0 # r) = k @ v" by simp
qed

lemma keys_nonzero: "k \<in> set settings_keys \<Longrightarrow> 0 \<notin> set k"
  by (auto simp: settings_keys_def KEY_eqs)

lemma keys_distinct [simp]:
  "KEY_mqttip \<noteq> KEY_mqttport" "KEY_mqttip \<noteq> KEY_mqttdomain" "KEY_mqttip \<noteq> KEY_mqttuser"
  "KEY_mqttip \<noteq> KEY_mqttpsw" "KEY_mqttip \<noteq> KEY_mqtttime" "KEY_mqttip \<noteq> KEY_laswill"
  "KEY_mqttport \<noteq> KEY_mqttip" "KEY_mqttport \<noteq> KEY_mqttdomain"
  "KEY_mqttport \<noteq> KEY_mqttuser" "KEY_mqttport \<noteq> KEY_mqttpsw"
  "KEY_mqttport \<noteq> KEY_mqtttime" "KEY_mqttport \<noteq> KEY_laswill"
  "KEY_mqttdomain \<noteq> KEY_mqttip" "KEY_mqttdomain \<noteq> KEY_mqttport"
  "KEY_mqttdomain \<noteq> KEY_mqttuser" "KEY_mqttdomain \<noteq> KEY_mqttpsw"
  "KEY_mqttdomain \<noteq> KEY_mqtttime" "KEY_mqttdomain \<noteq> KEY_laswill"
  "KEY_mqttuser \<noteq> KEY_mqttip" "KEY_mqttuser \<noteq> KEY_mqttport"
  "KEY_mqttuser \<noteq> KEY_mqttdomain" "KEY_mqttuser \<noteq> KEY_mqttpsw"
  "KEY_mqttuser \<noteq> KEY_mqtttime" "KEY_mqttuser \<noteq> KEY_laswill" "KEY_mqttpsw \<noteq> KEY_mqttip"
  "KEY_mqttpsw \<noteq> KEY_mqttport" "KEY_mqttpsw \<noteq> KEY_mqttdomain"
  "KEY_mqttpsw \<noteq> KEY_mqttuser" "KEY_mqttpsw \<noteq> KEY_mqtttime" "KEY_mqttpsw \<noteq> KEY_laswill"
  "KEY_mqtttime \<noteq> KEY_mqttip" "KEY_mqtttime \<noteq> KEY_mqttport"
  "KEY_mqtttime \<noteq> KEY_mqttdomain" "KEY_mqtttime \<noteq> KEY_mqttuser"
  "KEY_mqtttime \<noteq> KEY_mqttpsw" "KEY_mqtttime \<noteq> KEY_laswill" "KEY_laswill \<noteq> KEY_mqttip"
  "KEY_laswill \<noteq> KEY_mqttport" "KEY_laswill \<noteq> KEY_mqttdomain"
  "KEY_laswill \<noteq> KEY_mqttuser" "KEY_laswill \<noteq> KEY_mqttpsw" "KEY_laswill \<noteq> KEY_mqtttime"
  by (simp_all add: KEY_eqs)

lemma keys_listed [simp]:
  "KEY_mqttip \<in> set settings_keys" "KEY_mqttport \<in> set settings_keys" "KEY_mqttdomain \<in> set settings_keys"
  "KEY_mqttuser \<in> set settings_keys" "KEY_mqttpsw \<in> set settings_keys" "KEY_mqtttime \<in> set settings_keys" "KEY_laswill \<in> set settings_keys"
  by (simp_all add: settings_keys_def)

lemma keys_length [simp]:
  "length KEY_mqttip = 10" "length KEY_mqttport = 12" "length KEY_mqttdomain = 14" "length KEY_mqttuser = 12"
  "length KEY_mqttpsw = 11" "length KEY_mqtttime = 12" "length KEY_laswill = 11"
  by (simp_all add: KEY_eqs)

lemma min_plus_diff: "min a n + (n - a) = n" for a n :: nat
  by simp

lemma token_user:
  assumes "0 \<notin> set v" and "34 \<notin> set v" and "length net = 224" and "30 \<le> length v + length r"
  shows "Set_Cmd_token (KEY_mqttuser @ v @ 34 # 0 # r) 0 net =
    Some (KEY_mqttuser @ v @ 0 # 0 # r, take 120 net @ take 32 (v @ 0 # 0 # r) @ drop 152 net)"
  using token_cut [OF keys_nonzero assms(1), of KEY_mqttuser r] assms(3,4)
    min_plus_diff [of "length v" 32]
  by (simp add: Set_Cmd_token_def strstr_key [OF assms(2)] buf_read_def buf_write_def)

lemma token_port:
  assumes "0 \<notin> set v" and "34 \<notin> set v" and "length net = 224" and "11 \<le> length r" and "length v \<le> 195"
  shows "Set_Cmd_token (KEY_mqttport @ v @ 34 # 0 # r) 0 net =
    Some (KEY_mqttport @ v @ 0 # 0 # r,
      take 16 net @ take (length v + 13) (v @ 0 # 0 # r) @ drop (29 + length v) net)"
  using token_cut [OF keys_nonzero assms(1), of KEY_mqttport r] assms(3-5)
  by (simp add: Set_Cmd_token_def strstr_key [OF assms(2)] buf_read_def buf_write_def)

lemma token_ip:
  assumes "0 \<notin> set v" and "34 \<notin> set v" and "length net = 224" and "length v \<le> 16"
  shows "Set_Cmd_token (KEY_mqttip @ v @ 34 # 0 # r) 0 net =
    Some (KEY_mqttip @ v @ 0 # 0 # r, v @ replicate (16 - length v) 0 @ drop 16 net)"
proof -
  have "c_strlen (v @ 0 # 0 # r) = Some (length v)"
    using c_str_append_zero [OF assms(1), of "0 # r"] by (simp add: c_strlen_eq)
  then show ?thesis
    using token_cut [OF keys_nonzero assms(1), of KEY_mqttip r] assms(3,4)
    by (simp add: Set_Cmd_token_def strstr_key [OF assms(2)] buf_read_def buf_write_def buf_fill_def)
qed

text \<open>A command that is a single token.\<close>

lemma parse_single:
  assumes "k \<in> set settings_keys" and "0 \<notin> set v" and "44 \<notin> set v"
    and "Set_Cmd_token (k @ v @ 34 # 0 # behind) 0 net = Some (k @ v @ 0 # 0 # behind, n)"
  shows "Set_Cmd_parse True behind (k @ v @ [34]) net = Some (True, n)"
proof -
  have k: "0 \<notin> set k" "44 \<notin> set k" "k \<noteq> []" using assms(1) by (auto simp: settings_keys_def KEY_eqs)
  then have "c_strtok 44 ([] @ (k @ v @ [34]) @ 0 # behind) 0 =
      Some (Some 0, 0 + length (k @ v @ [34]), [] @ (k @ v @ [34]) @ 0 # behind)"
    using assms(2,3) by (intro c_strtok_end) auto
  moreover have "c_strtok 44 ((k @ v @ [0]) @ 0 # behind) (length (k @ v @ [34])) =
      Some (None, length (k @ v @ [34]), (k @ v @ [0]) @ 0 # behind)"
    by (rule c_strtok_none) simp_all
  ultimately show ?thesis
    using assms(4) by (simp add: Set_Cmd_parse_def Set_Cmd_loop.simps)
qed


section \<open>Commands of several tokens\<close>

text \<open>A token behind others is handled like the first one.\<close>

lemma Set_Cmd_token_shift:
  "Set_Cmd_token (pre @ blk) (length pre) net = map_option (\<lambda>(b, n). (pre @ b, n)) (Set_Cmd_token blk 0 net)"
proof -
  have rd: "buf_read (pre @ b) (length pre + i) k = buf_read b i k" for b :: buf and i k
    by (simp add: buf_read_def)
  have wr: "wr (pre @ b) (length pre + i) x = map_option ((@) pre) (wr b i x)" for b :: buf and i x
    by (simp add: wr_def list_update_append)
  have mb: "map_option g (Option.bind y h) = Option.bind y (\<lambda>z. map_option g (h z))" for g :: "'b \<Rightarrow> 'c" and y :: "'a option" and h
    by (cases y) simp_all
  show ?thesis
  proof (cases "c_strlen blk")
    case None
    then show ?thesis by (simp add: Set_Cmd_token_def)
  next
    case (Some l)
    show ?thesis
    proof (cases l)
      case 0
      with Some show ?thesis by (simp add: Set_Cmd_token_def)
    next
      case (Suc m)
      show ?thesis
      proof (cases "wr blk m 0")
        case None
        with \<open>c_strlen blk = Some l\<close> Suc show ?thesis by (simp add: Set_Cmd_token_def wr)
      next
        case (Some b)
        with \<open>c_strlen blk = Some l\<close> Suc show ?thesis
          by (simp add: Set_Cmd_token_def wr Let_def rd add.assoc mb cong: option.case_cong)
      qed
    qed
  qed
qed

text \<open>A command of two tokens, the last of which is the end of the text.\<close>

lemma parse_pair:
  assumes "k \<in> set settings_keys" and "0 \<notin> set v" and "44 \<notin> set v" and "k' \<in> set settings_keys" and "0 \<notin> set v'" and "44 \<notin> set v'"
    and t1: "Set_Cmd_token (k @ v @ 34 # 0 # k' @ v' @ 34 # 0 # behind) 0 net = Some (k @ v @ 0 # 0 # k' @ v' @ 34 # 0 # behind, n)"
    and t2: "Set_Cmd_token (k' @ v' @ 34 # 0 # behind) 0 n = Some (k' @ v' @ 0 # 0 # behind, n')"
  shows "Set_Cmd_parse True behind (k @ v @ [34, 44] @ k' @ v' @ [34]) net = Some (True, n')"
proof -
  have k: "0 \<notin> set k" "44 \<notin> set k" "0 \<notin> set k'" "44 \<notin> set k'"
    using assms(1,4) by (auto simp: settings_keys_def KEY_eqs)
  let ?p = "k @ v @ [0, 0]" and ?t = "k' @ v' @ [34]"
  have first: "c_strtok 44 (k @ v @ 34 # 44 # k' @ v' @ 34 # 0 # behind) 0 =
      Some (Some 0, length k + length v + 2, k @ v @ 34 # 0 # k' @ v' @ 34 # 0 # behind)"
    using c_strtok_mid [of 44 "k @ v @ [34]" "?t @ 0 # behind" 0 "[]"] assms(2,3) k by simp
  have second: "c_strtok 44 (k @ v @ 0 # 0 # k' @ v' @ 34 # 0 # behind) (length k + length v + 2) =
      Some (Some (length ?p), length ?p + length ?t, k @ v @ 0 # 0 # k' @ v' @ 34 # 0 # behind)"
    using c_strtok_end [of 44 ?t "length ?p" ?p behind] assms(5,6) k by simp
  have third: "c_strtok 44 (k @ v @ 0 # 0 # k' @ v' @ 0 # 0 # behind) (length ?p + length ?t) =
      Some (None, length ?p + length ?t, k @ v @ 0 # 0 # k' @ v' @ 0 # 0 # behind)"
    using c_strtok_none [of 44 "length ?p + length ?t" "?p @ k' @ v' @ [0]" behind] by simp
  have t2': "Set_Cmd_token (k @ v @ 0 # 0 # k' @ v' @ 34 # 0 # behind) (length ?p) n = Some (k @ v @ 0 # 0 # k' @ v' @ 0 # 0 # behind, n')"
    using Set_Cmd_token_shift [of ?p "k' @ v' @ 34 # 0 # behind" n] t2 by simp
  have "Set_Cmd_loop (k @ v @ 0 # 0 # k' @ v' @ 34 # 0 # behind) (length ?p) (length ?p + length ?t) n = Some n'"
    using t2' third by (subst Set_Cmd_loop.simps) simp
  moreover have "Set_Cmd_loop (k @ v @ 34 # 0 # k' @ v' @ 34 # 0 # behind) 0 (length k + length v + 2) net =
      Set_Cmd_loop (k @ v @ 0 # 0 # k' @ v' @ 34 # 0 # behind) (length ?p) (length ?p + length ?t) n"
    using t1 second by (subst Set_Cmd_loop.simps) simp
  ultimately show ?thesis using first by (simp add: Set_Cmd_parse_def)
qed

lemma dotted_chars: "0 \<notin> set (dotted n1 n2 n3 n4)" "34 \<notin> set (dotted n1 n2 n3 n4)" "44 \<notin> set (dotted n1 n2 n3 n4)"
  using dec_digits_are_digits [of n1] dec_digits_are_digits [of n2] dec_digits_are_digits [of n3] dec_digits_are_digits [of n4]
  by (auto simp: dotted_def list_all_iff is_digit_def word_le_def)

text \<open>The settings after an address and a user name.\<close>

definition with_ip_user :: "buf \<Rightarrow> buf \<Rightarrow> Net_Set_Typedef \<Rightarrow> Net_Set_Typedef" where
  "with_ip_user a u n = n\<lparr>mqttip := a @ replicate (16 - length a) 0, user := u\<rparr>"

lemma parse_ip_user:
  assumes "0 \<notin> set a" and "34 \<notin> set a" and "44 \<notin> set a" and "length a \<le> 16"
    and "0 \<notin> set v" and "34 \<notin> set v" and "44 \<notin> set v" and "30 \<le> length v + length behind" and "Net_Set_sized n"
  shows "Set_Cmd_parse True behind (KEY_mqttip @ a @ [34, 44] @ KEY_mqttuser @ v @ [34]) (Net_Set_bytes n) =
    Some (True, Net_Set_bytes (with_ip_user a (take 32 (v @ 0 # 0 # behind)) n))"
proof -
  let ?net = "Net_Set_bytes n" and ?ip = "a @ replicate (16 - length a) 0"
  have len: "length ?net = 224" by (rule length_Net_Set_bytes [OF assms(9)])
  have l2: "length (?ip @ drop 16 ?net) = 224" using len assms(4) by simp
  have "Set_Cmd_parse True behind (KEY_mqttip @ a @ [34, 44] @ KEY_mqttuser @ v @ [34]) ?net =
      Some (True, take 120 (?ip @ drop 16 ?net) @ take 32 (v @ 0 # 0 # behind) @ drop 152 (?ip @ drop 16 ?net))"
    using token_ip [OF assms(1,2) len assms(4), of "KEY_mqttuser @ v @ 34 # 0 # behind"]
      token_user [OF assms(5,6) l2, of behind] assms(3,5,7,8,1)
    by (intro parse_pair) simp_all
  then show ?thesis
    using assms(4,9) by (simp add: Net_Set_bytes_def with_ip_user_def Net_Set_sized_def)
qed

lemma with_ip_user_sized: "Net_Set_sized n \<Longrightarrow> length a \<le> 16 \<Longrightarrow> length u = 32 \<Longrightarrow> Net_Set_sized (with_ip_user a u n)"
  by (simp add: with_ip_user_def Net_Set_sized_def)

section \<open>What a command leaves behind\<close>

lemma Test_Add_Net_Info_ok:
  assumes "vfs_spec fs files" and "Net_Set_sized (Net_Info s)" and "length tmp = 224"
  shows "\<exists>w1. Test_Add_Net_Info fs tmp s w = Some w1 \<and>
    files w1 = (files w)(''Net_Info_File'' := Net_Set_bytes (Net_Info s))"
  using file_load_after [OF assms(1), of "file_store fs ''Net_Info_File'' (Net_Set_bytes (Net_Info s)) w" "''Net_Info_File''" tmp]
    file_store_files [OF assms(1)] length_Net_Set_bytes [OF assms(2)] assms(3)
  by (auto simp: Test_Add_Net_Info_def)

section \<open>Properties\<close>

text \<open>\<open>Is_Valid_IP\<close> on dotted decimal texts. Four numbers in the usual notation, in an array of 16 bytes, are
  accepted exactly when the first, second and fourth, reduced to 16 bits, are at most 255: every proper
  address is accepted, the third number is never looked at, and 65537 passes for 1.\<close>

theorem Is_Valid_IP_dotted:
  assumes "n1 \<le> 2147483647" and "n2 \<le> 2147483647" and "n4 \<le> 2147483647" and "length (dotted n1 n2 n3 n4) \<le> 16"
  shows "Is_Valid_IP (dotted n1 n2 n3 n4 @ replicate (16 - length (dotted n1 n2 n3 n4)) 0) =
    Some (if n1 mod 65536 \<le> 255 \<and> n2 mod 65536 \<le> 255 \<and> n4 mod 65536 \<le> 255 then 1 else 0)"
  using assms by (intro Is_Valid_IP_dotted_eq) (simp_all add: int_max_def)

theorem Is_Valid_IP_dotted_witness:
  "Is_Valid_IP (dotted 192 168 999 5 @ replicate 3 0) = Some 1"
proof -
  have "length (dotted 192 168 999 5) = 13" by (simp add: dotted_def dec_digits.simps)
  then show ?thesis using Is_Valid_IP_dotted [of 192 168 5 999] by simp
qed

text \<open>C26: a settings command with a broker address in dotted decimal and a user name of at most 31 characters, as received and
  whatever lies in memory behind it. The two settings, and no other, are stored in the file; the
  user name stays in force. The address stays in force exactly when \<open>Is_Valid_IP\<close> lets it pass: when its first, second and fourth
  number, reduced to 16 bits, are at most 255. Otherwise it is cleared to zeros in \<open>Net_Info\<close>, but the file keeps the
  rejected address, because the settings are saved before the check.\<close>

theorem address_command:
  assumes "vfs_spec fs files" and "Net_Set_sized (Net_Info s)" and "length tmp = 224"
    and "n1 \<le> 2147483647" and "n2 \<le> 2147483647" and "n4 \<le> 2147483647" and "length (dotted n1 n2 n3 n4) \<le> 16"
    and "0 \<notin> set v" and "34 \<notin> set v" and "44 \<notin> set v" and "length v \<le> 31" and "30 \<le> length v + length behind"
  shows "\<exists>n w' k. Handle_Set_Cmd fs tmp True behind
      (KEY_mqttip @ dotted n1 n2 n3 n4 @ [34, 44] @ KEY_mqttuser @ v @ [34] @ 0 # r) s w =
        Some (emit (Sleep 1000) (emit (Malloc k) (s\<lparr>Net_Info :=
          (if n1 mod 65536 \<le> 255 \<and> n2 mod 65536 \<le> 255 \<and> n4 mod 65536 \<le> 255 then n else n\<lparr>mqttip := replicate 16 0\<rparr>)\<rparr>)), w') \<and>
    mqttip n = dotted n1 n2 n3 n4 @ replicate (16 - length (dotted n1 n2 n3 n4)) 0 \<and> c_str (user n) = v \<and>
    n\<lparr>mqttip := mqttip (Net_Info s), user := user (Net_Info s)\<rparr> = Net_Info s \<and>
    files w' = (files w)(''Net_Info_File'' := Net_Set_bytes n)"
proof -
  let ?a = "dotted n1 n2 n3 n4" and ?u = "take 32 (v @ 0 # 0 # behind)"
  let ?txt = "KEY_mqttip @ ?a @ [34, 44] @ KEY_mqttuser @ v @ [34]"
  define n where "n = with_ip_user ?a ?u (Net_Info s)"
  let ?s1 = "emit (Malloc (length ?txt + 1)) (s\<lparr>Net_Info := n\<rparr>)"
  have c: "c_str (?txt @ 0 # r) = ?txt"
    using keys_nonzero assms(8) dotted_chars(1) by (intro c_str_append_zero) auto
  have t: "terminated (?txt @ 0 # r)" by (simp add: terminated_def)
  have p: "Set_Cmd_parse True behind ?txt (Net_Set_bytes (Net_Info s)) = Some (True, Net_Set_bytes n)"
    unfolding n_def using assms dotted_chars by (intro parse_ip_user) auto
  have sz: "Net_Set_sized n" unfolding n_def using assms by (intro with_ip_user_sized) simp_all
  obtain w1 where w1: "Test_Add_Net_Info fs tmp ?s1 w = Some w1" "files w1 = (files w)(''Net_Info_File'' := Net_Set_bytes n)"
    using Test_Add_Net_Info_ok [OF assms(1) _ assms(3), of ?s1 w] sz by auto
  have ip: "mqttip n = ?a @ replicate (16 - length ?a) 0" by (simp add: n_def with_ip_user_def)
  have v: "Is_Valid_IP (mqttip n) = Some (if n1 mod 65536 \<le> 255 \<and> n2 mod 65536 \<le> 255 \<and> n4 mod 65536 \<le> 255 then 1 else 0)"
    unfolding ip using assms(4-7) by (intro Is_Valid_IP_dotted_eq) (simp_all add: int_max_def)
  have u: "c_str (user n) = v"
  proof -
    have "?u = v @ 0 # take (31 - length v) (0 # behind)" using assms(11) by (simp add: take_Cons')
    then show ?thesis using c_str_append_zero [OF assms(8)] by (simp add: n_def with_ip_user_def)
  qed
  have kept: "n\<lparr>mqttip := mqttip (Net_Info s), user := user (Net_Info s)\<rparr> = Net_Info s"
    by (simp add: n_def with_ip_user_def)
  have "Handle_Set_Cmd fs tmp True behind (?txt @ 0 # r) s w =
      Some (emit (Sleep 1000) (emit (Malloc (length ?txt + 1)) (s\<lparr>Net_Info :=
          (if n1 mod 65536 \<le> 255 \<and> n2 mod 65536 \<le> 255 \<and> n4 mod 65536 \<le> 255 then n else n\<lparr>mqttip := replicate 16 0\<rparr>)\<rparr>)), w1)"
    using c t p w1(1) v sz by (simp add: Handle_Set_Cmd_def Net_Set_bytes_roundtrip Let_def)
  then show ?thesis using w1(2) ip u kept by (intro exI [of _ n] exI [of _ w1] exI [of _ "length ?txt + 1"]) simp
qed

theorem address_command_witness:
  "\<exists>s1 w1 s2 w2.
     Handle_Set_Cmd ram_fs (replicate 224 0) True (replicate 40 7)
       (KEY_mqttip @ str ''10.0.0.9'' @ [34, 44] @ KEY_mqttuser @ str ''ab'' @ [34] @ [0]) init_gateway (\<lambda>_. [], []) = Some (s1, w1) \<and>
     mqttip (Net_Info s1) = str ''10.0.0.9'' @ replicate 8 0 \<and> c_str (user (Net_Info s1)) = str ''ab'' \<and>
     Handle_Set_Cmd ram_fs (replicate 224 0) True (replicate 40 7)
       (KEY_mqttip @ str ''10.300.0.9'' @ [34, 44] @ KEY_mqttuser @ str ''ab'' @ [34] @ [0]) init_gateway (\<lambda>_. [], []) = Some (s2, w2) \<and>
     mqttip (Net_Info s2) = replicate 16 0 \<and> take 10 (fst w2 ''Net_Info_File'') = str ''10.300.0.9''"
proof -
  have d: "dotted 10 0 0 9 = str ''10.0.0.9''" "dotted 10 300 0 9 = str ''10.300.0.9''"
    by (simp_all add: dotted_def dec_digits.simps str_def)
  have ab: "0 \<notin> set (str ''ab'')" "34 \<notin> set (str ''ab'')" "44 \<notin> set (str ''ab'')" "length (str ''ab'') = 2" by (simp_all add: str_def)
  have l: "length (str ''10.0.0.9'') = 8" "length (str ''10.300.0.9'') = 10" by (simp_all add: str_def)
  have sz: "Net_Set_sized (Net_Info init_gateway)" using sized_init by (simp add: sized_def)
  note c = address_command [OF ram_fs_spec sz, of "replicate 224 0" _ _ _ _ "str ''ab''" "replicate 40 7" "[]" "(\<lambda>_. [], [])"]
  obtain n1 w1 k1 where 1: "Handle_Set_Cmd ram_fs (replicate 224 0) True (replicate 40 7)
       (KEY_mqttip @ str ''10.0.0.9'' @ [34, 44] @ KEY_mqttuser @ str ''ab'' @ [34] @ [0]) init_gateway (\<lambda>_. [], []) =
       Some (emit (Sleep 1000) (emit (Malloc k1) (init_gateway\<lparr>Net_Info := n1\<rparr>)), w1)"
     "mqttip n1 = str ''10.0.0.9'' @ replicate 8 0" "c_str (user n1) = str ''ab''"
    using c [of 10 0 9 0] by (auto simp: d ab l)
  obtain n2 w2 k2 where 2: "Handle_Set_Cmd ram_fs (replicate 224 0) True (replicate 40 7)
       (KEY_mqttip @ str ''10.300.0.9'' @ [34, 44] @ KEY_mqttuser @ str ''ab'' @ [34] @ [0]) init_gateway (\<lambda>_. [], []) =
       Some (emit (Sleep 1000) (emit (Malloc k2) (init_gateway\<lparr>Net_Info := n2\<lparr>mqttip := replicate 16 0\<rparr>\<rparr>)), w2)"
     "mqttip n2 = str ''10.300.0.9'' @ replicate 6 0" "fst w2 ''Net_Info_File'' = Net_Set_bytes n2"
    using c [of 10 300 9 0] by (auto simp: d ab l)
  from 1 2 show ?thesis by (auto simp: Net_Set_bytes_def l)
qed

text \<open>A command with the user name \<open>v\<close> (at most 31 characters, no quote, comma or zero) stores exactly that name and
  changes no other setting, whatever lies in memory behind the command, although the code copies 32 bytes
  from the middle of the command.\<close>

theorem Set_Cmd_user:
  assumes "0 \<notin> set v" and "34 \<notin> set v" and "44 \<notin> set v" and "length v \<le> 31" and "30 \<le> length v + length behind"
    and "Net_Set_sized n"
  shows "\<exists>bs. Set_Cmd_parse True behind (KEY_mqttuser @ v @ [34]) (Net_Set_bytes n) = Some (True, bs) \<and>
    c_str (user (Net_Set_of_bytes bs)) = v \<and>
    (Net_Set_of_bytes bs)\<lparr>user := user n\<rparr> = n"
proof -
  let ?net = "Net_Set_bytes n" and ?u = "take 32 (v @ 0 # 0 # behind)"
  have len: "length ?net = 224" by (rule length_Net_Set_bytes [OF assms(6)])
  have "Set_Cmd_parse True behind (KEY_mqttuser @ v @ [34]) ?net = Some (True, take 120 ?net @ ?u @ drop 152 ?net)"
    using parse_single [OF _ assms(1,3) token_user [OF assms(1,2) len assms(5)]] by simp
  moreover have "length ?u = 32" using assms(5) by simp
  moreover have "?u = v @ 0 # take (31 - length v) (0 # behind)" using assms(4) by (simp add: take_Cons')
  then have "c_str ?u = v" using c_str_append_zero [OF assms(1)] by simp
  ultimately show ?thesis
    using assms(4,6) by (simp add: Net_Set_of_bytes_def Net_Set_bytes_def Net_Set_sized_def)
qed

theorem Set_Cmd_user_witness:
  "\<exists>bs. Set_Cmd_parse True (replicate 40 7) (KEY_mqttuser @ [97, 98] @ [34]) (Net_Set_bytes (Net_Info init_gateway)) = Some (True, bs) \<and>
    c_str (user (Net_Set_of_bytes bs)) = [97, 98]"
  using Set_Cmd_user [of "[97, 98]" "replicate 40 7" "Net_Info init_gateway"]
  by (auto simp: Net_Set_sized_def Net_Set_of_bytes_def)

text \<open>A command with a port number copies the length of the whole token instead of the length of the
  value. The port itself is stored, but the first \<open>length v + 5\<close> bytes of the broker domain, which follows the
  8-byte port in \<open>Net_Info\<close>, are overwritten with what lies in memory behind the value.\<close>

theorem Set_Cmd_port_clobbers_domain:
  assumes "0 \<notin> set v" and "34 \<notin> set v" and "44 \<notin> set v" and "length v \<le> 6" and "11 \<le> length behind"
    and "Net_Set_sized n"
  shows "\<exists>bs. Set_Cmd_parse True behind (KEY_mqttport @ v @ [34]) (Net_Set_bytes n) = Some (True, bs) \<and>
    c_str (mqttport (Net_Set_of_bytes bs)) = v \<and>
    domain (Net_Set_of_bytes bs) = drop 8 (v @ 0 # 0 # take 11 behind) @ drop (length v + 5) (domain n)"
proof -
  let ?net = "Net_Set_bytes n"
  have len: "length ?net = 224" by (rule length_Net_Set_bytes [OF assms(6)])
  have "Set_Cmd_parse True behind (KEY_mqttport @ v @ [34]) ?net =
      Some (True, take 16 ?net @ take (length v + 13) (v @ 0 # 0 # behind) @ drop (29 + length v) ?net)"
    using parse_single [OF _ assms(1,3) token_port [OF assms(1,2) len assms(5)]] assms(4) by simp
  moreover have "take 8 (v @ 0 # 0 # x) = v @ 0 # take (7 - length v) (0 # x)" for x :: buf
    using assms(4) by (simp add: take_Cons')
  then have "c_str (take 8 (v @ 0 # 0 # x)) = v" for x using c_str_append_zero [OF assms(1)] by simp
  moreover have "drop (8 - length v) ((0 # 0 # take 11 behind) @ r) = drop (8 - length v) (0 # 0 # take 11 behind) @ r" for r
    using assms(4,5) by (subst drop_append) simp
  ultimately show ?thesis
    using assms(4-6) by (simp add: Net_Set_of_bytes_def Net_Set_bytes_def Net_Set_sized_def add.commute)
qed

theorem Set_Cmd_port_clobbers_domain_witness:
  "\<exists>bs. Set_Cmd_parse True (replicate 40 7) (KEY_mqttport @ [49, 56, 56, 51] @ [34]) (Net_Set_bytes (Net_Set_of_bytes (replicate 224 65))) = Some (True, bs) \<and>
     c_str (mqttport (Net_Set_of_bytes bs)) = [49, 56, 56, 51] \<and>
     domain (Net_Set_of_bytes bs) = replicate 9 7 @ replicate 87 65"
  using Set_Cmd_port_clobbers_domain [of "[49, 56, 56, 51]" "replicate 40 7" "Net_Set_of_bytes (replicate 224 65)"]
  by (simp add: Net_Set_sized_def Net_Set_of_bytes_def)

end
