(* ===== verification/Rs485.thy ===== *)
theory Rs485
  imports Settings Report Crc16 Machine
begin

text \<open>
  The RS485 side of the gateway, src/call.c: the two half-duplex transmitters, the receive handler, the
  thread that enumerates the sub-devices, the thread that polls and switches them, and the small threads
  and helpers around them.

  A thread's endless loop is modelled by its body, which takes the event its wait delivers (\<open>0\<close> for the
  time-out) and gives the next state. The handles that \<open>nwy_uart_init\<close> returns for the two ports are the
  argument \<open>uart\<close>.
\<close>

section \<open>Waiting\<close>

text \<open>The argument is passed by value, so the loop tests a copy that never changes.\<close>

partial_function (option) Waiting_Mqtt :: "u8 \<Rightarrow> gateway \<Rightarrow> gateway option" where
  "Waiting_Mqtt fg s = (if fg \<noteq> 0 then Waiting_Mqtt fg (emit (Sleep 100) s) else Some s)"

section \<open>Pins and transmitters\<close>

definition SET_Led_On_off :: "u8 \<Rightarrow> u8 \<Rightarrow> gateway \<Rightarrow> gateway" where
  "SET_Led_On_off led_name valu s =
     (let port = (if led_name = 0 then 4 else if led_name = 1 then 28 else if led_name = 2 then 24 else 4)
      in emit (Gpio_Value port (unat valu)) (emit (Gpio_Output port) s))"

definition Set_RTS_on_off :: "u8 \<Rightarrow> gateway \<Rightarrow> gateway" where
  "Set_RTS_on_off valu s = emit (Gpio_Value 23 (unat valu)) (emit (Gpio_Output 23) s)"

definition Snd_485_Msg_Uart1 :: "(nat \<Rightarrow> int) \<Rightarrow> buf \<Rightarrow> nat \<Rightarrow> gateway \<Rightarrow> gateway option" where
  "Snd_485_Msg_Uart1 uart msg len s =
     do { let hd = uart 1;
          let s1 = emit (Uart_Set_Baud hd 115200) (emit (Uart_Reg_Recv 1) (emit (Uart_Init 1) s));
          let s2 = emit (Gpio_Value 19 1) (emit (Gpio_Output 19) s1);
          d \<leftarrow> buf_read msg 0 len;
          let s3 = emit (Usleep (1000 * (1 + len div 10))) (emit (Uart_Send hd d) s2);
          let s4 = emit (Gpio_Value 19 0) (emit (Gpio_Output 19) s3);
          h \<leftarrow> wr (RS485_hd s4) 0 hd;
          Some (s4\<lparr>RS485_hd := h\<rparr>) }"

definition Snd_485_Msg_Uart2 :: "(nat \<Rightarrow> int) \<Rightarrow> buf \<Rightarrow> nat \<Rightarrow> gateway \<Rightarrow> gateway option" where
  "Snd_485_Msg_Uart2 uart msg len s =
     do { let hd = uart 2;
          let s1 = emit (Uart_Set_Baud hd 115200) (emit (Uart_Reg_Recv 2) (emit (Uart_Init 2) s));
          let s2 = emit (Gpio_Value 23 1) (emit (Gpio_Output 23) s1);
          d \<leftarrow> buf_read msg 0 len;
          let s3 = emit (Sleep 2) (emit (Uart_Send hd d) s2);
          let s4 = emit (Gpio_Value 23 0) (emit (Gpio_Output 23) s3);
          h \<leftarrow> wr (RS485_hd s4) 1 hd;
          Some (s4\<lparr>RS485_hd := h\<rparr>) }"

definition Snd_485_Msg :: "(nat \<Rightarrow> int) \<Rightarrow> buf \<Rightarrow> int \<Rightarrow> nat \<Rightarrow> gateway \<Rightarrow> gateway option" where
  "Snd_485_Msg uart msg num len s =
     (if num = 1 then Snd_485_Msg_Uart1 uart msg len s
      else if num = 2 then Snd_485_Msg_Uart2 uart msg len s
      else Some s)"

definition Snd_N_ISO_485 :: "(nat \<Rightarrow> int) \<Rightarrow> buf \<Rightarrow> nat \<Rightarrow> gateway \<Rightarrow> gateway option" where
  "Snd_N_ISO_485 uart msg len s = Snd_485_Msg_Uart1 uart msg len s"

definition Snd_OUT_ISO_485 :: "(nat \<Rightarrow> int) \<Rightarrow> buf \<Rightarrow> nat \<Rightarrow> gateway \<Rightarrow> gateway option" where
  "Snd_OUT_ISO_485 uart msg len s = Snd_485_Msg_Uart2 uart msg len s"

definition Set_Poll_Addr_Pin_Low :: "gateway \<Rightarrow> gateway" where
  "Set_Poll_Addr_Pin_Low s =
     emit (Gpio_Value 15 0) (emit (Gpio_Output 15) (emit (Gpio_Value 14 0) (emit (Gpio_Output 14) s)))"

definition Init_485 :: "(nat \<Rightarrow> int) \<Rightarrow> gateway \<Rightarrow> gateway option" where
  "Init_485 uart s =
     do { h1 \<leftarrow> wr (RS485_hd s) 0 (uart 1);
          let s1 = emit (Uart_Reg_Recv 1) (emit (Uart_Set_Baud (uart 1) 115200) (emit (Uart_Init 1) (s\<lparr>RS485_hd := h1\<rparr>)));
          h2 \<leftarrow> wr (RS485_hd s1) 1 (uart 2);
          Some (emit (Uart_Reg_Recv 2) (emit (Uart_Set_Baud (uart 2) 115200) (emit (Uart_Init 2) (s1\<lparr>RS485_hd := h2\<rparr>)))) }"

section \<open>Receiving\<close>

text \<open>The loop of \<open>handle_n_Iso\<close>: each byte in two hexadecimal digits, by \<open>snprintf\<close> into four bytes.\<close>

fun hex_append :: "nat \<Rightarrow> nat \<Rightarrow> buf \<Rightarrow> buf \<Rightarrow> buf option" where
  "hex_append 0 i rx msg = Some msg"
| "hex_append (Suc n) i rx msg =
     do { c \<leftarrow> rd rx i;
          t \<leftarrow> local_text 4 (fmt_02x (unat c));
          m \<leftarrow> c_strcat msg t;
          hex_append n (i + 1) rx m }"

definition handle_n_Iso :: "buf \<Rightarrow> u32 \<Rightarrow> gateway \<Rightarrow> gateway option" where
  "handle_n_Iso rx len s =
     do { id \<leftarrow> rd rx 0;
          if id = 0 then Some s
          else do { d \<leftarrow> rd (xb_SubDev_SN s) (unat id - 1);
                    ds \<leftarrow> wr (xb_SubDev_SN s) (unat id - 1) (d\<lparr>No_Ans_Cnt := 0\<rparr>);
                    let s1 = s\<lparr>xb_SubDev_SN := ds\<rparr>;
                    m0 \<leftarrow> buf_fill (mqtt_report_Msg s1) 0 0 MSG_REPLY_LEN;
                    m1 \<leftarrow> c_strcat m0 (str ''6,'');
                    m2 \<leftarrow> c_strcat m1 (str ''6,'');
                    if len \<le> 6 then Some (s1\<lparr>mqtt_report_Msg := m2\<rparr>)
                    else do { m3 \<leftarrow> hex_append (unat len) 0 rx m2;
                              let s2 = s1\<lparr>mqtt_report_Msg := m3, mqtt_report_Len := sint (len * 2)\<rparr>;
                              s3 \<leftarrow> Waiting_Mqtt (Fg_Snding_Mqtt s2) s2;
                              Some (emit (Send_Sig Mqtt_Snd_task EVENT_SND_485_CTRL) s3) } } }"

text \<open>A command from the isolated port. \<open>fs\<close>, \<open>tmp\<close>, \<open>mem\<close> and \<open>behind\<close> are the arguments of \<open>Handle_Set_Cmd\<close>.\<close>

definition handle_Iso_Setting ::
  "(nat \<Rightarrow> int) \<Rightarrow> 'w vfs \<Rightarrow> buf \<Rightarrow> bool \<Rightarrow> buf \<Rightarrow> buf \<Rightarrow> gateway \<Rightarrow> 'w \<Rightarrow> (gateway \<times> 'w) option" where
  "handle_Iso_Setting uart fs tmp mem behind rx s w =
     do { t \<leftarrow> arr_text rx;
          if c_strstr t (str ''cloud=?'') \<noteq> None then
            do { (b, s1) \<leftarrow> Reply_Cloud_Cmd (replicate 512 0) MSG_REPLY_LEN s;
                 len \<leftarrow> c_strlen b;
                 s2 \<leftarrow> Snd_OUT_ISO_485 uart b len s1;
                 Some (s2, w) }
          else if c_strstr t (str ''restart'') \<noteq> None then
            do { (b, s1) \<leftarrow> Reply_Restart (replicate 512 0) MSG_REPLY_LEN s;
                 len \<leftarrow> c_strlen b;
                 s2 \<leftarrow> Snd_OUT_ISO_485 uart b len s1;
                 Some (emit (Power_Off 2) (emit (Sleep 100) s2), w) }
          else if c_strstr t (str ''\"cmd\":\"sets\",'') \<noteq> None then
            do { let pt = drop 13 rx;
                 len \<leftarrow> c_strlen pt;
                 (s1, w1) \<leftarrow> Handle_Set_Cmd fs tmp mem behind pt s w;
                 s2 \<leftarrow> Snd_OUT_ISO_485 uart pt len s1;
                 Some (s2, w1) }
          else Some (s, w) }"

definition store_sn :: "nat \<Rightarrow> buf \<Rightarrow> gateway \<Rightarrow> gateway option" where
  "store_sn i rx s =
     do { d \<leftarrow> rd (xb_SubDev_SN s) i;
          v \<leftarrow> buf_read rx 2 12;
          n \<leftarrow> buf_write (sn d) 0 v;
          ds \<leftarrow> wr (xb_SubDev_SN s) i (d\<lparr>sn := n\<rparr>);
          Some (s\<lparr>xb_SubDev_SN := ds\<rparr>) }"

text \<open>\<open>h\<close> is the value of \<open>RS485_hd[..]\<close> the caller passes.\<close>

definition handle_rec ::
  "(nat \<Rightarrow> int) \<Rightarrow> 'w vfs \<Rightarrow> buf \<Rightarrow> bool \<Rightarrow> buf \<Rightarrow> int \<Rightarrow> buf \<Rightarrow> u32 \<Rightarrow> gateway \<Rightarrow> 'w \<Rightarrow> (gateway \<times> 'w) option" where
  "handle_rec uart fs tmp mem behind h rx len s w =
     (if thread_Fg s = 0 then Some (s, w)
      else do { crc \<leftarrow> N_CRC16 rx (len - 2);
                if len < 2 \<or> len > 200 then Some (s, w)
                else do { c1 \<leftarrow> rd rx (unat len - 2);
                          ok \<leftarrow> (if drop_bit 8 crc = ucast c1
                                then do { c2 \<leftarrow> rd rx (unat len - 1); Some (crc AND 0xFF = ucast c2) }
                                else Some False);
                          id \<leftarrow> rd rx 0;
                          s1 \<leftarrow> (if ok
                                then (if thread_Fg s = 1 \<and> id < 32 \<and> id \<ge> 1
                                      then store_sn (unat id - 1) rx s else Some s)
                                else (if id < 4 then store_sn (unat id) rx s else Some s));
                          if thread_Fg s1 = 1
                          then Some (emit (Send_Sig Poll_Addr_thread EVENT_REC_485) s1, w)
                          else if h = 0
                          then do { s2 \<leftarrow> handle_n_Iso rx len s1; Some (s2, w) }
                          else handle_Iso_Setting uart fs tmp mem behind rx s1 w } })"

definition nwy_485_recv_handle_1 ::
  "(nat \<Rightarrow> int) \<Rightarrow> 'w vfs \<Rightarrow> buf \<Rightarrow> bool \<Rightarrow> buf \<Rightarrow> buf \<Rightarrow> u32 \<Rightarrow> gateway \<Rightarrow> 'w \<Rightarrow> (gateway \<times> 'w) option" where
  "nwy_485_recv_handle_1 uart fs tmp mem behind rx len s w =
     do { hd \<leftarrow> rd (RS485_hd s) 0; handle_rec uart fs tmp mem behind hd rx len s w }"

definition nwy_485_recv_handle_2 ::
  "(nat \<Rightarrow> int) \<Rightarrow> 'w vfs \<Rightarrow> buf \<Rightarrow> bool \<Rightarrow> buf \<Rightarrow> buf \<Rightarrow> u32 \<Rightarrow> gateway \<Rightarrow> 'w \<Rightarrow> (gateway \<times> 'w) option" where
  "nwy_485_recv_handle_2 uart fs tmp mem behind rx len s w =
     do { hd \<leftarrow> rd (RS485_hd s) 1; handle_rec uart fs tmp mem behind hd rx len s w }"

section \<open>Commands to the sub-devices\<close>

definition Snd_Ctrl_Cmd :: "(nat \<Rightarrow> int) \<Rightarrow> u8 \<Rightarrow> u16 \<Rightarrow> gateway \<Rightarrow> gateway option" where
  "Snd_Ctrl_Cmd uart dev cmd s =
     do { let b = [dev, 0x44, hi8 cmd, lo8 cmd];
          c \<leftarrow> N_CRC16 b 4;
          let crc = (ucast c :: u16);
          Snd_N_ISO_485 uart (b @ [hi8 crc, lo8 crc]) 6 s }"

text \<open>\<open>restart_fg\<close> is the function's static variable. \<open>b4\<close> is the unused fifth byte of its array.\<close>

definition Snd_Restart :: "(nat \<Rightarrow> int) \<Rightarrow> u8 \<Rightarrow> gateway \<Rightarrow> gateway option" where
  "Snd_Restart uart b4 s =
     (if restart_fg s \<noteq> 0 then Some s
      else do { let s1 = s\<lparr>restart_fg := 1\<rparr>;
                c \<leftarrow> N_CRC16 [0, 0x4e, b4, b4, b4] 2;
                b \<leftarrow> conver_Crc (ucast c) [0, 0x4e, b4, b4, b4] 2;
                s2 \<leftarrow> Snd_N_ISO_485 uart b 4 s1;
                Some (emit (Sleep 1000) s2) })"

section \<open>Enumerating the sub-devices\<close>

definition Start_Ctrl_Thread :: "gateway \<Rightarrow> gateway" where
  "Start_Ctrl_Thread s = emit (Create_Thread RS485_Ctrl_thread) s"

definition Start_Poll_Addr_Thread :: "gateway \<Rightarrow> gateway" where
  "Start_Poll_Addr_Thread s = emit (Create_Thread Poll_Addr_thread) s"

text \<open>What \<open>Poll_Addr_Thread\<close> does before its loop, and one round of the loop with the event its wait
  delivers. A round without answer ends the thread.\<close>

definition Poll_Addr_start :: "(nat \<Rightarrow> int) \<Rightarrow> gateway \<Rightarrow> gateway option" where
  "Poll_Addr_start uart s =
     Init_485 uart (emit (Sleep 1000) (emit (Sleep 1000) (emit (Sleep 1000) s)))"

definition Poll_Addr_round :: "(nat \<Rightarrow> int) \<Rightarrow> u8 \<Rightarrow> gateway \<Rightarrow> u32 \<Rightarrow> gateway option" where
  "Poll_Addr_round uart b4 s event_id =
     do { s1 \<leftarrow> Snd_Restart uart b4 s;
          let s2 = Set_Poll_Addr_Pin_Low (s1\<lparr>thread_Fg := 1\<rparr>);
          c0 \<leftarrow> wr (poll_Cmd s2) 0 0;
          c1 \<leftarrow> wr c0 1 0;
          c2 \<leftarrow> wr c1 2 (Poll_Addr_id s2);
          c \<leftarrow> N_CRC16 c2 3;
          c3 \<leftarrow> conver_Crc (ucast c) c2 3;
          s3 \<leftarrow> Snd_N_ISO_485 uart c3 5 (s2\<lparr>poll_Cmd := c3\<rparr>);
          s4 \<leftarrow> Snd_OUT_ISO_485 uart c3 5 s3;
          if event_id = EVENT_REC_485 then Some (s4\<lparr>Poll_Addr_id := Poll_Addr_id s4 + 1\<rparr>)
          else Some (emit Exit_Thread (Start_Ctrl_Thread
                 (s4\<lparr>Dev_Num := (if Poll_Addr_id s4 = 1 then 1 else Poll_Addr_id s4 - 1)\<rparr>))) }"

section \<open>Polling and switching\<close>

fun Snd_All :: "(nat \<Rightarrow> int) \<Rightarrow> nat \<Rightarrow> nat \<Rightarrow> u32 \<Rightarrow> gateway \<Rightarrow> gateway option" where
  "Snd_All uart 0 id_tmp event_id s = Some s"
| "Snd_All uart (Suc n) id_tmp event_id s =
     do { s1 \<leftarrow> Snd_Ctrl_Cmd uart (word_of_nat id_tmp) (ucast event_id) s;
          Snd_All uart n (id_tmp + 1) event_id (emit (Sleep 100) s1) }"

text \<open>The loop \<open>for (i = 1; i <= Dev_Num; i++)\<close> over the answer counters.\<close>

fun Count_No_Ans :: "nat \<Rightarrow> nat \<Rightarrow> gateway \<Rightarrow> gateway option" where
  "Count_No_Ans 0 i s = Some s"
| "Count_No_Ans (Suc n) i s =
     do { d \<leftarrow> rd (xb_SubDev_SN s) (i - 1);
          ds \<leftarrow> wr (xb_SubDev_SN s) (i - 1) (if No_Ans_Cnt d < 3 then d\<lparr>No_Ans_Cnt := No_Ans_Cnt d + 1\<rparr> else d);
          Count_No_Ans n (i + 1) (s\<lparr>xb_SubDev_SN := ds\<rparr>) }"

definition is_switch_event :: "u32 \<Rightarrow> bool" where
  "is_switch_event e = (e = RELAY_ALL_ON \<or> e = RELAY_ALL_OFF \<or> e = RELAY_ALL_RS \<or> e = EVENT_SND_485_CTRL \<or> e = RELAY_ALL_CLEAR)"

text \<open>One round of \<open>Rs485_Ctrl_Thread\<close>. The connection status stored in the third byte of the poll frame is
  overwritten with 0 at once.\<close>

definition Rs485_Ctrl_round :: "(nat \<Rightarrow> int) \<Rightarrow> gateway \<Rightarrow> u32 \<Rightarrow> gateway option" where
  "Rs485_Ctrl_round uart s event_id =
     do { let s0 = s\<lparr>thread_Fg := 2\<rparr>;
          c0 \<leftarrow> wr (poll_Ctrl_Cmd s0) 0 (poll_id s0);
          c1 \<leftarrow> wr c0 1 0x4D;
          c2 \<leftarrow> wr c1 2 0;
          c \<leftarrow> N_CRC16 c2 3;
          let crc = (ucast c :: u16);
          c3 \<leftarrow> wr c2 3 (hi8 crc);
          c4 \<leftarrow> wr c3 4 (lo8 crc);
          let s1 = s0\<lparr>poll_Ctrl_Cmd := c4, fg_Snding_485 := 1\<rparr>;
          s2 \<leftarrow> (if is_switch_event event_id
                then (if event_id = EVENT_SND_485_CTRL
                      then Snd_Ctrl_Cmd uart 1 (ucast RELAY_ALL_ON) s1
                      else Snd_All uart (unat (Dev_Num s1)) 1 event_id s1)
                else do { let p = poll_id s1 + 1;
                          s' \<leftarrow> (if p > Dev_Num s1 then Count_No_Ans (unat (Dev_Num s1)) 1 (s1\<lparr>poll_id := 1\<rparr>)
                                else Some (s1\<lparr>poll_id := p\<rparr>));
                          Snd_N_ISO_485 uart (poll_Ctrl_Cmd s') 5 s' });
          Some (s2\<lparr>fg_Snding_485 := 0\<rparr>) }"

section \<open>Restart and key\<close>

definition Start_Reset_Thread :: "gateway \<Rightarrow> gateway" where
  "Start_Reset_Thread s = emit (Create_Thread Reset_thread) s"

text \<open>The first pass of the outer loop; \<open>nnn\<close> keeps its value, so later passes only power off.\<close>

definition SysReset_Thread_pass :: "nat \<Rightarrow> gateway \<Rightarrow> gateway" where
  "SysReset_Thread_pass nnn s = emit (Power_Off 2) ((emit (Sleep 1000) ^^ (5 - nnn)) s)"

definition snd_key_Event :: "gateway \<Rightarrow> gateway option" where
  "snd_key_Event s =
     do { s1 \<leftarrow> Waiting_Mqtt (fg_Snding_485 s) s;
          Some (emit (Send_Sig RS485_Ctrl_thread EVENT_SND_485_CTRL) s1) }"


section \<open>Waiting returns only when there is nothing to wait for\<close>

lemma Waiting_Mqtt_eq: "Waiting_Mqtt fg s = (if fg = 0 then Some s else None)"
proof (cases "fg = 0")
  case True
  then show ?thesis by (subst Waiting_Mqtt.simps) simp
next
  case False
  have "fg = 0" if "Waiting_Mqtt fg s = Some t" for t
    using that by (rule Waiting_Mqtt.raw_induct [rotated]) (auto split: if_splits)
  with False show ?thesis by (cases "Waiting_Mqtt fg s") auto
qed

section \<open>Transmitting\<close>

definition uart1_effects :: "(nat \<Rightarrow> int) \<Rightarrow> buf \<Rightarrow> effect list" where
  "uart1_effects uart d =
     [Uart_Init 1, Uart_Reg_Recv 1, Uart_Set_Baud (uart 1) 115200, Gpio_Output 19, Gpio_Value 19 1,
      Uart_Send (uart 1) d, Usleep (1000 * (1 + length d div 10)), Gpio_Output 19, Gpio_Value 19 0]"

definition uart2_effects :: "(nat \<Rightarrow> int) \<Rightarrow> buf \<Rightarrow> effect list" where
  "uart2_effects uart d =
     [Uart_Init 2, Uart_Reg_Recv 2, Uart_Set_Baud (uart 2) 115200, Gpio_Output 23, Gpio_Value 23 1,
      Uart_Send (uart 2) d, Sleep 2, Gpio_Output 23, Gpio_Value 23 0]"

lemma Uart1_eq:
  assumes "length (RS485_hd s) = 2" and "len \<le> length msg"
  shows "Snd_485_Msg_Uart1 uart msg len s =
    Some (s\<lparr>RS485_hd := (RS485_hd s)[0 := uart 1], trace := trace s @ uart1_effects uart (take len msg)\<rparr>)"
  using assms by (simp add: Snd_485_Msg_Uart1_def buf_read_def uart1_effects_def emit_def min_def Let_def)

lemma Uart2_eq:
  assumes "length (RS485_hd s) = 2" and "len \<le> length msg"
  shows "Snd_485_Msg_Uart2 uart msg len s =
    Some (s\<lparr>RS485_hd := (RS485_hd s)[1 := uart 2], trace := trace s @ uart2_effects uart (take len msg)\<rparr>)"
  using assms by (simp add: Snd_485_Msg_Uart2_def buf_read_def uart2_effects_def emit_def Let_def)

lemma sized_hd: "sized s \<Longrightarrow> length (RS485_hd s) = 2"
  by (simp add: sized_def)

lemma sized_sent: "sized (s\<lparr>RS485_hd := h, trace := t\<rparr>) \<longleftrightarrow> sized (s\<lparr>RS485_hd := h\<rparr>)"
  by (simp add: sized_def)

lemma sized_RS485_hd: "sized s \<Longrightarrow> length h = 2 \<Longrightarrow> sized (s\<lparr>RS485_hd := h\<rparr>)"
  by (simp add: sized_def)

text \<open>The frames that are sent are sealed frames of the checksum interface.\<close>

lemma ucast_32_16 [simp]: "(ucast (ucast c :: u32) :: u16) = c" for c :: u16
  by (rule bit_word_eqI) (auto simp: bit_simps)

lemma N_CRC16_prefix: "length d = unat n \<Longrightarrow> N_CRC16 (d @ r) n = Some (ucast (crc16_modbus d))"
  by (simp add: N_CRC16_eq)

lemma N_CRC16_3: "N_CRC16 (x # y # z # r) 3 = Some (ucast (crc16_modbus [x, y, z]))"
  using N_CRC16_prefix [of "[x, y, z]" 3 r] by simp

lemma Snd_Ctrl_Cmd_eq:
  assumes "length (RS485_hd s) = 2"
  shows "Snd_Ctrl_Cmd uart dev cmd s =
    Some (s\<lparr>RS485_hd := (RS485_hd s)[0 := uart 1],
      trace := trace s @ uart1_effects uart (crc_frames.seal [dev, 0x44, hi8 cmd, lo8 cmd])\<rparr>)"
  using assms N_CRC16_prefix [of "[dev, 0x44, hi8 cmd, lo8 cmd]" 4 "[]"]
  by (simp add: Snd_Ctrl_Cmd_def Snd_N_ISO_485_def Uart1_eq crc_frames.seal_def Let_def)

section \<open>The half-duplex bus\<close>

text \<open>The state of the two transmitter-enable pins along a trace: a transmission is only allowed while
  the pin of its own port, and no other, is high.\<close>

fun bus_step :: "(nat \<Rightarrow> int) \<Rightarrow> bool \<times> bool \<Rightarrow> effect \<Rightarrow> (bool \<times> bool) option" where
  "bus_step uart (a, b) (Gpio_Value p v) =
     Some (if p = 19 then (v \<noteq> 0, b) else if p = 23 then (a, v \<noteq> 0) else (a, b))"
| "bus_step uart (a, b) (Uart_Send h d) =
     (if a \<and> \<not> b \<and> h = uart 1 \<or> b \<and> \<not> a \<and> h = uart 2 then Some (a, b) else None)"
| "bus_step uart ab e = Some ab"

definition bus_idle :: "(nat \<Rightarrow> int) \<Rightarrow> effect list \<Rightarrow> bool" where
  "bus_idle uart es = (run_machine (bus_step uart) (False, False) es = Some (False, False))"

lemma bus_idle_append: "bus_idle uart es \<Longrightarrow> bus_idle uart fs \<Longrightarrow> bus_idle uart (es @ fs)"
  by (simp add: bus_idle_def run_machine_append)

lemma bus_idle_uart1 [simp]: "bus_idle uart (uart1_effects uart d)"
  by (simp add: bus_idle_def uart1_effects_def)

lemma bus_idle_uart2 [simp]: "bus_idle uart (uart2_effects uart d)"
  by (simp add: bus_idle_def uart2_effects_def)

lemma bus_idle_simps [simp]:
  "bus_idle uart []" "bus_idle uart [Sleep n]" "bus_idle uart [Usleep n]" "bus_idle uart [Send_Sig t e]"
  "bus_idle uart [Create_Thread t]" "bus_idle uart [Exit_Thread]" "bus_idle uart [Power_Off n]" "bus_idle uart [Malloc n]"
  "bus_idle uart [Gpio_Output n]" "bus_idle uart [Uart_Init n]" "bus_idle uart [Uart_Reg_Recv n]" "bus_idle uart [Uart_Set_Baud h n]"
  by (simp_all add: bus_idle_def)

section \<open>Polling\<close>

definition ctrl_inv :: "(nat \<Rightarrow> int) \<Rightarrow> gateway \<Rightarrow> bool" where
  "ctrl_inv uart s = (sized s \<and> bus_idle uart (trace s) \<and> 1 \<le> Dev_Num s \<and> Dev_Num s \<le> 32 \<and> 1 \<le> poll_id s \<and> poll_id s \<le> Dev_Num s \<and>
     list_all (\<lambda>d. No_Ans_Cnt d \<le> 3) (xb_SubDev_SN s))"

lemma Snd_All_eq:
  assumes "length (RS485_hd s) = 2"
  shows "\<exists>h. length h = 2 \<and> Snd_All uart n i e s = Some (s\<lparr>RS485_hd := h,
    trace := trace s @ concat (map (\<lambda>k. uart1_effects uart (crc_frames.seal [word_of_nat k, 0x44, hi8 (ucast e), lo8 (ucast e)]) @ [Sleep 100]) [i..<i + n])\<rparr>)"
  using assms
proof (induction n arbitrary: i s)
  case 0
  then show ?case by (intro exI [of _ "RS485_hd s"]) simp
next
  case (Suc n)
  let ?f = "uart1_effects uart (crc_frames.seal [word_of_nat i, 0x44, hi8 (ucast e), lo8 (ucast e)])"
  let ?s = "emit (Sleep 100) (s\<lparr>RS485_hd := (RS485_hd s)[0 := uart 1], trace := trace s @ ?f\<rparr>)"
  obtain h where "length h = 2" "Snd_All uart n (i + 1) e ?s = Some (?s\<lparr>RS485_hd := h, trace := trace ?s @
      concat (map (\<lambda>k. uart1_effects uart (crc_frames.seal [word_of_nat k, 0x44, hi8 (ucast e), lo8 (ucast e)]) @ [Sleep 100]) [i + 1..<i + 1 + n])\<rparr>)"
    using Suc.IH [of ?s "i + 1"] Suc.prems by auto
  moreover have "[i..<i + Suc n] = i # [i + 1..<i + 1 + n]" by (simp add: upt_rec [of i])
  ultimately show ?case
    using Suc.prems by (intro exI [of _ h]) (simp add: Snd_Ctrl_Cmd_eq emit_def)
qed

text \<open>The counters after one pass.\<close>

definition count_dev :: "XB_Sub_Dev_Typedef \<Rightarrow> XB_Sub_Dev_Typedef" where
  "count_dev d = (if No_Ans_Cnt d < 3 then d\<lparr>No_Ans_Cnt := No_Ans_Cnt d + 1\<rparr> else d)"

lemma Count_No_Ans_eq:
  assumes "1 \<le> i" and "i - 1 + n \<le> length (xb_SubDev_SN s)"
  shows "Count_No_Ans n i s = Some (s\<lparr>xb_SubDev_SN :=
    take (i - 1) (xb_SubDev_SN s) @ map count_dev (take n (drop (i - 1) (xb_SubDev_SN s))) @ drop (i - 1 + n) (xb_SubDev_SN s)\<rparr>)"
  using assms
proof (induction n arbitrary: i s)
  case 0
  then show ?case by simp
next
  case (Suc n)
  let ?x = "xb_SubDev_SN s"
  let ?s = "s\<lparr>xb_SubDev_SN := ?x[i - 1 := count_dev (?x ! (i - 1))]\<rparr>"
  have i: "i - 1 < length ?x" using Suc.prems by simp
  have d: "drop (i - 1) ?x = ?x ! (i - 1) # drop i ?x"
    using Cons_nth_drop_Suc [OF i] Suc.prems(1) by simp
  have "Count_No_Ans n (i + 1) ?s = Some (?s\<lparr>xb_SubDev_SN :=
    take i (xb_SubDev_SN ?s) @ map count_dev (take n (drop i (xb_SubDev_SN ?s))) @ drop (i + n) (xb_SubDev_SN ?s)\<rparr>)"
    using Suc.IH [of "i + 1" ?s] Suc.prems by simp
  moreover have "take i (?x[i - 1 := count_dev (?x ! (i - 1))]) = take (i - 1) ?x @ [count_dev (?x ! (i - 1))]"
    using i Suc.prems(1) take_Suc_conv_app_nth [of "i - 1" "?x[i - 1 := count_dev (?x ! (i - 1))]"] by simp
  ultimately show ?case
    using i d Suc.prems by (simp add: count_dev_def [symmetric] del: One_nat_def)
qed


lemma five_bytes: "length c = 5 \<Longrightarrow> \<exists>x0 x1 x2 x3 x4. c = [x0, x1, x2, x3, x4]"
  by (auto simp: numeral_eq_Suc length_Suc_conv)

text \<open>One round, branch by branch.\<close>

lemma Ctrl_round_poll:
  assumes "sized s" and "Dev_Num s \<le> 32" and "\<not> is_switch_event e"
  shows "Rs485_Ctrl_round uart s e = Some (s\<lparr>thread_Fg := 2, poll_Ctrl_Cmd := crc_frames.seal [poll_id s, 0x4D, 0],
    fg_Snding_485 := 0,
    poll_id := (if poll_id s + 1 > Dev_Num s then 1 else poll_id s + 1),
    xb_SubDev_SN := (if poll_id s + 1 > Dev_Num s
      then map count_dev (take (unat (Dev_Num s)) (xb_SubDev_SN s)) @ drop (unat (Dev_Num s)) (xb_SubDev_SN s) else xb_SubDev_SN s),
    RS485_hd := (RS485_hd s)[0 := uart 1],
    trace := trace s @ uart1_effects uart (crc_frames.seal [poll_id s, 0x4D, 0])\<rparr>)"
proof -
  have sz: "length (poll_Ctrl_Cmd s) = 5" "length (RS485_hd s) = 2" "length (xb_SubDev_SN s) = 32"
    using assms(1) by (simp_all add: sized_def)
  have n: "unat (Dev_Num s) \<le> 32" using assms(2) by (simp add: word_le_nat_alt)
  obtain x0 x1 x2 x3 x4 where c: "poll_Ctrl_Cmd s = [x0, x1, x2, x3, x4]" using five_bytes [OF sz(1)] by blast
  show ?thesis
    using sz(2,3) n assms(3)
    by (simp add: Rs485_Ctrl_round_def c N_CRC16_3 Count_No_Ans_eq Snd_N_ISO_485_def Uart1_eq crc_frames.seal_def Let_def)
qed

lemma Ctrl_round_switch:
  assumes "sized s" and "is_switch_event e"
  shows "\<exists>h. length h = 2 \<and> Rs485_Ctrl_round uart s e = Some (s\<lparr>thread_Fg := 2, poll_Ctrl_Cmd := crc_frames.seal [poll_id s, 0x4D, 0],
    fg_Snding_485 := 0, RS485_hd := h,
    trace := trace s @ (if e = EVENT_SND_485_CTRL
      then uart1_effects uart (crc_frames.seal [1, 0x44, hi8 (ucast RELAY_ALL_ON), lo8 (ucast RELAY_ALL_ON)])
      else concat (map (\<lambda>k. uart1_effects uart (crc_frames.seal [word_of_nat k, 0x44, hi8 (ucast e), lo8 (ucast e)]) @ [Sleep 100])
        [1..<1 + unat (Dev_Num s)]))\<rparr>)"
proof -
  have sz: "length (poll_Ctrl_Cmd s) = 5" "length (RS485_hd s) = 2" using assms(1) by (simp_all add: sized_def)
  obtain x0 x1 x2 x3 x4 where c: "poll_Ctrl_Cmd s = [x0, x1, x2, x3, x4]" using five_bytes [OF sz(1)] by blast
  let ?s1 = "s\<lparr>thread_Fg := 2, poll_Ctrl_Cmd := crc_frames.seal [poll_id s, 0x4D, 0], fg_Snding_485 := 1\<rparr>"
  have r: "Rs485_Ctrl_round uart s e = do { s2 \<leftarrow> (if e = EVENT_SND_485_CTRL
        then Snd_Ctrl_Cmd uart 1 (ucast RELAY_ALL_ON) ?s1 else Snd_All uart (unat (Dev_Num s)) 1 e ?s1);
      Some (s2\<lparr>fg_Snding_485 := 0\<rparr>) }"
    using assms(2) by (simp add: Rs485_Ctrl_round_def c N_CRC16_3 crc_frames.seal_def Let_def)
  show ?thesis
  proof (cases "e = EVENT_SND_485_CTRL")
    case True
    then show ?thesis using sz r by (intro exI [of _ "(RS485_hd s)[0 := uart 1]"]) (simp add: Snd_Ctrl_Cmd_eq)
  next
    case False
    obtain h where "length h = 2" "Snd_All uart (unat (Dev_Num s)) 1 e ?s1 = Some (?s1\<lparr>RS485_hd := h,
        trace := trace ?s1 @ concat (map (\<lambda>k. uart1_effects uart (crc_frames.seal [word_of_nat k, 0x44, hi8 (ucast e), lo8 (ucast e)]) @ [Sleep 100])
        [1..<1 + unat (Dev_Num s)])\<rparr>)"
      using Snd_All_eq [of ?s1 uart "unat (Dev_Num s)" 1 e] sz by auto
    then show ?thesis using False r by (intro exI [of _ h]) simp
  qed
qed


lemma next_poll_id:
  fixes p n :: u8
  assumes "1 \<le> p" and "p \<le> n" and "n \<le> 32"
  shows "1 \<le> (if p + 1 > n then 1 else p + 1)" "(if p + 1 > n then 1 else p + 1) \<le> n"
proof -
  have "unat (p + 1) = unat p + 1" using assms by (simp add: word_le_nat_alt unat_word_ariths)
  then show "1 \<le> (if p + 1 > n then 1 else p + 1)" "(if p + 1 > n then 1 else p + 1) \<le> n"
    using assms by (auto simp: word_le_nat_alt word_less_nat_alt)
qed

lemma count_dev_le: "No_Ans_Cnt d \<le> 3 \<Longrightarrow> No_Ans_Cnt (count_dev d) \<le> 3"
proof -
  assume "No_Ans_Cnt d \<le> 3"
  moreover have "unat (x + 1) = unat x + 1" if "x < 3" for x :: u16
    using that by (simp add: word_less_nat_alt unat_word_ariths)
  ultimately show ?thesis by (simp add: count_dev_def word_le_nat_alt word_less_nat_alt)
qed

lemma count_dev_sn [simp]: "sn (count_dev d) = sn d"
  by (simp add: count_dev_def)

lemma bus_idle_concat: "(\<And>x. x \<in> set xs \<Longrightarrow> bus_idle uart (f x)) \<Longrightarrow> bus_idle uart (concat (map f xs))"
  by (induction xs) (simp_all add: bus_idle_append)

lemma Ctrl_round_inv:
  assumes inv: "ctrl_inv uart s"
  shows "\<exists>t. Rs485_Ctrl_round uart s e = Some t \<and> ctrl_inv uart t"
proof (cases "is_switch_event e")
  case True
  have sz: "sized s" using inv by (simp add: ctrl_inv_def)
  have f5: "length (crc_frames.seal [poll_id s, 0x4D, 0]) = 5" by (simp add: crc_frames.seal_def)
  have idle: "bus_idle uart (concat (map (\<lambda>k. uart1_effects uart (g k) @ [Sleep 100]) ks))" for g and ks :: "nat list"
    by (intro bus_idle_concat bus_idle_append) simp_all
  from Ctrl_round_switch [OF sz True, of uart] inv f5 show ?thesis
    by (auto simp: ctrl_inv_def sized_def intro!: bus_idle_append idle)
next
  case False
  have f5: "length (crc_frames.seal [poll_id s, 0x4D, 0]) = 5" by (simp add: crc_frames.seal_def)
  from inv have *: "sized s" "Dev_Num s \<le> 32" "1 \<le> poll_id s" "poll_id s \<le> Dev_Num s" by (simp_all add: ctrl_inv_def)
  note id = next_poll_id [OF *(3,4,2)]
  have dev: "length (map count_dev (take n (xb_SubDev_SN s)) @ drop n (xb_SubDev_SN s)) = 32"
      "list_all (\<lambda>d. length (sn d) = 12) (map count_dev (take n (xb_SubDev_SN s)) @ drop n (xb_SubDev_SN s))"
      "list_all (\<lambda>d. No_Ans_Cnt d \<le> 3) (map count_dev (take n (xb_SubDev_SN s)) @ drop n (xb_SubDev_SN s))" for n
    using inv by (auto simp: ctrl_inv_def sized_def list_all_iff intro!: count_dev_le dest: in_set_takeD in_set_dropD)
  from Ctrl_round_poll [OF *(1,2) False, of uart] inv f5 dev id show ?thesis
    by (simp add: ctrl_inv_def sized_def bus_idle_append)
qed

interpretation ctrl: total_machine "Rs485_Ctrl_round uart" "ctrl_inv uart" "\<lambda>_. True" for uart
  by unfold_locales (metis Ctrl_round_inv option.inject)+

section \<open>A polling cycle\<close>

lemma poll_steps:
  assumes "sized s" and "Dev_Num s \<le> 32" and "poll_id s = 1" and "k < unat (Dev_Num s)" and "\<not> is_switch_event e"
  shows "\<exists>t. run_machine (Rs485_Ctrl_round uart) s (replicate k e) = Some t \<and> sized t \<and> Dev_Num t = Dev_Num s \<and>
    poll_id t = word_of_nat (k + 1) \<and> xb_SubDev_SN t = xb_SubDev_SN s \<and>
    trace t = trace s @ concat (map (\<lambda>i. uart1_effects uart (crc_frames.seal [word_of_nat i, 0x4D, 0])) [1..<k + 1])"
  using assms(4)
proof (induction k)
  case 0
  then show ?case using assms by simp
next
  case (Suc k)
  then obtain t where t: "run_machine (Rs485_Ctrl_round uart) s (replicate k e) = Some t" "sized t" "Dev_Num t = Dev_Num s"
      "poll_id t = word_of_nat (k + 1)" "xb_SubDev_SN t = xb_SubDev_SN s"
      "trace t = trace s @ concat (map (\<lambda>i. uart1_effects uart (crc_frames.seal [word_of_nat i, 0x4D, 0])) [1..<k + 1])"
    by auto
  have n: "unat (Dev_Num s) \<le> 32" using assms(2) by (simp add: word_le_nat_alt)
  have next_id: "poll_id t + 1 = word_of_nat (Suc k + 1)" using t(4) by simp
  have "unat (word_of_nat (Suc k + 1) :: u8) = Suc k + 1" using Suc.prems n by (intro unat_of_nat_u8) simp
  then have le: "\<not> poll_id t + 1 > Dev_Num t" using next_id t(3) Suc.prems by (simp add: word_less_nat_alt)
  have f5: "length (crc_frames.seal [poll_id t, 0x4D, 0]) = 5" by (simp add: crc_frames.seal_def)
  let ?t = "t\<lparr>thread_Fg := 2, poll_Ctrl_Cmd := crc_frames.seal [poll_id t, 0x4D, 0], fg_Snding_485 := 0,
      poll_id := poll_id t + 1, RS485_hd := (RS485_hd t)[0 := uart 1],
      trace := trace t @ uart1_effects uart (crc_frames.seal [poll_id t, 0x4D, 0])\<rparr>"
  have "Rs485_Ctrl_round uart t e = Some ?t"
    using Ctrl_round_poll [OF t(2) _ assms(5), of uart] assms(2) t(3) le by simp
  moreover have "sized ?t" using t(2) f5 by (simp add: sized_def)
  moreover have "replicate (Suc k) e = replicate k e @ [e]" by (simp add: replicate_append_same)
  ultimately show ?case
    using t next_id by (simp add: run_machine_append del: replicate_Suc)
qed

lemma poll_cycle:
  assumes "sized s" and "1 \<le> Dev_Num s" and "Dev_Num s \<le> 32" and "poll_id s = 1" and "\<not> is_switch_event e"
  shows "\<exists>t. run_machine (Rs485_Ctrl_round uart) s (replicate (unat (Dev_Num s)) e) = Some t \<and> sized t \<and> Dev_Num t = Dev_Num s \<and>
    poll_id t = 1 \<and>
    xb_SubDev_SN t = map count_dev (take (unat (Dev_Num s)) (xb_SubDev_SN s)) @ drop (unat (Dev_Num s)) (xb_SubDev_SN s) \<and>
    trace t = trace s @ concat (map (\<lambda>i. uart1_effects uart (crc_frames.seal [word_of_nat i, 0x4D, 0])) [1..<unat (Dev_Num s) + 1])"
proof -
  obtain k where k: "unat (Dev_Num s) = Suc k" using assms(2) by (cases "unat (Dev_Num s)") (auto simp: word_le_nat_alt)
  obtain t where t: "run_machine (Rs485_Ctrl_round uart) s (replicate k e) = Some t" "sized t" "Dev_Num t = Dev_Num s"
      "poll_id t = word_of_nat (k + 1)" "xb_SubDev_SN t = xb_SubDev_SN s"
      "trace t = trace s @ concat (map (\<lambda>i. uart1_effects uart (crc_frames.seal [word_of_nat i, 0x4D, 0])) [1..<k + 1])"
    using poll_steps [OF assms(1,3,4) _ assms(5), of k uart] k by auto
  have n: "Suc k \<le> 32" using assms(3) k by (simp add: word_le_nat_alt)
  have "unat (word_of_nat (Suc k + 1) :: u8) = Suc k + 1" using n by (intro unat_of_nat_u8) simp
  moreover have "poll_id t + 1 = word_of_nat (Suc k + 1)" using t(4) by simp
  ultimately have gt: "poll_id t + 1 > Dev_Num t" using t(3) k by (simp add: word_less_nat_alt)
  let ?x = "map count_dev (take (Suc k) (xb_SubDev_SN t)) @ drop (Suc k) (xb_SubDev_SN t)"
  let ?t = "t\<lparr>thread_Fg := 2, poll_Ctrl_Cmd := crc_frames.seal [poll_id t, 0x4D, 0], fg_Snding_485 := 0,
      poll_id := 1, xb_SubDev_SN := ?x, RS485_hd := (RS485_hd t)[0 := uart 1],
      trace := trace t @ uart1_effects uart (crc_frames.seal [poll_id t, 0x4D, 0])\<rparr>"
  have "Rs485_Ctrl_round uart t e = Some ?t"
    using Ctrl_round_poll [OF t(2) _ assms(5), of uart] assms(3) t(3) gt k by simp
  moreover have "sized ?t"
    using t(2) by (auto simp: sized_def crc_frames.seal_def list_all_iff dest: in_set_takeD in_set_dropD)
  moreover have "replicate (Suc k) e = replicate k e @ [e]" by (simp add: replicate_append_same)
  ultimately show ?thesis
    using t k by (simp add: run_machine_append del: replicate_Suc)
qed


section \<open>Enumeration\<close>

definition enum_inv :: "(nat \<Rightarrow> int) \<Rightarrow> gateway \<Rightarrow> bool" where
  "enum_inv uart s = (sized s \<and> bus_idle uart (trace s))"

lemma sized_wr3: "length c = 5 \<Longrightarrow> \<exists>c0 c1 c2 r. wr c 0 x = Some c0 \<and> wr c0 1 y = Some c1 \<and> wr c1 2 z = Some c2 \<and> c2 = x # y # z # r \<and> length r = 2"
  by (auto simp: numeral_eq_Suc length_Suc_conv)

lemma enum_inv_emit: "bus_idle uart [e] \<Longrightarrow> enum_inv uart s \<Longrightarrow> enum_inv uart (emit e s)"
  by (simp add: enum_inv_def bus_idle_append)

lemma enum_inv_updates [simp]:
  "enum_inv uart (s\<lparr>Dev_Num := d\<rparr>) = enum_inv uart s" "enum_inv uart (s\<lparr>Poll_Addr_id := a\<rparr>) = enum_inv uart s"
  by (simp_all add: enum_inv_def sized_def)

lemma Snd_Restart_ok:
  assumes "enum_inv uart s"
  shows "\<exists>t. Snd_Restart uart b4 s = Some t \<and> enum_inv uart t \<and> Poll_Addr_id t = Poll_Addr_id s \<and> Dev_Num t = Dev_Num s \<and>
    restart_fg t \<noteq> 0"
proof (cases "restart_fg s = 0")
  case True
  have "length (RS485_hd s) = 2" using assms by (simp add: enum_inv_def sized_def)
  moreover have "N_CRC16 [0, 0x4e, b4, b4, b4] 2 = Some (ucast (crc16_modbus [0, 0x4e]))"
    using N_CRC16_prefix [of "[0, 0x4e]" 2 "[b4, b4, b4]"] by simp
  ultimately show ?thesis
    using True assms
    by (simp add: Snd_Restart_def conver_Crc_def Snd_N_ISO_485_def Uart1_eq enum_inv_def sized_def bus_idle_append)
qed (use assms in \<open>simp add: Snd_Restart_def\<close>)

lemma bus_idle_poll_pins: "bus_idle uart [Gpio_Output 14, Gpio_Value 14 0, Gpio_Output 15, Gpio_Value 15 0]"
  by (simp add: bus_idle_def)

lemma Poll_Addr_round_ok:
  assumes "enum_inv uart s"
  shows "\<exists>t. Poll_Addr_round uart b4 s e = Some t \<and> enum_inv uart t \<and>
    Poll_Addr_id t = (if e = EVENT_REC_485 then Poll_Addr_id s + 1 else Poll_Addr_id s) \<and>
    Dev_Num t = (if e = EVENT_REC_485 then Dev_Num s else if Poll_Addr_id s = 1 then 1 else Poll_Addr_id s - 1)"
proof -
  obtain s1 where s1: "Snd_Restart uart b4 s = Some s1" "enum_inv uart s1" "Poll_Addr_id s1 = Poll_Addr_id s" "Dev_Num s1 = Dev_Num s"
    using Snd_Restart_ok [OF assms, of b4] by blast
  have l: "length (poll_Cmd s1) = 5" "length (RS485_hd s1) = 2" using s1(2) by (simp_all add: enum_inv_def sized_def)
  obtain x0 x1 x2 x3 x4 where c: "poll_Cmd s1 = [x0, x1, x2, x3, x4]" using five_bytes [OF l(1)] by blast
  let ?f = "crc_frames.seal [0, 0, Poll_Addr_id s]"
  let ?s2 = "Set_Poll_Addr_Pin_Low (s1\<lparr>thread_Fg := 1\<rparr>)"
  let ?s3 = "?s2\<lparr>poll_Cmd := ?f, RS485_hd := [uart 1, uart 2],
      trace := trace ?s2 @ uart1_effects uart ?f @ uart2_effects uart ?f\<rparr>"
  have hd: "(RS485_hd s1)[0 := uart 1, 1 := uart 2] = [uart 1, uart 2]"
    using l(2) by (auto simp: numeral_eq_Suc length_Suc_conv)
  have "Poll_Addr_round uart b4 s e =
      (if e = EVENT_REC_485 then Some (?s3\<lparr>Poll_Addr_id := Poll_Addr_id s + 1\<rparr>)
       else Some (emit Exit_Thread (Start_Ctrl_Thread (?s3\<lparr>Dev_Num := (if Poll_Addr_id s = 1 then 1 else Poll_Addr_id s - 1)\<rparr>))))"
    using l(2) hd s1 c
    by (simp add: Poll_Addr_round_def Set_Poll_Addr_Pin_Low_def N_CRC16_3 conver_Crc_def Snd_N_ISO_485_def
        Snd_OUT_ISO_485_def Uart1_eq Uart2_eq crc_frames.seal_def Let_def)
  moreover have "enum_inv uart ?s3"
    using s1(2) bus_idle_append [OF bus_idle_append [OF _ bus_idle_poll_pins] bus_idle_append [OF bus_idle_uart1 bus_idle_uart2],
        of uart "trace s1" ?f ?f]
    by (simp add: enum_inv_def sized_def Set_Poll_Addr_Pin_Low_def crc_frames.seal_def)
  then have "enum_inv uart (?s3\<lparr>Poll_Addr_id := a\<rparr>)" "enum_inv uart (emit Exit_Thread (Start_Ctrl_Thread (?s3\<lparr>Dev_Num := d\<rparr>)))" for a d
    by (simp_all add: Start_Ctrl_Thread_def enum_inv_emit)
  ultimately show ?thesis using s1 by (simp add: Start_Ctrl_Thread_def Set_Poll_Addr_Pin_Low_def)
qed

interpretation enum: total_machine "Poll_Addr_round uart b4" "enum_inv uart" "\<lambda>_. True" for uart b4
  by unfold_locales (metis Poll_Addr_round_ok option.inject)+

lemma enum_answers:
  assumes "enum_inv uart s"
  shows "\<exists>t. run_machine (Poll_Addr_round uart b4) s (replicate k EVENT_REC_485) = Some t \<and> enum_inv uart t \<and>
    Poll_Addr_id t = Poll_Addr_id s + word_of_nat k"
  using assms
proof (induction k arbitrary: s)
  case 0
  then show ?case by simp
next
  case (Suc k)
  obtain t where "Poll_Addr_round uart b4 s EVENT_REC_485 = Some t" "enum_inv uart t" "Poll_Addr_id t = Poll_Addr_id s + 1"
    using Poll_Addr_round_ok [OF Suc.prems, of b4 EVENT_REC_485] by auto
  with Suc.IH [of t] show ?case by auto
qed


section \<open>Reception\<close>

lemma frame_split: "2 \<le> length f \<Longrightarrow> \<exists>m h l. f = m @ [h, l]"
  by (metis append_butlast_last_id butlast.simps(1) diff_Suc_1 length_butlast length_Cons list.size(3) append.assoc append_Cons append_Nil
      not_less_eq_eq numeral_2_eq_2 le0 nat.distinct(1) le_zero_eq)

lemma crc_test:
  "(drop_bit 8 (ucast c :: u32) = ucast h \<and> (ucast c :: u32) AND 0xFF = ucast l) \<longleftrightarrow> join16 h l = c" for c :: u16 and h l :: u8
proof -
  have 1: "drop_bit 8 (ucast c :: u32) = ucast (hi8 c)"
    by (rule bit_word_eqI) (auto simp: bit_simps bit_hi8 add.commute [of 8] dest: bit_imp_le_length)
  have "(0xFF :: u32) = mask 8" by (simp add: mask_eq_exp_minus_1)
  then have "bit (0xFF :: u32) k \<longleftrightarrow> k < 8" for k by (simp only: bit_mask_iff possible_bit_word) auto
  then have 2: "(ucast c :: u32) AND 0xFF = ucast (lo8 c)"
    by (intro bit_word_eqI) (auto simp: bit_and_iff bit_ucast_iff bit_lo8 simp del: bit_numeral_iff)
  have inj: "(ucast a :: u32) = ucast b \<longleftrightarrow> a = b" for a b :: u8
    by (auto intro!: word_eqI_uint dest: arg_cong [where f = uint] simp: unsigned_ucast_eq take_bit_int_eq_self uint_u8_lt_256 less_trans [OF uint_u8_lt_256])
  show ?thesis unfolding 1 2 inj by (metis hi8_join16 join16_hi8_lo8 lo8_join16)
qed

text \<open>The test of \<open>handle_rec\<close> accepts exactly the sealed frames.\<close>

lemma handle_rec_eq:
  assumes "thread_Fg s \<noteq> 0" and "length f = unat len" and "2 \<le> len" and "len \<le> 200"
  shows "handle_rec uart fs tmp mem behind h (f @ r) len s w =
    do { s1 \<leftarrow> (if crc_frames.valid f
               then (if thread_Fg s = 1 \<and> f ! 0 < 32 \<and> f ! 0 \<ge> 1 then store_sn (unat (f ! 0) - 1) (f @ r) s else Some s)
               else (if f ! 0 < 4 then store_sn (unat (f ! 0)) (f @ r) s else Some s));
         if thread_Fg s1 = 1 then Some (emit (Send_Sig Poll_Addr_thread EVENT_REC_485) s1, w)
         else if h = 0 then do { s2 \<leftarrow> handle_n_Iso (f @ r) len s1; Some (s2, w) }
         else handle_Iso_Setting uart fs tmp mem behind (f @ r) s1 w }"
proof -
  have n: "2 \<le> unat len" "unat len \<le> 200" using assms(3,4) by (simp_all add: word_le_nat_alt)
  then obtain m a b where f: "f = m @ [a, b]" using frame_split [of f] assms(2) by auto
  have l2: "unat (len - 2) = unat len - 2" using assms(3) by (simp add: unat_sub)
  then have lm: "unat (len - 2) = length m" using assms(2) f by simp
  have crc: "N_CRC16 (f @ r) (len - 2) = Some (ucast (crc16_modbus m))"
    using N_CRC16_prefix [of m "len - 2" "[a, b] @ r"] lm f by simp
  have rds: "rd (f @ r) (unat len - 2) = Some a" "rd (f @ r) (unat len - 1) = Some b" "rd (f @ r) 0 = Some (f ! 0)"
    using assms(2) n f by (auto simp: nth_append)
  have v: "crc_frames.valid f \<longleftrightarrow> drop_bit 8 (ucast (crc16_modbus m) :: u32) = ucast a \<and> (ucast (crc16_modbus m) :: u32) AND 0xFF = ucast b"
    unfolding crc_test f crc_frames.valid_iff by simp
  have "\<not> (len < 2 \<or> len > 200)" using assms(3,4) by auto
  then show ?thesis
    using assms(1) crc rds v by (auto simp: handle_rec_def simp del: rd_Some_iff)
qed

lemma store_sn_eq:
  assumes "sized s" and "i < 32" and "14 \<le> length rx"
  shows "store_sn i rx s = Some (s\<lparr>xb_SubDev_SN := (xb_SubDev_SN s)[i := (xb_SubDev_SN s ! i)\<lparr>sn := take 12 (drop 2 rx)\<rparr>]\<rparr>)"
  using assms by (simp add: store_sn_def sized_def buf_read_def buf_write_def list_all_length)

lemma handle_rec_short:
  assumes "thread_Fg s \<noteq> 0" and "len < 2" and "length rx < 4294967294"
  shows "handle_rec uart fs tmp mem behind h rx len s w = None"
proof -
  have "len = 0 \<or> len = 1"
    using assms(2) by (auto simp: word_less_nat_alt less_2_cases_iff word_unat_eq_iff)
  then have "4294967294 \<le> unat (len - 2)" by (auto simp: unsigned_minus_1_eq_mask mask_eq_exp_minus_1)
  with assms show ?thesis by (simp add: handle_rec_def N_CRC16_eq)
qed

section \<open>Reports of sub-device data\<close>

definition hex_texts :: "buf \<Rightarrow> buf list" where
  "hex_texts bs = map (\<lambda>c. fmt_02x (unat c)) bs"

lemma hex_append_eq: "i + n \<le> length rx \<Longrightarrow> hex_append n i rx msg = cat.append_all msg (hex_texts (take n (drop i rx)))"
proof (induction n arbitrary: i msg)
  case 0
  then show ?case by (simp add: hex_texts_def)
next
  case (Suc n)
  have "length (fmt_02x (unat (rx ! i))) = 2" by (rule length_fmt_02x) (rule u8_lt_256)
  then have t: "local_text 4 (fmt_02x (unat (rx ! i))) = Some (fmt_02x (unat (rx ! i)))"
    by (simp add: local_text_eq)
  have "take (Suc n) (drop i rx) = rx ! i # take n (drop (i + 1) rx)"
    using Suc.prems by (simp add: Cons_nth_drop_Suc [symmetric])
  moreover have "hex_append n (i + 1) rx = (\<lambda>m. cat.append_all m (hex_texts (take n (drop (i + 1) rx))))"
    using Suc.IH [of "i + 1"] Suc.prems by (intro ext) simp
  ultimately show ?case using Suc.prems t by (simp add: hex_texts_def)
qed

lemma length_concat_hex: "length (concat (hex_texts bs)) = 2 * length bs"
  by (induction bs) (simp_all add: hex_texts_def length_fmt_02x u8_lt_256)

lemma handle_n_Iso_eq:
  assumes "sized s" and "length f = unat len" and "6 < len" and "len \<le> 200" and "1 \<le> f ! 0" and "f ! 0 \<le> 32"
  shows "\<exists>m. handle_n_Iso (f @ r) len s =
     (if Fg_Snding_Mqtt s = 0
      then Some (emit (Send_Sig Mqtt_Snd_task EVENT_SND_485_CTRL) (s\<lparr>xb_SubDev_SN := (xb_SubDev_SN s)[unat (f ! 0) - 1 :=
             (xb_SubDev_SN s ! (unat (f ! 0) - 1))\<lparr>No_Ans_Cnt := 0\<rparr>], mqtt_report_Msg := m, mqtt_report_Len := 2 * int (length f)\<rparr>))
      else None) \<and> length m = 512 \<and> c_str m = str ''6,6,'' @ concat (hex_texts f)"
proof -
  have n: "6 < length f" "length f \<le> 200" using assms(2-4) by (simp_all add: word_le_nat_alt word_less_nat_alt)
  have i: "f ! 0 \<noteq> 0" "unat (f ! 0) - 1 < 32" using assms(5,6) by (auto simp: word_le_nat_alt)
  let ?ts = "str ''6,'' # str ''6,'' # hex_texts f"
  have nz: "\<forall>t \<in> set ?ts. 0 \<notin> set t" by (auto simp: hex_texts_def)
  have "length (concat ?ts) < 512" using n by (simp add: length_concat_hex del: length_concat)
  then obtain m where m: "cat.append_all (replicate 512 0) ?ts = Some m" "length m = 512" "c_str m = concat ?ts"
    using fresh_run [of 512 ?ts] nz by auto
  then obtain m1 m2 where ms: "c_strcat (replicate 512 0) (str ''6,'') = Some m1" "c_strcat m1 (str ''6,'') = Some m2"
      "cat.append_all m2 (hex_texts f) = Some m"
    by (auto simp: Option.bind_eq_Some_conv)
  have tx: "concat ?ts = str ''6,6,'' @ concat (hex_texts f)" by (simp add: str_def)
  have rd0: "rd (f @ r) 0 = Some (f ! 0)" using n by (cases f) simp_all
  have "hex_append (unat len) 0 (f @ r) = (\<lambda>msg. cat.append_all msg (hex_texts f))"
    using hex_append_eq [of 0 "unat len" "f @ r"] assms(2) by (intro ext) simp
  moreover have "sint (len * 2) = 2 * int (length f)"
  proof -
    have "unat (len * 2) = unat len * 2" using n assms(2) by (simp add: unat_word_ariths)
    then have "uint (len * 2) = 2 * int (length f)" using assms(2) by (metis int_ops(7) mult.commute of_nat_numeral uint_nat)
    moreover have "sint (len * 2) = uint (len * 2)"
      using calculation n by (simp add: sint_uint signed_take_bit_int_eq_self)
    ultimately show ?thesis by simp
  qed
  moreover have "\<not> len \<le> 6" using assms(3) by simp
  ultimately show ?thesis
    using assms(1) i m(2,3) ms tx rd0
    by (intro exI [of _ m]) (simp add: handle_n_Iso_def sized_def MSG_REPLY_LEN_def buf_fill_all Waiting_Mqtt_eq Let_def del: rd_Some_iff)
qed


section \<open>Properties\<close>

text \<open>C4: The control thread never faults and keeps its invariant. From any state with 1 to 32
  sub-devices, every sequence of events (switch commands, time-outs, anything else) is processed; afterwards
  every transmission was made with its own transmitter enabled and the other one off, both transmitters are
  off, the device to poll is an existing one, and no answer counter exceeds 3.\<close>

theorem Rs485_Ctrl_Thread_safe:
  assumes "ctrl_inv uart s"
  shows "\<exists>t. run_machine (Rs485_Ctrl_round uart) s events = Some t \<and> bus_idle uart (trace t) \<and>
    1 \<le> poll_id t \<and> poll_id t \<le> Dev_Num t \<and> Dev_Num t \<le> 32 \<and> (\<forall>d \<in> set (xb_SubDev_SN t). No_Ans_Cnt d \<le> 3)"
proof -
  obtain t where t: "run_machine (Rs485_Ctrl_round uart) s events = Some t" "ctrl_inv uart t"
    using ctrl.run_total [OF assms, of events] by (auto simp: list_all_iff)
  show ?thesis
    using t(2) by (intro exI [of _ t] conjI) (simp_all add: t(1) ctrl_inv_def list_all_iff)
qed

theorem Rs485_Ctrl_Thread_safe_witness:
  "\<exists>t. run_machine (Rs485_Ctrl_round int) (init_gateway\<lparr>Dev_Num := 3\<rparr>) [0, RELAY_ALL_ON, 0, 0, EVENT_SND_485_CTRL] = Some t \<and>
     bus_idle int (trace t) \<and> 1 \<le> poll_id t \<and> poll_id t \<le> Dev_Num t \<and> Dev_Num t \<le> 32 \<and>
     (\<forall>d \<in> set (xb_SubDev_SN t). No_Ans_Cnt d \<le> 3)"
  by (rule Rs485_Ctrl_Thread_safe) (use sized_init in \<open>simp add: ctrl_inv_def sized_def list_all_iff\<close>)

text \<open>A polling cycle. With \<open>n\<close> sub-devices and no switch command, \<open>n\<close> rounds from device 1 transmit exactly one
  checksummed poll frame to each device, in the order 1 to \<open>n\<close>, come back to device 1, and count one missing answer
  (up to 3) for each of the \<open>n\<close> devices and for no other.\<close>

theorem polling_cycle:
  assumes "sized s" and "1 \<le> Dev_Num s" and "Dev_Num s \<le> 32" and "poll_id s = 1" and "\<not> is_switch_event e"
  shows "\<exists>t. run_machine (Rs485_Ctrl_round uart) s (replicate (unat (Dev_Num s)) e) = Some t \<and> poll_id t = 1 \<and>
    xb_SubDev_SN t = map count_dev (take (unat (Dev_Num s)) (xb_SubDev_SN s)) @ drop (unat (Dev_Num s)) (xb_SubDev_SN s) \<and>
    trace t = trace s @ concat (map (\<lambda>i. uart1_effects uart (crc_frames.seal [word_of_nat i, 0x4D, 0])) [1..<unat (Dev_Num s) + 1])"
  using poll_cycle [OF assms, of uart] by blast

theorem polling_cycle_witness:
  "\<exists>t. run_machine (Rs485_Ctrl_round int) (init_gateway\<lparr>Dev_Num := 2\<rparr>) [0, 0] = Some t \<and> poll_id t = 1 \<and>
     trace t = uart1_effects int (crc_frames.seal [1, 0x4D, 0]) @ uart1_effects int (crc_frames.seal [2, 0x4D, 0])"
proof -
  let ?s = "init_gateway\<lparr>Dev_Num := 2\<rparr>"
  have sz: "sized ?s" using sized_init by (simp add: sized_def)
  have z: "\<not> is_switch_event 0"
    by (simp add: is_switch_event_def RELAY_ALL_ON_def RELAY_ALL_OFF_def RELAY_ALL_RS_def RELAY_ALL_CLEAR_def EVENT_SND_485_CTRL_def)
  have n: "unat (Dev_Num ?s) = 2" by simp
  have l: "replicate 2 (0 :: u32) = [0, 0]" "[1..<2 + 1] = [1, 2 :: nat]" by (simp_all add: numeral_eq_Suc)
  show ?thesis using polling_cycle [OF sz _ _ _ z, of int] unfolding n l by auto
qed

text \<open>Loss of contact is detected: when no sub-device answers during three polling cycles, the answer
  counter of every polled device is 3, the value that is reported as off-line.\<close>

theorem silent_devices_go_offline:
  assumes "sized s" and "1 \<le> Dev_Num s" and "Dev_Num s \<le> 32" and "poll_id s = 1"
    and "list_all (\<lambda>d. No_Ans_Cnt d \<le> 3) (xb_SubDev_SN s)" and "i < unat (Dev_Num s)"
  shows "\<exists>t. run_machine (Rs485_Ctrl_round uart) s (replicate (3 * unat (Dev_Num s)) 0) = Some t \<and>
    No_Ans_Cnt (xb_SubDev_SN t ! i) = 3"
proof -
  let ?n = "unat (Dev_Num s)" and ?R = "Rs485_Ctrl_round uart"
  have z: "\<not> is_switch_event 0"
    by (simp add: is_switch_event_def RELAY_ALL_ON_def RELAY_ALL_OFF_def RELAY_ALL_RS_def RELAY_ALL_CLEAR_def EVENT_SND_485_CTRL_def)
  have n: "i < 32" "?n \<le> 32" using assms(3,6) by (simp_all add: word_le_nat_alt)
  note cyc = poll_cycle [OF _ _ _ _ z, of _ uart]
  obtain t1 where t1: "run_machine ?R s (replicate ?n 0) = Some t1" "sized t1" "Dev_Num t1 = Dev_Num s" "poll_id t1 = 1"
      "xb_SubDev_SN t1 ! i = count_dev (xb_SubDev_SN s ! i)"
    using cyc [OF assms(1-4)] assms(1,6) n by (auto simp: sized_def nth_append)
  obtain t2 where t2: "run_machine ?R t1 (replicate ?n 0) = Some t2" "sized t2" "Dev_Num t2 = Dev_Num s" "poll_id t2 = 1"
      "xb_SubDev_SN t2 ! i = count_dev (xb_SubDev_SN t1 ! i)"
    using cyc [OF t1(2) _ _ t1(4)] t1(2,3) assms(2,3,6) n by (auto simp: sized_def nth_append)
  obtain t3 where t3: "run_machine ?R t2 (replicate ?n 0) = Some t3" "xb_SubDev_SN t3 ! i = count_dev (xb_SubDev_SN t2 ! i)"
    using cyc [OF t2(2) _ _ t2(4)] t2(2,3) assms(2,3,6) n by (auto simp: sized_def nth_append)
  have "length (xb_SubDev_SN s) = 32" using assms(1) by (simp add: sized_def)
  then have "No_Ans_Cnt (xb_SubDev_SN s ! i) \<le> 3" using assms(5) n by (simp add: list_all_length)
  then have "uint (No_Ans_Cnt (xb_SubDev_SN s ! i)) \<le> 3" by (simp add: word_le_def)
  then have "uint (No_Ans_Cnt (xb_SubDev_SN s ! i)) = 0 \<or> uint (No_Ans_Cnt (xb_SubDev_SN s ! i)) = 1 \<or>
      uint (No_Ans_Cnt (xb_SubDev_SN s ! i)) = 2 \<or> uint (No_Ans_Cnt (xb_SubDev_SN s ! i)) = 3"
    using uint_ge_0 [of "No_Ans_Cnt (xb_SubDev_SN s ! i)"] by arith
  then have "No_Ans_Cnt (xb_SubDev_SN s ! i) = 0 \<or> No_Ans_Cnt (xb_SubDev_SN s ! i) = 1 \<or>
      No_Ans_Cnt (xb_SubDev_SN s ! i) = 2 \<or> No_Ans_Cnt (xb_SubDev_SN s ! i) = 3"
    by (simp add: word_uint_eq_iff)
  then have c3: "No_Ans_Cnt (count_dev (count_dev (count_dev (xb_SubDev_SN s ! i)))) = 3"
    by (elim disjE; simp add: count_dev_def)
  have "3 * ?n = ?n + (?n + ?n)" by simp
  then have "run_machine ?R s (replicate (3 * ?n) 0) = Some t3"
    using t1(1) t2(1) t3(1) by (simp only: replicate_add run_machine_append) simp
  with t1(5) t2(5) t3(2) c3 show ?thesis by simp
qed

theorem silent_devices_go_offline_witness:
  "\<exists>t. run_machine (Rs485_Ctrl_round int) (init_gateway\<lparr>Dev_Num := 2\<rparr>) (replicate 6 0) = Some t \<and> No_Ans_Cnt (xb_SubDev_SN t ! 1) = 3"
proof -
  have "sized (init_gateway\<lparr>Dev_Num := 2\<rparr>)" using sized_init by (simp add: sized_def)
  then show ?thesis using silent_devices_go_offline [of "init_gateway\<lparr>Dev_Num := 2\<rparr>" 1 int] by (simp add: list_all_iff)
qed

text \<open>C5: A switch command for all relays transmits, for every sub-device in order, one checksummed frame with
  the device number, the command byte 0x44 and the two bytes of the command, each followed by a pause.\<close>

theorem switch_all_relays:
  assumes "sized s" and "e = RELAY_ALL_ON \<or> e = RELAY_ALL_OFF \<or> e = RELAY_ALL_CLEAR \<or> e = RELAY_ALL_RS"
  shows "\<exists>t. Rs485_Ctrl_round uart s e = Some t \<and> trace t = trace s @
    concat (map (\<lambda>k. uart1_effects uart (crc_frames.seal [word_of_nat k, 0x44, hi8 (ucast e), lo8 (ucast e)]) @ [Sleep 100])
      [1..<1 + unat (Dev_Num s)])"
proof -
  have "is_switch_event e" "e \<noteq> EVENT_SND_485_CTRL"
    using assms(2) by (auto simp: is_switch_event_def RELAY_ALL_ON_def RELAY_ALL_OFF_def RELAY_ALL_RS_def RELAY_ALL_CLEAR_def EVENT_SND_485_CTRL_def)
  with Ctrl_round_switch [OF assms(1), of e uart] show ?thesis by auto
qed

theorem switch_all_relays_witness:
  "\<exists>t. Rs485_Ctrl_round int (init_gateway\<lparr>Dev_Num := 1\<rparr>) RELAY_ALL_OFF = Some t \<and>
     trace t = uart1_effects int (crc_frames.seal [1, 0x44, 0x11, 0x55]) @ [Sleep 100]"
proof -
  have "sized (init_gateway\<lparr>Dev_Num := 1\<rparr>)" using sized_init by (simp add: sized_def)
  moreover have "hi8 (ucast RELAY_ALL_OFF) = 0x11" "lo8 (ucast RELAY_ALL_OFF) = 0x55"
    by (simp_all add: RELAY_ALL_OFF_def hi8_def lo8_def)
  ultimately show ?thesis using switch_all_relays [of "init_gateway\<lparr>Dev_Num := 1\<rparr>" RELAY_ALL_OFF int] by (simp add: upt_rec)
qed

text \<open>\<open>Waiting_Mqtt\<close> returns exactly when its argument is zero: it tests a copy of the flag, so a call while a
  transmission is in progress never returns.\<close>

theorem Waiting_Mqtt_returns_iff:
  "Waiting_Mqtt fg s = (if fg = 0 then Some s else None)"
  by (rule Waiting_Mqtt_eq)

text \<open>C23: Enumeration. When the first \<open>k\<close> addresses are answered and the next one is not (\<open>k\<close> at most 254), the
  enumeration thread never faults and leaves \<open>k\<close> sub-devices, or one when none answered.\<close>

theorem enumeration_counts_devices:
  assumes "enum_inv uart s" and "Poll_Addr_id s = 1" and "k \<le> 254" and "e \<noteq> EVENT_REC_485"
  shows "\<exists>t. run_machine (Poll_Addr_round uart b4) s (replicate k EVENT_REC_485 @ [e]) = Some t \<and>
    unat (Dev_Num t) = max 1 k"
proof -
  obtain t where t: "run_machine (Poll_Addr_round uart b4) s (replicate k EVENT_REC_485) = Some t" "enum_inv uart t"
      "Poll_Addr_id t = 1 + word_of_nat k"
    using enum_answers [OF assms(1), of b4 k] assms(2) by auto
  obtain u where u: "Poll_Addr_round uart b4 t e = Some u"
      "Dev_Num u = (if Poll_Addr_id t = 1 then 1 else Poll_Addr_id t - 1)"
    using Poll_Addr_round_ok [OF t(2), of b4 e] assms(4) by auto
  have w: "unat (word_of_nat k :: u8) = k" using assms(3) by (intro unat_of_nat_u8) simp
  have "unat (if 1 + word_of_nat k = (1 :: u8) then 1 else 1 + word_of_nat k - 1 :: u8) = max 1 k"
  proof (cases "k = 0")
    case False
    then have "(word_of_nat k :: u8) \<noteq> 0" using w by auto
    then show ?thesis using w False by simp
  qed simp
  with t u show ?thesis by (auto simp: run_machine_append split: if_splits)
qed

theorem enumeration_counts_devices_witness:
  "\<exists>t. run_machine (Poll_Addr_round int 0) init_gateway [EVENT_REC_485, EVENT_REC_485, 0] = Some t \<and> unat (Dev_Num t) = 2"
proof -
  have "replicate 2 EVENT_REC_485 @ [0] = [EVENT_REC_485, EVENT_REC_485, 0]" by (simp add: numeral_eq_Suc)
  then show ?thesis
    using enumeration_counts_devices [of int init_gateway 2 0 0] sized_init by (simp add: enum_inv_def EVENT_REC_485_def numeral_2_eq_2 [symmetric])
qed


text \<open>Reception during enumeration. A frame of 14 to 200 bytes whose checksum is right and whose device number is
  between 1 and 31 stores the 12-byte serial number it carries in the entry of that device; a frame whose
  checksum is wrong still overwrites an entry when its first byte is below 4, and the entry is the one of the next
  device. Either way the enumeration thread is told that the address was answered.\<close>

theorem handle_rec_enumeration:
  assumes "sized s" and "thread_Fg s = 1" and "length f = unat len" and "14 \<le> len" and "len \<le> 200"
  shows "handle_rec uart fs tmp mem behind h f len s w =
    (let sn' = take 12 (drop 2 f);
         put = (\<lambda>i. s\<lparr>xb_SubDev_SN := (xb_SubDev_SN s)[i := (xb_SubDev_SN s ! i)\<lparr>sn := sn'\<rparr>]\<rparr>);
         s1 = (if crc_frames.valid f then (if 1 \<le> f ! 0 \<and> f ! 0 < 32 then put (unat (f ! 0) - 1) else s)
               else (if f ! 0 < 4 then put (unat (f ! 0)) else s))
     in Some (emit (Send_Sig Poll_Addr_thread EVENT_REC_485) s1, w))"
proof -
  have n: "14 \<le> length f" using assms(3,4) by (simp add: word_le_nat_alt)
  have i: "unat (f ! 0) - 1 < 32" if "f ! 0 < 32" using that by (simp add: word_less_nat_alt)
  have j: "unat (f ! 0) < 32" if "f ! 0 < 4" using that by (simp add: word_less_nat_alt)
  have "(2 :: u32) \<le> len" using assms(4) by (simp add: word_le_nat_alt)
  then show ?thesis
    using handle_rec_eq [of s f len uart fs tmp mem behind h "[]" w] assms(1-3,5) n store_sn_eq [OF assms(1) i n]
      store_sn_eq [OF assms(1) j n]
    by (auto simp: Let_def)
qed

theorem handle_rec_enumeration_witness:
  "handle_rec int ram_fs [] True [] 0 (crc_frames.seal ([1, 0] @ replicate 12 65)) 16 (init_gateway\<lparr>thread_Fg := 1\<rparr>) (\<lambda>_. [], []) =
     Some (emit (Send_Sig Poll_Addr_thread EVENT_REC_485) (init_gateway\<lparr>thread_Fg := 1,
        xb_SubDev_SN := (xb_SubDev_SN init_gateway)[0 := \<lparr>sn = replicate 12 65, No_Ans_Cnt = 0\<rparr>]\<rparr>), (\<lambda>_. [], []))"
proof -
  let ?f = "crc_frames.seal ([1, 0] @ replicate 12 65)"
  have sz: "sized (init_gateway\<lparr>thread_Fg := 1\<rparr>)" using sized_init by (simp add: sized_def)
  have f: "length ?f = unat (16 :: u32)" "?f ! 0 = 1" "take 12 (drop 2 ?f) = replicate 12 65"
    by (simp_all add: crc_frames.seal_def)
  show ?thesis
    using handle_rec_enumeration [OF sz _ f(1), of int ram_fs "[]" True "[]" 0 "(\<lambda>_. [], [])"] f(2,3) crc_frames.valid_seal
    by (simp add: Let_def)
qed

text \<open>A received frame of fewer than two bytes makes \<open>handle_rec\<close> compute a checksum over about 4 GiB before its
  length check: in every state past start-up the handler reads outside the received data.\<close>

theorem handle_rec_short_frame:
  assumes "thread_Fg s \<noteq> 0" and "len < 2" and "length rx < 4294967294"
  shows "handle_rec uart fs tmp mem behind h rx len s w = None"
  by (rule handle_rec_short [OF assms])

theorem handle_rec_short_frame_witness:
  "handle_rec int ram_fs [] True [] 0 [7] 1 (init_gateway\<lparr>thread_Fg := 2\<rparr>) (\<lambda>_. [], []) = None"
  by (rule handle_rec_short_frame) simp_all

text \<open>A data frame of 7 to 200 bytes from sub-device 1 to 32 marks that device as present, puts the frame in
  hexadecimal after the prefix into \<open>mqtt_report_Msg\<close> without overflow, and signals the sending thread, provided
  no MQTT transmission is flagged; if one is, the handler never returns.\<close>

theorem handle_n_Iso_reports:
  assumes "sized s" and "length f = unat len" and "6 < len" and "len \<le> 200" and "1 \<le> f ! 0" and "f ! 0 \<le> 32"
  shows "\<exists>m. handle_n_Iso f len s =
     (if Fg_Snding_Mqtt s = 0
      then Some (emit (Send_Sig Mqtt_Snd_task EVENT_SND_485_CTRL) (s\<lparr>xb_SubDev_SN := (xb_SubDev_SN s)[unat (f ! 0) - 1 :=
             (xb_SubDev_SN s ! (unat (f ! 0) - 1))\<lparr>No_Ans_Cnt := 0\<rparr>], mqtt_report_Msg := m, mqtt_report_Len := 2 * int (length f)\<rparr>))
      else None) \<and> length m = 512 \<and> c_str m = str ''6,6,'' @ concat (map (\<lambda>c. fmt_02x (unat c)) f)"
  using handle_n_Iso_eq [OF assms, of "[]"] by (simp add: hex_texts_def)

theorem handle_n_Iso_reports_witness:
  "\<exists>m. handle_n_Iso [1, 2, 3, 4, 5, 6, 7] 7 init_gateway =
      Some (emit (Send_Sig Mqtt_Snd_task EVENT_SND_485_CTRL) (init_gateway\<lparr>xb_SubDev_SN := (xb_SubDev_SN init_gateway)[0 :=
             (xb_SubDev_SN init_gateway ! 0)\<lparr>No_Ans_Cnt := 0\<rparr>], mqtt_report_Msg := m, mqtt_report_Len := 14\<rparr>)) \<and> length m = 512"
  using handle_n_Iso_reports [OF sized_init, of "[1, 2, 3, 4, 5, 6, 7]" 7] by auto

end
