(* ===== verification/NetCmd.thy ===== *)
theory NetCmd
  imports Rs485
begin

text \<open>
  Commands from the cloud, src/parse.c: the byte-level helpers, the generators of the status fields and
  \<open>handle_Net_Cmd\<close> with all its branches. A command starting with a zero byte addresses one of the zones by its
  second byte; the answer is built in \<open>mqtt_report_Msg\<close> and the sending thread is signalled.
\<close>

section \<open>Helpers\<close>

definition conver_Data_Low_F :: "u16 \<Rightarrow> buf \<Rightarrow> nat \<Rightarrow> buf option" where
  "conver_Data_Low_F v b i = do { b1 \<leftarrow> wr b i (lo8 v); wr b1 (i + 1) (hi8 v) }"

definition conver_u8_u16 :: "buf \<Rightarrow> nat \<Rightarrow> u16 option" where
  "conver_u8_u16 b i = do { h \<leftarrow> rd b (i + 1); l \<leftarrow> rd b i; Some (push_bit 8 (ucast h) + ucast l) }"

text \<open>The eight decoded bytes of \<open>IsRelay_Cmd\<close>; the arithmetic is on \<open>uint8_t\<close>.\<close>

fun relay_bytes :: "nat \<Rightarrow> nat \<Rightarrow> buf \<Rightarrow> buf option" where
  "relay_bytes 0 i msg = Some []"
| "relay_bytes (Suc n) i msg =
     do { a \<leftarrow> rd msg i; b \<leftarrow> rd msg (i + 1);
          r \<leftarrow> relay_bytes n (i + 2) msg;
          Some ((push_bit 4 (a - 48) + (b - 48)) # r) }"

definition IsRelay_Cmd :: "buf \<Rightarrow> int option" where
  "IsRelay_Cmd msg =
     do { b \<leftarrow> relay_bytes 8 0 msg;
          Some (if b ! 0 = 0 \<and> b ! 1 = 0x44
                then (if b ! 3 = 0x55 \<and> b ! 2 = 0x00 then 0
                      else if b ! 3 = 0x55 \<and> b ! 2 = 0x11 then 1
                      else if b ! 3 = 0x55 \<and> b ! 2 = 0x22 then 2 else -1)
                else -1) }"

text \<open>The loop over the 32 entries, on the remaining ones.\<close>

fun on_line_bits :: "nat \<Rightarrow> XB_Sub_Dev_Typedef list \<Rightarrow> u32 \<Rightarrow> u32" where
  "on_line_bits i [] fg = fg"
| "on_line_bits i (d # ds) fg = on_line_bits (i + 1) ds (if No_Ans_Cnt d \<noteq> 3 then fg OR push_bit i 1 else fg)"

definition put_u32 :: "u32 \<Rightarrow> buf \<Rightarrow> nat \<Rightarrow> buf option" where
  "put_u32 v b i =
     do { b0 \<leftarrow> wr b i (ucast (v AND 0xFF));
          b1 \<leftarrow> wr b0 (i + 1) (ucast (drop_bit 8 v AND 0xFF));
          b2 \<leftarrow> wr b1 (i + 2) (ucast (drop_bit 16 v AND 0xFF));
          wr b2 (i + 3) (ucast (drop_bit 24 v AND 0xFF)) }"

definition Generate_Sub_Dev_OnLine :: "buf \<Rightarrow> nat \<Rightarrow> gateway \<Rightarrow> buf option" where
  "Generate_Sub_Dev_OnLine b i s = put_u32 (on_line_bits 0 (xb_SubDev_SN s) 0) b i"

definition Generate_Sub_Dev_OnOff :: "buf \<Rightarrow> nat \<Rightarrow> gateway \<Rightarrow> buf option" where
  "Generate_Sub_Dev_OnOff b i s = put_u32 (on_line_bits 0 (xb_SubDev_SN s) 0) b i"

text \<open>Every round copies \<open>scan_info[BLE_num_Scan]\<close>, not the entry of the round.\<close>

fun All_Ble_loop :: "nat \<Rightarrow> nat \<Rightarrow> gateway \<Rightarrow> buf \<Rightarrow> buf option" where
  "All_Ble_loop 0 p s b = Some b"
| "All_Ble_loop (Suc n) p s b =
     do { a \<leftarrow> rd (scan_info s) (unat (BLE_num_Scan s));
          b1 \<leftarrow> buf_write b p (take 6 a);
          All_Ble_loop n (p + 6) s b1 }"

definition Generate_All_Ble :: "buf \<Rightarrow> nat \<Rightarrow> gateway \<Rightarrow> (buf \<times> nat) option" where
  "Generate_All_Ble b p s =
     do { b1 \<leftarrow> All_Ble_loop (unat (BLE_num_Scan s)) p s b; Some (b1, 6 * unat (BLE_num_Scan s)) }"

text \<open>\<open>strstr\<close> on memory: the text ends at the first zero, and the search leaves the memory when there is none.\<close>

definition mem_strstr :: "buf \<Rightarrow> buf \<Rightarrow> bool option" where
  "mem_strstr b pat =
     (if c_strstr (c_str b) pat \<noteq> None then Some True else if terminated b then Some False else None)"

section \<open>The zones\<close>

text \<open>Each definition is one branch of the zone dispatch; \<open>m\<close> is the cleared \<open>mqtt_report_Msg\<close>.\<close>

definition reply_crc :: "buf \<Rightarrow> nat \<Rightarrow> gateway \<Rightarrow> gateway option" where
  "reply_crc m n s =
     do { c \<leftarrow> N_CRC16 m (word_of_nat n);
          m' \<leftarrow> conver_Crc (ucast c) m n;
          Some (s\<lparr>mqtt_report_Msg := m', mqtt_report_Len := int (n + 2)\<rparr>) }"

definition zone_read_0 :: "buf \<Rightarrow> gateway \<Rightarrow> gateway option" where
  "zone_read_0 m s =
     do { m1 \<leftarrow> wr m 0 0; m2 \<leftarrow> wr m1 1 1;
          m3 \<leftarrow> wr m2 2 (lo8 (value_zone_0 s)); m4 \<leftarrow> wr m3 3 (hi8 (value_zone_0 s));
          reply_crc m4 4 s }"

definition zone_write_0 :: "buf \<Rightarrow> buf \<Rightarrow> gateway \<Rightarrow> gateway option" where
  "zone_write_0 b m s =
     do { v \<leftarrow> conver_u8_u16 b 4;
          x \<leftarrow> buf_read b 0 8;
          m1 \<leftarrow> buf_write m 0 x;
          Some (s\<lparr>value_zone_0 := v, mqtt_report_Msg := m1, mqtt_report_Len := 8\<rparr>) }"

definition zone_read_1 :: "buf \<Rightarrow> gateway \<Rightarrow> gateway option" where
  "zone_read_1 m s =
     do { m1 \<leftarrow> wr m 0 0; m2 \<leftarrow> wr m1 1 2;
          m3 \<leftarrow> conver_Data_Low_F (value_zone_1 s) m2 2;
          reply_crc m3 4 s }"

text \<open>\<open>ev0\<close> is the indeterminate value of \<open>event_id\<close> when the command is none of the four.\<close>

definition zone_relay :: "u32 \<Rightarrow> buf \<Rightarrow> buf \<Rightarrow> gateway \<Rightarrow> gateway option" where
  "zone_relay ev0 b m s =
     do { cmd \<leftarrow> conver_u8_u16 b 2;
          x \<leftarrow> buf_read b 0 6;
          m1 \<leftarrow> buf_write m 0 x;
          let s1 = s\<lparr>mqtt_report_Msg := m1, mqtt_report_Len := 6\<rparr>;
          let event_id = (if cmd = 0x5500 then RELAY_ALL_ON else if cmd = 0x5511 then RELAY_ALL_OFF
                          else if cmd = 0x5522 then RELAY_ALL_CLEAR else if cmd = 0x5533 then RELAY_ALL_RS else ev0);
          s2 \<leftarrow> Waiting_Mqtt (fg_Snding_485 s1) s1;
          Some (emit (Send_Sig RS485_Ctrl_thread event_id) s2) }"

text \<open>The temperature field: the complement is taken with the constant \<open>0x65535\<close>, then truncated to 16 bits.\<close>

definition zone3_temp :: "f32 \<Rightarrow> u16 option" where
  "zone3_temp t =
     do { tmp \<leftarrow> f32_to_u16 (f32_times t 10);
          Some (if f32_gt t 0 then tmp else word_of_int (0x65535 - uint tmp) + 1) }"

text \<open>Every white-list address is copied to offset 19.\<close>

fun zone3_white :: "nat \<Rightarrow> nat \<Rightarrow> gateway \<Rightarrow> buf \<Rightarrow> buf option" where
  "zone3_white 0 n s m = Some m"
| "zone3_white (Suc k) n s m =
     do { a \<leftarrow> rd (White_Name_Ble s) n; m1 \<leftarrow> buf_write m 19 (take 6 a); zone3_white k (n + 1) s m1 }"

definition zone_read_3 :: "buf \<Rightarrow> gateway \<Rightarrow> gateway option" where
  "zone_read_3 m s =
     do { m1 \<leftarrow> conver_Data_Low_F (value_zone_0 s) m 0;
          m2 \<leftarrow> conver_Data_Low_F (value_zone_1 s) m1 2;
          t \<leftarrow> zone3_temp (temp_IC s);
          m3 \<leftarrow> conver_Data_Low_F t m2 4;
          v \<leftarrow> (if f32_gt (voltage_Xb s) 0 then f32_to_u16 (f32_times (voltage_Xb s) 10) else Some t);
          m4 \<leftarrow> conver_Data_Low_F v m3 6;
          m5 \<leftarrow> conver_Data_Low_F (ucast (Dev_Num s)) m4 8;
          m6 \<leftarrow> Generate_Sub_Dev_OnLine m5 10 s;
          m7 \<leftarrow> Generate_Sub_Dev_OnOff m6 14 s;
          m8 \<leftarrow> wr m7 18 (White_Name_Num s);
          m9 \<leftarrow> (if White_Name_Num s = 0 then buf_fill m8 19 0 6
                else zone3_white (unat (White_Name_Num s)) 0 s m8);
          let position = 19 + 6 * unat (White_Name_Num s);
          (m10, num) \<leftarrow> Generate_All_Ble m9 position s;
          reply_crc m10 (position + num) s }"

fun zone4_white :: "nat \<Rightarrow> nat \<Rightarrow> nat \<Rightarrow> gateway \<Rightarrow> buf \<Rightarrow> buf option" where
  "zone4_white 0 n p s m = Some m"
| "zone4_white (Suc k) n p s m =
     do { a \<leftarrow> rd (White_Name_Ble s) n; m1 \<leftarrow> buf_write m p (take 6 a); zone4_white k (n + 1) (p + 6) s m1 }"

text \<open>The last \<open>conver_Data_Low_F\<close> writes a second byte that the white-list count then replaces.\<close>

definition zone_read_4 :: "buf \<Rightarrow> gateway \<Rightarrow> gateway option" where
  "zone_read_4 m s =
     do { let z = Zone4_Info s;
          m1 \<leftarrow> conver_Data_Low_F (Temp_Set_Hig z) m 0;
          m2 \<leftarrow> conver_Data_Low_F (Temp_Set_Low z) m1 2;
          m3 \<leftarrow> conver_Data_Low_F (Voltage_Over_Set z) m2 4;
          m4 \<leftarrow> conver_Data_Low_F (Voltage_Low_Set z) m3 6;
          m5 \<leftarrow> conver_Data_Low_F (BLE_Scan_Span z) m4 8;
          m6 \<leftarrow> conver_Data_Low_F (BLE_Min z) m5 10;
          m7 \<leftarrow> conver_Data_Low_F (BLE_Hour z) m6 12;
          m8 \<leftarrow> conver_Data_Low_F (ucast (BLE_Week z)) m7 14;
          m9 \<leftarrow> wr m8 15 (White_Name_Num s);
          m10 \<leftarrow> (if White_Name_Num s = 0 then buf_fill m9 16 0 6
                 else zone4_white (unat (White_Name_Num s)) 0 16 s m9);
          reply_crc m10 (if White_Name_Num s = 0 then 22 else 16 + 6 * unat (White_Name_Num s)) s }"

fun zone4_store :: "nat \<Rightarrow> nat \<Rightarrow> nat \<Rightarrow> buf \<Rightarrow> buf list \<Rightarrow> buf list option" where
  "zone4_store 0 n p b ws = Some ws"
| "zone4_store (Suc k) n p b ws =
     do { a \<leftarrow> buf_read b p 6; ws1 \<leftarrow> wr ws n a; zone4_store k (n + 1) (p + 6) b ws1 }"

text \<open>The values are taken from the start of the command, its two header bytes included.\<close>

definition zone_write_4 :: "'w vfs \<Rightarrow> u8 \<Rightarrow> buf \<Rightarrow> buf \<Rightarrow> buf \<Rightarrow> gateway \<Rightarrow> 'w \<Rightarrow> (gateway \<times> 'w) option" where
  "zone_write_4 fs pad tmp b m s w =
     do { v0 \<leftarrow> conver_u8_u16 b 0; v1 \<leftarrow> conver_u8_u16 b 2; v2 \<leftarrow> conver_u8_u16 b 4; v3 \<leftarrow> conver_u8_u16 b 6;
          v4 \<leftarrow> conver_u8_u16 b 8; v5 \<leftarrow> conver_u8_u16 b 10; v6 \<leftarrow> conver_u8_u16 b 12; v7 \<leftarrow> conver_u8_u16 b 14;
          n \<leftarrow> rd b 15;
          ws \<leftarrow> zone4_store (unat n) 0 16 b (White_Name_Ble s);
          let s1 = s\<lparr>Zone4_Info := \<lparr>Temp_Set_Hig = v0, Temp_Set_Low = v1, Voltage_Over_Set = v2, Voltage_Low_Set = v3,
                       BLE_Scan_Span = v4, BLE_Min = v5, BLE_Hour = v6, BLE_Week = ucast v7\<rparr>,
                     White_Name_Num := n, White_Name_Ble := ws\<rparr>;
          w1 \<leftarrow> Test_Write_Zone4_Info fs pad tmp s1 w;
          x0 \<leftarrow> rd b 0; x1 \<leftarrow> rd b 1;
          m1 \<leftarrow> wr m 0 x0; m2 \<leftarrow> wr m1 1 x1; m3 \<leftarrow> wr m2 2 1;
          s2 \<leftarrow> reply_crc m3 3 s1;
          Some (s2, w1) }"

definition zone_unknown :: "buf \<Rightarrow> gateway \<Rightarrow> gateway option" where
  "zone_unknown m s =
     do { m0 \<leftarrow> buf_fill m 0 0 MSG_REPLY_LEN;
          m1 \<leftarrow> c_strcat m0 (str ''byebye'');
          Some (s\<lparr>mqtt_report_Msg := m1, mqtt_report_Len := 6\<rparr>) }"

section \<open>The dispatcher\<close>

definition zone_cmd :: "'w vfs \<Rightarrow> u8 \<Rightarrow> buf \<Rightarrow> u32 \<Rightarrow> buf \<Rightarrow> buf \<Rightarrow> gateway \<Rightarrow> 'w \<Rightarrow> (gateway \<times> 'w) option" where
  "zone_cmd fs pad tmp ev0 b m s w =
     do { k \<leftarrow> rd b 1;
          if k = 0x01 then do { s1 \<leftarrow> zone_read_0 m s; Some (s1, w) }
          else if k = 0x05 then do { s1 \<leftarrow> zone_write_0 b m s; Some (s1, w) }
          else if k = 0x02 then do { s1 \<leftarrow> zone_read_1 m s; Some (s1, w) }
          else if k = 0x44 then do { s1 \<leftarrow> zone_relay ev0 b m s; Some (s1, w) }
          else if k = 0x03 then do { s1 \<leftarrow> zone_read_3 m s; Some (s1, w) }
          else if k = 0x04 then do { s1 \<leftarrow> zone_read_4 m s; Some (s1, w) }
          else if k = 0x10 then zone_write_4 fs pad tmp b m s w
          else do { s1 \<leftarrow> zone_unknown m s; Some (s1, w) } }"

text \<open>\<open>tmpN\<close>, \<open>tmpZ\<close>: the uninitialised locals of the two file routines.\<close>

definition handle_Net_Cmd ::
  "'w vfs \<Rightarrow> buf \<Rightarrow> bool \<Rightarrow> buf \<Rightarrow> u8 \<Rightarrow> buf \<Rightarrow> u32 \<Rightarrow> buf \<Rightarrow> nat \<Rightarrow> gateway \<Rightarrow> 'w \<Rightarrow> (gateway \<times> 'w) option" where
  "handle_Net_Cmd fs tmpN mem behind pad tmpZ ev0 b len s w =
     do { cloud \<leftarrow> mem_strstr b (str ''cloud=?'');
          if cloud then
            do { (m, s1) \<leftarrow> Reply_Cloud_Cmd (mqtt_report_Msg s) MSG_REPLY_LEN s;
                 Some (emit (Send_Sig Mqtt_Snd_task REPORT_MQTT_CTRL_CMD) (s1\<lparr>mqtt_report_Msg := m\<rparr>), w) }
          else do { restart \<leftarrow> mem_strstr b (str ''restart'');
          if restart then
            do { (m, s1) \<leftarrow> Reply_Restart (mqtt_report_Msg s) MSG_REPLY_LEN s;
                 Some (Start_Reset_Thread (emit (Send_Sig Mqtt_Snd_task REPORT_MQTT_CTRL_CMD) (s1\<lparr>mqtt_report_Msg := m\<rparr>)), w) }
          else do { sets \<leftarrow> mem_strstr b (str ''\"cmd\":\"sets\",'');
          if sets then
            do { b1 \<leftarrow> wr b len 0;
                 (s1, w1) \<leftarrow> Handle_Set_Cmd fs tmpN mem behind (drop 13 b1) s w;
                 m \<leftarrow> Reply_Set_Cmd (mqtt_report_Msg s1) MSG_REPLY_LEN s1;
                 Some (emit (Send_Sig Mqtt_Snd_task REPORT_MQTT_CTRL_CMD) (s1\<lparr>mqtt_report_Msg := m\<rparr>), w1) }
          else
            do { m \<leftarrow> buf_fill (mqtt_report_Msg s) 0 0 MSG_REPLY_LEN;
                 let s0 = s\<lparr>mqtt_report_Msg := m\<rparr>;
                 b0 \<leftarrow> rd b 0;
                 if b0 \<noteq> 0 then Some (s0, w)
                 else do { (s1, w1) \<leftarrow> zone_cmd fs pad tmpZ ev0 b m s0 w;
                           Some (emit (Send_Sig Mqtt_Snd_task REPORT_MQTT_CTRL_CMD) s1, w1) } } } } }"


section \<open>Replies are sealed frames\<close>

lemma reply_crc_eq:
  assumes "n + 2 \<le> length m" and "length m \<le> 512"
  shows "reply_crc m n s =
    Some (s\<lparr>mqtt_report_Msg := crc_frames.seal (take n m) @ drop (n + 2) m, mqtt_report_Len := int (n + 2)\<rparr>)"
proof -
  have u: "unat (word_of_nat n :: u32) = n" using assms by (simp add: unsigned_of_nat take_bit_nat_eq_self)
  have "m[n := x, n + 1 := y] = take n m @ [x, y] @ drop (n + 2) m" for x y
    using assms(1) by (simp add: list_update_append upd_conv_take_nth_drop take_Suc_conv_app_nth)
  with assms u show ?thesis
    by (simp add: reply_crc_def N_CRC16_eq conver_Crc_def crc_frames.seal_def)
qed

lemma reply_crc_fault: "length m < n + 2 \<Longrightarrow> length m \<le> 512 \<Longrightarrow> n < 4294967296 \<Longrightarrow> reply_crc m n s = None"
  by (auto simp: reply_crc_def N_CRC16_eq conver_Crc_def wr_def unsigned_of_nat take_bit_nat_eq_self)

definition sealed_reply :: "gateway \<Rightarrow> bool" where
  "sealed_reply s = (2 \<le> mqtt_report_Len s \<and> mqtt_report_Len s \<le> 512 \<and> length (mqtt_report_Msg s) = 512 \<and>
     crc_frames.valid (take (nat (mqtt_report_Len s)) (mqtt_report_Msg s)))"

lemma reply_crc_sealed:
  assumes "reply_crc m n s = Some t" and "length m = 512" and "n < 4294967296"
  shows "sealed_reply t"
proof -
  have n: "n + 2 \<le> 512"
  proof (rule ccontr)
    assume "\<not> n + 2 \<le> 512"
    with reply_crc_fault [of m n s] assms show False by simp
  qed
  have l: "length (crc_frames.seal (take n m)) = n + 2" using n assms(2) by (simp add: crc_frames.seal_def)
  have "t = s\<lparr>mqtt_report_Msg := crc_frames.seal (take n m) @ drop (n + 2) m, mqtt_report_Len := int (n + 2)\<rparr>"
    using reply_crc_eq [of n m s] assms n by simp
  then show ?thesis using l n assms(2) by (simp add: sealed_reply_def nat_add_distrib)
qed

lemma conver_Data_Low_F_length: "conver_Data_Low_F v b i = Some b' \<Longrightarrow> length b' = length b"
  by (auto simp: conver_Data_Low_F_def Option.bind_eq_Some_conv dest!: wr_length)

lemma put_u32_length: "put_u32 v b i = Some b' \<Longrightarrow> length b' = length b"
  by (auto simp: put_u32_def Option.bind_eq_Some_conv dest!: wr_length)

lemma zone3_white_length: "zone3_white k n s m = Some m' \<Longrightarrow> length m' = length m"
  by (induction k n s m rule: zone3_white.induct) (auto simp: Option.bind_eq_Some_conv dest: buf_write_length)

lemma zone4_white_length: "zone4_white k n p s m = Some m' \<Longrightarrow> length m' = length m"
  by (induction k n p s m rule: zone4_white.induct) (auto simp: Option.bind_eq_Some_conv dest: buf_write_length)

lemma All_Ble_length: "All_Ble_loop n p s b = Some b' \<Longrightarrow> length b' = length b"
  by (induction n p s b rule: All_Ble_loop.induct) (auto simp: Option.bind_eq_Some_conv dest: buf_write_length)

lemmas reply_lengths = wr_length conver_Data_Low_F_length put_u32_length zone3_white_length zone4_white_length
  All_Ble_length buf_write_length buf_fill_length

lemma unat_u8_le: "unat (x :: u8) \<le> 255"
  using u8_lt_256 [of x] by simp

lemma zone_read_3_sealed: "zone_read_3 m s = Some t \<Longrightarrow> length m = 512 \<Longrightarrow> sealed_reply t"
  using unat_u8_le [of "White_Name_Num s"] unat_u8_le [of "BLE_num_Scan s"]
  by (auto simp: zone_read_3_def Option.bind_eq_Some_conv Let_def Generate_Sub_Dev_OnLine_def Generate_Sub_Dev_OnOff_def
      Generate_All_Ble_def split: if_splits dest!: reply_lengths intro!: reply_crc_sealed)

lemma zone_read_4_sealed: "zone_read_4 m s = Some t \<Longrightarrow> length m = 512 \<Longrightarrow> sealed_reply t"
  using unat_u8_le [of "White_Name_Num s"]
  by (auto simp: zone_read_4_def Option.bind_eq_Some_conv Let_def
      split: if_splits dest!: reply_lengths intro!: reply_crc_sealed)

lemma zone_write_4_sealed: "zone_write_4 fs pad tmp b m s w = Some (t, w') \<Longrightarrow> length m = 512 \<Longrightarrow> sealed_reply t"
  by (auto simp: zone_write_4_def Option.bind_eq_Some_conv Let_def dest!: reply_lengths intro!: reply_crc_sealed)

lemma zone_read_0_sealed: "zone_read_0 m s = Some t \<Longrightarrow> length m = 512 \<Longrightarrow> sealed_reply t"
  by (auto simp: zone_read_0_def Option.bind_eq_Some_conv dest!: reply_lengths intro!: reply_crc_sealed)

lemma zone_read_1_sealed: "zone_read_1 m s = Some t \<Longrightarrow> length m = 512 \<Longrightarrow> sealed_reply t"
  by (auto simp: zone_read_1_def Option.bind_eq_Some_conv dest!: reply_lengths intro!: reply_crc_sealed)


section \<open>Zone 4 round trip\<close>

lemma u16_pair: "push_bit 8 (ucast h) + ucast l = join16 h l"
  by (simp add: join16_plus)

lemma conver_u8_u16_eq: "i + 1 < length b \<Longrightarrow> conver_u8_u16 b i = Some (join16 (b ! (i + 1)) (b ! i))"
  by (simp add: conver_u8_u16_def u16_pair)

lemma conver_Data_Low_F_at:
  assumes "length p = i" and "2 \<le> length q"
  shows "conver_Data_Low_F v (p @ q) i = Some ((p @ [lo8 v, hi8 v]) @ drop 2 q)"
proof -
  obtain a c r where "q = a # c # r" using assms(2) by (metis One_nat_def Suc_1 Suc_le_length_iff)
  with assms(1) show ?thesis by (simp add: conver_Data_Low_F_def wr_def list_update_append)
qed

text \<open>The addresses of a zone 4 command.\<close>

definition addrs_at :: "buf \<Rightarrow> nat \<Rightarrow> nat \<Rightarrow> buf list" where
  "addrs_at b p k = map (\<lambda>i. take 6 (drop (p + 6 * i) b)) [0..<k]"

lemma addrs_at_Suc: "addrs_at b p (Suc k) = take 6 (drop p b) # addrs_at b (p + 6) k"
  by (simp add: addrs_at_def upt_conv_Cons map_Suc_upt [symmetric] comp_def ac_simps del: upt_Suc)

lemma length_addrs_at [simp]: "length (addrs_at b p k) = k"
  by (simp add: addrs_at_def)

lemma concat_addrs_at: "p + 6 * k \<le> length b \<Longrightarrow> concat (addrs_at b p k) = take (6 * k) (drop p b)"
proof (induction k arbitrary: p)
  case 0
  then show ?case by (simp add: addrs_at_def)
next
  case (Suc k)
  have "take (6 * Suc k) (drop p b) = take 6 (drop p b) @ take (6 * k) (drop (p + 6) b)"
    using take_add [of 6 "6 * k" "drop p b"] by (simp add: add.commute)
  with Suc show ?case by (simp add: addrs_at_Suc)
qed

lemma zone4_store_eq:
  assumes "n + k \<le> length ws" and "p + 6 * k \<le> length b"
  shows "zone4_store k n p b ws = Some (take n ws @ addrs_at b p k @ drop (n + k) ws)"
  using assms
proof (induction k arbitrary: n p ws)
  case 0
  then show ?case by (simp add: addrs_at_def)
next
  case (Suc k)
  have "zone4_store (Suc k) n p b ws = zone4_store k (n + 1) (p + 6) b (ws[n := take 6 (drop p b)])"
    using Suc.prems by (simp add: buf_read_def)
  also have "\<dots> = Some (take (n + 1) (ws[n := take 6 (drop p b)]) @ addrs_at b (p + 6) k @ drop (n + 1 + k) (ws[n := take 6 (drop p b)]))"
    using Suc.prems by (intro Suc.IH) simp_all
  finally show ?case
    using Suc.prems by (simp add: addrs_at_Suc take_Suc_conv_app_nth)
qed

lemma length_concat_six: "list_all (\<lambda>a. length a = 6) as \<Longrightarrow> length (concat as) = 6 * length as"
  by (induction as) simp_all

lemma zone4_white_eq:
  assumes "n + k \<le> length (White_Name_Ble s)" and "list_all (\<lambda>a. length a = 6) (White_Name_Ble s)" and "p + 6 * k \<le> length m"
  shows "zone4_white k n p s m = Some (take p m @ concat (take k (drop n (White_Name_Ble s))) @ drop (p + 6 * k) m)"
  using assms(1,3)
proof (induction k arbitrary: n p m)
  case 0
  then show ?case by simp
next
  case (Suc k)
  let ?a = "White_Name_Ble s ! n"
  have a: "length ?a = 6" using assms(2) Suc.prems by (simp add: list_all_length)
  have "zone4_white (Suc k) n p s m = zone4_white k (n + 1) (p + 6) s (take p m @ ?a @ drop (p + 6) m)"
    using Suc.prems a by (simp add: buf_write_def)
  also have "\<dots> = Some (take (p + 6) (take p m @ ?a @ drop (p + 6) m) @ concat (take k (drop (n + 1) (White_Name_Ble s))) @
      drop (p + 6 + 6 * k) (take p m @ ?a @ drop (p + 6) m))"
    using Suc.prems a by (intro Suc.IH) simp_all
  also have "take (p + 6) (take p m @ ?a @ drop (p + 6) m) = take p m @ ?a" using Suc.prems a by simp
  also have "drop (p + 6 + 6 * k) (take p m @ ?a @ drop (p + 6) m) = drop (p + 6 * Suc k) m"
    using Suc.prems a by (simp add: ac_simps)
  finally show ?case
    using Suc.prems by (simp add: Cons_nth_drop_Suc [symmetric])
qed


lemma zeros_512: "replicate 512 (0 :: u8) = [0, 0, 0, 0, 0, 0, 0, 0, 0, 0, 0, 0, 0, 0, 0, 0] @ replicate 496 0"
proof -
  have "replicate 512 (0 :: u8) = replicate 16 0 @ replicate 496 0" by (simp flip: replicate_add)
  then show ?thesis by (simp add: numeral_eq_Suc)
qed

text \<open>The white-list count stands where the struct has its padding byte.\<close>

definition zone4_payload :: "gateway \<Rightarrow> buf" where
  "zone4_payload s = Zone4_bytes (White_Name_Num s) (Zone4_Info s) @
     (if White_Name_Num s = 0 then replicate 6 0 else concat (take (unat (White_Name_Num s)) (White_Name_Ble s)))"

lemma lo8_ucast [simp]: "lo8 (ucast x) = x" for x :: u8
proof -
  have "ucast x = join16 0 x" by (simp add: join16_def)
  then show ?thesis by simp
qed

lemma zone_read_4_eq:
  assumes "sized s" and "unat (White_Name_Num s) \<le> 82"
  shows "zone_read_4 (replicate 512 0) s =
    Some (s\<lparr>mqtt_report_Msg := crc_frames.seal (zone4_payload s) @ replicate (510 - length (zone4_payload s)) 0,
      mqtt_report_Len := int (length (zone4_payload s) + 2)\<rparr>)"
proof -
  let ?n = "unat (White_Name_Num s)"
  let ?h = "Zone4_bytes (White_Name_Num s) (Zone4_Info s)"
  let ?q = "if White_Name_Num s = 0 then 22 else 16 + 6 * ?n"
  have hd: "zone_read_4 (replicate 512 0) s = do {
      m10 \<leftarrow> (if White_Name_Num s = 0 then buf_fill (?h @ replicate 496 0) 16 0 6 else zone4_white ?n 0 16 s (?h @ replicate 496 0));
      reply_crc m10 ?q s }"
    unfolding zone_read_4_def zeros_512 by (simp add: conver_Data_Low_F_def Zone4_bytes_def le16_def Let_def)
  have white: "length (White_Name_Ble s) = 100" "list_all (\<lambda>a. length a = 6) (White_Name_Ble s)"
    using assms(1) by (simp_all add: sized_def)
  then have "list_all (\<lambda>a. length a = 6) (take ?n (White_Name_Ble s))" by (auto simp: list_all_iff dest: in_set_takeD)
  then have six: "length (concat (take ?n (White_Name_Ble s))) = 6 * ?n"
    using assms(2) white(1) length_concat_six [of "take ?n (White_Name_Ble s)"] by (simp del: length_concat)
  have "(if White_Name_Num s = 0 then buf_fill (?h @ replicate 496 0) 16 0 6 else zone4_white ?n 0 16 s (?h @ replicate 496 0)) =
      Some (zone4_payload s @ replicate (512 - ?q) 0)"
    using white assms(2) zone4_white_eq [of 0 ?n s 16 "?h @ replicate 496 0"]
    by (simp add: zone4_payload_def buf_fill_def buf_write_def)
  moreover have "length (zone4_payload s) = ?q" using six by (simp add: zone4_payload_def del: length_concat)
  ultimately show ?thesis
    using assms(2) reply_crc_eq [of ?q "zone4_payload s @ replicate (512 - ?q) 0" s] by (simp add: hd)
qed

lemma zone_read_4_reply:
  assumes "sized s" and "unat (White_Name_Num s) \<le> 82"
  shows "\<exists>u. zone_read_4 (replicate 512 0) s = Some u \<and>
    take (nat (mqtt_report_Len u)) (mqtt_report_Msg u) = crc_frames.seal (zone4_payload s)"
proof -
  have "take (nat (int (length p + 2))) (crc_frames.seal p @ r) = crc_frames.seal p" for p r
    by (simp add: crc_frames.seal_def nat_add_distrib)
  then show ?thesis unfolding zone_read_4_eq [OF assms] by (simp del: of_nat_add take_append)
qed

definition zone4_of :: "buf \<Rightarrow> Zone_4_typedef" where
  "zone4_of b = Zone4_of_bytes (take 16 b)"

lemma sixteen_bytes:
  assumes "length c = 16"
  shows "\<exists>x0 x1 x2 x3 x4 x5 x6 x7 x8 x9 x10 x11 x12 x13 x14 x15.
    c = [x0, x1, x2, x3, x4, x5, x6, x7, x8, x9, x10, x11, x12, x13, x14, x15]"
  using assms by (auto simp: numeral_eq_Suc length_Suc_conv)

lemma Zone4_bytes_of: "length c = 16 \<Longrightarrow> Zone4_bytes (c ! 15) (Zone4_of_bytes c) = c"
  using sixteen_bytes [of c] by (auto simp: Zone4_bytes_def Zone4_of_bytes_def le16_def)

lemma ucast_join16 [simp]: "ucast (join16 h l) = l"
  by (rule bit_word_eqI) (auto simp: bit_simps bit_join16)

lemma zone_write_4_eq:
  assumes "sized s" and "vfs_spec fs files" and "length tmp = 16" and "unat (b ! 15) \<le> 100" and "16 + 6 * unat (b ! 15) \<le> length b"
  shows "\<exists>w'. zone_write_4 fs pad tmp b (replicate 512 0) s w = Some (s\<lparr>Zone4_Info := zone4_of b, White_Name_Num := b ! 15,
      White_Name_Ble := addrs_at b 16 (unat (b ! 15)) @ drop (unat (b ! 15)) (White_Name_Ble s),
      mqtt_report_Msg := crc_frames.seal [b ! 0, b ! 1, 1] @ replicate 507 0, mqtt_report_Len := 5\<rparr>, w')"
proof -
  let ?n = "unat (b ! 15)"
  let ?s1 = "s\<lparr>Zone4_Info := zone4_of b, White_Name_Num := b ! 15, White_Name_Ble := addrs_at b 16 ?n @ drop ?n (White_Name_Ble s)\<rparr>"
  have len: "16 \<le> length b" and len0: "rd b 0 = Some (b ! 0)" using assms(5) by auto
  have z: "zone4_of b = \<lparr>Temp_Set_Hig = join16 (b ! 1) (b ! 0), Temp_Set_Low = join16 (b ! 3) (b ! 2),
      Voltage_Over_Set = join16 (b ! 5) (b ! 4), Voltage_Low_Set = join16 (b ! 7) (b ! 6),
      BLE_Scan_Span = join16 (b ! 9) (b ! 8), BLE_Min = join16 (b ! 11) (b ! 10),
      BLE_Hour = join16 (b ! 13) (b ! 12), BLE_Week = b ! 14\<rparr>"
    by (simp add: zone4_of_def Zone4_of_bytes_def)
  obtain w' where w': "Test_Write_Zone4_Info fs pad tmp ?s1 w = Some w'"
    using Test_Write_Zone4_ok [OF assms(2,3)] by blast
  have st: "zone4_store ?n 0 16 b (White_Name_Ble s) = Some (addrs_at b 16 ?n @ drop ?n (White_Name_Ble s))"
    using zone4_store_eq [of 0 ?n "White_Name_Ble s" 16 b] assms(1,4,5) by (simp add: sized_def)
  have rc: "reply_crc (b ! 0 # b ! 1 # 1 # replicate 509 0) 3 ?s1 =
      Some (?s1\<lparr>mqtt_report_Msg := crc_frames.seal [b ! 0, b ! 1, 1] @ replicate 507 0, mqtt_report_Len := 5\<rparr>)"
    using reply_crc_eq [of 3 "b ! 0 # b ! 1 # 1 # replicate 509 0" ?s1] by simp
  have z3: "replicate 512 (0 :: u8) = 0 # 0 # 0 # replicate 509 0" by (simp add: numeral_eq_Suc)
  show ?thesis
    using len len0 st w' rc unfolding z3 z
    by (intro exI [of _ w']) (simp add: zone_write_4_def conver_u8_u16_eq Let_def)
qed

lemma zone4_payload_of_command:
  assumes "1 \<le> unat (b ! 15)" and "unat (b ! 15) \<le> 82" and "16 + 6 * unat (b ! 15) \<le> length b"
    and "Zone4_Info t = zone4_of b" and "White_Name_Num t = b ! 15"
    and "White_Name_Ble t = addrs_at b 16 (unat (b ! 15)) @ ws"
  shows "zone4_payload t = take (16 + 6 * unat (b ! 15)) b"
proof -
  let ?n = "unat (b ! 15)"
  have "b ! 15 \<noteq> 0" using assms(1) by (metis not_one_le_zero unsigned_0)
  moreover have "Zone4_bytes (b ! 15) (zone4_of b) = take 16 b"
    using Zone4_bytes_of [of "take 16 b"] assms(3) by (simp add: zone4_of_def)
  ultimately show ?thesis
    using assms concat_addrs_at [of 16 ?n b] take_add [of 16 "6 * ?n" b] by (simp add: zone4_payload_def)
qed


section \<open>Binary commands\<close>

lemma mem_strstr_binary:
  assumes "b \<noteq> []" and "b ! 0 = 0" and "pat \<noteq> []"
  shows "mem_strstr b pat = Some False"
  using assms by (cases b) (auto simp: mem_strstr_def c_str_def terminated_def)

lemma handle_Net_Cmd_binary:
  assumes "sized s" and "b \<noteq> []" and "b ! 0 = 0"
  shows "handle_Net_Cmd fs tmpN mem behind pad tmpZ ev0 b len s w =
    do { (s1, w1) \<leftarrow> zone_cmd fs pad tmpZ ev0 b (replicate 512 0) (s\<lparr>mqtt_report_Msg := replicate 512 0\<rparr>) w;
         Some (emit (Send_Sig Mqtt_Snd_task REPORT_MQTT_CTRL_CMD) s1, w1) }"
  using assms mem_strstr_binary [OF assms(2,3)]
  by (simp add: handle_Net_Cmd_def MSG_REPLY_LEN_def buf_fill_def buf_write_def sized_def str_def)

text \<open>The event a relay command stands for.\<close>

definition relay_event :: "u16 \<Rightarrow> u32 option" where
  "relay_event cmd = (if cmd = 0x5500 then Some RELAY_ALL_ON else if cmd = 0x5511 then Some RELAY_ALL_OFF
     else if cmd = 0x5522 then Some RELAY_ALL_CLEAR else if cmd = 0x5533 then Some RELAY_ALL_RS else None)"

lemma relay_command_eq:
  assumes "sized s" and "6 \<le> length b" and "b ! 0 = 0" and "b ! 1 = 0x44" and "relay_event (join16 (b ! 3) (b ! 2)) = Some e"
    and "fg_Snding_485 s = 0"
  shows "handle_Net_Cmd fs tmpN mem behind pad tmpZ ev0 b len s w =
    Some (emit (Send_Sig Mqtt_Snd_task REPORT_MQTT_CTRL_CMD) (emit (Send_Sig RS485_Ctrl_thread e)
      (s\<lparr>mqtt_report_Msg := take 6 b @ replicate 506 0, mqtt_report_Len := 6\<rparr>)), w)"
proof -
  have "conver_u8_u16 b 2 = Some (join16 (b ! 3) (b ! 2))" using conver_u8_u16_eq [of 2 b] assms(2) by simp
  moreover have "buf_write (replicate 512 0) 0 (take 6 b) = Some (take 6 b @ replicate 506 0)"
    using assms(2) by (simp add: buf_write_def)
  moreover have "b \<noteq> []" using assms(2) by auto
  moreover have "(if cmd = 0x5500 then RELAY_ALL_ON else if cmd = 0x5511 then RELAY_ALL_OFF
      else if cmd = 0x5522 then RELAY_ALL_CLEAR else if cmd = 0x5533 then RELAY_ALL_RS else ev0) = e"
    if "relay_event cmd = Some e" for cmd
    using that by (auto simp: relay_event_def split: if_splits)
  ultimately show ?thesis
    using assms
    by (simp add: handle_Net_Cmd_binary zone_cmd_def zone_relay_def Let_def buf_read_def Waiting_Mqtt_eq)
qed

section \<open>Properties\<close>

text \<open>Every binary answer to a zone command (reads of zones 0, 1, 3 and 4, writes of zone 4) that is produced is a
  checksummed frame: the \<open>mqtt_report_Len\<close> bytes that will be sent end in the right CRC, in high byte, low byte order, and
  lie inside the 512-byte buffer.\<close>

theorem zone_replies_are_sealed:
  assumes "zone_cmd fs pad tmp ev b (replicate 512 0) s w = Some (t, w')"
    and "b ! 1 = 0x01 \<or> b ! 1 = 0x02 \<or> b ! 1 = 0x03 \<or> b ! 1 = 0x04 \<or> b ! 1 = 0x10"
  shows "2 \<le> mqtt_report_Len t \<and> mqtt_report_Len t \<le> 512 \<and>
    crc_frames.valid (take (nat (mqtt_report_Len t)) (mqtt_report_Msg t))"
proof -
  note zs = zone_read_0_sealed zone_read_1_sealed zone_read_3_sealed zone_read_4_sealed zone_write_4_sealed
  have "sealed_reply t"
    using assms
    by (auto simp: zone_cmd_def Option.bind_eq_Some_conv intro: zs [OF _ length_replicate])
  then show ?thesis by (simp add: sealed_reply_def)
qed

theorem zone_replies_are_sealed_witness:
  "\<exists>t. zone_cmd ram_fs 0 [] 0 [0, 4] (replicate 512 0) init_gateway (\<lambda>_. [], []) = Some (t, (\<lambda>_. [], [])) \<and>
     crc_frames.valid (take (nat (mqtt_report_Len t)) (mqtt_report_Msg t))"
proof -
  obtain t where t: "zone_read_4 (replicate 512 0) init_gateway = Some t"
    using zone_read_4_eq [OF sized_init] by simp
  then have c: "zone_cmd ram_fs 0 [] 0 [0, 4] (replicate 512 0) init_gateway (\<lambda>_. [], []) = Some (t, (\<lambda>_. [], []))"
    by (simp add: zone_cmd_def)
  then show ?thesis using zone_replies_are_sealed [OF c] by auto
qed

text \<open>C14: Writing and reading zone 4. After a write command (0x10) with 1 to 82 white-list addresses, a read of zone 4 answers
  with exactly the bytes of that command, checksummed: every setting and every address comes back. The settings are
  taken from the first byte of the command on, so the first one always becomes 0x1000.\<close>

theorem zone4_write_then_read:
  assumes "sized s" and "vfs_spec fs files" and "length tmp = 16"
    and "b ! 0 = 0" and "b ! 1 = 0x10" and "1 \<le> unat (b ! 15)" and "unat (b ! 15) \<le> 82" and "16 + 6 * unat (b ! 15) \<le> length b"
  shows "\<exists>t w' u. zone_cmd fs pad tmp ev b (replicate 512 0) s w = Some (t, w') \<and>
    take 5 (mqtt_report_Msg t) = crc_frames.seal [0, 0x10, 1] \<and> Temp_Set_Hig (Zone4_Info t) = 0x1000 \<and>
    zone_read_4 (replicate 512 0) t = Some u \<and>
    take (nat (mqtt_report_Len u)) (mqtt_report_Msg u) = crc_frames.seal (take (16 + 6 * unat (b ! 15)) b)"
proof -
  let ?n = "unat (b ! 15)"
  let ?t = "s\<lparr>Zone4_Info := zone4_of b, White_Name_Num := b ! 15,
      White_Name_Ble := addrs_at b 16 ?n @ drop ?n (White_Name_Ble s),
      mqtt_report_Msg := crc_frames.seal [b ! 0, b ! 1, 1] @ replicate 507 0, mqtt_report_Len := 5\<rparr>"
  obtain w' where w': "zone_write_4 fs pad tmp b (replicate 512 0) s w = Some (?t, w')"
    using zone_write_4_eq [OF assms(1-3) _ assms(8), of pad w] assms(7) by auto
  have l1: "1 < length b" using assms(8) by simp
  have cmd: "zone_cmd fs pad tmp ev b (replicate 512 0) s w = Some (?t, w')"
    using w' l1 assms(5) by (simp add: zone_cmd_def)
  have seal3: "length (crc_frames.seal [b ! 0, b ! 1, 1]) = 5" by (simp add: crc_frames.seal_def)
  have six: "list_all (\<lambda>a. length a = 6) (addrs_at b 16 ?n)"
    using assms(8) by (auto simp: addrs_at_def list_all_iff)
  have "sized ?t"
    using assms(1,7) seal3 six by (auto simp: sized_def list_all_iff dest: in_set_dropD)
  have pay: "zone4_payload ?t = take (16 + 6 * ?n) b"
    using assms(6-8) by (intro zone4_payload_of_command) simp_all
  have "Temp_Set_Hig (Zone4_Info ?t) = join16 0x10 0"
    using assms(4,5) by (simp add: zone4_of_def Zone4_of_bytes_def)
  then have "Temp_Set_Hig (Zone4_Info ?t) = 0x1000" by (simp add: join16_def)
  moreover have "take 5 (mqtt_report_Msg ?t) = crc_frames.seal [0, 0x10, 1]" using seal3 assms(4,5) by simp
  moreover obtain u where "zone_read_4 (replicate 512 0) ?t = Some u"
    and "take (nat (mqtt_report_Len u)) (mqtt_report_Msg u) = crc_frames.seal (zone4_payload ?t)"
    using zone_read_4_reply [OF \<open>sized ?t\<close>] assms(7) by auto
  ultimately show ?thesis using cmd unfolding pay by blast
qed

theorem zone4_write_then_read_witness:
  "\<exists>t w' u. zone_cmd ram_fs 0 (replicate 16 0) 0 ([0, 0x10] @ replicate 13 7 @ [1, 1, 2, 3, 4, 5, 6]) (replicate 512 0) init_gateway
      (\<lambda>_. [], []) = Some (t, w') \<and> zone_read_4 (replicate 512 0) t = Some u \<and>
    take (nat (mqtt_report_Len u)) (mqtt_report_Msg u) = crc_frames.seal ([0, 0x10] @ replicate 13 7 @ [1, 1, 2, 3, 4, 5, 6])"
  using zone4_write_then_read [OF sized_init ram_fs_spec, where tmp = "replicate 16 0"
      and b = "[0, 0x10] @ replicate 13 7 @ [1, 1, 2, 3, 4, 5, 6]" and pad = 0 and ev = 0 and w = "(\<lambda>_. [], [])"]
  by (fastforce simp: nth_append)

end
