(* ===== verification/DataCall.thy ===== *)
theory DataCall
  imports Settings Report Machine
begin

text \<open>
  The data connection and the TCP probe: \<open>nwy_data_cb_fun\<close>, \<open>prvThreadEntry_Call\<close> and \<open>nwy_tcp_test_Mine\<close> of
  src/call.c and the address helpers of src/hello_world.c they call. Name resolution, the address parser of the
  TCP/IP stack and the answers of the socket calls are arguments; the socket calls made are recorded in order.
  A null \<open>char *\<close> argument is the empty array: every access to it is a fault.
\<close>

section \<open>Address helpers of src/hello_world.c\<close>

definition NWY_SUCESS :: int where "NWY_SUCESS = 0"

definition NWY_GEN_E_UNKNOWN :: int where "NWY_GEN_E_UNKNOWN = -1"

definition NWY_GEN_E_INVALID_PARA :: int where "NWY_GEN_E_INVALID_PARA = -2"

datatype nwy_ip_type_or_dns_enum = Type_NONE | Type_IPV4 | Type_IPV6 | Type_DNS

text \<open>The \<open>for\<close> loops stop at the first character of another kind: the length is reached when there is none.\<close>

definition nwy_judge_ip_or_dns :: "buf \<Rightarrow> nwy_ip_type_or_dns_enum option" where
  "nwy_judge_ip_or_dns b =
     do { t \<leftarrow> arr_text b;
          Some (if t = [] then Type_NONE
                else if list_all (\<lambda>c. (48 \<le> c \<and> c \<le> 57) \<or> c = 46) t then Type_IPV4
                else if list_all (\<lambda>c. (48 \<le> c \<and> c \<le> 57) \<or> (97 \<le> c \<and> c \<le> 102) \<or> (65 \<le> c \<and> c \<le> 70) \<or> c = 58) t
                  then Type_IPV6
                else Type_DNS) }"

text \<open>\<open>%d\<close> of \<open>sscanf\<close>: the value and the rest of the text, \<open>None\<close> when there is no number.\<close>

definition scan_d :: "buf \<Rightarrow> (int \<times> buf) option" where
  "scan_d t =
     (let t1 = dropWhile is_space t;
          t2 = (if t1 \<noteq> [] \<and> (hd t1 = 45 \<or> hd t1 = 43) then tl t1 else t1);
          ds = takeWhile is_digit t2
      in if ds = [] then None else Some (c_atoi t, dropWhile is_digit t2))"

definition scan_dot :: "buf \<Rightarrow> buf option" where
  "scan_dot t = (case t of [] \<Rightarrow> None | c # r \<Rightarrow> if c = 46 then Some r else None)"

text \<open>\<open>sscanf (t, "%d.%d.%d.%d", ..)\<close> when it converts all four numbers.\<close>

definition scan_ip :: "buf \<Rightarrow> (int \<times> int \<times> int \<times> int) option" where
  "scan_ip t =
     do { (a, t1) \<leftarrow> scan_d t; u1 \<leftarrow> scan_dot t1;
          (b, t2) \<leftarrow> scan_d u1; u2 \<leftarrow> scan_dot t2;
          (c, t3) \<leftarrow> scan_d u2; u3 \<leftarrow> scan_dot t3;
          (d, t4) \<leftarrow> scan_d u3;
          Some (a, b, c, d) }"

text \<open>\<open>memset (hostname, 0, sizeof (hostname))\<close> clears the four bytes of a pointer.\<close>

definition nwy_hostname_check :: "buf \<Rightarrow> (int \<times> buf) option" where
  "nwy_hostname_check hostname =
     do { t \<leftarrow> arr_text hostname;
          if 15 < length t then Some (NWY_GEN_E_UNKNOWN, hostname)
          else (case scan_ip t of
                  None \<Rightarrow> Some (NWY_GEN_E_UNKNOWN, hostname)
                | Some (a, b, c, d) \<Rightarrow>
                    if \<not> ((a \<le> 255 \<and> a \<ge> 0) \<and> (b \<le> 255 \<and> b \<ge> 0) \<and> (c \<le> 255 \<and> c \<ge> 0))
                    then Some (NWY_GEN_E_UNKNOWN, hostname)
                    else do { temp \<leftarrow> buf_write (replicate 32 0) 0
                                 (fmt_d a @ 46 # fmt_d b @ 46 # fmt_d c @ 46 # fmt_d d @ [0]);
                              h1 \<leftarrow> buf_fill hostname 0 0 4;
                              h2 \<leftarrow> buf_write h1 0 (c_str temp @ [0]);
                              Some (NWY_SUCESS, h2) }) }"

text \<open>The test for line ends compares the address of the character, so it never holds.\<close>

definition nwy_port_get :: "buf \<Rightarrow> (int \<times> int option) option" where
  "nwy_port_get port_str =
     do { t \<leftarrow> arr_text port_str;
          if \<not> list_all (\<lambda>c. \<not> (c < 48 \<or> c > 57)) t then Some (NWY_GEN_E_INVALID_PARA, None)
          else let port = c_atoi t
               in Some (if port < 1 \<or> port > 65535 then (NWY_GEN_E_INVALID_PARA, Some 0) else (NWY_SUCESS, Some port)) }"

text \<open>\<open>lookup\<close> is \<open>nwy_gethostbyname1\<close>; \<open>ip_str\<close> the destination array.\<close>

definition nwy_get_ip_str :: "(buf \<Rightarrow> buf option) \<Rightarrow> buf \<Rightarrow> buf \<Rightarrow> (int \<times> buf \<times> int) option" where
  "nwy_get_ip_str lookup url_or_ip ip_str =
     do { k \<leftarrow> nwy_judge_ip_or_dns url_or_ip;
          u \<leftarrow> arr_text url_or_ip;
          let a = (if k = Type_DNS then lookup u else Some u);
          case a of
            None \<Rightarrow> Some (NWY_GEN_E_UNKNOWN, ip_str, 0)
          | Some x \<Rightarrow>
              if k = Type_DNS \<and> x = [] then Some (NWY_GEN_E_UNKNOWN, ip_str, 0)
              else do { b \<leftarrow> buf_write ip_str 0 x;
                        t \<leftarrow> arr_text b;
                        Some (NWY_SUCESS, b, if 58 \<in> set t then 1 else 0) } }"

section \<open>State of the data call and of the TCP connection\<close>

datatype net_call =
    Sock_Open nat
  | Sock_Reuse_NoDelay int
  | Sock_Connect int buf int
  | Sock_Shutdown int
  | Sock_Close int
  | Sock_Send int buf
  | Create_Recv_Thread
  | Exit_Recv_Thread
  | Set_Profile buf buf buf
  | Start_Call int
  | Pdp_Set_Status
  | Loc_Open bool

text \<open>\<open>tcp_s\<close> is the static socket of \<open>nwy_tcp_test_Mine\<close>; \<open>open_socks\<close> the descriptors that are open.\<close>

record net_state =
  ppp_state :: "int list"
  tcp_connect_flag :: int
  tcp_s :: int
  open_socks :: "int list"
  net_calls :: "net_call list"

definition net_call :: "net_call \<Rightarrow> net_state \<Rightarrow> net_state" where
  "net_call c n = n\<lparr>net_calls := net_calls n @ [c]\<rparr>"

definition init_net :: net_state where
  "init_net = \<lparr>ppp_state = replicate 10 0, tcp_connect_flag = 0, tcp_s = 0, open_socks = [], net_calls = []\<rparr>"

definition nwy_data_cb_fun :: "int \<Rightarrow> int \<Rightarrow> net_state \<Rightarrow> net_state option" where
  "nwy_data_cb_fun hndl ind_state n =
     (if hndl > 0 \<and> hndl \<le> 8
      then do { p \<leftarrow> wr (ppp_state n) (nat (hndl - 1)) ind_state; Some (n\<lparr>ppp_state := p\<rparr>) }
      else Some n)"

definition nwy_ext_check_data_connect :: "net_state \<Rightarrow> int" where
  "nwy_ext_check_data_connect n = (if first_idx (\<lambda>p. p = 1) (take 7 (ppp_state n)) \<noteq> None then 1 else 0)"

section \<open>The call thread of src/call.c\<close>

text \<open>\<open>memcpy\<close> of a literal with the size of its destination reads on behind the literal; \<open>rest1\<close> and \<open>rest2\<close> are the
  bytes there. The callback may run while the thread sleeps: one list of calls for every 100 ms.\<close>

definition call_profile :: "buf \<Rightarrow> buf \<Rightarrow> (buf \<times> buf \<times> buf) option" where
  "call_profile rest1 rest2 =
     do { apn \<leftarrow> buf_read (str ''3gnet'' @ [0] @ rest1) 0 51;
          sio \<leftarrow> buf_read (str ''kuang'' @ [0] @ rest2) 0 2049;
          Some (apn, take 22 sio, take 21 sio) }"

fun data_callbacks :: "(int \<times> int) list \<Rightarrow> net_state \<Rightarrow> net_state option" where
  "data_callbacks [] n = Some n"
| "data_callbacks ((h, st) # cs) n = do { n1 \<leftarrow> nwy_data_cb_fun h st n; data_callbacks cs n1 }"

text \<open>The waiting loop; \<open>Inl\<close> while it has not ended when the listed sleeps are over.\<close>

fun wait_connect :: "int \<Rightarrow> (int \<times> int) list list \<Rightarrow> net_state \<Rightarrow> (net_state + net_state) option" where
  "wait_connect hndl css n =
     (if hndl < 1 then None
      else do { st \<leftarrow> rd (ppp_state n) (nat (hndl - 1));
                if st = 1 then Some (Inr n)
                else (case css of [] \<Rightarrow> Some (Inl n) | cs # r \<Rightarrow> do { n1 \<leftarrow> data_callbacks cs n; wait_connect hndl r n1 }) })"

definition Call_startup :: "'w vfs \<Rightarrow> u8 \<Rightarrow> gateway \<Rightarrow> 'w \<Rightarrow> (gateway \<times> 'w) option" where
  "Call_startup fs pad s w =
     do { let s0 = foldl (\<lambda>x _. emit (Sleep 1000) x) s [0..<18];
          (s1, w1) \<leftarrow> ReadNet_Info fs s0 w;
          (s2, w2) \<leftarrow> ReadZone4_Info fs pad s1 w1;
          Some (emit (Create_Thread Ble_thread) s2, w2) }"

text \<open>\<open>hndl\<close> is the resource handle; a failure to get one is only reported.\<close>

definition Call_dial :: "buf \<Rightarrow> buf \<Rightarrow> int \<Rightarrow> (int \<times> int) list list \<Rightarrow> net_state \<Rightarrow> (net_state + net_state) option" where
  "Call_dial rest1 rest2 hndl css n =
     do { (apn, user_name, pwd) \<leftarrow> call_profile rest1 rest2;
          wait_connect hndl css (net_call (Start_Call hndl) (net_call (Set_Profile apn user_name pwd) n)) }"

text \<open>The whole thread: it starts the MQTT thread once the call is up, then exits; without a connection it is still waiting.\<close>

definition prvThreadEntry_Call ::
  "'w vfs \<Rightarrow> u8 \<Rightarrow> buf \<Rightarrow> buf \<Rightarrow> int \<Rightarrow> (int \<times> int) list list \<Rightarrow> gateway \<Rightarrow> net_state \<Rightarrow> 'w \<Rightarrow> (gateway \<times> net_state \<times> 'w) option" where
  "prvThreadEntry_Call fs pad rest1 rest2 hndl css s n w =
     do { (s1, w1) \<leftarrow> Call_startup fs pad s w;
          r \<leftarrow> Call_dial rest1 rest2 hndl css n;
          Some (case r of
                  Inl n1 \<Rightarrow> (s1, n1, w1)
                | Inr n1 \<Rightarrow> (emit Exit_Thread (emit (Create_Thread Mqtt_Connect_thread) s1), n1, w1)) }"

section \<open>The TCP probe of src/call.c\<close>

definition EINPROGRESS :: int where "EINPROGRESS = 119"

definition EALREADY :: int where "EALREADY = 120"

definition EISCONN :: int where "EISCONN = 127"

definition sock_close :: "net_state \<Rightarrow> net_state" where
  "sock_close n = net_call (Sock_Close (tcp_s n)) (n\<lparr>open_socks := removeAll (tcp_s n) (open_socks n), tcp_s := 0\<rparr>)"

text \<open>The connecting loop: each round is the result of \<open>nwy_socket_connect\<close>, \<open>nwy_socket_errno\<close> and the milliseconds since
  the start; the source asks for \<open>errno\<close> up to three times in a round, here it answers the same within a round. \<open>None\<close> when the
  listed rounds do not end it.\<close>

fun tcp_connect_loop :: "buf \<Rightarrow> int \<Rightarrow> (int \<times> int \<times> nat) list \<Rightarrow> net_state \<Rightarrow> net_state option" where
  "tcp_connect_loop ip port [] n = None"
| "tcp_connect_loop ip port ((ret, errno, ms) # rs) n =
     (let n1 = net_call (Sock_Connect (tcp_s n) ip port) n
      in if ms \<ge> 10000 then Some (sock_close (net_call (Sock_Shutdown (tcp_s n1)) n1))
         else if ret = -1 \<and> errno = EISCONN then Some (n1\<lparr>tcp_connect_flag := 1\<rparr>)
         else if ret = -1 \<and> errno \<noteq> EINPROGRESS \<and> errno \<noteq> EALREADY
           then Some ((sock_close n1)\<lparr>tcp_connect_flag := 0\<rparr>)
         else tcp_connect_loop ip port rs n1)"

text \<open>What the libraries answer during a setup: the name lookup, the address parsers, the descriptor of a new socket, the
  result of \<open>nwy_socket_set_nonblock\<close>, the rounds of the loop and whether the receiving thread could be created.\<close>

record tcp_env =
  te_lookup :: "buf \<Rightarrow> buf option"
  te_ip6addr_aton :: "buf \<Rightarrow> bool"
  te_ip4addr_aton :: "buf \<Rightarrow> bool"
  te_socket :: int
  te_nonblock :: int
  te_rounds :: "(int \<times> int \<times> nat) list"
  te_thread :: bool

text \<open>The text of the address that is dialled, \<open>None\<close> inside when the address is refused.\<close>

definition tcp_address :: "tcp_env \<Rightarrow> buf \<Rightarrow> int \<Rightarrow> buf option option" where
  "tcp_address env ip_buf isipv6 =
     (if isipv6 \<noteq> 0 then do { t \<leftarrow> arr_text ip_buf; Some (if te_ip6addr_aton env t then Some t else None) }
      else do { (ret, b) \<leftarrow> nwy_hostname_check ip_buf;
                if ret \<noteq> NWY_SUCESS then Some None
                else do { t \<leftarrow> arr_text b; Some (if te_ip4addr_aton env t then Some t else None) } })"

definition tcp_dial :: "tcp_env \<Rightarrow> nat \<Rightarrow> buf \<Rightarrow> int \<Rightarrow> net_state \<Rightarrow> net_state option" where
  "tcp_dial env family ip port n =
     do { let n1 = (if tcp_s n = 0
                    then net_call (Sock_Open family) (n\<lparr>tcp_s := te_socket env,
                           open_socks := (if te_socket env < 0 then open_socks n else te_socket env # open_socks n)\<rparr>)
                    else n);
          let n2 = net_call (Sock_Reuse_NoDelay (tcp_s n1)) n1;
          if te_nonblock env \<noteq> 0 then Some n2
          else do { n3 \<leftarrow> tcp_connect_loop ip port (te_rounds env) n2;
                    Some (if tcp_connect_flag n3 \<noteq> 0
                          then if te_thread env then net_call Create_Recv_Thread n3
                               else (sock_close n3)\<lparr>tcp_connect_flag := 0\<rparr>
                          else n3) } }"

definition tcp_setup :: "tcp_env \<Rightarrow> buf \<Rightarrow> buf \<Rightarrow> net_state \<Rightarrow> net_state option" where
  "tcp_setup env para1 para2 n =
     (if nwy_ext_check_data_connect n = 0 then Some n
      else if tcp_connect_flag n \<noteq> 0 then Some n
      else do { u \<leftarrow> arr_text para1;
                url_or_ip \<leftarrow> buf_write (replicate 256 0) 0 u;
                (rp, port) \<leftarrow> nwy_port_get para2;
                if rp \<noteq> NWY_SUCESS then Some n
                else do { (ret, ip_buf, isipv6) \<leftarrow> nwy_get_ip_str (te_lookup env) url_or_ip (replicate 256 0);
                          if ret \<noteq> NWY_SUCESS then Some n
                          else do { a \<leftarrow> tcp_address env ip_buf isipv6;
                                    case a of
                                      None \<Rightarrow> Some n
                                    | Some ip \<Rightarrow> tcp_dial env (if isipv6 \<noteq> 0 then 10 else 2) ip (the port) n } } })"

text \<open>\<open>sio\<close> is the console line and its length (\<open>nwy_ext_sio_len\<close>).\<close>

definition tcp_send :: "buf \<Rightarrow> nat \<Rightarrow> net_state \<Rightarrow> net_state option" where
  "tcp_send sio sio_len n =
     (if tcp_connect_flag n = 0 then Some n
      else if 512 < sio_len then Some n
      else do { x \<leftarrow> buf_read sio 0 sio_len;
                buff \<leftarrow> buf_write (replicate 513 0) 0 x;
                Some (net_call (Sock_Send (tcp_s n) (take sio_len buff)) n) })"

definition tcp_close :: "net_state \<Rightarrow> net_state" where
  "tcp_close n = (if tcp_connect_flag n \<noteq> 0 then (sock_close n)\<lparr>tcp_connect_flag := 0\<rparr> else n)"

definition nwy_tcp_test_Mine :: "tcp_env \<Rightarrow> int \<Rightarrow> buf \<Rightarrow> buf \<Rightarrow> buf \<Rightarrow> nat \<Rightarrow> net_state \<Rightarrow> net_state option" where
  "nwy_tcp_test_Mine env step para1 para2 sio sio_len n =
     (if step = 1 then tcp_setup env para1 para2 n
      else if step = 2 then tcp_send sio sio_len n
      else if step = 3 then Some (tcp_close n)
      else Some n)"

text \<open>One pass of \<open>nwy_tcp_recv_func\<close>: the result of \<open>nwy_socket_select\<close>, the two \<open>FD_ISSET\<close> tests and the length
  \<open>nwy_socket_recv\<close> returns. \<open>s\<close> is the thread's copy of the descriptor.\<close>

definition recv_close :: "int \<Rightarrow> bool \<Rightarrow> net_state \<Rightarrow> net_state" where
  "recv_close s clear n =
     net_call Exit_Recv_Thread (net_call (Sock_Close s)
       (n\<lparr>open_socks := removeAll s (open_socks n), tcp_s := (if clear then 0 else tcp_s n), tcp_connect_flag := 0\<rparr>))"

definition nwy_tcp_recv_pass :: "int \<Rightarrow> int \<Rightarrow> bool \<Rightarrow> bool \<Rightarrow> int \<Rightarrow> net_state \<Rightarrow> net_state" where
  "nwy_tcp_recv_pass s result rd_set ex_set recv_len n =
     (if result < 0 then recv_close s False n
      else if result > 0 then
        if rd_set \<and> recv_len \<le> 0 then recv_close s True n
        else if ex_set then recv_close s True n
        else n
      else n)"

section \<open>Port numbers and addresses\<close>

lemma digit_test: "(\<lambda>c :: u8. \<not> (c < 48 \<or> c > 57)) = is_digit"
  by (rule ext) (auto simp: is_digit_def)

lemma nwy_port_get_eq:
  assumes "terminated p"
  shows "nwy_port_get p = Some (if \<not> list_all is_digit (c_str p) then (NWY_GEN_E_INVALID_PARA, None)
    else if 1 \<le> digits_val (c_str p) \<and> digits_val (c_str p) \<le> 65535 then (NWY_SUCESS, Some (digits_val (c_str p)))
    else (NWY_GEN_E_INVALID_PARA, Some 0))"
proof (cases "c_str p = []")
  case True
  then show ?thesis using assms by (simp add: nwy_port_get_def c_atoi_def int_max_def)
next
  case False
  then have "list_all is_digit (c_str p) \<Longrightarrow> c_atoi (c_str p) = min int_max (digits_val (c_str p))"
    using atoi_digits [of "c_str p" "[]"] by simp
  with assms show ?thesis unfolding nwy_port_get_def digit_test by (auto simp: Let_def int_max_def)
qed

lemma scan_d_digits:
  assumes "int k \<le> int_max" and "r = [] \<or> \<not> is_digit (hd r)"
  shows "scan_d (dec_digits k @ r) = Some (int k, r)"
proof -
  let ?ds = "dec_digits k"
  have ds: "list_all is_digit ?ds" by (rule dec_digits_are_digits)
  have h: "is_digit (hd ?ds)" using ds dec_digits_nonempty [of k] by (cases ?ds) auto
  then have "\<not> is_space (hd ?ds)" "hd ?ds \<noteq> 45" "hd ?ds \<noteq> 43" by (auto simp: is_digit_def is_space_def word_le_def)
  moreover have sp: "dropWhile is_space (?ds @ r) = ?ds @ r" using \<open>\<not> is_space (hd ?ds)\<close> by (cases ?ds) auto
  moreover have "takeWhile is_digit (?ds @ r) = ?ds" "dropWhile is_digit (?ds @ r) = r"
    using ds assms(2) by (cases r; auto simp: list_all_iff dropWhile_append)+
  ultimately show ?thesis
    using atoi_digits [OF ds _ assms(2)] assms(1)
    by (simp add: scan_d_def Let_def digits_val_dec_digits)
qed

lemma scan_ip_dotted:
  assumes "int a \<le> int_max" and "int b \<le> int_max" and "int c \<le> int_max" and "int d \<le> int_max"
  shows "scan_ip (dotted a b c d) = Some (int a, int b, int c, int d)"
proof -
  have dot: "\<not> is_digit (46 :: u8)" by (simp add: is_digit_def)
  show ?thesis
    using scan_d_digits [OF assms(4), of "[]"]
    by (simp add: scan_ip_def dotted_def scan_d_digits [OF assms(1)] scan_d_digits [OF assms(2)] scan_d_digits [OF assms(3)]
        scan_dot_def dot)
qed

lemma zero_notin_dotted [simp]: "0 \<notin> set (dotted a b c d)"
  using digit_nonzero [OF dec_digits_are_digits] by (auto simp: dotted_def)

lemma nwy_hostname_check_eq:
  assumes "int a \<le> int_max" and "int b \<le> int_max" and "int c \<le> int_max" and "int d \<le> int_max"
    and "length (dotted a b c d) \<le> 15" and "h = dotted a b c d @ 0 # r"
  shows "\<exists>h'. nwy_hostname_check h = Some (if a \<le> 255 \<and> b \<le> 255 \<and> c \<le> 255 then NWY_SUCESS else NWY_GEN_E_UNKNOWN, h') \<and>
    c_str h' = dotted a b c d \<and> terminated h' \<and> length h' = length h"
proof -
  have t: "arr_text h = Some (dotted a b c d)" using assms(6) by (simp add: arr_text_def terminated_def c_str_append_zero)
  have f: "fmt_d (int a) @ 46 # fmt_d (int b) @ 46 # fmt_d (int c) @ 46 # fmt_d (int d) @ [0] = dotted a b c d @ [0]"
    by (simp add: fmt_d_def dotted_def)
  have l: "7 \<le> length (dotted a b c d)" by (rule length_dotted)
  have tmp: "buf_write (replicate 32 0) 0 (dotted a b c d @ [0]) = Some (dotted a b c d @ 0 # replicate (31 - length (dotted a b c d)) 0)"
    using assms(5) by (simp add: buf_write_def)
  have h1: "buf_fill h 0 0 4 = Some (replicate 4 0 @ drop 4 h)"
    using l assms(6) by (simp add: buf_fill_def buf_write_def)
  have h2: "buf_write (replicate 4 0 @ drop 4 h) 0 (dotted a b c d @ [0]) = Some (dotted a b c d @ 0 # r)"
    using l assms(6) by (simp add: buf_write_def)
  have "c_str (dotted a b c d @ 0 # x) = dotted a b c d" for x by (simp add: c_str_append_zero)
  then show ?thesis
    using assms(5,6) tmp h1 h2
    by (simp add: nwy_hostname_check_def t scan_ip_dotted [OF assms(1-4)] f terminated_def)
qed

section \<open>Sockets\<close>

definition sock_inv :: "net_state \<Rightarrow> bool" where
  "sock_inv n = (set (open_socks n) \<subseteq> {tcp_s n} \<and> distinct (open_socks n) \<and> (tcp_s n = 0 \<longrightarrow> open_socks n = []))"

lemma net_call_simps [simp]:
  "ppp_state (net_call c n) = ppp_state n" "tcp_connect_flag (net_call c n) = tcp_connect_flag n"
  "tcp_s (net_call c n) = tcp_s n" "open_socks (net_call c n) = open_socks n" "net_calls (net_call c n) = net_calls n @ [c]"
  "sock_inv (net_call c n) = sock_inv n"
  by (simp_all add: net_call_def sock_inv_def)

lemma sock_inv_close: "sock_inv n \<Longrightarrow> sock_inv (sock_close n)"
  by (auto simp: sock_inv_def sock_close_def removeAll_filter_not_eq filter_empty_conv)

lemma sock_inv_flag [simp]: "sock_inv (n\<lparr>tcp_connect_flag := v\<rparr>) = sock_inv n"
  by (simp add: sock_inv_def)

lemma tcp_connect_loop_inv: "tcp_connect_loop ip port rs n = Some t \<Longrightarrow> sock_inv n \<Longrightarrow> sock_inv t"
  by (induction ip port rs n rule: tcp_connect_loop.induct) (auto simp: Let_def sock_inv_close split: if_splits)

lemma tcp_dial_inv: "tcp_dial env family ip port n = Some t \<Longrightarrow> te_socket env \<noteq> 0 \<Longrightarrow> sock_inv n \<Longrightarrow> sock_inv t"
proof -
  assume a: "tcp_dial env family ip port n = Some t" "te_socket env \<noteq> 0" "sock_inv n"
  let ?n1 = "if tcp_s n = 0 then net_call (Sock_Open family) (n\<lparr>tcp_s := te_socket env,
      open_socks := (if te_socket env < 0 then open_socks n else te_socket env # open_socks n)\<rparr>) else n"
  have i: "sock_inv ?n1" using a(2,3) by (auto simp: sock_inv_def)
  show ?thesis
  proof (cases "te_nonblock env = 0")
    case False
    with a(1) i show ?thesis by (auto simp: tcp_dial_def Let_def)
  next
    case True
    then obtain n3 where n3: "tcp_connect_loop ip port (te_rounds env) (net_call (Sock_Reuse_NoDelay (tcp_s ?n1)) ?n1) = Some n3"
      and t: "t = (if tcp_connect_flag n3 \<noteq> 0 then if te_thread env then net_call Create_Recv_Thread n3
          else (sock_close n3)\<lparr>tcp_connect_flag := 0\<rparr> else n3)"
      using a(1) by (auto simp: tcp_dial_def Let_def Option.bind_eq_Some_conv)
    have "sock_inv n3" using tcp_connect_loop_inv [OF n3] i by simp
    then show ?thesis by (simp add: t sock_inv_close)
  qed
qed

lemma tcp_setup_inv: "tcp_setup env p1 p2 n = Some t \<Longrightarrow> te_socket env \<noteq> 0 \<Longrightarrow> sock_inv n \<Longrightarrow> sock_inv t"
  by (auto simp: tcp_setup_def Option.bind_eq_Some_conv split: if_splits option.splits dest: tcp_dial_inv)

datatype tcp_event = Tcp_Step tcp_env int buf buf buf nat | Tcp_Recv int bool bool int

text \<open>The receiving thread works on the descriptor it was started with.\<close>

fun tcp_machine :: "net_state \<Rightarrow> tcp_event \<Rightarrow> net_state option" where
  "tcp_machine n (Tcp_Step env step p1 p2 sio len) = nwy_tcp_test_Mine env step p1 p2 sio len n"
| "tcp_machine n (Tcp_Recv result rd_set ex_set recv_len) = Some (nwy_tcp_recv_pass (tcp_s n) result rd_set ex_set recv_len n)"

fun tcp_accepts :: "tcp_event \<Rightarrow> bool" where
  "tcp_accepts (Tcp_Step env step p1 p2 sio len) = (te_socket env \<noteq> 0)"
| "tcp_accepts (Tcp_Recv result rd_set ex_set recv_len) = True"

lemma recv_close_inv: "sock_inv n \<Longrightarrow> sock_inv (recv_close (tcp_s n) c n)"
  by (auto simp: sock_inv_def recv_close_def removeAll_filter_not_eq filter_empty_conv)

lemma tcp_machine_inv:
  assumes "sock_inv n" and "tcp_accepts e" and "tcp_machine n e = Some t"
  shows "sock_inv t"
proof (cases e)
  case (Tcp_Step env step p1 p2 sio len)
  have "sock_inv t" if "tcp_send sio len n = Some t"
    using that assms(1) by (auto simp: tcp_send_def Option.bind_eq_Some_conv split: if_splits)
  moreover have "sock_inv (tcp_close n)" using assms(1) by (simp add: tcp_close_def sock_inv_close)
  ultimately show ?thesis
    using assms Tcp_Step tcp_setup_inv by (auto simp: nwy_tcp_test_Mine_def split: if_splits)
next
  case (Tcp_Recv result rd_set ex_set recv_len)
  with assms show ?thesis by (auto simp: nwy_tcp_recv_pass_def recv_close_inv)
qed

interpretation tcp: invariant_machine tcp_machine sock_inv tcp_accepts
  by unfold_locales (rule tcp_machine_inv)

lemma sock_inv_init: "sock_inv init_net"
  by (simp add: sock_inv_def init_net_def)

text \<open>How the connecting loop can end.\<close>

definition tcp_settled :: "net_state \<Rightarrow> net_state \<Rightarrow> bool" where
  "tcp_settled n t = (tcp_connect_flag t = 1 \<and> tcp_s t = tcp_s n \<or> tcp_connect_flag t = 0 \<and> tcp_s t = 0 \<and> open_socks t = [])"

lemma sock_close_settled: "sock_inv n \<Longrightarrow> tcp_s (sock_close n) = 0 \<and> open_socks (sock_close n) = []"
  by (auto simp: sock_close_def sock_inv_def removeAll_filter_not_eq filter_empty_conv)

lemma sock_close_flag [simp]: "tcp_connect_flag (sock_close n) = tcp_connect_flag n"
  by (simp add: sock_close_def)

lemma tcp_settled_net_call [simp]: "tcp_settled (net_call c n) t = tcp_settled n t"
  by (simp add: tcp_settled_def)

lemma tcp_connect_loop_ends:
  assumes "k < length rs" and "10000 \<le> snd (snd (rs ! k))" and "tcp_connect_flag n = 0" and "sock_inv n"
  shows "\<exists>t. tcp_connect_loop ip port rs n = Some t \<and> tcp_settled n t"
  using assms
proof (induction rs arbitrary: n k)
  case Nil
  then show ?case by simp
next
  case (Cons r rs)
  obtain ret errno ms where r: "r = (ret, errno, ms)" by (cases r)
  let ?n = "net_call (Sock_Connect (tcp_s n) ip port) n"
  let ?c = "net_call (Sock_Shutdown (tcp_s ?n)) ?n"
  have inv: "sock_inv ?n" "sock_inv ?c" using Cons.prems(4) by simp_all
  have out: "tcp_settled n (sock_close ?c)" "tcp_settled n ((sock_close ?n)\<lparr>tcp_connect_flag := 0\<rparr>)"
    "tcp_settled n (?n\<lparr>tcp_connect_flag := 1\<rparr>)"
    using Cons.prems(3) sock_close_settled [OF inv(1)] sock_close_settled [OF inv(2)] by (simp_all add: tcp_settled_def)
  show ?case
  proof (cases k)
    case 0
    with Cons.prems(2) out r show ?thesis by (simp add: Let_def)
  next
    case (Suc j)
    then have "\<exists>t. tcp_connect_loop ip port rs ?n = Some t \<and> tcp_settled ?n t"
      using Cons.prems by (intro Cons.IH [of j]) simp_all
    with out r show ?thesis by (auto simp: Let_def simp del: net_call_simps)
  qed
qed

text \<open>A failed \<open>select\<close> leaves a stale socket: the receiving thread closes the descriptor but does not clear the
  remembered one, so the next setup connects on the closed descriptor without opening a socket, and fails.\<close>

lemma recv_error_leaves_stale_socket:
  assumes "result < 0" and "tcp_s n \<noteq> 0" and "te_nonblock env = 0" and "te_rounds env = (-1, e, ms) # rs" and "ms < 10000"
    and "e \<notin> {EISCONN, EINPROGRESS, EALREADY}"
    and "m = nwy_tcp_recv_pass (tcp_s n) result b1 b2 l n"
  shows "tcp_s m = tcp_s n \<and> tcp_s m \<notin> set (open_socks m) \<and>
    (\<exists>t. tcp_dial env family ip port m = Some t \<and> tcp_connect_flag t = 0 \<and> tcp_s t = 0 \<and>
      net_calls t = net_calls m @ [Sock_Reuse_NoDelay (tcp_s n), Sock_Connect (tcp_s n) ip port, Sock_Close (tcp_s n)])"
  using assms by (simp add: nwy_tcp_recv_pass_def recv_close_def tcp_dial_def Let_def sock_close_def)

section \<open>Properties\<close>

text \<open>C31: Connecting ends. When every round of the loop starts at least 100 ms after the previous one (the loop sleeps that
  long), the connecting loop of the TCP probe ends within 101 rounds, whatever the stack answers: either it is connected,
  or the socket has been closed and forgotten.\<close>

theorem tcp_connect_ends:
  assumes "101 \<le> length rs" and "\<forall>i < length rs. 100 * i \<le> snd (snd (rs ! i))" and "tcp_connect_flag n = 0" and "sock_inv n"
  shows "\<exists>t. tcp_connect_loop ip port rs n = Some t \<and>
    (tcp_connect_flag t = 1 \<and> tcp_s t = tcp_s n \<or> tcp_connect_flag t = 0 \<and> tcp_s t = 0 \<and> open_socks t = [])"
proof -
  have "100 < length rs" "10000 \<le> snd (snd (rs ! 100))" using assms(1,2) by (auto dest: spec [of _ 100])
  from tcp_connect_loop_ends [OF this assms(3,4)] show ?thesis by (simp add: tcp_settled_def)
qed

theorem tcp_connect_ends_witness:
  "\<exists>t. tcp_connect_loop [49] 1883 (map (\<lambda>i. (-1, EINPROGRESS, 100 * i)) [0..<101]) (init_net\<lparr>tcp_s := 5, open_socks := [5]\<rparr>) = Some t \<and>
    (tcp_connect_flag t = 1 \<and> tcp_s t = 5 \<or> tcp_connect_flag t = 0 \<and> tcp_s t = 0 \<and> open_socks t = [])"
  using tcp_connect_ends [of "map (\<lambda>i. (-1, EINPROGRESS, 100 * i)) [0..<101]" "init_net\<lparr>tcp_s := 5, open_socks := [5]\<rparr>" "[49]" 1883]
  by (simp add: sock_inv_def init_net_def nth_append del: upt.upt_Suc)

text \<open>No socket leaks. Along every sequence of probe steps (setup, send, close, with any arguments and any answers of the
  network, descriptor 0 apart) and passes of the receiving thread, at most one descriptor is open and it is the one the probe
  remembers.\<close>

theorem tcp_no_socket_leak:
  assumes "list_all tcp_accepts es" and "run_machine tcp_machine init_net es = Some t"
  shows "set (open_socks t) \<subseteq> {tcp_s t} \<and> length (open_socks t) \<le> 1"
proof -
  have "sock_inv t" by (rule tcp.run_inv [OF sock_inv_init assms])
  then show ?thesis by (auto simp: sock_inv_def subset_singleton_iff dest: distinct_card)
qed

theorem tcp_no_socket_leak_witness:
  "\<exists>t. run_machine tcp_machine init_net
      [Tcp_Step \<lparr>te_lookup = \<lambda>_. None, te_ip6addr_aton = \<lambda>_. False, te_ip4addr_aton = \<lambda>_. True, te_socket = 5, te_nonblock = 0,
         te_rounds = [], te_thread = True\<rparr> 3 [] [] [] 0, Tcp_Recv (-1) False False 0] = Some t \<and>
    set (open_socks t) \<subseteq> {tcp_s t} \<and> length (open_socks t) \<le> 1"
proof -
  let ?es = "[Tcp_Step \<lparr>te_lookup = \<lambda>_. None, te_ip6addr_aton = \<lambda>_. False, te_ip4addr_aton = \<lambda>_. True, te_socket = 5, te_nonblock = 0,
         te_rounds = [], te_thread = True\<rparr> 3 [] [] [] 0, Tcp_Recv (-1) False False 0]"
  obtain t where t: "run_machine tcp_machine init_net ?es = Some t" by (simp add: nwy_tcp_test_Mine_def)
  then show ?thesis using tcp_no_socket_leak [of ?es t] by auto
qed

text \<open>The address check of the TCP probe. A dotted address of at most 15 characters is accepted exactly when its first three
  numbers are at most 255 (the fourth is not looked at), and the text that is then dialled is the same address.\<close>

theorem nwy_hostname_check_dotted:
  assumes "a \<le> 2147483647" and "b \<le> 2147483647" and "c \<le> 2147483647" and "d \<le> 2147483647"
    and "length (dotted a b c d) \<le> 15"
  shows "\<exists>h. nwy_hostname_check (dotted a b c d @ 0 # r) =
      Some (if a \<le> 255 \<and> b \<le> 255 \<and> c \<le> 255 then NWY_SUCESS else NWY_GEN_E_UNKNOWN, h) \<and>
    c_str h = dotted a b c d \<and> length h = length (dotted a b c d @ 0 # r)"
  using nwy_hostname_check_eq [of a b c d _ r] assms by (auto simp: int_max_def)

theorem nwy_hostname_check_dotted_witness:
  "\<exists>h. nwy_hostname_check (dotted 10 0 0 999 @ 0 # replicate 243 0) = Some (NWY_SUCESS, h) \<and> c_str h = dotted 10 0 0 999"
proof -
  have "length (dotted 10 0 0 999) = 10" by (simp add: dotted_def dec_digits.simps)
  then show ?thesis using nwy_hostname_check_dotted [of 10 0 0 999 "replicate 243 0"] by auto
qed

end
