(* ===== verification/Mqtt.thy ===== *)
theory Mqtt
  imports NetCmd DataCall
begin

text \<open>
  The MQTT side of the gateway, src/mqtt.c and the position functions of src/parse.c: the connection parameters and the
  steps of \<open>nwy_paho_mqtt_test_mine\<close>, the sending thread, the arrival of a message and the connecting thread. The Paho
  client and the network below it are not part of the sources: what they answer (connected or not, return codes, whether
  memory and threads are available) are arguments, and the calls made to them are recorded in order. Heap blocks are
  numbered; freeing a block that is not live is a fault. A null \<open>char *\<close> argument is the empty array.
\<close>

section \<open>State\<close>

record nwy_paho_mqtt_at_param_type =
  at_clientID :: buf
  at_username :: buf
  at_password :: buf
  at_sslmode :: int
  at_authmode :: int
  at_willretained :: u8
  at_willqos :: u8
  at_willtopic :: buf
  at_willmessage :: buf
  at_willmessage_len :: nat
  at_port :: u16
  at_host_name :: buf
  at_keepalive :: u8
  at_cleanflag :: u8
  at_topic :: buf
  at_qos :: u8
  at_retained :: u8
  at_message :: buf

text \<open>\<open>memset (&paho_mqtt_at_param, 0, ..)\<close>, with the array sizes of nwy_mqtt.h.\<close>

definition zero_at_param :: nwy_paho_mqtt_at_param_type where
  "zero_at_param =
    \<lparr>at_clientID = replicate 257 0, at_username = replicate 513 0, at_password = replicate 257 0, at_sslmode = 0, at_authmode = 0,
     at_willretained = 0, at_willqos = 0, at_willtopic = replicate 129 0, at_willmessage = replicate 1025 0, at_willmessage_len = 0,
     at_port = 0, at_host_name = replicate 256 0, at_keepalive = 0, at_cleanflag = 0, at_topic = replicate 129 0, at_qos = 0,
     at_retained = 0, at_message = replicate 513 0\<rparr>"

text \<open>The fields of \<open>MQTTPacket_connectData\<close> that are set, with the texts its pointers lead to: will topic, will message,
  retained flag and quality of service.\<close>

record connect_data =
  cd_clientID :: buf
  cd_username :: "buf option"
  cd_password :: "buf option"
  cd_keepAlive :: u8
  cd_cleansession :: u8
  cd_will :: "(buf \<times> buf \<times> u8 \<times> u8) option"

datatype mqtt_call =
    Network_Connect bool buf u16
  | Client_Init
  | Mqtt_Connect connect_data
  | Mqtt_Publish buf u8 u8 buf
  | Mqtt_Subscribe buf u8
  | Mqtt_Unsubscribe buf
  | Mqtt_Disconnect
  | Network_Disconnect
  | Create_Paho_Task
  | Create_Snd_Task
  | Resume_Paho_Task
  | Sem_Acquire
  | Sem_Release

record mqtt_client =
  at_param :: nwy_paho_mqtt_at_param_type
  paho_writebuf :: "nat option"
  paho_readbuf :: "nat option"
  paho_network :: "nat option"
  live :: "nat list"
  next_block :: nat
  data_user :: bool
  data_will :: "(buf \<times> buf \<times> u8 \<times> u8) option"
  paho_task :: bool
  snd_task :: bool
  sio_len :: nat
  mqtt_calls :: "mqtt_call list"

definition init_client :: mqtt_client where
  "init_client =
    \<lparr>at_param = zero_at_param, paho_writebuf = None, paho_readbuf = None, paho_network = None, live = [], next_block = 0,
     data_user = False, data_will = None, paho_task = False, snd_task = False, sio_len = 0, mqtt_calls = []\<rparr>"

definition mqtt_call :: "mqtt_call \<Rightarrow> mqtt_client \<Rightarrow> mqtt_client" where
  "mqtt_call c m = m\<lparr>mqtt_calls := mqtt_calls m @ [c]\<rparr>"

definition mem_alloc :: "bool \<Rightarrow> mqtt_client \<Rightarrow> nat option \<times> mqtt_client" where
  "mem_alloc ok m =
     (if ok then (Some (next_block m), m\<lparr>live := next_block m # live m, next_block := Suc (next_block m)\<rparr>) else (None, m))"

definition mem_free :: "nat option \<Rightarrow> mqtt_client \<Rightarrow> mqtt_client option" where
  "mem_free p m =
     (case p of None \<Rightarrow> Some m
      | Some b \<Rightarrow> if b \<in> set (live m) then Some (m\<lparr>live := removeAll b (live m)\<rparr>) else None)"

section \<open>Connecting: step 1 of nwy_paho_mqtt_test_mine\<close>

text \<open>\<open>strncpy (dst, s, strlen (s))\<close>.\<close>

definition copy_text :: "buf \<Rightarrow> buf \<Rightarrow> buf option" where
  "copy_text dst src = do { t \<leftarrow> arr_text src; buf_write dst 0 t }"

definition arg_atoi :: "buf \<Rightarrow> int option" where
  "arg_atoi s = do { t \<leftarrow> arr_text s; Some (c_atoi t) }"

text \<open>What the libraries answer during the step.\<close>

record paho_env =
  is_connected :: bool
  mem_writebuf :: bool
  mem_readbuf :: bool
  mem_network :: bool
  net_rc :: int
  conn_rc :: int
  task_created :: bool

definition paho_params :: "buf \<Rightarrow> buf \<Rightarrow> buf \<Rightarrow> buf \<Rightarrow> buf \<Rightarrow> nwy_paho_mqtt_at_param_type option" where
  "paho_params para1 para2 para3 para4 para5 =
     do { h \<leftarrow> copy_text (at_host_name zero_at_param) para1;
          p \<leftarrow> arg_atoi para2;
          c \<leftarrow> copy_text (at_clientID zero_at_param) para3;
          u \<leftarrow> copy_text (at_username zero_at_param) para4;
          w \<leftarrow> copy_text (at_password zero_at_param) para5;
          Some (zero_at_param\<lparr>at_host_name := h, at_port := word_of_int p, at_clientID := c, at_username := u, at_password := w\<rparr>) }"

text \<open>Each buffer is released and allocated anew; the result tells whether all three could be allocated.\<close>

definition paho_memory :: "paho_env \<Rightarrow> mqtt_client \<Rightarrow> (bool \<times> mqtt_client) option" where
  "paho_memory env m =
     do { m1 \<leftarrow> mem_free (paho_writebuf m) m;
          let (w, m2) = mem_alloc (mem_writebuf env) m1;
          let m3 = m2\<lparr>paho_writebuf := w\<rparr>;
          if w = None then Some (False, m3)
          else do {
          m4 \<leftarrow> mem_free (paho_readbuf m3) m3;
          let (r, m5) = mem_alloc (mem_readbuf env) m4;
          let m6 = m5\<lparr>paho_readbuf := r\<rparr>;
          if r = None then Some (False, m6)
          else do {
          m7 \<leftarrow> mem_free (paho_network m6) m6;
          let (n, m8) = mem_alloc (mem_network env) m7;
          Some (n \<noteq> None, m8\<lparr>paho_network := n\<rparr>) } } }"

text \<open>\<open>authmode\<close> is set to 0 before it is tested, so only that branch of the certificate settings can run: all three locations
  are null and the server is not verified.\<close>

definition paho_network_connect :: "mqtt_client \<Rightarrow> mqtt_client option" where
  "paho_network_connect m =
     do { let a = (at_param m)\<lparr>at_authmode := 0, at_cleanflag := 0, at_keepalive := 4\<rparr>;
          h \<leftarrow> arr_text (at_host_name a);
          Some (mqtt_call (Network_Connect (at_sslmode a = 1) h (at_port a)) (m\<lparr>at_param := a\<rparr>)) }"

definition paho_will :: "gateway \<Rightarrow> nwy_paho_mqtt_at_param_type \<Rightarrow> nwy_paho_mqtt_at_param_type option" where
  "paho_will s a =
     do { topic_will \<leftarrow> Getnrate_Will_Topic;
          wt \<leftarrow> buf_write (at_willtopic a) 0 topic_will;
          Will_Msg \<leftarrow> Getnrate_Will_Msg s;
          wm \<leftarrow> buf_write (at_willmessage a) 0 Will_Msg;
          l \<leftarrow> c_strlen wm;
          Some (a\<lparr>at_willtopic := wt, at_willmessage := wm, at_willmessage_len := l\<rparr>) }"

definition paho_request :: "gateway \<Rightarrow> mqtt_client \<Rightarrow> (connect_data \<times> mqtt_client) option" where
  "paho_request s m =
     do { u \<leftarrow> arr_text (at_username (at_param m));
          w \<leftarrow> arr_text (at_password (at_param m));
          let has_user = (data_user m \<or> (u \<noteq> [] \<and> w \<noteq> []));
          a \<leftarrow> paho_will s (at_param m);
          wt \<leftarrow> arr_text (at_willtopic a);
          wm \<leftarrow> arr_text (at_willmessage a);
          let will = (if wt \<noteq> [] then Some (wt, wm, at_willretained a, at_willqos a) else data_will m);
          c \<leftarrow> arr_text (at_clientID a);
          Some (\<lparr>cd_clientID = c, cd_username = (if has_user then Some u else None), cd_password = (if has_user then Some w else None),
                 cd_keepAlive = at_keepalive a, cd_cleansession = at_cleanflag a, cd_will = will\<rparr>,
                m\<lparr>at_param := a, data_user := has_user, data_will := will\<rparr>) }"

definition nwy_paho_yeild_task_init :: "bool \<Rightarrow> mqtt_client \<Rightarrow> mqtt_client" where
  "nwy_paho_yeild_task_init created m =
     (if \<not> paho_task m
      then mqtt_call Create_Snd_Task (mqtt_call Create_Paho_Task (m\<lparr>paho_task := created, snd_task := True\<rparr>))
      else mqtt_call Resume_Paho_Task m)"

definition paho_connect ::
  "paho_env \<Rightarrow> buf \<Rightarrow> buf \<Rightarrow> buf \<Rightarrow> buf \<Rightarrow> buf \<Rightarrow> buf \<Rightarrow> gateway \<Rightarrow> mqtt_client \<Rightarrow> mqtt_client option" where
  "paho_connect env para1 para2 para3 para4 para5 para6 s m =
     (if is_connected env then Some m
      else do { a \<leftarrow> paho_params para1 para2 para3 para4 para5;
                ssl \<leftarrow> arg_atoi para6;
                if ssl > 1 \<or> ssl < 0 then Some (m\<lparr>at_param := a\<rparr>)
                else do {
                (ok, m1) \<leftarrow> paho_memory env (m\<lparr>at_param := a\<lparr>at_sslmode := ssl\<rparr>\<rparr>);
                if \<not> ok then Some m1
                else do {
                m2 \<leftarrow> paho_network_connect m1;
                if net_rc env < 0 then Some m2
                else do {
                (d, m3) \<leftarrow> paho_request s (mqtt_call Client_Init m2);
                let m4 = mqtt_call (Mqtt_Connect d) m3;
                Some (if conn_rc env \<noteq> 0 then m4 else nwy_paho_yeild_task_init (task_created env) m4) } } } })"

section \<open>The other steps\<close>

text \<open>The size test looks at \<open>nwy_ext_sio_len\<close>, the length of the last console line, not at \<open>leng_mqtt\<close>.\<close>

definition paho_publish :: "bool \<Rightarrow> buf \<Rightarrow> buf \<Rightarrow> buf \<Rightarrow> buf \<Rightarrow> int \<Rightarrow> mqtt_client \<Rightarrow> mqtt_client option" where
  "paho_publish conn para1 para2 para3 para4 leng_mqtt m =
     (if \<not> conn then Some m
      else do { tp \<leftarrow> copy_text (replicate 129 0) para1;
                q \<leftarrow> arg_atoi para2;
                r \<leftarrow> arg_atoi para3;
                let a = (at_param m)\<lparr>at_topic := tp, at_qos := word_of_int q, at_retained := word_of_int r, at_message := replicate 513 0\<rparr>;
                if sio_len m > 512 then Some (m\<lparr>at_param := a\<rparr>)
                else do {
                x \<leftarrow> (if leng_mqtt < 0 then None else buf_read para4 0 (nat leng_mqtt));
                ms \<leftarrow> buf_write (at_message a) 0 x;
                t \<leftarrow> arr_text tp;
                Some (mqtt_call (Mqtt_Publish t (at_qos a) (at_retained a) (take (nat leng_mqtt) ms))
                        (m\<lparr>at_param := a\<lparr>at_message := ms\<rparr>\<rparr>)) } })"

definition paho_subscribe :: "bool \<Rightarrow> buf \<Rightarrow> buf \<Rightarrow> mqtt_client \<Rightarrow> mqtt_client option" where
  "paho_subscribe conn para1 para2 m =
     (if \<not> conn then Some m
      else do { tp \<leftarrow> copy_text (replicate 129 0) para1;
                q \<leftarrow> arg_atoi para2;
                t \<leftarrow> arr_text tp;
                Some (mqtt_call (Mqtt_Subscribe t (word_of_int q))
                        (m\<lparr>at_param := (at_param m)\<lparr>at_topic := tp, at_qos := word_of_int q\<rparr>\<rparr>)) })"

definition paho_unsubscribe :: "bool \<Rightarrow> buf \<Rightarrow> mqtt_client \<Rightarrow> mqtt_client option" where
  "paho_unsubscribe conn sio m =
     (if \<not> conn then Some m
      else do { tp \<leftarrow> copy_text (replicate 129 0) sio;
                t \<leftarrow> arr_text tp;
                Some (mqtt_call (Mqtt_Unsubscribe t) (m\<lparr>at_param := (at_param m)\<lparr>at_topic := tp\<rparr>\<rparr>)) })"

definition paho_disconnect :: "bool \<Rightarrow> mqtt_client \<Rightarrow> mqtt_client option" where
  "paho_disconnect conn m =
     (if \<not> conn then Some m
      else do { let m0 = mqtt_call Network_Disconnect (mqtt_call Mqtt_Disconnect m);
                m1 \<leftarrow> mem_free (paho_writebuf m0) m0;
                let m2 = m1\<lparr>paho_writebuf := None\<rparr>;
                m3 \<leftarrow> mem_free (paho_readbuf m2) m2;
                let m4 = m3\<lparr>paho_readbuf := None\<rparr>;
                m5 \<leftarrow> mem_free (paho_network m4) m4;
                Some (m5\<lparr>paho_network := None\<rparr>) })"

text \<open>\<open>sio\<close> is the console line that step 4 asks for.\<close>

definition nwy_paho_mqtt_test_mine ::
  "paho_env \<Rightarrow> int \<Rightarrow> buf \<Rightarrow> buf \<Rightarrow> buf \<Rightarrow> buf \<Rightarrow> buf \<Rightarrow> buf \<Rightarrow> int \<Rightarrow> buf \<Rightarrow> gateway \<Rightarrow> mqtt_client \<Rightarrow> mqtt_client option" where
  "nwy_paho_mqtt_test_mine env step para1 para2 para3 para4 para5 para6 leng_mqtt sio s m =
     (if step = 1 then paho_connect env para1 para2 para3 para4 para5 para6 s m
      else if step = 2 then paho_publish (is_connected env) para1 para2 para3 para4 leng_mqtt m
      else if step = 3 then paho_subscribe (is_connected env) para1 para2 m
      else if step = 4 then paho_unsubscribe (is_connected env) sio m
      else if step = 5 then paho_disconnect (is_connected env) m
      else Some m)"

definition Snd_Mqtt :: "paho_env \<Rightarrow> buf \<Rightarrow> buf \<Rightarrow> buf \<Rightarrow> buf \<Rightarrow> int \<Rightarrow> gateway \<Rightarrow> mqtt_client \<Rightarrow> mqtt_client option" where
  "Snd_Mqtt env topic qos retain msg len s m =
     do { m1 \<leftarrow> nwy_paho_mqtt_test_mine env 2 topic qos retain msg [] [] len [] s (mqtt_call Sem_Acquire m);
          Some (mqtt_call Sem_Release m1) }"

definition SubMqtt :: "paho_env \<Rightarrow> buf \<Rightarrow> buf \<Rightarrow> gateway \<Rightarrow> mqtt_client \<Rightarrow> mqtt_client option" where
  "SubMqtt env topic qos s m = nwy_paho_mqtt_test_mine env 3 topic qos [] [] [] [] 0 [] s m"

section \<open>Position\<close>

text \<open>\<open>pos\<close> is the position in the result the service delivers, \<open>None\<close> the null pointer.\<close>

definition nwy_cipgsmloc_cb :: "(f32 \<times> f32) option \<Rightarrow> gateway \<Rightarrow> gateway" where
  "nwy_cipgsmloc_cb pos s = (case pos of None \<Rightarrow> s | Some (lat, lng) \<Rightarrow> s\<lparr>pos_lat := lat, pos_lng := lng\<rparr>)"

definition Open_Pos_Location :: "bool \<Rightarrow> net_state \<Rightarrow> net_state" where
  "Open_Pos_Location fg_On_Off n =
     net_call (Loc_Open fg_On_Off) (if nwy_ext_check_data_connect n = 1 then net_call Pdp_Set_Status n else n)"

section \<open>The threads\<close>

text \<open>\<open>nwy_paho_cycle\<close> before its loop, and one pass of the inner loop is \<open>MQTTYield\<close>, during which the client calls
  \<open>messageArrived\<close>.\<close>

definition nwy_paho_cycle_start :: "paho_env \<Rightarrow> buf \<Rightarrow> gateway \<Rightarrow> mqtt_client \<Rightarrow> mqtt_client option" where
  "nwy_paho_cycle_start env topic_cmd_rec s m =
     do { t \<leftarrow> Gernerate_Topic_Rec_Cmd topic_cmd_rec 64 s; SubMqtt env t (str ''2'' @ [0]) s m }"

text \<open>The copies of a long payload into \<open>echo_buff\<close>, for printing: chunk \<open>i\<close> of \<open>k\<close>, with the number of bytes that remain.\<close>

fun echo_chunks :: "nat \<Rightarrow> nat \<Rightarrow> buf \<Rightarrow> nat \<Rightarrow> nat \<Rightarrow> bool" where
  "echo_chunks 0 i payload len remain = True"
| "echo_chunks (Suc k) i payload len remain =
     (i * 1024 + (if remain > 1024 then 1024 else remain) \<le> length payload \<and>
      echo_chunks k (i + 1) payload len (len - (i + 1) * 1024))"

text \<open>A payload of more than 1024 bytes is printed and dropped, any other one is a command. \<open>b\<close> is the memory at the payload,
  \<open>len\<close> its length.\<close>

definition messageArrived ::
  "'w vfs \<Rightarrow> buf \<Rightarrow> bool \<Rightarrow> buf \<Rightarrow> u8 \<Rightarrow> buf \<Rightarrow> u32 \<Rightarrow> buf \<Rightarrow> buf \<Rightarrow> nat \<Rightarrow> gateway \<Rightarrow> 'w \<Rightarrow> (gateway \<times> 'w) option" where
  "messageArrived fs tmpN mem behind pad tmpZ ev0 topicName b len s w =
     do { topic_name \<leftarrow> c_strncpy (replicate 128 0) 0 topicName (length topicName);
          if 1024 < len
          then (if echo_chunks (len div 1024 + 1) 0 b len len then Some (s, w) else None)
          else do { echo_buff \<leftarrow> c_strncpy (replicate 1025 0) 0 (take len b) len;
                    handle_Net_Cmd fs tmpN mem behind pad tmpZ ev0 b len s w } }"

text \<open>The static variables of \<open>mqtt_Snd_Thread\<close>.\<close>

record snd_static =
  snd_num :: u8
  value_zone_0_Last :: u16

definition init_snd :: snd_static where
  "init_snd = \<lparr>snd_num = 0, value_zone_0_Last = 0xff\<rparr>"

text \<open>What a pass of the inner loop takes from outside: the state of the connection when it is published, the event (0 after the
  time-out of one second), the signal quality and the time.\<close>

record snd_input =
  in_env :: paho_env
  in_event :: u32
  in_csq :: u8
  in_now :: nwy_time_t

definition snd_report :: "paho_env \<Rightarrow> buf \<Rightarrow> gateway \<Rightarrow> mqtt_client \<Rightarrow> mqtt_client option" where
  "snd_report env snd_topic s m =
     Snd_Mqtt env snd_topic (str ''2'' @ [0]) (str ''0'' @ [0]) (mqtt_report_Msg s) (mqtt_report_Len s) s m"

definition mqtt_Snd_round ::
  "gateway \<times> net_state \<times> mqtt_client \<times> snd_static \<Rightarrow> snd_input \<Rightarrow> (gateway \<times> net_state \<times> mqtt_client \<times> snd_static) option" where
  "mqtt_Snd_round = (\<lambda>(s, n, m, st) i.
     do { snd_topic \<leftarrow> Gernerate_Topic_ctrl (replicate 64 0) 64 s;
          (s1, n1, m1, st1) \<leftarrow>
            (if in_event i = REPORT_MQTT_MSG \<or> in_event i = REPORT_MQTT_WG_MSG \<or> in_event i = REPORT_MQTT_CTRL_CMD
             then do { m1 \<leftarrow> snd_report (in_env i) snd_topic s m; Some (s, n, m1, st) }
             else if snd_num st < 5 \<or> value_zone_0_Last st \<noteq> value_zone_0 s
             then do { let st1 = (if snd_num st < 5 then st\<lparr>snd_num := snd_num st + 1\<rparr>
                                  else st\<lparr>value_zone_0_Last := value_zone_0 s\<rparr>);
                       s1 \<leftarrow> Generate_Report_WG_Info (in_csq i) (in_now i) s;
                       m1 \<leftarrow> snd_report (in_env i) snd_topic s1 m;
                       Some (s1, Open_Pos_Location True n, m1, st1) }
             else Some (s, n, m, st));
          Some (s1\<lparr>Fg_Snding_Mqtt := 0\<rparr>, n1, m1, st1) })"

text \<open>The locals of \<open>prvThreadEntry_xb_Connect\<close>.\<close>

record connect_locals =
  cl_ip_addr :: buf
  cl_port_Num :: buf
  cl_Client_ID :: buf
  cl_User_Name :: buf
  cl_password :: buf

definition arr_of :: "nat \<Rightarrow> buf \<Rightarrow> buf" where
  "arr_of n t = t @ replicate (n - length t) 0"

text \<open>The password is copied from \<open>Net_Info.user\<close>.\<close>

definition Connect_start :: "gateway \<Rightarrow> connect_locals option" where
  "Connect_start s =
     do { v \<leftarrow> Is_Valid_IP (mqttip (Net_Info s));
          let l = \<lparr>cl_ip_addr = arr_of 16 (str ''58.248.1.165''), cl_port_Num = arr_of 8 (str ''1883''),
                   cl_Client_ID = arr_of 64 (str ''test_Xb_iot''), cl_User_Name = arr_of 32 (str ''kuang''),
                   cl_password = arr_of 32 (str ''kuang'')\<rparr>;
          Some (if v \<noteq> 0
                then l\<lparr>cl_ip_addr := mqttip (Net_Info s), cl_User_Name := user (Net_Info s), cl_password := user (Net_Info s),
                       cl_port_Num := mqttport (Net_Info s)\<rparr>
                else l) }"

text \<open>One pass of the loop while not connected. \<open>sim_behind\<close>: the 48 bytes behind \<open>nImei\<close> that \<open>memcpy\<close> copies as well;
  \<open>now\<close>: the time; the serial number must have arrived, or the pass waits. The texts built in \<open>Client_ID\<close> before
  \<open>Generate_Client_id\<close> clears it only matter for staying inside the array.\<close>

definition Connect_pass ::
  "paho_env \<Rightarrow> tcp_env \<Rightarrow> buf \<Rightarrow> nwy_time_t \<Rightarrow> gateway \<Rightarrow> net_state \<Rightarrow> mqtt_client \<Rightarrow> connect_locals \<Rightarrow>
     (net_state \<times> mqtt_client \<times> connect_locals) option" where
  "Connect_pass env tenv sim_behind now s n m l =
     (if is_connected env then Some (n, m, l)
      else do { k \<leftarrow> c_strlen (nImei (xb_sim s));
                if k = 0 then Some (n, m, l\<lparr>cl_Client_ID := replicate 64 0\<rparr>)
                else do {
                c1 \<leftarrow> buf_read (nImei (xb_sim s) @ sim_behind) 0 64;
                tb \<leftarrow> local_text 32 (fmt_d (uint (hour now)) @ [95] @ fmt_d (uint (min_of now)) @ [95] @ fmt_d (uint (sec now)));
                c2 \<leftarrow> c_strcat c1 tb;
                n1 \<leftarrow> nwy_tcp_test_Mine tenv 1 (cl_ip_addr l) (cl_port_Num l) [] 0 n;
                c3 \<leftarrow> Generate_Client_id c2 64 s;
                m1 \<leftarrow> nwy_paho_mqtt_test_mine env 1 (cl_ip_addr l) (cl_port_Num l) c3 (cl_User_Name l) (cl_password l) (str ''0'' @ [0])
                        0 [] s m;
                Some (n1, m1, l\<lparr>cl_Client_ID := c3\<rparr>) } })"

section \<open>Texts as arguments\<close>

definition text_below :: "nat \<Rightarrow> buf \<Rightarrow> bool" where
  "text_below k b = (terminated b \<and> length (c_str b) < k)"

lemma arr_of_text [simp]:
  assumes "length t < k" and "0 \<notin> set t"
  shows "arr_text (arr_of k t) = Some t" and "length (arr_of k t) = k"
proof -
  have "arr_of k t = t @ 0 # replicate (k - length t - 1) 0"
    using assms(1) by (simp add: arr_of_def flip: replicate_Suc)
  then show "arr_text (arr_of k t) = Some t" using assms(2) by (simp add: arr_text_def terminated_def c_str_append_zero)
  show "length (arr_of k t) = k" using assms(1) by (simp add: arr_of_def)
qed

lemma copy_text_ok: "text_below k p \<Longrightarrow> copy_text (replicate k 0) p = Some (arr_of k (c_str p))"
  by (simp add: copy_text_def text_below_def buf_write_def arr_of_def)

lemma arg_atoi_ok: "terminated p \<Longrightarrow> arg_atoi p = Some (c_atoi (c_str p))"
  by (simp add: arg_atoi_def)

definition connect_args :: "buf \<Rightarrow> buf \<Rightarrow> buf \<Rightarrow> buf \<Rightarrow> buf \<Rightarrow> bool" where
  "connect_args p1 p2 p3 p4 p5 = (text_below 256 p1 \<and> terminated p2 \<and> text_below 257 p3 \<and> text_below 513 p4 \<and> text_below 257 p5)"

definition args_param :: "buf \<Rightarrow> buf \<Rightarrow> buf \<Rightarrow> buf \<Rightarrow> buf \<Rightarrow> nwy_paho_mqtt_at_param_type" where
  "args_param p1 p2 p3 p4 p5 =
     zero_at_param\<lparr>at_host_name := arr_of 256 (c_str p1), at_port := word_of_int (c_atoi (c_str p2)), at_clientID := arr_of 257 (c_str p3),
       at_username := arr_of 513 (c_str p4), at_password := arr_of 257 (c_str p5)\<rparr>"

lemma paho_params_ok: "connect_args p1 p2 p3 p4 p5 \<Longrightarrow> paho_params p1 p2 p3 p4 p5 = Some (args_param p1 p2 p3 p4 p5)"
  by (simp add: paho_params_def connect_args_def args_param_def zero_at_param_def copy_text_ok arg_atoi_ok)

section \<open>The heap discipline\<close>

text \<open>The live blocks are exactly those the three pointers lead to, and the pointers differ.\<close>

definition blocks :: "mqtt_client \<Rightarrow> nat list" where
  "blocks m = (case paho_writebuf m of None \<Rightarrow> [] | Some b \<Rightarrow> [b]) @ (case paho_readbuf m of None \<Rightarrow> [] | Some b \<Rightarrow> [b]) @
     (case paho_network m of None \<Rightarrow> [] | Some b \<Rightarrow> [b])"

definition heap_inv :: "mqtt_client \<Rightarrow> bool" where
  "heap_inv m = (distinct (blocks m) \<and> set (live m) = set (blocks m) \<and> distinct (live m) \<and> list_all (\<lambda>b. b < next_block m) (live m))"

lemma heap_inv_bound: "heap_inv m \<Longrightarrow> length (live m) \<le> 3"
proof -
  assume "heap_inv m"
  then have "length (live m) = length (blocks m)" unfolding heap_inv_def by (metis distinct_card)
  also have "\<dots> \<le> 3" by (simp add: blocks_def split: option.splits)
  finally show ?thesis .
qed

lemma mqtt_call_simps [simp]:
  "at_param (mqtt_call c m) = at_param m" "paho_writebuf (mqtt_call c m) = paho_writebuf m" "paho_readbuf (mqtt_call c m) = paho_readbuf m"
  "paho_network (mqtt_call c m) = paho_network m" "live (mqtt_call c m) = live m" "next_block (mqtt_call c m) = next_block m"
  "data_user (mqtt_call c m) = data_user m" "data_will (mqtt_call c m) = data_will m" "paho_task (mqtt_call c m) = paho_task m"
  "snd_task (mqtt_call c m) = snd_task m" "sio_len (mqtt_call c m) = sio_len m" "mqtt_calls (mqtt_call c m) = mqtt_calls m @ [c]"
  by (simp_all add: mqtt_call_def)

lemma heap_inv_simps [simp]:
  "heap_inv (mqtt_call c m) = heap_inv m" "heap_inv (m\<lparr>at_param := a\<rparr>) = heap_inv m" "heap_inv (m\<lparr>data_user := u\<rparr>) = heap_inv m"
  "heap_inv (m\<lparr>data_will := w\<rparr>) = heap_inv m" "heap_inv (m\<lparr>paho_task := t\<rparr>) = heap_inv m" "heap_inv (m\<lparr>snd_task := t\<rparr>) = heap_inv m"
  by (simp_all add: heap_inv_def blocks_def)

text \<open>Releasing and renewing one of the three buffers keeps the discipline; the three cases are one lemma over the pointer's position.\<close>

lemma renew:
  assumes "heap_inv m"
  shows "\<exists>m'. mem_free (paho_writebuf m) m = Some m' \<and> heap_inv (m'\<lparr>paho_writebuf := None\<rparr>) \<and>
      paho_readbuf m' = paho_readbuf m \<and> paho_network m' = paho_network m"
    and "\<exists>m'. mem_free (paho_readbuf m) m = Some m' \<and> heap_inv (m'\<lparr>paho_readbuf := None\<rparr>) \<and>
      paho_writebuf m' = paho_writebuf m \<and> paho_network m' = paho_network m"
    and "\<exists>m'. mem_free (paho_network m) m = Some m' \<and> heap_inv (m'\<lparr>paho_network := None\<rparr>) \<and>
      paho_writebuf m' = paho_writebuf m \<and> paho_readbuf m' = paho_readbuf m"
  using assms
  by (auto simp: mem_free_def heap_inv_def blocks_def distinct_removeAll list_all_iff split: option.splits)

lemma blocks_upd [simp]:
  "set (blocks (m\<lparr>paho_writebuf := Some b\<rparr>)) = insert b (set (blocks (m\<lparr>paho_writebuf := None\<rparr>)))"
  "set (blocks (m\<lparr>paho_readbuf := Some b\<rparr>)) = insert b (set (blocks (m\<lparr>paho_readbuf := None\<rparr>)))"
  "set (blocks (m\<lparr>paho_network := Some b\<rparr>)) = insert b (set (blocks (m\<lparr>paho_network := None\<rparr>)))"
  "distinct (blocks (m\<lparr>paho_writebuf := Some b\<rparr>)) = (b \<notin> set (blocks (m\<lparr>paho_writebuf := None\<rparr>)) \<and> distinct (blocks (m\<lparr>paho_writebuf := None\<rparr>)))"
  "distinct (blocks (m\<lparr>paho_readbuf := Some b\<rparr>)) = (b \<notin> set (blocks (m\<lparr>paho_readbuf := None\<rparr>)) \<and> distinct (blocks (m\<lparr>paho_readbuf := None\<rparr>)))"
  "distinct (blocks (m\<lparr>paho_network := Some b\<rparr>)) = (b \<notin> set (blocks (m\<lparr>paho_network := None\<rparr>)) \<and> distinct (blocks (m\<lparr>paho_network := None\<rparr>)))"
  by (auto simp: blocks_def split: option.splits)

lemma blocks_heap [simp]:
  "blocks (m\<lparr>live := l, next_block := k, paho_writebuf := None\<rparr>) = blocks (m\<lparr>paho_writebuf := None\<rparr>)"
  "blocks (m\<lparr>live := l, next_block := k, paho_readbuf := None\<rparr>) = blocks (m\<lparr>paho_readbuf := None\<rparr>)"
  "blocks (m\<lparr>live := l, next_block := k, paho_network := None\<rparr>) = blocks (m\<lparr>paho_network := None\<rparr>)"
  by (simp_all add: blocks_def)

lemma fresh_live: "list_all (\<lambda>b. b < k) l \<Longrightarrow> k \<notin> set l \<and> list_all (\<lambda>b. b < Suc k) l" for k :: nat
  by (auto simp: list_all_iff)

lemma heap_inv_alloc:
  assumes "distinct B" and "set (live m) = set B" and "distinct (live m)" and "list_all (\<lambda>b. b < next_block m) (live m)"
  shows "next_block m \<notin> set B" and "next_block m \<notin> set (live m)" and "list_all (\<lambda>b. b < Suc (next_block m)) (live m)"
  using assms(2) fresh_live [OF assms(4)] by simp_all

lemma fresh:
  "heap_inv (m\<lparr>paho_writebuf := None\<rparr>) \<Longrightarrow> mem_alloc ok m = (w, m') \<Longrightarrow> heap_inv (m'\<lparr>paho_writebuf := w\<rparr>)"
  "heap_inv (m\<lparr>paho_readbuf := None\<rparr>) \<Longrightarrow> mem_alloc ok m = (w, m') \<Longrightarrow> heap_inv (m'\<lparr>paho_readbuf := w\<rparr>)"
  "heap_inv (m\<lparr>paho_network := None\<rparr>) \<Longrightarrow> mem_alloc ok m = (w, m') \<Longrightarrow> heap_inv (m'\<lparr>paho_network := w\<rparr>)"
  using heap_inv_alloc [of _ m]
  by (cases ok; clarsimp simp: mem_alloc_def heap_inv_def)+

text \<open>What the two heap operations leave alone.\<close>

definition same_but_heap :: "mqtt_client \<Rightarrow> mqtt_client \<Rightarrow> bool" where
  "same_but_heap m m' = (at_param m' = at_param m \<and> data_user m' = data_user m \<and> data_will m' = data_will m \<and>
     paho_task m' = paho_task m \<and> snd_task m' = snd_task m \<and> sio_len m' = sio_len m \<and> mqtt_calls m' = mqtt_calls m)"

lemma same_but_heap_simps [simp]:
  "same_but_heap m (m'\<lparr>paho_writebuf := w\<rparr>) = same_but_heap m m'" "same_but_heap m (m'\<lparr>paho_readbuf := w\<rparr>) = same_but_heap m m'"
  "same_but_heap m (m'\<lparr>paho_network := w\<rparr>) = same_but_heap m m'" "same_but_heap m (m'\<lparr>live := l\<rparr>) = same_but_heap m m'"
  "same_but_heap m (m'\<lparr>next_block := k\<rparr>) = same_but_heap m m'"
  by (simp_all add: same_but_heap_def)

lemma same_but_heap_free: "mem_free p m' = Some m'' \<Longrightarrow> same_but_heap m m'' = same_but_heap m m'"
  by (cases p) (auto simp: mem_free_def split: if_splits)

lemma same_but_heap_alloc: "mem_alloc ok m' = (p, m'') \<Longrightarrow> same_but_heap m m'' = same_but_heap m m'"
  by (auto simp: mem_alloc_def split: if_splits)

lemma paho_memory_ok:
  assumes "heap_inv m"
  shows "\<exists>ok m'. paho_memory env m = Some (ok, m') \<and> heap_inv m' \<and> same_but_heap m m' \<and>
    (ok \<longleftrightarrow> mem_writebuf env \<and> mem_readbuf env \<and> mem_network env)"
proof -
  obtain m1 where m1: "mem_free (paho_writebuf m) m = Some m1" "heap_inv (m1\<lparr>paho_writebuf := None\<rparr>)"
    using renew(1) [OF assms] by blast
  obtain w m2 where a: "mem_alloc (mem_writebuf env) m1 = (w, m2)" by force
  let ?m3 = "m2\<lparr>paho_writebuf := w\<rparr>"
  have s3: "same_but_heap m ?m3" using same_but_heap_free [OF m1(1), of m] same_but_heap_alloc [OF a, of m] by (simp add: same_but_heap_def)
  have w: "w \<noteq> None \<longleftrightarrow> mem_writebuf env" using a by (auto simp: mem_alloc_def split: if_splits)
  have i3: "heap_inv ?m3" by (rule fresh(1) [OF m1(2) a])
  obtain m4 where m4: "mem_free (paho_readbuf ?m3) ?m3 = Some m4" "heap_inv (m4\<lparr>paho_readbuf := None\<rparr>)"
    using renew(2) [OF i3] by blast
  obtain r m5 where b: "mem_alloc (mem_readbuf env) m4 = (r, m5)" by force
  let ?m6 = "m5\<lparr>paho_readbuf := r\<rparr>"
  have s6: "same_but_heap m ?m6" using s3 same_but_heap_free [OF m4(1), of m] same_but_heap_alloc [OF b, of m] by simp
  have r: "r \<noteq> None \<longleftrightarrow> mem_readbuf env" using b by (auto simp: mem_alloc_def split: if_splits)
  have i6: "heap_inv ?m6" by (rule fresh(2) [OF m4(2) b])
  obtain m7 where m7: "mem_free (paho_network ?m6) ?m6 = Some m7" "heap_inv (m7\<lparr>paho_network := None\<rparr>)"
    using renew(3) [OF i6] by blast
  obtain n m8 where c: "mem_alloc (mem_network env) m7 = (n, m8)" by force
  have s8: "same_but_heap m (m8\<lparr>paho_network := n\<rparr>)"
    using s6 same_but_heap_free [OF m7(1), of m] same_but_heap_alloc [OF c, of m] by simp
  have n: "n \<noteq> None \<longleftrightarrow> mem_network env" using c by (auto simp: mem_alloc_def split: if_splits)
  have i8: "heap_inv (m8\<lparr>paho_network := n\<rparr>)" by (rule fresh(3) [OF m7(2) c])
  have "paho_memory env m = Some (if w = None then (False, ?m3) else if r = None then (False, ?m6) else (n \<noteq> None, m8\<lparr>paho_network := n\<rparr>))"
    using m4(1) m7(1) by (simp add: paho_memory_def m1(1) a b c Let_def)
  then have eq: "paho_memory env m = (if w = None then Some (False, ?m3) else if r = None then Some (False, ?m6)
      else Some (n \<noteq> None, m8\<lparr>paho_network := n\<rparr>))" by simp
  consider "w = None" | "w \<noteq> None" "r = None" | "w \<noteq> None" "r \<noteq> None" by blast
  then show ?thesis
  proof cases
    case 1
    then show ?thesis using eq i3 s3 w by (intro exI [of _ False] exI [of _ ?m3]) simp
  next
    case 2
    then show ?thesis using eq i6 s6 r by (intro exI [of _ False] exI [of _ ?m6]) (simp del: not_None_eq)
  next
    case 3
    then show ?thesis using eq i8 s8 w r n by (intro exI [of _ "n \<noteq> None"] exI [of _ "m8\<lparr>paho_network := n\<rparr>"]) (simp del: not_None_eq)
  qed
qed

lemma paho_disconnect_ok: "heap_inv m \<Longrightarrow> \<exists>m'. paho_disconnect conn m = Some m' \<and> heap_inv m' \<and> (conn \<longrightarrow> live m' = [])"
proof -
  assume inv: "heap_inv m"
  let ?m0 = "mqtt_call Network_Disconnect (mqtt_call Mqtt_Disconnect m)"
  have "heap_inv ?m0" using inv by simp
  then obtain m1 where m1: "mem_free (paho_writebuf ?m0) ?m0 = Some m1" "heap_inv (m1\<lparr>paho_writebuf := None\<rparr>)"
    using renew(1) by blast
  then obtain m3 where m3: "mem_free (paho_readbuf (m1\<lparr>paho_writebuf := None\<rparr>)) (m1\<lparr>paho_writebuf := None\<rparr>) = Some m3"
      "heap_inv (m3\<lparr>paho_readbuf := None\<rparr>)" "paho_writebuf m3 = None"
    using renew(2) [OF m1(2)] by auto
  then obtain m5 where m5: "mem_free (paho_network (m3\<lparr>paho_readbuf := None\<rparr>)) (m3\<lparr>paho_readbuf := None\<rparr>) = Some m5"
      "heap_inv (m5\<lparr>paho_network := None\<rparr>)" "paho_writebuf m5 = None" "paho_readbuf m5 = None"
    using renew(3) [OF m3(2)] by auto
  have "live (m5\<lparr>paho_network := None\<rparr>) = []" using m5(2-4) by (simp add: heap_inv_def blocks_def)
  with m1(1) m3(1) m5(1,2) inv show ?thesis by (auto simp: paho_disconnect_def)
qed

section \<open>The connect request\<close>

text \<open>The request that connecting with these arguments must send; the user is left out when the name or the password is empty
  and none was given before.\<close>

definition connect_request :: "buf \<Rightarrow> buf \<Rightarrow> buf \<Rightarrow> gateway \<Rightarrow> mqtt_client \<Rightarrow> connect_data" where
  "connect_request p3 p4 p5 s m =
     (let has_user = (data_user m \<or> c_str p4 \<noteq> [] \<and> c_str p5 \<noteq> [])
      in \<lparr>cd_clientID = c_str p3, cd_username = (if has_user then Some (c_str p4) else None),
          cd_password = (if has_user then Some (c_str p5) else None), cd_keepAlive = 4, cd_cleansession = 0,
          cd_will = Some (str ''Gateway/xbzl/will'', c_str (nImei (xb_sim s)) @ str ''offline'', 0, 0)\<rparr>)"

lemma will_texts:
  assumes "sized s" and "terminated (nImei (xb_sim s))"
  shows "\<exists>wm. Getnrate_Will_Msg s = Some wm \<and> length wm = 64 \<and> terminated wm \<and> c_str wm = c_str (nImei (xb_sim s)) @ str ''offline''"
proof -
  let ?i = "c_str (nImei (xb_sim s))"
  have "length ?i < 16" using assms terminated_length [of "nImei (xb_sim s)"] by (simp add: sized_def)
  then obtain m where "cat.append_all (replicate 64 0) [?i, str ''offline''] = Some m" "terminated m" "length m = 64"
      "c_str m = ?i @ str ''offline''"
    using fresh_run [of 64 "[?i, str ''offline'']"] by (auto simp: str_def)
  then show ?thesis using assms(2) by (auto simp: Getnrate_Will_Msg_def)
qed

lemma will_topic: "Getnrate_Will_Topic = Some (arr_of 64 (str ''Gateway/xbzl/will''))"
  using replicate_Suc [of 46 "0 :: u8"] by (simp add: Getnrate_Will_Topic_def buf_write_def arr_of_def str_def)

lemma padded_text:
  assumes "terminated t" and "length t \<le> k"
  shows "terminated (t @ replicate (k - length t) 0)" and "c_str (t @ replicate (k - length t) 0) = c_str t"
  using assms by (auto simp: terminated_def c_str_def takeWhile_append)

text \<open>Parameters as step 1 builds them.\<close>

definition fresh_param :: "nwy_paho_mqtt_at_param_type \<Rightarrow> bool" where
  "fresh_param a = (at_willtopic a = replicate 129 0 \<and> at_willmessage a = replicate 1025 0 \<and> at_willretained a = 0 \<and> at_willqos a = 0)"

lemma paho_will_ok:
  assumes "sized s" and "terminated (nImei (xb_sim s))" and "fresh_param a"
  shows "\<exists>a'. paho_will s a = Some a' \<and> arr_text (at_willtopic a') = Some (str ''Gateway/xbzl/will'') \<and>
    arr_text (at_willmessage a') = Some (c_str (nImei (xb_sim s)) @ str ''offline'') \<and> at_willretained a' = 0 \<and> at_willqos a' = 0 \<and>
    at_clientID a' = at_clientID a \<and> at_keepalive a' = at_keepalive a \<and> at_cleanflag a' = at_cleanflag a"
proof -
  obtain wm where wm: "Getnrate_Will_Msg s = Some wm" "length wm = 64" "terminated wm" "c_str wm = c_str (nImei (xb_sim s)) @ str ''offline''"
    using will_texts [OF assms(1,2)] by blast
  let ?t = "arr_of 64 (str ''Gateway/xbzl/will'')"
  have t: "length ?t = 64" "terminated ?t" "c_str ?t = str ''Gateway/xbzl/will''"
    using arr_of_text [of "str ''Gateway/xbzl/will''" 64] by (auto simp: arr_text_def str_def split: if_splits)
  have p: "arr_text (?t @ replicate 65 0) = Some (str ''Gateway/xbzl/will'')"
    "arr_text (wm @ replicate 961 0) = Some (c_str wm)" "terminated (wm @ replicate 961 0)"
    using padded_text [of ?t 129] padded_text [of wm 1025] t wm by (simp_all add: arr_text_def)
  show ?thesis
    using assms(3) wm t p by (simp add: paho_will_def will_topic fresh_param_def buf_write_def c_strlen_terminated)
qed

lemma paho_request_ok:
  assumes "sized s" and "terminated (nImei (xb_sim s))" and "fresh_param (at_param m)" and "connect_args p1 p2 p3 p4 p5"
    and "at_clientID (at_param m) = arr_of 257 (c_str p3)" and "at_username (at_param m) = arr_of 513 (c_str p4)"
    and "at_password (at_param m) = arr_of 257 (c_str p5)" and "at_keepalive (at_param m) = 4" and "at_cleanflag (at_param m) = 0"
  shows "\<exists>a. paho_request s m = Some (connect_request p3 p4 p5 s m,
    m\<lparr>at_param := a, data_user := data_user m \<or> c_str p4 \<noteq> [] \<and> c_str p5 \<noteq> [], data_will := cd_will (connect_request p3 p4 p5 s m)\<rparr>)"
proof -
  obtain a where a: "paho_will s (at_param m) = Some a" "arr_text (at_willtopic a) = Some (str ''Gateway/xbzl/will'')"
    "arr_text (at_willmessage a) = Some (c_str (nImei (xb_sim s)) @ str ''offline'')" "at_willretained a = 0" "at_willqos a = 0"
    "at_clientID a = at_clientID (at_param m)" "at_keepalive a = 4" "at_cleanflag a = 0"
    using paho_will_ok [OF assms(1-3)] assms(8,9) by auto
  have t: "arr_text (arr_of 257 (c_str p3)) = Some (c_str p3)" "arr_text (arr_of 513 (c_str p4)) = Some (c_str p4)"
    "arr_text (arr_of 257 (c_str p5)) = Some (c_str p5)"
    using assms(4) by (simp_all add: connect_args_def text_below_def)
  show ?thesis
    using a t assms(5-7) by (intro exI [of _ a]) (simp add: paho_request_def connect_request_def Let_def str_def)
qed

text \<open>The calls of a connection attempt, up to the failure that ends it.\<close>

definition connect_calls :: "paho_env \<Rightarrow> buf \<Rightarrow> buf \<Rightarrow> buf \<Rightarrow> buf \<Rightarrow> buf \<Rightarrow> buf \<Rightarrow> gateway \<Rightarrow> mqtt_client \<Rightarrow> mqtt_call list" where
  "connect_calls env p1 p2 p3 p4 p5 p6 s m =
     (if is_connected env \<or> c_atoi (c_str p6) > 1 \<or> c_atoi (c_str p6) < 0 \<or> \<not> (mem_writebuf env \<and> mem_readbuf env \<and> mem_network env) then []
      else Network_Connect (c_atoi (c_str p6) = 1) (c_str p1) (word_of_int (c_atoi (c_str p2))) #
        (if net_rc env < 0 then []
         else [Client_Init, Mqtt_Connect (connect_request p3 p4 p5 s m)] @
           (if conn_rc env \<noteq> 0 then [] else if paho_task m then [Resume_Paho_Task] else [Create_Paho_Task, Create_Snd_Task])))"

lemma paho_connect_ok:
  assumes "heap_inv m" and "connect_args p1 p2 p3 p4 p5" and "terminated p6" and "sized s" and "terminated (nImei (xb_sim s))"
  shows "\<exists>t. paho_connect env p1 p2 p3 p4 p5 p6 s m = Some t \<and> heap_inv t \<and> mqtt_calls t = mqtt_calls m @ connect_calls env p1 p2 p3 p4 p5 p6 s m"
proof -
  let ?ssl = "c_atoi (c_str p6)"
  let ?a = "(args_param p1 p2 p3 p4 p5)\<lparr>at_sslmode := ?ssl\<rparr>"
  let ?m0 = "m\<lparr>at_param := ?a\<rparr>"
  have h: "heap_inv ?m0" using assms(1) by simp
  obtain ok m1 where m1: "paho_memory env ?m0 = Some (ok, m1)" "heap_inv m1" "same_but_heap ?m0 m1"
      "ok \<longleftrightarrow> mem_writebuf env \<and> mem_readbuf env \<and> mem_network env"
    using paho_memory_ok [OF h, of env] by blast
  have at: "at_param m1 = ?a" "mqtt_calls m1 = mqtt_calls m" "data_user m1 = data_user m" "data_will m1 = data_will m" "paho_task m1 = paho_task m"
    using m1(3) by (simp_all add: same_but_heap_def)
  let ?a2 = "?a\<lparr>at_authmode := 0, at_cleanflag := 0, at_keepalive := 4\<rparr>"
  let ?m2 = "mqtt_call (Network_Connect (?ssl = 1) (c_str p1) (word_of_int (c_atoi (c_str p2)))) (m1\<lparr>at_param := ?a2\<rparr>)"
  have m2: "paho_network_connect m1 = Some ?m2"
    using assms(2) at(1) by (simp add: paho_network_connect_def args_param_def connect_args_def text_below_def)
  let ?m3 = "mqtt_call Client_Init ?m2"
  have "fresh_param ?a2" by (simp add: fresh_param_def args_param_def zero_at_param_def)
  then have "\<exists>a. paho_request s ?m3 = Some (connect_request p3 p4 p5 s ?m3, ?m3\<lparr>at_param := a,
      data_user := data_user ?m3 \<or> c_str p4 \<noteq> [] \<and> c_str p5 \<noteq> [], data_will := cd_will (connect_request p3 p4 p5 s ?m3)\<rparr>)"
    using assms(2,4,5) by (intro paho_request_ok) (simp_all add: args_param_def)
  moreover have "connect_request p3 p4 p5 s ?m3 = connect_request p3 p4 p5 s m" using at(3) by (simp add: connect_request_def)
  ultimately obtain m4 where m4: "paho_request s ?m3 = Some (connect_request p3 p4 p5 s m, m4)" "heap_inv m4"
      "mqtt_calls m4 = mqtt_calls ?m3" "paho_task m4 = paho_task m"
    using m1(2) at(5) by auto
  show ?thesis
    using assms(1,3) m1 m2 m4 at
    by (simp add: paho_connect_def connect_calls_def paho_params_ok [OF assms(2)] arg_atoi_ok nwy_paho_yeild_task_init_def Let_def)
qed

section \<open>Publishing\<close>

definition publish_args :: "buf \<Rightarrow> buf \<Rightarrow> buf \<Rightarrow> buf \<Rightarrow> int \<Rightarrow> bool" where
  "publish_args p1 p2 p3 p4 len = (text_below 129 p1 \<and> terminated p2 \<and> terminated p3 \<and> 0 \<le> len \<and> len \<le> 513 \<and> nat len \<le> length p4)"

lemma paho_publish_ok:
  assumes "publish_args p1 p2 p3 p4 len"
  shows "\<exists>a. paho_publish conn p1 p2 p3 p4 len m =
    Some (if \<not> conn then m else if 512 < sio_len m then m\<lparr>at_param := a\<rparr>
          else mqtt_call (Mqtt_Publish (c_str p1) (word_of_int (c_atoi (c_str p2))) (word_of_int (c_atoi (c_str p3))) (take (nat len) p4))
            (m\<lparr>at_param := a\<rparr>))"
proof -
  have c: "copy_text (replicate 129 0) p1 = Some (arr_of 129 (c_str p1))" "arr_text (arr_of 129 (c_str p1)) = Some (c_str p1)"
    using assms copy_text_ok [of 129 p1] by (simp_all add: publish_args_def text_below_def)
  have "take (nat len) (take (nat len) p4 @ replicate (513 - nat len) 0) = take (nat len) p4"
    using assms by (simp add: publish_args_def)
  then show ?thesis
    using assms c by (auto simp: paho_publish_def publish_args_def arg_atoi_ok Let_def buf_read_def buf_write_def)
qed

datatype paho_event = Paho_Step paho_env int buf buf buf buf buf buf int buf gateway

fun paho_step :: "mqtt_client \<Rightarrow> paho_event \<Rightarrow> mqtt_client option" where
  "paho_step m (Paho_Step env step p1 p2 p3 p4 p5 p6 len sio s) = nwy_paho_mqtt_test_mine env step p1 p2 p3 p4 p5 p6 len sio s m"

text \<open>Arguments that are strings of the sizes the parameter block has room for.\<close>

fun paho_accepts :: "paho_event \<Rightarrow> bool" where
  "paho_accepts (Paho_Step env step p1 p2 p3 p4 p5 p6 len sio s) =
     (if step = 1 then connect_args p1 p2 p3 p4 p5 \<and> terminated p6 \<and> sized s \<and> terminated (nImei (xb_sim s))
      else if step = 2 then publish_args p1 p2 p3 p4 len
      else if step = 3 then text_below 129 p1 \<and> terminated p2
      else if step = 4 then text_below 129 sio
      else True)"

lemma paho_subscribe_ok:
  "text_below 129 p1 \<Longrightarrow> terminated p2 \<Longrightarrow> heap_inv m \<Longrightarrow> \<exists>t. paho_subscribe conn p1 p2 m = Some t \<and> heap_inv t"
  using copy_text_ok [of 129 p1] by (simp add: paho_subscribe_def arg_atoi_ok text_below_def)

lemma paho_unsubscribe_ok: "text_below 129 p1 \<Longrightarrow> heap_inv m \<Longrightarrow> \<exists>t. paho_unsubscribe conn p1 m = Some t \<and> heap_inv t"
  using copy_text_ok [of 129 p1] by (simp add: paho_unsubscribe_def text_below_def)

lemma paho_step_ok:
  assumes "heap_inv m" and "paho_accepts e"
  shows "\<exists>t. paho_step m e = Some t \<and> heap_inv t"
proof (cases e)
  case (Paho_Step env step p1 p2 p3 p4 p5 p6 len sio s)
  consider "step = 1" | "step = 2" | "step = 3" | "step = 4" | "step = 5" | "step \<notin> {1, 2, 3, 4, 5}" by auto
  then show ?thesis
  proof cases
    case 1
    then show ?thesis
      using assms Paho_Step paho_connect_ok [OF assms(1), of p1 p2 p3 p4 p5 p6 s env] by (auto simp: nwy_paho_mqtt_test_mine_def)
  next
    case 2
    then show ?thesis
      using assms Paho_Step paho_publish_ok [of p1 p2 p3 p4 len "is_connected env" m] by (auto simp: nwy_paho_mqtt_test_mine_def)
  next
    case 3
    then show ?thesis using assms Paho_Step paho_subscribe_ok by (simp add: nwy_paho_mqtt_test_mine_def)
  next
    case 4
    then show ?thesis using assms Paho_Step paho_unsubscribe_ok by (simp add: nwy_paho_mqtt_test_mine_def)
  next
    case 5
    then show ?thesis
      using assms Paho_Step paho_disconnect_ok [OF assms(1), of "is_connected env"] by (auto simp: nwy_paho_mqtt_test_mine_def)
  next
    case 6
    then show ?thesis using assms Paho_Step by (simp add: nwy_paho_mqtt_test_mine_def)
  qed
qed

interpretation paho: total_machine paho_step heap_inv paho_accepts
  by unfold_locales (use paho_step_ok in fastforce)+

lemma heap_inv_init: "heap_inv init_client"
  by (simp add: heap_inv_def blocks_def init_client_def)

section \<open>Arriving messages\<close>

lemma messageArrived_command:
  assumes "length topicName \<le> 128" and "len \<le> 1024"
  shows "messageArrived fs tmpN mem behind pad tmpZ ev0 topicName b len s w = handle_Net_Cmd fs tmpN mem behind pad tmpZ ev0 b len s w"
proof -
  have fits: "\<exists>d. c_strncpy (replicate n 0) 0 src k = Some d" if "k \<le> n" for n k src
    using that by (simp add: c_strncpy_def buf_write_def Let_def)
  show ?thesis
    using fits [of "length topicName" 128 topicName] fits [of len 1025 "take len b"] assms by (auto simp: messageArrived_def)
qed

section \<open>The sending thread\<close>

definition state_topic :: "gateway \<Rightarrow> buf" where
  "state_topic s = str ''Gateway/XBWG'' @ c_str (nImei (xb_sim s)) @ str ''/state''"

lemma topic_ctrl_ok:
  assumes "sized s" and "terminated (nImei (xb_sim s))"
  shows "\<exists>tp. Gernerate_Topic_ctrl (replicate 64 0) 64 s = Some tp \<and> text_below 129 tp \<and> c_str tp = state_topic s"
proof -
  let ?i = "c_str (nImei (xb_sim s))"
  have l: "length ?i < 16" using assms terminated_length [of "nImei (xb_sim s)"] by (simp add: sized_def)
  then obtain m where "cat.append_all (replicate 64 0) [str ''Gateway/XBWG'', ?i, str ''/state''] = Some m" "terminated m" "length m = 64"
      "c_str m = str ''Gateway/XBWG'' @ ?i @ str ''/state''"
    using fresh_run [of 64 "[str ''Gateway/XBWG'', ?i, str ''/state'']"] by (auto simp: str_def)
  then show ?thesis
    using assms(2) l by (auto simp: Gernerate_Topic_ctrl_def buf_fill_def buf_write_def state_topic_def text_below_def str_def)
qed

lemma digit_args: "c_str (str ''2'' @ [0]) = [50]" "c_str (str ''0'' @ [0]) = [48]" "terminated (str ''2'' @ [0])" "terminated (str ''0'' @ [0])"
  "c_atoi [50] = 2" "c_atoi [48] = 0"
  by (simp_all add: c_str_def str_def terminated_def c_atoi_def is_space_def is_digit_def digits_val_def int_max_def)

lemma snd_report_ok:
  assumes "text_below 129 tp" and "is_connected env" and "sio_len m \<le> 512" and "0 \<le> mqtt_report_Len s" and "mqtt_report_Len s \<le> 512"
    and "length (mqtt_report_Msg s) = 512"
  shows "\<exists>m'. snd_report env tp s m = Some m' \<and> sio_len m' = sio_len m \<and> mqtt_calls m' = mqtt_calls m @
    [Sem_Acquire, Mqtt_Publish (c_str tp) 2 0 (take (nat (mqtt_report_Len s)) (mqtt_report_Msg s)), Sem_Release]"
proof -
  have "publish_args tp (str ''2'' @ [0]) (str ''0'' @ [0]) (mqtt_report_Msg s) (mqtt_report_Len s)"
    using assms digit_args by (simp add: publish_args_def)
  from paho_publish_ok [OF this, of True "mqtt_call Sem_Acquire m"] show ?thesis
    using assms(2,3) by (auto simp: snd_report_def Snd_Mqtt_def nwy_paho_mqtt_test_mine_def digit_args)
qed

lemma snd_round_sends:
  assumes "sized s" and "terminated (nImei (xb_sim s))" and "is_connected (in_env i)" and "sio_len m \<le> 512"
    and "0 \<le> mqtt_report_Len s" and "mqtt_report_Len s \<le> 512"
    and "in_event i = REPORT_MQTT_MSG \<or> in_event i = REPORT_MQTT_WG_MSG \<or> in_event i = REPORT_MQTT_CTRL_CMD"
  shows "\<exists>m'. mqtt_Snd_round (s, n, m, st) i = Some (s\<lparr>Fg_Snding_Mqtt := 0\<rparr>, n, m', st) \<and>
    mqtt_calls m' = mqtt_calls m @
      [Sem_Acquire, Mqtt_Publish (state_topic s) 2 0 (take (nat (mqtt_report_Len s)) (mqtt_report_Msg s)), Sem_Release]"
proof -
  obtain tp where tp: "Gernerate_Topic_ctrl (replicate 64 0) 64 s = Some tp" "text_below 129 tp" "c_str tp = state_topic s"
    using topic_ctrl_ok [OF assms(1,2)] by blast
  have "length (mqtt_report_Msg s) = 512" using assms(1) by (simp add: sized_def)
  from snd_report_ok [OF tp(2) assms(3-6) this] tp assms(7) show ?thesis
    by (auto simp: mqtt_Snd_round_def)
qed

definition idle_input :: "snd_input \<Rightarrow> bool" where
  "idle_input i = (is_connected (in_env i) \<and> in_event i \<notin> {REPORT_MQTT_MSG, REPORT_MQTT_WG_MSG, REPORT_MQTT_CTRL_CMD})"

fun is_publish :: "mqtt_call \<Rightarrow> bool" where
  "is_publish (Mqtt_Publish t q r p) = True"
| "is_publish _ = False"

definition snd_ready :: "gateway \<Rightarrow> mqtt_client \<Rightarrow> bool" where
  "snd_ready s m = (report_ready s \<and> terminated (nImei (xb_sim s)) \<and> value_zone_0 s AND push_bit 9 1 = 0 \<and> sio_len m \<le> 512)"

text \<open>The number of unsolicited reports still to come.\<close>

definition reports_left :: "gateway \<Rightarrow> snd_static \<Rightarrow> nat" where
  "reports_left s st = (5 - unat (snd_num st)) + (if value_zone_0_Last st = value_zone_0 s then 0 else 1)"

lemma idle_round:
  assumes "snd_ready s m" and "idle_input i" and "snd_num st \<le> 5"
  shows "\<exists>s' n' m' st'. mqtt_Snd_round (s, n, m, st) i = Some (s', n', m', st') \<and> snd_ready s' m' \<and> snd_num st' \<le> 5 \<and>
    reports_left s' st' = reports_left s st - 1 \<and> value_zone_0 s' = value_zone_0 s \<and>
    length (filter is_publish (mqtt_calls m')) = length (filter is_publish (mqtt_calls m)) + min 1 (reports_left s st)"
proof -
  have r: "report_ready s" "terminated (nImei (xb_sim s))" "value_zone_0 s AND push_bit 9 1 = 0" "sio_len m \<le> 512" "sized s"
    using assms(1) by (simp_all add: snd_ready_def report_ready_def)
  obtain tp where tp: "Gernerate_Topic_ctrl (replicate 64 0) 64 s = Some tp" "text_below 129 tp"
    using topic_ctrl_ok [OF r(5,2)] by blast
  have ev: "in_event i \<noteq> REPORT_MQTT_MSG" "in_event i \<noteq> REPORT_MQTT_WG_MSG" "in_event i \<noteq> REPORT_MQTT_CTRL_CMD" "is_connected (in_env i)"
    using assms(2) by (simp_all add: idle_input_def)
  obtain b k where g: "Generate_Report_WG_Info (in_csq i) (in_now i) s = Some (s\<lparr>xb_time := in_now i, mqtt_report_Msg := b, mqtt_report_Len := int k\<rparr>)"
      "length b = 512" "k \<le> 255"
    using report_without_ble [OF r(1,3)] by blast
  let ?s = "s\<lparr>xb_time := in_now i, mqtt_report_Msg := b, mqtt_report_Len := int k\<rparr>"
  obtain m' where m': "snd_report (in_env i) tp ?s m = Some m'" "sio_len m' = sio_len m"
      "length (filter is_publish (mqtt_calls m')) = length (filter is_publish (mqtt_calls m)) + 1"
    using snd_report_ok [OF tp(2) ev(4) r(4), of ?s] g by auto
  have rdy: "snd_ready (?s\<lparr>Fg_Snding_Mqtt := 0\<rparr>) m'" "snd_ready (s\<lparr>Fg_Snding_Mqtt := 0\<rparr>) m"
    using assms(1) g(2) m'(2) by (simp_all add: snd_ready_def report_ready_def sized_def)
  show ?thesis
  proof (cases "snd_num st < 5")
    case True
    then have "unat (snd_num st + 1) = unat (snd_num st) + 1" "unat (snd_num st) < 5"
      by (simp_all add: word_less_nat_alt unat_word_ariths)
    with True ev tp(1) g(1) m' rdy(1) show ?thesis
      by (simp add: mqtt_Snd_round_def reports_left_def Let_def word_le_nat_alt)
  next
    case False
    then have "snd_num st = 5" using assms(3) by simp
    with ev tp(1) g(1) m' rdy show ?thesis
      by (cases "value_zone_0_Last st = value_zone_0 s") (simp_all add: mqtt_Snd_round_def reports_left_def Let_def)
  qed
qed

lemma idle_rounds:
  assumes "snd_ready s m" and "list_all idle_input is" and "snd_num st \<le> 5"
  shows "\<exists>s' n' m' st'. run_machine mqtt_Snd_round (s, n, m, st) is = Some (s', n', m', st') \<and>
    length (filter is_publish (mqtt_calls m')) = length (filter is_publish (mqtt_calls m)) + min (length is) (reports_left s st)"
  using assms
proof (induction "is" arbitrary: s n m st)
  case Nil
  then show ?case by simp
next
  case (Cons i "is")
  obtain s1 n1 m1 st1 where r: "mqtt_Snd_round (s, n, m, st) i = Some (s1, n1, m1, st1)" "snd_ready s1 m1" "snd_num st1 \<le> 5"
      "reports_left s1 st1 = reports_left s st - 1"
      "length (filter is_publish (mqtt_calls m1)) = length (filter is_publish (mqtt_calls m)) + min 1 (reports_left s st)"
    using idle_round [of s m i st n] Cons.prems by auto
  from Cons.IH [OF r(2) _ r(3), of n1] Cons.prems(2) r(1,4,5) show ?case by auto
qed

section \<open>Properties\<close>

text \<open>C27: Memory safety of the MQTT steps. Along every sequence of connect, publish, subscribe, unsubscribe and disconnect steps with
  arguments of admissible length, whatever the network, the broker and the allocator answer, no step faults: no block is freed
  twice, at most three blocks are live, and each of them is still reachable from its pointer.\<close>

theorem paho_steps_memory_safe:
  assumes "list_all paho_accepts es"
  shows "\<exists>t. run_machine paho_step init_client es = Some t \<and> length (live t) \<le> 3 \<and> set (live t) = set (blocks t)"
proof -
  obtain t where "run_machine paho_step init_client es = Some t" "heap_inv t"
    using paho.run_total [OF heap_inv_init assms] by blast
  then show ?thesis using heap_inv_bound [of t] by (auto simp: heap_inv_def)
qed

definition env_up :: paho_env where
  "env_up = \<lparr>is_connected = False, mem_writebuf = True, mem_readbuf = True, mem_network = True, net_rc = 0, conn_rc = 0, task_created = True\<rparr>"

lemma zero_args: "connect_args [0] [0] [0] [0] [0]"
  by (simp add: connect_args_def text_below_def terminated_def c_str_def)

lemma imei_init: "terminated (nImei (xb_sim init_gateway))"
  by (simp add: terminated_def)

theorem paho_steps_memory_safe_witness:
  "\<exists>t. run_machine paho_step init_client
      [Paho_Step env_up 1 [0] [0] [0] [0] [0] [0] 0 [] init_gateway, Paho_Step (env_up\<lparr>mem_network := False\<rparr>) 1 [0] [0] [0] [0] [0] [0] 0 [] init_gateway,
       Paho_Step (env_up\<lparr>is_connected := True\<rparr>) 5 [] [] [] [] [] [] 0 [] init_gateway] = Some t \<and>
    length (live t) \<le> 3 \<and> set (live t) = set (blocks t)"
  by (rule paho_steps_memory_safe) (simp add: zero_args sized_init imei_init terminated_def)

text \<open>The connection attempt. Step 1 calls the network and then the broker with exactly the given host, port, client id, user and
  password, with a keep-alive of 4 seconds, no clean session and the will message of the gateway; it stops at the first failure
  (invalid mode, no memory, no network), and only after an accepted connection it starts the two threads, or wakes the first one.\<close>

theorem paho_connect_request:
  assumes "heap_inv m" and "connect_args p1 p2 p3 p4 p5" and "terminated p6" and "sized s" and "terminated (nImei (xb_sim s))"
  shows "\<exists>t. nwy_paho_mqtt_test_mine env 1 p1 p2 p3 p4 p5 p6 len sio s m = Some t \<and>
    mqtt_calls t = mqtt_calls m @ connect_calls env p1 p2 p3 p4 p5 p6 s m"
  using paho_connect_ok [OF assms, of env] by (auto simp: nwy_paho_mqtt_test_mine_def)

theorem paho_connect_request_witness:
  "\<exists>t. nwy_paho_mqtt_test_mine env_up 1 [49, 0] [50, 0] [51, 0] [52, 0] [53, 0] [48, 0] 0 [] init_gateway init_client = Some t \<and>
    mqtt_calls t = [Network_Connect False [49] 2, Client_Init,
      Mqtt_Connect \<lparr>cd_clientID = [51], cd_username = Some [52], cd_password = Some [53], cd_keepAlive = 4, cd_cleansession = 0,
        cd_will = Some (str ''Gateway/xbzl/will'', str ''offline'', 0, 0)\<rparr>, Create_Paho_Task, Create_Snd_Task]"
proof -
  have c: "c_str [c, 0] = [c]" "terminated [c, 0]" if "c \<noteq> 0" for c using that by (simp_all add: c_str_def terminated_def)
  have a: "c_atoi [50] = 2" "c_atoi [48] = 0" by (simp_all add: c_atoi_def is_space_def is_digit_def digits_val_def int_max_def)
  have "connect_args [49, 0] [50, 0] [51, 0] [52, 0] [53, 0]" by (simp add: connect_args_def text_below_def c)
  then show ?thesis
    using paho_connect_request [OF heap_inv_init _ _ sized_init imei_init, of "[49, 0]" "[50, 0]" "[51, 0]" "[52, 0]" "[53, 0]" "[48, 0]" env_up 0 "[]"]
    by (simp add: c a connect_calls_def connect_request_def env_up_def) (simp add: init_client_def)
qed

text \<open>C28: Sending on request. When a report is signalled (\<open>REPORT_MQTT_MSG\<close>, \<open>REPORT_MQTT_WG_MSG\<close>, \<open>REPORT_MQTT_CTRL_CMD\<close>) while the client is
  connected, one round of the sending thread publishes, once, exactly the first \<open>mqtt_report_Len\<close> bytes of \<open>mqtt_report_Msg\<close> on the
  state topic of this gateway, with quality 2 and not retained, and leaves the report buffer as it was; this needs the last console
  line to be at most 512 characters long.\<close>

theorem snd_round_publishes:
  assumes "sized s" and "terminated (nImei (xb_sim s))" and "is_connected (in_env i)" and "sio_len m \<le> 512"
    and "0 \<le> mqtt_report_Len s" and "mqtt_report_Len s \<le> 512"
    and "in_event i = REPORT_MQTT_MSG \<or> in_event i = REPORT_MQTT_WG_MSG \<or> in_event i = REPORT_MQTT_CTRL_CMD"
  shows "\<exists>m'. mqtt_Snd_round (s, n, m, st) i = Some (s\<lparr>Fg_Snding_Mqtt := 0\<rparr>, n, m', st) \<and>
    mqtt_calls m' = mqtt_calls m @
      [Sem_Acquire, Mqtt_Publish (str ''Gateway/XBWG'' @ c_str (nImei (xb_sim s)) @ str ''/state'') 2 0
         (take (nat (mqtt_report_Len s)) (mqtt_report_Msg s)), Sem_Release]"
  using snd_round_sends [OF assms] by (simp add: state_topic_def)

definition input_up :: "u32 \<Rightarrow> snd_input" where
  "input_up e = \<lparr>in_env = env_up\<lparr>is_connected := True\<rparr>, in_event = e, in_csq = 20, in_now = xb_time init_gateway\<rparr>"

theorem snd_round_publishes_witness:
  "\<exists>m'. mqtt_Snd_round (init_gateway\<lparr>mqtt_report_Len := 3\<rparr>, init_net, init_client, init_snd) (input_up REPORT_MQTT_CTRL_CMD) =
      Some (init_gateway\<lparr>mqtt_report_Len := 3, Fg_Snding_Mqtt := 0\<rparr>, init_net, m', init_snd) \<and>
    mqtt_calls m' = [Sem_Acquire, Mqtt_Publish (str ''Gateway/XBWG/state'') 2 0 [0, 0, 0], Sem_Release]"
proof -
  have "sized (init_gateway\<lparr>mqtt_report_Len := 3\<rparr>)" using sized_init by (simp add: sized_def)
  from snd_round_publishes [OF this, of "input_up REPORT_MQTT_CTRL_CMD" init_client init_net init_snd] show ?thesis
    by (simp add: input_up_def init_client_def imei_init str_def numeral_3_eq_3)
qed

text \<open>Unsolicited reports. While the thread is only woken by its time-out, the connection is up and nothing changes zone 0, it sends
  six reports altogether (five when zone 0 happens to hold 0xff, the initial value it is compared with) and then stays silent,
  however long it runs.\<close>

theorem idle_reports:
  assumes "report_ready s" and "terminated (nImei (xb_sim s))" and "value_zone_0 s AND push_bit 9 1 = 0" and "list_all idle_input is"
  shows "\<exists>s' n' m' st'. run_machine mqtt_Snd_round (s, n, init_client, init_snd) is = Some (s', n', m', st') \<and>
    length (filter is_publish (mqtt_calls m')) = min (length is) (if value_zone_0 s = 0xff then 5 else 6)"
proof -
  have "snd_ready s init_client" using assms(1-3) by (simp add: snd_ready_def init_client_def)
  moreover have "reports_left s init_snd = (if value_zone_0 s = 0xff then 5 else 6)" by (auto simp: reports_left_def init_snd_def)
  moreover have "mqtt_calls init_client = []" "snd_num init_snd \<le> 5" by (simp_all add: init_client_def init_snd_def)
  ultimately show ?thesis using idle_rounds [OF _ assms(4), of s init_client init_snd n] by simp
qed

theorem idle_reports_witness:
  "\<exists>s' n' m' st'. run_machine mqtt_Snd_round (init_gateway, init_net, init_client, init_snd) (replicate 100 (input_up 0)) = Some (s', n', m', st') \<and>
    length (filter is_publish (mqtt_calls m')) = 6"
proof -
  have "report_ready init_gateway" by (simp add: report_ready_def sized_init)
  moreover have "list_all idle_input (replicate 100 (input_up 0))"
    by (simp add: list_all_iff idle_input_def input_up_def REPORT_MQTT_MSG_def REPORT_MQTT_WG_MSG_def REPORT_MQTT_CTRL_CMD_def)
  ultimately show ?thesis using idle_reports [of init_gateway "replicate 100 (input_up 0)" init_net] imei_init by simp
qed

end
