(* ===== verification/Sampler.thy ===== *)
theory Sampler
  imports Rs485 Report Machine
begin

text \<open>
  The rest of src/main_xb.c: the sampling thread, which reads temperature, supply level and time every half second, reads the
  SIM card's numbers every 21st round (\<open>get_CCID_Fun\<close> of src/hello_world.c) and blinks the lamps; the key thread, whose set-up
  returns at once; the reply text \<open>reply_Cmd_Cloud\<close>; and \<open>appimg_enter\<close> of src/hello_world.c, which starts the threads. What
  the module returns in a round is an argument.
\<close>

section \<open>Sampling\<close>

text \<open>What the calls into the module yield: the temperature (\<open>None\<close> when the call fails), the level at the converter, the
  time, and the two texts the SIM calls store.\<close>

record sample =
  rf_temperature :: "f32 option"
  adc_level :: u32
  clock :: nwy_time_t
  sim_imei :: buf
  sim_iccid :: buf

record sampler =
  Last_AD :: u32
  round_nn :: int

text \<open>\<open>if (strlen (a) < n) a[strlen (a) - 1] = 0;\<close> there is no position in front of the array.\<close>

definition cut_last :: "nat \<Rightarrow> buf \<Rightarrow> buf option" where
  "cut_last n a = do { len \<leftarrow> c_strlen a; if len < n then (if len = 0 then None else wr a (len - 1) 0) else Some a }"

definition get_CCID_Fun :: "sample \<Rightarrow> gateway \<Rightarrow> gateway option" where
  "get_CCID_Fun p s =
     do { imei \<leftarrow> cut_last 16 (sim_imei p);
          card \<leftarrow> cut_last 23 (sim_iccid p);
          Some (s\<lparr>xb_sim := \<lparr>iccid = card, nImei = imei\<rparr>\<rparr>) }"

definition set_lamps :: "u8 \<Rightarrow> gateway \<Rightarrow> gateway" where
  "set_lamps v s = SET_Led_On_off 2 v (SET_Led_On_off 1 v (SET_Led_On_off 0 v s))"

definition Get_Value_round :: "sample \<Rightarrow> sampler \<times> gateway \<Rightarrow> (sampler \<times> gateway) option" where
  "Get_Value_round p = (\<lambda>(sm, s).
     do { let s1 = (case rf_temperature p of None \<Rightarrow> s | Some t \<Rightarrow> s\<lparr>temp_IC := t\<rparr>);
          let s2 = s1\<lparr>xb_time := clock p\<rparr>;
          let nn = round_nn sm + 1;
          (nn1, s3) \<leftarrow> (if nn > 20 then do { t \<leftarrow> get_CCID_Fun p s2; Some (0, t) } else Some (nn, s2));
          let s4 = set_lamps (if nn1 mod 2 \<noteq> 0 then 1 else 0) s3;
          Some (\<lparr>Last_AD = adc_level p, round_nn = nn1\<rparr>, emit (Sleep 500) s4) })"

section \<open>Keys, replies and start\<close>

text \<open>\<open>Key_Init_Fun\<close> returns before it configures the pin; what follows its \<open>return\<close> is not reached. The same holds for
  \<open>nwy_wifi_test_xb\<close>.\<close>

definition Key_Init_Fun :: "gateway \<Rightarrow> gateway" where
  "Key_Init_Fun s = s"

definition nwy_wifi_test_xb :: "gateway \<Rightarrow> gateway" where
  "nwy_wifi_test_xb s = s"

definition nwy_test_cli_timer_cb :: "gateway \<Rightarrow> gateway option" where
  "nwy_test_cli_timer_cb s = snd_key_Event s"

text \<open>The interrupt handler starts the timer (its answer is only printed); the loop of the key thread waits for events and
  prints them.\<close>

definition gpioisropen :: "gateway \<Rightarrow> gateway" where
  "gpioisropen s = emit (Start_Timer 50) s"

fun prvThreadEntry_Key_Thread :: "u32 list \<Rightarrow> gateway \<Rightarrow> gateway" where
  "prvThreadEntry_Key_Thread [] s = Key_Init_Fun s"
| "prvThreadEntry_Key_Thread (event # events) s = prvThreadEntry_Key_Thread events s"

definition Start_Key_Thread :: "gateway \<Rightarrow> gateway" where
  "Start_Key_Thread s = emit (Create_Thread Key_thread) s"

text \<open>A press of the key, after the 50 ms of the timer, asks the control thread to switch on the first sub-device; while a
  frame is on its way the callback waits for ever.\<close>

lemma key_press:
  "nwy_test_cli_timer_cb (gpioisropen s) = (if fg_Snding_485 s = 0
     then Some (s\<lparr>trace := trace s @ [Start_Timer 50, Send_Sig RS485_Ctrl_thread EVENT_SND_485_CTRL]\<rparr>) else None)"
  by (simp add: nwy_test_cli_timer_cb_def gpioisropen_def snd_key_Event_def Waiting_Mqtt_eq emit_def)

text \<open>\<open>delay_ms\<close> counts down without effect.\<close>

fun delay_ms :: "nat \<Rightarrow> gateway \<Rightarrow> gateway" where
  "delay_ms 0 s = s"
| "delay_ms (Suc n) s = delay_ms n s"

text \<open>The texts are those of the source; \<open>addr\<close> is the number printed for the address of the local array \<open>time\<close>, which is
  passed where an \<open>int\<close> is expected.\<close>

definition reply_Cmd_Cloud :: "int \<Rightarrow> gateway \<Rightarrow> buf \<Rightarrow> buf option" where
  "reply_Cmd_Cloud addr s msg =
     do { time \<leftarrow> local_text 32 (fmt_d 30);
          stamp \<leftarrow> local_text 32 (fmt_d addr);
          runs \<leftarrow> local_text 32 (fmt_d 144);
          m0 \<leftarrow> wr msg 0 123;
          m1 \<leftarrow> c_strcat m0 (str ''\"cmd\":\"cloud\",'');
          m2 \<leftarrow> c_strcat m1 (str ''\"mqttip\":\"183.6.101.117\",'');
          m3 \<leftarrow> c_strcat m2 (str ''\"mqttport\":1882,'');
          m4 \<leftarrow> Str_4_Cat m3 (str ''\"mqttdomain\":'') (str ''\"'') (str ''www.zxy168.cn'') (str ''\",'');
          m5 \<leftarrow> Str_4_Cat m4 (str ''\"mqttuser\":'') (str ''\"'') (str ''public'') (str ''\",'');
          m6 \<leftarrow> Str_4_Cat m5 (str ''\"mqttpsw\":'') (str ''\"'') (str ''xb1555895588'') (str ''\",'');
          m7 \<leftarrow> Str_3_Cat m6 (str ''\"mqtttime\":'') time (str '','');
          m8 \<leftarrow> Str_4_Cat m7 (str ''\"lastwill\":'') (str ''\"'') (str ''will'') (str ''\",'');
          m9 \<leftarrow> Str_4_Cat m8 (str ''\"lastwillsay\":'') (str ''\"'') (str ''off'') (str ''\",'');
          ma \<leftarrow> Str_3_Cat m9 (str ''\"ts\":'') stamp (str '','');
          mb \<leftarrow> Str_3_Cat ma (str ''\"runtime\":'') runs (str '','');
          imei \<leftarrow> arr_text (nImei (xb_sim s));
          mc \<leftarrow> Str_4_Cat mb (str ''\"sn\":'') (str ''\"xbwg'') imei (str ''\",'');
          card \<leftarrow> arr_text (iccid (xb_sim s));
          md \<leftarrow> Str_4_Cat mc (str ''\"iccid\":'') (str ''\"'') card (str ''\",'');
          c_strcat md (str ''}'') }"

text \<open>The product build; \<open>version_set\<close> is the answer of \<open>nwy_app_version\<close>.\<close>

definition start_Call_Thread :: "gateway \<Rightarrow> gateway" where
  "start_Call_Thread s = emit (Create_Thread Call_thread) s"

definition appimg_enter :: "bool \<Rightarrow> gateway \<Rightarrow> gateway" where
  "appimg_enter version_set s =
     (if \<not> version_set then s else Start_Poll_Addr_Thread (start_Call_Thread (emit (Create_Thread App_thread) s)))"

section \<open>The reply text\<close>

definition reply_texts :: "int \<Rightarrow> gateway \<Rightarrow> buf list" where
  "reply_texts addr s =
     [str ''\"cmd\":\"cloud\",'', str ''\"mqttip\":\"183.6.101.117\",'', str ''\"mqttport\":1882,'',
      str ''\"mqttdomain\":'', str ''\"'', str ''www.zxy168.cn'', str ''\",'', str ''\"mqttuser\":'', str ''\"'', str ''public'', str ''\",'',
      str ''\"mqttpsw\":'', str ''\"'', str ''xb1555895588'', str ''\",'', str ''\"mqtttime\":'', take 31 (fmt_d 30), str '','',
      str ''\"lastwill\":'', str ''\"'', str ''will'', str ''\",'', str ''\"lastwillsay\":'', str ''\"'', str ''off'', str ''\",'',
      str ''\"ts\":'', take 31 (fmt_d addr), str '','', str ''\"runtime\":'', take 31 (fmt_d 144), str '','',
      str ''\"sn\":'', str ''\"xbwg'', c_str (nImei (xb_sim s)), str ''\",'',
      str ''\"iccid\":'', str ''\"'', c_str (iccid (xb_sim s)), str ''\",'', str ''}'']"

lemma reply_Cmd_Cloud_eq:
  assumes "sim_terminated (xb_sim s)"
  shows "reply_Cmd_Cloud addr s msg = do { m0 \<leftarrow> wr msg 0 123; cat.append_all m0 (reply_texts addr s) }"
  using assms by (simp add: reply_Cmd_Cloud_def reply_texts_def sim_terminated_def local_texts Str_4_Cat_def Str_3_Cat_def Str_2_Cat_def)

text \<open>Into a cleared array of sufficient size the reply is one text in braces.\<close>

lemma reply_Cmd_Cloud_text:
  assumes "sim_terminated (xb_sim s)" and "length (concat (reply_texts addr s)) + 1 < n"
  shows "\<exists>m. reply_Cmd_Cloud addr s (replicate n 0) = Some m \<and> c_str m = 123 # concat (reply_texts addr s)"
proof -
  have nz: "\<forall>t \<in> set (reply_texts addr s). 0 \<notin> set t"
    using zero_notin_fmt_d by (auto simp: reply_texts_def dest: in_set_takeD)
  obtain k where n: "n = Suc (Suc k)" using assms(2) by (cases n rule: nat.exhaust) (auto dest: less_imp_Suc_add)
  have "terminated (123 # replicate (Suc k) 0)" "c_str (123 # replicate (Suc k) 0) = [123]" by (simp_all add: terminated_def c_str_def)
  moreover have "length (concat (reply_texts addr s)) \<le> c_room (123 # replicate (Suc k) 0)"
    using assms(2) n by (simp add: c_room_def c_str_def)
  ultimately show ?thesis
    using cat.append_all_ok [OF _ nz, of "123 # replicate (Suc k) 0"] by (auto simp: reply_Cmd_Cloud_eq [OF assms(1)] n)
qed

section \<open>The numbers of the SIM card\<close>

lemma cut_last_eq:
  assumes "terminated a" and "length a = n"
  shows "cut_last n a = (if c_str a = [] then None else Some (a[length (c_str a) - 1 := 0]))"
proof -
  have "length (c_str a) < n" using terminated_length [OF assms(1)] assms(2) by simp
  then show ?thesis using assms by (simp add: cut_last_def cstr_simps)
qed

lemma cut_last_text:
  assumes "terminated a" and "c_str a \<noteq> []"
  shows "c_str (a[length (c_str a) - 1 := 0]) = butlast (c_str a)" and "terminated (a[length (c_str a) - 1 := 0])"
proof -
  obtain r where a: "a = c_str a @ 0 # r" using terminated_split [OF assms(1)] by blast
  obtain t x where t: "c_str a = t @ [x]" using assms(2) by (metis rev_exhaust)
  have "0 \<notin> set t" using c_str_nonzero [of a] t by simp
  moreover have "a[length (c_str a) - 1 := 0] = t @ 0 # 0 # r" by (subst a) (simp add: t)
  ultimately show "c_str (a[length (c_str a) - 1 := 0]) = butlast (c_str a)" "terminated (a[length (c_str a) - 1 := 0])"
    by (simp_all add: c_str_append_zero t terminated_def)
qed

text \<open>\<open>get_CCID_Fun\<close>, which means to terminate the two texts, cuts the last character off both of them: an IMEI of 15
  digits is stored with 14. When the module delivers an empty text (no card), it writes in front of the array.\<close>

theorem get_CCID_Fun_cuts:
  assumes "terminated (sim_imei p)" and "length (sim_imei p) = 16" and "terminated (sim_iccid p)" and "length (sim_iccid p) = 23"
  shows "(get_CCID_Fun p s = None \<longleftrightarrow> c_str (sim_imei p) = [] \<or> c_str (sim_iccid p) = []) \<and>
    (\<forall>t. get_CCID_Fun p s = Some t \<longrightarrow> c_str (nImei (xb_sim t)) = butlast (c_str (sim_imei p)) \<and>
      c_str (iccid (xb_sim t)) = butlast (c_str (sim_iccid p)) \<and> t = s\<lparr>xb_sim := xb_sim t\<rparr>)"
  using assms cut_last_text(1) [of "sim_imei p"] cut_last_text(1) [of "sim_iccid p"]
  by (auto simp: get_CCID_Fun_def cut_last_eq split: if_splits)

definition imei_sample :: sample where
  "imei_sample = \<lparr>rf_temperature = Some (F32 25 0), adc_level = 3000, clock = xb_time init_gateway,
     sim_imei = str ''866123456789012'' @ [0], sim_iccid = str ''89860012345678901234'' @ [0, 0, 0]\<rparr>"

theorem get_CCID_Fun_cuts_witness:
  "\<exists>t. get_CCID_Fun imei_sample init_gateway = Some t \<and> c_str (nImei (xb_sim t)) = str ''86612345678901''"
proof -
  have h: "terminated (sim_imei imei_sample)" "length (sim_imei imei_sample) = 16" "terminated (sim_iccid imei_sample)" "length (sim_iccid imei_sample) = 23"
    by (simp_all add: imei_sample_def terminated_def)
  have c: "c_str (sim_imei imei_sample) = str ''866123456789012''" "c_str (sim_iccid imei_sample) \<noteq> []"
    by (simp_all add: imei_sample_def c_str_def str_def)
  then have "get_CCID_Fun imei_sample init_gateway \<noteq> None" using get_CCID_Fun_cuts [OF h] by (simp add: str_def)
  then obtain t where "get_CCID_Fun imei_sample init_gateway = Some t" by blast
  with get_CCID_Fun_cuts [OF h, of init_gateway] c show ?thesis by (simp add: str_def)
qed

section \<open>The rounds\<close>

text \<open>The samples the thread survives: the SIM texts are terminated, not empty and of the size of their arrays.\<close>

definition sample_ok :: "sample \<Rightarrow> bool" where
  "sample_ok p = (terminated (sim_imei p) \<and> length (sim_imei p) = 16 \<and> c_str (sim_imei p) \<noteq> [] \<and>
     terminated (sim_iccid p) \<and> length (sim_iccid p) = 23 \<and> c_str (sim_iccid p) \<noteq> [])"

definition sampler_inv :: "sampler \<times> gateway \<Rightarrow> bool" where
  "sampler_inv = (\<lambda>(sm, s). 0 \<le> round_nn sm \<and> round_nn sm \<le> 20 \<and> sized s)"

text \<open>The output of the round that leaves the counter at \<open>n\<close>.\<close>

definition lamp_effects :: "int \<Rightarrow> effect list" where
  "lamp_effects n = (let v = nat (n mod 2) in
     [Gpio_Output 4, Gpio_Value 4 v, Gpio_Output 28, Gpio_Value 28 v, Gpio_Output 24, Gpio_Value 24 v, Sleep 500])"

lemma set_lamps_facts:
  "trace (set_lamps v s) = trace s @ [Gpio_Output 4, Gpio_Value 4 (unat v), Gpio_Output 28, Gpio_Value 28 (unat v), Gpio_Output 24, Gpio_Value 24 (unat v)]"
  "sized (set_lamps v s) = sized s"
  by (simp_all add: set_lamps_def SET_Led_On_off_def Let_def)

lemma get_CCID_sized: "get_CCID_Fun p s = Some t \<Longrightarrow> sample_ok p \<Longrightarrow> sized s \<Longrightarrow> sized t \<and> trace t = trace s"
  by (auto simp: get_CCID_Fun_def cut_last_eq sample_ok_def sized_def)

lemma Get_Value_round_ok:
  assumes "sampler_inv x" and "sample_ok p"
  shows "\<exists>y. Get_Value_round p x = Some y \<and> sampler_inv y \<and> round_nn (fst y) = (round_nn (fst x) + 1) mod 21 \<and>
    trace (snd y) = trace (snd x) @ lamp_effects ((round_nn (fst x) + 1) mod 21)"
proof -
  obtain sm s where x: "x = (sm, s)" by fastforce
  define s2 where "s2 = (case rf_temperature p of None \<Rightarrow> s | Some t \<Rightarrow> s\<lparr>temp_IC := t\<rparr>)\<lparr>xb_time := clock p\<rparr>"
  have s2: "sized s2" "trace s2 = trace s" using assms(1) by (simp_all add: x s2_def sampler_inv_def sized_def split: option.split)
  have n: "0 \<le> round_nn sm" "round_nn sm \<le> 20" using assms(1) by (simp_all add: x sampler_inv_def)
  have v: "unat (if k mod 2 \<noteq> 0 then 1 else 0 :: u8) = nat (k mod 2)" for k :: int
    using mod2_eq_if [of k] by auto
  show ?thesis
  proof (cases "round_nn sm = 20")
    case True
    obtain t where t: "get_CCID_Fun p s2 = Some t"
      using assms(2) by (auto simp: get_CCID_Fun_def cut_last_eq sample_ok_def)
    then show ?thesis using True s2 get_CCID_sized [OF t assms(2)]
      by (simp add: Get_Value_round_def x Let_def s2_def [symmetric] sampler_inv_def set_lamps_facts lamp_effects_def)
  next
    case False
    then have "(round_nn sm + 1) mod 21 = round_nn sm + 1" using n by simp
    then show ?thesis using False n s2
      by (simp add: Get_Value_round_def x Let_def s2_def [symmetric] sampler_inv_def set_lamps_facts lamp_effects_def v [symmetric])
  qed
qed

interpretation smp: total_machine "\<lambda>x p. Get_Value_round p x" sampler_inv sample_ok
  using Get_Value_round_ok by unfold_locales (fastforce, blast)

lemma sampling_trace:
  assumes "sampler_inv x" and "list_all sample_ok ps"
  shows "\<exists>y. run_machine (\<lambda>x p. Get_Value_round p x) x ps = Some y \<and> round_nn (fst y) = (round_nn (fst x) + int (length ps)) mod 21 \<and>
    trace (snd y) = trace (snd x) @ concat (map (\<lambda>k. lamp_effects ((round_nn (fst x) + int k) mod 21)) [1..<Suc (length ps)])"
  using assms
proof (induction ps arbitrary: x)
  case Nil
  then have "round_nn (fst x) mod 21 = round_nn (fst x)" by (cases x) (simp add: sampler_inv_def)
  then show ?case by simp
next
  case (Cons p ps)
  then obtain y where y: "Get_Value_round p x = Some y" "sampler_inv y" "round_nn (fst y) = (round_nn (fst x) + 1) mod 21"
      "trace (snd y) = trace (snd x) @ lamp_effects ((round_nn (fst x) + 1) mod 21)"
    using Get_Value_round_ok [of x p] by auto
  have sh: "map (\<lambda>k. lamp_effects ((round_nn (fst y) + int k) mod 21)) [1..<Suc (length ps)] =
      map (\<lambda>k. lamp_effects ((round_nn (fst x) + int k) mod 21)) [2..<Suc (Suc (length ps))]"
    by (simp add: y(3) mod_simps map_Suc_upt [symmetric] numeral_2_eq_2 comp_def ac_simps del: upt_Suc)
  from Cons.IH [OF y(2)] Cons.prems y(1,3,4) sh show ?case
    by (auto simp: mod_simps ac_simps upt_conv_Cons [of "Suc 0"] numeral_2_eq_2 simp del: upt_Suc)
qed

text \<open>C32: the sampling thread, as long as the module delivers texts for IMEI and card number: no round fails, the arrays keep
  their sizes, and after any number of rounds the output is that of the counter running through 0 to 20: three lamps on in
  odd rounds and off in even ones, with half a second between.\<close>

theorem sampling_rounds:
  assumes "sized s" and "list_all sample_ok ps"
  shows "\<exists>sm t. run_machine (\<lambda>x p. Get_Value_round p x) (\<lparr>Last_AD = 0, round_nn = 0\<rparr>, s) ps = Some (sm, t) \<and> sized t \<and>
    round_nn sm = int (length ps) mod 21 \<and>
    trace t = trace s @ concat (map (\<lambda>k. lamp_effects (int k mod 21)) [1..<Suc (length ps)])"
proof -
  let ?x = "(\<lparr>Last_AD = 0, round_nn = 0\<rparr>, s)"
  have i: "sampler_inv ?x" using assms(1) by (simp add: sampler_inv_def)
  obtain y where y: "run_machine (\<lambda>x p. Get_Value_round p x) ?x ps = Some y" "sampler_inv y"
    using smp.run_total [OF i assms(2)] by blast
  then show ?thesis using sampling_trace [OF i assms(2)] by (cases y) (auto simp: sampler_inv_def simp del: upt_Suc)
qed

theorem sampling_rounds_witness:
  "\<exists>sm t. run_machine (\<lambda>x p. Get_Value_round p x) (\<lparr>Last_AD = 0, round_nn = 0\<rparr>, init_gateway) (replicate 42 imei_sample) = Some (sm, t) \<and>
    sized t \<and> round_nn sm = 0"
proof -
  have "sample_ok imei_sample" by (simp add: sample_ok_def imei_sample_def terminated_def c_str_def str_def)
  then have "list_all sample_ok (replicate 42 imei_sample)" by (simp add: list_all_iff)
  from sampling_rounds [OF sized_init this] show ?thesis by auto
qed

end
