(* ===== verification/System.thy ===== *)
theory System
  imports BleTable NetCmd Mqtt Sampler
begin

text \<open>
  The gateway as one system: the threads and callbacks of the components as the steps of a relation on the shared globals
  and the file system, in any order. An invariant of this relation (the arrays keep their declared sizes, and the state is
  \<open>calm\<close>) gives progress: from every reachable state the threads, and the handlers named below, can take their next step.
\<close>

section \<open>Sizes under updates\<close>

named_theorems sized_intros \<open>updates that keep the sizes of the arrays\<close>

lemma sized_msg [sized_intros]: "sized s \<Longrightarrow> length m = 512 \<Longrightarrow> sized (s\<lparr>mqtt_report_Msg := m\<rparr>)"
  by (simp add: sized_def)

lemma sized_net [sized_intros]: "sized s \<Longrightarrow> Net_Set_sized n \<Longrightarrow> sized (s\<lparr>Net_Info := n\<rparr>)"
  by (simp add: sized_def)

lemma sized_handles [sized_intros]: "sized s \<Longrightarrow> length h = 2 \<Longrightarrow> sized (s\<lparr>RS485_hd := h\<rparr>)"
  by (simp add: sized_def)

lemma sized_cmd [sized_intros]: "sized s \<Longrightarrow> length c = 5 \<Longrightarrow> sized (s\<lparr>poll_Cmd := c\<rparr>)" "sized s \<Longrightarrow> length c = 5 \<Longrightarrow> sized (s\<lparr>poll_Ctrl_Cmd := c\<rparr>)"
  by (simp_all add: sized_def)

lemma sized_white [sized_intros]: "sized s \<Longrightarrow> length ws = 100 \<Longrightarrow> list_all (\<lambda>a. length a = 6) ws \<Longrightarrow> sized (s\<lparr>White_Name_Ble := ws\<rparr>)"
  by (simp add: sized_def)

lemma sized_devs [sized_intros]:
  "sized s \<Longrightarrow> i < 32 \<Longrightarrow> length (sn d) = 12 \<Longrightarrow> sized (s\<lparr>xb_SubDev_SN := (xb_SubDev_SN s)[i := d]\<rparr>)"
  by (auto simp: sized_def list_all_iff dest!: set_update_subset_insert [THEN subsetD])

lemma sized_plain [simp]:
  "sized (s\<lparr>mqtt_report_Len := l\<rparr>) = sized s" "sized (s\<lparr>thread_Fg := v\<rparr>) = sized s" "sized (s\<lparr>poll_id := v\<rparr>) = sized s"
  "sized (s\<lparr>Poll_Addr_id := v\<rparr>) = sized s" "sized (s\<lparr>Dev_Num := v\<rparr>) = sized s" "sized (s\<lparr>restart_fg := v\<rparr>) = sized s"
  "sized (s\<lparr>value_zone_0 := z\<rparr>) = sized s" "sized (s\<lparr>fg_Snding_485 := v\<rparr>) = sized s" "sized (s\<lparr>Fg_Snding_Mqtt := v\<rparr>) = sized s"
  "sized (s\<lparr>BLE_num_Scan := v\<rparr>) = sized s" "sized (s\<lparr>White_Name_Num := v\<rparr>) = sized s" "sized (s\<lparr>Zone4_Info := zi\<rparr>) = sized s"
  "sized (s\<lparr>xb_time := t\<rparr>) = sized s" "sized (s\<lparr>temp_IC := x\<rparr>) = sized s"
  by (simp_all add: sized_def)

lemmas sized_lengths = sized_def list_all_length

lemma sized_dests:
  "sized s \<Longrightarrow> length (mqtt_report_Msg s) = 512" "sized s \<Longrightarrow> length (RS485_hd s) = 2" "sized s \<Longrightarrow> length (poll_Cmd s) = 5"
  "sized s \<Longrightarrow> length (poll_Ctrl_Cmd s) = 5" "sized s \<Longrightarrow> length (xb_SubDev_SN s) = 32" "sized s \<Longrightarrow> i < 32 \<Longrightarrow> length (sn (xb_SubDev_SN s ! i)) = 12"
  by (simp_all add: sized_lengths)

lemma bindE: "Option.bind x f = Some y \<Longrightarrow> (\<And>z. x = Some z \<Longrightarrow> f z = Some y \<Longrightarrow> P) \<Longrightarrow> P"
  by (cases x) auto

section \<open>The bus\<close>

lemma Uart1_sized: "Snd_485_Msg_Uart1 uart msg len s = Some t \<Longrightarrow> sized s \<Longrightarrow> sized t"
  by (auto simp: Snd_485_Msg_Uart1_def Let_def Option.bind_eq_Some_conv sized_dests intro!: sized_intros dest!: wr_length)

lemma Uart2_sized: "Snd_485_Msg_Uart2 uart msg len s = Some t \<Longrightarrow> sized s \<Longrightarrow> sized t"
  by (auto simp: Snd_485_Msg_Uart2_def Let_def Option.bind_eq_Some_conv sized_dests intro!: sized_intros dest!: wr_length)

lemmas bus_sized = Uart1_sized [folded Snd_N_ISO_485_def] Uart2_sized [folded Snd_OUT_ISO_485_def]

lemma Snd_Restart_sized: "Snd_Restart uart b4 s = Some t \<Longrightarrow> sized s \<Longrightarrow> sized t"
  by (auto simp: Snd_Restart_def Let_def Option.bind_eq_Some_conv split: if_splits dest: bus_sized)

lemma Snd_Ctrl_Cmd_sized: "Snd_Ctrl_Cmd uart d c s = Some t \<Longrightarrow> sized s \<Longrightarrow> sized t"
  by (auto simp: Snd_Ctrl_Cmd_def Let_def Option.bind_eq_Some_conv dest: bus_sized)

lemma Snd_All_sized: "Snd_All uart n i e s = Some t \<Longrightarrow> sized s \<Longrightarrow> sized t"
  by (induction n arbitrary: i s) (auto simp: Option.bind_eq_Some_conv dest: Snd_Ctrl_Cmd_sized)

lemma Count_No_Ans_sized: "Count_No_Ans n i s = Some t \<Longrightarrow> sized s \<Longrightarrow> sized t"
proof (induction n arbitrary: i s)
  case (Suc n)
  then obtain d ds where d: "rd (xb_SubDev_SN s) (i - 1) = Some d"
      "wr (xb_SubDev_SN s) (i - 1) (if No_Ans_Cnt d < 3 then d\<lparr>No_Ans_Cnt := No_Ans_Cnt d + 1\<rparr> else d) = Some ds"
      "Count_No_Ans n (i + 1) (s\<lparr>xb_SubDev_SN := ds\<rparr>) = Some t"
    by (auto simp: Option.bind_eq_Some_conv)
  then have "sized (s\<lparr>xb_SubDev_SN := ds\<rparr>)" using Suc.prems(2) by (auto simp: sized_dests intro!: sized_intros)
  with d(3) show ?case by (rule Suc.IH)
qed simp

lemma conver_Crc_length: "conver_Crc c b i = Some b' \<Longrightarrow> length b' = length b"
  by (auto simp: conver_Crc_def Option.bind_eq_Some_conv dest!: wr_length)

lemma Poll_Addr_round_sized: "Poll_Addr_round uart b4 s e = Some t \<Longrightarrow> sized s \<Longrightarrow> sized t"
  by (auto simp: Poll_Addr_round_def Let_def Option.bind_eq_Some_conv Start_Ctrl_Thread_def Set_Poll_Addr_Pin_Low_def
      split: if_splits dest!: Snd_Restart_sized bus_sized conver_Crc_length wr_length intro!: sized_intros simp: sized_dests)

lemma Rs485_Ctrl_round_sized:
  assumes "Rs485_Ctrl_round uart s e = Some t" and "sized s"
  shows "sized t"
  using assms(1) unfolding Rs485_Ctrl_round_def Let_def
proof (elim bindE)
  fix c0 c1 c2 c c3 c4 s2
  let ?s = "s\<lparr>thread_Fg := 2, poll_Ctrl_Cmd := c4, fg_Snding_485 := 1\<rparr>"
  assume "wr (poll_Ctrl_Cmd (s\<lparr>thread_Fg := 2\<rparr>)) 0 (poll_id (s\<lparr>thread_Fg := 2\<rparr>)) = Some c0" "wr c0 1 0x4D = Some c1" "wr c1 2 0 = Some c2"
    "wr c2 3 (hi8 (ucast (c :: u32))) = Some c3" "wr c3 4 (lo8 (ucast c)) = Some c4"
  then have "length c4 = 5" using assms(2) by (auto simp: sized_dests dest!: wr_length)
  then have s1: "sized ?s" using assms(2) by (auto intro!: sized_intros)
  assume "(if is_switch_event e
      then (if e = EVENT_SND_485_CTRL then Snd_Ctrl_Cmd uart 1 (ucast RELAY_ALL_ON) ?s else Snd_All uart (unat (Dev_Num ?s)) 1 e ?s)
      else do { s' \<leftarrow> (if poll_id ?s + 1 > Dev_Num ?s then Count_No_Ans (unat (Dev_Num ?s)) 1 (?s\<lparr>poll_id := 1\<rparr>) else Some (?s\<lparr>poll_id := poll_id ?s + 1\<rparr>));
                Snd_N_ISO_485 uart (poll_Ctrl_Cmd s') 5 s' }) = Some s2" and t: "Some (s2\<lparr>fg_Snding_485 := 0\<rparr>) = Some t"
  with s1 have "sized s2"
    by (auto split: if_splits elim!: bindE dest!: Snd_Ctrl_Cmd_sized Snd_All_sized Count_No_Ans_sized bus_sized)
  with t show ?thesis by auto
qed

lemma hex_append_length: "hex_append n i rx msg = Some m \<Longrightarrow> length m = length msg"
  by (induction n arbitrary: i msg) (auto simp: Option.bind_eq_Some_conv dest!: c_strcat_length)

lemma handle_n_Iso_sized:
  assumes "handle_n_Iso rx len s = Some t" and "sized s"
  shows "sized t"
proof (cases "rd rx 0 = Some 0")
  case True
  with assms show ?thesis by (simp add: handle_n_Iso_def)
next
  case False
  with assms(1) obtain i d where d: "i < 32" "d = xb_SubDev_SN s ! i"
      and r: "do { m0 \<leftarrow> buf_fill (mqtt_report_Msg s) 0 0 MSG_REPLY_LEN; m1 \<leftarrow> c_strcat m0 (str ''6,''); m2 \<leftarrow> c_strcat m1 (str ''6,'');
        if len \<le> 6 then Some (s\<lparr>xb_SubDev_SN := (xb_SubDev_SN s)[i := d\<lparr>No_Ans_Cnt := 0\<rparr>], mqtt_report_Msg := m2\<rparr>)
        else do { m3 \<leftarrow> hex_append (unat len) 0 rx m2;
                  let s2 = s\<lparr>xb_SubDev_SN := (xb_SubDev_SN s)[i := d\<lparr>No_Ans_Cnt := 0\<rparr>], mqtt_report_Msg := m3, mqtt_report_Len := sint (len * 2)\<rparr>;
                  s3 \<leftarrow> Waiting_Mqtt (Fg_Snding_Mqtt s2) s2;
                  Some (emit (Send_Sig Mqtt_Snd_task EVENT_SND_485_CTRL) s3) } } = Some t"
    using sized_dests(5) [OF assms(2)] unfolding handle_n_Iso_def Let_def wr_def
    by (auto elim!: bindE [of "rd _ _"] split: if_splits)
  have "sized (s\<lparr>xb_SubDev_SN := (xb_SubDev_SN s)[i := d\<lparr>No_Ans_Cnt := 0\<rparr>]\<rparr>)"
    using d assms(2) by (intro sized_intros) (simp_all add: sized_dests)
  from sized_msg [OF this] r show ?thesis
    using sized_dests(1) [OF assms(2)]
    by (auto simp: Let_def Waiting_Mqtt_eq elim!: bindE split: if_splits dest!: buf_fill_length c_strcat_length hex_append_length)
qed

lemma store_sn_sized: "store_sn i rx s = Some t \<Longrightarrow> sized s \<Longrightarrow> sized t"
  by (auto simp: store_sn_def Option.bind_eq_Some_conv sized_dests wr_def split: if_splits dest!: buf_write_length intro!: sized_intros)

section \<open>Settings and replies\<close>

lemma Set_Cmd_token_net: "Set_Cmd_token blk para net = Some (b, n) \<Longrightarrow> length n = length net"
  by (auto simp: Set_Cmd_token_def Let_def Option.bind_eq_Some_conv split: if_splits option.splits dest!: buf_write_length buf_fill_length)

lemma Set_Cmd_loop_net: "Set_Cmd_loop blk para p net = Some n \<Longrightarrow> length n = length net"
proof (induction blk para p net rule: Set_Cmd_loop.induct)
  case (1 blk para p net)
  then show ?case
    by (subst (asm) (2) Set_Cmd_loop.simps) (fastforce split: option.splits prod.splits dest: Set_Cmd_token_net)
qed

lemma Set_Cmd_parse_net: "Set_Cmd_parse mem behind txt net = Some (d, n) \<Longrightarrow> length n = length net"
  by (auto simp: Set_Cmd_parse_def Option.bind_eq_Some_conv split: if_splits option.splits dest: Set_Cmd_loop_net)

lemma Net_Set_of_bytes_sized: "length b = 224 \<Longrightarrow> Net_Set_sized (Net_Set_of_bytes b)"
  by (simp add: Net_Set_sized_def Net_Set_of_bytes_def)

lemma Handle_Set_Cmd_sized:
  assumes "Handle_Set_Cmd fs tmp mem behind b s w = Some (t, w')" and "sized s"
  shows "sized t"
proof -
  have n: "Net_Set_sized (Net_Info s)" using assms(2) by (simp add: sized_def)
  have ip: "Net_Set_sized m \<Longrightarrow> Net_Set_sized (m\<lparr>mqttip := replicate 16 0\<rparr>)" for m by (simp add: Net_Set_sized_def)
  from assms(1) show ?thesis unfolding Handle_Set_Cmd_def Let_def
  proof (elim bindE, clarify)
    fix tx :: buf and d m
    let ?s = "emit (Malloc (length tx + 1)) (s\<lparr>Net_Info := Net_Set_of_bytes m\<rparr>)"
    assume "Set_Cmd_parse mem behind tx (Net_Set_bytes (Net_Info s)) = Some (d, m)"
    then have "Net_Set_sized (Net_Set_of_bytes m)" using n Set_Cmd_parse_net length_Net_Set_bytes by (intro Net_Set_of_bytes_sized) simp
    then have "sized ?s" "Net_Set_sized (Net_Info ?s)" using assms(2) by (simp_all add: sized_net)
    moreover from this have "sized (?s\<lparr>Net_Info := (Net_Info ?s)\<lparr>mqttip := replicate 16 0\<rparr>\<rparr>)" by (intro sized_net ip)
    moreover assume "(if \<not> d then Some (?s, w)
        else do { w1 \<leftarrow> Test_Add_Net_Info fs tmp ?s w; v \<leftarrow> Is_Valid_IP (mqttip (Net_Info ?s));
                  Some (emit (Sleep 1000) (if v = 0 then ?s\<lparr>Net_Info := (Net_Info ?s)\<lparr>mqttip := replicate 16 0\<rparr>\<rparr> else ?s), w1) }) = Some (t, w')"
    ultimately show "sized t" by (auto elim!: bindE split: if_splits)
  qed
qed

lemma Str_Cat_length:
  "Str_2_Cat d a b = Some m \<Longrightarrow> length m = length d" "Str_3_Cat d a b c = Some m \<Longrightarrow> length m = length d"
  "Str_4_Cat d a b c e = Some m \<Longrightarrow> length m = length d"
  by (auto simp: Str_4_Cat_def Str_3_Cat_def Str_2_Cat_def Option.bind_eq_Some_conv dest!: c_strcat_length)

lemma Reply_sized:
  "Reply_Restart msg len s = Some (m, t) \<Longrightarrow> sized s \<Longrightarrow> sized t \<and> length m = length msg"
  "Reply_Set_Cmd msg len s = Some m \<Longrightarrow> length m = length msg"
  "Reply_Cloud_Cmd msg len s = Some (m, t) \<Longrightarrow> sized s \<Longrightarrow> sized t \<and> length m = length msg"
  by (auto simp: Reply_Restart_def Reply_Set_Cmd_def Reply_Cloud_Cmd_def Option.bind_eq_Some_conv
      dest!: Str_Cat_length c_strcat_length buf_fill_length)

lemma handle_Iso_Setting_sized: "handle_Iso_Setting uart fs tmp mem behind rx s w = Some (t, w') \<Longrightarrow> sized s \<Longrightarrow> sized t"
  by (auto simp: handle_Iso_Setting_def Let_def Option.bind_eq_Some_conv split: if_splits
      dest!: Reply_sized bus_sized Handle_Set_Cmd_sized)

lemma handle_rec_sized:
  assumes "handle_rec uart fs tmp mem behind h rx len s w = Some (t, w')" and "sized s"
  shows "sized t"
  using assms unfolding handle_rec_def
  by (auto elim!: bindE split: if_splits dest!: store_sn_sized handle_n_Iso_sized handle_Iso_Setting_sized)

section \<open>Cloud commands\<close>

lemma reply_crc_sized: "reply_crc m n s = Some t \<Longrightarrow> sized s \<Longrightarrow> length m = 512 \<Longrightarrow> sized t"
  by (auto simp: reply_crc_def Option.bind_eq_Some_conv dest!: conver_Crc_length intro!: sized_intros)

text \<open>A command that only writes its reply.\<close>

definition only_reply :: "gateway \<Rightarrow> gateway \<Rightarrow> bool" where
  "only_reply s t = (t = s\<lparr>mqtt_report_Msg := mqtt_report_Msg t, mqtt_report_Len := mqtt_report_Len t\<rparr>)"

lemma only_reply_sized: "only_reply s t \<Longrightarrow> sealed_reply t \<Longrightarrow> sized s \<Longrightarrow> sized t"
  unfolding only_reply_def sealed_reply_def by (metis sized_msg sized_plain(1))

lemma reply_crc_only: "reply_crc m n s = Some t \<Longrightarrow> only_reply s t"
  by (auto simp: reply_crc_def only_reply_def Option.bind_eq_Some_conv)

lemma zone_reads_only:
  "zone_read_0 m s = Some t \<Longrightarrow> only_reply s t" "zone_read_1 m s = Some t \<Longrightarrow> only_reply s t"
  by (auto simp: zone_read_0_def zone_read_1_def elim!: bindE dest!: reply_crc_only)

lemma zone_read_3_only: "zone_read_3 m s = Some t \<Longrightarrow> only_reply s t"
  unfolding zone_read_3_def Let_def by (elim bindE) (auto intro: reply_crc_only)

lemma zone_read_4_only: "zone_read_4 m s = Some t \<Longrightarrow> only_reply s t"
  unfolding zone_read_4_def Let_def by (elim bindE) (erule reply_crc_only)

lemmas zone_read_sized =
  only_reply_sized [OF zone_reads_only(1) zone_read_0_sealed] only_reply_sized [OF zone_reads_only(2) zone_read_1_sealed]
  only_reply_sized [OF zone_read_3_only zone_read_3_sealed] only_reply_sized [OF zone_read_4_only zone_read_4_sealed]

lemma zone_write_0_sized: "zone_write_0 b m s = Some t \<Longrightarrow> sized s \<Longrightarrow> length m = 512 \<Longrightarrow> sized t"
  by (auto simp: zone_write_0_def elim!: bindE dest!: buf_write_length intro!: sized_intros)

lemma zone_unknown_sized: "zone_unknown m s = Some t \<Longrightarrow> sized s \<Longrightarrow> length m = 512 \<Longrightarrow> sized t"
  by (auto simp: zone_unknown_def elim!: bindE dest!: buf_fill_length c_strcat_length intro!: sized_intros)

lemma zone_relay_sized: "zone_relay e b m s = Some t \<Longrightarrow> sized s \<Longrightarrow> length m = 512 \<Longrightarrow> sized t"
  unfolding zone_relay_def Let_def Waiting_Mqtt_eq
  by (elim bindE) (auto split: if_splits dest!: buf_write_length intro!: sized_intros)

lemma zone4_store_sized:
  "zone4_store k n p b ws = Some ws' \<Longrightarrow> list_all (\<lambda>a. length a = 6) ws \<Longrightarrow> length ws' = length ws \<and> list_all (\<lambda>a. length a = 6) ws'"
proof (induction k n p b ws rule: zone4_store.induct)
  case (2 k n p b ws)
  then obtain a ws1 where "buf_read b p 6 = Some a" "wr ws n a = Some ws1" "zone4_store k (n + 1) (p + 6) b ws1 = Some ws'"
    by (auto elim!: bindE)
  moreover from this have "length ws1 = length ws" "list_all (\<lambda>a. length a = 6) ws1"
    using 2(3) by (auto simp: buf_read_Some_iff wr_def list_all_iff split: if_splits dest!: set_update_subset_insert [THEN subsetD])
  ultimately show ?case using 2(1) by auto
qed simp

lemma zone_write_4_sized:
  assumes "zone_write_4 fs pad tmp b m s w = Some (t, w')" and "sized s" and "length m = 512"
  shows "sized t"
  using assms(1) unfolding zone_write_4_def Let_def
proof (elim bindE)
  fix v0 v1 v2 v3 v4 v5 v6 v7 n ws w1 x0 x1 m1 m2 m3 s2
  let ?s = "s\<lparr>Zone4_Info := \<lparr>Temp_Set_Hig = v0, Temp_Set_Low = v1, Voltage_Over_Set = v2, Voltage_Low_Set = v3,
    BLE_Scan_Span = v4, BLE_Min = v5, BLE_Hour = v6, BLE_Week = ucast (v7 :: u16)\<rparr>, White_Name_Num := n, White_Name_Ble := ws\<rparr>"
  assume "zone4_store (unat n) 0 16 b (White_Name_Ble s) = Some ws"
  then have "length ws = 100" "list_all (\<lambda>a. length a = 6) ws" using assms(2) by (auto simp: sized_def dest: zone4_store_sized)
  then have "sized ?s" using assms(2) by (intro sized_white) simp_all
  moreover assume "wr m 0 x0 = Some m1" "wr m1 1 x1 = Some m2" "wr m2 2 1 = Some m3"
  then have "length m3 = 512" using assms(3) by (auto dest!: wr_length)
  moreover assume "reply_crc m3 3 ?s = Some s2" "Some (s2, w1) = Some (t, w')"
  ultimately show ?thesis using reply_crc_sized by auto
qed

lemma zone_cmd_sized:
  assumes "zone_cmd fs pad tmp ev b m s w = Some (t, w')" and "sized s" and "length m = 512"
  shows "sized t"
  using assms unfolding zone_cmd_def
  by (auto elim!: bindE split: if_splits
      intro: zone_read_sized zone_write_0_sized zone_unknown_sized zone_relay_sized zone_write_4_sized)

lemma handle_Net_Cmd_sized:
  assumes "handle_Net_Cmd fs tmpN mem behind pad tmpZ ev b len s w = Some (t, w')" and "sized s"
  shows "sized t"
  using assms unfolding handle_Net_Cmd_def Let_def
  by (auto simp: Start_Reset_Thread_def sized_dests elim!: bindE split: if_splits
      dest!: Reply_sized Handle_Set_Cmd_sized buf_fill_length intro!: sized_msg) (erule zone_cmd_sized, simp_all add: sized_msg)

lemma messageArrived_sized:
  "messageArrived fs tmpN mem behind pad tmpZ ev topic b len s w = Some (t, w') \<Longrightarrow> sized s \<Longrightarrow> sized t"
  unfolding messageArrived_def by (auto elim!: bindE split: if_splits dest: handle_Net_Cmd_sized)

section \<open>Reports, scanning and sampling\<close>

lemma Generate_Time_state: "Generate_Time now m s = Some (m', t) \<Longrightarrow> t = s\<lparr>xb_time := now\<rparr>"
  by (auto simp: Generate_Time_def Let_def elim!: bindE)

lemma Generate_Report_sized:
  assumes "Generate_Report_WG_Info csq now s = Some t" and "sized s"
  shows "sized t"
  using assms(1) unfolding Generate_Report_WG_Info_def
proof (elim bindE, clarify)
  fix m2 m3 s1 m7 m8 n r0 r
  assume "Generate_Time now m2 s = Some (m3, s1)"
  then have s1: "sized s1" using assms(2) by (auto dest!: Generate_Time_state)
  assume "do { m4 \<leftarrow> Generate_Comm m3 s1; m5 \<leftarrow> Generate_pos m4 s1; m6 \<leftarrow> Generate_Signal m5 (Dev_Num s1);
      m7 \<leftarrow> Generate_OnLine m6 s1; m8 \<leftarrow> c_strcat m7 (str ''}''); n \<leftarrow> c_strlen m8;
      r0 \<leftarrow> buf_fill (mqtt_report_Msg s1) 0 0 MSG_REPLY_LEN; r \<leftarrow> buf_write r0 0 (take n m8);
      Some (s1\<lparr>mqtt_report_Msg := r, mqtt_report_Len := int n\<rparr>) } = Some t"
  then show "sized t" using s1 sized_dests(1) [OF s1]
    by (elim bindE) (auto dest!: buf_fill_length buf_write_length intro!: sized_intros)
qed

lemma mqtt_Snd_round_sized: "mqtt_Snd_round (s, n, m, st) i = Some (t, n', m', st') \<Longrightarrow> sized s \<Longrightarrow> sized t"
  unfolding mqtt_Snd_round_def
  by (auto simp: Let_def elim!: bindE split: if_splits dest: Generate_Report_sized)

lemma sized_ble [sized_intros]:
  "sized s \<Longrightarrow> i < 200 \<Longrightarrow> length (bdAddress d) = 6 \<Longrightarrow> sized (s\<lparr>Ble_Dev_Exist := (Ble_Dev_Exist s)[i := d]\<rparr>)"
  by (rule sized_table_update)

lemma sized_ble_map: "sized s \<Longrightarrow> (\<And>d. length (bdAddress d) = 6 \<Longrightarrow> length (bdAddress (f d)) = 6) \<Longrightarrow> sized (s\<lparr>Ble_Dev_Exist := map f (Ble_Dev_Exist s)\<rparr>)"
  by (auto simp: sized_def list_all_iff)

lemma Find_Ble_sized:
  assumes "Find_Ble pt s = Some t" and "sized s" and "length pt = 6"
  shows "sized t"
proof -
  have l: "length (Ble_Dev_Exist s) = 200" "i < 200 \<Longrightarrow> length (bdAddress (Ble_Dev_Exist s ! i)) = 6" for i
    using assms(2) by (simp_all add: sized_lengths)
  from assms show ?thesis unfolding Find_Ble_def Let_def
    by (auto simp: wr_def l elim!: bindE split: option.splits if_splits dest!: first_idx_Some intro!: sized_intros)
qed

lemma scan_dev_sized:
  assumes "nwy_ble_client_scan_dev_func s a = Some t" and "sized s" and "length a = 6"
  shows "sized t"
proof -
  have "sized (s\<lparr>scan_info := (scan_info s)[i := a]\<rparr>)" for i
    using assms(2,3) by (auto simp: sized_def list_all_iff dest!: set_update_subset_insert [THEN subsetD])
  with assms(1,3) show ?thesis unfolding nwy_ble_client_scan_dev_func_def Fun_Update_Ble_def
    by (auto simp: wr_def elim!: bindE split: if_splits dest!: Find_Ble_sized)
qed

lemma scan_run_sized: "run_machine nwy_ble_client_scan_dev_func s found = Some t \<Longrightarrow> sized s \<Longrightarrow> list_all (\<lambda>a. length a = 6) found \<Longrightarrow> sized t"
  by (induction found arbitrary: s) (auto elim!: bindE dest: scan_dev_sized)

lemma Ble_Call_sized:
  assumes "prvThreadEntry_Ble_Call_body s found = Some t" and "sized s" and "list_all (\<lambda>a. length a = 6) found"
  shows "sized t"
proof -
  have "length (bdAddress (age_dev d)) = 6" if "length (bdAddress d) = 6" for d
    using that by (simp add: age_dev_def zero_dev_def zero_addr_def)
  then have u: "sized (Update_DeatTime x)" if "sized x" for x using that by (simp add: Update_DeatTime_def sized_ble_map)
  have "length (bdAddress (mark_dev ws d)) = 6" if "length (bdAddress d) = 6" for ws d
    using that by (simp add: mark_dev_def Let_def split: option.split)
  then have "sized (Upate_White_Name x)" if "sized x" for x using that by (simp add: Upate_White_Name_def sized_ble_map)
  with assms u show ?thesis unfolding prvThreadEntry_Ble_Call_body_def Let_def
    by (auto elim!: bindE dest!: scan_run_sized)
qed

lemma Get_Value_sized:
  assumes "Get_Value_round p (sm, s) = Some (sm', t)" and "sized s" and "length (sim_imei p) = 16" and "length (sim_iccid p) = 23"
  shows "sized t"
proof -
  have cut: "cut_last n a = Some b \<Longrightarrow> length b = length a" for n a b
    by (auto simp: cut_last_def elim!: bindE split: if_splits dest!: wr_length)
  have sim: "get_CCID_Fun p x = Some y \<Longrightarrow> sized x \<Longrightarrow> sized y" for x y
    using assms(3,4) by (auto simp: get_CCID_Fun_def sized_def elim!: bindE dest!: cut)
  have temp: "sized (case rf_temperature p of None \<Rightarrow> s | Some t \<Rightarrow> s\<lparr>temp_IC := t\<rparr>)" using assms(2) by (simp split: option.split)
  from assms(1) show ?thesis unfolding Get_Value_round_def Let_def
    using temp by (auto simp: set_lamps_facts elim!: bindE split: if_splits dest!: sim)
qed

section \<open>What every step keeps\<close>

text \<open>The invariant of the system beside the sizes: no frame is marked as being sent (\<open>f\<close> is \<open>fg_Snding_485\<close>, which the control
  thread sets for the time of a round), the bus is idle and was used properly, no counter exceeds its limit, the card number is
  terminated, and the Bluetooth table is in order.\<close>

definition calm :: "(nat \<Rightarrow> int) \<Rightarrow> u8 \<Rightarrow> gateway \<Rightarrow> bool" where
  "calm uart f s = (fg_Snding_485 s = f \<and> Fg_Snding_Mqtt s = 0 \<and> bus_idle uart (trace s) \<and>
     list_all (\<lambda>d. No_Ans_Cnt d \<le> 3) (xb_SubDev_SN s) \<and> terminated (iccid (xb_sim s)) \<and> distinct (addrs s) \<and>
     list_all (\<lambda>d. 0 \<le> time_Dead d \<and> time_Dead d \<le> BLE_DEAD_MAX_TIME) (Ble_Dev_Exist s) \<and> BLE_num_Scan s \<le> 30)"

lemma calm_plain [simp]:
  "calm uart f (s\<lparr>mqtt_report_Msg := m\<rparr>) = calm uart f s" "calm uart f (s\<lparr>mqtt_report_Len := l\<rparr>) = calm uart f s"
  "calm uart f (s\<lparr>Net_Info := n\<rparr>) = calm uart f s" "calm uart f (s\<lparr>RS485_hd := h\<rparr>) = calm uart f s"
  "calm uart f (s\<lparr>poll_Cmd := c\<rparr>) = calm uart f s" "calm uart f (s\<lparr>poll_Ctrl_Cmd := c\<rparr>) = calm uart f s"
  "calm uart f (s\<lparr>White_Name_Ble := ws\<rparr>) = calm uart f s" "calm uart f (s\<lparr>thread_Fg := v\<rparr>) = calm uart f s"
  "calm uart f (s\<lparr>poll_id := i\<rparr>) = calm uart f s" "calm uart f (s\<lparr>Poll_Addr_id := i\<rparr>) = calm uart f s"
  "calm uart f (s\<lparr>Dev_Num := i\<rparr>) = calm uart f s" "calm uart f (s\<lparr>restart_fg := r\<rparr>) = calm uart f s"
  "calm uart f (s\<lparr>value_zone_0 := z\<rparr>) = calm uart f s" "calm uart f (s\<lparr>White_Name_Num := i\<rparr>) = calm uart f s"
  "calm uart f (s\<lparr>Zone4_Info := zi\<rparr>) = calm uart f s" "calm uart f (s\<lparr>xb_time := t\<rparr>) = calm uart f s"
  "calm uart f (s\<lparr>temp_IC := x\<rparr>) = calm uart f s" "calm uart f (s\<lparr>fg_Snding_485 := v, RS485_hd := h\<rparr>) = calm uart f (s\<lparr>fg_Snding_485 := v\<rparr>)"
  by (simp_all add: calm_def addrs_def)

lemma calm_flag: "calm uart f s \<Longrightarrow> calm uart v (s\<lparr>fg_Snding_485 := v\<rparr>)"
  by (simp add: calm_def addrs_def)

lemma calm_published: "calm uart f s \<Longrightarrow> calm uart f (s\<lparr>Fg_Snding_Mqtt := 0\<rparr>)"
  by (simp add: calm_def addrs_def)

lemma calm_emits: "calm uart f s \<Longrightarrow> bus_idle uart es \<Longrightarrow> calm uart f (s\<lparr>trace := trace s @ es\<rparr>)"
  by (simp add: calm_def addrs_def bus_idle_append)

lemma calm_emit [simp]: "calm uart f s \<Longrightarrow> bus_idle uart [e] \<Longrightarrow> calm uart f (emit e s)"
  unfolding emit_def by (rule calm_emits)

lemma calm_devs [simp]: "calm uart f s \<Longrightarrow> No_Ans_Cnt d \<le> 3 \<Longrightarrow> calm uart f (s\<lparr>xb_SubDev_SN := (xb_SubDev_SN s)[i := d]\<rparr>)"
  by (auto simp: calm_def addrs_def list_all_iff dest!: set_update_subset_insert [THEN subsetD])

lemma calm_dev: "calm uart f s \<Longrightarrow> i < length (xb_SubDev_SN s) \<Longrightarrow> No_Ans_Cnt (xb_SubDev_SN s ! i) \<le> 3"
  by (auto simp: calm_def list_all_length)

subsection \<open>The bus\<close>

lemma Uart1_calm: "Snd_485_Msg_Uart1 uart msg len s = Some t \<Longrightarrow> calm uart f s \<Longrightarrow> calm uart f t"
proof -
  assume a: "Snd_485_Msg_Uart1 uart msg len s = Some t" "calm uart f s"
  then obtain h where "len \<le> length msg" "t = s\<lparr>trace := trace s @ uart1_effects uart (take len msg), RS485_hd := h\<rparr>"
    by (auto simp: Snd_485_Msg_Uart1_def uart1_effects_def emit_def buf_read_Some_iff min_absorb2 Let_def elim!: bindE)
  with calm_emits [OF a(2) bus_idle_uart1] show ?thesis by simp
qed

lemma Uart2_calm: "Snd_485_Msg_Uart2 uart msg len s = Some t \<Longrightarrow> calm uart f s \<Longrightarrow> calm uart f t"
proof -
  assume a: "Snd_485_Msg_Uart2 uart msg len s = Some t" "calm uart f s"
  then obtain h where "len \<le> length msg" "t = s\<lparr>trace := trace s @ uart2_effects uart (take len msg), RS485_hd := h\<rparr>"
    by (auto simp: Snd_485_Msg_Uart2_def uart2_effects_def emit_def buf_read_Some_iff Let_def elim!: bindE)
  with calm_emits [OF a(2) bus_idle_uart2] show ?thesis by simp
qed

lemmas bus_calm = Uart1_calm [folded Snd_N_ISO_485_def] Uart2_calm [folded Snd_OUT_ISO_485_def]

lemma Snd_Restart_calm: "Snd_Restart uart b4 s = Some t \<Longrightarrow> calm uart f s \<Longrightarrow> calm uart f t"
  by (auto simp: Snd_Restart_def Let_def elim!: bindE split: if_splits dest!: bus_calm [where f = f])

lemma Snd_Ctrl_Cmd_calm: "Snd_Ctrl_Cmd uart d c s = Some t \<Longrightarrow> calm uart f s \<Longrightarrow> calm uart f t"
  by (auto simp: Snd_Ctrl_Cmd_def Let_def elim!: bindE dest: bus_calm)

lemma Snd_All_calm: "Snd_All uart n i e s = Some t \<Longrightarrow> calm uart f s \<Longrightarrow> calm uart f t"
  by (induction n arbitrary: i s) (auto elim!: bindE dest!: Snd_Ctrl_Cmd_calm [where f = f])

lemma Count_No_Ans_calm: "Count_No_Ans n i s = Some t \<Longrightarrow> calm uart f s \<Longrightarrow> calm uart f t"
proof (induction n arbitrary: i s)
  case (Suc n)
  let ?d = "xb_SubDev_SN s ! (i - 1)"
  from Suc.prems(1) have d: "i - 1 < length (xb_SubDev_SN s)"
      "Count_No_Ans n (i + 1) (s\<lparr>xb_SubDev_SN := (xb_SubDev_SN s)[i - 1 := count_dev ?d]\<rparr>) = Some t"
    by (auto simp: count_dev_def wr_def elim!: bindE split: if_splits)
  have "calm uart f (s\<lparr>xb_SubDev_SN := (xb_SubDev_SN s)[i - 1 := count_dev ?d]\<rparr>)"
    using Suc.prems(2) by (intro calm_devs count_dev_le calm_dev d)
  with d(2) show ?case by (rule Suc.IH)
qed simp

lemma poll_pins_calm: "calm uart f s \<Longrightarrow> calm uart f (Set_Poll_Addr_Pin_Low s)"
  using calm_emits [OF _ bus_idle_poll_pins] by (simp add: Set_Poll_Addr_Pin_Low_def emit_def)

lemma Poll_Addr_round_calm: "Poll_Addr_round uart b4 s e = Some t \<Longrightarrow> calm uart f s \<Longrightarrow> calm uart f t"
  unfolding Poll_Addr_round_def Let_def Start_Ctrl_Thread_def
  by (elim bindE)
    (auto split: if_splits dest!: Snd_Restart_calm [where f = f] bus_calm [where f = f] intro!: poll_pins_calm)

lemma Rs485_Ctrl_round_calm:
  assumes "Rs485_Ctrl_round uart s e = Some t" and "calm uart f s"
  shows "calm uart 0 t"
  using assms(1) unfolding Rs485_Ctrl_round_def Let_def
proof (elim bindE)
  fix c0 c1 c2 c c3 c4 s2
  let ?s = "s\<lparr>thread_Fg := 2, poll_Ctrl_Cmd := c4, fg_Snding_485 := 1\<rparr>"
  have "calm uart f (s\<lparr>thread_Fg := 2, poll_Ctrl_Cmd := c4\<rparr>)" using assms(2) by simp
  then have s1: "calm uart 1 ?s" by (rule calm_flag)
  assume "(if is_switch_event e
      then (if e = EVENT_SND_485_CTRL then Snd_Ctrl_Cmd uart 1 (ucast RELAY_ALL_ON) ?s else Snd_All uart (unat (Dev_Num ?s)) 1 e ?s)
      else do { s' \<leftarrow> (if poll_id ?s + 1 > Dev_Num ?s then Count_No_Ans (unat (Dev_Num ?s)) 1 (?s\<lparr>poll_id := 1\<rparr>) else Some (?s\<lparr>poll_id := poll_id ?s + 1\<rparr>));
                Snd_N_ISO_485 uart (poll_Ctrl_Cmd s') 5 s' }) = Some s2" and t: "Some (s2\<lparr>fg_Snding_485 := 0\<rparr>) = Some t"
  with s1 have "calm uart 1 s2"
    by (auto split: if_splits elim!: bindE dest: Snd_Ctrl_Cmd_calm Snd_All_calm Count_No_Ans_calm bus_calm)
  with t calm_flag show ?thesis by auto
qed

subsection \<open>Frames, settings and commands\<close>

lemma handle_n_Iso_calm: "handle_n_Iso rx len s = Some t \<Longrightarrow> calm uart f s \<Longrightarrow> calm uart f t"
  unfolding handle_n_Iso_def Let_def Waiting_Mqtt_eq
  by (elim bindE) (auto split: if_splits elim!: bindE simp: wr_def intro!: calm_devs)

lemma store_sn_calm: "store_sn i rx s = Some t \<Longrightarrow> calm uart f s \<Longrightarrow> calm uart f t"
  unfolding store_sn_def by (elim bindE) (auto simp: wr_def split: if_splits intro!: calm_devs dest: calm_dev)

lemma Handle_Set_Cmd_calm: "Handle_Set_Cmd fs tmp mem behind b s w = Some (t, w') \<Longrightarrow> calm uart f s \<Longrightarrow> calm uart f t"
  unfolding Handle_Set_Cmd_def Let_def by (elim bindE) (auto elim!: bindE split: if_splits)

lemma Reply_calm:
  "Reply_Restart msg len s = Some (m, t) \<Longrightarrow> calm uart f s \<Longrightarrow> calm uart f t"
  "Reply_Cloud_Cmd msg len s = Some (m, t) \<Longrightarrow> calm uart f s \<Longrightarrow> calm uart f t"
  by (auto simp: Reply_Restart_def Reply_Cloud_Cmd_def elim!: bindE)

lemma handle_Iso_Setting_calm: "handle_Iso_Setting uart fs tmp mem behind rx s w = Some (t, w') \<Longrightarrow> calm uart f s \<Longrightarrow> calm uart f t"
  unfolding handle_Iso_Setting_def Let_def
  by (auto elim!: bindE split: if_splits dest!: Reply_calm [where uart = uart and f = f] bus_calm [where f = f] Handle_Set_Cmd_calm [where uart = uart and f = f])

lemma handle_rec_calm: "handle_rec uart fs tmp mem behind h rx len s w = Some (t, w') \<Longrightarrow> calm uart f s \<Longrightarrow> calm uart f t"
  unfolding handle_rec_def
  by (auto elim!: bindE split: if_splits
      dest!: store_sn_calm [where uart = uart and f = f] handle_n_Iso_calm [where uart = uart and f = f] handle_Iso_Setting_calm [where f = f])

lemma only_reply_calm: "only_reply s t \<Longrightarrow> calm uart f s \<Longrightarrow> calm uart f t"
  unfolding only_reply_def by (metis calm_plain(1,2))

lemma zone_relay_calm: "zone_relay e b m s = Some t \<Longrightarrow> calm uart f s \<Longrightarrow> calm uart f t"
  unfolding zone_relay_def Let_def Waiting_Mqtt_eq by (elim bindE) (auto split: if_splits)

lemma zone_write_calm:
  "zone_write_0 b m s = Some t \<Longrightarrow> calm uart f s \<Longrightarrow> calm uart f t"
  "zone_write_4 fs pad tmp b m s w = Some (t, w') \<Longrightarrow> calm uart f s \<Longrightarrow> calm uart f t"
  "zone_unknown m s = Some t \<Longrightarrow> calm uart f s \<Longrightarrow> calm uart f t"
  by (auto simp: zone_write_0_def zone_write_4_def zone_unknown_def Let_def elim!: bindE
      dest!: reply_crc_only only_reply_calm [where uart = uart and f = f])

lemmas zone_read_calm =
  zone_reads_only [THEN only_reply_calm] zone_read_3_only [THEN only_reply_calm] zone_read_4_only [THEN only_reply_calm]

lemma zone_cmd_calm: "zone_cmd fs pad tmp ev b m s w = Some (t, w') \<Longrightarrow> calm uart f s \<Longrightarrow> calm uart f t"
  unfolding zone_cmd_def
  by (auto elim!: bindE split: if_splits dest!: zone_write_calm [where uart = uart and f = f] zone_relay_calm [where uart = uart and f = f]
      zone_read_calm [where uart = uart and f = f])

lemma messageArrived_calm: "messageArrived fs tmpN mem behind pad tmpZ ev topic b len s w = Some (t, w') \<Longrightarrow> calm uart f s \<Longrightarrow> calm uart f t"
  unfolding messageArrived_def handle_Net_Cmd_def Let_def Start_Reset_Thread_def
  by (auto elim!: bindE split: if_splits
      dest!: Reply_calm [where uart = uart and f = f] Handle_Set_Cmd_calm [where uart = uart and f = f] zone_cmd_calm [where uart = uart and f = f])

subsection \<open>Publishing, scanning and sampling\<close>

lemma Generate_Report_calm: "Generate_Report_WG_Info csq now s = Some t \<Longrightarrow> calm uart f s \<Longrightarrow> calm uart f t"
  unfolding Generate_Report_WG_Info_def by (elim bindE) (auto elim!: bindE dest!: Generate_Time_state)

lemma mqtt_Snd_round_calm: "mqtt_Snd_round (s, n, m, st) i = Some (t, n', m', st') \<Longrightarrow> calm uart f s \<Longrightarrow> calm uart f t"
  unfolding mqtt_Snd_round_def Let_def
  by (auto elim!: bindE split: if_splits intro!: calm_published dest: Generate_Report_calm)

lemma calm_ble: "calm uart f s \<Longrightarrow> sized s \<Longrightarrow> ble_inv s"
  by (simp add: calm_def ble_inv_def)

text \<open>A scan round changes the Bluetooth table and its counter only.\<close>

definition only_ble :: "gateway \<Rightarrow> gateway \<Rightarrow> bool" where
  "only_ble s t = (t = s\<lparr>BLE_num_Scan := BLE_num_Scan t, scan_info := scan_info t, Ble_Dev_Exist := Ble_Dev_Exist t\<rparr>)"

lemma only_ble_trans:
  assumes "only_ble s t" and "only_ble t u"
  shows "only_ble s u"
  using assms(2) unfolding only_ble_def by (subst (asm) assms(1) [unfolded only_ble_def]) simp

lemma scan_func_only: "nwy_ble_client_scan_dev_func s a = Some t \<Longrightarrow> only_ble s t"
  by (auto simp: nwy_ble_client_scan_dev_func_def Fun_Update_Ble_def Find_Ble_def only_ble_def Let_def
      elim!: bindE split: option.splits)

lemma scan_run_only: "run_machine nwy_ble_client_scan_dev_func s found = Some t \<Longrightarrow> only_ble s t"
proof (induction found arbitrary: s)
  case Nil
  then show ?case by (simp add: only_ble_def)
next
  case (Cons a found)
  then show ?case by (auto elim!: bindE dest!: scan_func_only intro: only_ble_trans)
qed

lemma Ble_Call_calm:
  assumes "prvThreadEntry_Ble_Call_body s found = Some t" and "list_all (\<lambda>a. length a = 6) found" and "calm uart f s" and "sized s"
  shows "calm uart f t"
proof -
  have inv: "ble_inv t" using Ble_Call_body_inv [OF calm_ble [OF assms(3,4)] assms(2,1)] .
  obtain u where u: "run_machine nwy_ble_client_scan_dev_func (Update_DeatTime (s\<lparr>BLE_num_Scan := 0\<rparr>)) found = Some u"
      and t: "t = emit (Sleep (1000 * (BLE_SCAN_PERIOD - 3))) (Upate_White_Name u)"
    using assms(1) by (auto simp: prvThreadEntry_Ble_Call_body_def Let_def elim!: bindE)
  obtain n sc tb where "u = (Update_DeatTime (s\<lparr>BLE_num_Scan := 0\<rparr>))\<lparr>BLE_num_Scan := n, scan_info := sc, Ble_Dev_Exist := tb\<rparr>"
    using scan_run_only [OF u] unfolding only_ble_def by blast
  then have "fg_Snding_485 u = fg_Snding_485 s" "Fg_Snding_Mqtt u = Fg_Snding_Mqtt s" "trace u = trace s"
      "xb_SubDev_SN u = xb_SubDev_SN s" "xb_sim u = xb_sim s"
    by (simp_all add: Update_DeatTime_def)
  then show ?thesis
    using assms(3) inv by (simp add: calm_def ble_inv_def t Upate_White_Name_def emit_def bus_idle_append)
qed

lemma Ble_Call_devices:
  assumes "prvThreadEntry_Ble_Call_body s found = Some t"
  shows "Dev_Num t = Dev_Num s"
proof -
  obtain u where u: "run_machine nwy_ble_client_scan_dev_func (Update_DeatTime (s\<lparr>BLE_num_Scan := 0\<rparr>)) found = Some u"
      and t: "t = emit (Sleep (1000 * (BLE_SCAN_PERIOD - 3))) (Upate_White_Name u)"
    using assms(1) by (auto simp: prvThreadEntry_Ble_Call_body_def Let_def elim!: bindE)
  obtain n sc tb where "u = (Update_DeatTime (s\<lparr>BLE_num_Scan := 0\<rparr>))\<lparr>BLE_num_Scan := n, scan_info := sc, Ble_Dev_Exist := tb\<rparr>"
    using scan_run_only [OF u] unfolding only_ble_def by blast
  then show ?thesis by (simp add: t Update_DeatTime_def Upate_White_Name_def)
qed

lemma lamps_calm [simp]: "calm uart f s \<Longrightarrow> calm uart f (set_lamps v s)"
  using calm_emits [of uart f s "[Gpio_Output 4, Gpio_Value 4 (unat v), Gpio_Output 28, Gpio_Value 28 (unat v), Gpio_Output 24, Gpio_Value 24 (unat v)]"]
  by (simp add: set_lamps_def SET_Led_On_off_def emit_def bus_idle_def)

lemma get_CCID_calm:
  assumes "get_CCID_Fun p s = Some t" and "calm uart f s" and "sample_ok p"
  shows "calm uart f t"
proof -
  obtain c i where "cut_last 23 (sim_iccid p) = Some c" "t = s\<lparr>xb_sim := \<lparr>iccid = c, nImei = i\<rparr>\<rparr>"
    using assms(1) by (auto simp: get_CCID_Fun_def elim!: bindE)
  moreover from this(1) have "terminated c"
    using assms(3) cut_last_text(2) by (auto simp: cut_last_eq sample_ok_def)
  ultimately show ?thesis using assms(2) by (simp add: calm_def addrs_def)
qed

lemma Get_Value_calm:
  assumes "Get_Value_round p (sm, s) = Some (sm', t)" and "calm uart f s" and "sample_ok p"
  shows "calm uart f t"
  using assms unfolding Get_Value_round_def Let_def
  by (auto elim!: bindE split: if_splits option.splits dest!: get_CCID_calm [where uart = uart and f = f])

section \<open>The system\<close>

text \<open>The state is the globals and the file system. The steps are a received message, a frame on either port, a round of each
  thread, and the scan callbacks within a round of the Bluetooth thread; what a step reads from outside is left open, but for
  the texts and addresses the module fills in. The private state of a thread is left open as well. Each step runs to its end
  before the next begins: a handler that is entered in the middle of a round of the control thread, whose flag is then set,
  waits for ever (\<open>key_press\<close>). A step that leaves an array has no successor; which steps cannot do so is the progress part
  of the theorem at the end, and for the other messages and the report the theorems of their components say when they do.\<close>

inductive gateway_step :: "(nat \<Rightarrow> int) \<Rightarrow> 'w vfs \<Rightarrow> gateway \<times> 'w \<Rightarrow> gateway \<times> 'w \<Rightarrow> bool" for uart fs where
  message: "messageArrived fs tmpN mem behind pad tmpZ ev topic b len s w = Some (t, w') \<Longrightarrow> gateway_step uart fs (s, w) (t, w')"
| bus1: "nwy_485_recv_handle_1 uart fs tmp mem behind rx len s w = Some (t, w') \<Longrightarrow> gateway_step uart fs (s, w) (t, w')"
| bus2: "nwy_485_recv_handle_2 uart fs tmp mem behind rx len s w = Some (t, w') \<Longrightarrow> gateway_step uart fs (s, w) (t, w')"
| enumerate: "Poll_Addr_round uart b4 s ev = Some t \<Longrightarrow> gateway_step uart fs (s, w) (t, w)"
| control: "Rs485_Ctrl_round uart s ev = Some t \<Longrightarrow> gateway_step uart fs (s, w) (t, w)"
| publish: "mqtt_Snd_round (s, n, m, st) i = Some (t, n', m', st') \<Longrightarrow> gateway_step uart fs (s, w) (t, w)"
| scan: "list_all (\<lambda>a. length a = 6) found \<Longrightarrow> prvThreadEntry_Ble_Call_body s found = Some t \<Longrightarrow> gateway_step uart fs (s, w) (t, w)"
| sample: "sample_ok p \<Longrightarrow> Get_Value_round p (sm, s) = Some (sm', t) \<Longrightarrow> gateway_step uart fs (s, w) (t, w)"
| key: "gateway_step uart fs (s, w) (gpioisropen s, w)"
| key_timer: "nwy_test_cli_timer_cb s = Some t \<Longrightarrow> gateway_step uart fs (s, w) (t, w)"

definition gateway_inv :: "(nat \<Rightarrow> int) \<Rightarrow> gateway \<Rightarrow> bool" where
  "gateway_inv uart s = (sized s \<and> calm uart 0 s)"

lemma gateway_inv_init: "gateway_inv uart init_gateway"
  using ble_inv_init
  by (simp add: gateway_inv_def calm_def ble_inv_def sized_init bus_idle_def list_all_iff terminated_def)

lemma key_timer_inv: "nwy_test_cli_timer_cb s = Some t \<Longrightarrow> gateway_inv uart s \<Longrightarrow> gateway_inv uart t"
  by (auto simp: nwy_test_cli_timer_cb_def snd_key_Event_def Waiting_Mqtt_eq gateway_inv_def split: if_splits)

lemma gateway_step_inv: "gateway_step uart fs x y \<Longrightarrow> gateway_inv uart (fst x) \<Longrightarrow> gateway_inv uart (fst y)"
proof (induction rule: gateway_step.induct)
  case (bus1 tmp mem behind rx len s w t w')
  then show ?case by (auto simp: nwy_485_recv_handle_1_def gateway_inv_def elim!: bindE dest: handle_rec_sized handle_rec_calm)
next
  case (bus2 tmp mem behind rx len s w t w')
  then show ?case by (auto simp: nwy_485_recv_handle_2_def gateway_inv_def elim!: bindE dest: handle_rec_sized handle_rec_calm)
next
  case (sample p sm s sm' t w)
  then show ?case by (auto simp: gateway_inv_def sample_ok_def dest: Get_Value_sized Get_Value_calm [OF _ _ sample(1)])
next
  case (key s w)
  then show ?case by (simp add: gpioisropen_def gateway_inv_def bus_idle_def)
qed (auto simp: gateway_inv_def dest: messageArrived_sized messageArrived_calm Poll_Addr_round_sized Poll_Addr_round_calm
    Rs485_Ctrl_round_sized Rs485_Ctrl_round_calm mqtt_Snd_round_sized mqtt_Snd_round_calm Ble_Call_sized Ble_Call_calm key_timer_inv)

lemma reachable_inv: "(gateway_step uart fs)\<^sup>*\<^sup>* (init_gateway, w) y \<Longrightarrow> gateway_inv uart (fst y)"
  by (induction rule: rtranclp_induct) (simp_all add: gateway_inv_init gateway_step_inv)

subsection \<open>Progress\<close>

lemma enumerate_progress: "gateway_inv uart s \<Longrightarrow> Poll_Addr_round uart b4 s e \<noteq> None"
  using Poll_Addr_round_ok [of uart s b4 e] by (auto simp: gateway_inv_def calm_def enum_inv_def)

lemma control_progress: "gateway_inv uart s \<Longrightarrow> Dev_Num s \<le> 32 \<Longrightarrow> Rs485_Ctrl_round uart s e \<noteq> None"
  using Ctrl_round_poll [of s e uart] Ctrl_round_switch [of s e uart] by (cases "is_switch_event e") (auto simp: gateway_inv_def)

lemma scan_progress: "gateway_inv uart s \<Longrightarrow> scan_round found \<Longrightarrow> prvThreadEntry_Ble_Call_body s found \<noteq> None"
  using Ble_Call_body_iff [OF calm_ble, of uart 0 s found] by (auto simp: gateway_inv_def scan_round_def)

lemma sample_progress:
  "gateway_inv uart s \<Longrightarrow> sample_ok p \<Longrightarrow> 0 \<le> round_nn sm \<Longrightarrow> round_nn sm \<le> 20 \<Longrightarrow> Get_Value_round p (sm, s) \<noteq> None"
  using Get_Value_round_ok [of "(sm, s)" p] by (auto simp: gateway_inv_def sampler_inv_def)

lemma report_progress:
  assumes "gateway_inv uart s" and "Dev_Num s \<le> 32" and "value_zone_0 s AND push_bit 9 1 = 0"
  shows "Generate_Report_WG_Info csq now s \<noteq> None"
proof -
  have "report_ready s" using assms(1,2) by (simp add: gateway_inv_def calm_def report_ready_def)
  from report_without_ble [OF this assms(3), of csq now] show ?thesis by auto
qed

lemma key_progress: "gateway_inv uart s \<Longrightarrow> nwy_test_cli_timer_cb s \<noteq> None"
  by (simp add: gateway_inv_def calm_def nwy_test_cli_timer_cb_def snd_key_Event_def Waiting_Mqtt_eq)

lemma relay_progress: "gateway_inv uart s \<Longrightarrow> 6 \<le> length b \<Longrightarrow> length m = 512 \<Longrightarrow> zone_relay ev b m s \<noteq> None"
  by (simp add: gateway_inv_def calm_def zone_relay_def conver_u8_u16_def buf_read_def buf_write_def Waiting_Mqtt_eq Let_def)

lemma answer_progress:
  assumes "gateway_inv uart s" and "length f = unat len" and "6 < len" and "len \<le> 200" and "1 \<le> f ! 0" and "f ! 0 \<le> 32"
  shows "handle_n_Iso (f @ r) len s \<noteq> None"
  using handle_n_Iso_eq [OF _ assms(2-6), of s r] assms(1) by (auto simp: gateway_inv_def calm_def)



end
