(* ===== verification/Console.thy ===== *)
theory Console
  imports Machine
begin

text \<open>
  The console input of src/hello_world.c: the USB callback \<open>nwy_ext_sio_data_cb\<close> collects pieces of input into a line and
  signals the application thread when the line is complete. This theory is the normal mode of the callback
  (\<open>nwy_update_flag\<close> is 0), \<open>sio_data_line\<close>; the two firmware-update modes and the callback itself are in \<open>Fota\<close>. The
  callback keeps two counters, the static \<open>len\<close> and the global \<open>nwy_ext_sio_len\<close>; the second may become negative in the
  source, so it is an integer, and an access at a negative index has no result.
\<close>

section \<open>The callback\<close>

definition NWY_EXT_SIO_RX_MAX :: nat where
  "NWY_EXT_SIO_RX_MAX = 2048"

record console =
  sio_recv_buff :: buf
  nwy_ext_sio_len :: int
  cb_len :: nat
  input_msgs :: nat

definition rd_int :: "buf \<Rightarrow> int \<Rightarrow> u8 option" where
  "rd_int b i = (if i < 0 then None else rd b (nat i))"

definition wr_int :: "buf \<Rightarrow> int \<Rightarrow> u8 \<Rightarrow> buf option" where
  "wr_int b i v = (if i < 0 then None else wr b (nat i) v)"

text \<open>The end of a line: the signal to the application thread.\<close>

definition line_done :: "buf \<Rightarrow> int \<Rightarrow> console \<Rightarrow> console" where
  "line_done b n c = c\<lparr>sio_recv_buff := b, nwy_ext_sio_len := n, cb_len := 0, input_msgs := input_msgs c + 1\<rparr>"

definition clear_line :: "console \<Rightarrow> console option" where
  "clear_line c =
     (if cb_len c = 0
      then do { b \<leftarrow> buf_fill (sio_recv_buff c) 0 0 NWY_EXT_SIO_RX_MAX; Some (c\<lparr>sio_recv_buff := b, nwy_ext_sio_len := 0\<rparr>) }
      else Some c)"

definition sio_data_line :: "buf \<Rightarrow> console \<Rightarrow> console option" where
  "sio_data_line data c =
     do { let n = length data;
          c1 \<leftarrow> clear_line c;
          let len = cb_len c1;
          if data = [13, 10] then Some (line_done (sio_recv_buff c1) (nwy_ext_sio_len c1) c1)
          else if NWY_EXT_SIO_RX_MAX < len + n
          then do { b \<leftarrow> buf_write (sio_recv_buff c1) len (take (NWY_EXT_SIO_RX_MAX - len) data);
                    let sl = nwy_ext_sio_len c1 + int (NWY_EXT_SIO_RX_MAX - len);
                    x \<leftarrow> rd_int b (sl - 1);
                    let sl1 = (if x = 13 then sl - 1 else sl);
                    b1 \<leftarrow> wr_int b sl1 0;
                    Some (line_done b1 sl1 c1) }
          else do { b \<leftarrow> buf_write (sio_recv_buff c1) len data;
                    if 1 < n
                    then if data ! (n - 1) = 10 \<and> data ! (n - 2) = 13
                         then do { b1 \<leftarrow> wr b (len + n - 2) 0; Some (line_done b1 (nwy_ext_sio_len c1 + int n - 2) c1) }
                         else Some (c1\<lparr>sio_recv_buff := b, nwy_ext_sio_len := nwy_ext_sio_len c1 + int n, cb_len := len + n\<rparr>)
                    else if n = 1
                    then if data ! 0 = 13 \<or> data ! 0 = 10
                         then do { b1 \<leftarrow> wr_int b (nwy_ext_sio_len c1 - 1) 0; Some (line_done b1 (nwy_ext_sio_len c1 - 1) c1) }
                         else do { b1 \<leftarrow> buf_write b len data;
                                   Some (c1\<lparr>sio_recv_buff := b1, nwy_ext_sio_len := nwy_ext_sio_len c1 + 1, cb_len := len + 1\<rparr>) }
                    else Some (c1\<lparr>sio_recv_buff := b\<rparr>) } }"

section \<open>Where the callback leaves its array\<close>

definition console_inv :: "console \<Rightarrow> bool" where
  "console_inv c = (length (sio_recv_buff c) = 2049 \<and> cb_len c \<le> 2048 \<and> (0 < cb_len c \<longrightarrow> nwy_ext_sio_len c = int (cb_len c)))"

text \<open>The line being collected: empty when \<open>len\<close> is 0.\<close>

lemma clear_line_inv:
  assumes "console_inv c"
  shows "\<exists>c1. clear_line c = Some c1 \<and> console_inv c1 \<and> cb_len c1 = cb_len c \<and> nwy_ext_sio_len c1 = int (cb_len c) \<and> input_msgs c1 = input_msgs c \<and>
    take (cb_len c) (sio_recv_buff c1) = take (cb_len c) (sio_recv_buff c)"
  using assms by (auto simp: clear_line_def console_inv_def buf_fill_def buf_write_def NWY_EXT_SIO_RX_MAX_def)

definition lone_newline :: "buf \<Rightarrow> console \<Rightarrow> bool" where
  "lone_newline data c = (cb_len c = 0 \<and> (data = [13] \<or> data = [10]))"

lemma data_cb_safe:
  assumes "console_inv c" and "\<not> lone_newline data c"
  shows "\<exists>t. sio_data_line data c = Some t \<and> console_inv t"
proof -
  obtain c1 where c1: "clear_line c = Some c1" "console_inv c1" "cb_len c1 = cb_len c" "nwy_ext_sio_len c1 = int (cb_len c)"
    using clear_line_inv [OF assms(1)] by blast
  have inv: "length (sio_recv_buff c1) = 2049" "cb_len c \<le> 2048" using c1 by (simp_all add: console_inv_def)
  note defs = sio_data_line_def c1 Let_def console_inv_def line_done_def NWY_EXT_SIO_RX_MAX_def buf_write_def
  consider "data = [13, 10]" | "data \<noteq> [13, 10]" "2048 < cb_len c + length data"
    | "data \<noteq> [13, 10]" "cb_len c + length data \<le> 2048" "length data \<noteq> 1"
    | x where "cb_len c + length data \<le> 2048" "data = [x]"
    by (metis One_nat_def length_0_conv length_Suc_conv not_le)
  then show ?thesis
  proof cases
    case 1
    then show ?thesis using inv by (simp add: defs)
  next
    case 2
    then show ?thesis using inv by (simp add: defs rd_int_def wr_int_def)
  next
    case 3
    then show ?thesis using inv by (auto simp: defs)
  next
    case 4
    then show ?thesis using inv assms(2) by (auto simp: defs wr_int_def lone_newline_def)
  qed
qed

lemma data_cb_lone:
  assumes "console_inv c" and "lone_newline data c"
  shows "sio_data_line data c = None"
proof -
  obtain c1 where c1: "clear_line c = Some c1" "console_inv c1" "cb_len c1 = cb_len c" "nwy_ext_sio_len c1 = int (cb_len c)"
    using clear_line_inv [OF assms(1)] by blast
  then have inv: "length (sio_recv_buff c1) = 2049" by (simp add: console_inv_def)
  from assms(2) c1 inv show ?thesis
    by (auto simp: lone_newline_def sio_data_line_def NWY_EXT_SIO_RX_MAX_def buf_write_def wr_int_def)
qed

text \<open>C34: the console callback, from a state in which its counters agree with the buffer, leaves its 2049-byte buffer for
  exactly one kind of input: a single CR or LF as the first piece of a line, for which it writes in front of the buffer.
  Every other piece, however long, is handled inside the buffer and the counters agree again.\<close>

theorem console_callback_safe_iff:
  assumes "console_inv c"
  shows "(sio_data_line data c = None \<longleftrightarrow> cb_len c = 0 \<and> data \<in> {[13], [10]}) \<and>
    (\<forall>t. sio_data_line data c = Some t \<longrightarrow> console_inv t)"
proof -
  have "lone_newline data c \<longleftrightarrow> cb_len c = 0 \<and> data \<in> {[13], [10]}" by (auto simp: lone_newline_def)
  then show ?thesis
    using data_cb_safe [OF assms, of data] data_cb_lone [OF assms, of data] by (cases "lone_newline data c") auto
qed

definition console_start :: console where
  "console_start = \<lparr>sio_recv_buff = replicate 2049 0, nwy_ext_sio_len = 0, cb_len = 0, input_msgs = 0\<rparr>"

lemma console_start_inv: "console_inv console_start"
  by (simp add: console_start_def console_inv_def)

theorem console_callback_safe_iff_witness:
  "sio_data_line [13] console_start = None \<and> (\<exists>t. sio_data_line [65, 66, 13, 10] console_start = Some t \<and> console_inv t)"
proof -
  have "cb_len console_start = 0" by (simp add: console_start_def)
  then have "sio_data_line [13] console_start = None" "sio_data_line [65, 66, 13, 10] console_start \<noteq> None"
    using console_callback_safe_iff [OF console_start_inv, of "[13]"] console_callback_safe_iff [OF console_start_inv, of "[65, 66, 13, 10]"]
    by simp_all
  then show ?thesis using console_callback_safe_iff [OF console_start_inv] by blast
qed

section \<open>Lines\<close>

interpretation con: total_machine "\<lambda>c d. sio_data_line d c" console_inv "\<lambda>d. d \<notin> {[13], [10]}"
proof
  show "console_inv t" if "console_inv s" "e \<notin> {[13], [10]}" "sio_data_line e s = Some t" for s e t
    using data_cb_safe [of s e] that by (auto simp: lone_newline_def)
  show "\<exists>t. sio_data_line e s = Some t" if "console_inv s" "e \<notin> {[13], [10]}" for s e
    using data_cb_safe [of s e] that by (auto simp: lone_newline_def)
qed

text \<open>A line that comes in one piece with its line end.\<close>

lemma pasted_line:
  assumes "console_inv c" and "cb_len c = 0" and "length t \<le> 2046"
  shows "\<exists>c'. sio_data_line (t @ [13, 10]) c = Some c' \<and> console_inv c' \<and> cb_len c' = 0 \<and> nwy_ext_sio_len c' = int (length t) \<and>
    take (length t + 1) (sio_recv_buff c') = t @ [0] \<and> input_msgs c' = input_msgs c + 1"
proof -
  let ?b = "replicate 2048 0 @ drop 2048 (sio_recv_buff c)"
  have l: "length (sio_recv_buff c) = 2049" using assms(1) by (simp add: console_inv_def)
  have cl: "clear_line c = Some (c\<lparr>sio_recv_buff := ?b, nwy_ext_sio_len := 0\<rparr>)"
    using assms(2) l by (simp add: clear_line_def buf_fill_def buf_write_def NWY_EXT_SIO_RX_MAX_def)
  show ?thesis
  proof (cases "t = []")
    case True
    then show ?thesis using assms(2) l by (simp add: sio_data_line_def cl line_done_def console_inv_def)
  next
    case False
    then have "t @ [13, 10] \<noteq> [13, 10]" by simp
    moreover have "(t @ [13, 10]) ! (length t + 1) = 10" "(t @ [13, 10]) ! length t = 13" by (simp_all add: nth_append)
    ultimately show ?thesis using assms l False
      by (simp add: sio_data_line_def cl line_done_def console_inv_def NWY_EXT_SIO_RX_MAX_def buf_write_def list_update_append Let_def)
  qed
qed

text \<open>Characters that come one by one.\<close>

lemma typed_char:
  assumes "console_inv c" and "x \<notin> {13, 10}" and "cb_len c < 2048"
  shows "\<exists>c'. sio_data_line [x] c = Some c' \<and> console_inv c' \<and> cb_len c' = cb_len c + 1 \<and> input_msgs c' = input_msgs c \<and>
    take (cb_len c + 1) (sio_recv_buff c') = take (cb_len c) (sio_recv_buff c) @ [x]"
proof -
  obtain c1 where c1: "clear_line c = Some c1" "console_inv c1" "cb_len c1 = cb_len c" "nwy_ext_sio_len c1 = int (cb_len c)" "input_msgs c1 = input_msgs c"
      "take (cb_len c) (sio_recv_buff c1) = take (cb_len c) (sio_recv_buff c)"
    using clear_line_inv [OF assms(1)] by blast
  then have "length (sio_recv_buff c1) = 2049" "length (sio_recv_buff c) = 2049" using assms(1) by (simp_all add: console_inv_def)
  with assms(2,3) c1 show ?thesis
    by (simp add: sio_data_line_def Let_def console_inv_def NWY_EXT_SIO_RX_MAX_def buf_write_def)
qed

lemma typed_text:
  assumes "console_inv c" and "\<forall>x \<in> set t. x \<notin> {13, 10}" and "cb_len c + length t \<le> 2048"
  shows "\<exists>c'. run_machine (\<lambda>c d. sio_data_line d c) c (map (\<lambda>x. [x]) t) = Some c' \<and> console_inv c' \<and>
    cb_len c' = cb_len c + length t \<and> input_msgs c' = input_msgs c \<and>
    take (cb_len c + length t) (sio_recv_buff c') = take (cb_len c) (sio_recv_buff c) @ t"
  using assms
proof (induction t arbitrary: c)
  case Nil
  then show ?case by simp
next
  case (Cons x t)
  then obtain c1 where c1: "sio_data_line [x] c = Some c1" "console_inv c1" "cb_len c1 = cb_len c + 1" "input_msgs c1 = input_msgs c"
      "take (cb_len c + 1) (sio_recv_buff c1) = take (cb_len c) (sio_recv_buff c) @ [x]"
    using typed_char [of c x] by auto
  with Cons.IH [of c1] Cons.prems show ?case by auto
qed

lemma typed_return:
  assumes "console_inv c" and "0 < cb_len c" and "cb_len c < 2048"
  shows "\<exists>c'. sio_data_line [13] c = Some c' \<and> nwy_ext_sio_len c' = int (cb_len c) - 1 \<and> input_msgs c' = input_msgs c + 1 \<and>
    take (cb_len c) (sio_recv_buff c') = butlast (take (cb_len c) (sio_recv_buff c)) @ [0]"
proof -
  obtain k where k: "cb_len c = Suc k" using assms(2) by (cases "cb_len c") auto
  have l: "length (sio_recv_buff c) = 2049" "nwy_ext_sio_len c = int (Suc k)" using assms k by (simp_all add: console_inv_def)
  have "clear_line c = Some c" using k by (simp add: clear_line_def)
  with k l assms(3) show ?thesis
    by (simp add: sio_data_line_def line_done_def NWY_EXT_SIO_RX_MAX_def buf_write_def wr_int_def Let_def
        butlast_take upd_conv_take_nth_drop)
qed

text \<open>A line that comes in one piece reaches the application thread unchanged (up to 2046 characters), but a line typed
  character by character loses its last character \<open>y\<close>: the closing CR makes the callback terminate the text one position
  too early.\<close>

theorem console_lines:
  assumes "console_inv c" and "cb_len c = 0" and "length t \<le> 2046"
  shows "(\<exists>c'. sio_data_line (t @ [13, 10]) c = Some c' \<and> input_msgs c' = input_msgs c + 1 \<and>
      nwy_ext_sio_len c' = int (length t) \<and> take (length t + 1) (sio_recv_buff c') = t @ [0]) \<and>
    ((\<forall>x \<in> set (t @ [y]). x \<notin> {13, 10}) \<longrightarrow>
      (\<exists>c'. run_machine (\<lambda>c d. sio_data_line d c) c (map (\<lambda>x. [x]) (t @ [y]) @ [[13]]) = Some c' \<and> input_msgs c' = input_msgs c + 1 \<and>
      nwy_ext_sio_len c' = int (length t) \<and> take (length t + 1) (sio_recv_buff c') = t @ [0]))"
proof (intro conjI impI)
  show "\<exists>c'. sio_data_line (t @ [13, 10]) c = Some c' \<and> input_msgs c' = input_msgs c + 1 \<and>
      nwy_ext_sio_len c' = int (length t) \<and> take (length t + 1) (sio_recv_buff c') = t @ [0]"
    using pasted_line [OF assms] by blast
  assume "\<forall>x \<in> set (t @ [y]). x \<notin> {13, 10}"
  then obtain c1 where c1: "run_machine (\<lambda>c d. sio_data_line d c) c (map (\<lambda>x. [x]) (t @ [y])) = Some c1" "console_inv c1"
      "cb_len c1 = length t + 1" "input_msgs c1 = input_msgs c" "take (length t + 1) (sio_recv_buff c1) = t @ [y]"
    using typed_text [OF assms(1), of "t @ [y]"] assms(2,3) by auto
  with typed_return [of c1] assms(3)
  show "\<exists>c'. run_machine (\<lambda>c d. sio_data_line d c) c (map (\<lambda>x. [x]) (t @ [y]) @ [[13]]) = Some c' \<and> input_msgs c' = input_msgs c + 1 \<and>
      nwy_ext_sio_len c' = int (length t) \<and> take (length t + 1) (sio_recv_buff c') = t @ [0]"
    by (auto simp: run_machine_append simp del: map_append)
qed

theorem console_lines_witness:
  "(\<exists>c'. sio_data_line [55, 57, 13, 10] console_start = Some c' \<and> nwy_ext_sio_len c' = 2 \<and> take 3 (sio_recv_buff c') = [55, 57, 0]) \<and>
   (\<exists>c'. run_machine (\<lambda>c d. sio_data_line d c) console_start [[55], [57], [13]] = Some c' \<and> nwy_ext_sio_len c' = 1 \<and>
      take 2 (sio_recv_buff c') = [55, 0])"
proof -
  have "cb_len console_start = 0" by (simp add: console_start_def)
  from console_lines [OF console_start_inv this, of "[55, 57]" 0, THEN conjunct1] console_lines [OF console_start_inv this, of "[55]" 57, THEN conjunct2]
  show ?thesis by (simp add: numeral_2_eq_2 [symmetric] numeral_3_eq_3 [symmetric]) blast
qed

end
