(* ===== verification/Md5.thy ===== *)
theory Md5
  imports Prelude
begin

text \<open>
  The digest of src/components/md5: \<open>MD5_CTX\<close>, the block transformation with its 64 operations and the three calls
  \<open>MD5Init\<close>, \<open>MD5Update\<close>, \<open>MD5Final\<close>. The reference is the algorithm on whole messages: padding with the length, then the
  compression of 64-byte blocks, each a loop over 64 steps with index, shift and constant tables. A context refines the
  message received so far; the refinement shows that any way of cutting a message into updates gives the digest of the
  message.
\<close>

section \<open>The code\<close>

type_synonym md5_state = "u32 \<times> u32 \<times> u32 \<times> u32"

record MD5_CTX =
  md5_count0 :: u32
  md5_count1 :: u32
  md5_state :: md5_state
  md5_buffer :: buf

definition MD5_F :: "u32 \<Rightarrow> u32 \<Rightarrow> u32 \<Rightarrow> u32" where "MD5_F x y z = (x AND y) OR (NOT x AND z)"

definition MD5_G :: "u32 \<Rightarrow> u32 \<Rightarrow> u32 \<Rightarrow> u32" where "MD5_G x y z = (x AND z) OR (y AND NOT z)"

definition MD5_H :: "u32 \<Rightarrow> u32 \<Rightarrow> u32 \<Rightarrow> u32" where "MD5_H x y z = x XOR y XOR z"

definition MD5_I :: "u32 \<Rightarrow> u32 \<Rightarrow> u32 \<Rightarrow> u32" where "MD5_I x y z = y XOR (x OR NOT z)"

definition ROTATE_LEFT :: "u32 \<Rightarrow> nat \<Rightarrow> u32" where "ROTATE_LEFT x n = push_bit n x OR drop_bit (32 - n) x"

text \<open>The macros \<open>FF\<close>, \<open>GG\<close>, \<open>HH\<close> and \<open>II\<close> differ in the function only; the result is the new value of \<open>a\<close>.\<close>

definition MD5_op :: "(u32 \<Rightarrow> u32 \<Rightarrow> u32 \<Rightarrow> u32) \<Rightarrow> u32 \<Rightarrow> u32 \<Rightarrow> u32 \<Rightarrow> u32 \<Rightarrow> u32 \<Rightarrow> nat \<Rightarrow> u32 \<Rightarrow> u32" where
  "MD5_op f a b c d x s ac = ROTATE_LEFT (a + (f b c d + x + ac)) s + b"

text \<open>Four consecutive operations, on \<open>a\<close>, \<open>d\<close>, \<open>c\<close> and \<open>b\<close>.\<close>

definition MD5_quad :: "(u32 \<Rightarrow> u32 \<Rightarrow> u32 \<Rightarrow> u32) \<Rightarrow> u32 list \<Rightarrow> nat \<Rightarrow> nat \<Rightarrow> nat \<Rightarrow> nat \<Rightarrow>
    nat \<times> u32 \<Rightarrow> nat \<times> u32 \<Rightarrow> nat \<times> u32 \<Rightarrow> nat \<times> u32 \<Rightarrow> md5_state \<Rightarrow> md5_state" where
  "MD5_quad f x s1 s2 s3 s4 = (\<lambda>(k1, t1) (k2, t2) (k3, t3) (k4, t4) (a, b, c, d).
     (let a' = MD5_op f a b c d (x ! k1) s1 t1;
          d' = MD5_op f d a' b c (x ! k2) s2 t2;
          c' = MD5_op f c d' a' b (x ! k3) s3 t3;
          b' = MD5_op f b c' d' a' (x ! k4) s4 t4
      in (a', b', c', d')))"

text \<open>The four rounds, in the order of the source from the innermost application outwards.\<close>

definition MD5_round_FF :: "u32 list \<Rightarrow> u32 \<times> u32 \<times> u32 \<times> u32 \<Rightarrow> u32 \<times> u32 \<times> u32 \<times> u32" where
  "MD5_round_FF x st =
     MD5_quad MD5_F x 7 12 17 22 (12, 0x6b901122) (13, 0xfd987193) (14, 0xa679438e) (15, 0x49b40821) (
     MD5_quad MD5_F x 7 12 17 22 (8, 0x698098d8) (9, 0x8b44f7af) (10, 0xffff5bb1) (11, 0x895cd7be) (
     MD5_quad MD5_F x 7 12 17 22 (4, 0xf57c0faf) (5, 0x4787c62a) (6, 0xa8304613) (7, 0xfd469501) (
     MD5_quad MD5_F x 7 12 17 22 (0, 0xd76aa478) (1, 0xe8c7b756) (2, 0x242070db) (3, 0xc1bdceee) st)))"

definition MD5_round_GG :: "u32 list \<Rightarrow> u32 \<times> u32 \<times> u32 \<times> u32 \<Rightarrow> u32 \<times> u32 \<times> u32 \<times> u32" where
  "MD5_round_GG x st =
     MD5_quad MD5_G x 5 9 14 20 (13, 0xa9e3e905) (2, 0xfcefa3f8) (7, 0x676f02d9) (12, 0x8d2a4c8a) (
     MD5_quad MD5_G x 5 9 14 20 (9, 0x21e1cde6) (14, 0xc33707d6) (3, 0xf4d50d87) (8, 0x455a14ed) (
     MD5_quad MD5_G x 5 9 14 20 (5, 0xd62f105d) (10, 0x2441453) (15, 0xd8a1e681) (4, 0xe7d3fbc8) (
     MD5_quad MD5_G x 5 9 14 20 (1, 0xf61e2562) (6, 0xc040b340) (11, 0x265e5a51) (0, 0xe9b6c7aa) st)))"

definition MD5_round_HH :: "u32 list \<Rightarrow> u32 \<times> u32 \<times> u32 \<times> u32 \<Rightarrow> u32 \<times> u32 \<times> u32 \<times> u32" where
  "MD5_round_HH x st =
     MD5_quad MD5_H x 4 11 16 23 (9, 0xd9d4d039) (12, 0xe6db99e5) (15, 0x1fa27cf8) (2, 0xc4ac5665) (
     MD5_quad MD5_H x 4 11 16 23 (13, 0x289b7ec6) (0, 0xeaa127fa) (3, 0xd4ef3085) (6, 0x4881d05) (
     MD5_quad MD5_H x 4 11 16 23 (1, 0xa4beea44) (4, 0x4bdecfa9) (7, 0xf6bb4b60) (10, 0xbebfbc70) (
     MD5_quad MD5_H x 4 11 16 23 (5, 0xfffa3942) (8, 0x8771f681) (11, 0x6d9d6122) (14, 0xfde5380c) st)))"

definition MD5_round_II :: "u32 list \<Rightarrow> u32 \<times> u32 \<times> u32 \<times> u32 \<Rightarrow> u32 \<times> u32 \<times> u32 \<times> u32" where
  "MD5_round_II x st =
     MD5_quad MD5_I x 6 10 15 21 (4, 0xf7537e82) (11, 0xbd3af235) (2, 0x2ad7d2bb) (9, 0xeb86d391) (
     MD5_quad MD5_I x 6 10 15 21 (8, 0x6fa87e4f) (15, 0xfe2ce6e0) (6, 0xa3014314) (13, 0x4e0811a1) (
     MD5_quad MD5_I x 6 10 15 21 (12, 0x655b59c3) (3, 0x8f0ccc92) (10, 0xffeff47d) (1, 0x85845dd1) (
     MD5_quad MD5_I x 6 10 15 21 (0, 0xf4292244) (7, 0x432aff97) (14, 0xab9423a7) (5, 0xfc93a039) st)))"

fun MD5Decode :: "nat \<Rightarrow> buf \<Rightarrow> u32 list option" where
  "MD5Decode 0 input = Some []"
| "MD5Decode (Suc n) (i0 # i1 # i2 # i3 # input) =
     do { r \<leftarrow> MD5Decode n input;
          Some ((ucast i0 OR push_bit 8 (ucast i1) OR push_bit 16 (ucast i2) OR push_bit 24 (ucast i3)) # r) }"
| "MD5Decode _ _ = None"

fun MD5Encode :: "u32 list \<Rightarrow> buf" where
  "MD5Encode [] = []"
| "MD5Encode (x # xs) =
     ucast (x AND 0xFF) # ucast (drop_bit 8 x AND 0xFF) # ucast (drop_bit 16 x AND 0xFF) # ucast (drop_bit 24 x AND 0xFF) # MD5Encode xs"

definition state_add :: "md5_state \<Rightarrow> md5_state \<Rightarrow> md5_state" where
  "state_add = (\<lambda>(a, b, c, d) (a', b', c', d'). (a + a', b + b', c + c', d + d'))"

definition MD5Transform :: "md5_state \<Rightarrow> buf \<Rightarrow> md5_state option" where
  "MD5Transform st block =
     do { x \<leftarrow> MD5Decode 16 block;
          Some (state_add st (MD5_round_II x (MD5_round_HH x (MD5_round_GG x (MD5_round_FF x st))))) }"

definition MD5Init :: "buf \<Rightarrow> MD5_CTX" where
  "MD5Init buffer = \<lparr>md5_count0 = 0, md5_count1 = 0, md5_state = (0x67452301, 0xEFCDAB89, 0x98BADCFE, 0x10325476), md5_buffer = buffer\<rparr>"

text \<open>The loop over whole blocks of the input; \<open>i + 64\<close> is computed in 32 bits.\<close>

partial_function (option) MD5_loop :: "u32 \<Rightarrow> md5_state \<Rightarrow> buf \<Rightarrow> u32 \<Rightarrow> (u32 \<times> md5_state) option" where
  "MD5_loop i st input inputlen =
     (if i + 64 \<le> inputlen
      then do { b \<leftarrow> buf_read input (unat i) 64; st1 \<leftarrow> MD5Transform st b; MD5_loop (i + 64) st1 input inputlen }
      else Some (i, st))"

declare MD5_loop.simps [code]

definition MD5Update :: "MD5_CTX \<Rightarrow> buf \<Rightarrow> u32 \<Rightarrow> MD5_CTX option" where
  "MD5Update context input inputlen =
     do { let index = unat (drop_bit 3 (md5_count0 context) AND 0x3F);
          let partlen = 64 - index;
          let c0 = md5_count0 context + push_bit 3 inputlen;
          let c1 = (if c0 < push_bit 3 inputlen then md5_count1 context + 1 else md5_count1 context) + drop_bit 29 inputlen;
          let ctx = context\<lparr>md5_count0 := c0, md5_count1 := c1\<rparr>;
          if partlen \<le> unat inputlen
          then do { p \<leftarrow> buf_read input 0 partlen;
                    b \<leftarrow> buf_write (md5_buffer ctx) index p;
                    st \<leftarrow> MD5Transform (md5_state ctx) b;
                    (i, st1) \<leftarrow> MD5_loop (word_of_nat partlen) st input inputlen;
                    t \<leftarrow> buf_read input (unat i) (unat (inputlen - i));
                    b1 \<leftarrow> buf_write b 0 t;
                    Some (ctx\<lparr>md5_state := st1, md5_buffer := b1\<rparr>) }
          else do { t \<leftarrow> buf_read input 0 (unat inputlen);
                    b \<leftarrow> buf_write (md5_buffer ctx) index t;
                    Some (ctx\<lparr>md5_buffer := b\<rparr>) } }"

definition PADDING :: buf where "PADDING = 0x80 # replicate 63 0"

definition MD5Final :: "MD5_CTX \<Rightarrow> (MD5_CTX \<times> buf) option" where
  "MD5Final context =
     do { let index = unat (drop_bit 3 (md5_count0 context) AND 0x3F);
          let padlen = (if index < 56 then 56 - index else 120 - index);
          let bits = MD5Encode [md5_count0 context, md5_count1 context];
          c1 \<leftarrow> MD5Update context PADDING (word_of_nat padlen);
          c2 \<leftarrow> MD5Update c1 bits 8;
          case md5_state c2 of (a, b, c, d) \<Rightarrow> Some (c2, MD5Encode [a, b, c, d]) }"

section \<open>The reference\<close>

definition md5_T :: "u32 list" where
  "md5_T = [0xd76aa478, 0xe8c7b756, 0x242070db, 0xc1bdceee, 0xf57c0faf, 0x4787c62a, 0xa8304613, 0xfd469501, 0x698098d8, 0x8b44f7af,
     0xffff5bb1, 0x895cd7be, 0x6b901122, 0xfd987193, 0xa679438e, 0x49b40821, 0xf61e2562, 0xc040b340, 0x265e5a51, 0xe9b6c7aa,
     0xd62f105d, 0x2441453, 0xd8a1e681, 0xe7d3fbc8, 0x21e1cde6, 0xc33707d6, 0xf4d50d87, 0x455a14ed, 0xa9e3e905, 0xfcefa3f8,
     0x676f02d9, 0x8d2a4c8a, 0xfffa3942, 0x8771f681, 0x6d9d6122, 0xfde5380c, 0xa4beea44, 0x4bdecfa9, 0xf6bb4b60, 0xbebfbc70,
     0x289b7ec6, 0xeaa127fa, 0xd4ef3085, 0x4881d05, 0xd9d4d039, 0xe6db99e5, 0x1fa27cf8, 0xc4ac5665, 0xf4292244, 0x432aff97,
     0xab9423a7, 0xfc93a039, 0x655b59c3, 0x8f0ccc92, 0xffeff47d, 0x85845dd1, 0x6fa87e4f, 0xfe2ce6e0, 0xa3014314, 0x4e0811a1,
     0xf7537e82, 0xbd3af235, 0x2ad7d2bb, 0xeb86d391]"

definition md5_fun :: "nat \<Rightarrow> u32 \<Rightarrow> u32 \<Rightarrow> u32 \<Rightarrow> u32" where
  "md5_fun i x y z =
     (if i < 16 then (x AND y) OR (NOT x AND z) else if i < 32 then (x AND z) OR (y AND NOT z)
      else if i < 48 then x XOR y XOR z else y XOR (x OR NOT z))"

definition md5_word :: "nat \<Rightarrow> nat" where
  "md5_word i = (if i < 16 then i else if i < 32 then 5 * i + 1 else if i < 48 then 3 * i + 5 else 7 * i) mod 16"

definition md5_shift :: "nat \<Rightarrow> nat" where
  "md5_shift i = (if i < 16 then [7, 12, 17, 22] else if i < 32 then [5, 9, 14, 20] else if i < 48 then [4, 11, 16, 23]
     else [6, 10, 15, 21]) ! (i mod 4)"

definition md5_step :: "u32 list \<Rightarrow> md5_state \<Rightarrow> nat \<Rightarrow> md5_state" where
  "md5_step x = (\<lambda>(a, b, c, d) i.
     (d, word_rotl (md5_shift i) (a + md5_fun i b c d + x ! md5_word i + md5_T ! i) + b, b, c))"

text \<open>Little-endian words of a block.\<close>

fun le_words :: "buf \<Rightarrow> u32 list" where
  "le_words (b0 # b1 # b2 # b3 # r) =
     (ucast b0 OR push_bit 8 (ucast b1) OR push_bit 16 (ucast b2) OR push_bit 24 (ucast b3)) # le_words r"
| "le_words _ = []"

definition md5_compress :: "md5_state \<Rightarrow> buf \<Rightarrow> md5_state" where
  "md5_compress st block = state_add st (foldl (md5_step (le_words block)) st [0..<64])"

fun md5_blocks :: "md5_state \<Rightarrow> buf \<Rightarrow> md5_state" where
  "md5_blocks st m = (if length m < 64 then st else md5_blocks (md5_compress st (take 64 m)) (drop 64 m))"

declare md5_blocks.simps [simp del]

definition le_bytes :: "nat \<Rightarrow> nat \<Rightarrow> buf" where
  "le_bytes k n = map (\<lambda>i. word_of_nat (n div 256 ^ i)) [0..<k]"

text \<open>The message, a one bit, zeros up to 56 modulo 64 and the length in bits as 8 bytes.\<close>

definition md5_pad :: "buf \<Rightarrow> buf" where
  "md5_pad m = m @ 0x80 # replicate ((119 - length m mod 64) mod 64) 0 @ le_bytes 8 (8 * length m)"

definition md5_init :: md5_state where
  "md5_init = (0x67452301, 0xEFCDAB89, 0x98BADCFE, 0x10325476)"

definition md5_digest :: "buf \<Rightarrow> buf" where
  "md5_digest m = (case md5_blocks md5_init (md5_pad m) of (a, b, c, d) \<Rightarrow>
     le_bytes 4 (unat a) @ le_bytes 4 (unat b) @ le_bytes 4 (unat c) @ le_bytes 4 (unat d))"

section \<open>The transformation is the compression\<close>

lemma ROTATE_LEFT_eq: "0 < n \<Longrightarrow> n < 32 \<Longrightarrow> ROTATE_LEFT x n = word_rotl n x"
proof (rule bit_word_eqI)
  fix k assume a: "0 < n" "n < 32" "k < LENGTH(32)"
  have c: "32 + k - n = k + 32 - n" by simp
  show "bit (ROTATE_LEFT x n) k = bit (word_rotl n x) k"
  proof (cases "n \<le> k")
    case True
    then have "(k + 32 - n) mod 32 = k - n" "\<not> bit x (k + 32 - n)"
      using a bit_imp_le_length [of x "k + 32 - n"] by (auto simp: mod_if)
    with True a show ?thesis by (simp add: ROTATE_LEFT_def bit_simps bit_word_rotl_iff c)
  next
    case False
    then have "(k + 32 - n) mod 32 = k + 32 - n" using a by simp
    with False a show ?thesis by (simp add: ROTATE_LEFT_def bit_simps bit_word_rotl_iff c)
  qed
qed

lemma md5_shift_range: "0 < md5_shift i \<and> md5_shift i < 32"
proof -
  have "i mod 4 \<in> {0, 1, 2, 3}" by auto
  then show ?thesis by (auto simp: md5_shift_def)
qed

lemma md5_step_op:
  "md5_step x (a, b, c, d) i = (d, MD5_op (md5_fun i) a b c d (x ! md5_word i) (md5_shift i) (md5_T ! i), b, c)"
  using md5_shift_range [of i] by (simp add: md5_step_def MD5_op_def ROTATE_LEFT_eq add.assoc)

lemma md5_fun_eqs:
  "i < 16 \<Longrightarrow> md5_fun i = MD5_F" "16 \<le> i \<Longrightarrow> i < 32 \<Longrightarrow> md5_fun i = MD5_G"
  "32 \<le> i \<Longrightarrow> i < 48 \<Longrightarrow> md5_fun i = MD5_H" "48 \<le> i \<Longrightarrow> md5_fun i = MD5_I"
  by (auto simp: fun_eq_iff md5_fun_def MD5_F_def MD5_G_def MD5_H_def MD5_I_def)

lemma md5_quads:
  "foldl (md5_step x) st [0, 1, 2, 3] = MD5_quad MD5_F x 7 12 17 22 (0, 0xd76aa478) (1, 0xe8c7b756) (2, 0x242070db) (3, 0xc1bdceee) st"
  "foldl (md5_step x) st [4, 5, 6, 7] = MD5_quad MD5_F x 7 12 17 22 (4, 0xf57c0faf) (5, 0x4787c62a) (6, 0xa8304613) (7, 0xfd469501) st"
  "foldl (md5_step x) st [8, 9, 10, 11] = MD5_quad MD5_F x 7 12 17 22 (8, 0x698098d8) (9, 0x8b44f7af) (10, 0xffff5bb1) (11, 0x895cd7be) st"
  "foldl (md5_step x) st [12, 13, 14, 15] = MD5_quad MD5_F x 7 12 17 22 (12, 0x6b901122) (13, 0xfd987193) (14, 0xa679438e) (15, 0x49b40821) st"
  "foldl (md5_step x) st [16, 17, 18, 19] = MD5_quad MD5_G x 5 9 14 20 (1, 0xf61e2562) (6, 0xc040b340) (11, 0x265e5a51) (0, 0xe9b6c7aa) st"
  "foldl (md5_step x) st [20, 21, 22, 23] = MD5_quad MD5_G x 5 9 14 20 (5, 0xd62f105d) (10, 0x2441453) (15, 0xd8a1e681) (4, 0xe7d3fbc8) st"
  "foldl (md5_step x) st [24, 25, 26, 27] = MD5_quad MD5_G x 5 9 14 20 (9, 0x21e1cde6) (14, 0xc33707d6) (3, 0xf4d50d87) (8, 0x455a14ed) st"
  "foldl (md5_step x) st [28, 29, 30, 31] = MD5_quad MD5_G x 5 9 14 20 (13, 0xa9e3e905) (2, 0xfcefa3f8) (7, 0x676f02d9) (12, 0x8d2a4c8a) st"
  "foldl (md5_step x) st [32, 33, 34, 35] = MD5_quad MD5_H x 4 11 16 23 (5, 0xfffa3942) (8, 0x8771f681) (11, 0x6d9d6122) (14, 0xfde5380c) st"
  "foldl (md5_step x) st [36, 37, 38, 39] = MD5_quad MD5_H x 4 11 16 23 (1, 0xa4beea44) (4, 0x4bdecfa9) (7, 0xf6bb4b60) (10, 0xbebfbc70) st"
  "foldl (md5_step x) st [40, 41, 42, 43] = MD5_quad MD5_H x 4 11 16 23 (13, 0x289b7ec6) (0, 0xeaa127fa) (3, 0xd4ef3085) (6, 0x4881d05) st"
  "foldl (md5_step x) st [44, 45, 46, 47] = MD5_quad MD5_H x 4 11 16 23 (9, 0xd9d4d039) (12, 0xe6db99e5) (15, 0x1fa27cf8) (2, 0xc4ac5665) st"
  "foldl (md5_step x) st [48, 49, 50, 51] = MD5_quad MD5_I x 6 10 15 21 (0, 0xf4292244) (7, 0x432aff97) (14, 0xab9423a7) (5, 0xfc93a039) st"
  "foldl (md5_step x) st [52, 53, 54, 55] = MD5_quad MD5_I x 6 10 15 21 (12, 0x655b59c3) (3, 0x8f0ccc92) (10, 0xffeff47d) (1, 0x85845dd1) st"
  "foldl (md5_step x) st [56, 57, 58, 59] = MD5_quad MD5_I x 6 10 15 21 (8, 0x6fa87e4f) (15, 0xfe2ce6e0) (6, 0xa3014314) (13, 0x4e0811a1) st"
  "foldl (md5_step x) st [60, 61, 62, 63] = MD5_quad MD5_I x 6 10 15 21 (4, 0xf7537e82) (11, 0xbd3af235) (2, 0x2ad7d2bb) (9, 0xeb86d391) st"
  by (cases st; simp add: MD5_quad_def md5_step_op Let_def md5_fun_eqs md5_word_def md5_shift_def md5_T_def)+

lemma MD5_rounds:
  "MD5_round_II x (MD5_round_HH x (MD5_round_GG x (MD5_round_FF x st))) = foldl (md5_step x) st [0..<64]"
proof -
  have "[0..<64] = [0, 1, 2, 3] @ [4, 5, 6, 7] @ [8, 9, 10, 11] @ [12, 13, 14, 15] @ [16, 17, 18, 19] @ [20, 21, 22, 23] @
      [24, 25, 26, 27] @ [28, 29, 30, 31] @ [32, 33, 34, 35] @ [36, 37, 38, 39] @ [40, 41, 42, 43] @ [44, 45, 46, 47] @
      [48, 49, 50, 51] @ [52, 53, 54, 55] @ [56, 57, 58, 59] @ [60, 61, 62, 63]"
    by (simp add: upt_rec)
  then show ?thesis
    by (simp only: foldl_append md5_quads MD5_round_FF_def MD5_round_GG_def MD5_round_HH_def MD5_round_II_def)
qed

lemma MD5Decode_eq: "length b = 4 * n \<Longrightarrow> MD5Decode n b = Some (le_words b)"
proof (induction n b rule: MD5Decode.induct)
  case (1 input)
  then show ?case by simp
qed auto

lemma MD5Transform_eq: "length b = 64 \<Longrightarrow> MD5Transform st b = Some (md5_compress st b)"
  by (simp add: MD5Transform_def MD5Decode_eq [of b 16] MD5_rounds md5_compress_def)

section \<open>Blocks\<close>

lemma md5_blocks_short: "length m < 64 \<Longrightarrow> md5_blocks st m = st"
  by (simp add: md5_blocks.simps)

lemma md5_blocks_block: "length b = 64 \<Longrightarrow> md5_blocks st (b @ m) = md5_blocks (md5_compress st b) m"
  by (subst md5_blocks.simps) simp

lemma md5_blocks_append: "length p = 64 * k \<Longrightarrow> md5_blocks st (p @ q) = md5_blocks (md5_blocks st p) q"
proof (induction k arbitrary: p st)
  case 0
  then show ?case by (simp add: md5_blocks_short)
next
  case (Suc k)
  let ?b = "take 64 p" and ?r = "drop 64 p"
  have l: "length ?b = 64" "length ?r = 64 * k" using Suc.prems by simp_all
  have "md5_blocks st (p @ q) = md5_blocks (md5_compress st ?b) (?r @ q)"
    using md5_blocks_block [OF l(1), of st "?r @ q"] by (simp only: append_assoc [symmetric] append_take_drop_id)
  also have "\<dots> = md5_blocks (md5_blocks (md5_compress st ?b) ?r) q" by (rule Suc.IH [OF l(2)])
  also have "md5_blocks (md5_compress st ?b) ?r = md5_blocks st p" using md5_blocks_block [OF l(1), of st ?r] by simp
  finally show ?case .
qed

text \<open>Only whole blocks count.\<close>

lemma md5_blocks_tail: "length p = 64 * k \<Longrightarrow> length q < 64 \<Longrightarrow> md5_blocks st (p @ q) = md5_blocks st p"
  by (simp add: md5_blocks_append md5_blocks_short)

lemma MD5_loop_eq:
  assumes "unat inputlen + 64 < 2 ^ 32" and "unat i + k \<le> unat inputlen" and "unat inputlen \<le> length input" and "k = unat inputlen - unat i"
  shows "\<exists>i'. MD5_loop i st input inputlen = Some (i', md5_blocks st (take k (drop (unat i) input))) \<and>
    unat i' = unat inputlen - k mod 64"
  using assms(2,4)
proof (induction k arbitrary: i st rule: less_induct)
  case (less k)
  have plus: "unat (i + 64) = unat i + 64" using assms(1) less.prems by (simp add: unat_word_ariths)
  show ?case
  proof (cases "64 \<le> k")
    case False
    then have "\<not> i + 64 \<le> inputlen" using less.prems plus by (simp add: word_le_nat_alt)
    then show ?thesis using False less.prems by (subst MD5_loop.simps) (simp add: md5_blocks_short)
  next
    case True
    let ?b = "take 64 (drop (unat i) input)"
    have b: "length ?b = 64" and le: "i + 64 \<le> inputlen" using True less.prems assms(3) plus by (simp_all add: word_le_nat_alt)
    have rd: "buf_read input (unat i) 64 = Some ?b" using True less.prems assms(3) by (simp add: buf_read_def)
    have "take k (drop (unat i) input) = ?b @ take (k - 64) (drop (unat i + 64) input)"
      using True take_add [of 64 "k - 64" "drop (unat i) input"] by (simp add: add.commute)
    then have bl: "md5_blocks st (take k (drop (unat i) input)) = md5_blocks (md5_compress st ?b) (take (k - 64) (drop (unat (i + 64)) input))"
      using md5_blocks_block [OF b] plus by simp
    have "k mod 64 = (k - 64) mod 64" using True by (simp add: le_mod_geq)
    moreover have "\<exists>i'. MD5_loop (i + 64) (md5_compress st ?b) input inputlen =
        Some (i', md5_blocks (md5_compress st ?b) (take (k - 64) (drop (unat (i + 64)) input))) \<and> unat i' = unat inputlen - (k - 64) mod 64"
      using True less.prems plus by (intro less.IH) simp_all
    ultimately show ?thesis
      using le by (subst MD5_loop.simps) (simp add: rd MD5Transform_eq [OF b] bl)
  qed
qed

section \<open>The context represents the message so far\<close>

definition md5_rep :: "MD5_CTX \<Rightarrow> buf \<Rightarrow> bool" where
  "md5_rep c m = (md5_count0 c = word_of_nat (8 * length m) \<and> md5_count1 c = word_of_nat (8 * length m div 2 ^ 32) \<and>
     md5_state c = md5_blocks md5_init m \<and> length (md5_buffer c) = 64 \<and>
     take (length m mod 64) (md5_buffer c) = drop (length m - length m mod 64) m)"

lemma md5_rep_init: "length b = 64 \<Longrightarrow> md5_rep (MD5Init b) []"
  by (simp add: md5_rep_def MD5Init_def md5_init_def md5_blocks_short)

lemma unat_lt_exp: "unat w < 2 ^ 32" for w :: u32
  using unsigned_less [of w, where 'a = nat] by simp

lemma unat_index: "unat (drop_bit 3 w AND 0x3F) = (unat w div 8) mod 64" for w :: u32
proof -
  have "drop_bit 3 w AND 0x3F = take_bit 6 (drop_bit 3 w)" by (simp add: take_bit_eq_mask mask_eq_exp_minus_1)
  moreover have "unat w mod 2 ^ 32 = unat w" using unat_lt_exp [of w] by simp
  ultimately show ?thesis
    by (simp add: unsigned_take_bit_eq unsigned_drop_bit_eq take_bit_eq_mod [where 'a = nat] drop_bit_eq_div [where 'a = nat])
qed

lemma md5_index: "unat (drop_bit 3 (word_of_nat (8 * n) :: u32) AND 0x3F) = n mod 64"
proof -
  have "unat (word_of_nat (8 * n) :: u32) = 8 * n mod 2 ^ 32" by (simp only: unsigned_of_nat take_bit_eq_mod) simp
  moreover have "8 * n mod (2 ^ 32) div 8 = n mod 2 ^ 29"
    using mult_mod_right [of 8 n "2 ^ 29"] by simp
  ultimately show ?thesis by (simp only: unat_index) (simp add: mod_mod_cancel)
qed

lemma add_carry:
  fixes a b M :: nat
  assumes "a < M" and "b < M"
  shows "(a + b) mod M < b \<longleftrightarrow> M \<le> a + b" and "(a + b) div M = (if M \<le> a + b then 1 else 0)"
  using assms by (auto simp: mod_if div_if)

lemma md5_counts:
  fixes n :: u32 and l :: nat
  defines "c \<equiv> word_of_nat (8 * l) + push_bit 3 n"
  shows "c = word_of_nat (8 * (l + unat n))"
    and "(if c < push_bit 3 n then word_of_nat (8 * l div 2 ^ 32) + 1 else word_of_nat (8 * l div 2 ^ 32)) + drop_bit 29 n =
      (word_of_nat (8 * (l + unat n) div 2 ^ 32) :: u32)"
proof -
  have p: "push_bit 3 n = word_of_nat (8 * unat n)" by (simp add: push_bit_eq_mult)
  then show "c = word_of_nat (8 * (l + unat n))" by (simp add: c_def distrib_left)
  let ?M = "2 ^ 32 :: nat"
  have d: "drop_bit 29 n = word_of_nat (8 * unat n div ?M)"
  proof (rule word_unat_eq_iff [THEN iffD2])
    have "unat n < 2 ^ 32" using unat_lt_exp [of n] by simp
    then show "unat (drop_bit 29 n) = unat (word_of_nat (8 * unat n div ?M) :: u32)"
      by (simp add: unsigned_drop_bit_eq drop_bit_eq_div [where 'a = nat] unsigned_of_nat take_bit_eq_mod [where 'a = nat])
  qed
  have u: "unat (push_bit 3 n) = 8 * unat n mod ?M" "unat c = (8 * l mod ?M + 8 * unat n mod ?M) mod ?M"
    by (simp_all add: p c_def unsigned_of_nat take_bit_eq_mod unat_word_ariths mod_simps)
  have lt: "8 * l mod ?M < ?M" "8 * unat n mod ?M < ?M" by simp_all
  have "c < push_bit 3 n \<longleftrightarrow> ?M \<le> 8 * l mod ?M + 8 * unat n mod ?M"
    unfolding word_less_nat_alt u by (rule add_carry(1) [OF lt])
  moreover have "8 * (l + unat n) div ?M = 8 * l div ?M + 8 * unat n div ?M + (if ?M \<le> 8 * l mod ?M + 8 * unat n mod ?M then 1 else 0)"
    unfolding add_carry(2) [OF lt, symmetric] distrib_left by (rule div_add1_eq)
  ultimately show "(if c < push_bit 3 n then word_of_nat (8 * l div ?M) + 1 else word_of_nat (8 * l div ?M)) + drop_bit 29 n =
      (word_of_nat (8 * (l + unat n) div ?M) :: u32)"
    by (simp add: d)
qed

text \<open>The two branches of an update: the input does not fill the buffer, or it does and whole blocks follow.\<close>

lemma md5_update_fits:
  assumes "length buf = 64" and "take (length m mod 64) buf = drop (length m - length m mod 64) m"
    and "length m mod 64 + length x < 64"
  shows "md5_blocks st (m @ x) = md5_blocks st m"
    and "take (length (m @ x) mod 64) (take (length m mod 64) buf @ x @ drop (length m mod 64 + length x) buf) =
      drop (length (m @ x) - length (m @ x) mod 64) (m @ x)"
proof -
  let ?r = "length m mod 64" and ?w = "take (length m - length m mod 64) m"
  have w: "length ?w = 64 * (length m div 64)" by (simp add: minus_mod_eq_mult_div)
  have m: "m = ?w @ drop (length m - ?r) m" by simp
  have d: "length (drop (length m - ?r) m) = ?r" by simp
  have "md5_blocks st (?w @ drop (length m - ?r) m @ x) = md5_blocks st (?w @ drop (length m - ?r) m)"
    using assms(3) d by (simp only: md5_blocks_tail [OF w] length_append mod_less_divisor zero_less_numeral)
  then show "md5_blocks st (m @ x) = md5_blocks st m" using m by (metis append_assoc)
  have l: "length (m @ x) mod 64 = ?r + length x" using assms(3) mod_add_left_eq [of "length m" 64 "length x"] by simp
  have "length (m @ x) - (?r + length x) = length m - ?r" by simp
  then show "take (length (m @ x) mod 64) (take ?r buf @ x @ drop (?r + length x) buf) = drop (length (m @ x) - length (m @ x) mod 64) (m @ x)"
    using assms unfolding l by simp
qed

lemma md5_update_fills:
  assumes "length p + length m mod 64 = 64"
  defines "b \<equiv> drop (length m - length m mod 64) m @ p"
  shows "length b = 64"
    and "md5_blocks st (m @ p @ x) = md5_blocks (md5_compress (md5_blocks st m) b) x"
    and "length (m @ p @ x) mod 64 = length x mod 64"
proof -
  let ?r = "length m mod 64" and ?w = "take (length m - length m mod 64) m"
  show b: "length b = 64" using assms(1) by (simp add: b_def)
  have w: "length ?w = 64 * (length m div 64)" by (simp add: minus_mod_eq_mult_div)
  have st: "md5_blocks st m = md5_blocks st ?w"
    using md5_blocks_tail [OF w, of "drop (length m - ?r) m"] by (simp add: mod_less_divisor)
  have "m @ p @ x = ?w @ b @ x" by (simp add: b_def)
  then show "md5_blocks st (m @ p @ x) = md5_blocks (md5_compress (md5_blocks st m) b) x"
    by (simp only: md5_blocks_append [OF w] md5_blocks_block [OF b] st)
  have fill: "a + (64 - r) + z = 64 * (q + 1) + z" if "64 * q + r = a" "r < 64" for a q r z :: nat using that by simp
  have "length (m @ p @ x) = length m + (64 - ?r) + length x" using assms(1) by simp
  also have "\<dots> = 64 * (length m div 64 + 1) + length x"
    by (rule fill [OF mult_div_mod_eq]) simp
  finally show "length (m @ p @ x) mod 64 = length x mod 64" by (simp only: mod_mult_self4)
qed

lemma MD5Update_unfold:
  fixes n :: u32
  assumes "md5_count0 c = word_of_nat (8 * l)" and "md5_count1 c = word_of_nat (8 * l div 2 ^ 32)"
  defines "ctx \<equiv> c\<lparr>md5_count0 := word_of_nat (8 * (l + unat n)), md5_count1 := word_of_nat (8 * (l + unat n) div 2 ^ 32)\<rparr>"
  shows "MD5Update c input n =
     (if 64 - l mod 64 \<le> unat n
      then do { p \<leftarrow> buf_read input 0 (64 - l mod 64);
                b \<leftarrow> buf_write (md5_buffer c) (l mod 64) p;
                st \<leftarrow> MD5Transform (md5_state c) b;
                (i, st1) \<leftarrow> MD5_loop (word_of_nat (64 - l mod 64)) st input n;
                t \<leftarrow> buf_read input (unat i) (unat (n - i));
                b1 \<leftarrow> buf_write b 0 t;
                Some (ctx\<lparr>md5_state := st1, md5_buffer := b1\<rparr>) }
      else do { t \<leftarrow> buf_read input 0 (unat n);
                b \<leftarrow> buf_write (md5_buffer c) (l mod 64) t;
                Some (ctx\<lparr>md5_buffer := b\<rparr>) })"
proof -
  have "c\<lparr>md5_count0 := md5_count0 c + push_bit 3 n,
      md5_count1 := (if md5_count0 c + push_bit 3 n < push_bit 3 n then md5_count1 c + 1 else md5_count1 c) + drop_bit 29 n\<rparr> = ctx"
    unfolding assms(1,2) ctx_def by (simp only: md5_counts(2)) (simp only: md5_counts(1))
  moreover have "unat (drop_bit 3 (md5_count0 c) AND 0x3F) = l mod 64" unfolding assms(1) by (rule md5_index)
  moreover have "md5_buffer ctx = md5_buffer c" "md5_state ctx = md5_state c" by (simp_all add: ctx_def)
  ultimately show ?thesis unfolding MD5Update_def Let_def by simp
qed

lemma unat_small: "j \<le> 120 \<Longrightarrow> unat (word_of_nat j :: u32) = j"
  by (simp add: unsigned_of_nat take_bit_nat_eq_self)

lemma overwrite_length: "length ys \<le> length zs \<Longrightarrow> length (ys @ drop (length ys) zs) = length zs"
  by simp

lemma MD5Update_rep:
  assumes rep: "md5_rep c m" and len: "unat n \<le> length input" and small: "unat n + 64 < 2 ^ 32"
  shows "\<exists>c'. MD5Update c input n = Some c' \<and> md5_rep c' (m @ take (unat n) input)"
proof -
  let ?r = "length m mod 64" and ?m = "m @ take (unat n) input"
  from rep have r: "md5_count0 c = word_of_nat (8 * length m)" "md5_count1 c = word_of_nat (8 * length m div 2 ^ 32)"
    "md5_state c = md5_blocks md5_init m" "length (md5_buffer c) = 64" "take ?r (md5_buffer c) = drop (length m - ?r) m"
    by (simp_all only: md5_rep_def)
  have cnt: "length ?m = length m + unat n" using len by simp
  define ctx where "ctx = c\<lparr>md5_count0 := word_of_nat (8 * length ?m), md5_count1 := word_of_nat (8 * length ?m div 2 ^ 32)\<rparr>"
  note u = MD5Update_unfold [OF r(1,2), of input n, folded cnt, folded ctx_def]
  have goal: "md5_rep (ctx\<lparr>md5_state := st, md5_buffer := b\<rparr>) ?m"
    if "st = md5_blocks md5_init ?m" "length b = 64" "take (length ?m mod 64) b = drop (length ?m - length ?m mod 64) ?m" for st b
    using that by (simp add: md5_rep_def ctx_def del: length_append take_append drop_append)
  show ?thesis
  proof (cases "64 - ?r \<le> unat n")
    case False
    let ?b = "take ?r (md5_buffer c) @ take (unat n) input @ drop (?r + length (take (unat n) input)) (md5_buffer c)"
    have s: "?r + length (take (unat n) input) < 64" using False len by simp
    note f = md5_update_fits [OF r(4,5) s]
    have up: "MD5Update c input n = Some (ctx\<lparr>md5_buffer := ?b\<rparr>)"
      unfolding u using False s r(4) len by (simp add: buf_read_def buf_write_def)
    have "ctx\<lparr>md5_buffer := ?b\<rparr> = ctx\<lparr>md5_state := md5_blocks md5_init m, md5_buffer := ?b\<rparr>" using r(3) by (simp add: ctx_def)
    then show ?thesis using up goal [OF f(1) [symmetric] _ f(2)] s r(4) by simp
  next
    case True
    obtain k where k: "unat n = 64 - ?r + k" using le_Suc_ex [OF True] by blast
    let ?p = "take (64 - ?r) input" and ?x = "take k (drop (64 - ?r) input)"
    let ?b = "drop (length m - ?r) m @ ?p"
    have split: "take (unat n) input = ?p @ ?x" by (simp only: k take_add)
    have kl: "64 - ?r + k \<le> length input" using len k by simp
    have lp: "length ?p + ?r = 64" using True len by simp
    have lx: "length ?x = k" using kl by (simp only: length_take length_drop)
    note f = md5_update_fills(1) [OF lp] md5_update_fills(2) [OF lp, of md5_init ?x, folded split]
      md5_update_fills(3) [OF lp, of ?x, folded split]
    have wr: "buf_write (md5_buffer c) ?r ?p = Some ?b" using lp r by (simp add: buf_write_def)
    have pl: "unat (word_of_nat (64 - ?r) :: u32) = 64 - ?r" by (rule unat_small) simp
    have "\<exists>i. MD5_loop (word_of_nat (64 - ?r)) (md5_compress (md5_state c) ?b) input n =
        Some (i, md5_blocks (md5_compress (md5_state c) ?b) (take k (drop (unat (word_of_nat (64 - ?r) :: u32)) input))) \<and>
        unat i = unat n - k mod 64"
      by (rule MD5_loop_eq [OF small _ len]) (simp_all only: pl k add_diff_cancel_left' order_refl)
    then obtain i where i: "MD5_loop (word_of_nat (64 - ?r)) (md5_compress (md5_state c) ?b) input n =
        Some (i, md5_blocks (md5_compress (md5_state c) ?b) ?x)" "unat i = unat n - k mod 64"
      unfolding pl by blast
    have km: "k mod 64 \<le> unat n" "k mod 64 \<le> 64" using mod_less_eq_dividend [of k 64] k by simp_all
    have ni: "unat (n - i) = k mod 64" using i(2) km by (simp add: unat_sub word_le_nat_alt)
    let ?t = "take (k mod 64) (drop (unat i) input)"
    let ?c = "?t @ drop (length ?t) ?b"
    have il: "unat i + k mod 64 \<le> length input" using i(2) km len by simp
    then have lt: "length ?t = k mod 64" by simp
    have rd: "buf_read input 0 (64 - ?r) = Some ?p" using kl by (simp add: buf_read_def)
    have rt: "buf_read input (unat i) (unat (n - i)) = Some ?t" using il ni by (simp only: buf_read_def if_True)
    have wt: "buf_write ?b 0 ?t = Some ?c" using f(1) lt km(2) by (simp only: buf_write_def add_0 take_0 append_Nil if_True)
    have up: "MD5Update c input n = Some (ctx\<lparr>md5_state := md5_blocks (md5_compress (md5_state c) ?b) ?x, md5_buffer := ?c\<rparr>)"
      by (simp only: u True if_True rd wr MD5Transform_eq [OF f(1)] i(1) rt wt Option.bind.simps prod.case)
    have m64: "length ?m mod 64 = k mod 64" using f(3) lx by simp
    have "drop (length ?m - k mod 64) ?m = ?t" using i(2) km len by (simp add: drop_take)
    then have tk: "take (length ?m mod 64) ?c = drop (length ?m - length ?m mod 64) ?m" unfolding m64 using lt by simp
    have lc: "length ?c = 64" using overwrite_length [of ?t ?b] by (simp only: f(1) lt km)
    show ?thesis using up goal [OF f(2) [folded r(3), symmetric] lc tk] by blast
  qed
qed

section \<open>The digest\<close>

lemma md5_byte:
  assumes "k + 8 \<le> 32"
  shows "ucast (drop_bit k (word_of_nat n :: u32) AND 0xFF) = (word_of_nat (n div 2 ^ k) :: u8)"
proof -
  have ff: "(0xFF :: u32) = mask 8" by (simp add: mask_eq_exp_minus_1)
  show ?thesis
    unfolding ff drop_bit_eq_div [symmetric]
    using assms by (intro bit_word_eqI) (auto simp: bit_simps)
qed

lemma MD5Encode_nat: "MD5Encode [word_of_nat n] = le_bytes 4 n"
  using md5_byte [of 0 n] md5_byte [of 8 n] md5_byte [of 16 n] md5_byte [of 24 n] by (simp add: le_bytes_def upt_rec)

lemma le_bytes_split: "le_bytes 8 n = le_bytes 4 n @ le_bytes 4 (n div 2 ^ 32)"
  by (simp add: le_bytes_def upt_rec flip: div_mult2_eq)

lemma MD5Encode_Cons: "MD5Encode (x # xs) = MD5Encode [x] @ MD5Encode xs"
  by simp

lemma MD5Encode_counts: "MD5Encode [word_of_nat n, word_of_nat (n div 2 ^ 32)] = le_bytes 8 n"
  by (subst MD5Encode_Cons) (simp only: MD5Encode_nat le_bytes_split)

lemma unat_inverse: "word_of_nat (unat w) = w" for w :: u32
  by simp

lemma MD5Encode_state: "MD5Encode [a, b, c, d] = le_bytes 4 (unat a) @ le_bytes 4 (unat b) @ le_bytes 4 (unat c) @ le_bytes 4 (unat d)"
  using MD5Encode_nat [of "unat a"] MD5Encode_nat [of "unat b"] MD5Encode_nat [of "unat c"] MD5Encode_nat [of "unat d"]
  by (subst MD5Encode_Cons, subst (2) MD5Encode_Cons, subst (3) MD5Encode_Cons) (simp only: unat_inverse)

lemma length_le_bytes [simp]: "length (le_bytes k n) = k"
  by (simp add: le_bytes_def)

lemma md5_padlen:
  fixes r :: nat
  assumes "r < 64"
  defines "p \<equiv> if r < 56 then 56 - r else 120 - r"
  shows "0 < p" and "p \<le> 64" and "p - 1 = (119 - r) mod 64"
proof -
  have "(119 - r) mod 64 = 119 - r - 64" if "r < 56" using that le_mod_geq [of 64 "119 - r"] by simp
  with assms(1) show "0 < p" "p \<le> 64" "p - 1 = (119 - r) mod 64" by (auto simp: p_def)
qed

lemma MD5Final_rep:
  assumes "md5_rep c m"
  shows "\<exists>c'. MD5Final c = Some (c', md5_digest m)"
proof -
  let ?r = "length m mod 64"
  define padlen where "padlen = (if ?r < 56 then 56 - ?r else 120 - ?r)"
  have r: "md5_count0 c = word_of_nat (8 * length m)" "md5_count1 c = word_of_nat (8 * length m div 2 ^ 32)"
    using assms by (simp_all only: md5_rep_def)
  have idx: "unat (drop_bit 3 (md5_count0 c) AND 0x3F) = ?r" unfolding r(1) by (rule md5_index)
  have p: "0 < padlen" "padlen \<le> 64" "padlen - 1 = (119 - ?r) mod 64"
    unfolding padlen_def by (rule md5_padlen, simp)+
  then have pu: "unat (word_of_nat padlen :: u32) = padlen" by (intro unat_small) simp
  have pad: "take padlen PADDING = 0x80 # replicate ((119 - ?r) mod 64) 0"
    using p by (cases padlen) (simp_all add: PADDING_def min_def)
  obtain c1 where c1: "MD5Update c PADDING (word_of_nat padlen) = Some c1" "md5_rep c1 (m @ take padlen PADDING)"
    using MD5Update_rep [OF assms, of "word_of_nat padlen" PADDING] p pu by (auto simp: PADDING_def)
  obtain c2 where c2: "MD5Update c1 (le_bytes 8 (8 * length m)) 8 = Some c2"
      "md5_rep c2 ((m @ take padlen PADDING) @ le_bytes 8 (8 * length m))"
    using MD5Update_rep [OF c1(2), of 8 "le_bytes 8 (8 * length m)"] by auto
  have "md5_state c2 = md5_blocks md5_init (md5_pad m)"
    using c2(2) by (simp add: md5_rep_def md5_pad_def pad)
  moreover have "MD5Encode [md5_count0 c, md5_count1 c] = le_bytes 8 (8 * length m)"
    unfolding r by (rule MD5Encode_counts)
  moreover obtain x y z w where "md5_blocks md5_init (md5_pad m) = (x, y, z, w)" by (rule prod_cases4)
  ultimately have "MD5Final c = Some (c2, md5_digest m)"
    by (simp only: MD5Final_def Let_def idx md5_digest_def padlen_def [symmetric] c1(1) c2(1) MD5Encode_state Option.bind.simps prod.case)
  then show ?thesis by blast
qed

text \<open>A caller's sequence of updates, each with its length as a 32-bit argument.\<close>

fun md5_updates :: "MD5_CTX \<Rightarrow> buf list \<Rightarrow> MD5_CTX option" where
  "md5_updates c [] = Some c"
| "md5_updates c (p # ps) = do { c1 \<leftarrow> MD5Update c p (word_of_nat (length p)); md5_updates c1 ps }"

lemma md5_updates_rep:
  assumes "md5_rep c m" and "\<forall>p \<in> set ps. length p + 64 < 2 ^ 32"
  shows "\<exists>c'. md5_updates c ps = Some c' \<and> md5_rep c' (m @ concat ps)"
  using assms
proof (induction ps arbitrary: c m)
  case Nil
  then show ?case by simp
next
  case (Cons p ps)
  have u: "unat (word_of_nat (length p) :: u32) = length p"
    using Cons.prems(2) by (simp add: unsigned_of_nat take_bit_nat_eq_self)
  obtain c1 where "MD5Update c p (word_of_nat (length p)) = Some c1" "md5_rep c1 (m @ p)"
    using MD5Update_rep [OF Cons.prems(1), of "word_of_nat (length p)" p] Cons.prems(2) u by auto
  with Cons.IH [of c1 "m @ p"] Cons.prems(2) show ?case by auto
qed

text \<open>C6: however a message is cut into updates (pieces of less than $2^{32} - 64$ bytes, whatever the buffer holds before
  \<open>MD5Init\<close>), the code runs without an access outside its arrays and \<open>MD5Final\<close> returns the MD5 digest of the whole message:
  the context refines the message, and the unrolled transformation the 64-step compression of the reference.\<close>

theorem md5_streaming:
  assumes "length buffer = 64" and "\<forall>p \<in> set ps. length p + 64 < 2 ^ 32"
  shows "\<exists>c. do { c1 \<leftarrow> md5_updates (MD5Init buffer) ps; MD5Final c1 } = Some (c, md5_digest (concat ps))"
proof -
  obtain c1 where "md5_updates (MD5Init buffer) ps = Some c1" "md5_rep c1 (concat ps)"
    using md5_updates_rep [OF md5_rep_init [OF assms(1)] assms(2)] by auto
  with MD5Final_rep show ?thesis by auto
qed

theorem md5_streaming_witness:
  "\<exists>c. do { c1 \<leftarrow> md5_updates (MD5Init (replicate 64 0xAA)) [[0x61], [], replicate 70 0x62]; MD5Final c1 } =
    Some (c, md5_digest (0x61 # replicate 70 0x62))"
  using md5_streaming [of "replicate 64 0xAA" "[[0x61], [], replicate 70 0x62]"] by simp

end
