(* ===== verification/Utf8.thy ===== *)
theory Utf8
  imports HexText
begin

text \<open>
  The Unicode routines of src/nwy_utf8_gbk_ucs2.c that need no code page: the reversal of bytes, the encoder
  \<open>UnicodeToUTF8\<close>, the decoders of one character, and \<open>utf8_to_ucs2_text\<close>, which writes a UTF-8 text as hexadecimal
  UCS-2. The text routine terminates each character in place with a zero, decodes it and restores the byte, so the text is
  an array that the model passes along. Its loop need not end; the outer \<open>None\<close> of its result stands for a run that does
  not return and \<open>Some None\<close> for one that leaves an array.
\<close>

section \<open>Reversal of bytes\<close>

function hl_loop :: "nat \<Rightarrow> nat \<Rightarrow> buf \<Rightarrow> buf option" where
  "hl_loop i n b =
     (if i < n div 2
      then do { t \<leftarrow> rd b i; u \<leftarrow> rd b (n - i - 1); b1 \<leftarrow> wr b i u; b2 \<leftarrow> wr b1 (n - i - 1) t; hl_loop (i + 1) n b2 }
      else Some b)"
  by auto

termination by (relation "measure (\<lambda>(i, n, b). n div 2 - i)") auto

declare hl_loop.simps [simp del]

definition high_low_change :: "buf \<Rightarrow> nat \<Rightarrow> buf option" where
  "high_low_change data numOfBytes = hl_loop 0 numOfBytes data"

definition BC_HighLowChange :: "buf \<Rightarrow> nat \<Rightarrow> buf option" where
  "BC_HighLowChange pChange nSize = hl_loop 0 nSize pChange"

section \<open>The encoder\<close>

text \<open>The bytes written for one code unit; of a surrogate only the first two bytes are produced.\<close>

definition utf8_bytes :: "u16 \<Rightarrow> buf" where
  "utf8_bytes x =
     (if x < 0x80 then [ucast x]
      else if x < 0x800 then [ucast (drop_bit 6 x OR 0xc0), ucast ((x AND 0x3f) OR 0x80)]
      else if x < 0xdfff \<and> 0xd800 < x
      then let t = ucast (drop_bit 6 (x AND 0x3c0) + 1) :: u8
           in [drop_bit 2 t OR 0xf0, ((t AND 0x03) OR 0x80) OR ucast (drop_bit 2 (x AND 0x3e))]
      else [ucast (drop_bit 12 x OR 0xe0), ucast ((drop_bit 6 x AND 0x3f) OR 0x80), ucast ((x AND 0x3f) OR 0x80)])"

text \<open>The room the encoder asks for before it writes them.\<close>

definition utf8_room :: "u16 \<Rightarrow> nat" where
  "utf8_room x = (if x < 0x80 then 1 else if x < 0x800 then 2 else if x < 0xdfff \<and> 0xd800 < x then 4 else 3)"

function UnicodeToUTF8_loop :: "u16 list \<Rightarrow> nat \<Rightarrow> nat \<Rightarrow> nat \<Rightarrow> nat \<Rightarrow> buf \<Rightarrow> (nat \<times> buf) option" where
  "UnicodeToUTF8_loop szSrc nSrcLen nDestLen i cur strDest =
     (if i < nSrcLen
      then do { x \<leftarrow> rd szSrc i;
                if cur + utf8_room x < nDestLen
                then do { d \<leftarrow> buf_write strDest cur (utf8_bytes x);
                          UnicodeToUTF8_loop szSrc nSrcLen nDestLen (i + 1) (cur + length (utf8_bytes x)) d }
                else Some (0, strDest) }
      else do { d \<leftarrow> wr strDest cur 0; Some (cur, d) })"
  by auto

termination by (relation "measure (\<lambda>(s, n, nd, i, c, d). n - i)") auto

declare UnicodeToUTF8_loop.simps [simp del]

definition UnicodeToUTF8 :: "u16 list \<Rightarrow> nat \<Rightarrow> buf \<Rightarrow> nat \<Rightarrow> (nat \<times> buf) option" where
  "UnicodeToUTF8 szSrc nSrcLen strDest nDestLen = UnicodeToUTF8_loop szSrc nSrcLen nDestLen 0 0 strDest"

section \<open>The decoders of one character\<close>

text \<open>The low and the high byte of the code unit, from the bytes of a character.\<close>

definition dec2_lo :: "u8 \<Rightarrow> u8 \<Rightarrow> u8" where
  "dec2_lo c0 c1 = (c1 AND 0x3F) OR push_bit 6 (c0 AND 0x3)"

definition dec2_hi :: "u8 \<Rightarrow> u8" where
  "dec2_hi c0 = drop_bit 2 (c0 AND 0x3C)"

definition dec3_lo :: "u8 \<Rightarrow> u8 \<Rightarrow> u8" where
  "dec3_lo c1 c2 = (c2 AND 0x3F) OR push_bit 6 (c1 AND 0x3)"

definition dec3_hi :: "u8 \<Rightarrow> u8 \<Rightarrow> u8" where
  "dec3_hi c0 c1 = drop_bit 2 (c1 AND 0x3C) OR push_bit 4 (c0 AND 0xF)"

text \<open>Low byte first, at offset \<open>p\<close> of the array \<open>ub\<close>.\<close>

definition OneUTF82Unicode :: "buf \<Rightarrow> buf \<Rightarrow> nat \<Rightarrow> buf option" where
  "OneUTF82Unicode utf_char ub p =
     do { utf_length \<leftarrow> c_strlen utf_char;
          if utf_length = 1 then do { c0 \<leftarrow> rd utf_char 0; u1 \<leftarrow> wr ub p c0; wr u1 (p + 1) 0 }
          else if utf_length = 2
          then do { c0 \<leftarrow> rd utf_char 0; c1 \<leftarrow> rd utf_char 1; u1 \<leftarrow> wr ub p (dec2_lo c0 c1); wr u1 (p + 1) (dec2_hi c0) }
          else if utf_length = 3
          then do { c0 \<leftarrow> rd utf_char 0; c1 \<leftarrow> rd utf_char 1; c2 \<leftarrow> rd utf_char 2;
                    u1 \<leftarrow> wr ub p (dec3_lo c1 c2); wr u1 (p + 1) (dec3_hi c0 c1) }
          else Some ub }"

text \<open>High byte first.\<close>

definition utf8_word_2_unicode :: "buf \<Rightarrow> buf \<Rightarrow> buf option" where
  "utf8_word_2_unicode utf_char ub =
     do { utf_length \<leftarrow> c_strlen utf_char;
          if utf_length = 1 then do { c0 \<leftarrow> rd utf_char 0; u1 \<leftarrow> wr ub 1 c0; wr u1 0 0 }
          else if utf_length = 2
          then do { c0 \<leftarrow> rd utf_char 0; c1 \<leftarrow> rd utf_char 1; u1 \<leftarrow> wr ub 1 (dec2_lo c0 c1); wr u1 0 (dec2_hi c0) }
          else if utf_length = 3
          then do { c0 \<leftarrow> rd utf_char 0; c1 \<leftarrow> rd utf_char 1; c2 \<leftarrow> rd utf_char 2;
                    u1 \<leftarrow> wr ub 1 (dec3_lo c1 c2); wr u1 0 (dec3_hi c0 c1) }
          else Some ub }"

fun strlen_utf8_loop :: "buf \<Rightarrow> nat option" where
  "strlen_utf8_loop [] = None"
| "strlen_utf8_loop (x # b) =
     (if x = 0 then Some 0 else map_option (\<lambda>j. if x AND 0xc0 \<noteq> 0x80 then Suc j else j) (strlen_utf8_loop b))"

definition strlen_utf8 :: "buf option \<Rightarrow> nat option" where
  "strlen_utf8 s = (case s of None \<Rightarrow> Some 0 | Some b \<Rightarrow> strlen_utf8_loop b)"

definition wordToText :: "buf \<Rightarrow> nat \<Rightarrow> buf \<Rightarrow> nat \<Rightarrow> buf option" where
  "wordToText work p text q =
     do { h \<leftarrow> rd work (p + 1);
          d0 \<leftarrow> rd str_table (unat (drop_bit 4 h AND 0x0F)); t0 \<leftarrow> wr text q d0;
          d1 \<leftarrow> rd str_table (unat (h AND 0x0F)); t1 \<leftarrow> wr t0 (q + 1) d1;
          l \<leftarrow> rd work p;
          d2 \<leftarrow> rd str_table (unat (drop_bit 4 l AND 0x0F)); t2 \<leftarrow> wr t1 (q + 2) d2;
          d3 \<leftarrow> rd str_table (unat (l AND 0x0F)); wr t2 (q + 3) d3 }"

section \<open>A text as hexadecimal UCS-2\<close>

text \<open>How far the loop moves on for a first byte: not at all for a continuation byte; \<open>None\<close> is the exit for sequences of
  four bytes and more.\<close>

definition utf8_advance :: "u8 \<Rightarrow> nat option" where
  "utf8_advance temp =
     (let t4 = drop_bit 4 temp; t5 = drop_bit 1 t4; t7 = drop_bit 2 t5
      in if 0xE < t4 then None
         else Some (if t4 = 0xE then 3 else if t5 = 0x6 then 2 else if t7 = 0 then 1 else 0))"

definition ucs2_text_step :: "buf \<Rightarrow> nat \<Rightarrow> nat \<Rightarrow> buf \<Rightarrow> nat \<Rightarrow> (buf \<times> buf) option" where
  "ucs2_text_step utf8 start index b unicode_index =
     do { flag \<leftarrow> rd utf8 index;
          u1 \<leftarrow> wr utf8 index 0;
          b1 \<leftarrow> OneUTF82Unicode (drop start u1) b unicode_index;
          u2 \<leftarrow> wr u1 index flag;
          Some (u2, b1) }"

partial_function (option) ucs2_text_loop :: "buf \<Rightarrow> nat \<Rightarrow> nat \<Rightarrow> buf \<Rightarrow> nat \<Rightarrow> (buf \<times> buf) option option" where
  "ucs2_text_loop utf8 utf8Len index b unicode_index =
     (case rd utf8 index of None \<Rightarrow> Some None
      | Some temp \<Rightarrow>
          if temp = 0 then Some (Some (utf8, b))
          else case utf8_advance temp of None \<Rightarrow> Some (Some (utf8, b))
          | Some k \<Rightarrow>
              if utf8Len < index + k then Some (Some (utf8, b))
              else case ucs2_text_step utf8 index (index + k) b unicode_index of None \<Rightarrow> Some None
              | Some (u2, b1) \<Rightarrow> ucs2_text_loop u2 utf8Len (index + k) b1 (unicode_index + 2))"

declare ucs2_text_loop.simps [code]

fun words_to_text :: "nat \<Rightarrow> nat \<Rightarrow> buf \<Rightarrow> buf \<Rightarrow> buf option" where
  "words_to_text 0 i b out = Some out"
| "words_to_text (Suc n) i b out = do { o1 \<leftarrow> wordToText b (2 * i) out (4 * i); words_to_text n (i + 1) b o1 }"

definition utf8_to_ucs2_text :: "buf \<Rightarrow> buf \<Rightarrow> nat \<Rightarrow> buf \<Rightarrow> (nat \<times> buf \<times> buf) option option" where
  "utf8_to_ucs2_text stack utf8 utf8Len outBuf =
     (case do { n \<leftarrow> strlen_utf8 (Some utf8); b \<leftarrow> buf_fill stack 0 0 (n * 2 + 2); Some (n, b) } of None \<Rightarrow> Some None
      | Some (n, b) \<Rightarrow>
          (case ucs2_text_loop utf8 utf8Len 0 b 0 of None \<Rightarrow> None
           | Some None \<Rightarrow> Some None
           | Some (Some (u, b1)) \<Rightarrow> Some (do { out \<leftarrow> words_to_text n 0 b1 outBuf; Some (n * 2 * 2, u, out) })))"

section \<open>Reversal\<close>

lemma hl_loop_rev: "hl_loop (length p) (2 * length p + length m) (p @ m @ q) = Some (p @ rev m @ q)"
proof (induction "length m" arbitrary: p m q rule: less_induct)
  case less
  consider "m = []" | x where "m = [x]" | x y r where "m = x # r @ [y]"
    by (metis list.exhaust rev_exhaust)
  then show ?case
  proof cases
    case 3
    have n: "2 * length p + length m = 2 * length (p @ [y]) + length r" using 3 by simp
    have u: "((p @ m @ q)[length p := y])[length p + Suc (length r) := x] = (p @ [y]) @ r @ (x # q)"
      using 3 by (simp add: list_update_append)
    have "hl_loop (length p) (2 * length p + length m) (p @ m @ q) = hl_loop (length (p @ [y])) (2 * length (p @ [y]) + length r) ((p @ [y]) @ r @ (x # q))"
      unfolding u [symmetric] n [symmetric] using 3 by (subst hl_loop.simps) (simp add: nth_append)
    then show ?thesis using less [of r "p @ [y]" "x # q"] 3 by simp
  qed (subst hl_loop.simps, simp)+
qed

text \<open>\<open>high_low_change\<close> (and its copy \<open>BC_HighLowChange\<close>) reverses the first \<open>n\<close> bytes in place, for even and odd
  numbers of bytes, and leaves the rest of the array alone.\<close>

theorem high_low_change_reverses:
  assumes "n \<le> length b"
  shows "high_low_change b n = Some (rev (take n b) @ drop n b)" and "BC_HighLowChange b n = high_low_change b n"
  using hl_loop_rev [of "[]" "take n b" "drop n b"] assms
  by (simp_all add: high_low_change_def BC_HighLowChange_def)

section \<open>One character\<close>

text \<open>The code units the routines represent: not the terminator, and none the encoder treats as a surrogate.\<close>

definition bmp_unit :: "u16 \<Rightarrow> bool" where
  "bmp_unit x = (x \<noteq> 0 \<and> \<not> (0xd800 < x \<and> x < 0xdfff))"

lemma small_bits: "unat w < 2 ^ k \<Longrightarrow> k \<le> n \<Longrightarrow> \<not> bit w n" for w :: u16
proof -
  assume a: "unat w < 2 ^ k" "k \<le> n"
  then have "take_bit k (unat w) = unat w" by (simp add: take_bit_nat_eq_self)
  with a(2) have "\<not> bit (unat w) n" by (metis bit_take_bit_iff not_less)
  then show ?thesis by (auto simp: bit_unsigned_iff)
qed

lemma byte_eqI: "(\<And>n. n \<in> {0, 1, 2, 3, 4, 5, 6, 7} \<Longrightarrow> bit a n = bit b n) \<Longrightarrow> a = b" for a b :: u8
  by (rule bit_word_eqI) (auto simp: numeral_eq_Suc less_Suc_eq)

lemmas utf8_bits = bit_simps bit_lo8 bit_hi8 dec2_lo_def dec2_hi_def dec3_lo_def dec3_hi_def

lemma dec2:
  assumes "x < 0x800"
  shows "dec2_lo (ucast (drop_bit 6 x OR 0xc0)) (ucast ((x AND 0x3f) OR 0x80)) = lo8 x"
    and "dec2_hi (ucast (drop_bit 6 x OR 0xc0)) = hi8 x"
  using assms small_bits [of x 11] by (auto intro!: byte_eqI simp: utf8_bits word_less_nat_alt)

lemma dec1:
  assumes "x < 0x80"
  shows "ucast x = lo8 x" and "hi8 x = 0"
proof -
  have "\<not> bit x n" if "8 \<le> n" for n using small_bits [of x 8 n] assms that by (simp add: word_less_nat_alt)
  then show "ucast x = lo8 x" "hi8 x = 0" by (auto intro!: byte_eqI simp: utf8_bits)
qed

lemma dec3:
  shows "dec3_lo (ucast ((drop_bit 6 x AND 0x3f) OR 0x80)) (ucast ((x AND 0x3f) OR 0x80)) = lo8 x"
    and "dec3_hi (ucast (drop_bit 12 x OR 0xe0)) (ucast ((drop_bit 6 x AND 0x3f) OR 0x80)) = hi8 (x :: u16)"
  by (auto intro!: byte_eqI simp: utf8_bits)

lemma utf8_advance_cases:
  "drop_bit 7 c = 0 \<Longrightarrow> utf8_advance c = Some 1" "drop_bit 5 c = 6 \<Longrightarrow> utf8_advance c = Some 2"
  "drop_bit 4 c = 0xE \<Longrightarrow> utf8_advance c = Some 3" "drop_bit 6 c = 2 \<Longrightarrow> utf8_advance c = Some 0"
proof -
  have d: "drop_bit 7 c = drop_bit 3 (drop_bit 4 c)" "drop_bit 5 c = drop_bit 1 (drop_bit 4 c)" "drop_bit 6 c = drop_bit 2 (drop_bit 4 c)"
    by (simp_all add: drop_bit_drop_bit)
  note n = nibble_cases [OF high_nibble_less [of c]]
  show "drop_bit 7 c = 0 \<Longrightarrow> utf8_advance c = Some 1" "drop_bit 5 c = 6 \<Longrightarrow> utf8_advance c = Some 2"
    "drop_bit 4 c = 0xE \<Longrightarrow> utf8_advance c = Some 3" "drop_bit 6 c = 2 \<Longrightarrow> utf8_advance c = Some 0"
    unfolding d utf8_advance_def Let_def using n by (auto simp del: drop_bit_drop_bit)
qed

definition is_cont :: "u8 \<Rightarrow> bool" where
  "is_cont c = (c AND 0xc0 = 0x80)"

lemma is_contI: "is_cont (ucast ((y AND 0x3f) OR 0x80))" for y :: u16
  unfolding is_cont_def by (rule byte_eqI) (auto simp: bit_simps)

lemma is_cont_bits: "is_cont c \<Longrightarrow> bit c 7 \<and> \<not> bit c 6"
  unfolding is_cont_def by (drule arg_cong [of _ _ "\<lambda>w. (bit w 6, bit w 7)"]) (simp add: bit_simps)

lemma utf8_bytes_3:
  assumes "0x800 \<le> x" and "bmp_unit x"
  shows "utf8_bytes x = [ucast (drop_bit 12 x OR 0xe0), ucast ((drop_bit 6 x AND 0x3f) OR 0x80), ucast ((x AND 0x3f) OR 0x80)]"
proof -
  have "\<not> x < 0x80" "\<not> x < 0x800" using assms(1) by (simp_all add: word_less_nat_alt word_le_nat_alt)
  moreover have "\<not> (x < 0xdfff \<and> 0xd800 < x)" using assms(2) by (auto simp: bmp_unit_def)
  ultimately show ?thesis unfolding utf8_bytes_def by (simp only: if_False)
qed

lemma utf8_bytes_shape:
  assumes "bmp_unit x"
  shows "\<exists>c cs. utf8_bytes x = c # cs \<and> c \<noteq> 0 \<and> \<not> is_cont c \<and> utf8_advance c = Some (Suc (length cs)) \<and> (\<forall>y \<in> set cs. is_cont y)"
proof -
  consider "x < 0x80" | "0x80 \<le> x" "x < 0x800" | "0x800 \<le> x" by fastforce
  then show ?thesis
  proof cases
    case 1
    then have b: "7 \<le> n \<Longrightarrow> \<not> bit x n" for n by (intro small_bits [of x 7]) (simp_all add: word_less_nat_alt)
    have "drop_bit 7 (ucast x :: u8) = 0" by (rule byte_eqI) (auto simp: bit_simps b)
    moreover have "(ucast x :: u8) \<noteq> 0"
    proof
      assume z: "(ucast x :: u8) = 0"
      have "bit x n = bit (0 :: u16) n" for n
        using arg_cong [OF z, of "\<lambda>w. bit w n"] b [of n] by (cases "n < 7") (simp_all add: bit_simps)
      then have "x = 0" by (intro bit_word_eqI) simp
      with assms show False by (simp add: bmp_unit_def)
    qed
    moreover have "\<not> is_cont (ucast x)" using is_cont_bits [of "ucast x"] b by (auto simp: bit_simps)
    ultimately show ?thesis using 1 by (simp add: utf8_bytes_def utf8_advance_cases)
  next
    case 2
    then have b: "11 \<le> n \<Longrightarrow> \<not> bit x n" for n by (intro small_bits [of x 11]) (simp_all add: word_less_nat_alt)
    let ?c = "ucast (drop_bit 6 x OR 0xc0) :: u8"
    have "drop_bit 5 ?c = 6" by (rule byte_eqI) (auto simp: bit_simps b)
    moreover have "bit ?c 7" "bit ?c 6" by (simp_all add: bit_simps)
    then have "?c \<noteq> 0" "\<not> is_cont ?c" using is_cont_bits [of ?c] by auto
    ultimately show ?thesis using 2 is_contI by (simp add: utf8_bytes_def utf8_advance_cases not_less [symmetric])
  next
    case 3
    let ?c = "ucast (drop_bit 12 x OR 0xe0) :: u8"
    have "drop_bit 4 ?c = 0xE" by (rule byte_eqI) (auto simp: bit_simps dest: bit_imp_le_length)
    moreover have "bit ?c 7" "bit ?c 6" by (simp_all add: bit_simps)
    then have "?c \<noteq> 0" "\<not> is_cont ?c" using is_cont_bits [of ?c] by auto
    ultimately show ?thesis using is_contI by (simp add: utf8_bytes_3 [OF 3 assms] utf8_advance_cases)
  qed
qed

lemma utf8_bytes_nonzero: "bmp_unit x \<Longrightarrow> 0 \<notin> set (utf8_bytes x)"
  using utf8_bytes_shape [of x] is_cont_bits [of 0] by auto

lemma utf8_bytes_length: "bmp_unit x \<Longrightarrow> length (utf8_bytes x) = utf8_room x"
  by (auto simp: utf8_bytes_def utf8_room_def bmp_unit_def)

lemma c_strlen_text: "0 \<notin> set s \<Longrightarrow> c_strlen (s @ 0 # r) = Some (length s)"
  by (simp add: c_strlen_eq c_str_append_zero)

text \<open>The decoders invert the encoder on one code unit.\<close>

lemma utf8_unit_decoded:
  assumes "bmp_unit x" and "p + 1 < length ub"
  shows "OneUTF82Unicode (utf8_bytes x @ 0 # r) ub p = Some (ub[p := lo8 x, p + 1 := hi8 x])"
    and "utf8_word_2_unicode (utf8_bytes x @ 0 # r) [a, b] = Some [hi8 x, lo8 x]"
proof -
  note l = c_strlen_text [OF utf8_bytes_nonzero [OF assms(1)]]
  consider "x < 0x80" | "\<not> x < 0x80" "x < 0x800" | "0x800 \<le> x" by fastforce
  then have "OneUTF82Unicode (utf8_bytes x @ 0 # r) ub p = Some (ub[p := lo8 x, p + 1 := hi8 x]) \<and>
    utf8_word_2_unicode (utf8_bytes x @ 0 # r) [a, b] = Some [hi8 x, lo8 x]"
  proof cases
    case 1
    have "utf8_bytes x = [lo8 x]" "hi8 x = 0" using dec1 [OF 1] 1 by (simp_all add: utf8_bytes_def)
    then show ?thesis using l [of r] assms(2) by (simp add: OneUTF82Unicode_def utf8_word_2_unicode_def wr_def)
  next
    case 2
    then have "utf8_bytes x = [ucast (drop_bit 6 x OR 0xc0), ucast ((x AND 0x3f) OR 0x80)]" by (simp add: utf8_bytes_def)
    then show ?thesis using l [of r] assms(2) by (simp add: OneUTF82Unicode_def utf8_word_2_unicode_def wr_def dec2 [OF 2(2)])
  next
    case 3
    show ?thesis using l [of r] assms(2)
      by (simp add: OneUTF82Unicode_def utf8_word_2_unicode_def wr_def dec3 utf8_bytes_3 [OF 3 assms(1)])
  qed
  then show "OneUTF82Unicode (utf8_bytes x @ 0 # r) ub p = Some (ub[p := lo8 x, p + 1 := hi8 x])"
    "utf8_word_2_unicode (utf8_bytes x @ 0 # r) [a, b] = Some [hi8 x, lo8 x]" by simp_all
qed

section \<open>The encoder on a text\<close>

definition utf8_enc :: "u16 list \<Rightarrow> buf" where
  "utf8_enc us = concat (map utf8_bytes us)"

lemma utf8_enc_simps [simp]: "utf8_enc [] = []" "utf8_enc (x # us) = utf8_bytes x @ utf8_enc us" "utf8_enc (us @ vs) = utf8_enc us @ utf8_enc vs"
  by (simp_all add: utf8_enc_def)

lemma utf8_bytes_room: "length (utf8_bytes x) \<le> utf8_room x" "0 < utf8_room x"
  by (simp_all add: utf8_bytes_def utf8_room_def Let_def)

text \<open>Whatever the code units, the encoder stays inside a destination of the stated size.\<close>

lemma UnicodeToUTF8_loop_safe:
  assumes "n \<le> length src" and "nd \<le> length d" and "cur < nd"
  shows "\<exists>r d'. UnicodeToUTF8_loop src n nd i cur d = Some (r, d') \<and> length d' = length d \<and> r < nd"
  using assms(2,3)
proof (induction "n - i" arbitrary: i cur d)
  case 0
  then show ?case by (subst UnicodeToUTF8_loop.simps) simp
next
  case (Suc k)
  then have i: "i < n" "i < length src" using assms(1) by simp_all
  show ?case
  proof (cases "cur + utf8_room (src ! i) < nd")
    case True
    with utf8_bytes_room(1) [of "src ! i"] have l: "cur + length (utf8_bytes (src ! i)) < nd" by simp
    let ?d = "take cur d @ utf8_bytes (src ! i) @ drop (cur + length (utf8_bytes (src ! i))) d"
    have "length ?d = length d" using l Suc.prems by simp
    with Suc.hyps(1) [of "i + 1" ?d "cur + length (utf8_bytes (src ! i))"] Suc.hyps(2) Suc.prems l
    show ?thesis using True i by (subst UnicodeToUTF8_loop.simps) (simp add: buf_write_def)
  next
    case False
    then show ?thesis using i Suc.prems by (subst UnicodeToUTF8_loop.simps) simp
  qed
qed

lemma UnicodeToUTF8_loop_enc:
  assumes "\<forall>x \<in> set us. bmp_unit x" and "nd \<le> length d" and "cur + length (utf8_enc us) < nd"
  shows "UnicodeToUTF8_loop (pre @ us @ post) (length pre + length us) nd (length pre) cur d =
    Some (cur + length (utf8_enc us), take cur d @ utf8_enc us @ 0 # drop (cur + length (utf8_enc us) + 1) d)"
  using assms
proof (induction us arbitrary: pre cur d)
  case Nil
  then show ?case by (subst UnicodeToUTF8_loop.simps) (simp add: upd_conv_take_nth_drop)
next
  case (Cons x us)
  let ?d = "take cur d @ utf8_bytes x @ drop (cur + length (utf8_bytes x)) d"
  have "UnicodeToUTF8_loop ((pre @ [x]) @ us @ post) (length (pre @ [x]) + length us) nd (length (pre @ [x])) (cur + length (utf8_bytes x)) ?d =
      Some (cur + length (utf8_bytes x) + length (utf8_enc us), take (cur + length (utf8_bytes x)) ?d @ utf8_enc us @
        0 # drop (cur + length (utf8_bytes x) + length (utf8_enc us) + 1) ?d)"
    using Cons.prems by (intro Cons.IH) simp_all
  moreover have "utf8_room x = length (utf8_bytes x)" using Cons.prems utf8_bytes_length by simp
  ultimately show ?case using Cons.prems by (subst UnicodeToUTF8_loop.simps) (simp add: buf_write_def ac_simps)
qed

lemma UnicodeToUTF8_loop_short:
  assumes "\<forall>x \<in> set us. bmp_unit x" and "nd \<le> length d" and "cur < nd" and "nd \<le> cur + length (utf8_enc us)"
  shows "\<exists>d'. UnicodeToUTF8_loop (pre @ us) (length (pre @ us)) nd (length pre) cur d = Some (0, d')"
  using assms
proof (induction us arbitrary: pre cur d)
  case Nil
  then show ?case by simp
next
  case (Cons x us)
  have r: "utf8_room x = length (utf8_bytes x)" using Cons.prems utf8_bytes_length by simp
  show ?case
  proof (cases "cur + utf8_room x < nd")
    case True
    let ?d = "take cur d @ utf8_bytes x @ drop (cur + length (utf8_bytes x)) d"
    have "\<exists>d'. UnicodeToUTF8_loop ((pre @ [x]) @ us) (length ((pre @ [x]) @ us)) nd (length (pre @ [x])) (cur + length (utf8_bytes x)) ?d = Some (0, d')"
      using True r Cons.prems by (intro Cons.IH) simp_all
    then show ?thesis using True r Cons.prems by (subst UnicodeToUTF8_loop.simps) (simp add: buf_write_def)
  next
    case False
    then show ?thesis by (subst UnicodeToUTF8_loop.simps) simp
  qed
qed

text \<open>\<open>UnicodeToUTF8\<close> on a destination of the stated size: it never leaves the arrays, whatever the code units; without
  surrogates it returns the number of bytes and leaves the terminated UTF-8 text when text and terminator fit, and returns 0
  exactly when they do not (or the text is empty).\<close>

theorem UnicodeToUTF8_spec:
  assumes "0 < nDestLen" and "nDestLen \<le> length strDest"
  shows "(\<exists>r d. UnicodeToUTF8 szSrc (length szSrc) strDest nDestLen = Some (r, d) \<and> length d = length strDest \<and> r < nDestLen) \<and>
    ((\<forall>x \<in> set szSrc. bmp_unit x) \<longrightarrow> length (utf8_enc szSrc) < nDestLen \<longrightarrow>
      UnicodeToUTF8 szSrc (length szSrc) strDest nDestLen =
        Some (length (utf8_enc szSrc), utf8_enc szSrc @ 0 # drop (length (utf8_enc szSrc) + 1) strDest)) \<and>
    ((\<forall>x \<in> set szSrc. bmp_unit x) \<longrightarrow> nDestLen \<le> length (utf8_enc szSrc) \<longrightarrow>
      (\<exists>d. UnicodeToUTF8 szSrc (length szSrc) strDest nDestLen = Some (0, d)))"
  using UnicodeToUTF8_loop_safe [of "length szSrc" szSrc nDestLen strDest 0 0] UnicodeToUTF8_loop_enc [of szSrc nDestLen strDest 0 "[]" "[]"]
    UnicodeToUTF8_loop_short [of szSrc nDestLen strDest 0 "[]"] assms
  by (intro conjI impI) (simp_all add: UnicodeToUTF8_def)

theorem UnicodeToUTF8_spec_witness:
  "UnicodeToUTF8 [0x48, 0xE9, 0x4E2D] 3 (replicate 8 0xFF) 8 = Some (6, [0x48, 0xC3, 0xA9, 0xE4, 0xB8, 0xAD, 0, 0xFF]) \<and>
   (\<exists>d. UnicodeToUTF8 [0x48, 0xE9, 0x4E2D] 3 (replicate 8 0xFF) 6 = Some (0, d)) \<and>
   (\<exists>r d. UnicodeToUTF8 [0xD801] 1 (replicate 8 0xFF) 6 = Some (r, d) \<and> length d = 8 \<and> r < 6)"
proof -
  have e: "utf8_enc [0x48, 0xE9, 0x4E2D] = [0x48, 0xC3, 0xA9, 0xE4, 0xB8, 0xAD]" by (simp add: utf8_bytes_def)
  have b: "\<forall>x \<in> set [0x48, 0xE9, 0x4E2D]. bmp_unit x" by (simp add: bmp_unit_def)
  show ?thesis
    using UnicodeToUTF8_spec [of 8 "replicate 8 0xFF" "[0x48, 0xE9, 0x4E2D]"]
      UnicodeToUTF8_spec [of 6 "replicate 8 0xFF" "[0x48, 0xE9, 0x4E2D]"] UnicodeToUTF8_spec [of 6 "replicate 8 0xFF" "[0xD801]"] b
    unfolding e by (simp add: numeral_eq_Suc)
qed

section \<open>A text as hexadecimal UCS-2\<close>

lemma utf8_enc_nonzero: "\<forall>x \<in> set us. bmp_unit x \<Longrightarrow> 0 \<notin> set (utf8_enc us)"
  using utf8_bytes_nonzero by (auto simp: utf8_enc_def)

lemma strlen_utf8_conts: "\<forall>y \<in> set cs. is_cont y \<Longrightarrow> strlen_utf8_loop (cs @ b) = strlen_utf8_loop b"
proof (induction cs)
  case (Cons y cs)
  then have "y \<noteq> 0" "y AND 0xc0 = 0x80" using is_cont_bits [of 0] by (auto simp: is_cont_def)
  with Cons show ?case by (simp add: option.map_ident)
qed simp

lemma strlen_utf8_enc: "\<forall>x \<in> set us. bmp_unit x \<Longrightarrow> strlen_utf8_loop (utf8_enc us @ 0 # r) = Some (length us)"
proof (induction us)
  case (Cons x us)
  then obtain c cs where "utf8_bytes x = c # cs" "c \<noteq> 0" "\<not> is_cont c" "\<forall>y \<in> set cs. is_cont y"
    using utf8_bytes_shape [of x] by auto
  with Cons show ?case by (simp add: strlen_utf8_conts is_cont_def [of c])
qed simp

text \<open>The decoded units, low byte first.\<close>

definition units_le :: "u16 list \<Rightarrow> buf" where
  "units_le us = concat (map (\<lambda>x. [lo8 x, hi8 x]) us)"

lemma units_le_simps [simp]: "units_le [] = []" "units_le (x # us) = lo8 x # hi8 x # units_le us"
  by (simp_all add: units_le_def)

lemma length_units_le [simp]: "length (units_le us) = 2 * length us"
  by (induction us) simp_all

lemma ucs2_text_step_enc:
  assumes "bmp_unit x" and "t \<noteq> []" and "p + 1 < length b"
  shows "ucs2_text_step (pre @ utf8_bytes x @ t) (length pre) (length pre + length (utf8_bytes x)) b p =
    Some (pre @ utf8_bytes x @ t, b[p := lo8 x, p + 1 := hi8 x])"
proof -
  obtain e r where t: "t = e # r" using assms(2) by (cases t) auto
  have "(pre @ utf8_bytes x @ e # r)[length pre + length (utf8_bytes x) := y] = pre @ utf8_bytes x @ y # r" for y e
    by (simp add: list_update_append)
  then show ?thesis
    by (simp add: ucs2_text_step_def t rd_def wr_def nth_append utf8_unit_decoded(1) [OF assms(1,3)])
qed

lemma drop_Suc_nth: "i < length b \<Longrightarrow> drop i b = b ! i # drop (Suc i) b"
  by (simp add: Cons_nth_drop_Suc)

lemma two_updates: "p + 1 < length b \<Longrightarrow> b[p := u, p + 1 := v] = take p b @ [u, v] @ drop (p + 2) b"
  by (simp add: upd_conv_take_nth_drop list_update_append drop_Suc_nth [of "Suc p"])

lemma ucs2_text_loop_prefix:
  assumes "\<forall>x \<in> set us. bmp_unit x" and "length pre + length (utf8_enc us) \<le> len" and "p + 2 * length us \<le> length b" and "t \<noteq> []"
  shows "ucs2_text_loop (pre @ utf8_enc us @ t) len (length pre) b p =
    ucs2_text_loop (pre @ utf8_enc us @ t) len (length pre + length (utf8_enc us)) (take p b @ units_le us @ drop (p + 2 * length us) b) (p + 2 * length us)"
  using assms
proof (induction us arbitrary: pre b p)
  case Nil
  then show ?case by simp
next
  case (Cons x us)
  let ?u = "pre @ utf8_bytes x @ utf8_enc us @ t" and ?b = "b[p := lo8 x, p + 1 := hi8 x]"
  obtain c cs where c: "utf8_bytes x = c # cs" "c \<noteq> 0" "utf8_advance c = Some (length (utf8_bytes x))"
    using utf8_bytes_shape [of x] Cons.prems(1) by auto
  have hd: "rd ?u (length pre) = Some c" by (simp add: rd_def nth_append c(1))
  have step: "ucs2_text_step ?u (length pre) (length pre + length (utf8_bytes x)) b p = Some (?u, ?b)"
    using Cons.prems by (intro ucs2_text_step_enc) simp_all
  have "\<not> len < length pre + length (utf8_bytes x)" using Cons.prems(2) by simp
  with hd step c(2,3) have "ucs2_text_loop ?u len (length pre) b p = ucs2_text_loop ((pre @ utf8_bytes x) @ utf8_enc us @ t) len (length (pre @ utf8_bytes x)) ?b (p + 2)"
    by (subst ucs2_text_loop.simps) simp
  also have "\<dots> = ucs2_text_loop ((pre @ utf8_bytes x) @ utf8_enc us @ t) len (length (pre @ utf8_bytes x) + length (utf8_enc us))
      (take (p + 2) ?b @ units_le us @ drop (p + 2 + 2 * length us) ?b) (p + 2 + 2 * length us)"
    using Cons.prems by (intro Cons.IH) simp_all
  also have "take (p + 2) ?b @ units_le us @ drop (p + 2 + 2 * length us) ?b = take p b @ units_le (x # us) @ drop (p + 2 * length (x # us)) b"
    using Cons.prems(3) by (subst (1 2) two_updates) (simp_all add: add.commute)
  finally show ?case by (simp add: add.assoc)
qed

lemma ucs2_text_loop_enc:
  assumes "\<forall>x \<in> set us. bmp_unit x" and "length (utf8_enc us) \<le> len" and "2 * length us \<le> length b"
  shows "ucs2_text_loop (utf8_enc us @ 0 # r) len 0 b 0 = Some (Some (utf8_enc us @ 0 # r, units_le us @ drop (2 * length us) b))"
  using ucs2_text_loop_prefix [OF assms(1), of "[]" len 0 b "0 # r"] assms(2,3)
    ucs2_text_loop.simps [of "utf8_enc us @ 0 # r" len "length (utf8_enc us)"] by (simp add: rd_def)

text \<open>A unit in hexadecimal, most significant digit first.\<close>

definition unit_hex :: "u16 \<Rightarrow> buf" where
  "unit_hex x = map (\<lambda>k. str_table ! (unat x div 16 ^ k mod 16)) [3, 2, 1, 0]"

lemma unat_nibbles: "unat (drop_bit 4 c AND 0x0F) = unat c div 16" "unat (c AND 0x0F) = unat c mod 16" for c :: u8
proof -
  have "unat c mod 256 = unat c" using u8_lt_256 [of c] by simp
  then show "unat (drop_bit 4 c AND 0x0F) = unat c div 16"
    by (simp add: unsigned_drop_bit_eq drop_bit_eq_div [where 'a = nat] take_bit_eq_mod [where 'a = nat])
  show "unat (c AND 0x0F) = unat c mod 16"
    by (simp add: low_nibble_eq unsigned_take_bit_eq take_bit_eq_mod [where 'a = nat])
qed

lemma hex_digits:
  fixes h l :: nat
  assumes "h < 256" and "l < 256"
  shows "(256 * h + l) div 4096 mod 16 = h div 16" and "(256 * h + l) div 256 mod 16 = h mod 16"
    and "(256 * h + l) div 16 mod 16 = l div 16" and "(256 * h + l) mod 16 = l mod 16"
proof -
  have d: "(256 * h + l) div 256 = h" using assms(2) by simp
  have "(256 * h + l) div 4096 = h div 16" using div_mult2_eq [of "256 * h + l" 256 16] d by simp
  then show "(256 * h + l) div 4096 mod 16 = h div 16" using assms(1) by simp
  show "(256 * h + l) div 256 mod 16 = h mod 16" by (simp only: d)
  have "256 * h + l = 16 * (16 * h) + l" by simp
  then have e: "(256 * h + l) div 16 = 16 * h + l div 16" "(256 * h + l) mod 16 = l mod 16"
    by (simp_all only: div_mult_self4 [of 16] mod_mult_self4)
  show "(256 * h + l) mod 16 = l mod 16" by (rule e(2))
  show "(256 * h + l) div 16 mod 16 = l div 16" using assms(2) by (simp add: e(1))
qed

lemma unit_hex_bytes:
  "unit_hex x = [str_table ! (unat (hi8 x) div 16), str_table ! (unat (hi8 x) mod 16), str_table ! (unat (lo8 x) div 16), str_table ! (unat (lo8 x) mod 16)]"
proof -
  have x: "unat x = 256 * unat (hi8 x) + unat (lo8 x)" using unat_join16 [of "hi8 x" "lo8 x"] by simp
  note h = u8_lt_256 [of "hi8 x"] and l = u8_lt_256 [of "lo8 x"]
  have "unat x div 4096 mod 16 = unat (hi8 x) div 16" "unat x div 256 mod 16 = unat (hi8 x) mod 16"
    "unat x div 16 mod 16 = unat (lo8 x) div 16" "unat x mod 16 = unat (lo8 x) mod 16"
    unfolding x by (rule hex_digits [OF h l])+
  then show ?thesis by (simp add: unit_hex_def)
qed

lemma wordToText_unit:
  assumes "q + 4 \<le> length out"
  shows "wordToText (w @ lo8 x # hi8 x # b) (length w) out q = Some (take q out @ unit_hex x @ drop (q + 4) out)"
proof -
  have t: "rd str_table k = Some (str_table ! k)" if "k < 16" for k using that by (simp add: str_table_eq)
  have n: "unat c div 16 < 16" "unat c mod 16 < 16" for c :: u8 using u8_lt_256 [of c] by auto
  have u: "out[q := d0, q + 1 := d1, q + 2 := d2, q + 3 := d3] = take q out @ [d0, d1, d2, d3] @ drop (q + 4) out" for d0 d1 d2 d3
    using assms two_updates [of q out d0 d1] two_updates [of "q + 2" "take q out @ [d0, d1] @ drop (q + 2) out" d2 d3]
    by (simp add: numeral_eq_Suc)
  show ?thesis
    using assms by (simp add: wordToText_def unat_nibbles [simplified] t n nth_append unit_hex_bytes u [simplified])
qed

lemma words_to_text_units:
  assumes "length w = 2 * i" and "length p = 4 * i" and "4 * length us \<le> length out"
  shows "words_to_text (length us) i (w @ units_le us @ b) (p @ out) = Some (p @ concat (map unit_hex us) @ drop (4 * length us) out)"
  using assms
proof (induction us arbitrary: i w p out)
  case Nil
  then show ?case by simp
next
  case (Cons x us)
  have "wordToText (w @ lo8 x # hi8 x # (units_le us @ b)) (length w) (p @ out) (4 * i) = Some ((p @ unit_hex x) @ drop 4 out)"
    using Cons.prems by (subst wordToText_unit) simp_all
  moreover have "words_to_text (length us) (i + 1) ((w @ [lo8 x, hi8 x]) @ units_le us @ b) ((p @ unit_hex x) @ drop 4 out) =
      Some ((p @ unit_hex x) @ concat (map unit_hex us) @ drop (4 * length us) (drop 4 out))"
    using Cons.prems by (intro Cons.IH) (simp_all add: unit_hex_def)
  ultimately show ?case using Cons.prems by (simp add: add.commute)
qed

text \<open>C33: \<open>utf8_to_ucs2_text\<close> on the UTF-8 text of at most 63 code units, none of them zero or a surrogate: it returns, the
  text array is as before, and the output starts with the four upper-case hexadecimal digits of every unit, in order.\<close>

theorem utf8_to_ucs2_text_spec:
  assumes "\<forall>x \<in> set us. bmp_unit x" and "length us \<le> 63" and "length stack = 128" and "4 * length us \<le> length out"
  shows "utf8_to_ucs2_text stack (utf8_enc us @ 0 # r) (length (utf8_enc us)) out =
    Some (Some (4 * length us, utf8_enc us @ 0 # r, concat (map unit_hex us) @ drop (4 * length us) out))"
proof -
  let ?b = "replicate (length us * 2 + 2) 0 @ drop (length us * 2 + 2) stack"
  have "buf_fill stack 0 0 (length us * 2 + 2) = Some ?b" using assms(2,3) by (simp add: buf_fill_def buf_write_def)
  moreover have "ucs2_text_loop (utf8_enc us @ 0 # r) (length (utf8_enc us)) 0 ?b 0 =
      Some (Some (utf8_enc us @ 0 # r, units_le us @ drop (2 * length us) ?b))"
    using ucs2_text_loop_enc [OF assms(1), of _ ?b] assms(2,3) by simp
  ultimately show ?thesis
    using words_to_text_units [of "[]" 0 "[]" us out "drop (2 * length us) ?b"] assms(4)
    by (simp add: utf8_to_ucs2_text_def strlen_utf8_def strlen_utf8_enc [OF assms(1)])
qed

theorem utf8_to_ucs2_text_spec_witness:
  "utf8_to_ucs2_text (replicate 128 0xEE) [0x48, 0xC3, 0xA9, 0xE4, 0xB8, 0xAD, 0] 6 (replicate 13 0xFF) =
    Some (Some (12, [0x48, 0xC3, 0xA9, 0xE4, 0xB8, 0xAD, 0], str ''004800E94E2D'' @ [0xFF]))"
proof -
  have e: "utf8_enc [0x48, 0xE9, 0x4E2D] = [0x48, 0xC3, 0xA9, 0xE4, 0xB8, 0xAD]" by (simp add: utf8_bytes_def)
  have six: "length [0x48, 0xC3, 0xA9, 0xE4, 0xB8, 0xAD :: u8] = 6" by simp
  have "concat (map unit_hex [0x48, 0xE9, 0x4E2D]) = str ''004800E94E2D''" by (simp add: unit_hex_def str_table_def str_def)
  moreover have "\<forall>x \<in> set [0x48, 0xE9, 0x4E2D]. bmp_unit x" by (simp add: bmp_unit_def)
  ultimately show ?thesis
    using utf8_to_ucs2_text_spec [of "[0x48, 0xE9, 0x4E2D]" "replicate 128 0xEE" "replicate 13 0xFF" "[]", unfolded e six] by simp
qed

section \<open>Texts that are no UTF-8\<close>

text \<open>A continuation byte where a character should start.\<close>

definition stray_cont :: "buf \<Rightarrow> nat \<Rightarrow> nat \<Rightarrow> bool" where
  "stray_cont u len i = (i < length u \<and> i \<le> len \<and> is_cont (u ! i))"

lemma is_cont_advance:
  assumes "is_cont c"
  shows "utf8_advance c = Some 0"
proof (rule utf8_advance_cases(4))
  show "drop_bit 6 c = 2" using is_cont_bits [OF assms] by (intro byte_eqI) (auto simp: bit_simps dest: bit_imp_le_length)
qed

lemma stray_cont_step:
  assumes "stray_cont u len i"
  shows "ucs2_text_step u i (i + 0) b p = Some (u, b)"
proof -
  have i: "i < length u" using assms by (simp add: stray_cont_def)
  have "drop i (u[i := 0]) = 0 # drop (Suc i) u" using i by (simp add: drop_Suc_nth)
  with i show ?thesis by (simp add: ucs2_text_step_def OneUTF82Unicode_def)
qed

lemma stray_cont_never:
  assumes "ucs2_text_loop u len i b p = Some y"
  shows "\<not> stray_cont u len i"
  using assms
proof (rule ucs2_text_loop.raw_induct [rotated])
  fix f u len i b p y
  assume IH: "\<And>u len i b p y. f u len i b p = Some y \<Longrightarrow> \<not> stray_cont u len i"
    and body: "(case rd u i of None \<Rightarrow> Some None
      | Some temp \<Rightarrow>
          if temp = 0 then Some (Some (u, b))
          else case utf8_advance temp of None \<Rightarrow> Some (Some (u, b))
          | Some k \<Rightarrow>
              if len < i + k then Some (Some (u, b))
              else case ucs2_text_step u i (i + k) b p of None \<Rightarrow> Some None
              | Some (u2, b1) \<Rightarrow> f u2 len (i + k) b1 (p + 2)) = Some y"
  show "\<not> stray_cont u len i"
  proof
    assume s: "stray_cont u len i"
    then have "rd u i = Some (u ! i)" "u ! i \<noteq> 0" "utf8_advance (u ! i) = Some 0" "\<not> len < i"
      using is_cont_bits [of 0] is_cont_advance by (auto simp: stray_cont_def)
    then have "f u len i b (p + 2) = Some y" using body stray_cont_step [OF s] by simp
    from IH [OF this] s show False by simp
  qed
qed

text \<open>More than 63 characters overrun the 128-byte array already when it is cleared.\<close>

lemma utf8_to_ucs2_text_overrun:
  assumes "length stack = 128" and "strlen_utf8 (Some u) = Some n" and "63 < n"
  shows "utf8_to_ucs2_text stack u len out = Some None"
  using assms by (simp add: utf8_to_ucs2_text_def buf_fill_def buf_write_def)

text \<open>a continuation byte where a character should start (in a text that is no UTF-8, or is cut from a longer one at the
  wrong place) makes \<open>utf8_to_ucs2_text\<close> loop for ever: the index is not moved on. The text before it may be any UTF-8 of at
  most 63 code units.\<close>

theorem utf8_to_ucs2_text_diverges:
  assumes "\<forall>x \<in> set us. bmp_unit x" and "length us \<le> 63" and "is_cont c" and "length stack = 128"
    and "strlen_utf8 (Some (utf8_enc us @ c # r)) = Some n" and "n \<le> 63" and "length (utf8_enc us) \<le> len"
  shows "utf8_to_ucs2_text stack (utf8_enc us @ c # r) len out = None"
proof -
  let ?u = "utf8_enc us @ c # r" and ?b = "replicate (n * 2 + 2) 0 @ drop (n * 2 + 2) stack"
  have f: "buf_fill stack 0 0 (n * 2 + 2) = Some ?b" using assms(4,6) by (simp add: buf_fill_def buf_write_def)
  obtain b' where "ucs2_text_loop ?u len 0 ?b 0 = ucs2_text_loop ?u len (length (utf8_enc us)) b' (2 * length us)"
    using ucs2_text_loop_prefix [OF assms(1), of "[]" len 0 ?b "c # r"] assms(2,4,6,7) by simp
  moreover have "stray_cont ?u len (length (utf8_enc us))" using assms(3,7) by (simp add: stray_cont_def)
  ultimately have "ucs2_text_loop ?u len 0 ?b 0 = None"
    using stray_cont_never [of ?u len "length (utf8_enc us)" b' "2 * length us"] by (cases "ucs2_text_loop ?u len 0 ?b 0") auto
  with f show ?thesis by (simp add: utf8_to_ucs2_text_def assms(5))
qed

theorem utf8_to_ucs2_text_diverges_witness:
  "utf8_to_ucs2_text (replicate 128 0) (utf8_enc [0x48] @ 0x80 # [0x49, 0]) 3 [0] = None"
  using utf8_to_ucs2_text_diverges [where us = "[0x48]" and c = "0x80" and stack = "replicate 128 0" and r = "[0x49, 0]" and n = 2
    and len = 3 and out = "[0]"]
  by (simp add: bmp_unit_def is_cont_def strlen_utf8_def utf8_bytes_def)

end
