(* ===== verification/Gbk.thy ===== *)
theory Gbk
  imports GbkTable Utf8
begin

text \<open>
  The conversions between GBK, UCS-2 and UTF-8 of src/nwy_utf8_gbk_ucs2.c over its code page: the binary search from a code
  unit to a code, the linear search back, and the text routines built on them. A 16-bit variable that the code reads and
  writes through a byte pointer is the list of its bytes, low byte first. The contract of a code page is a locale; its
  interpretation rests on the checked table.
\<close>

section \<open>The searches\<close>

definition UNICODE_GBK_TBL_SIZE :: nat where
  "UNICODE_GBK_TBL_SIZE = 43586 * 2"

text \<open>\<open>sz\<close> bytes from the number at byte offset \<open>index\<close> on.\<close>

definition read_gbk_table :: "u16 list \<Rightarrow> nat \<Rightarrow> nat \<Rightarrow> u16 list option" where
  "read_gbk_table tbl index sz = buf_read tbl (index div 2) (sz div 2)"

text \<open>The rounds of the binary search; the result is the number of rounds left (0 when nothing was found) and the pair
  read last.\<close>

fun gbk_search :: "u16 list \<Rightarrow> u16 \<Rightarrow> nat \<Rightarrow> nat \<Rightarrow> nat \<Rightarrow> u16 list \<Rightarrow> (nat \<times> u16 list) option" where
  "gbk_search tbl ucs2 0 li hi pBuffer = Some (0, pBuffer)"
| "gbk_search tbl ucs2 (Suc n) li hi pBuffer =
     do { let i = li + (hi - li) div 2;
          pb \<leftarrow> read_gbk_table tbl (i * 4) 4;
          k \<leftarrow> rd pb 0;
          if ucs2 = k then Some (Suc n, pb)
          else if k < ucs2 then gbk_search tbl ucs2 n i hi pb
          else gbk_search tbl ucs2 n li i pb }"

definition ucs2_to_gbk_one :: "u16 \<Rightarrow> buf \<Rightarrow> nat \<Rightarrow> (nat \<times> buf) option" where
  "ucs2_to_gbk_one ucs2 gbkBuf p =
     (if ucs2 < 0x80 then do { b \<leftarrow> wr gbkBuf p (ucast ucs2); Some (1, b) }
      else do { (n, pb) \<leftarrow> gbk_search Unicode2GBK ucs2 16 0 (UNICODE_GBK_TBL_SIZE div 4 - 1) [];
                gbk \<leftarrow> (if n \<noteq> 0 then rd pb 1 else Some 0);
                bytes \<leftarrow> high_low_change [lo8 gbk, hi8 gbk] 2;
                b \<leftarrow> buf_write gbkBuf p bytes;
                Some (2, b) })"

function gbk_scan :: "u16 list \<Rightarrow> u16 \<Rightarrow> nat \<Rightarrow> nat \<Rightarrow> u16 option" where
  "gbk_scan tbl gbk i hi =
     (if i \<le> hi
      then do { pb \<leftarrow> read_gbk_table tbl (i * 4) 4;
                u \<leftarrow> rd pb 0; g \<leftarrow> rd pb 1;
                if gbk = g then Some u else gbk_scan tbl gbk (i + 1) hi }
      else Some 0)"
  by auto

termination by (relation "measure (\<lambda>(t, g, i, hi). Suc hi - i)") auto

declare gbk_scan.simps [simp del]

definition gbk_to_ucs2_one :: "u16 \<Rightarrow> (nat \<times> u16) option" where
  "gbk_to_ucs2_one gbkBuf =
     (if gbkBuf < 0x80 then Some (1, gbkBuf)
      else do { u \<leftarrow> gbk_scan Unicode2GBK gbkBuf 0 (UNICODE_GBK_TBL_SIZE div 4 - 1); Some (2, u) })"

section \<open>Texts\<close>

text \<open>The second half of a round of \<open>gbk_to_ucs2\<close>: the code, as the bytes of a 16-bit variable, is converted and stored.\<close>

definition gbk_put :: "buf \<Rightarrow> buf \<Rightarrow> nat \<Rightarrow> buf option" where
  "gbk_put gbk dst dstlen =
     do { l \<leftarrow> rd gbk 0; h \<leftarrow> rd gbk 1;
          (r, ucs2) \<leftarrow> gbk_to_ucs2_one (join16 h l);
          buf_write dst dstlen [lo8 ucs2, hi8 ucs2] }"

function gbk_to_ucs2_loop :: "buf \<Rightarrow> nat \<Rightarrow> nat \<Rightarrow> buf \<Rightarrow> nat \<Rightarrow> (nat \<times> buf) option" where
  "gbk_to_ucs2_loop src len i dst dstlen =
     (if i < len
      then do { c \<leftarrow> rd src i;
                if 0x80 < c
                then do { t \<leftarrow> buf_read src i 2;
                          gbk \<leftarrow> high_low_change t 2;
                          d \<leftarrow> gbk_put gbk dst dstlen;
                          gbk_to_ucs2_loop src len (i + 2) d (dstlen + 2) }
                else do { d \<leftarrow> gbk_put [c, 0] dst dstlen;
                          gbk_to_ucs2_loop src len (i + 1) d (dstlen + 2) } }
      else Some (dstlen, dst))"
  by auto

termination by (relation "measure (\<lambda>(s, len, i, d, dl). len - i)") auto

declare gbk_to_ucs2_loop.simps [simp del]

definition gbk_to_ucs2 :: "buf \<Rightarrow> nat \<Rightarrow> buf \<Rightarrow> (nat \<times> buf) option" where
  "gbk_to_ucs2 src len dst = gbk_to_ucs2_loop src len 0 dst 0"

text \<open>The array of 16-bit numbers whose bytes, low byte first, are given.\<close>

fun units_of :: "buf \<Rightarrow> u16 list" where
  "units_of (l # h # b) = join16 h l # units_of b"
| "units_of _ = []"

definition MAX_STRING :: nat where
  "MAX_STRING = 200"

text \<open>The result is the returned number and the destination; that of \<open>UnicodeToUTF8\<close> is not looked at.\<close>

definition gbk_2_utf8 :: "buf \<Rightarrow> buf \<Rightarrow> nat \<Rightarrow> (nat \<times> buf) option" where
  "gbk_2_utf8 gbk_string utf8_string utf8_len =
     do { let ucs2_string = replicate (2 * MAX_STRING) 0;
          len \<leftarrow> c_strlen gbk_string;
          if len > MAX_STRING then Some (0, utf8_string)
          else do { (n, u) \<leftarrow> gbk_to_ucs2 gbk_string len ucs2_string;
                    (r, d) \<leftarrow> UnicodeToUTF8 (units_of u) (n div 2) utf8_string utf8_len;
                    Some (1, d) } }"

text \<open>\<open>flg\<close> is the global \<open>flag\<close>, 1 unless a caller changes it.\<close>

function ucss_to_gbk_loop :: "nat \<Rightarrow> buf \<Rightarrow> nat \<Rightarrow> nat \<Rightarrow> buf \<Rightarrow> nat \<Rightarrow> (nat \<times> buf) option" where
  "ucss_to_gbk_loop flg ucs2 len i gbk gbklen =
     (if i < len
      then do { u \<leftarrow> buf_read ucs2 i 2;
                u1 \<leftarrow> (if flg = 0 then high_low_change u 2 else Some u);
                l \<leftarrow> rd u1 0; h \<leftarrow> rd u1 1;
                (r, g) \<leftarrow> ucs2_to_gbk_one (join16 h l) gbk gbklen;
                ucss_to_gbk_loop flg ucs2 len (i + 2) g (gbklen + r) }
      else Some (gbklen, gbk))"
  by auto

termination by (relation "measure (\<lambda>(f, u, len, i, g, gl). len - i)") auto

declare ucss_to_gbk_loop.simps [simp del]

definition ucss_to_gbk :: "nat \<Rightarrow> buf \<Rightarrow> nat \<Rightarrow> buf \<Rightarrow> (nat \<times> buf) option" where
  "ucss_to_gbk flg ucs2 len gbk = ucss_to_gbk_loop flg ucs2 len 0 gbk 0"

text \<open>\<open>unicode\<close> is an uninitialised local; its contents are an argument.\<close>

definition utf8_to_gbk_one :: "buf \<Rightarrow> buf \<Rightarrow> buf \<Rightarrow> nat \<Rightarrow> (nat \<times> buf) option" where
  "utf8_to_gbk_one unicode utf8 outBuf p =
     do { u \<leftarrow> utf8_word_2_unicode utf8 unicode;
          u1 \<leftarrow> high_low_change u 2;
          l \<leftarrow> rd u1 0; h \<leftarrow> rd u1 1;
          ucs2_to_gbk_one (join16 h l) outBuf p }"

definition utf8_to_gbk_step :: "buf \<Rightarrow> buf \<Rightarrow> nat \<Rightarrow> nat \<Rightarrow> buf \<Rightarrow> nat \<Rightarrow> (buf \<times> nat \<times> buf) option" where
  "utf8_to_gbk_step unicode utf8str start index outBuf len =
     do { flag \<leftarrow> rd utf8str index;
          u1 \<leftarrow> wr utf8str index 0;
          (r, b) \<leftarrow> utf8_to_gbk_one unicode (drop start u1) outBuf len;
          u2 \<leftarrow> wr u1 index flag;
          Some (u2, len + r, b) }"

partial_function (option) utf8_to_gbk_loop :: "buf \<Rightarrow> buf \<Rightarrow> nat \<Rightarrow> nat \<Rightarrow> buf \<Rightarrow> nat \<Rightarrow> (nat \<times> buf \<times> buf) option" where
  "utf8_to_gbk_loop unicode utf8str inLen index outBuf len =
     do { temp \<leftarrow> rd utf8str index;
          if temp = 0 then Some (len, utf8str, outBuf)
          else case utf8_advance temp of None \<Rightarrow> Some (len, utf8str, outBuf)
          | Some k \<Rightarrow>
              if inLen < index + k then Some (len, utf8str, outBuf)
              else do { (u, len1, b) \<leftarrow> utf8_to_gbk_step unicode utf8str index (index + k) outBuf len;
                        utf8_to_gbk_loop unicode u inLen (index + k) b len1 } }"

declare utf8_to_gbk_loop.simps [code]

definition utf8_to_gbk :: "buf \<Rightarrow> buf \<Rightarrow> nat \<Rightarrow> buf \<Rightarrow> (nat \<times> buf \<times> buf) option" where
  "utf8_to_gbk unicode utf8str inLen outBuf =
     do { utf8_length \<leftarrow> strlen_utf8 (Some utf8str);
          b \<leftarrow> buf_fill outBuf 0 0 (utf8_length * 2 + 2);
          utf8_to_gbk_loop unicode utf8str inLen 0 b 0 }"

text \<open>The inner \<open>None\<close> is the null pointer; otherwise the caller's text and the static array.\<close>

definition utf8_to_gbk_string :: "buf \<Rightarrow> buf option \<Rightarrow> buf \<Rightarrow> (buf \<times> buf) option option" where
  "utf8_to_gbk_string unicode utf8str gbkstr =
     (case utf8str of None \<Rightarrow> Some None
      | Some s \<Rightarrow>
          do { len \<leftarrow> c_strlen s;
               if len = 0 then Some None
               else do { g \<leftarrow> buf_fill gbkstr 0 0 256;
                         len2 \<leftarrow> c_strlen s;
                         (r, u, b) \<leftarrow> utf8_to_gbk unicode s len2 g;
                         Some (Some (u, b)) } })"

section \<open>The contract of a code page\<close>

definition page_of :: "u16 list \<Rightarrow> nat \<Rightarrow> (u16 \<times> u16) list" where
  "page_of tbl n = map (\<lambda>i. (tbl ! (2 * i), tbl ! (2 * i + 1))) [0..<n]"

definition or_zero :: "u16 option \<Rightarrow> u16" where
  "or_zero = case_option 0 id"

locale code_page =
  fixes tbl :: "u16 list" and pairs :: nat
  assumes table_length: "length tbl = 2 * pairs + 2"
    and keys_ascend: "i < j \<Longrightarrow> j < pairs \<Longrightarrow> tbl ! (2 * i) < tbl ! (2 * j)"
    and closing: "tbl ! (2 * pairs) = 0" "tbl ! (2 * pairs + 1) = 0"
    and rounds_enough: "0 < pairs" "pairs \<le> 2 ^ 15"
begin

lemma read_pair:
  assumes "i \<le> pairs"
  shows "read_gbk_table tbl (i * 4) 4 = Some [tbl ! (2 * i), tbl ! (2 * i + 1)]"
proof -
  have l: "2 * i < length tbl" "Suc (2 * i) < length tbl" using assms table_length by simp_all
  have d: "i * 4 div 2 = 2 * i" by simp
  have "drop (2 * i) tbl = tbl ! (2 * i) # tbl ! Suc (2 * i) # drop (Suc (Suc (2 * i))) tbl"
    by (simp add: Cons_nth_drop_Suc l)
  then show ?thesis unfolding read_gbk_table_def d using l by (simp add: buf_read_def)
qed

lemma search_step:
  assumes "i = li + (hi - li) div 2" and "li \<le> hi" and "hi \<le> pairs"
  shows "gbk_search tbl u (Suc n) li hi pb =
     (if u = tbl ! (2 * i) then Some (Suc n, [tbl ! (2 * i), tbl ! (2 * i + 1)])
      else if tbl ! (2 * i) < u then gbk_search tbl u n i hi [tbl ! (2 * i), tbl ! (2 * i + 1)]
      else gbk_search tbl u n li i [tbl ! (2 * i), tbl ! (2 * i + 1)])"
  using read_pair [of i] assms by (simp add: Let_def rd_def)

lemma search_finds:
  assumes "li \<le> t" and "t < hi" and "hi \<le> pairs" and "hi - li \<le> 2 ^ n"
  shows "\<exists>m. gbk_search tbl (tbl ! (2 * t)) (Suc n) li hi pb = Some (Suc m, [tbl ! (2 * t), tbl ! (2 * t + 1)])"
  using assms
proof (induction n arbitrary: li hi pb)
  case 0
  then have "t = li + (hi - li) div 2" "li \<le> hi" by auto
  from search_step [OF this 0(3)] show ?case by simp
next
  case (Suc n)
  obtain i where i: "i = li + (hi - li) div 2" by blast
  have r: "li \<le> i" "i < hi" "hi - i \<le> 2 ^ n" "i - li \<le> 2 ^ n" "li \<le> hi" using Suc.prems by (auto simp: i)
  note st = search_step [OF i r(5) Suc.prems(3), of "tbl ! (2 * t)" "Suc n" pb]
  consider "t = i" | "t < i" | "i < t" by linarith
  then show ?case
  proof cases
    case 1
    then show ?thesis using st by simp
  next
    case 2
    then have "tbl ! (2 * t) < tbl ! (2 * i)" using r Suc.prems by (intro keys_ascend) auto
    then have "\<not> tbl ! (2 * i) < tbl ! (2 * t)" "tbl ! (2 * t) \<noteq> tbl ! (2 * i)" by auto
    then show ?thesis using Suc.IH [of li i] 2 r Suc.prems unfolding st by (simp del: gbk_search.simps)
  next
    case 3
    then have "tbl ! (2 * i) < tbl ! (2 * t)" using r Suc.prems by (intro keys_ascend) auto
    then have "tbl ! (2 * i) < tbl ! (2 * t)" "tbl ! (2 * t) \<noteq> tbl ! (2 * i)" by auto
    then show ?thesis using Suc.IH [of i hi] 3 r Suc.prems unfolding st by (simp del: gbk_search.simps)
  qed
qed

lemma search_misses:
  assumes "\<forall>i < pairs. tbl ! (2 * i) \<noteq> u" and "u \<noteq> 0" and "li \<le> hi" and "hi \<le> pairs"
  shows "\<exists>pb'. gbk_search tbl u n li hi pb = Some (0, pb')"
  using assms(3,4)
proof (induction n arbitrary: li hi pb)
  case 0
  then show ?case by simp
next
  case (Suc n)
  obtain i where i: "i = li + (hi - li) div 2" by blast
  have r: "li \<le> i" "i \<le> hi" using Suc.prems by (auto simp: i)
  then have "i < pairs \<or> i = pairs" using Suc.prems by linarith
  then have "u \<noteq> tbl ! (2 * i)" using assms(1,2) closing(1) by auto
  then show ?case using Suc.IH [of i hi] Suc.IH [of li i] r Suc.prems unfolding search_step [OF i Suc.prems] by simp
qed

lemma page_keys: "map fst (page_of tbl pairs) = map (\<lambda>i. tbl ! (2 * i)) [0..<pairs]"
  by (simp add: page_of_def)

lemma keys_inj: "i < pairs \<Longrightarrow> j < pairs \<Longrightarrow> tbl ! (2 * i) = tbl ! (2 * j) \<Longrightarrow> i = j"
  using keys_ascend [of i j] keys_ascend [of j i] by (metis less_irrefl linorder_neqE_nat)

lemma page_distinct: "distinct (map fst (page_of tbl pairs))"
  unfolding page_keys by (simp add: distinct_map inj_on_def keys_inj)

text \<open>The binary search is the lookup in the page.\<close>

lemma search_lookup:
  assumes "u \<noteq> 0"
  shows "\<exists>n pb. gbk_search tbl u 16 0 pairs [] = Some (n, pb) \<and>
    (if n \<noteq> 0 then rd pb 1 else Some 0) = Some (or_zero (map_of (page_of tbl pairs) u))"
proof (cases "\<exists>t < pairs. tbl ! (2 * t) = u")
  case True
  then obtain t where t: "t < pairs" "tbl ! (2 * t) = u" by blast
  then have "(u, tbl ! (2 * t + 1)) \<in> set (page_of tbl pairs)" by (auto simp: page_of_def)
  with page_distinct have "map_of (page_of tbl pairs) u = Some (tbl ! (2 * t + 1))" by simp
  moreover obtain m where "gbk_search tbl u 16 0 pairs [] = Some (Suc m, [u, tbl ! (2 * t + 1)])"
    using search_finds [of 0 t pairs 15 "[]"] t rounds_enough by (auto simp del: gbk_search.simps)
  ultimately show ?thesis by (simp add: or_zero_def rd_def del: gbk_search.simps)
next
  case False
  then have "map_of (page_of tbl pairs) u = None" by (auto simp: map_of_eq_None_iff page_of_def)
  then show ?thesis using search_misses [of u 0 pairs 16 "[]"] assms False by (auto simp: or_zero_def)
qed

lemma scan_from:
  assumes "g \<noteq> 0" and "i \<le> pairs"
  shows "gbk_scan tbl g i pairs = Some (or_zero (map_of (map (\<lambda>j. (tbl ! (2 * j + 1), tbl ! (2 * j))) [i..<pairs]) g))"
  using assms(2)
proof (induction "pairs - i" arbitrary: i)
  case 0
  then have "i = pairs" by simp
  then have "gbk_scan tbl g i pairs = gbk_scan tbl g (i + 1) pairs" using read_pair [of i] closing assms(1)
    by (subst gbk_scan.simps) (simp add: rd_def)
  also have "\<dots> = Some 0" using \<open>i = pairs\<close> by (subst gbk_scan.simps) simp
  finally show ?case using \<open>i = pairs\<close> by (simp add: or_zero_def)
next
  case (Suc n)
  then have "i < pairs" by simp
  then show ?case using Suc.hyps(1) [of "i + 1"] Suc.hyps(2) read_pair [of i]
    by (subst gbk_scan.simps) (simp add: rd_def upt_conv_Cons or_zero_def)
qed

text \<open>So is the linear search, in the other direction.\<close>

lemma scan_lookup: "g \<noteq> 0 \<Longrightarrow> gbk_scan tbl g 0 pairs = Some (or_zero (map_of (map prod.swap (page_of tbl pairs)) g))"
  using scan_from [of g 0] by (simp add: page_of_def comp_def)

lemma lookup_back: "map_of (map prod.swap (page_of tbl pairs)) g = Some u \<Longrightarrow> map_of (page_of tbl pairs) u = Some g"
  using page_distinct by (force dest: map_of_SomeD)

end

section \<open>The table is a code page\<close>

fun pairs_of :: "nat list \<Rightarrow> (nat \<times> nat) list" where
  "pairs_of (u # g # r) = (u, g) # pairs_of r"
| "pairs_of _ = []"

definition pair_range :: "nat \<times> nat \<Rightarrow> bool" where
  "pair_range = (\<lambda>(u, g). 0x80 \<le> u \<and> (u \<le> 0xd800 \<or> 0xdfff \<le> u) \<and> (0x8100 \<le> g \<or> g = 0x80) \<and> g < 0x10000)"

lemma gbk_check_pairs:
  assumes "gbk_check k rows = Some k'" and "0x7f \<le> k"
  shows "length (pairs_of (concat rows)) = 4 * length rows" and "length (concat rows) = 8 * length rows"
    and "sorted_wrt (<) (k # map fst (pairs_of (concat rows)))"
    and "\<forall>p \<in> set (pairs_of (concat rows)). fst p \<le> k' \<and> pair_range p" and "k \<le> k'"
proof -
  have "length (pairs_of (concat rows)) = 4 * length rows \<and> length (concat rows) = 8 * length rows \<and>
      sorted_wrt (<) (k # map fst (pairs_of (concat rows))) \<and>
      (\<forall>p \<in> set (pairs_of (concat rows)). fst p \<le> k' \<and> pair_range p) \<and> k \<le> k'"
    using assms
  proof (induction k rows rule: gbk_check.induct)
    case (2 k a b c d e f g h r)
    then have ok: "gbk_pair_ok k a b" "gbk_pair_ok a c d" "gbk_pair_ok c e f" "gbk_pair_ok e g h" and rest: "gbk_check g r = Some k'"
      by (auto split: if_splits)
    then have lt: "k < a" "a < c" "c < e" "e < g" by (simp_all add: gbk_pair_ok_def)
    with 2(3) have "0x7f \<le> g" by simp
    from 2(1) [OF _ rest this] ok have IH: "length (pairs_of (concat r)) = 4 * length r" "length (concat r) = 8 * length r"
        "sorted_wrt (<) (g # map fst (pairs_of (concat r)))" "\<forall>p \<in> set (pairs_of (concat r)). fst p \<le> k' \<and> pair_range p" "g \<le> k'"
      by simp_all
    from ok lt 2(3) have "pair_range (a, b)" "pair_range (c, d)" "pair_range (e, f)" "pair_range (g, h)"
      by (simp_all add: gbk_pair_ok_def pair_range_def)
    with IH lt show ?case by auto
  qed simp_all
  then show "length (pairs_of (concat rows)) = 4 * length rows" "length (concat rows) = 8 * length rows"
    "sorted_wrt (<) (k # map fst (pairs_of (concat rows)))"
    "\<forall>p \<in> set (pairs_of (concat rows)). fst p \<le> k' \<and> pair_range p" "k \<le> k'" by blast+
qed

lemma pairs_of_nth: "i < length (pairs_of xs) \<Longrightarrow> (xs ! (2 * i), xs ! (2 * i + 1)) = pairs_of xs ! i"
proof (induction xs arbitrary: i rule: pairs_of.induct)
  case (1 u g r)
  then show ?case by (cases i) simp_all
qed simp_all

definition gbk_nats :: "(nat \<times> nat) list" where
  "gbk_nats = pairs_of (concat gbk_rows)"

lemmas gbk_checked = gbk_check_pairs [OF gbk_check_rows order_refl, folded gbk_nats_def, unfolded length_gbk_rows]

lemma gbk_nats_length: "length gbk_nats = 21792" "length (concat gbk_rows) = 43584"
  using gbk_checked(1,2) by simp_all

text \<open>The numbers of a pair, as they stand in the array.\<close>

lemma Unicode2GBK_pair:
  assumes "i < 21792"
  shows "unat (Unicode2GBK ! (2 * i)) = fst (gbk_nats ! i)" and "unat (Unicode2GBK ! (2 * i + 1)) = snd (gbk_nats ! i)"
    and "pair_range (gbk_nats ! i)"
proof -
  have "gbk_nats ! i \<in> set gbk_nats" using assms gbk_nats_length by simp
  with gbk_checked(4) have r: "fst (gbk_nats ! i) \<le> 0xffe5" "pair_range (gbk_nats ! i)" by auto
  then show "pair_range (gbk_nats ! i)" by simp
  have "(concat gbk_rows ! (2 * i), concat gbk_rows ! (2 * i + 1)) = gbk_nats ! i"
    unfolding gbk_nats_def by (rule pairs_of_nth) (simp add: gbk_nats_length assms flip: gbk_nats_def)
  then have "concat gbk_rows ! (2 * i) = fst (gbk_nats ! i)" "concat gbk_rows ! (2 * i + 1) = snd (gbk_nats ! i)"
    by (metis fst_conv, metis snd_conv)
  then have "Unicode2GBK ! (2 * i) = word_of_nat (fst (gbk_nats ! i))" "Unicode2GBK ! (2 * i + 1) = word_of_nat (snd (gbk_nats ! i))"
    unfolding Unicode2GBK_def using assms gbk_nats_length(2) by (simp_all add: nth_append)
  then show "unat (Unicode2GBK ! (2 * i)) = fst (gbk_nats ! i)" "unat (Unicode2GBK ! (2 * i + 1)) = snd (gbk_nats ! i)"
    using r by (auto simp: unsigned_of_nat take_bit_nat_eq_self pair_range_def split: prod.splits)
qed

lemma gbk_nats_ascend: "i < j \<Longrightarrow> j < 21792 \<Longrightarrow> fst (gbk_nats ! i) < fst (gbk_nats ! j)"
  using gbk_checked(3) gbk_nats_length(1) sorted_wrt_nth_less [of "(<)" "map fst gbk_nats" i j] by simp

interpretation gbk: code_page Unicode2GBK 21792
proof
  show "length Unicode2GBK = 2 * 21792 + 2" unfolding Unicode2GBK_def by (simp add: gbk_nats_length)
  show "Unicode2GBK ! (2 * i) < Unicode2GBK ! (2 * j)" if "i < j" "j < 21792" for i j
    using gbk_nats_ascend [OF that] Unicode2GBK_pair(1) [of i] Unicode2GBK_pair(1) [of j] that by (simp add: word_less_nat_alt)
  show "Unicode2GBK ! (2 * 21792) = 0" "Unicode2GBK ! (2 * 21792 + 1) = 0"
    unfolding Unicode2GBK_def by (simp_all add: nth_append gbk_nats_length)
qed simp_all

definition gbk_page :: "(u16 \<times> u16) list" where
  "gbk_page = page_of Unicode2GBK 21792"

lemma table_entries: "UNICODE_GBK_TBL_SIZE div 4 - 1 = 21792"
  by (simp add: UNICODE_GBK_TBL_SIZE_def)

lemma gbk_page_range:
  assumes "(u, g) \<in> set gbk_page"
  shows "pair_range (unat u, unat g)" and "0x80 \<le> u" and "bmp_unit u"
proof -
  from assms obtain i where i: "i < 21792" "u = Unicode2GBK ! (2 * i)" "g = Unicode2GBK ! (2 * i + 1)"
    by (auto simp: gbk_page_def page_of_def)
  then have "gbk_nats ! i = (unat u, unat g)" using Unicode2GBK_pair(1,2) [OF i(1)] by (metis prod.collapse)
  then show r: "pair_range (unat u, unat g)" using Unicode2GBK_pair(3) [OF i(1)] by simp
  then show "0x80 \<le> u" by (simp add: pair_range_def word_le_nat_alt)
  from r show "bmp_unit u"
    by (auto simp: bmp_unit_def pair_range_def word_less_nat_alt simp flip: unat_eq_0)
qed

section \<open>One character\<close>

text \<open>The bytes of a code unit in GBK, by lookup in the page; two zero bytes when it has no code.\<close>

definition gbk_bytes :: "u16 \<Rightarrow> buf" where
  "gbk_bytes u = (if u < 0x80 then [ucast u] else let g = or_zero (map_of gbk_page u) in [hi8 g, lo8 g])"

lemma wr_buf_write: "wr b p v = buf_write b p [v]"
  by (auto simp: wr_def buf_write_def upd_conv_take_nth_drop)

lemma high_low_change_2: "high_low_change [a, b] 2 = Some [b, a]"
  using hl_loop_rev [of "[]" "[a, b]" "[]"] by (simp add: high_low_change_def numeral_2_eq_2)

lemma ucs2_to_gbk_one_eq: "ucs2_to_gbk_one u b p = map_option (Pair (length (gbk_bytes u))) (buf_write b p (gbk_bytes u))"
proof (cases "u < 0x80")
  case True
  then show ?thesis by (simp add: ucs2_to_gbk_one_def gbk_bytes_def wr_buf_write map_conv_bind_option comp_def)
next
  case False
  then have "u \<noteq> 0" by auto
  from gbk.search_lookup [OF this] False show ?thesis
    unfolding ucs2_to_gbk_one_def table_entries
    by (auto simp: gbk_bytes_def Let_def high_low_change_2 [unfolded numeral_2_eq_2] map_conv_bind_option comp_def numeral_2_eq_2 gbk_page_def simp del: gbk_search.simps)
qed

text \<open>The code unit of a code.\<close>

definition unit_of_code :: "u16 \<Rightarrow> u16" where
  "unit_of_code g = (if g < 0x80 then g else or_zero (map_of (map prod.swap gbk_page) g))"

lemma gbk_to_ucs2_one_eq: "gbk_to_ucs2_one g = Some (if g < 0x80 then 1 else 2, unit_of_code g)"
proof (cases "g < 0x80")
  case True
  then show ?thesis by (simp add: gbk_to_ucs2_one_def unit_of_code_def)
next
  case False
  then have "g \<noteq> 0" by auto
  with False show ?thesis unfolding gbk_to_ucs2_one_def table_entries
    by (simp add: gbk.scan_lookup unit_of_code_def gbk_page_def)
qed

text \<open>The codes a GBK text may hold: ASCII, or a two-byte code of the page.\<close>

definition gbk_code :: "u16 \<Rightarrow> bool" where
  "gbk_code g = ((g \<noteq> 0 \<and> g < 0x80) \<or> (0x8100 \<le> g \<and> lo8 g \<noteq> 0 \<and> g \<in> snd ` set gbk_page))"

definition code_bytes :: "u16 \<Rightarrow> buf" where
  "code_bytes g = (if g < 0x80 then [lo8 g] else [hi8 g, lo8 g])"

lemma unit_of_code:
  assumes "gbk_code g"
  shows "bmp_unit (unit_of_code g)" and "gbk_bytes (unit_of_code g) = code_bytes g"
proof -
  have "bmp_unit (unit_of_code g) \<and> gbk_bytes (unit_of_code g) = code_bytes g"
  proof (cases "g < 0x80")
    case True
    then have "g \<noteq> 0" "\<not> 0xd800 < g" using assms by (auto simp: gbk_code_def word_less_nat_alt word_le_nat_alt)
    with True show ?thesis by (simp add: unit_of_code_def bmp_unit_def gbk_bytes_def code_bytes_def dec1)
  next
    case False
    with assms have "g \<in> snd ` set gbk_page" by (auto simp: gbk_code_def)
    then obtain u where u: "map_of (map prod.swap gbk_page) g = Some u"
      by (cases "map_of (map prod.swap gbk_page) g") (auto simp: map_of_eq_None_iff image_image)
    then have m: "map_of gbk_page u = Some g" unfolding gbk_page_def by (rule gbk.lookup_back)
    then have "\<not> u < 0x80" "bmp_unit u" using gbk_page_range [OF map_of_SomeD] by (auto simp: not_less)
    with u m False show ?thesis by (simp add: unit_of_code_def or_zero_def gbk_bytes_def code_bytes_def)
  qed
  then show "bmp_unit (unit_of_code g)" "gbk_bytes (unit_of_code g) = code_bytes g" by simp_all
qed

text \<open>C7: on the code page as it stands in the source, 16 rounds of the binary search are the lookup: for every code unit,
  \<open>ucs2_to_gbk_one\<close> stores the ASCII byte, or the two bytes of the unit's GBK code (two zeros when it has none), and returns
  their number; it fails only when they do not fit. \<open>gbk_to_ucs2_one\<close> is the lookup in the other direction.\<close>

theorem gbk_searches_are_lookups:
  "ucs2_to_gbk_one u b p = map_option (Pair (length (gbk_bytes u))) (buf_write b p (gbk_bytes u)) \<and>
   gbk_to_ucs2_one g = Some (if g < 0x80 then 1 else 2, unit_of_code g)"
  by (rule conjI [OF ucs2_to_gbk_one_eq gbk_to_ucs2_one_eq])

section \<open>Texts\<close>

definition gbk_text :: "u16 list \<Rightarrow> buf" where
  "gbk_text gs = concat (map code_bytes gs)"

lemma gbk_text_simps [simp]: "gbk_text [] = []" "gbk_text (g # gs) = code_bytes g @ gbk_text gs"
  by (simp_all add: gbk_text_def)

lemma code_bytes_facts:
  assumes "gbk_code g"
  shows "0 \<notin> set (code_bytes g)" and "length (code_bytes g) \<le> 2" and "g < 0x80 \<longleftrightarrow> \<not> 0x80 < hd (code_bytes g)"
proof -
  have lo: "lo8 g = ucast g" if "g < 0x80" using dec1 [OF that] by simp
  show "length (code_bytes g) \<le> 2" by (simp add: code_bytes_def)
  have hi: "0x80 < hi8 g" if "\<not> g < 0x80"
  proof -
    have "0x8100 \<le> unat g" using assms that by (auto simp: gbk_code_def word_le_nat_alt)
    moreover have "unat g = 256 * unat (hi8 g) + unat (lo8 g)" using unat_join16 [of "hi8 g" "lo8 g"] by simp
    ultimately have "0x81 \<le> unat (hi8 g)" using u8_lt_256 [of "lo8 g"] by simp
    then show ?thesis by (simp add: word_less_nat_alt)
  qed
  have small: "lo8 g \<noteq> 0" "\<not> 0x80 < lo8 g" if "g < 0x80"
  proof -
    have "unat g = 256 * unat (hi8 g) + unat (lo8 g)" using unat_join16 [of "hi8 g" "lo8 g"] by simp
    moreover have "unat g < 0x80" "unat g \<noteq> 0" using assms that by (auto simp: gbk_code_def word_less_nat_alt unat_eq_0 word_le_nat_alt)
    ultimately have "unat (lo8 g) \<noteq> 0" "unat (lo8 g) < 0x80" by auto
    then show "lo8 g \<noteq> 0" "\<not> 0x80 < lo8 g" by (auto simp: word_less_nat_alt)
  qed
  show "0 \<notin> set (code_bytes g)" using small hi assms by (auto simp: code_bytes_def gbk_code_def word_less_nat_alt word_le_nat_alt)
  show "g < 0x80 \<longleftrightarrow> \<not> 0x80 < hd (code_bytes g)" using small hi by (auto simp: code_bytes_def)
qed

text \<open>A round of \<open>gbk_to_ucs2\<close> reads one code.\<close>

lemma gbk_put_code:
  "gbk_put [lo8 g, hi8 g] dst n = buf_write dst n [lo8 (unit_of_code g), hi8 (unit_of_code g)]"
  by (simp add: gbk_put_def gbk_to_ucs2_one_eq rd_def)

lemma gbk_to_ucs2_step:
  assumes "gbk_code g" and "n + 2 \<le> length dst" and "length pre < len"
  shows "gbk_to_ucs2_loop (pre @ code_bytes g @ r) len (length pre) dst n =
    gbk_to_ucs2_loop (pre @ code_bytes g @ r) len (length (pre @ code_bytes g))
      (take n dst @ [lo8 (unit_of_code g), hi8 (unit_of_code g)] @ drop (n + 2) dst) (n + 2)"
proof (cases "g < 0x80")
  case True
  then have "code_bytes g = [lo8 g]" by (simp add: code_bytes_def)
  with True have "\<not> 0x80 < lo8 g" using code_bytes_facts(3) [OF assms(1)] by simp
  moreover have "gbk_put [lo8 g, 0] dst n = Some (take n dst @ [lo8 (unit_of_code g), hi8 (unit_of_code g)] @ drop (n + 2) dst)"
    using gbk_put_code [of g dst n] dec1(2) [OF True] assms(2) by (simp add: buf_write_def)
  ultimately show ?thesis using True assms(3)
    by (subst gbk_to_ucs2_loop.simps) (simp add: code_bytes_def rd_def nth_append)
next
  case False
  then have "code_bytes g = [hi8 g, lo8 g]" by (simp add: code_bytes_def)
  with False have "0x80 < hi8 g" using code_bytes_facts(3) [OF assms(1)] by simp
  moreover have "gbk_put [lo8 g, hi8 g] dst n = Some (take n dst @ [lo8 (unit_of_code g), hi8 (unit_of_code g)] @ drop (n + 2) dst)"
    using gbk_put_code [of g dst n] assms(2) by (simp add: buf_write_def)
  ultimately show ?thesis using False assms(3)
    by (subst gbk_to_ucs2_loop.simps) (simp add: code_bytes_def rd_def nth_append buf_read_def high_low_change_2)
qed

lemma code_bytes_nonempty: "0 < length (code_bytes g)"
  by (simp add: code_bytes_def)

lemma gbk_to_ucs2_text:
  assumes "\<forall>g \<in> set gs. gbk_code g" and "n + 2 * length gs \<le> length dst"
  shows "gbk_to_ucs2_loop (pre @ gbk_text gs @ r) (length pre + length (gbk_text gs)) (length pre) dst n =
    Some (n + 2 * length gs, take n dst @ units_le (map unit_of_code gs) @ drop (n + 2 * length gs) dst)"
  using assms
proof (induction gs arbitrary: pre dst n)
  case Nil
  then show ?case by (subst gbk_to_ucs2_loop.simps) simp
next
  case (Cons g gs)
  let ?d = "take n dst @ [lo8 (unit_of_code g), hi8 (unit_of_code g)] @ drop (n + 2) dst" and ?s = "pre @ code_bytes g @ gbk_text gs @ r"
  let ?len = "length (pre @ code_bytes g) + length (gbk_text gs)"
  have "gbk_to_ucs2_loop ?s ?len (length pre) dst n = gbk_to_ucs2_loop ?s ?len (length (pre @ code_bytes g)) ?d (n + 2)"
    using Cons.prems code_bytes_nonempty [of g] by (intro gbk_to_ucs2_step) simp_all
  also have "\<dots> = gbk_to_ucs2_loop ((pre @ code_bytes g) @ gbk_text gs @ r) ?len (length (pre @ code_bytes g)) ?d (n + 2)" by simp
  also have "\<dots> = Some (n + 2 + 2 * length gs, take (n + 2) ?d @ units_le (map unit_of_code gs) @ drop (n + 2 + 2 * length gs) ?d)"
    using Cons.prems by (intro Cons.IH) simp_all
  also have "take (n + 2) ?d @ units_le (map unit_of_code gs) @ drop (n + 2 + 2 * length gs) ?d =
      take n dst @ units_le (map unit_of_code (g # gs)) @ drop (n + 2 * length (g # gs)) dst"
    using Cons.prems by (simp add: add.commute)
  finally show ?case by (simp add: add.assoc)
qed

lemma units_of_units_le: "units_of (units_le us @ b) = us @ units_of b"
  by (induction us) simp_all

lemma gbk_text_nonzero: "\<forall>g \<in> set gs. gbk_code g \<Longrightarrow> 0 \<notin> set (gbk_text gs)"
  using code_bytes_facts(1) by (auto simp: gbk_text_def)

lemma gbk_text_length: "length gs \<le> length (gbk_text gs)"
proof (induction gs)
  case (Cons g gs)
  then show ?case using code_bytes_nonempty [of g] unfolding gbk_text_simps length_append length_Cons by linarith
qed simp

lemma gbk_2_utf8_text:
  assumes "\<forall>g \<in> set gs. gbk_code g" and "length (gbk_text gs) \<le> 200"
    and "length (utf8_enc (map unit_of_code gs)) < n" and "n \<le> length dst"
  shows "gbk_2_utf8 (gbk_text gs @ 0 # r) dst n =
    Some (1, utf8_enc (map unit_of_code gs) @ 0 # drop (length (utf8_enc (map unit_of_code gs)) + 1) dst)"
proof -
  let ?us = "map unit_of_code gs" and ?z = "replicate (2 * MAX_STRING) (0 :: u8)"
  have l: "length gs \<le> 200" using gbk_text_length [of gs] assms(2) by simp
  have "gbk_to_ucs2 (gbk_text gs @ 0 # r) (length (gbk_text gs)) ?z = Some (2 * length gs, units_le ?us @ drop (2 * length gs) ?z)"
    using gbk_to_ucs2_text [OF assms(1), of 0 ?z "[]" "0 # r"] l by (simp add: gbk_to_ucs2_def MAX_STRING_def)
  moreover have "UnicodeToUTF8 (?us @ v) (length ?us) dst n = Some (length (utf8_enc ?us), utf8_enc ?us @ 0 # drop (length (utf8_enc ?us) + 1) dst)" for v
    using UnicodeToUTF8_loop_enc [of ?us n dst 0 "[]" v] assms unit_of_code(1) by (simp add: UnicodeToUTF8_def)
  moreover have "c_strlen (gbk_text gs @ 0 # r) = Some (length (gbk_text gs))"
    by (rule c_strlen_text [OF gbk_text_nonzero [OF assms(1)]])
  ultimately show ?thesis using assms(2)
    by (simp add: gbk_2_utf8_def Let_def units_of_units_le MAX_STRING_def)
qed

definition gbk_units :: "u16 list \<Rightarrow> buf" where
  "gbk_units us = concat (map gbk_bytes us)"

lemma gbk_units_simps [simp]: "gbk_units [] = []" "gbk_units (u # us) = gbk_bytes u @ gbk_units us"
  by (simp_all add: gbk_units_def)

lemma gbk_units_of_codes: "\<forall>g \<in> set gs. gbk_code g \<Longrightarrow> gbk_units (map unit_of_code gs) = gbk_text gs"
  by (induction gs) (simp_all add: unit_of_code(2))

lemma utf8_to_gbk_step_enc:
  assumes "bmp_unit x" and "t \<noteq> []" and "length unicode = 2" and "len + length (gbk_bytes x) \<le> length out"
  shows "utf8_to_gbk_step unicode (pre @ utf8_bytes x @ t) (length pre) (length pre + length (utf8_bytes x)) out len =
    Some (pre @ utf8_bytes x @ t, len + length (gbk_bytes x), take len out @ gbk_bytes x @ drop (len + length (gbk_bytes x)) out)"
proof -
  obtain e r where t: "t = e # r" using assms(2) by (cases t) auto
  obtain a b where u: "unicode = [a, b]" using assms(3) by (auto simp: numeral_2_eq_2 length_Suc_conv)
  have "utf8_to_gbk_one unicode (utf8_bytes x @ 0 # r) out len =
      Some (length (gbk_bytes x), take len out @ gbk_bytes x @ drop (len + length (gbk_bytes x)) out)"
    using utf8_unit_decoded(2) [OF assms(1), of 0 "[0, 0]" r a b] assms(4)
    by (simp add: utf8_to_gbk_one_def u high_low_change_2 rd_def ucs2_to_gbk_one_eq buf_write_def)
  moreover have "(pre @ utf8_bytes x @ e # r)[length pre + length (utf8_bytes x) := y] = pre @ utf8_bytes x @ y # r" for y e
    by (simp add: list_update_append)
  ultimately show ?thesis by (simp add: utf8_to_gbk_step_def t rd_def wr_def nth_append)
qed

lemma utf8_to_gbk_loop_enc:
  assumes "\<forall>x \<in> set us. bmp_unit x" and "length pre + length (utf8_enc us) \<le> n" and "length unicode = 2"
    and "len + length (gbk_units us) \<le> length out"
  shows "utf8_to_gbk_loop unicode (pre @ utf8_enc us @ 0 # r) n (length pre) out len =
    Some (len + length (gbk_units us), pre @ utf8_enc us @ 0 # r, take len out @ gbk_units us @ drop (len + length (gbk_units us)) out)"
  using assms(1,2,4)
proof (induction us arbitrary: pre out len)
  case Nil
  then show ?case by (subst utf8_to_gbk_loop.simps) (simp add: rd_def nth_append)
next
  case (Cons x us)
  let ?u = "pre @ utf8_bytes x @ utf8_enc us @ 0 # r" and ?b = "take len out @ gbk_bytes x @ drop (len + length (gbk_bytes x)) out"
  obtain c cs where c: "utf8_bytes x = c # cs" "c \<noteq> 0" "utf8_advance c = Some (length (utf8_bytes x))"
    using utf8_bytes_shape [of x] Cons.prems(1) by auto
  have hd: "rd ?u (length pre) = Some c" by (simp add: rd_def nth_append c(1))
  have step: "utf8_to_gbk_step unicode ?u (length pre) (length pre + length (utf8_bytes x)) out len = Some (?u, len + length (gbk_bytes x), ?b)"
    using Cons.prems assms(3) by (intro utf8_to_gbk_step_enc) simp_all
  have "\<not> n < length pre + length (utf8_bytes x)" using Cons.prems(2) by simp
  with hd step c(2,3) have "utf8_to_gbk_loop unicode ?u n (length pre) out len =
      utf8_to_gbk_loop unicode ((pre @ utf8_bytes x) @ utf8_enc us @ 0 # r) n (length (pre @ utf8_bytes x)) ?b (len + length (gbk_bytes x))"
    by (subst utf8_to_gbk_loop.simps) simp
  also have "\<dots> = Some (len + length (gbk_bytes x) + length (gbk_units us), (pre @ utf8_bytes x) @ utf8_enc us @ 0 # r,
      take (len + length (gbk_bytes x)) ?b @ gbk_units us @ drop (len + length (gbk_bytes x) + length (gbk_units us)) ?b)"
    using Cons.prems by (intro Cons.IH) simp_all
  also have "take (len + length (gbk_bytes x)) ?b @ gbk_units us @ drop (len + length (gbk_bytes x) + length (gbk_units us)) ?b =
      take len out @ gbk_units (x # us) @ drop (len + length (gbk_units (x # us))) out"
    using Cons.prems(3) by (simp add: ac_simps)
  finally show ?case by (simp add: add.assoc)
qed

lemma gbk_units_length: "length (gbk_units us) \<le> 2 * length us"
proof (induction us)
  case (Cons u us)
  have "length (gbk_bytes u) \<le> 2" by (simp add: gbk_bytes_def Let_def)
  with Cons show ?case by simp
qed simp

lemma utf8_to_gbk_enc:
  assumes "\<forall>x \<in> set us. bmp_unit x" and "length unicode = 2" and "2 * length us + 2 \<le> length out"
  shows "utf8_to_gbk unicode (utf8_enc us @ 0 # r) (length (utf8_enc us)) out =
    Some (length (gbk_units us), utf8_enc us @ 0 # r,
      gbk_units us @ replicate (2 * length us + 2 - length (gbk_units us)) 0 @ drop (2 * length us + 2) out)"
proof -
  define m where "m = length us * 2 + 2"
  let ?b = "replicate m 0 @ drop m out"
  have m: "m \<le> length out" "length (gbk_units us) \<le> m" using assms(3) gbk_units_length [of us] by (simp_all add: m_def)
  have "buf_fill out 0 0 m = Some ?b" using m by (simp add: buf_fill_def buf_write_def)
  moreover have "utf8_to_gbk_loop unicode (utf8_enc us @ 0 # r) (length (utf8_enc us)) 0 ?b 0 =
      Some (length (gbk_units us), utf8_enc us @ 0 # r, gbk_units us @ replicate (m - length (gbk_units us)) 0 @ drop m out)"
    using utf8_to_gbk_loop_enc [OF assms(1), of "[]" _ unicode 0 ?b] assms(2) m by simp
  moreover have "2 * length us + 2 = m" by (simp add: m_def)
  ultimately show ?thesis
    unfolding utf8_to_gbk_def strlen_utf8_def
    by (simp only: option.case strlen_utf8_enc [OF assms(1)] m_def [symmetric] Option.bind.simps)
qed

text \<open>C16: a GBK text of at most 200 bytes (ASCII and two-byte codes of the page) survives the way to UTF-8 and back:
  \<open>gbk_2_utf8\<close> returns 1 and leaves a terminated text, from which \<open>utf8_to_gbk\<close> restores the GBK text, terminated, whatever the
  uninitialised variable holds. The destinations must have room for the texts (two bytes a character and two more on the
  way back).\<close>

theorem gbk_utf8_gbk_roundtrip:
  assumes "\<forall>g \<in> set gs. gbk_code g" and "length (gbk_text gs) \<le> 200"
    and "length (utf8_enc (map unit_of_code gs)) < n" and "n \<le> length dst"
    and "length unicode = 2" and "2 * length gs + 2 \<le> length out"
  shows "\<exists>s d o1. gbk_2_utf8 (gbk_text gs @ 0 # r) dst n = Some (1, s @ 0 # d) \<and> 0 \<notin> set s \<and>
    utf8_to_gbk unicode (s @ 0 # d) (length s) out = Some (length (gbk_text gs), s @ 0 # d, gbk_text gs @ 0 # o1)"
proof -
  let ?us = "map unit_of_code gs" and ?s = "utf8_enc (map unit_of_code gs)"
  have u: "\<forall>x \<in> set ?us. bmp_unit x" using assms(1) unit_of_code(1) by auto
  have g: "gbk_units ?us = gbk_text gs" by (rule gbk_units_of_codes [OF assms(1)])
  have "length (gbk_text gs) < 2 * length ?us + 2" using gbk_units_length [of ?us] g by simp
  then obtain k where "2 * length ?us + 2 - length (gbk_text gs) = Suc k" by (metis Suc_diff_Suc)
  then have "utf8_to_gbk unicode (?s @ 0 # d) (length ?s) out =
      Some (length (gbk_text gs), ?s @ 0 # d, gbk_text gs @ 0 # replicate k 0 @ drop (2 * length ?us + 2) out)" for d
    using utf8_to_gbk_enc [OF u assms(5), of out d] assms(6) by (simp add: g)
  then show ?thesis using gbk_2_utf8_text [OF assms(1-4), of r] utf8_enc_nonzero [OF u] by blast
qed

text \<open>The conversion of UCS-2 in memory, low byte first unless \<open>flag\<close> is 0.\<close>

definition units_be :: "u16 list \<Rightarrow> buf" where
  "units_be us = concat (map (\<lambda>x. [hi8 x, lo8 x]) us)"

lemma ucss_to_gbk_loop_units:
  assumes "n + length (gbk_units us) \<le> length out" and "b = (if flg = 0 then units_be us else units_le us)"
  shows "ucss_to_gbk_loop flg (pre @ b @ r) (length pre + 2 * length us) (length pre) out n =
    Some (n + length (gbk_units us), take n out @ gbk_units us @ drop (n + length (gbk_units us)) out)"
  using assms
proof (induction us arbitrary: pre b out n)
  case Nil
  then show ?case by (subst ucss_to_gbk_loop.simps) simp
next
  case (Cons x us)
  let ?b = "if flg = 0 then units_be us else units_le us" and ?h = "if flg = 0 then [hi8 x, lo8 x] else [lo8 x, hi8 x]"
  let ?o = "take n out @ gbk_bytes x @ drop (n + length (gbk_bytes x)) out"
  have b: "b = ?h @ ?b" using Cons.prems by (simp add: units_be_def)
  have "ucss_to_gbk_loop flg ((pre @ ?h) @ ?b @ r) (length (pre @ ?h) + 2 * length us) (length (pre @ ?h)) ?o (n + length (gbk_bytes x)) =
      Some (n + length (gbk_bytes x) + length (gbk_units us),
        take (n + length (gbk_bytes x)) ?o @ gbk_units us @ drop (n + length (gbk_bytes x) + length (gbk_units us)) ?o)"
    using Cons.prems by (intro Cons.IH) simp_all
  moreover have "length (pre @ ?h) = length pre + 2" by simp
  moreover have "length pre + 2 * length (x # us) = length pre + 2 + 2 * length us" by simp
  ultimately show ?case using Cons.prems(1) unfolding b
    by (subst ucss_to_gbk_loop.simps)
      (auto simp: buf_read_def high_low_change_2 rd_def ucs2_to_gbk_one_eq buf_write_def ac_simps)
qed

text \<open>Entries of the page by their place in the first piece.\<close>

lemma gbk_page_entry:
  assumes "i < 600"
  shows "(word_of_nat (concat Unicode2GBK_0 ! (2 * i)), word_of_nat (concat Unicode2GBK_0 ! (2 * i + 1))) \<in> set gbk_page"
proof -
  have l: "length (concat Unicode2GBK_0) = 1200" by (simp add: Unicode2GBK_0_def)
  have "concat gbk_rows ! j = concat Unicode2GBK_0 ! j" if "j < 1200" for j
    using that l by (simp add: gbk_rows_def nth_append)
  then have "Unicode2GBK ! j = word_of_nat (concat Unicode2GBK_0 ! j)" if "j < 1200" for j
    using that gbk_nats_length(2) by (simp add: Unicode2GBK_def nth_append)
  with assms show ?thesis by (auto simp: gbk_page_def page_of_def intro!: image_eqI [of _ _ i])
qed

lemma page_lookup: "(u, g) \<in> set gbk_page \<Longrightarrow> map_of gbk_page u = Some g"
  using gbk.page_distinct by (simp add: gbk_page_def)

text \<open>The Euro sign is the exception: its code is the single byte 0x80, which is written as two bytes, the first of them a
  terminator.\<close>

lemma euro_first_byte_zero: "ucs2_to_gbk_one 0x20AC [0xFF, 0xFF, 0xFF] 0 = Some (2, [0, 0x80, 0xFF])"
proof -
  have "(0x20AC, 0x80) \<in> set gbk_page" using gbk_page_entry [of 173] by (simp add: Unicode2GBK_0_def)
  then have "map_of gbk_page 0x20AC = Some 0x80" by (rule page_lookup)
  then show ?thesis by (simp add: ucs2_to_gbk_one_eq gbk_bytes_def or_zero_def hi8_def lo8_def buf_write_def)
qed

lemma utf8_enc_length: "length (utf8_enc us) \<le> 3 * length us"
proof (induction us)
  case (Cons u us)
  have "length (utf8_bytes u) \<le> 3" by (simp add: utf8_bytes_def Let_def)
  with Cons show ?case by simp
qed simp

theorem gbk_utf8_gbk_roundtrip_witness:
  "\<exists>s d o1. gbk_2_utf8 [0x41, 0xA1, 0xE8, 0] (replicate 8 0xFF) 8 = Some (1, s @ 0 # d) \<and> 0 \<notin> set s \<and>
    utf8_to_gbk [0, 0] (s @ 0 # d) (length s) (replicate 8 0xFF) = Some (3, s @ 0 # d, [0x41, 0xA1, 0xE8] @ 0 # o1)"
proof -
  have "(0xA4, 0xA1E8) \<in> set gbk_page" using gbk_page_entry [of 0] by (simp add: Unicode2GBK_0_def)
  then have "\<forall>g \<in> set [0x41, 0xA1E8]. gbk_code g" by (force simp: gbk_code_def lo8_def)
  moreover have t: "gbk_text [0x41, 0xA1E8] = [0x41, 0xA1, 0xE8]" by (simp add: code_bytes_def hi8_def lo8_def)
  moreover have "length (utf8_enc (map unit_of_code [0x41, 0xA1E8])) \<le> 6"
    using utf8_enc_length [of "map unit_of_code [0x41, 0xA1E8]"] by simp
  ultimately show ?thesis
    using gbk_utf8_gbk_roundtrip [of "[0x41, 0xA1E8]" 8 "replicate 8 0xFF" "[0, 0]" "replicate 8 0xFF" "[]", unfolded t]
    by (simp add: numeral_3_eq_3)
qed

text \<open>\<open>utf8_to_gbk_string\<close> on a UTF-8 text: up to 127 characters the static array of 256 bytes receives the GBK text,
  followed by zeros; from 128 characters on, clearing it already writes behind the array.\<close>

theorem utf8_to_gbk_string_bound:
  assumes "\<forall>x \<in> set us. bmp_unit x" and "us \<noteq> []" and "length unicode = 2" and "length gbkstr = 256"
  shows "length us \<le> 127 \<Longrightarrow> utf8_to_gbk_string unicode (Some (utf8_enc us @ 0 # r)) gbkstr =
      Some (Some (utf8_enc us @ 0 # r, gbk_units us @ replicate (256 - length (gbk_units us)) 0))"
    and "127 < length us \<Longrightarrow> utf8_to_gbk_string unicode (Some (utf8_enc us @ 0 # r)) gbkstr = None"
proof -
  have "utf8_bytes x \<noteq> []" for x by (simp add: utf8_bytes_def Let_def)
  then have "utf8_enc us \<noteq> []" using assms(2) by (cases us) auto
  moreover note c_strlen_text [OF utf8_enc_nonzero [OF assms(1)], of r]
  moreover have "buf_fill gbkstr 0 0 256 = Some (replicate 256 0)" using assms(4) by (simp add: buf_fill_all)
  ultimately have e: "utf8_to_gbk_string unicode (Some (utf8_enc us @ 0 # r)) gbkstr =
      do { (n, u, b) \<leftarrow> utf8_to_gbk unicode (utf8_enc us @ 0 # r) (length (utf8_enc us)) (replicate 256 0); Some (Some (u, b)) }"
    by (simp add: utf8_to_gbk_string_def)
  show "utf8_to_gbk_string unicode (Some (utf8_enc us @ 0 # r)) gbkstr =
      Some (Some (utf8_enc us @ 0 # r, gbk_units us @ replicate (256 - length (gbk_units us)) 0))" if "length us \<le> 127"
    unfolding e using utf8_to_gbk_enc [OF assms(1,3), of "replicate 256 0"] that gbk_units_length [of us]
    by (simp add: replicate_add [symmetric])
  show "utf8_to_gbk_string unicode (Some (utf8_enc us @ 0 # r)) gbkstr = None" if "127 < length us"
    unfolding e using that by (simp add: utf8_to_gbk_def strlen_utf8_def strlen_utf8_enc [OF assms(1)] buf_fill_def buf_write_def)
qed

theorem utf8_to_gbk_string_bound_witness:
  "utf8_to_gbk_string [0, 0] (Some (utf8_enc (replicate 127 0xA4) @ [0])) (replicate 256 0xFF) =
     Some (Some (utf8_enc (replicate 127 0xA4) @ [0], gbk_units (replicate 127 0xA4) @ replicate (256 - length (gbk_units (replicate 127 0xA4))) 0)) \<and>
   utf8_to_gbk_string [0, 0] (Some (utf8_enc (replicate 128 0xA4) @ [0])) (replicate 256 0xFF) = None"
  using utf8_to_gbk_string_bound(1) [of "replicate 127 0xA4" "[0, 0]" "replicate 256 0xFF" "[]"]
    utf8_to_gbk_string_bound(2) [of "replicate 128 0xA4" "[0, 0]" "replicate 256 0xFF" "[]"] by (simp add: bmp_unit_def)

end
