(* ===== verification/Collector.thy ===== *)
theory Collector
  imports Machine
begin

text \<open>
  Receivers that collect a block of announced size from the pieces in which it arrives: the
  contract that the firmware receiver of src/hello_world.c and the download loop of
  src/nwy_test_cli share. A receiver has a size it waits for and the bytes it has; a piece is
  appended and cut off at the size; when the size is reached the receiver is complete.
\<close>

locale collector =
  fixes feed :: "'s \<Rightarrow> buf \<Rightarrow> 's option"
    and want :: "'s \<Rightarrow> nat"
    and got :: "'s \<Rightarrow> buf"
    and ready :: "'s \<Rightarrow> bool"
  assumes feed_piece: "ready s \<Longrightarrow> \<exists>t. feed s p = Some t \<and> got t = take (want s) (got s @ p) \<and> want t = want s \<and>
      (length (got s @ p) < want s \<longrightarrow> ready t)"
    and ready_open: "ready s \<Longrightarrow> length (got s) < want s"
begin

text \<open>While the size is not reached, the pieces are collected in order.\<close>

lemma feed_short:
  "ready s \<Longrightarrow> length (got s @ concat ps) < want s \<Longrightarrow>
    \<exists>t. run_machine feed s ps = Some t \<and> ready t \<and> got t = got s @ concat ps \<and> want t = want s"
proof (induction ps arbitrary: s)
  case Nil
  then show ?case by simp
next
  case (Cons p ps)
  then obtain u where u: "feed s p = Some u" "ready u" "got u = got s @ p" "want u = want s"
    using feed_piece [of s p] by auto
  with Cons.IH [of u] Cons.prems show ?case by auto
qed

text \<open>The first piece with which the size is reached completes the block: it holds the first bytes of the stream.\<close>

lemma feed_complete:
  assumes "ready s" and "length (got s @ concat ps) < want s" and "want s \<le> length (got s @ concat ps @ p)"
  shows "\<exists>u t. run_machine feed s ps = Some u \<and> ready u \<and> feed u p = Some t \<and> got t = take (want s) (got s @ concat ps @ p)"
  using feed_short [OF assms(1,2)] feed_piece [of _ p] by fastforce

end

text \<open>A stream that is long enough has a first piece that reaches the size.\<close>

lemma first_reaching:
  assumes "n \<le> length (concat ps)" and "0 < n"
  shows "\<exists>qs p rs. ps = qs @ p # rs \<and> length (concat qs) < n \<and> n \<le> length (concat qs @ p)"
  using assms(1)
proof (induction ps rule: rev_induct)
  case Nil
  then show ?case using assms(2) by simp
next
  case (snoc p ps)
  show ?case
  proof (cases "n \<le> length (concat ps)")
    case True
    with snoc.IH show ?thesis by (metis append.assoc append_Cons)
  next
    case False
    with snoc.prems show ?thesis by (intro exI [of _ ps] exI [of _ p] exI [of _ "[]"]) simp
  qed
qed

end
