(* ===== verification/Fota.thy ===== *)
theory Fota
  imports Collector Console Storage
begin

text \<open>
  Firmware updates over the console, src/hello_world.c: the receive context \<open>dataRecvContext_t\<close>, the two update modes of
  the USB callback (\<open>nwy_ext_app_info_proc\<close>, \<open>nwy_ext_appimg_info_proc\<close>), the callback with its dispatch on
  \<open>nwy_update_flag\<close>, and the two update sessions. \<open>nwy_fota_test\<close> hands the received block to the module;
  \<open>nwy_appimg_fota_test\<close> stores it in a file and feeds the file to the module block by block. A session waits for a
  signal in the middle: it is modelled by what it does before the wait and what it does with the event it receives.

  The update calls of the module and the file system are arguments. Sizes and positions stay below \<open>2 ^ 31\<close> (the size
  is a positive \<open>int\<close>, and a position never passes it before an array is left), so they are natural numbers.
\<close>

section \<open>Receiving a block\<close>

record dataRecvContext =
  rc_size :: nat
  rc_pos :: nat
  rc_data :: buf

datatype app_sig = Input_Recv_Msg | Fota_Data_Rec_End | Appimg_Fota_Data_Rec_End

record updater =
  con :: console
  nwy_update_flag :: nat
  g_recv :: "dataRecvContext option"
  end_sigs :: "app_sig list"

text \<open>\<open>None\<close>: the callback follows a null pointer or leaves the allocated block.\<close>

definition recv_end :: "app_sig \<Rightarrow> updater \<Rightarrow> updater" where
  "recv_end e s = s\<lparr>end_sigs := end_sigs s @ [e], nwy_update_flag := 0\<rparr>"

definition recv_check :: "app_sig \<Rightarrow> dataRecvContext \<Rightarrow> updater \<Rightarrow> updater" where
  "recv_check e g s =
     (let s1 = (if rc_pos g = rc_size g then recv_end e s else s)
      in if rc_size g < rc_pos g then recv_end e s1 else s1)"

definition nwy_ext_app_info_proc :: "buf \<Rightarrow> updater \<Rightarrow> updater option" where
  "nwy_ext_app_info_proc data s =
     do { g \<leftarrow> g_recv s;
          let room = rc_size g - rc_pos g;
          let n = (if room \<le> length data then room else length data);
          d \<leftarrow> buf_write (rc_data g) (rc_pos g) (take n data);
          let g1 = g\<lparr>rc_data := d, rc_pos := rc_pos g + n\<rparr>;
          Some (recv_check Fota_Data_Rec_End g1 (s\<lparr>g_recv := Some g1\<rparr>)) }"

definition nwy_ext_appimg_info_proc :: "buf \<Rightarrow> updater \<Rightarrow> updater option" where
  "nwy_ext_appimg_info_proc data s =
     do { g \<leftarrow> g_recv s;
          d \<leftarrow> buf_write (rc_data g) (rc_pos g) data;
          let g1 = g\<lparr>rc_data := d, rc_pos := rc_pos g + length data\<rparr>;
          Some (recv_check Appimg_Fota_Data_Rec_End g1 (s\<lparr>g_recv := Some g1\<rparr>)) }"

definition nwy_ext_sio_data_cb :: "buf \<Rightarrow> updater \<Rightarrow> updater option" where
  "nwy_ext_sio_data_cb data s =
     (if nwy_update_flag s = 0 then do { c \<leftarrow> sio_data_line data (con s); Some (s\<lparr>con := c\<rparr>) }
      else if nwy_update_flag s = 1 then nwy_ext_app_info_proc data s
      else if nwy_update_flag s = 2 then nwy_ext_appimg_info_proc data s
      else Some s)"

section \<open>The update of the base firmware\<close>

text \<open>The first part of \<open>nwy_fota_test\<close>, up to the wait; \<open>mem\<close> is the block \<open>malloc\<close> returns for a size. The second
  part handles one event; \<open>wsize\<close> is the answer of \<open>nwy_fota_update\<close>. The inner \<open>option\<close> is \<open>None\<close> when the thread keeps
  waiting.\<close>

datatype fota_call = Fota_Update buf nat | Version_Update bool

definition start_recv :: "(nat \<Rightarrow> buf option) \<Rightarrow> nat \<Rightarrow> updater \<Rightarrow> updater" where
  "start_recv mem flag s =
     (let rtn = c_atoi (c_str (sio_recv_buff (con s)))
      in if rtn \<le> 0 then s
         else case mem (nat rtn) of
           None \<Rightarrow> s\<lparr>g_recv := None\<rparr>
         | Some b \<Rightarrow> s\<lparr>g_recv := Some \<lparr>rc_size = nat rtn, rc_pos = 0, rc_data = b\<rparr>, nwy_update_flag := flag\<rparr>)"

definition nwy_fota_test :: "(nat \<Rightarrow> buf option) \<Rightarrow> updater \<Rightarrow> updater" where
  "nwy_fota_test mem s = start_recv mem 1 s"

definition fota_test_event :: "nat \<Rightarrow> app_sig \<Rightarrow> updater \<Rightarrow> fota_call list option option" where
  "fota_test_event wsize e s =
     (if e = Fota_Data_Rec_End
      then do { g \<leftarrow> g_recv s;
                b \<leftarrow> buf_read (rc_data g) 0 (rc_size g);
                Some (Some (Fota_Update b (rc_size g) # (if wsize \<noteq> rc_size g then [] else [Version_Update True]))) }
      else Some None)"

section \<open>Receiving collects the stream\<close>

definition recv_ready :: "nat \<Rightarrow> updater \<Rightarrow> bool" where
  "recv_ready flag s =
     (nwy_update_flag s = flag \<and>
      (case g_recv s of None \<Rightarrow> False | Some g \<Rightarrow> rc_pos g < rc_size g \<and> length (rc_data g) = rc_size g))"

definition recv_want :: "updater \<Rightarrow> nat" where
  "recv_want s = (case g_recv s of None \<Rightarrow> 0 | Some g \<Rightarrow> rc_size g)"

definition recv_got :: "updater \<Rightarrow> buf" where
  "recv_got s = (case g_recv s of None \<Rightarrow> [] | Some g \<Rightarrow> take (rc_pos g) (rc_data g))"

lemma app_info_step:
  assumes "recv_ready 1 s" and "g_recv s = Some g"
  shows "nwy_ext_sio_data_cb p s =
    (let n = min (rc_size g - rc_pos g) (length p);
         g1 = g\<lparr>rc_data := take (rc_pos g) (rc_data g) @ take n p @ drop (rc_pos g + n) (rc_data g), rc_pos := rc_pos g + n\<rparr>;
         t = s\<lparr>g_recv := Some g1\<rparr>
     in Some (if rc_size g \<le> rc_pos g + length p then recv_end Fota_Data_Rec_End t else t))"
proof -
  have "rc_pos g < rc_size g" "length (rc_data g) = rc_size g" "nwy_update_flag s = 1"
    using assms by (simp_all add: recv_ready_def)
  then show ?thesis using assms(2)
    by (auto simp: nwy_ext_sio_data_cb_def nwy_ext_app_info_proc_def recv_check_def buf_write_def Let_def min_def)
qed

interpretation fw: collector "\<lambda>s p. nwy_ext_sio_data_cb p s" recv_want recv_got "recv_ready 1"
proof
  fix s p assume r: "recv_ready 1 s"
  then obtain g where g: "g_recv s = Some g" by (auto simp: recv_ready_def split: option.splits)
  have l: "rc_pos g < rc_size g" "length (rc_data g) = rc_size g" using r g by (simp_all add: recv_ready_def)
  show "\<exists>t. nwy_ext_sio_data_cb p s = Some t \<and> recv_got t = take (recv_want s) (recv_got s @ p) \<and> recv_want t = recv_want s \<and>
      (length (recv_got s @ p) < recv_want s \<longrightarrow> recv_ready 1 t)"
    using r g l by (auto simp: app_info_step [OF r g] Let_def recv_got_def recv_want_def recv_ready_def recv_end_def min_def)
next
  fix s assume "recv_ready 1 s"
  then show "length (recv_got s) < recv_want s" by (auto simp: recv_ready_def recv_got_def recv_want_def split: option.splits)
qed

lemma start_recv_ready:
  assumes "c_atoi (c_str (sio_recv_buff (con s))) = int n" and "0 < n" and "mem n = Some b" and "length b = n"
  shows "recv_ready flag (start_recv mem flag s) \<and> recv_want (start_recv mem flag s) = n \<and> recv_got (start_recv mem flag s) = [] \<and>
    end_sigs (start_recv mem flag s) = end_sigs s"
  using assms by (simp add: start_recv_def recv_ready_def recv_want_def recv_got_def)

text \<open>The signal at the end, and only then.\<close>

lemma feed_sigs:
  assumes "recv_ready 1 s" and "nwy_ext_sio_data_cb p s = Some t"
  shows "end_sigs t = end_sigs s @ (if length (recv_got s @ p) < recv_want s then [] else [Fota_Data_Rec_End])"
    and "\<not> length (recv_got s @ p) < recv_want s \<Longrightarrow> nwy_update_flag t = 0 \<and>
      (\<exists>g. g_recv t = Some g \<and> rc_data g = recv_got t \<and> rc_size g = recv_want s \<and> length (rc_data g) = rc_size g)"
proof -
  obtain g where g: "g_recv s = Some g" using assms(1) by (auto simp: recv_ready_def split: option.splits)
  have l: "rc_pos g < rc_size g" "length (rc_data g) = rc_size g" using assms(1) g by (simp_all add: recv_ready_def)
  note step = app_info_step [OF assms(1) g, of p]
  show "end_sigs t = end_sigs s @ (if length (recv_got s @ p) < recv_want s then [] else [Fota_Data_Rec_End])"
    using assms(2) l g by (auto simp: step Let_def recv_got_def recv_want_def recv_end_def split: if_splits)
  show "\<not> length (recv_got s @ p) < recv_want s \<Longrightarrow> nwy_update_flag t = 0 \<and>
      (\<exists>g. g_recv t = Some g \<and> rc_data g = recv_got t \<and> rc_size g = recv_want s \<and> length (rc_data g) = rc_size g)"
    using assms(2) l g by (auto simp: step Let_def recv_got_def recv_want_def recv_end_def split: if_splits)
qed

lemma feeds_sigs:
  assumes "recv_ready 1 s" and "length (recv_got s @ concat ps) < recv_want s"
    and "run_machine (\<lambda>s p. nwy_ext_sio_data_cb p s) s ps = Some t"
  shows "end_sigs t = end_sigs s"
  using assms
proof (induction ps arbitrary: s)
  case Nil
  then show ?case by simp
next
  case (Cons p ps)
  then obtain u where u: "nwy_ext_sio_data_cb p s = Some u" "run_machine (\<lambda>s p. nwy_ext_sio_data_cb p s) u ps = Some t"
    by (auto simp: Option.bind_eq_Some_conv)
  have short: "length (recv_got s @ p) < recv_want s" using Cons.prems(2) by simp
  with fw.feed_piece [OF Cons.prems(1), of p] u(1)
  have "recv_ready 1 u" "recv_got u = recv_got s @ p" "recv_want u = recv_want s" by auto
  with Cons.IH [of u] Cons.prems u short feed_sigs(1) [OF Cons.prems(1) u(1)] show ?case by auto
qed

text \<open>C11: a firmware update over the console. However the firmware is cut into pieces, the session announced with size \<open>n\<close>
  ends with the piece that reaches the size, sends its signal once, returns the console to line mode, and the module is
  handed exactly the first \<open>n\<close> bytes of the stream; when the module has taken all of them the version is switched.\<close>

theorem fota_session:
  assumes "c_atoi (c_str (sio_recv_buff (con s))) = int n" and "0 < n" and "mem n = Some b" and "length b = n"
    and "n \<le> length (concat ps)"
  shows "\<exists>qs rs t. ps = qs @ rs \<and> run_machine (\<lambda>s p. nwy_ext_sio_data_cb p s) (nwy_fota_test mem s) qs = Some t \<and>
    end_sigs t = end_sigs s @ [Fota_Data_Rec_End] \<and> nwy_update_flag t = 0 \<and>
    fota_test_event n Fota_Data_Rec_End t = Some (Some [Fota_Update (take n (concat ps)) n, Version_Update True])"
proof -
  let ?s = "nwy_fota_test mem s"
  have s0: "recv_ready 1 ?s" "recv_want ?s = n" "recv_got ?s = []" "end_sigs ?s = end_sigs s"
    using start_recv_ready [of s n mem b 1] assms(1-4) by (simp_all add: nwy_fota_test_def)
  obtain qs p rs where ps: "ps = qs @ p # rs" "length (concat qs) < n" "n \<le> length (concat qs @ p)"
    using first_reaching [OF assms(5,2)] by blast
  obtain u where u: "run_machine (\<lambda>s p. nwy_ext_sio_data_cb p s) ?s qs = Some u" "recv_ready 1 u" "recv_got u = concat qs" "recv_want u = n"
    using fw.feed_short [OF s0(1), of qs] s0 ps(2) by auto
  obtain t where t: "nwy_ext_sio_data_cb p u = Some t" "recv_got t = take n (concat qs @ p)"
    using fw.feed_piece [OF u(2), of p] u by auto
  have full: "\<not> length (recv_got u @ p) < recv_want u" using u ps(3) by simp
  from feed_sigs(2) [OF u(2) t(1) full] obtain g where g: "nwy_update_flag t = 0" "g_recv t = Some g" "rc_data g = recv_got t" "rc_size g = n"
      "length (rc_data g) = rc_size g" using u(4) by blast
  have "end_sigs t = end_sigs s @ [Fota_Data_Rec_End]"
    using feed_sigs(1) [OF u(2) t(1)] full feeds_sigs [OF s0(1) _ u(1)] s0 ps(2) by simp
  moreover have "take n (concat ps) = recv_got t" using ps t(2) by simp
  ultimately show ?thesis using g ps(1) u(1) t(1)
    by (intro exI [of _ "qs @ [p]"] exI [of _ rs] exI [of _ t]) (simp add: run_machine_append fota_test_event_def buf_read_def)
qed

definition updater_start :: updater where
  "updater_start = \<lparr>con = console_start\<lparr>sio_recv_buff := str ''5'' @ replicate 2048 0\<rparr>, nwy_update_flag = 0, g_recv = None, end_sigs = []\<rparr>"

lemma updater_start_size: "c_atoi (c_str (sio_recv_buff (con updater_start))) = int 5"
proof -
  have "c_str (sio_recv_buff (con updater_start)) = [53]" by (simp add: updater_start_def str_def c_str_def)
  then show ?thesis by (simp add: c_atoi_def is_space_def is_digit_def digits_val_def int_max_def)
qed

theorem fota_session_witness:
  "\<exists>qs rs t. [[1, 2], [], [3, 4, 5, 6], [7]] = qs @ rs \<and>
    run_machine (\<lambda>s p. nwy_ext_sio_data_cb p s) (nwy_fota_test (\<lambda>n. Some (replicate n 0)) updater_start) qs = Some t \<and>
    end_sigs t = [Fota_Data_Rec_End] \<and> nwy_update_flag t = 0 \<and>
    fota_test_event 5 Fota_Data_Rec_End t = Some (Some [Fota_Update [1, 2, 3, 4, 5] 5, Version_Update True])"
  using fota_session [OF updater_start_size, of "\<lambda>n. Some (replicate n 0)" "replicate 5 0" "[[1, 2], [], [3, 4, 5, 6], [7]]"]
  by (simp add: updater_start_def)

section \<open>The update of the application image\<close>

text \<open>\<open>nwy_appimg_fota_test\<close> up to its wait is \<open>start_recv\<close> with the second update mode. After the wait, for whatever event
  ended it: if it is the end of the reception, the image replaces the file \<open>app.bin\<close>; then the file is fed to the module in
  blocks of 2048 bytes, the package is checked and the update started.\<close>

record 'w ota_api =
  ota_fs :: "'w vfs"
  nwy_sdk_fexist :: "string \<Rightarrow> 'w \<Rightarrow> bool"
  nwy_sdk_file_unlink :: "string \<Rightarrow> 'w \<Rightarrow> 'w"
  nwy_sdk_fsize_fd :: "int \<Rightarrow> 'w \<Rightarrow> int"
  nwy_sdk_fseek :: "int \<Rightarrow> nat \<Rightarrow> 'w \<Rightarrow> 'w"
  nwy_fota_dm :: "nat \<Rightarrow> buf \<Rightarrow> 'w \<Rightarrow> int \<times> 'w"
  nwy_package_checksum :: "'w \<Rightarrow> int \<times> 'w"
  nwy_fota_ua :: "'w \<Rightarrow> int \<times> 'w"

definition NWY_APPIMG_FOTA_BLOCK_SIZE :: nat where
  "NWY_APPIMG_FOTA_BLOCK_SIZE = 2048"

definition appimg_fota_start :: "(nat \<Rightarrow> buf option) \<Rightarrow> updater \<Rightarrow> updater" where
  "appimg_fota_start mem s = start_recv mem 2 s"

definition appimg_save :: "'w ota_api \<Rightarrow> app_sig \<Rightarrow> updater \<Rightarrow> 'w \<Rightarrow> (updater \<times> 'w) option" where
  "appimg_save api e s w =
     (if e = Appimg_Fota_Data_Rec_End
      then do { g \<leftarrow> g_recv s;
                let w1 = (if nwy_sdk_fexist api ''app.bin'' w then nwy_sdk_file_unlink api ''app.bin'' w else w);
                b \<leftarrow> buf_read (rc_data g) 0 (rc_size g);
                Some (s\<lparr>g_recv := None\<rparr>, file_store (ota_fs api) ''app.bin'' b w1) }
      else Some (s, w))"

text \<open>The loop over the file: \<open>True\<close> when it reached the end of the file. \<open>buff\<close> is the local array; the package holds a copy
  of its first \<open>read_len\<close> bytes.\<close>

function ota_loop :: "'w ota_api \<Rightarrow> int \<Rightarrow> int \<Rightarrow> buf \<Rightarrow> nat \<Rightarrow> 'w \<Rightarrow> (bool \<times> 'w) option" where
  "ota_loop api fd ota_size buff offset w =
     (if ota_size \<le> 0 then Some (True, nwy_sdk_fclose (ota_fs api) fd w)
      else case nwy_sdk_fread (ota_fs api) fd (nat (min (int NWY_APPIMG_FOTA_BLOCK_SIZE) ota_size)) w of (read_len, bs, w1) \<Rightarrow>
        if read_len \<le> 0 then Some (False, nwy_sdk_fclose (ota_fs api) fd w1)
        else do { buff1 \<leftarrow> buf_write buff 0 bs;
                  pkt \<leftarrow> buf_read buff1 0 (nat read_len);
                  case nwy_fota_dm api offset pkt w1 of (ret, w2) \<Rightarrow>
                    if ret < 0 then Some (False, nwy_sdk_fclose (ota_fs api) fd w2)
                    else ota_loop api fd (ota_size - read_len) buff1 (offset + nat read_len) w2 })"
  by pat_completeness auto
termination by (relation "measure (\<lambda>(api, fd, ota_size, buff, offset, w). nat ota_size)") auto

declare ota_loop.simps [simp del]

definition appimg_flash :: "'w ota_api \<Rightarrow> bool \<Rightarrow> 'w \<Rightarrow> 'w option" where
  "appimg_flash api mem w =
     (case nwy_sdk_fopen (ota_fs api) ''app.bin'' Rdonly w of (fd, w1) \<Rightarrow>
        if fd < 0 then Some w1
        else if \<not> mem then Some w1
        else do { (ok, w2) \<leftarrow> ota_loop api fd (nwy_sdk_fsize_fd api fd w1) (replicate NWY_APPIMG_FOTA_BLOCK_SIZE 0) 0 (nwy_sdk_fseek api fd 0 w1);
                  if \<not> ok then Some w2
                  else case nwy_package_checksum api w2 of (ret, w3) \<Rightarrow>
                    if ret < 0 then Some w3 else Some (snd (nwy_fota_ua api w3)) })"

definition nwy_appimg_fota_test :: "'w ota_api \<Rightarrow> bool \<Rightarrow> app_sig \<Rightarrow> updater \<Rightarrow> 'w \<Rightarrow> (updater \<times> 'w) option" where
  "nwy_appimg_fota_test api mem e s w =
     do { (s1, w1) \<leftarrow> appimg_save api e s w;
          w2 \<leftarrow> appimg_flash api mem w1;
          Some (s1, w2) }"

text \<open>The second update mode does not cut a piece off at the announced size.\<close>

lemma appimg_info_step:
  assumes "recv_ready 2 s" and "g_recv s = Some g"
  shows "nwy_ext_sio_data_cb p s =
    (if rc_size g < rc_pos g + length p then None
     else let g1 = g\<lparr>rc_data := take (rc_pos g) (rc_data g) @ p @ drop (rc_pos g + length p) (rc_data g), rc_pos := rc_pos g + length p\<rparr>;
              t = s\<lparr>g_recv := Some g1\<rparr>
          in Some (if rc_size g = rc_pos g + length p then recv_end Appimg_Fota_Data_Rec_End t else t))"
proof -
  have "rc_pos g < rc_size g" "length (rc_data g) = rc_size g" "nwy_update_flag s = 2"
    using assms by (simp_all add: recv_ready_def)
  then show ?thesis using assms(2)
    by (auto simp: nwy_ext_sio_data_cb_def nwy_ext_appimg_info_proc_def recv_check_def buf_write_def Let_def)
qed

lemma appimg_feed:
  assumes "recv_ready 2 s" and "length (recv_got s @ p) \<le> recv_want s"
  shows "\<exists>t. nwy_ext_sio_data_cb p s = Some t \<and> recv_got t = recv_got s @ p \<and> recv_want t = recv_want s \<and>
    (length (recv_got s @ p) < recv_want s \<longrightarrow> recv_ready 2 t \<and> end_sigs t = end_sigs s) \<and>
    (length (recv_got s @ p) = recv_want s \<longrightarrow> nwy_update_flag t = 0 \<and> end_sigs t = end_sigs s @ [Appimg_Fota_Data_Rec_End])"
proof -
  obtain g where g: "g_recv s = Some g" using assms(1) by (auto simp: recv_ready_def split: option.splits)
  have l: "rc_pos g < rc_size g" "length (rc_data g) = rc_size g" using assms(1) g by (simp_all add: recv_ready_def)
  then show ?thesis using assms g
    by (auto simp: appimg_info_step [OF assms(1) g] Let_def recv_got_def recv_want_def recv_ready_def recv_end_def)
qed

lemma appimg_feeds:
  "recv_ready 2 s \<Longrightarrow> length (recv_got s @ concat ps) < recv_want s \<Longrightarrow>
    \<exists>t. run_machine (\<lambda>s p. nwy_ext_sio_data_cb p s) s ps = Some t \<and> recv_ready 2 t \<and> recv_got t = recv_got s @ concat ps \<and>
      recv_want t = recv_want s \<and> end_sigs t = end_sigs s"
proof (induction ps arbitrary: s)
  case Nil
  then show ?case by simp
next
  case (Cons p ps)
  then obtain u where "nwy_ext_sio_data_cb p s = Some u" "recv_ready 2 u" "recv_got u = recv_got s @ p" "recv_want u = recv_want s" "end_sigs u = end_sigs s"
    using appimg_feed [of s p] by auto
  with Cons.IH [of u] Cons.prems show ?case by auto
qed

text \<open>the reception of an application image announced with size \<open>n\<close> stays inside the allocated block exactly as long as
  the pieces do not pass the size: the piece \<open>p\<close> that passes it is written behind the block. Only when some piece ends
  exactly at the size is the image complete, with one signal.\<close>

theorem appimg_receive_overrun_iff:
  assumes "c_atoi (c_str (sio_recv_buff (con s))) = int n" and "0 < n" and "mem n = Some b" and "length b = n"
    and "length (concat ps) < n"
  shows "\<exists>u. run_machine (\<lambda>s p. nwy_ext_sio_data_cb p s) (appimg_fota_start mem s) ps = Some u \<and> recv_got u = concat ps \<and>
    (nwy_ext_sio_data_cb p u = None \<longleftrightarrow> n < length (concat ps @ p)) \<and>
    (length (concat ps @ p) = n \<longrightarrow> (\<exists>t. nwy_ext_sio_data_cb p u = Some t \<and> recv_got t = concat ps @ p \<and> nwy_update_flag t = 0 \<and>
      end_sigs t = end_sigs s @ [Appimg_Fota_Data_Rec_End]))"
proof -
  let ?s = "appimg_fota_start mem s"
  have s0: "recv_ready 2 ?s" "recv_want ?s = n" "recv_got ?s = []" "end_sigs ?s = end_sigs s"
    using start_recv_ready [of s n mem b 2] assms(1-4) by (simp_all add: appimg_fota_start_def)
  then obtain u where u: "run_machine (\<lambda>s p. nwy_ext_sio_data_cb p s) ?s ps = Some u" "recv_ready 2 u" "recv_got u = concat ps" "recv_want u = n"
      "end_sigs u = end_sigs s"
    using appimg_feeds [OF s0(1), of ps] assms(5) by auto
  obtain g where g: "g_recv u = Some g" using u(2) by (auto simp: recv_ready_def split: option.splits)
  have "nwy_ext_sio_data_cb p u = None \<longleftrightarrow> n < length (concat ps @ p)"
  proof
    assume "n < length (concat ps @ p)"
    moreover have "length (concat ps) = rc_pos g" "rc_size g = n"
      using u(2,4) g by (auto simp: u(3) [symmetric] recv_ready_def recv_got_def recv_want_def)
    ultimately show "nwy_ext_sio_data_cb p u = None" by (simp add: appimg_info_step [OF u(2) g])
  next
    assume "nwy_ext_sio_data_cb p u = None"
    then show "n < length (concat ps @ p)" using appimg_feed [OF u(2), of p] u by fastforce
  qed
  with u appimg_feed [OF u(2), of p] show ?thesis by auto
qed

theorem appimg_receive_overrun_iff_witness:
  "\<exists>u. run_machine (\<lambda>s p. nwy_ext_sio_data_cb p s) (appimg_fota_start (\<lambda>n. Some (replicate n 0)) updater_start) [[1, 2], [3]] = Some u \<and>
    nwy_ext_sio_data_cb [4, 5, 6] u = None \<and> recv_got u = [1, 2, 3]"
  using appimg_receive_overrun_iff [OF updater_start_size, of "\<lambda>n. Some (replicate n 0)" "replicate 5 0" "[[1, 2], [3]]" "[4, 5, 6]"]
  by auto

section \<open>Feeding the file to the module\<close>

text \<open>What the code relies on: the file system keeps files (\<open>vfs_spec\<close>); an opened file is read from its start, \<open>unread\<close> are
  the bytes still to come; a read delivers at least one of them and at most the number asked for; \<open>packets\<close> are the packages
  the module has accepted, which file operations do not change.\<close>

definition ota_spec :: "'w ota_api \<Rightarrow> ('w \<Rightarrow> string \<Rightarrow> buf) \<Rightarrow> (int \<Rightarrow> 'w \<Rightarrow> buf) \<Rightarrow> ('w \<Rightarrow> (nat \<times> buf) list) \<Rightarrow> bool" where
  "ota_spec api files unread packets =
     (vfs_spec (ota_fs api) files \<and>
      (\<forall>name w. case nwy_sdk_fopen (ota_fs api) name Rdonly w of (fd, w1) \<Rightarrow> 0 \<le> fd \<and>
         nwy_sdk_fsize_fd api fd w1 = int (length (files w name)) \<and>
         unread fd (nwy_sdk_fseek api fd 0 w1) = files w name \<and> packets (nwy_sdk_fseek api fd 0 w1) = packets w) \<and>
      (\<forall>fd n w. 0 < n \<longrightarrow> unread fd w \<noteq> [] \<longrightarrow> (\<exists>k w1. 0 < k \<and> k \<le> n \<and> k \<le> length (unread fd w) \<and>
         nwy_sdk_fread (ota_fs api) fd n w = (int k, take k (unread fd w), w1) \<and>
         unread fd w1 = drop k (unread fd w) \<and> packets w1 = packets w)) \<and>
      (\<forall>offset d fd w. case nwy_fota_dm api offset d w of (ret, w1) \<Rightarrow> 0 \<le> ret \<longrightarrow>
         packets w1 = packets w @ [(offset, d)] \<and> unread fd w1 = unread fd w) \<and>
      (\<forall>name bs w. packets (file_store (ota_fs api) name bs w) = packets w \<and> packets (nwy_sdk_file_unlink api name w) = packets w) \<and>
      (\<forall>fd w. packets (nwy_sdk_fclose (ota_fs api) fd w) = packets w) \<and>
      (\<forall>w. packets (snd (nwy_package_checksum api w)) = packets w))"

lemma ota_specD:
  assumes "ota_spec api files unread packets"
  shows ota_vfs: "vfs_spec (ota_fs api) files"
    and ota_open: "nwy_sdk_fopen (ota_fs api) name Rdonly w = (fd, w1) \<Longrightarrow> 0 \<le> fd \<and>
      nwy_sdk_fsize_fd api fd w1 = int (length (files w name)) \<and>
      unread fd (nwy_sdk_fseek api fd 0 w1) = files w name \<and> packets (nwy_sdk_fseek api fd 0 w1) = packets w"
    and ota_read: "0 < n \<Longrightarrow> unread fd w \<noteq> [] \<Longrightarrow> \<exists>k w1. 0 < k \<and> k \<le> n \<and> k \<le> length (unread fd w) \<and>
      nwy_sdk_fread (ota_fs api) fd n w = (int k, take k (unread fd w), w1) \<and>
      unread fd w1 = drop k (unread fd w) \<and> packets w1 = packets w"
    and ota_dm: "nwy_fota_dm api offset d w = (ret, w1) \<Longrightarrow> 0 \<le> ret \<Longrightarrow>
      packets w1 = packets w @ [(offset, d)] \<and> unread fd w1 = unread fd w"
    and ota_store: "packets (file_store (ota_fs api) name bs w) = packets w"
    and ota_unlink: "packets (nwy_sdk_file_unlink api name w) = packets w"
    and ota_close: "packets (nwy_sdk_fclose (ota_fs api) fd w) = packets w"
    and ota_checksum: "packets (snd (nwy_package_checksum api w)) = packets w"
proof -
  note h = assms [unfolded ota_spec_def]
  note t2 = h [THEN conjunct2] and t3 = h [THEN conjunct2, THEN conjunct2]
  note t4 = t3 [THEN conjunct2] and t5 = t3 [THEN conjunct2, THEN conjunct2]
  note t6 = t5 [THEN conjunct2]
  show "vfs_spec (ota_fs api) files" by (rule h [THEN conjunct1])
  show "0 \<le> fd \<and> nwy_sdk_fsize_fd api fd w1 = int (length (files w name)) \<and>
      unread fd (nwy_sdk_fseek api fd 0 w1) = files w name \<and> packets (nwy_sdk_fseek api fd 0 w1) = packets w"
    if "nwy_sdk_fopen (ota_fs api) name Rdonly w = (fd, w1)"
    using t2 [THEN conjunct1, THEN spec, of name, THEN spec, of w] that by simp
  show "\<exists>k w1. 0 < k \<and> k \<le> n \<and> k \<le> length (unread fd w) \<and> nwy_sdk_fread (ota_fs api) fd n w = (int k, take k (unread fd w), w1) \<and>
      unread fd w1 = drop k (unread fd w) \<and> packets w1 = packets w" if "0 < n" "unread fd w \<noteq> []"
    using t3 [THEN conjunct1, rule_format, OF that] .
  show "packets w1 = packets w @ [(offset, d)] \<and> unread fd w1 = unread fd w" if "nwy_fota_dm api offset d w = (ret, w1)" "0 \<le> ret"
    using t4 [THEN conjunct1, THEN spec, of offset, THEN spec, of d, THEN spec, of fd, THEN spec, of w] that by simp
  show "packets (file_store (ota_fs api) name bs w) = packets w" "packets (nwy_sdk_file_unlink api name w) = packets w"
    using t5 [THEN conjunct1, THEN spec, of name, THEN spec, of bs, THEN spec, of w] by simp_all
  show "packets (nwy_sdk_fclose (ota_fs api) fd w) = packets w" using t6 [THEN conjunct1] by simp
  show "packets (snd (nwy_package_checksum api w)) = packets w" using t6 [THEN conjunct2] by simp
qed

fun contiguous :: "nat \<Rightarrow> (nat \<times> buf) list \<Rightarrow> bool" where
  "contiguous k [] = True"
| "contiguous k ((offset, d) # ps) = (offset = k \<and> 0 < length d \<and> length d \<le> NWY_APPIMG_FOTA_BLOCK_SIZE \<and> contiguous (k + length d) ps)"

lemma ota_loop_packets:
  assumes "ota_spec api files unread packets" and "\<forall>offset d w. 0 \<le> fst (nwy_fota_dm api offset d w)"
    and "length buff = NWY_APPIMG_FOTA_BLOCK_SIZE" and "unread fd w = r"
  shows "\<exists>w' ps. ota_loop api fd (int (length r)) buff offset w = Some (True, w') \<and> packets w' = packets w @ ps \<and>
    concat (map snd ps) = r \<and> contiguous offset ps"
  using assms(3,4)
proof (induction "length r" arbitrary: r buff offset w rule: less_induct)
  case less
  show ?case
  proof (cases "r = []")
    case True
    then show ?thesis using assms(1) by (subst ota_loop.simps) (auto simp: ota_close [OF assms(1)] intro!: exI [of _ "[]"])
  next
    case False
    let ?n = "nat (min (int NWY_APPIMG_FOTA_BLOCK_SIZE) (int (length r)))"
    have n: "0 < ?n" "?n \<le> NWY_APPIMG_FOTA_BLOCK_SIZE" using False by (auto simp: NWY_APPIMG_FOTA_BLOCK_SIZE_def)
    obtain k w1 where k: "0 < k" "k \<le> ?n" "k \<le> length r" "nwy_sdk_fread (ota_fs api) fd ?n w = (int k, take k r, w1)"
        "unread fd w1 = drop k r" "packets w1 = packets w"
      using ota_read [OF assms(1) n(1), of fd w] False less.prems(2) by blast
    let ?b = "take k r @ drop k buff"
    obtain ret w2 where dm: "nwy_fota_dm api offset (take k r) w1 = (ret, w2)" by fastforce
    have ret: "0 \<le> ret" using assms(2) dm by (metis fst_conv)
    have dm2: "packets w2 = packets w1 @ [(offset, take k r)]" "unread fd w2 = drop k r"
      using ota_dm [OF assms(1) dm ret] k(5) by simp_all
    have step: "ota_loop api fd (int (length r)) buff offset w = ota_loop api fd (int (length (drop k r))) ?b (offset + k) w2"
      using False k n less.prems(1) dm ret by (subst ota_loop.simps) (simp add: buf_write_def buf_read_def of_nat_diff)
    have "length (drop k r) < length r" "length ?b = NWY_APPIMG_FOTA_BLOCK_SIZE" using k n less.prems(1) by auto
    from less.hyps [OF this dm2(2), of "offset + k"] obtain w' ps where
      "ota_loop api fd (int (length (drop k r))) ?b (offset + k) w2 = Some (True, w')" "packets w' = packets w2 @ ps"
      "concat (map snd ps) = drop k r" "contiguous (offset + k) ps" by blast
    then show ?thesis using step dm2(1) k n by (intro exI [of _ w'] exI [of _ "(offset, take k r) # ps"]) simp
  qed
qed

text \<open>C18: the update of the application image. When the module accepts every package and the checksum, the file \<open>app.bin\<close>
  reaches the module complete and in order: non-empty blocks of at most 2048 bytes at consecutive offsets from 0; then the
  update is started. After the end of the reception the file is the received image; but the wait ends with any event, and
  for every other event the file flashed is the one left by an earlier update, while the reception stays active.\<close>

theorem appimg_update_flashes_file:
  assumes "ota_spec api files unread packets" and "\<forall>offset d w. 0 \<le> fst (nwy_fota_dm api offset d w)"
    and "\<forall>w. 0 \<le> fst (nwy_package_checksum api w)" and "g_recv s = Some g" and "length (rc_data g) = rc_size g"
  shows "\<exists>ps w1. nwy_appimg_fota_test api True e s w =
      Some (if e = Appimg_Fota_Data_Rec_End then s\<lparr>g_recv := None\<rparr> else s, snd (nwy_fota_ua api w1)) \<and>
    packets w1 = packets w @ ps \<and> contiguous 0 ps \<and>
    concat (map snd ps) = (if e = Appimg_Fota_Data_Rec_End then rc_data g else files w ''app.bin'')"
proof -
  let ?u = "if nwy_sdk_fexist api ''app.bin'' w then nwy_sdk_file_unlink api ''app.bin'' w else w"
  define s' where "s' = (if e = Appimg_Fota_Data_Rec_End then s\<lparr>g_recv := None\<rparr> else s)"
  define v where "v = (if e = Appimg_Fota_Data_Rec_End then file_store (ota_fs api) ''app.bin'' (rc_data g) ?u else w)"
  have save: "appimg_save api e s w = Some (s', v)"
    using assms(4,5) by (simp add: appimg_save_def s'_def v_def buf_read_def)
  have v: "files v ''app.bin'' = (if e = Appimg_Fota_Data_Rec_End then rc_data g else files w ''app.bin'')" "packets v = packets w"
    using file_store_files [OF ota_vfs [OF assms(1)]] ota_store [OF assms(1)] ota_unlink [OF assms(1)] by (simp_all add: v_def)
  obtain fd w1 where o: "nwy_sdk_fopen (ota_fs api) ''app.bin'' Rdonly v = (fd, w1)" by fastforce
  note o2 = ota_open [OF assms(1) o]
  from ota_loop_packets [OF assms(1,2), of "replicate NWY_APPIMG_FOTA_BLOCK_SIZE 0" fd "nwy_sdk_fseek api fd 0 w1" "files v ''app.bin''" 0] o2
  obtain w2 ps where l: "ota_loop api fd (nwy_sdk_fsize_fd api fd w1) (replicate NWY_APPIMG_FOTA_BLOCK_SIZE 0) 0 (nwy_sdk_fseek api fd 0 w1) = Some (True, w2)"
      "packets w2 = packets v @ ps" "concat (map snd ps) = files v ''app.bin''" "contiguous 0 ps" by auto
  obtain ret w3 where c: "nwy_package_checksum api w2 = (ret, w3)" by fastforce
  have ret: "0 \<le> ret" "packets w3 = packets w2" using assms(3) ota_checksum [OF assms(1), of w2] c by (metis fst_conv, simp)
  have "appimg_flash api True v = Some (snd (nwy_fota_ua api w3))"
    using o o2 l(1) c ret(1) by (simp add: appimg_flash_def)
  then have "nwy_appimg_fota_test api True e s w = Some (s', snd (nwy_fota_ua api w3))" using save by (simp add: nwy_appimg_fota_test_def)
  then show ?thesis using l ret(2) v by (intro exI [of _ ps] exI [of _ w3]) (simp add: s'_def)
qed

text \<open>A file system and module in memory: files, the open file, the read position and the packages.\<close>

definition ram_ota :: "((string \<Rightarrow> buf) \<times> string \<times> nat \<times> (nat \<times> buf) list) ota_api" where
  "ram_ota =
    \<lparr>ota_fs =
      \<lparr>nwy_sdk_fopen = (\<lambda>name m (f, cur, k, ps). case m of Rdonly \<Rightarrow> (3, (f, name, 0, ps)) | Creat_Rdwr_Trunc \<Rightarrow> (3, (f(name := []), name, 0, ps))),
       nwy_sdk_fwrite = (\<lambda>fd bs (f, cur, k, ps). (int (length bs), (f(cur := f cur @ bs), cur, k, ps))),
       nwy_sdk_fread = (\<lambda>fd n (f, cur, k, ps). (int (min n (length (f cur) - k)), take n (drop k (f cur)), (f, cur, k + min n (length (f cur) - k), ps))),
       nwy_sdk_fclose = (\<lambda>fd w. w)\<rparr>,
     nwy_sdk_fexist = (\<lambda>name (f, r). f name \<noteq> []), nwy_sdk_file_unlink = (\<lambda>name (f, r). (f(name := []), r)),
     nwy_sdk_fsize_fd = (\<lambda>fd (f, cur, k, ps). int (length (f cur))), nwy_sdk_fseek = (\<lambda>fd n (f, cur, k, ps). (f, cur, n, ps)),
     nwy_fota_dm = (\<lambda>offset d (f, cur, k, ps). (0, (f, cur, k, ps @ [(offset, d)]))),
     nwy_package_checksum = (\<lambda>w. (0, w)), nwy_fota_ua = (\<lambda>w. (0, w))\<rparr>"

fun ram_unread :: "int \<Rightarrow> (string \<Rightarrow> buf) \<times> string \<times> nat \<times> (nat \<times> buf) list \<Rightarrow> buf" where
  "ram_unread fd (f, cur, k, ps) = drop k (f cur)"

fun ram_packets :: "(string \<Rightarrow> buf) \<times> string \<times> nat \<times> (nat \<times> buf) list \<Rightarrow> (nat \<times> buf) list" where
  "ram_packets (f, cur, k, ps) = ps"

lemma ram_ota_read:
  assumes "0 < n" and "ram_unread fd w \<noteq> []"
  shows "\<exists>k w1. 0 < k \<and> k \<le> n \<and> k \<le> length (ram_unread fd w) \<and>
    nwy_sdk_fread (ota_fs ram_ota) fd n w = (int k, take k (ram_unread fd w), w1) \<and>
    ram_unread fd w1 = drop k (ram_unread fd w) \<and> ram_packets w1 = ram_packets w"
proof -
  obtain f cur j ps where w: "w = (f, cur, j, ps)" by (cases w) auto
  let ?k = "min n (length (f cur) - j)"
  have "take n (drop j (f cur)) = take ?k (drop j (f cur))" by (simp add: min_def)
  then show ?thesis using assms w
    by (intro exI [of _ ?k] exI [of _ "(f, cur, j + ?k, ps)"]) (simp add: ram_ota_def add.commute)
qed

lemma ram_ota_vfs: "vfs_spec (ota_fs ram_ota) fst"
  by (auto simp: vfs_spec_def ram_ota_def file_store_def)

lemma ram_ota_spec: "ota_spec ram_ota fst ram_unread ram_packets"
  unfolding ota_spec_def
  by (intro conjI ram_ota_vfs allI impI; (rule ram_ota_read, assumption, assumption)?) (auto simp: ram_ota_def file_store_def)

theorem appimg_update_flashes_file_witness:
  "(\<exists>ps w1. nwy_appimg_fota_test ram_ota True Appimg_Fota_Data_Rec_End
       (updater_start\<lparr>g_recv := Some \<lparr>rc_size = 2, rc_pos = 2, rc_data = [1, 2]\<rparr>\<rparr>) (\<lambda>_. [9], [], 0, []) =
      Some (updater_start\<lparr>g_recv := None\<rparr>, snd (nwy_fota_ua ram_ota w1)) \<and> ram_packets w1 = ps \<and> concat (map snd ps) = [1, 2]) \<and>
   (\<exists>ps w1. nwy_appimg_fota_test ram_ota True Input_Recv_Msg
       (updater_start\<lparr>g_recv := Some \<lparr>rc_size = 2, rc_pos = 0, rc_data = [1, 2]\<rparr>\<rparr>) (\<lambda>_. [9], [], 0, []) =
      Some (updater_start\<lparr>g_recv := Some \<lparr>rc_size = 2, rc_pos = 0, rc_data = [1, 2]\<rparr>\<rparr>, snd (nwy_fota_ua ram_ota w1)) \<and>
      ram_packets w1 = ps \<and> concat (map snd ps) = [9])"
proof -
  have ok: "\<forall>offset d w. 0 \<le> fst (nwy_fota_dm ram_ota offset d w)" "\<forall>w. 0 \<le> fst (nwy_package_checksum ram_ota w)"
    by (auto simp: ram_ota_def)
  show ?thesis
    using appimg_update_flashes_file [OF ram_ota_spec ok, of "updater_start\<lparr>g_recv := Some \<lparr>rc_size = 2, rc_pos = 2, rc_data = [1, 2]\<rparr>\<rparr>"
          "\<lparr>rc_size = 2, rc_pos = 2, rc_data = [1, 2]\<rparr>" Appimg_Fota_Data_Rec_End "(\<lambda>_. [9], [], 0, [])"]
      appimg_update_flashes_file [OF ram_ota_spec ok, of "updater_start\<lparr>g_recv := Some \<lparr>rc_size = 2, rc_pos = 0, rc_data = [1, 2]\<rparr>\<rparr>"
          "\<lparr>rc_size = 2, rc_pos = 0, rc_data = [1, 2]\<rparr>" Input_Recv_Msg "(\<lambda>_. [9], [], 0, [])"]
    by auto
qed

end
