(* ===== verification/CliMenu.thy ===== *)
theory CliMenu
  imports CString Machine
begin

text \<open>
  The menus of the test program src/nwy_test_cli (an application image of its own): the tables and the menu stack of
  comm/nwy_test_cli_menu.c and the main loop of comm/nwy_test_cli_adpt.c. A table is an array of entries that ends with an
  entry without name; an entry leads to another table or names the function it starts. The tables are constant, so a pointer
  to a table is the table. The functions themselves talk to the module; here the start of a function is an event.

  The stack of tables is shown to refine the walk in the tree of menus by option numbers, which has no stack and no bound.
\<close>

section \<open>The tables\<close>

datatype menu_item = Item (name_str: "string option") (sub_menu: "menu_item list option") (func: "string option")

text \<open>The compile-time features that select between two versions of a table.\<close>

record cli_features =
  feat_ali :: bool
  feat_paho :: bool
  feat_nippon :: bool

definition sim_menu_arry :: "menu_item list" where
  "sim_menu_arry =
    [Item (Some ''1. Sim status'') None (Some ''nwy_test_cli_get_sim_status''),
     Item (Some ''2. Verify PIN'') None (Some ''nwy_test_cli_verify_pin''),
     Item (Some ''3. Get PIN mode'') None (Some ''nwy_test_cli_get_pin_mode''),
     Item (Some ''4. PIN disable/enable'') None (Some ''nwy_test_cli_set_pin_mode''),
     Item (Some ''5. Change PIN'') None (Some ''nwy_test_cli_change_pin''),
     Item (Some ''6. Verify PUK'') None (Some ''nwy_test_cli_verify_puk''),
     Item (Some ''7. Get IMSI'') None (Some ''nwy_test_cli_get_imsi''),
     Item (Some ''8. Get ICCID'') None (Some ''nwy_test_cli_get_iccid''),
     Item (Some ''9. Get MSISDN'') None (Some ''nwy_test_cli_get_msisdn''),
     Item (Some ''10. Set MSISDN'') None (Some ''nwy_test_cli_set_msisdn''),
     Item (Some ''11. Get SIM Slot'') None (Some ''nwy_test_cli_get_sim_slot''),
     Item (Some ''12. Set SIM Slot'') None (Some ''nwy_test_cli_set_sim_slot''),
     Item None None None]"

definition data_menu_arry :: "menu_item list" where
  "data_menu_arry =
    [Item (Some ''1. Create connection'') None (Some ''nwy_test_cli_data_create''),
     Item (Some ''2. Get profile'') None (Some ''nwy_test_cli_get_profile''),
     Item (Some ''3. Set profile'') None (Some ''nwy_test_cli_set_profile''),
     Item (Some ''4. Start connection'') None (Some ''nwy_test_cli_data_start''),
     Item (Some ''5. Get connections info'') None (Some ''nwy_test_cli_data_info''),
     Item (Some ''6. Stop connection'') None (Some ''nwy_test_cli_data_stop''),
     Item (Some ''7. Release connection'') None (Some ''nwy_test_cli_data_release''),
     Item None None None]"

definition nw_menu_arry :: "menu_item list" where
  "nw_menu_arry =
    [Item (Some ''1. Get network mode'') None (Some ''nwy_test_cli_nw_get_mode''),
     Item (Some ''2. Set network mode'') None (Some ''nwy_test_cli_nw_set_mode''),
     Item (Some ''3. Get Forbidden netwrok list'') None (Some ''nwy_test_cli_nw_get_fplmn''),
     Item (Some ''4. Manual network scan'') None (Some ''nwy_test_cli_nw_manual_scan''),
     Item (Some ''5. Set network band lock'') None (Some ''nwy_test_cli_nw_band_lock''),
     Item (Some ''6. Set network freq lock'') None (Some ''nwy_test_cli_nw_freq_lock''),
     Item (Some ''7. Get network IMS state'') None (Some ''nwy_test_cli_nw_get_ims_st''),
     Item (Some ''8. Set network IMS state'') None (Some ''nwy_test_cli_nw_set_ims_st''),
     Item (Some ''9. Get default pdn info'') None (Some ''nwy_test_cli_nw_get_def_pdn''),
     Item (Some ''10. Set default pdn info'') None (Some ''nwy_test_cli_nw_set_def_pdn''),
     Item (Some ''11. Get radio state'') None (Some ''nwy_test_cli_nw_get_radio_st''),
     Item (Some ''12. Set radio state'') None (Some ''nwy_test_cli_nw_set_radio_st''),
     Item (Some ''13. Get Radio signal'') None (Some ''nwy_test_cli_nw_get_radio_sign''),
     Item (Some ''14. Get CS reg status'') None (Some ''nwy_test_cli_nw_cs_st''),
     Item (Some ''15. Get PS reg status'') None (Some ''nwy_test_cli_nw_ps_st''),
     Item (Some ''16. Get LTE reg status'') None (Some ''nwy_test_cli_nw_lte_st''),
     Item (Some ''17. Get current operator info'') None (Some ''nwy_test_cli_nw_operator_info''),
     Item (Some ''18. Get EHPLMN info'') None (Some ''nwy_test_cli_nw_get_ehplmn''),
     Item (Some ''19. Get signal rssi'') None (Some ''nwy_test_cli_nw_get_signal_rssi''),
     Item (Some ''20. Get NETMSG info'') None (Some ''nwy_test_cli_nw_get_netmsg''),
     Item None None None]"

definition voice_menu_arry :: "menu_item list" where
  "voice_menu_arry =
    [Item (Some ''1. Call start'') None (Some ''nwy_test_cli_voice_call_start''),
     Item (Some ''2. Call end'') None (Some ''nwy_test_cli_voice_call_end''),
     Item (Some ''3. Auto answer'') None (Some ''nwy_test_cli_voice_auto_answ''),
     Item (Some ''4. Set VoLTE voice'') None (Some ''nwy_test_cli_voice_volte_set''),
     Item (Some ''5. Caller id'') None (Some ''nwy_test_cli_voice_caller_id''),
     Item (Some ''6. Call hold'') None (Some ''nwy_test_cli_voice_call_hold''),
     Item (Some ''7. Call unhold'') None (Some ''nwy_test_cli_voice_call_unhold''),
     Item None None None]"

definition sms_menu_arry :: "menu_item list" where
  "sms_menu_arry =
    [Item (Some ''1. Send SMS'') None (Some ''nwy_test_cli_sms_send''),
     Item (Some ''2. Delete SMS'') None (Some ''nwy_test_cli_sms_del''),
     Item (Some ''3. Get SCA'') None (Some ''nwy_test_cli_sms_get_sca''),
     Item (Some ''4. Set SCA'') None (Some ''nwy_test_cli_sms_set_sca''),
     Item (Some ''5. Set storage'') None (Some ''nwy_test_cli_sms_set_storage''),
     Item (Some ''6. Get storage'') None (Some ''nwy_test_cli_sms_get_storage''),
     Item (Some ''7. Set report mode'') None (Some ''nwy_test_cli_sms_set_report_md''),
     Item (Some ''8. Read SMS by index'') None (Some ''nwy_test_cli_sms_read''),
     Item (Some ''9. Send PDU SMS'') None (Some ''nwy_test_cli_sms_pdu_send''),
     Item (Some ''10. Send USSD'') None (Some ''nwy_test_cli_ussd_send''),
     Item None None None]"

definition mobile_menu_arry :: "menu_item list" where
  "mobile_menu_arry =
    [Item (Some ''1. SIM'') (Some sim_menu_arry) None,
     Item (Some ''2. Data connection'') (Some data_menu_arry) None,
     Item (Some ''3. Network'') (Some nw_menu_arry) None,
     Item (Some ''4. Voice call'') (Some voice_menu_arry) None,
     Item (Some ''5. SMS&USSD'') (Some sms_menu_arry) None,
     Item None None None]"

definition uart_menu_arry :: "menu_item list" where
  "uart_menu_arry =
    [Item (Some ''1. Init'') None (Some ''nwy_test_cli_uart_init''),
     Item (Some ''2. Set baudrate'') None (Some ''nwy_test_cli_uart_set_baud''),
     Item (Some ''3. Get baudrate'') None (Some ''nwy_test_cli_uart_get_baud''),
     Item (Some ''4. Set para'') None (Some ''nwy_test_cli_uart_set_para''),
     Item (Some ''5. Get para'') None (Some ''nwy_test_cli_uart_get_para''),
     Item (Some ''6. Set recv frame timeout'') None (Some ''nwy_test_cli_uart_set_tout''),
     Item (Some ''7. Send data'') None (Some ''nwy_test_cli_uart_send''),
     Item (Some ''8. Register recv callback'') None (Some ''nwy_test_cli_uart_reg_rx_cb''),
     Item (Some ''9. Register tx callback'') None (Some ''nwy_test_cli_uart_reg_tx_cb''),
     Item (Some ''10. Deinit'') None (Some ''nwy_test_cli_uart_deinit''),
     Item None None None]"

definition i2c_menu_arry :: "menu_item list" where
  "i2c_menu_arry =
    [Item (Some ''1. Init'') None (Some ''nwy_test_cli_i2c_init''),
     Item (Some ''2. Read(reg/mem)'') None (Some ''nwy_test_cli_i2c_read''),
     Item (Some ''3. Write(reg/mem)'') None (Some ''nwy_test_cli_i2c_write''),
     Item (Some ''4. Put raw byte'') None (Some ''nwy_test_cli_i2c_put_raw''),
     Item (Some ''5. Get raw byte'') None (Some ''nwy_test_cli_i2c_get_raw''),
     Item (Some ''6. Deinit'') None (Some ''nwy_test_cli_i2c_deinit''),
     Item None None None]"

definition spi_menu_arry :: "menu_item list" where
  "spi_menu_arry =
    [Item (Some ''1. Init'') None (Some ''nwy_test_cli_spi_init''),
     Item (Some ''2. Transfer'') None (Some ''nwy_test_cli_spi_trans''),
     Item (Some ''3. Deinit'') None (Some ''nwy_test_cli_spi_deinit''),
     Item None None None]"

definition gpio_menu_arry :: "menu_item list" where
  "gpio_menu_arry =
    [Item (Some ''1. Set value'') None (Some ''nwy_test_cli_gpio_set_val''),
     Item (Some ''2. Get value'') None (Some ''nwy_test_cli_gpio_get_val''),
     Item (Some ''3. Set direction'') None (Some ''nwy_test_cli_gpio_set_dirt''),
     Item (Some ''4. Get direction'') None (Some ''nwy_test_cli_gpio_get_dirt''),
     Item (Some ''5. Config irq'') None (Some ''nwy_test_cli_gpio_config_irq''),
     Item (Some ''6. Enable irq'') None (Some ''nwy_test_cli_gpio_enable_irq''),
     Item (Some ''7. Disable irq'') None (Some ''nwy_test_cli_gpio_disable_irq''),
     Item (Some ''8. Close'') None (Some ''nwy_test_cli_gpio_close''),
     Item None None None]"

definition pm_menu_arry :: "menu_item list" where
  "pm_menu_arry =
    [Item (Some ''1. Set power save mode'') None (Some ''nwy_test_cli_pm_save_md''),
     Item (Some ''2. Get power state'') None (Some ''nwy_test_cli_pm_get_pwr_st''),
     Item (Some ''3. Power off'') None (Some ''nwy_test_cli_pm_pwr_off''),
     Item (Some ''4. Set dtr mode'') None (Some ''nwy_test_cli_pm_set_dtr''),
     Item (Some ''5. Control powerkey'') None (Some ''nwy_test_cli_pm_pwr_key''),
     Item (Some ''6. Switch sub power'') None (Some ''nwy_test_cli_pm_switch_sub_pwr''),
     Item (Some ''7. Set sub power level'') None (Some ''nwy_test_cli_pm_set_sub_pwr''),
     Item (Some ''8. Set aotu poweroff threshold'') None (Some ''nwy_test_cli_pm_set_auto_off''),
     Item (Some ''9. Regsiter charger notice callback'') None (Some ''nwy_test_cli_pm_reg_charger_cb''),
     Item None None None]"

definition keypad_menu_arry :: "menu_item list" where
  "keypad_menu_arry =
    [Item (Some ''1. Register callback'') None (Some ''nwy_test_cli_keypad_reg_cb''),
     Item (Some ''2. Set debouce time'') None (Some ''nwy_test_cli_keypad_set_debouce''),
     Item None None None]"

definition pwm_menu_arry :: "menu_item list" where
  "pwm_menu_arry =
    [Item (Some ''1. Init'') None (Some ''nwy_test_cli_pwm_init''),
     Item (Some ''2. Start'') None (Some ''nwy_test_cli_pwm_start''),
     Item (Some ''3. Stop'') None (Some ''nwy_test_cli_pwm_stop''),
     Item (Some ''4. Deinit'') None (Some ''nwy_test_cli_pwm_deinit''),
     Item None None None]"

definition peripherals_menu_arry :: "menu_item list" where
  "peripherals_menu_arry =
    [Item (Some ''1. UART'') (Some uart_menu_arry) None,
     Item (Some ''2. I2C'') (Some i2c_menu_arry) None,
     Item (Some ''3. SPI'') (Some spi_menu_arry) None,
     Item (Some ''4. GPIO'') (Some gpio_menu_arry) None,
     Item (Some ''5. ADC'') None (Some ''nwy_test_cli_adc_read''),
     Item (Some ''6. PM'') (Some pm_menu_arry) None,
     Item (Some ''7. Keypad'') (Some keypad_menu_arry) None,
     Item (Some ''8. PWM'') (Some pwm_menu_arry) None,
     Item None None None]"

definition lcd_menu_arry :: "menu_item list" where
  "lcd_menu_arry =
    [Item (Some ''1. Open lcd'') None (Some ''nwy_test_cli_lcd_open''),
     Item (Some ''2. Draw line'') None (Some ''nwy_test_cli_lcd_draw_line''),
     Item (Some ''3. Draw chinese'') None (Some ''nwy_test_cli_lcd_draw_chinese''),
     Item (Some ''4. Close lcd'') None (Some ''nwy_test_cli_lcd_close''),
     Item (Some ''5. Open backlight'') None (Some ''nwy_test_cli_lcd_open_bl''),
     Item (Some ''6. Close backlight'') None (Some ''nwy_test_cli_lcd_close_bl''),
     Item (Some ''7. Set backlight level'') None (Some ''nwy_test_cli_lcd_set_bl_level''),
     Item None None None]"

definition sd_menu_arry :: "menu_item list" where
  "sd_menu_arry =
    [Item (Some ''1 Get status'') None (Some ''nwy_test_cli_sd_get_st''),
     Item (Some ''2 Mount'') None (Some ''nwy_test_cli_sd_mnt''),
     Item (Some ''3 Unmount'') None (Some ''nwy_test_cli_sd_unmnt''),
     Item None None None]"

definition flash_menu_arry :: "menu_item list" where
  "flash_menu_arry =
    [Item (Some ''1 Open'') None (Some ''nwy_test_cli_flash_open''),
     Item (Some ''2 Erase'') None (Some ''nwy_test_cli_flash_erase''),
     Item (Some ''3 Write'') None (Some ''nwy_test_cli_flash_write''),
     Item (Some ''4 Read'') None (Some ''nwy_test_cli_flash_read''),
     Item None None None]"

definition tts_menu_arry :: "menu_item list" where
  "tts_menu_arry =
    [Item (Some ''1. Input content'') None (Some ''nwy_test_cli_tts_input''),
     Item (Some ''2. Start play'') None (Some ''nwy_test_cli_tts_play_start''),
     Item (Some ''3. Stop play'') None (Some ''nwy_test_cli_tts_play_stop''),
     Item None None None]"

definition fota_menu_arry :: "menu_item list" where
  "fota_menu_arry =
    [Item (Some ''1. Base version update'') None (Some ''nwy_test_cli_fota_base_ver''),
     Item (Some ''2. APP update'') None (Some ''nwy_test_cli_fota_app_ver''),
     Item None None None]"

definition audio_menu_arry :: "menu_item list" where
  "audio_menu_arry =
    [Item (Some ''1. Play'') None (Some ''nwy_test_cli_audio_play''),
     Item (Some ''2. Record'') None (Some ''nwy_test_cli_audio_rec''),
     Item (Some ''3. DTMF'') None (Some ''nwy_test_cli_audio_dtmf''),
     Item None None None]"

definition fs_menu_arry :: "menu_item list" where
  "fs_menu_arry =
    [Item (Some ''1. Open file'') None (Some ''nwy_test_cli_fs_open''),
     Item (Some ''2. Write file'') None (Some ''nwy_test_cli_fs_write''),
     Item (Some ''3. Read file'') None (Some ''nwy_test_cli_fs_read''),
     Item (Some ''4. Read file size'') None (Some ''nwy_test_cli_fs_fsize''),
     Item (Some ''5. Seek file'') None (Some ''nwy_test_cli_fs_seek''),
     Item (Some ''6. Sync file'') None (Some ''nwy_test_cli_fs_sync''),
     Item (Some ''7. Get file state'') None (Some ''nwy_test_cli_fs_fstate''),
     Item (Some ''8. Trunc file'') None (Some ''nwy_test_cli_fs_trunc''),
     Item (Some ''9. Close file'') None (Some ''nwy_test_cli_fs_close''),
     Item (Some ''10. Unlink/remove file'') None (Some ''nwy_test_cli_fs_remove''),
     Item (Some ''11. Rename file'') None (Some ''nwy_test_cli_fs_rename''),
     Item (Some ''12. Open dir'') None (Some ''nwy_test_cli_dir_open''),
     Item (Some ''13. Read dir'') None (Some ''nwy_test_cli_dir_read''),
     Item (Some ''14. Tell dir'') None (Some ''nwy_test_cli_dir_tell''),
     Item (Some ''15. Seek dir'') None (Some ''nwy_test_cli_dir_seek''),
     Item (Some ''16. Rewind dir'') None (Some ''nwy_test_cli_dir_rewind''),
     Item (Some ''17. Close dir'') None (Some ''nwy_test_cli_dir_close''),
     Item (Some ''18. Make dir'') None (Some ''nwy_test_cli_dir_mk''),
     Item (Some ''19. Remove dir'') None (Some ''nwy_test_cli_dir_remove''),
     Item (Some ''20. Get free size'') None (Some ''nwy_test_cli_fs_free_size''),
     Item (Some ''21. Init safe file'') None (Some ''nwy_test_cli_safe_fs_init''),
     Item (Some ''22. Read safe file'') None (Some ''nwy_test_cli_safe_fs_read''),
     Item (Some ''23. Write safe file'') None (Some ''nwy_test_cli_safe_fs_write''),
     Item (Some ''24. Get safe file size'') None (Some ''nwy_test_cli_safe_fs_fszie''),
     Item None None None]"

definition driver_menu_arry :: "menu_item list" where
  "driver_menu_arry =
    [Item (Some ''1. Peripherals'') (Some peripherals_menu_arry) None,
     Item (Some ''2. LCD'') (Some lcd_menu_arry) None,
     Item (Some ''3. SD Card'') (Some sd_menu_arry) None,
     Item (Some ''4. Flash'') (Some flash_menu_arry) None,
     Item (Some ''5. TTS'') (Some tts_menu_arry) None,
     Item (Some ''6. FOTA'') (Some fota_menu_arry) None,
     Item (Some ''7. Audio'') (Some audio_menu_arry) None,
     Item (Some ''8. File system'') (Some fs_menu_arry) None,
     Item None None None]"

definition ble_service_menu_arry :: "menu_item list" where
  "ble_service_menu_arry =
    [Item (Some ''1. BLE open'') None (Some ''nwy_test_cli_ble_open''),
     Item (Some ''2. BLE adv set'') None (Some ''nwy_test_cli_ble_set_adv''),
     Item (Some ''3. BLE send data'') None (Some ''nwy_test_cli_ble_send''),
     Item (Some ''4. BLE receive data'') None (Some ''nwy_test_cli_ble_recv''),
     Item (Some ''5. BLE update connect'') None (Some ''nwy_test_cli_ble_updata_connt''),
     Item (Some ''6. BLE get status'') None (Some ''nwy_test_cli_ble_get_st''),
     Item (Some ''7. BLE get version'') None (Some ''nwy_test_cli_ble_get_ver''),
     Item (Some ''8. BLE set device name'') None (Some ''nwy_test_cli_ble_set_dev_name''),
     Item (Some ''9. BLE set beacon'') None (Some ''nwy_test_cli_ble_set_beacon''),
     Item (Some ''10. BLE set manufacture'') None (Some ''nwy_test_cli_ble_set_manufacture''),
     Item (Some ''11. BLE set adv server uuid'') None (Some ''nwy_test_cli_ble_set_adv_server_uuid''),
     Item (Some ''12. BLE set service'') None (Some ''nwy_test_cli_ble_set_srv''),
     Item (Some ''13. BLE set characteristic'') None (Some ''nwy_test_cli_ble_set_char''),
     Item (Some ''14. BLE conn status(auto report)'') None (Some ''nwy_test_cli_ble_conn_status_report''),
     Item (Some ''15. BLE conn status(manual get)'') None (Some ''nwy_test_cli_ble_conn_status''),
     Item (Some ''16. BLE mac addr'') None (Some ''nwy_test_cli_ble_mac_addr''),
     Item (Some ''17. BLE add server'') None (Some ''nwy_test_cli_ble_add_server''),
     Item (Some ''18. BLE add charcter'') None (Some ''nwy_test_cli_ble_add_char''),
     Item (Some ''19. BLE add send data'') None (Some ''nwy_test_cli_ble_add_send_data''),
     Item (Some ''20. BLE add recv data'') None (Some ''nwy_test_cli_ble_add_recv_data''),
     Item (Some ''21. BLE read req'') None (Some ''nwy_test_cli_ble_read_req''),
     Item (Some ''22. BLE set read rsp'') None (Some ''nwy_test_cli_ble_read_rsp''),
     Item (Some ''23. BLE disconnet'') None (Some ''nwy_test_cli_ble_disconnect''),
     Item (Some ''24. BLE close'') None (Some ''nwy_test_cli_ble_close''),
     Item None None None]"

definition ble_client_menu_arry :: "menu_item list" where
  "ble_client_menu_arry =
    [Item (Some ''1. BLE client enable set'') None (Some ''nwy_test_cli_ble_client_set_enable''),
     Item (Some ''2. BLE client scan dev'') None (Some ''nwy_test_cli_ble_client_scan''),
     Item (Some ''3. BLE client connect'') None (Some ''nwy_test_cli_ble_client_connect''),
     Item (Some ''4. BLE client disconnect'') None (Some ''nwy_test_cli_ble_client_disconnect''),
     Item (Some ''5. BLE client discovery srv'') None (Some ''nwy_test_cli_ble_client_discover_srv''),
     Item (Some ''6. BLE client discovery char'') None (Some ''nwy_test_cli_ble_client_discover_char''),
     Item (Some ''7. BLE client send data'') None (Some ''nwy_test_cli_ble_client_send_data''),
     Item (Some ''8. BLE client recv data'') None (Some ''nwy_test_cli_ble_client_recv_data''),
     Item None None None]"

definition wifi_menu_arry :: "menu_item list" where
  "wifi_menu_arry =
    [Item (Some ''1. get wifi current status'') None (Some ''nwy_cli_test_wifi_get_st''),
     Item (Some ''2. enable wifi'') None (Some ''nwy_cli_test_wifi_enable''),
     Item (Some ''3. set wifi work mode'') None (Some ''nwy_cli_test_wifi_set_work_md''),
     Item (Some ''4. set wifi ap basic params'') None (Some ''nwy_cli_test_wifi_set_ap_para''),
     Item (Some ''5. set wifi ap advance params'') None (Some ''nwy_cli_test_wifi_set_ap_para_adv''),
     Item (Some ''6. get wifi ap connected client info'') None (Some ''nwy_cli_test_wifi_get_clit_info''),
     Item (Some ''7. wifi sta start scan'') None (Some ''nwy_cli_test_wifi_sta_scan''),
     Item (Some ''8. wifi sta get scan results'') None (Some ''nwy_cli_test_wifi_sta_scan_ret''),
     Item (Some ''9. wifi sta connect external hotspot'') None (Some ''nwy_cli_test_wifi_sta_connt''),
     Item (Some ''10. wifi sta disconnect'') None (Some ''nwy_cli_test_wifi_sta_disconnt''),
     Item (Some ''11. get wifi sta connected external hostpot info'') None (Some ''nwy_cli_test_wifi_sta_get_hostpot_info''),
     Item (Some ''12. disable wifi'') None (Some ''nwy_cli_test_wifi_disable''),
     Item None None None]"

definition sdw_menu_arry :: "menu_item list" where
  "sdw_menu_arry =
    [Item (Some ''1. BLE service'') (Some ble_service_menu_arry) None,
     Item (Some ''2. BLE client'') (Some ble_client_menu_arry) None,
     Item (Some ''3. WIFI'') (Some wifi_menu_arry) None,
     Item None None None]"

definition gnss_menu_arry :: "menu_item list" where
  "gnss_menu_arry =
    [Item (Some ''1. Open location position'') None (Some ''nwy_test_cli_gnss_open''),
     Item (Some ''2. Set position mode'') None (Some ''nwy_test_cli_gnss_set_position_md''),
     Item (Some ''3. Set update rate'') None (Some ''nwy_test_cli_gnss_set_updata_rate''),
     Item (Some ''4. Set output format'') None (Some ''nwy_test_cli_gnss_set_output_fmt''),
     Item (Some ''5. Set startup mode'') None (Some ''nwy_test_cli_gnss_set_startup_fmt''),
     Item (Some ''6. Get nmea data'') None (Some ''nwy_test_cli_gnss_get_nmea''),
     Item (Some ''7. Module dialing'') None (Some ''nwy_test_cli_gnss_dialing''),
     Item (Some ''8. Set location server'') None (Some ''nwy_test_cli_gnss_set_server''),
     Item (Some ''9. Open location base position'') None (Some ''nwy_test_cli_gnss_open_base''),
     Item (Some ''10. Open assisted location'') None (Some ''nwy_test_cli_gnss_open_assisted''),
     Item (Some ''11. Close location position'') None (Some ''nwy_test_cli_gnss_close''),
     Item (Some ''12.Open wifi loc position'') None (Some ''nwy_test_cli_wifi_open_base''),
     Item None None None]"

definition lbs_menu_arry :: "menu_item list" where
  "lbs_menu_arry =
    [Item (Some ''1. GNSS'') (Some gnss_menu_arry) None,
     Item None None None]"

definition tcp_cli_menu_arry :: "menu_item list" where
  "tcp_cli_menu_arry =
    [Item (Some ''1. TCP setup'') None (Some ''nwy_test_cli_tcp_setup''),
     Item (Some ''2. TCP send'') None (Some ''nwy_test_cli_tcp_send''),
     Item (Some ''3. TCP close'') None (Some ''nwy_test_cli_tcp_close''),
     Item None None None]"

definition udp_cli_menu_arry :: "menu_item list" where
  "udp_cli_menu_arry =
    [Item (Some ''1. UDP setup'') None (Some ''nwy_test_cli_udp_setup''),
     Item (Some ''2. UDP send'') None (Some ''nwy_test_cli_udp_send''),
     Item (Some ''3. UDP close'') None (Some ''nwy_test_cli_udp_close''),
     Item None None None]"

definition ftp_cli_menu_arry :: "menu_item list" where
  "ftp_cli_menu_arry =
    [Item (Some ''1. Login'') None (Some ''nwy_test_cli_ftp_login''),
     Item (Some ''2. Get file'') None (Some ''nwy_test_cli_ftp_get''),
     Item (Some ''3. Put file'') None (Some ''nwy_test_cli_ftp_put''),
     Item (Some ''4. Get file size'') None (Some ''nwy_test_cli_ftp_fsize''),
     Item (Some ''5. Get file list'') None (Some ''nwy_test_cli_ftp_list''),
     Item (Some ''6. Delete file'') None (Some ''nwy_test_cli_ftp_delet''),
     Item (Some ''7. Logout'') None (Some ''nwy_test_cli_ftp_logout''),
     Item None None None]"

definition http_cli_menu_arry :: "menu_item list" where
  "http_cli_menu_arry =
    [Item (Some ''1. Setup'') None (Some ''nwy_test_cli_http_setup''),
     Item (Some ''2. Get'') None (Some ''nwy_test_cli_http_get''),
     Item (Some ''3. Head'') None (Some ''nwy_test_cli_http_head''),
     Item (Some ''4. Post'') None (Some ''nwy_test_cli_http_post''),
     Item (Some ''5. Close'') None (Some ''nwy_test_cli_http_close''),
     Item (Some ''6. Add cert'') None (Some ''nwy_test_cli_https_add_cert''),
     Item (Some ''7. Check cert'') None (Some ''nwy_test_cli_https_check_cert''),
     Item (Some ''8. Del cert'') None (Some ''nwy_test_cli_https_delet_cert''),
     Item (Some ''9. compute md5'') None (Some ''nwy_test_cli_http_compute_md5''),
     Item None None None]"

definition tcpip_menu_arry :: "menu_item list" where
  "tcpip_menu_arry =
    [Item (Some ''1. TCP Client'') (Some tcp_cli_menu_arry) None,
     Item (Some ''2. UDP Client'') (Some udp_cli_menu_arry) None,
     Item (Some ''3. FTP Client'') (Some ftp_cli_menu_arry) None,
     Item (Some ''4. HTTP/HTTPS Client'') (Some http_cli_menu_arry) None,
     Item None None None]"

definition ali_mqtt_menu_arry :: "cli_features \<Rightarrow> menu_item list" where
  "ali_mqtt_menu_arry f =
    (if feat_ali f
    then [Item (Some ''1. Ali-MQTT connect'') None (Some ''nwy_test_cli_alimqtt_connect''),
     Item (Some ''2. Ali-MQTT pub'') None (Some ''nwy_test_cli_alimqtt_pub''),
     Item (Some ''3. Ali-MQTT sub'') None (Some ''nwy_test_cli_alimqtt_sub''),
     Item (Some ''4. Ali-MQTT unsub'') None (Some ''nwy_test_cli_alimqtt_unsub''),
     Item (Some ''5. Ali-MQTT state'') None (Some ''nwy_test_cli_alimqtt_state''),
     Item (Some ''6. Ali-MQTT disconnect'') None (Some ''nwy_test_cli_alimqtt_disconnect''),
     Item None None None]
    else [Item (Some ''1. Ali-MQTT connect'') None None,
     Item (Some ''2. Ali-MQTT pub'') None None,
     Item (Some ''3. Ali-MQTT sub'') None None,
     Item (Some ''4. Ali-MQTT unsub'') None None,
     Item (Some ''5. Ali-MQTT state'') None None,
     Item (Some ''6. Ali-MQTT disconnect'') None None,
     Item None None None])"

definition paho_mqtt_menu_arry :: "cli_features \<Rightarrow> menu_item list" where
  "paho_mqtt_menu_arry f =
    (if feat_paho f
    then [Item (Some ''1. MQTT connect'') None (Some ''nwy_test_cli_mqtt_connect''),
     Item (Some ''2. MQTT pub'') None (Some ''nwy_test_cli_mqtt_pub''),
     Item (Some ''3. MQTT sub'') None (Some ''nwy_test_cli_mqtt_sub''),
     Item (Some ''4. MQTT unsub'') None (Some ''nwy_test_cli_mqtt_unsub''),
     Item (Some ''5. MQTT state'') None (Some ''nwy_test_cli_mqtt_state''),
     Item (Some ''6. MQTT disconnect'') None (Some ''nwy_test_cli_mqtt_disconnect'')] @
    (if feat_nippon f then [Item (Some ''7. MQTT 10k msg pub'') None (Some ''nwy_test_cli_mqtt_pub_test'')] else []) @
    [Item None None None]
    else [Item (Some ''1. MQTT connect'') None None,
     Item (Some ''2. MQTT pub'') None None,
     Item (Some ''3. MQTT sub'') None None,
     Item (Some ''4. MQTT unsub'') None None,
     Item (Some ''5. MQTT state'') None None,
     Item (Some ''6. MQTT disconnect'') None None,
     Item (Some ''7. MQTT 10k msg pub'') None None,
     Item None None None])"

definition iot_menu_arry :: "cli_features \<Rightarrow> menu_item list" where
  "iot_menu_arry f =
    [Item (Some ''1. Ali-MQTT'') (Some (ali_mqtt_menu_arry f)) None,
     Item (Some ''2. Paho MQTT'') (Some (paho_mqtt_menu_arry f)) None,
     Item None None None]"

definition virtual_at_menu_arry :: "menu_item list" where
  "virtual_at_menu_arry =
    [Item (Some ''1. Send AT'') None (Some ''nwy_test_cli_send_virt_at''),
     Item (Some ''2. Regist forward AT'') None (Some ''nwy_test_cli_reg_at_fwd''),
     Item None None None]"

definition dev_info_menu_arry :: "menu_item list" where
  "dev_info_menu_arry =
    [Item (Some ''1. Get model'') None (Some ''nwy_test_cli_get_model''),
     Item (Some ''2. Get SW version'') None (Some ''nwy_test_cli_get_sw_ver''),
     Item (Some ''3. Get HW version'') None (Some ''nwy_test_cli_get_hw_ver''),
     Item (Some ''4. Get IMEI'') None (Some ''nwy_test_cli_get_imei''),
     Item (Some ''5. Get heap info'') None (Some ''nwy_test_cli_get_heap_info''),
     Item (Some ''6. Get CPU temperature'') None (Some ''nwy_test_cli_get_cpu_temp''),
     Item (Some ''7. Get boot cause'') None (Some ''nwy_test_cli_get_boot_cause''),
     Item (Some ''8. Get chip ID'') None (Some ''nwy_test_cli_get_chipid''),
     Item None None None]"

definition os_api_menu_arry :: "menu_item list" where
  "os_api_menu_arry =
    [Item (Some ''1 Start timer'') None (Some ''nwy_test_cli_start_timer''),
     Item (Some ''2 Stop timer'') None (Some ''nwy_test_cli_stop_timer''),
     Item (Some ''3 Get sys time'') None (Some ''nwy_test_cli_get_time''),
     Item (Some ''4 Set sys time'') None (Some ''nwy_test_cli_set_time''),
     Item (Some ''5 Semaphore'') None (Some ''nwy_test_cli_set_semp''),
     Item None None None]"

definition dev_os_menu_arry :: "menu_item list" where
  "dev_os_menu_arry =
    [Item (Some ''1. Virtual AT'') (Some virtual_at_menu_arry) None,
     Item (Some ''2. Device info'') (Some dev_info_menu_arry) None,
     Item (Some ''3. OS API'') (Some os_api_menu_arry) None,
     Item None None None]"

definition mian_menu_arry :: "cli_features \<Rightarrow> menu_item list" where
  "mian_menu_arry f =
    [Item (Some ''1. Mobile Network'') (Some mobile_menu_arry) None,
     Item (Some ''2. Driver & Kernel'') (Some driver_menu_arry) None,
     Item (Some ''3. Short Distance Wireless'') (Some sdw_menu_arry) None,
     Item (Some ''4. LBS'') (Some lbs_menu_arry) None,
     Item (Some ''5. TCP/IP Protocol'') (Some tcpip_menu_arry) None,
     Item (Some ''6. IoT Protocol'') (Some (iot_menu_arry f)) None,
     Item (Some ''7. OS & Device'') (Some dev_os_menu_arry) None,
     Item None None None]"

lemmas menu_tables = sim_menu_arry_def data_menu_arry_def nw_menu_arry_def voice_menu_arry_def sms_menu_arry_def mobile_menu_arry_def
  uart_menu_arry_def i2c_menu_arry_def spi_menu_arry_def gpio_menu_arry_def pm_menu_arry_def keypad_menu_arry_def pwm_menu_arry_def
  peripherals_menu_arry_def lcd_menu_arry_def sd_menu_arry_def flash_menu_arry_def tts_menu_arry_def fota_menu_arry_def
  audio_menu_arry_def fs_menu_arry_def driver_menu_arry_def ble_service_menu_arry_def ble_client_menu_arry_def wifi_menu_arry_def
  sdw_menu_arry_def gnss_menu_arry_def lbs_menu_arry_def tcp_cli_menu_arry_def udp_cli_menu_arry_def ftp_cli_menu_arry_def
  http_cli_menu_arry_def tcpip_menu_arry_def ali_mqtt_menu_arry_def paho_mqtt_menu_arry_def iot_menu_arry_def
  virtual_at_menu_arry_def dev_info_menu_arry_def os_api_menu_arry_def dev_os_menu_arry_def mian_menu_arry_def

section \<open>The menu stack\<close>

definition TEST_CLI_MENU_STACK_MAX :: nat where
  "TEST_CLI_MENU_STACK_MAX = 5"

datatype cli_event = Echo buf | Run string

record cli_menu =
  menu_stack :: "menu_item list option list"
  curt_menu_stack_id :: nat
  cli_trace :: "cli_event list"

definition cli_emit :: "cli_event list \<Rightarrow> cli_menu \<Rightarrow> cli_menu" where
  "cli_emit es s = s\<lparr>cli_trace := cli_trace s @ es\<rparr>"

text \<open>\<open>menu_stack[curt_menu_stack_id]\<close>, followed as a pointer, and the loop that looks for the end of a table.\<close>

definition curt_menu :: "cli_menu \<Rightarrow> menu_item list option" where
  "curt_menu s = do { m \<leftarrow> rd (menu_stack s) (curt_menu_stack_id s); m }"

definition menu_len :: "menu_item list \<Rightarrow> nat option" where
  "menu_len m = first_idx (\<lambda>it. name_str it = None) m"

definition cli_line :: "string \<Rightarrow> cli_event" where
  "cli_line t = Echo (str t @ [13, 10])"

definition nwy_test_cli_menu_display :: "cli_menu \<Rightarrow> cli_menu option" where
  "nwy_test_cli_menu_display s =
     do { m \<leftarrow> curt_menu s;
          n \<leftarrow> menu_len m;
          Some (cli_emit (cli_line [] # map (\<lambda>it. cli_line (the (name_str it))) (take n m)) s) }"

definition invalid_option :: cli_event where
  "invalid_option = Echo ([13, 10] @ str ''Invalid option'' @ [13, 10])"

definition not_supported :: cli_event where
  "not_supported = Echo ([13, 10] @ str ''Option not Supported!'' @ [13, 10])"

definition enters :: "menu_item \<Rightarrow> bool option" where
  "enters it = (case sub_menu it of None \<Rightarrow> Some False | Some sm \<Rightarrow> do { x \<leftarrow> rd sm 0; Some (name_str x \<noteq> None) })"

definition nwy_test_cli_menu_select :: "int \<Rightarrow> cli_menu \<Rightarrow> cli_menu option" where
  "nwy_test_cli_menu_select opt s =
     do { m \<leftarrow> curt_menu s;
          if opt < 1 then Some (cli_emit [invalid_option] s)
          else do { n \<leftarrow> menu_len m;
                    if int n + 1 \<le> opt then Some (cli_emit [invalid_option] s)
                    else do { it \<leftarrow> rd m (nat (opt - 1));
                              sub \<leftarrow> enters it;
                              if sub then do { st \<leftarrow> wr (menu_stack s) (curt_menu_stack_id s + 1) (sub_menu it);
                                               Some (s\<lparr>menu_stack := st, curt_menu_stack_id := curt_menu_stack_id s + 1\<rparr>) }
                              else case func it of
                                Some f \<Rightarrow> Some (cli_emit [Run f] s)
                              | None \<Rightarrow> Some (cli_emit [not_supported] s) } } }"

definition nwy_test_cli_menu_back :: "cli_menu \<Rightarrow> cli_menu option" where
  "nwy_test_cli_menu_back s =
     (if curt_menu_stack_id s \<noteq> 0
      then do { st \<leftarrow> wr (menu_stack s) (curt_menu_stack_id s) None;
                Some (s\<lparr>menu_stack := st, curt_menu_stack_id := curt_menu_stack_id s - 1\<rparr>) }
      else Some s)"

text \<open>One pass of the main loop, for the line the user enters.\<close>

definition is_quit :: "buf \<Rightarrow> bool" where
  "is_quit line = (line \<noteq> [] \<and> (hd line = 0x71 \<or> hd line = 0x51))"

definition nwy_test_cli_main_func :: "cli_menu \<Rightarrow> buf \<Rightarrow> cli_menu option" where
  "nwy_test_cli_main_func s line =
     do { s1 \<leftarrow> nwy_test_cli_menu_display s;
          if is_quit line then nwy_test_cli_menu_back s1 else nwy_test_cli_menu_select (c_atoi line) s1 }"

definition cli_start :: "cli_features \<Rightarrow> cli_menu" where
  "cli_start f = \<lparr>menu_stack = [Some (mian_menu_arry f), None, None, None, None], curt_menu_stack_id = 0, cli_trace = []\<rparr>"

section \<open>The shape of the tables\<close>

text \<open>The entries of a table: those before its end.\<close>

definition menu_entries :: "menu_item list \<Rightarrow> menu_item list" where
  "menu_entries m = takeWhile (\<lambda>it. name_str it \<noteq> None) m"

text \<open>A table of at most 99 entries with an end, whose sub-menus are such tables and not empty, nested at most \<open>d\<close> deep.\<close>

primrec menu_ok :: "nat \<Rightarrow> menu_item list \<Rightarrow> bool" where
  "menu_ok 0 m = (list_ex (\<lambda>it. name_str it = None) m \<and> length m < 100 \<and> list_all (\<lambda>it. sub_menu it = None) m)"
| "menu_ok (Suc d) m = (list_ex (\<lambda>it. name_str it = None) m \<and> length m < 100 \<and>
     list_all (\<lambda>it. case sub_menu it of None \<Rightarrow> True | Some sm \<Rightarrow> menu_entries sm \<noteq> [] \<and> menu_ok d sm) m)"

lemma menu_entries_Cons: "menu_entries (Item (Some n) sm fn # m) = Item (Some n) sm fn # menu_entries m"
  by (simp add: menu_entries_def)

lemma main_menu_ok: "menu_ok 3 (mian_menu_arry f)"
  by (simp add: menu_tables numeral_3_eq_3 menu_entries_Cons)

text \<open>The number at the head of an entry is its position in the table.\<close>

definition labels_ok :: "menu_item list \<Rightarrow> bool" where
  "labels_ok m = list_all (\<lambda>(k, it). case name_str it of None \<Rightarrow> True | Some t \<Rightarrow> c_atoi (str t) = int k) (enumerate 1 m)"

primrec all_labels_ok :: "nat \<Rightarrow> menu_item list \<Rightarrow> bool" where
  "all_labels_ok 0 m = labels_ok m"
| "all_labels_ok (Suc d) m = (labels_ok m \<and> list_all (\<lambda>it. case sub_menu it of None \<Rightarrow> True | Some sm \<Rightarrow> all_labels_ok d sm) m)"

lemma labels_mobile: "all_labels_ok 2 mobile_menu_arry"
  by code_simp

lemma labels_driver: "all_labels_ok 2 driver_menu_arry"
  by code_simp

lemma labels_sdw: "all_labels_ok 2 sdw_menu_arry"
  by code_simp

lemma labels_rest: "all_labels_ok 2 lbs_menu_arry" "all_labels_ok 2 tcpip_menu_arry" "all_labels_ok 2 dev_os_menu_arry"
  by code_simp+

lemma labels_ok_nth: "labels_ok m \<longleftrightarrow> (\<forall>i < length m. case name_str (m ! i) of None \<Rightarrow> True | Some t \<Rightarrow> c_atoi (str t) = int (Suc i))"
  by (simp add: labels_ok_def list_all_length nth_enumerate_eq)

lemma labels_names:
  assumes "map name_str m = map name_str n"
  shows "labels_ok m = labels_ok n"
proof -
  have "length m = length n" using assms by (metis length_map)
  moreover have "\<forall>i < length m. name_str (m ! i) = name_str (n ! i)" using assms by (metis \<open>length m = length n\<close> nth_map)
  ultimately show ?thesis by (simp add: labels_ok_nth)
qed

lemma labels_features: "labels_ok (ali_mqtt_menu_arry f)" "labels_ok (paho_mqtt_menu_arry f)" "labels_ok (iot_menu_arry f)" "labels_ok (mian_menu_arry f)"
proof -
  have "map name_str (ali_mqtt_menu_arry f) = map name_str (ali_mqtt_menu_arry \<lparr>feat_ali = True, feat_paho = True, feat_nippon = True\<rparr>)"
    by (simp add: ali_mqtt_menu_arry_def)
  moreover have "labels_ok (ali_mqtt_menu_arry \<lparr>feat_ali = True, feat_paho = True, feat_nippon = True\<rparr>)" by code_simp
  ultimately show "labels_ok (ali_mqtt_menu_arry f)" using labels_names by blast
  have "map name_str (paho_mqtt_menu_arry f) = map name_str (paho_mqtt_menu_arry \<lparr>feat_ali = True, feat_paho = True, feat_nippon = True\<rparr>) \<or>
      map name_str (paho_mqtt_menu_arry f) = map name_str (paho_mqtt_menu_arry \<lparr>feat_ali = True, feat_paho = True, feat_nippon = False\<rparr>)"
    by (simp add: paho_mqtt_menu_arry_def)
  moreover have "labels_ok (paho_mqtt_menu_arry \<lparr>feat_ali = True, feat_paho = True, feat_nippon = True\<rparr>)" by code_simp
  moreover have "labels_ok (paho_mqtt_menu_arry \<lparr>feat_ali = True, feat_paho = True, feat_nippon = False\<rparr>)" by code_simp
  ultimately show "labels_ok (paho_mqtt_menu_arry f)" using labels_names by blast
  have "labels_ok [Item (Some ''1. Ali-MQTT'') None None, Item (Some ''2. Paho MQTT'') None None, Item None None None]" by code_simp
  then show "labels_ok (iot_menu_arry f)" by (rule labels_names [THEN iffD1, rotated]) (simp only: iot_menu_arry_def list.map menu_item.sel)
  have "labels_ok [Item (Some ''1. Mobile Network'') None None, Item (Some ''2. Driver & Kernel'') None None,
      Item (Some ''3. Short Distance Wireless'') None None, Item (Some ''4. LBS'') None None, Item (Some ''5. TCP/IP Protocol'') None None,
      Item (Some ''6. IoT Protocol'') None None, Item (Some ''7. OS & Device'') None None, Item None None None]" by code_simp
  then show "labels_ok (mian_menu_arry f)" by (rule labels_names [THEN iffD1, rotated]) (simp only: mian_menu_arry_def list.map menu_item.sel)
qed

lemma labels_iot: "all_labels_ok 2 (iot_menu_arry f)"
proof -
  have n: "list_all (\<lambda>it. sub_menu it = None) (ali_mqtt_menu_arry f)" "list_all (\<lambda>it. sub_menu it = None) (paho_mqtt_menu_arry f)"
    by (simp_all add: ali_mqtt_menu_arry_def paho_mqtt_menu_arry_def)
  have leaf: "all_labels_ok 1 m" if "list_all (\<lambda>it. sub_menu it = None) m" "labels_ok m" for m
    using that by (auto simp: list_all_iff)
  have "list_all (\<lambda>it. case sub_menu it of None \<Rightarrow> True | Some sm \<Rightarrow> all_labels_ok 1 sm) (iot_menu_arry f)"
    using leaf [OF n(1) labels_features(1)] leaf [OF n(2) labels_features(2)] by (simp add: iot_menu_arry_def)
  moreover have "(2::nat) = Suc 1" by simp
  ultimately show ?thesis using labels_features(3) by (simp only: all_labels_ok.simps simp_thms)
qed

lemma main_labels: "all_labels_ok 3 (mian_menu_arry f)"
proof -
  have "list_all (\<lambda>it. case sub_menu it of None \<Rightarrow> True | Some sm \<Rightarrow> all_labels_ok 2 sm) (mian_menu_arry f)"
    unfolding mian_menu_arry_def by (simp only: list.pred_inject menu_item.sel option.case labels_mobile labels_driver labels_sdw labels_rest labels_iot simp_thms)
  moreover have "(3::nat) = Suc 2" by simp
  ultimately show ?thesis using labels_features(4) by (simp only: all_labels_ok.simps simp_thms)
qed

section \<open>The walk in the tree of menus\<close>

text \<open>A position is the list of options chosen from the main menu on.\<close>

fun menu_at :: "menu_item list \<Rightarrow> nat list \<Rightarrow> menu_item list option" where
  "menu_at m [] = Some m"
| "menu_at m (k # ks) =
     do { sm \<leftarrow> (if 1 \<le> k \<and> k \<le> length (menu_entries m) then sub_menu (menu_entries m ! (k - 1)) else None); menu_at sm ks }"

text \<open>The specification of a pass: the next position and what is shown or started.\<close>

definition walk :: "menu_item list \<Rightarrow> nat list \<Rightarrow> buf \<Rightarrow> nat list \<times> cli_event list" where
  "walk main p line =
     (let es = menu_entries (the (menu_at main p));
          shown = cli_line [] # map (\<lambda>it. cli_line (the (name_str it))) es;
          k = c_atoi line
      in if is_quit line then (butlast p, shown)
         else if k < 1 \<or> int (length es) < k then (p, shown @ [invalid_option])
         else let it = es ! nat (k - 1)
              in case sub_menu it of
                   Some sm \<Rightarrow>
                     if menu_entries sm \<noteq> [] then (p @ [nat k], shown)
                     else (p, shown @ [case func it of Some f \<Rightarrow> Run f | None \<Rightarrow> not_supported])
                 | None \<Rightarrow> (p, shown @ [case func it of Some f \<Rightarrow> Run f | None \<Rightarrow> not_supported]))"

lemma menu_at_snoc:
  "menu_at m (p @ [k]) =
     do { n \<leftarrow> menu_at m p; if 1 \<le> k \<and> k \<le> length (menu_entries n) then sub_menu (menu_entries n ! (k - 1)) else None }"
proof (induction p arbitrary: m)
  case Nil
  show ?case by simp
next
  case (Cons j p)
  then show ?case
    by (cases "if 1 \<le> j \<and> j \<le> length (menu_entries m) then sub_menu (menu_entries m ! (j - 1)) else None") simp_all
qed

lemma menu_entries_nth: "k < length (menu_entries m) \<Longrightarrow> menu_entries m ! k = m ! k"
  unfolding menu_entries_def by (simp add: takeWhile_nth)

lemma menu_entries_sub: "k < length (menu_entries m) \<Longrightarrow> menu_entries m ! k \<in> set m"
  unfolding menu_entries_def by (meson nth_mem set_takeWhileD)

lemma menu_ok_at: "menu_ok d m \<Longrightarrow> menu_at m p = Some n \<Longrightarrow> length p \<le> d \<and> menu_ok (d - length p) n"
proof (induction p arbitrary: m d)
  case Nil
  then show ?case by simp
next
  case (Cons k p)
  then obtain sm where sm: "1 \<le> k" "k \<le> length (menu_entries m)" "sub_menu (menu_entries m ! (k - 1)) = Some sm" "menu_at sm p = Some n"
    by (auto simp: Option.bind_eq_Some_conv split: if_splits)
  then have mem: "menu_entries m ! (k - 1) \<in> set m" by (intro menu_entries_sub) simp
  with Cons.prems(1) sm(3) obtain e where e: "d = Suc e" by (cases d) (auto simp: list_all_iff)
  with Cons.prems(1) mem sm(3) have "menu_ok e sm" by (auto simp: list_all_iff split: option.splits)
  with Cons.IH [OF _ sm(4)] e show ?case by auto
qed

lemma menu_ok_facts:
  assumes "menu_ok d m"
  shows "menu_len m = Some (length (menu_entries m))" "take (length (menu_entries m)) m = menu_entries m" "length (menu_entries m) < length m"
    and "it \<in> set m \<Longrightarrow> sub_menu it = Some sm \<Longrightarrow> menu_entries sm \<noteq> []" "length m < 100"
proof -
  have ex: "\<exists>it \<in> set m. name_str it = None" using assms by (cases d) (auto simp: list_ex_iff)
  then show "length (menu_entries m) < length m" unfolding menu_entries_def by (induction m) auto
  from ex show "menu_len m = Some (length (menu_entries m))"
    unfolding menu_len_def menu_entries_def by (induction m) auto
  show "take (length (menu_entries m)) m = menu_entries m" unfolding menu_entries_def by (metis takeWhile_eq_take)
  show "it \<in> set m \<Longrightarrow> sub_menu it = Some sm \<Longrightarrow> menu_entries sm \<noteq> []" "length m < 100"
    using assms by (cases d; auto simp: list_all_iff)+
qed

section \<open>The stack refines the walk\<close>

definition at_pos :: "menu_item list \<Rightarrow> nat list \<Rightarrow> cli_menu \<Rightarrow> bool" where
  "at_pos main p s =
     (menu_at main p \<noteq> None \<and> curt_menu_stack_id s = length p \<and>
      menu_stack s = map (\<lambda>i. if i \<le> length p then menu_at main (take i p) else None) [0..<TEST_CLI_MENU_STACK_MAX])"

lemma at_pos_curt: "at_pos main p s \<Longrightarrow> length p < 5 \<Longrightarrow> curt_menu s = menu_at main p"
  by (simp add: curt_menu_def at_pos_def TEST_CLI_MENU_STACK_MAX_def)

lemma at_pos_back:
  assumes "at_pos main p s" and "length p < 5"
  shows "\<exists>t. nwy_test_cli_menu_back s = Some t \<and> at_pos main (butlast p) t \<and> cli_trace t = cli_trace s"
proof (cases "p = []")
  case True
  then show ?thesis using assms by (simp add: nwy_test_cli_menu_back_def at_pos_def)
next
  case False
  then obtain q k where p: "p = q @ [k]" by (cases p rule: rev_cases) auto
  have "menu_at main q \<noteq> None" using assms(1) p by (auto simp: at_pos_def menu_at_snoc Option.bind_eq_Some_conv)
  moreover have "(map (\<lambda>i. if i \<le> Suc (length q) then menu_at main (take i (q @ [k])) else None) [0..<5]) [Suc (length q) := None] =
      map (\<lambda>i. if i \<le> length q then menu_at main (take i q) else None) [0..<5]"
    using assms(2) p by (intro nth_equalityI) (auto simp: nth_list_update le_Suc_eq)
  ultimately show ?thesis using assms p
    by (simp add: nwy_test_cli_menu_back_def at_pos_def TEST_CLI_MENU_STACK_MAX_def)
qed

lemma at_pos_enter:
  assumes "at_pos main p s" and "length p < 4" and "menu_at main (p @ [k]) = Some sm"
  shows "at_pos main (p @ [k]) (s\<lparr>menu_stack := (menu_stack s) [length p + 1 := Some sm], curt_menu_stack_id := length p + 1\<rparr>)"
proof -
  have "(map (\<lambda>i. if i \<le> length p then menu_at main (take i p) else None) [0..<5]) [Suc (length p) := Some sm] =
      map (\<lambda>i. if i \<le> Suc (length p) then menu_at main (take i (p @ [k])) else None) [0..<5]"
    using assms by (intro nth_equalityI) (auto simp: nth_list_update le_Suc_eq)
  with assms show ?thesis by (simp add: at_pos_def TEST_CLI_MENU_STACK_MAX_def)
qed

lemma at_pos_emit [simp]: "at_pos main p (cli_emit es s) = at_pos main p s"
  by (simp add: at_pos_def cli_emit_def)

lemma trace_emit [simp]: "cli_trace (cli_emit es s) = cli_trace s @ es"
  by (simp add: cli_emit_def)

lemma display_shows:
  assumes "menu_ok d m" and "curt_menu s = Some m"
  shows "nwy_test_cli_menu_display s = Some (cli_emit (cli_line [] # map (\<lambda>it. cli_line (the (name_str it))) (menu_entries m)) s)"
  using assms menu_ok_facts [OF assms(1)] by (simp add: nwy_test_cli_menu_display_def)

lemma enters_iff:
  assumes "menu_ok d m" and "it \<in> set m"
  shows "enters it = Some (case sub_menu it of None \<Rightarrow> False | Some sm \<Rightarrow> menu_entries sm \<noteq> [])"
proof (cases "sub_menu it")
  case None
  then show ?thesis by (simp add: enters_def)
next
  case (Some sm)
  with menu_ok_facts(4) [OF assms] have ne: "menu_entries sm \<noteq> []" by blast
  then obtain x xs where "sm = x # xs" "name_str x \<noteq> None"
    unfolding menu_entries_def by (cases sm) (auto split: if_splits)
  with Some ne show ?thesis by (simp add: enters_def)
qed

lemma select_step:
  assumes "menu_ok 3 main" and "at_pos main p s" and "menu_at main p = Some m" and "1 \<le> k" and "k \<le> int (length (menu_entries m))"
  defines "it \<equiv> menu_entries m ! nat (k - 1)"
  shows "\<exists>t. nwy_test_cli_menu_select k s = Some t \<and>
    (if \<exists>sm. sub_menu it = Some sm \<and> menu_entries sm \<noteq> [] then at_pos main (p @ [nat k]) t \<and> cli_trace t = cli_trace s
     else t = cli_emit [case func it of Some f \<Rightarrow> Run f | None \<Rightarrow> not_supported] s)"
proof -
  have d: "length p \<le> 3" "menu_ok (3 - length p) m" using menu_ok_at [OF assms(1,3)] by auto
  note f = menu_ok_facts [OF d(2)]
  have k: "nat (k - 1) < length (menu_entries m)" "1 \<le> nat k" "nat k \<le> length m" "nat (k - 1) = nat k - 1" using assms(4,5) f(3) by auto
  have it: "it = m ! nat (k - 1)" "it \<in> set m" using k menu_entries_nth [OF k(1)] by (simp_all add: it_def)
  have cur: "curt_menu s = Some m" using at_pos_curt [OF assms(2)] d(1) assms(3) by simp
  show ?thesis
  proof (cases "\<exists>sm. sub_menu it = Some sm \<and> menu_entries sm \<noteq> []")
    case True
    then obtain sm where sm: "sub_menu it = Some sm" "menu_entries sm \<noteq> []" by blast
    have at: "menu_at main (p @ [nat k]) = Some sm" using assms(3) k sm(1) by (simp add: menu_at_snoc it_def)
    have "length p < 4" using menu_ok_at [OF assms(1) at] by simp
    with at_pos_enter [OF assms(2) this at] cur f(1) k it sm enters_iff [OF d(2) it(2)] assms(2,4,5) True show ?thesis
      by (simp add: nwy_test_cli_menu_select_def at_pos_def TEST_CLI_MENU_STACK_MAX_def)
  next
    case False
    then have "enters it = Some False" using enters_iff [OF d(2) it(2)] by (auto split: option.splits)
    with cur f(1) k it assms(4,5) False show ?thesis
      by (simp add: nwy_test_cli_menu_select_def cli_emit_def split: option.split)
  qed
qed

lemma main_func_refines:
  assumes "menu_ok 3 main" and "at_pos main p s"
  shows "\<exists>t. nwy_test_cli_main_func s line = Some t \<and> at_pos main (fst (walk main p line)) t \<and>
    cli_trace t = cli_trace s @ snd (walk main p line)"
proof -
  obtain m where m: "menu_at main p = Some m" using assms(2) by (auto simp: at_pos_def)
  have d: "length p \<le> 3" "menu_ok (3 - length p) m" using menu_ok_at [OF assms(1) m] by auto
  note f = menu_ok_facts [OF d(2)]
  have cur: "curt_menu s = Some m" using at_pos_curt [OF assms(2)] d(1) m by simp
  define s1 where "s1 = cli_emit (cli_line [] # map (\<lambda>it. cli_line (the (name_str it))) (menu_entries m)) s"
  have disp: "nwy_test_cli_menu_display s = Some s1" using display_shows [OF d(2) cur] by (simp add: s1_def)
  have s1: "at_pos main p s1" "curt_menu s1 = Some m"
      "cli_trace s1 = cli_trace s @ cli_line [] # map (\<lambda>it. cli_line (the (name_str it))) (menu_entries m)"
    using assms(2) cur by (simp_all add: s1_def) (simp add: cli_emit_def curt_menu_def)
  consider "is_quit line" | "\<not> is_quit line" "c_atoi line < 1 \<or> int (length (menu_entries m)) < c_atoi line"
    | "\<not> is_quit line" "1 \<le> c_atoi line" "c_atoi line \<le> int (length (menu_entries m))" by linarith
  then show ?thesis
  proof cases
    case 1
    then show ?thesis using disp at_pos_back [OF s1(1)] d(1) s1 m by (auto simp: nwy_test_cli_main_func_def walk_def Let_def)
  next
    case 2
    then have "nwy_test_cli_menu_select (c_atoi line) s1 = Some (cli_emit [invalid_option] s1)"
      using s1(2) f(1) by (auto simp: nwy_test_cli_menu_select_def)
    with 2 show ?thesis using disp s1 m
      by (simp add: nwy_test_cli_main_func_def walk_def Let_def)
  next
    case 3
    from select_step [OF assms(1) s1(1) m 3(2,3)] obtain t where t: "nwy_test_cli_menu_select (c_atoi line) s1 = Some t"
      "if \<exists>sm. sub_menu (menu_entries m ! nat (c_atoi line - 1)) = Some sm \<and> menu_entries sm \<noteq> []
       then at_pos main (p @ [nat (c_atoi line)]) t \<and> cli_trace t = cli_trace s1
       else t = cli_emit [case func (menu_entries m ! nat (c_atoi line - 1)) of Some f \<Rightarrow> Run f | None \<Rightarrow> not_supported] s1" by blast
    with 3 disp s1 m show ?thesis
      by (auto simp: nwy_test_cli_main_func_def walk_def Let_def split: option.splits if_splits)
  qed
qed

fun walks :: "menu_item list \<Rightarrow> nat list \<Rightarrow> buf list \<Rightarrow> nat list \<times> cli_event list" where
  "walks main p [] = (p, [])"
| "walks main p (l # ls) = (fst (walks main (fst (walk main p l)) ls), snd (walk main p l) @ snd (walks main (fst (walk main p l)) ls))"

lemma run_refines:
  "menu_ok 3 main \<Longrightarrow> at_pos main p s \<Longrightarrow>
    \<exists>t. run_machine nwy_test_cli_main_func s lines = Some t \<and> at_pos main (fst (walks main p lines)) t \<and>
      cli_trace t = cli_trace s @ snd (walks main p lines)"
proof (induction lines arbitrary: p s)
  case Nil
  then show ?case by simp
next
  case (Cons l ls)
  obtain u where u: "nwy_test_cli_main_func s l = Some u" "at_pos main (fst (walk main p l)) u" "cli_trace u = cli_trace s @ snd (walk main p l)"
    using main_func_refines [OF Cons.prems] by blast
  from Cons.IH [OF Cons.prems(1) u(2)] obtain t where "run_machine nwy_test_cli_main_func u ls = Some t"
      "at_pos main (fst (walks main (fst (walk main p l)) ls)) t" "cli_trace t = cli_trace u @ snd (walks main (fst (walk main p l)) ls)" by blast
  with u show ?case by simp
qed

lemma start_at_pos: "at_pos (mian_menu_arry f) [] (cli_start f)"
  by (simp add: at_pos_def cli_start_def TEST_CLI_MENU_STACK_MAX_def upt_rec [of 0] upt_rec numeral_eq_Suc)

text \<open>C8: the menu program refines the walk in the tree of menus: for every sequence of lines the user enters, whatever the
  compile-time features, the program runs without leaving its tables or its stack of five, shows and starts what the walk
  shows and starts, and stands where the walk stands, at most three menus below the main menu, which three times \<open>q\<close> leads
  back to.\<close>

theorem cli_menu_refines_walk:
  "\<exists>t. run_machine nwy_test_cli_main_func (cli_start f) lines = Some t \<and> at_pos (mian_menu_arry f) (fst (walks (mian_menu_arry f) [] lines)) t \<and>
     cli_trace t = snd (walks (mian_menu_arry f) [] lines) \<and> curt_menu_stack_id t \<le> 3 \<and>
     (\<exists>h. run_machine nwy_test_cli_main_func t [[0x71], [0x71], [0x71]] = Some h \<and> at_pos (mian_menu_arry f) [] h)"
proof -
  let ?m = "mian_menu_arry f" and ?p = "fst (walks (mian_menu_arry f) [] lines)"
  obtain t where t: "run_machine nwy_test_cli_main_func (cli_start f) lines = Some t" "at_pos ?m ?p t" "cli_trace t = snd (walks ?m [] lines)"
    using run_refines [OF main_menu_ok start_at_pos, of f lines] by (auto simp: cli_start_def)
  have l: "length ?p \<le> 3" using t(2) menu_ok_at [OF main_menu_ok] by (auto simp: at_pos_def)
  have q: "fst (walk ?m p [0x71]) = butlast p" for p by (simp add: walk_def is_quit_def Let_def)
  have "butlast (butlast (butlast ?p)) = []" using l by (simp flip: length_0_conv)
  then have "fst (walks ?m ?p [[0x71], [0x71], [0x71]]) = []" by (simp add: q)
  then show ?thesis using run_refines [OF main_menu_ok t(2), of "[[0x71], [0x71], [0x71]]"] t l by (auto simp: at_pos_def)
qed

section \<open>Every entry can be reached\<close>

lemma option_text:
  assumes "k < 100"
  shows "c_atoi (dec_digits k) = int k" "\<not> is_quit (dec_digits k)"
proof -
  show "c_atoi (dec_digits k) = int k" using atoi_fmt_d [of "int k"] assms by (simp add: fmt_d_def int_max_def)
  have "list_all is_digit (dec_digits k)" by (rule dec_digits_are_digits)
  then show "\<not> is_quit (dec_digits k)" by (cases "dec_digits k") (auto simp: is_quit_def is_digit_def word_le_def)
qed

lemma walk_option:
  assumes "menu_ok 3 main" and "menu_at main p = Some m" and "1 \<le> k" and "k \<le> length (menu_entries m)"
  shows "fst (walk main p (dec_digits k)) = (if sub_menu (menu_entries m ! (k - 1)) = None then p else p @ [k])"
    and "sub_menu (menu_entries m ! (k - 1)) = None \<Longrightarrow> last (snd (walk main p (dec_digits k))) =
      (case func (menu_entries m ! (k - 1)) of Some fn \<Rightarrow> Run fn | None \<Rightarrow> not_supported)"
proof -
  have d: "menu_ok (3 - length p) m" using menu_ok_at [OF assms(1,2)] by auto
  have "k < 100" using assms(4) menu_ok_facts(3,5) [OF d] by linarith
  note k = option_text [OF this]
  have mem: "menu_entries m ! (k - 1) \<in> set m" using assms(3,4) by (intro menu_entries_sub) simp
  have ne: "menu_entries sm \<noteq> []" if "sub_menu (menu_entries m ! (k - 1)) = Some sm" for sm
    using menu_ok_facts(4) [OF d mem that] .
  have n: "nat (int k - 1) = k - 1" "\<not> int k < 1" "\<not> int (length (menu_entries m)) < int k" using assms(3,4) by auto
  show "fst (walk main p (dec_digits k)) = (if sub_menu (menu_entries m ! (k - 1)) = None then p else p @ [k])"
    using assms(2) ne n by (simp add: walk_def k Let_def split: option.split)
  show "last (snd (walk main p (dec_digits k))) = (case func (menu_entries m ! (k - 1)) of Some fn \<Rightarrow> Run fn | None \<Rightarrow> not_supported)"
    if "sub_menu (menu_entries m ! (k - 1)) = None"
    using assms(2) n that by (simp add: walk_def k Let_def)
qed

lemma walks_snoc: "walks main p (ls @ [l]) =
  (fst (walk main (fst (walks main p ls)) l), snd (walks main p ls) @ snd (walk main (fst (walks main p ls)) l))"
  by (induction ls arbitrary: p) simp_all

lemma walks_path:
  "menu_ok 3 main \<Longrightarrow> menu_at main p = Some m \<Longrightarrow> fst (walks main [] (map dec_digits p)) = p"
proof (induction p arbitrary: m rule: rev_induct)
  case Nil
  then show ?case by simp
next
  case (snoc k p)
  then obtain n where n: "menu_at main p = Some n" "1 \<le> k" "k \<le> length (menu_entries n)" "sub_menu (menu_entries n ! (k - 1)) = Some m"
    by (auto simp: menu_at_snoc Option.bind_eq_Some_conv split: if_splits)
  with snoc.IH [OF snoc.prems(1) n(1)] walk_option(1) [OF snoc.prems(1) n(1-3)] show ?case by (simp add: walks_snoc)
qed

lemma labels_at: "all_labels_ok d m \<Longrightarrow> menu_at m p = Some n \<Longrightarrow> length p \<le> d \<Longrightarrow> labels_ok n"
proof (induction p arbitrary: m d)
  case Nil
  then show ?case by (cases d) auto
next
  case (Cons k p)
  then obtain sm where sm: "1 \<le> k" "k \<le> length (menu_entries m)" "sub_menu (menu_entries m ! (k - 1)) = Some sm" "menu_at sm p = Some n"
    by (auto simp: Option.bind_eq_Some_conv split: if_splits)
  obtain e where e: "d = Suc e" using Cons.prems(3) by (cases d) auto
  have "menu_entries m ! (k - 1) \<in> set m" using sm by (intro menu_entries_sub) simp
  with Cons.prems(1) sm(3) e have "all_labels_ok e sm" by (auto simp: list_all_iff split: option.splits)
  with Cons.IH [OF _ sm(4)] Cons.prems(3) e show ?case by auto
qed

lemma label_number:
  assumes "labels_ok m" and "1 \<le> k" and "k \<le> length (menu_entries m)"
  shows "c_atoi (str (the (name_str (menu_entries m ! (k - 1))))) = int k"
proof -
  have l: "length (menu_entries m) \<le> length m" by (simp add: menu_entries_def length_takeWhile_le)
  have k: "k - 1 < length (menu_entries m)" using assms(2,3) by simp
  then have "name_str (menu_entries m ! (k - 1)) \<noteq> None" unfolding menu_entries_def by (auto dest!: nth_mem set_takeWhileD)
  then show ?thesis using assms k l menu_entries_nth [OF k] by (auto simp: labels_ok_nth dest!: spec [of _ "k - 1"])
qed

text \<open>every entry of the menus that is not itself a menu can be reached from the start: entering the option numbers of
  its position runs its function, or reports it as unsupported when it has none; and the number printed in front of the entry
  is the option number to enter.\<close>

theorem cli_entry_reachable:
  assumes "menu_at (mian_menu_arry f) p = Some m" and "1 \<le> k" and "k \<le> length (menu_entries m)"
    and "sub_menu (menu_entries m ! (k - 1)) = None"
  shows "\<exists>t. run_machine nwy_test_cli_main_func (cli_start f) (map dec_digits (p @ [k])) = Some t \<and> at_pos (mian_menu_arry f) p t \<and>
    last (cli_trace t) = (case func (menu_entries m ! (k - 1)) of Some fn \<Rightarrow> Run fn | None \<Rightarrow> not_supported) \<and>
    c_atoi (str (the (name_str (menu_entries m ! (k - 1))))) = int k"
proof -
  let ?m = "mian_menu_arry f"
  obtain t where t: "run_machine nwy_test_cli_main_func (cli_start f) (map dec_digits (p @ [k])) = Some t"
      "at_pos ?m (fst (walks ?m [] (map dec_digits (p @ [k])))) t" "cli_trace t = snd (walks ?m [] (map dec_digits (p @ [k])))"
    using run_refines [OF main_menu_ok start_at_pos, of f "map dec_digits (p @ [k])"] by (auto simp: cli_start_def)
  note w = walk_option [OF main_menu_ok assms(1-3)]
  have "snd (walk ?m p (dec_digits k)) \<noteq> []" by (simp add: walk_def Let_def split: option.split)
  with t w assms(4) walks_path [OF main_menu_ok assms(1)]
  have "at_pos ?m p t" "last (cli_trace t) = (case func (menu_entries m ! (k - 1)) of Some fn \<Rightarrow> Run fn | None \<Rightarrow> not_supported)"
    by (simp_all add: walks_snoc)
  moreover have "length p \<le> 3" using menu_ok_at [OF main_menu_ok assms(1)] by simp
  ultimately show ?thesis using t(1) label_number [OF labels_at [OF main_labels assms(1)] assms(2,3)] by blast
qed

theorem cli_entry_reachable_witness:
  "\<exists>t. run_machine nwy_test_cli_main_func (cli_start \<lparr>feat_ali = False, feat_paho = False, feat_nippon = False\<rparr>)
       (map dec_digits [2, 6, 1]) = Some t \<and> last (cli_trace t) = Run ''nwy_test_cli_fota_base_ver''"
proof -
  have "menu_at (mian_menu_arry \<lparr>feat_ali = False, feat_paho = False, feat_nippon = False\<rparr>) [2, 6] = Some fota_menu_arry"
    by (simp add: mian_menu_arry_def driver_menu_arry_def menu_entries_def)
  from cli_entry_reachable [OF this, of 1] show ?thesis by (simp add: fota_menu_arry_def menu_entries_def) blast
qed

end
