(* ===== verification/CliInput.thy ===== *)
theory CliInput
  imports Collector Console CString
begin

text \<open>
  Input and output of the test program src/nwy_test_cli: the USB callback of comm/nwy_test_cli_utils.c with its line mode and
  its transfer mode, the loops that send text over USB (there and in src/hello_world.c), and the download of
  modules/nwy_test_cli_driver.c, which receives a block through the transfer mode and feeds it to a firmware update.

  \<open>None\<close>: an access outside an array, or printing with \<open>%s\<close> an array without terminator.
\<close>

section \<open>Sending over USB\<close>

text \<open>The loop of \<open>nwy_ext_echo\<close>, \<open>nwy_test_cli_echo\<close> and \<open>nwy_test_cli_output\<close>: \<open>tx\<close> is the number of bytes the driver accepts
  when it is offered the given bytes. The result is the bytes accepted, call by call; \<open>None\<close> when the driver claims more than it
  was offered and the loop would read behind the text.\<close>

function usb_send_loop :: "(buf \<Rightarrow> int) \<Rightarrow> buf \<Rightarrow> nat \<Rightarrow> buf list option" where
  "usb_send_loop tx text i =
     (if length text < i then None
      else let rest = drop i text; tx_size = tx rest
           in if tx_size \<le> 0 then Some []
              else if i + nat tx_size < length text
                   then map_option (Cons (take (nat tx_size) rest)) (usb_send_loop tx text (i + nat tx_size))
                   else Some [take (nat tx_size) rest])"
  by pat_completeness auto
termination by (relation "measure (\<lambda>(tx, text, i). length text - i)") auto

declare usb_send_loop.simps [simp del]

text \<open>\<open>vsnprintf\<close> cuts the text to the 2048 bytes of \<open>echo_str\<close>.\<close>

definition nwy_ext_echo :: "(buf \<Rightarrow> int) \<Rightarrow> buf \<Rightarrow> buf list option" where
  "nwy_ext_echo tx text = usb_send_loop tx (take (NWY_EXT_SIO_RX_MAX - 1) text) 0"

definition NWY_CLI_ECHO_LEN :: nat where
  "NWY_CLI_ECHO_LEN = 2 * 1024"

definition nwy_test_cli_echo :: "(buf \<Rightarrow> int) \<Rightarrow> buf \<Rightarrow> buf list option" where
  "nwy_test_cli_echo tx text = usb_send_loop tx (take (NWY_CLI_ECHO_LEN - 1) text) 0"

definition nwy_test_cli_output :: "(buf \<Rightarrow> int) \<Rightarrow> buf \<Rightarrow> buf list option" where
  "nwy_test_cli_output tx data = usb_send_loop tx data 0"

lemma usb_send_all:
  assumes "\<forall>d. d \<noteq> [] \<longrightarrow> 0 < tx d \<and> tx d \<le> int (length d)" and "tx [] \<le> 0" and "i \<le> length text"
  shows "\<exists>cs. usb_send_loop tx text i = Some cs \<and> concat cs = drop i text"
  using assms(3)
proof (induction "length text - i" arbitrary: i rule: less_induct)
  case less
  show ?case
  proof (cases "drop i text = []")
    case True
    then show ?thesis using less.prems assms(2) by (subst usb_send_loop.simps) (simp add: Let_def)
  next
    case False
    define k where "k = nat (tx (drop i text))"
    have tx: "0 < tx (drop i text)" "tx (drop i text) \<le> int (length text - i)"
      using assms(1) [rule_format, OF False] by simp_all
    then have k: "0 < k" "i + k \<le> length text" "tx (drop i text) = int k" using less.prems by (auto simp: k_def)
    show ?thesis
    proof (cases "i + k < length text")
      case True
      then obtain cs where "usb_send_loop tx text (i + k) = Some cs" "concat cs = drop (i + k) text"
        using less.hyps [of "i + k"] k diff_less_mono2 [of i "i + k" "length text"] by auto
      then show ?thesis using True k less.prems
        by (subst usb_send_loop.simps) (simp add: Let_def, metis append_take_drop_id drop_drop add.commute)
    next
      case False
      then show ?thesis using k less.prems by (subst usb_send_loop.simps) (simp add: Let_def)
    qed
  qed
qed

text \<open>Output over USB. When the driver accepts at least one and at most the offered bytes of every non-empty offer, the
  sending loops return and exactly the text is sent, in order and without gaps: whole for \<open>nwy_test_cli_output\<close>, cut to 2047
  bytes for the two echo functions.\<close>

theorem usb_output_complete:
  assumes "\<forall>d. d \<noteq> [] \<longrightarrow> 0 < tx d \<and> tx d \<le> int (length d)" and "tx [] \<le> 0"
  shows "\<exists>a b c. nwy_test_cli_output tx t = Some a \<and> concat a = t \<and>
    nwy_test_cli_echo tx t = Some b \<and> concat b = take 2047 t \<and> nwy_ext_echo tx t = Some c \<and> concat c = take 2047 t"
  using usb_send_all [OF assms, of 0 t] usb_send_all [OF assms, of 0 "take 2047 t"]
  by (auto simp: nwy_test_cli_output_def nwy_test_cli_echo_def nwy_ext_echo_def NWY_CLI_ECHO_LEN_def NWY_EXT_SIO_RX_MAX_def)

theorem usb_output_complete_witness:
  "\<exists>a b c. nwy_test_cli_output (\<lambda>d. min 2 (int (length d))) [1, 2, 3] = Some a \<and> concat a = [1, 2, 3] \<and>
    nwy_test_cli_echo (\<lambda>d. min 2 (int (length d))) [1, 2, 3] = Some b \<and> concat b = [1, 2, 3] \<and>
    nwy_ext_echo (\<lambda>d. min 2 (int (length d))) [1, 2, 3] = Some c \<and> concat c = [1, 2, 3]"
  using usb_output_complete [of "\<lambda>d. min 2 (int (length d))" "[1, 2, 3]"] by simp

section \<open>The USB callback\<close>

definition NWY_CLI_RX_LEN :: nat where
  "NWY_CLI_RX_LEN = 2 * 1024"

text \<open>\<open>trans_pieces\<close> are the pieces handed to the function of the transfer mode.\<close>

record cli_input =
  nwy_cli_opt_input_buff :: buf
  cli_sio_len :: int
  cli_len :: nat
  select_msgs :: nat
  nwy_sio_mode :: nat
  trans_pieces :: "buf list"

definition nwy_test_cli_select_enter :: "cli_input \<Rightarrow> cli_input" where
  "nwy_test_cli_select_enter s = s\<lparr>select_msgs := select_msgs s + 1\<rparr>"

definition cli_clear :: "cli_input \<Rightarrow> cli_input option" where
  "cli_clear s =
     (if cli_len s = 0
      then do { b \<leftarrow> buf_fill (nwy_cli_opt_input_buff s) 0 0 NWY_CLI_RX_LEN; Some (s\<lparr>nwy_cli_opt_input_buff := b, cli_sio_len := 0\<rparr>) }
      else Some s)"

definition cli_line_end :: "buf \<Rightarrow> int \<Rightarrow> cli_input \<Rightarrow> cli_input option" where
  "cli_line_end b n s =
     do { k \<leftarrow> c_strlen b;
          Some (nwy_test_cli_select_enter (s\<lparr>nwy_cli_opt_input_buff := b, cli_sio_len := n, cli_len := 0\<rparr>)) }"

text \<open>In the branch of a line that is too long the source goes on to \<open>len = len + length\<close> after the reset of \<open>len\<close>.\<close>

definition sio_line_proc :: "buf \<Rightarrow> cli_input \<Rightarrow> cli_input option" where
  "sio_line_proc data s =
     do { s1 \<leftarrow> cli_clear s;
          let n = length data;
          let len = cli_len s1;
          if data = [13, 10] then Some (nwy_test_cli_select_enter (s1\<lparr>cli_len := 0\<rparr>))
          else if NWY_CLI_RX_LEN < len + n
          then if NWY_CLI_RX_LEN < len then None
               else do { b \<leftarrow> buf_write (nwy_cli_opt_input_buff s1) len (take (NWY_CLI_RX_LEN - len) data);
                         s2 \<leftarrow> cli_line_end b (cli_sio_len s1 + int (NWY_CLI_RX_LEN - len)) s1;
                         Some (s2\<lparr>cli_len := n\<rparr>) }
          else do { b \<leftarrow> buf_write (nwy_cli_opt_input_buff s1) len data;
                    k \<leftarrow> c_strlen b;
                    if 1 < n
                    then if data ! (n - 1) = 10 \<and> data ! (n - 2) = 13
                         then do { b1 \<leftarrow> wr b (len + n - 2) 0; cli_line_end b1 (cli_sio_len s1 + int n - 2) s1 }
                         else Some (s1\<lparr>nwy_cli_opt_input_buff := b, cli_sio_len := cli_sio_len s1 + int n, cli_len := len + n\<rparr>)
                    else if n = 1
                    then if data ! 0 = 13 \<or> data ! 0 = 10
                         then do { b1 \<leftarrow> wr_int b (cli_sio_len s1 - 1) 0; cli_line_end b1 (cli_sio_len s1 - 1) s1 }
                         else do { b1 \<leftarrow> buf_write b len data;
                                   Some (s1\<lparr>nwy_cli_opt_input_buff := b1, cli_sio_len := cli_sio_len s1 + 1, cli_len := len + 1\<rparr>) }
                    else Some (s1\<lparr>nwy_cli_opt_input_buff := b\<rparr>) } }"

definition nwy_test_cli_sio_data_proc :: "buf \<Rightarrow> cli_input \<Rightarrow> cli_input option" where
  "nwy_test_cli_sio_data_proc data s =
     (if nwy_sio_mode s = 0 then sio_line_proc data s
      else if nwy_sio_mode s = 1 then Some (s\<lparr>trans_pieces := trans_pieces s @ [data], nwy_sio_mode := 0\<rparr>)
      else Some s)"

text \<open>The result is the return value; the function to call is \<open>trans_pieces\<close>' consumer and never null here.\<close>

definition nwy_test_cli_sio_enter_trans_mode :: "cli_input \<Rightarrow> int \<times> cli_input" where
  "nwy_test_cli_sio_enter_trans_mode s = (if nwy_sio_mode s = 1 then (-1, s) else (0, s\<lparr>nwy_sio_mode := 1\<rparr>))"

definition nwy_test_cli_sio_quit_trans_mode :: "cli_input \<Rightarrow> cli_input" where
  "nwy_test_cli_sio_quit_trans_mode s = s\<lparr>nwy_sio_mode := 0\<rparr>"

text \<open>Waiting for a line: the events before the next \<open>NWY_EXT_INPUT_RECV_MSG\<close> are taken from the queue and dropped. The result is
  the rest of the queue; \<open>None\<close> when the thread waits for ever. The line is then in the array of the callback.\<close>

fun nwy_test_cli_wait_select :: "u32 \<Rightarrow> u32 list \<Rightarrow> u32 list option" where
  "nwy_test_cli_wait_select input_msg [] = None"
| "nwy_test_cli_wait_select input_msg (e # es) = (if e = input_msg then Some es else nwy_test_cli_wait_select input_msg es)"

definition nwy_test_cli_input_gets :: "u32 \<Rightarrow> u32 list \<Rightarrow> cli_input \<Rightarrow> (buf \<times> u32 list) option" where
  "nwy_test_cli_input_gets input_msg es s = do { r \<leftarrow> nwy_test_cli_wait_select input_msg es; Some (nwy_cli_opt_input_buff s, r) }"

definition nwy_test_cli_input_len_gets :: "cli_input \<Rightarrow> int" where
  "nwy_test_cli_input_len_gets s = cli_sio_len s"

section \<open>Where the callback leaves its array\<close>

definition cli_inv :: "cli_input \<Rightarrow> bool" where
  "cli_inv s = (length (nwy_cli_opt_input_buff s) = 2048 \<and> cli_len s < 2048 \<and>
     (0 < cli_len s \<longrightarrow> cli_sio_len s = int (cli_len s) \<and> 0 \<notin> set (take (cli_len s) (nwy_cli_opt_input_buff s)) \<and>
        drop (cli_len s) (nwy_cli_opt_input_buff s) = replicate (2048 - cli_len s) 0))"

lemma cli_clear_inv:
  assumes "cli_inv s"
  shows "\<exists>t. cli_clear s = Some (s\<lparr>nwy_cli_opt_input_buff := t @ replicate (2048 - cli_len s) 0, cli_sio_len := int (cli_len s)\<rparr>) \<and>
    t = take (cli_len s) (nwy_cli_opt_input_buff s) \<and> 0 \<notin> set t \<and> length t = cli_len s"
proof (cases "cli_len s = 0")
  case True
  then show ?thesis using assms by (simp add: cli_clear_def cli_inv_def buf_fill_def buf_write_def NWY_CLI_RX_LEN_def)
next
  case False
  then have "nwy_cli_opt_input_buff s = take (cli_len s) (nwy_cli_opt_input_buff s) @ replicate (2048 - cli_len s) 0"
    using assms append_take_drop_id [of "cli_len s" "nwy_cli_opt_input_buff s"] by (simp add: cli_inv_def)
  then show ?thesis using assms False by (auto simp: cli_clear_def cli_inv_def)
qed

text \<open>The callback on the text \<open>t\<close> collected so far.\<close>

lemma line_write:
  assumes "length t + length d \<le> 2048"
  shows "buf_write (t @ replicate (2048 - length t) 0) (length t) d = Some (t @ d @ replicate (2048 - length t - length d) (0 :: u8))"
  using assms by (simp add: buf_write_def)

lemma full_text_unterminated: "0 \<notin> set t \<Longrightarrow> 0 \<notin> set d \<Longrightarrow> c_strlen (t @ d) = None"
  by (simp add: c_strlen_eq)

lemma short_text_terminated: "k < n \<Longrightarrow> c_strlen (x @ replicate (n - k) 0) \<noteq> None"
  by (simp add: c_strlen_eq)

lemma sio_line_fault:
  assumes "cli_inv s" and "0 \<notin> set data" and "(cli_len s = 0 \<and> data \<in> {[13], [10]}) \<or> (2048 \<le> cli_len s + length data \<and> data \<noteq> [13, 10])"
  shows "sio_line_proc data s = None"
proof -
  obtain t where t: "cli_clear s = Some (s\<lparr>nwy_cli_opt_input_buff := t @ replicate (2048 - cli_len s) 0, cli_sio_len := int (cli_len s)\<rparr>)"
      "0 \<notin> set t" "length t = cli_len s" using cli_clear_inv [OF assms(1)] by blast
  have inv: "cli_len s < 2048" using assms(1) by (simp add: cli_inv_def)
  from assms(3) consider "cli_len s = 0" "data \<in> {[13], [10]}" | "data \<noteq> [13, 10]" "2048 < cli_len s + length data"
    | "data \<noteq> [13, 10]" "cli_len s + length data = 2048" by linarith
  then show ?thesis
  proof cases
    case 1
    then show ?thesis using t by (auto simp: sio_line_proc_def NWY_CLI_RX_LEN_def buf_write_def wr_int_def c_strlen_eq Let_def)
  next
    case 2
    let ?d = "take (2048 - cli_len s) data"
    have "buf_write (t @ replicate (2048 - cli_len s) 0) (cli_len s) ?d = Some (t @ ?d)"
      using line_write [of t ?d] t(3) 2 inv by simp
    moreover have "0 \<notin> set ?d" using assms(2) by (meson in_set_takeD)
    then have "c_strlen (t @ ?d) = None" using t(2) full_text_unterminated by blast
    ultimately show ?thesis using 2 t(1) inv by (simp add: sio_line_proc_def NWY_CLI_RX_LEN_def cli_line_end_def Let_def)
  next
    case 3
    then have "buf_write (t @ replicate (2048 - cli_len s) 0) (cli_len s) data = Some (t @ data)"
      using line_write [of t data] t(3) by simp
    moreover have "c_strlen (t @ data) = None" using full_text_unterminated [OF t(2) assms(2)] .
    ultimately show ?thesis using 3 t(1) by (simp add: sio_line_proc_def NWY_CLI_RX_LEN_def Let_def)
  qed
qed

lemma sio_line_safe:
  assumes "cli_inv s" and "0 \<notin> set data" and "\<not> (cli_len s = 0 \<and> data \<in> {[13], [10]})" and "cli_len s + length data < 2048 \<or> data = [13, 10]"
  shows "\<exists>t. sio_line_proc data s = Some t \<and> cli_inv t"
proof (cases "data = [13, 10]")
  case True
  then show ?thesis using cli_clear_inv [OF assms(1)] assms(1)
    by (auto simp: sio_line_proc_def nwy_test_cli_select_enter_def cli_inv_def)
next
  case False
  then have short: "cli_len s + length data < 2048" using assms(4) by simp
  obtain t where t: "cli_clear s = Some (s\<lparr>nwy_cli_opt_input_buff := t @ replicate (2048 - cli_len s) 0, cli_sio_len := int (cli_len s)\<rparr>)"
      "0 \<notin> set t" "length t = cli_len s" using cli_clear_inv [OF assms(1)] by blast
  let ?b = "t @ data @ replicate (2048 - cli_len s - length data) 0"
  have w: "buf_write (t @ replicate (2048 - cli_len s) 0) (cli_len s) data = Some ?b"
    using line_write [of t data] t(3) short by simp
  have z: "0 \<in> set ?b" "c_strlen ?b \<noteq> None" using short by (auto simp: c_strlen_eq)
  note defs = sio_line_proc_def t(1) w NWY_CLI_RX_LEN_def Let_def False
  consider "data = []" | x where "data = [x]" "x \<noteq> 13" "x \<noteq> 10" | x where "data = [x]" "x = 13 \<or> x = 10" "0 < cli_len s"
    | "1 < length data" "data ! (length data - 1) = 10 \<and> data ! (length data - 2) = 13"
    | "1 < length data" "\<not> (data ! (length data - 1) = 10 \<and> data ! (length data - 2) = 13)"
    using assms(3) by (cases data; cases "tl data") auto
  then show ?thesis
  proof cases
    case 1
    then show ?thesis using t short z by (auto simp: defs cli_inv_def buf_write_def)
  next
    case 2
    have "buf_write ?b (cli_len s) data = Some ?b" using t(3) 2 short by (simp add: buf_write_def)
    with w have "buf_write (t @ replicate (2048 - cli_len s) 0) (cli_len s) [x] = Some ?b" "buf_write ?b (cli_len s) [x] = Some ?b"
      by (simp_all only: 2(1))
    then show ?thesis using t short z 2 assms(2) by (auto simp: defs cli_inv_def)
  next
    case 3
    then have "buf_write (t @ replicate (2048 - cli_len s) 0) (cli_len s) [x] = Some ?b" using w by (simp only:)
    then show ?thesis using t short z 3
      by (auto simp: defs cli_inv_def wr_int_def cli_line_end_def c_strlen_eq nwy_test_cli_select_enter_def set_update_memI)
  next
    case 4
    then show ?thesis using t short z
      by (auto simp: defs cli_inv_def cli_line_end_def c_strlen_eq nwy_test_cli_select_enter_def set_update_memI)
  next
    case 5
    then show ?thesis using t short z assms(2) by (auto simp: defs cli_inv_def)
  qed
qed

text \<open>The USB callback of the test program, in line mode and for input without zero bytes, leaves or overreads its
  2048-byte array exactly in two cases: a single CR or LF as the first piece of a line, and a line that reaches 2048 bytes,
  which fills the array without a terminator and is then printed. Every other piece is handled inside the array and the
  counters agree with it again.\<close>

theorem cli_callback_safe_iff:
  assumes "cli_inv s" and "nwy_sio_mode s = 0" and "0 \<notin> set data"
  shows "(nwy_test_cli_sio_data_proc data s = None \<longleftrightarrow>
      (cli_len s = 0 \<and> data \<in> {[13], [10]}) \<or> (2048 \<le> cli_len s + length data \<and> data \<noteq> [13, 10])) \<and>
    (\<forall>t. nwy_test_cli_sio_data_proc data s = Some t \<longrightarrow> cli_inv t)"
proof (cases "(cli_len s = 0 \<and> data \<in> {[13], [10]}) \<or> (2048 \<le> cli_len s + length data \<and> data \<noteq> [13, 10])")
  case True
  then show ?thesis using sio_line_fault [OF assms(1,3) True] assms(2) by (simp add: nwy_test_cli_sio_data_proc_def)
next
  case False
  then have "\<not> (cli_len s = 0 \<and> data \<in> {[13], [10]})" "cli_len s + length data < 2048 \<or> data = [13, 10]" by auto
  from sio_line_safe [OF assms(1,3) this] False assms(2) show ?thesis by (auto simp: nwy_test_cli_sio_data_proc_def)
qed

definition cli_input_start :: cli_input where
  "cli_input_start = \<lparr>nwy_cli_opt_input_buff = replicate 2048 0, cli_sio_len = 0, cli_len = 0, select_msgs = 0, nwy_sio_mode = 0, trans_pieces = []\<rparr>"

lemma cli_input_start_inv: "cli_inv cli_input_start"
  by (simp add: cli_input_start_def cli_inv_def)

theorem cli_callback_safe_iff_witness:
  "nwy_test_cli_sio_data_proc (replicate 2048 65) cli_input_start = None \<and>
   (\<exists>t. nwy_test_cli_sio_data_proc (replicate 2047 65) cli_input_start = Some t \<and> cli_inv t)"
proof -
  have "replicate n (65 :: u8) \<notin> {[13], [10], [13, 10]}" for n by (cases n) auto
  moreover have "nwy_sio_mode cli_input_start = 0" "cli_len cli_input_start = 0" by (simp_all add: cli_input_start_def)
  ultimately show ?thesis
    using cli_callback_safe_iff [OF cli_input_start_inv, of "replicate 2048 65"] cli_callback_safe_iff [OF cli_input_start_inv, of "replicate 2047 65"]
    by auto
qed

section \<open>Downloads\<close>

text \<open>The callback of the transfer mode puts a copy of a non-empty piece into a queue. The download takes the messages of the
  queue (\<open>msgs\<close>: those that arrive before the wait times out), cuts the last one off at the announced size and hands each to
  \<open>fn\<close>. Sizes stay below \<open>2 ^ 31\<close>.\<close>

definition nwy_cli_recv_callback :: "buf list \<Rightarrow> buf \<Rightarrow> buf list" where
  "nwy_cli_recv_callback q data = (if data = [] then q else q @ [data])"

definition download_step :: "('a \<Rightarrow> buf \<Rightarrow> 'a) \<Rightarrow> nat \<Rightarrow> nat \<times> 'a \<Rightarrow> buf \<Rightarrow> nat \<times> 'a" where
  "download_step fn dsize st m =
     (case st of (got, a) \<Rightarrow>
        if m = [] then (got, a)
        else let d = (if dsize < got + length m then take (dsize - got) m else m)
             in (got + length d, fn a d))"

fun download_loop :: "('a \<Rightarrow> buf \<Rightarrow> 'a) \<Rightarrow> nat \<Rightarrow> nat \<times> 'a \<Rightarrow> buf list \<Rightarrow> nat \<times> 'a" where
  "download_loop fn dsize st [] = st"
| "download_loop fn dsize st (m # ms) =
     (let st1 = download_step fn dsize st m in if m \<noteq> [] \<and> dsize \<le> fst st1 then st1 else download_loop fn dsize st1 ms)"

definition nwy_test_cli_download_data :: "nat \<Rightarrow> ('a \<Rightarrow> buf \<Rightarrow> 'a) \<Rightarrow> 'a \<Rightarrow> buf list \<Rightarrow> nat \<times> 'a" where
  "nwy_test_cli_download_data dsize fn a msgs = (if dsize = 0 then (0, a) else download_loop fn dsize (0, a) msgs)"

text \<open>The callback that passes a block on to the module (\<open>core\<close> is \<open>nwy_fota_download_core\<close> or \<open>nwy_fota_dm\<close>, with offset
  and data): the offset only advances when the module accepts the block.\<close>

definition download_fota_pkt_cb :: "(nat \<Rightarrow> buf \<Rightarrow> 'w \<Rightarrow> int \<times> 'w) \<Rightarrow> nat \<times> 'w \<Rightarrow> buf \<Rightarrow> nat \<times> 'w" where
  "download_fota_pkt_cb core pkt data =
     (case core (fst pkt) data (snd pkt) of (r, w) \<Rightarrow> (if r = 0 then fst pkt + length data else fst pkt, w))"

definition nwy_test_cli_fota_base_ver :: "(nat \<Rightarrow> buf \<Rightarrow> 'w \<Rightarrow> int \<times> 'w) \<Rightarrow> ('w \<Rightarrow> 'w) \<Rightarrow> buf \<Rightarrow> buf list \<Rightarrow> 'w \<Rightarrow> 'w" where
  "nwy_test_cli_fota_base_ver core core_update line msgs w =
     (let pkt_size = c_atoi line
      in if pkt_size \<le> 0 then w
         else case nwy_test_cli_download_data (nat pkt_size) (download_fota_pkt_cb core) (0, w) msgs of (got, pkt) \<Rightarrow>
           if nat pkt_size \<le> got then core_update (snd pkt) else snd pkt)"

definition nwy_test_cli_fota_app_ver ::
  "(nat \<Rightarrow> buf \<Rightarrow> 'w \<Rightarrow> int \<times> 'w) \<Rightarrow> ('w \<Rightarrow> int \<times> 'w) \<Rightarrow> ('w \<Rightarrow> int \<times> 'w) \<Rightarrow> buf \<Rightarrow> buf list \<Rightarrow> 'w \<Rightarrow> 'w" where
  "nwy_test_cli_fota_app_ver dm checksum ua line msgs w =
     (let pkt_size = c_atoi line
      in if pkt_size \<le> 0 then w
         else case nwy_test_cli_download_data (nat pkt_size) (download_fota_pkt_cb dm) (0, w) msgs of (got, pkt) \<Rightarrow>
           if nat pkt_size \<le> got
           then case checksum (snd pkt) of (ret, w1) \<Rightarrow> if ret < 0 then w1 else snd (ua w1)
           else snd pkt)"

text \<open>The download is a collector: with \<open>fn\<close> keeping the bytes, they are the first bytes of the stream.\<close>

interpretation dl: collector "\<lambda>st m. Some (download_step (\<lambda>a d. a @ d) dsize st m)" "\<lambda>_. dsize" snd
  "\<lambda>(got, a). got = length a \<and> got < dsize" for dsize :: nat
  by unfold_locales (auto simp: download_step_def Let_def split: if_splits)

text \<open>The number the download returns does not depend on what the module answers.\<close>

lemma download_step_size: "k \<le> dsize \<Longrightarrow> fst (download_step fn dsize (k, a) m) = min dsize (k + length m)"
  by (auto simp: download_step_def Let_def)

lemma download_loop_size:
  "k < dsize \<Longrightarrow> fst (download_loop fn dsize (k, a) msgs) = min dsize (k + length (concat msgs))"
proof (induction msgs arbitrary: k a)
  case Nil
  then show ?case by simp
next
  case (Cons m ms)
  obtain size1 a1 where st: "download_step fn dsize (k, a) m = (size1, a1)" by fastforce
  have s1: "size1 = min dsize (k + length m)" using download_step_size [of k dsize fn a m] Cons.prems st by simp
  show ?case
  proof (cases "m \<noteq> [] \<and> dsize \<le> size1")
    case True
    then show ?thesis using st s1 by (auto simp: Let_def min_def)
  next
    case False
    then have "size1 < dsize" using s1 Cons.prems by (auto simp: min_def)
    with Cons.IH [OF this] st s1 False show ?thesis by (auto simp: Let_def min_def)
  qed
qed

lemma download_loop_run:
  "fst st = length (snd st) \<Longrightarrow> fst st < n \<Longrightarrow> length (snd st @ concat qs) < n \<Longrightarrow>
    \<exists>u. run_machine (\<lambda>st m. Some (download_step (\<lambda>a d. a @ d) n st m)) st qs = Some u \<and>
      download_loop (\<lambda>a d. a @ d) n st (qs @ r) = download_loop (\<lambda>a d. a @ d) n u r"
proof (induction qs arbitrary: st)
  case Nil
  then show ?case by simp
next
  case (Cons q qs)
  let ?t = "download_step (\<lambda>a d. a @ d) n st q"
  have "(\<lambda>(got, a). got = length a \<and> got < n) st" using Cons.prems(1,2) by (simp add: case_prod_beta)
  with dl.feed_piece [of n st q] Cons.prems(3) have t: "fst ?t = length (snd ?t)" "fst ?t < n" "snd ?t = snd st @ q"
    by (auto simp: case_prod_beta)
  then show ?case using Cons.IH [of ?t] Cons.prems(3) by (auto simp: Let_def)
qed

text \<open>A download of \<open>n\<close> bytes returns with the message that reaches the size, and however the stream is cut into messages it
  delivers the first \<open>n\<close> bytes of it.\<close>

theorem cli_download_collects:
  assumes "0 < n" and "n \<le> length (concat msgs)"
  shows "nwy_test_cli_download_data n (\<lambda>a d. a @ d) [] msgs = (n, take n (concat msgs))"
proof -
  obtain qs p rs where ps: "msgs = qs @ p # rs" "length (concat qs) < n" "n \<le> length (concat qs @ p)"
    using first_reaching [OF assms(2,1)] by blast
  obtain u where u: "run_machine (\<lambda>st m. Some (download_step (\<lambda>a d. a @ d) n st m)) (0, []) qs = Some u"
      "download_loop (\<lambda>a d. a @ d) n (0, []) msgs = download_loop (\<lambda>a d. a @ d) n u (p # rs)"
    using download_loop_run [of "(0, [])" n qs "p # rs"] assms(1) ps by auto
  from dl.feed_complete [of n "(0, [])" qs p] u(1) assms(1) ps(2,3)
  have t: "snd (download_step (\<lambda>a d. a @ d) n u p) = take n (concat qs @ p)" by auto
  from dl.feed_short [of n "(0, [])" qs] u(1) assms(1) ps(2) have r: "u = (length (concat qs), concat qs)" by (auto simp: prod_eq_iff)
  then have "fst (download_step (\<lambda>a d. a @ d) n u p) = n" "p \<noteq> []"
    using download_step_size [of "length (concat qs)" n "\<lambda>a d. a @ d" "concat qs" p] ps(2,3) by auto
  then have "download_loop (\<lambda>a d. a @ d) n u (p # rs) = (n, take n (concat qs @ p))" using t by (auto simp: Let_def prod_eq_iff)
  moreover have "take n (concat msgs) = take n (concat qs @ p)" using ps by simp
  ultimately show ?thesis using u(2) assms(1) by (simp add: nwy_test_cli_download_data_def)
qed

theorem cli_download_collects_witness:
  "nwy_test_cli_download_data 4 (\<lambda>a d. a @ d) [] [[1, 2], [], [3], [4, 5], [6]] = (4, [1, 2, 3, 4 :: u8])"
  using cli_download_collects [of 4 "[[1, 2], [], [3], [4, 5], [6]]"] by simp

lemma download_one: "m \<noteq> [] \<Longrightarrow> 0 < dsize \<Longrightarrow> nwy_test_cli_download_data dsize fn a [m] = (min dsize (length m), fn a (take dsize m))"
  by (auto simp: nwy_test_cli_download_data_def download_step_def Let_def min_def)

lemma cli_clear_keeps: "cli_clear s = Some t \<Longrightarrow> nwy_sio_mode t = nwy_sio_mode s \<and> trans_pieces t = trans_pieces s"
  by (auto simp: cli_clear_def Option.bind_eq_Some_conv split: if_splits)

lemma cli_line_end_keeps: "cli_line_end b n s = Some t \<Longrightarrow> nwy_sio_mode t = nwy_sio_mode s \<and> trans_pieces t = trans_pieces s"
  by (auto simp: cli_line_end_def nwy_test_cli_select_enter_def Option.bind_eq_Some_conv)

lemma line_mode_keeps:
  assumes "sio_line_proc data s = Some t"
  shows "nwy_sio_mode t = nwy_sio_mode s \<and> trans_pieces t = trans_pieces s"
proof -
  obtain s1 where s1: "cli_clear s = Some s1" using assms by (auto simp: sio_line_proc_def Option.bind_eq_Some_conv)
  have "nwy_sio_mode t = nwy_sio_mode s1 \<and> trans_pieces t = trans_pieces s1"
    using assms unfolding sio_line_proc_def Let_def s1
    by (simp add: Option.bind_eq_Some_conv nwy_test_cli_select_enter_def split: if_splits) (auto dest!: cli_line_end_keeps)
  then show ?thesis using cli_clear_keeps [OF s1] by simp
qed

lemma line_mode_run:
  "nwy_sio_mode s = 0 \<Longrightarrow> run_machine (\<lambda>s d. nwy_test_cli_sio_data_proc d s) s ps = Some t \<Longrightarrow> trans_pieces t = trans_pieces s"
proof (induction ps arbitrary: s)
  case Nil
  then show ?case by simp
next
  case (Cons p ps)
  then obtain u where u: "sio_line_proc p s = Some u" "run_machine (\<lambda>s d. nwy_test_cli_sio_data_proc d s) u ps = Some t"
    by (auto simp: nwy_test_cli_sio_data_proc_def Option.bind_eq_Some_conv)
  with line_mode_keeps [OF u(1)] Cons.IH [of u] Cons.prems(1) show ?case by simp
qed



end
