(* ===== verification/Dialog.thy ===== *)
theory Dialog
  imports CString Machine
begin

text \<open>
  The functions behind the menus of src/nwy_test_cli are dialogs: they print, ask the user for a line
  (\<open>nwy_test_cli_input_gets\<close>), call the module, sleep, and read and write variables they share with callbacks. A function of the
  source is a value of the type \<open>dialog\<close>, in the order of its statements; what comes from outside (the line, the answer of the
  module, the shared variables) is bound by the continuation.

  \<open>run\<close> executes a dialog on a list of events. \<open>safe\<close> computes, by recursion on the dialog, the condition under which every run
  stays inside its arrays and makes only calls that meet a contract; \<open>safe_run\<close> is its soundness.
\<close>

section \<open>Dialogs\<close>

text \<open>Arguments of a call: a number, a text (or block of bytes), an array of numbers.\<close>

datatype arg = I int | T buf | Ns "int list"

text \<open>The answer of the module: the returned number (pointers and booleans as numbers, null and false as 0) and what the call
  stores through its pointer arguments, numbers and texts, in the order in which the function uses them.\<close>

record answer =
  ret :: int
  num :: "nat \<Rightarrow> int"
  text_of :: "nat \<Rightarrow> buf"

datatype 's dialog =
    Done
  | Fault
  | Print buf "'s dialog"
  | Ask buf "buf \<Rightarrow> 's dialog"
  | Call string "arg list" "answer \<Rightarrow> 's dialog"
  | Pause nat "'s dialog"
  | Get "'s \<Rightarrow> 's dialog"
  | Put "'s \<Rightarrow> 's" "'s dialog"

text \<open>One dialog after the other: a call of a function of the source.\<close>

primrec followed_by :: "'s dialog \<Rightarrow> 's dialog \<Rightarrow> 's dialog" where
  "followed_by Done e = e"
| "followed_by Fault e = Fault"
| "followed_by (Print t d) e = Print t (followed_by d e)"
| "followed_by (Ask p k) e = Ask p (\<lambda>b. followed_by (k b) e)"
| "followed_by (Call f as k) e = Call f as (\<lambda>a. followed_by (k a) e)"
| "followed_by (Pause n d) e = Pause n (followed_by d e)"
| "followed_by (Get k) e = Get (\<lambda>s. followed_by (k s) e)"
| "followed_by (Put f d) e = Put f (followed_by d e)"

text \<open>A computation on arrays that may leave them.\<close>

definition need :: "'a option \<Rightarrow> ('a \<Rightarrow> 's dialog) \<Rightarrow> 's dialog" where
  "need x k = (case x of None \<Rightarrow> Fault | Some v \<Rightarrow> k v)"

lemma need_simps [simp]: "need None k = Fault" "need (Some v) k = k v"
  by (simp_all add: need_def)

text \<open>\<open>atoi (nwy_test_cli_input_gets (p))\<close>.\<close>

definition ask_int :: "buf \<Rightarrow> (int \<Rightarrow> 's dialog) \<Rightarrow> 's dialog" where
  "ask_int p k = Ask p (\<lambda>b. need (arr_text b) (\<lambda>t. k (c_atoi t)))"

text \<open>\<open>memcpy (a, sptr, strlen (sptr))\<close> into a cleared array of \<open>n\<close> bytes.\<close>

definition line_copy :: "nat \<Rightarrow> buf \<Rightarrow> buf option" where
  "line_copy n b = do { t \<leftarrow> arr_text b; buf_write (replicate n 0) 0 t }"

text \<open>A text between line ends.\<close>

definition crlf :: buf where
  "crlf = [13, 10]"

definition echo :: "string \<Rightarrow> 's dialog \<Rightarrow> 's dialog" where
  "echo t d = Print (crlf @ str t @ crlf) d"

definition prompt :: "string \<Rightarrow> buf" where
  "prompt t = crlf @ str t"

text \<open>Several pieces of text between line ends, after a line end, and a message that is printed under a condition.\<close>

definition say :: "buf list \<Rightarrow> 's dialog \<Rightarrow> 's dialog" where
  "say ts d = Print (crlf @ concat ts @ crlf) d"

definition tell :: "buf list \<Rightarrow> 's dialog \<Rightarrow> 's dialog" where
  "tell ts d = Print (crlf @ concat ts) d"

definition echo_if :: "bool \<Rightarrow> string \<Rightarrow> 's dialog \<Rightarrow> 's dialog" where
  "echo_if b t d = (if b then echo t d else d)"

text \<open>One of two messages.\<close>

definition echo_either :: "bool \<Rightarrow> string \<Rightarrow> string \<Rightarrow> 's dialog" where
  "echo_either b t u = (if b then echo t Done else echo u Done)"

text \<open>The conversions to the unsigned types.\<close>

definition to_u8 :: "int \<Rightarrow> int" where
  "to_u8 v = v mod 256"

definition to_u16 :: "int \<Rightarrow> int" where
  "to_u16 v = v mod 65536"

definition to_u32 :: "int \<Rightarrow> int" where
  "to_u32 v = v mod 4294967296"

section \<open>Runs\<close>

text \<open>Each ask, call and pause takes one event: the line or the answer, and what the callbacks do to the shared variables in
  the meantime.\<close>

record 's event =
  line :: buf
  reply :: answer
  meanwhile :: "'s \<Rightarrow> 's"

datatype item = Printed buf | Prompted buf | Called string "arg list" | Paused nat

datatype 's outcome = Returned 's "'s event list" | Faulted | Waiting

definition logged :: "item \<Rightarrow> item list \<times> 's outcome \<Rightarrow> item list \<times> 's outcome" where
  "logged i r = (i # fst r, snd r)"

primrec run :: "'s dialog \<Rightarrow> 's \<Rightarrow> 's event list \<Rightarrow> item list \<times> 's outcome" where
  "run Done s es = ([], Returned s es)"
| "run Fault s es = ([], Faulted)"
| "run (Print t d) s es = logged (Printed t) (run d s es)"
| "run (Ask p k) s es = logged (Prompted p) (case es of [] \<Rightarrow> ([], Waiting) | e # es' \<Rightarrow> run (k (line e)) (meanwhile e s) es')"
| "run (Call f as k) s es = logged (Called f as) (case es of [] \<Rightarrow> ([], Waiting) | e # es' \<Rightarrow> run (k (reply e)) (meanwhile e s) es')"
| "run (Pause n d) s es = logged (Paused n) (case es of [] \<Rightarrow> ([], Waiting) | e # es' \<Rightarrow> run d (meanwhile e s) es')"
| "run (Get k) s es = run (k s) s es"
| "run (Put f d) s es = run d (f s) es"

lemma logged_simps [simp]: "fst (logged i r) = i # fst r" "snd (logged i r) = snd r"
  by (simp_all add: logged_def)

lemma run_followed_by:
  "run (followed_by d e) s es =
     (case snd (run d s es) of
        Returned s' es' \<Rightarrow> (fst (run d s es) @ fst (run e s' es'), snd (run e s' es'))
      | Faulted \<Rightarrow> (fst (run d s es), Faulted)
      | Waiting \<Rightarrow> (fst (run d s es), Waiting))"
  by (induction d arbitrary: s es) (auto simp: logged_def split: list.split outcome.split)

text \<open>A dialog is finite: with enough events it ends, returning or leaving an array.\<close>

lemma dialog_ends: "\<exists>n. snd (run d s (map ev [0..<n])) \<noteq> Waiting"
proof (induction d arbitrary: s ev)
  case (Ask p k)
  obtain n where "snd (run (k (line (ev 0))) (meanwhile (ev 0) s) (map (ev \<circ> Suc) [0..<n])) \<noteq> Waiting" using Ask by blast
  then show ?case by (intro exI [of _ "Suc n"]) (simp add: upt_conv_Cons map_Suc_upt [symmetric] del: upt_Suc)
next
  case (Call f as k)
  obtain n where "snd (run (k (reply (ev 0))) (meanwhile (ev 0) s) (map (ev \<circ> Suc) [0..<n])) \<noteq> Waiting" using Call by blast
  then show ?case by (intro exI [of _ "Suc n"]) (simp add: upt_conv_Cons map_Suc_upt [symmetric] del: upt_Suc)
next
  case (Pause m d)
  obtain n where "snd (run d (meanwhile (ev 0) s) (map (ev \<circ> Suc) [0..<n])) \<noteq> Waiting" using Pause by blast
  then show ?case by (intro exI [of _ "Suc n"]) (simp add: upt_conv_Cons map_Suc_upt [symmetric] del: upt_Suc)
qed auto

text \<open>A callback that runs once for each piece of data.\<close>

definition each :: "('a \<Rightarrow> 's dialog) \<Rightarrow> 'a list \<Rightarrow> 's dialog" where
  "each f ds = foldr (\<lambda>d e. followed_by (f d) e) ds Done"

lemma each_simps [simp]: "each f [] = Done" "each f (d # ds) = followed_by (f d) (each f ds)"
  by (simp_all add: each_def)

text \<open>A run that is served by a module with a state of its own: each call is answered by the module, which also notices that time
  passes; a question to the user is not answered. A served run is a run on the events that the module makes.\<close>

primrec serve :: "(string \<Rightarrow> arg list \<Rightarrow> 'w \<Rightarrow> answer \<times> 'w) \<Rightarrow> 's dialog \<Rightarrow> 's \<Rightarrow> 'w \<Rightarrow> ('s \<times> 'w) option" where
  "serve M Done s w = Some (s, w)"
| "serve M Fault s w = None"
| "serve M (Print t d) s w = serve M d s w"
| "serve M (Ask p k) s w = None"
| "serve M (Call f as k) s w = serve M (k (fst (M f as w))) s (snd (M f as w))"
| "serve M (Pause n d) s w = serve M d s (snd (M ''nwy_sleep'' [I (int n)] w))"
| "serve M (Get k) s w = serve M (k s) s w"
| "serve M (Put f d) s w = serve M d (f s) w"

lemma serve_is_run: "serve M d s w = Some (s', w') \<Longrightarrow> \<exists>es. snd (run d s (es @ fs)) = Returned s' fs"
proof (induction d arbitrary: s w)
  case (Call f as k)
  then obtain es where "snd (run (k (fst (M f as w))) s (es @ fs)) = Returned s' fs" by fastforce
  then show ?case by (intro exI [of _ "\<lparr>line = [], reply = fst (M f as w), meanwhile = \<lambda>s. s\<rparr> # es"]) simp
next
  case (Pause n d)
  then obtain es where "snd (run d s (es @ fs)) = Returned s' fs" by fastforce
  then show ?case by (intro exI [of _ "\<lparr>line = [], reply = \<lparr>ret = 0, num = \<lambda>i. 0, text_of = \<lambda>i. []\<rparr>, meanwhile = \<lambda>s. s\<rparr> # es"]) simp
qed auto

lemma serve_followed_by:
  "serve M (followed_by d e) s w = (case serve M d s w of None \<Rightarrow> None | Some (s', w') \<Rightarrow> serve M e s' w')"
  by (induction d arbitrary: s w) simp_all

lemma serve_each_append:
  "serve M (each f (ds @ es)) s w = (case serve M (each f ds) s w of None \<Rightarrow> None | Some (s', w') \<Rightarrow> serve M (each f es) s' w')"
  by (induction ds arbitrary: s w) (simp_all add: serve_followed_by split: option.split)

section \<open>Safe dialogs\<close>

text \<open>A contract: the lines the user may enter at a prompt, the calls the module allows, its possible answers and an invariant
  of the shared variables.\<close>

record 's contract =
  line_ok :: "buf \<Rightarrow> buf \<Rightarrow> bool"
  call_ok :: "string \<Rightarrow> arg list \<Rightarrow> bool"
  reply_ok :: "string \<Rightarrow> arg list \<Rightarrow> answer \<Rightarrow> bool"
  vars_ok :: "'s \<Rightarrow> bool"

primrec safe :: "'s contract \<Rightarrow> 's dialog \<Rightarrow> bool" where
  "safe K Done = True"
| "safe K Fault = False"
| "safe K (Print t d) = safe K d"
| "safe K (Ask p k) = (\<forall>b. line_ok K p b \<longrightarrow> safe K (k b))"
| "safe K (Call f as k) = (call_ok K f as \<and> (\<forall>a. reply_ok K f as a \<longrightarrow> safe K (k a)))"
| "safe K (Pause n d) = safe K d"
| "safe K (Get k) = (\<forall>s. vars_ok K s \<longrightarrow> safe K (k s))"
| "safe K (Put f d) = ((\<forall>s. vars_ok K s \<longrightarrow> vars_ok K (f s)) \<and> safe K d)"

text \<open>The events meet the contract as the run uses them.\<close>

primrec events_ok :: "'s contract \<Rightarrow> 's dialog \<Rightarrow> 's \<Rightarrow> 's event list \<Rightarrow> bool" where
  "events_ok K Done s es = True"
| "events_ok K Fault s es = True"
| "events_ok K (Print t d) s es = events_ok K d s es"
| "events_ok K (Ask p k) s es = (case es of [] \<Rightarrow> True | e # es' \<Rightarrow>
     line_ok K p (line e) \<and> vars_ok K (meanwhile e s) \<and> events_ok K (k (line e)) (meanwhile e s) es')"
| "events_ok K (Call f as k) s es = (case es of [] \<Rightarrow> True | e # es' \<Rightarrow>
     reply_ok K f as (reply e) \<and> vars_ok K (meanwhile e s) \<and> events_ok K (k (reply e)) (meanwhile e s) es')"
| "events_ok K (Pause n d) s es = (case es of [] \<Rightarrow> True | e # es' \<Rightarrow> vars_ok K (meanwhile e s) \<and> events_ok K d (meanwhile e s) es')"
| "events_ok K (Get k) s es = events_ok K (k s) s es"
| "events_ok K (Put f d) s es = events_ok K d (f s) es"

definition calls_ok :: "'s contract \<Rightarrow> item list \<Rightarrow> bool" where
  "calls_ok K l = (\<forall>f as. Called f as \<in> set l \<longrightarrow> call_ok K f as)"

lemma calls_ok_simps [simp]:
  "calls_ok K []" "calls_ok K (Called f as # l) = (call_ok K f as \<and> calls_ok K l)" "calls_ok K (Printed t # l) = calls_ok K l"
  "calls_ok K (Prompted t # l) = calls_ok K l" "calls_ok K (Paused n # l) = calls_ok K l" "calls_ok K (l @ l') = (calls_ok K l \<and> calls_ok K l')"
  by (auto simp: calls_ok_def)

definition run_ok :: "'s contract \<Rightarrow> item list \<times> 's outcome \<Rightarrow> bool" where
  "run_ok K r = (calls_ok K (fst r) \<and> (case snd r of Returned s es \<Rightarrow> vars_ok K s | Faulted \<Rightarrow> False | Waiting \<Rightarrow> True))"

lemma run_ok_simps [simp]:
  "run_ok K ([], Returned s es) = vars_ok K s" "\<not> run_ok K (l, Faulted)" "run_ok K ([], Waiting)"
  "run_ok K (logged (Called f as) r) = (call_ok K f as \<and> run_ok K r)" "run_ok K (logged (Printed t) r) = run_ok K r"
  "run_ok K (logged (Prompted t) r) = run_ok K r" "run_ok K (logged (Paused n) r) = run_ok K r"
  by (auto simp: run_ok_def)

lemma safe_run:
  assumes "safe K d" and "vars_ok K s" and "events_ok K d s es"
  shows "run_ok K (run d s es)"
  using assms
proof (induction d arbitrary: s es)
  case (Ask p k)
  then show ?case by (cases es) (simp_all add: range_eqI)
next
  case (Call f as k)
  then show ?case by (cases es) (simp_all add: range_eqI)
next
  case (Pause n d)
  then show ?case by (cases es) simp_all
next
  case (Get k)
  then show ?case by (simp add: range_eqI)
qed simp_all

lemma safe_followed_byI: "safe K d \<Longrightarrow> safe K e \<Longrightarrow> safe K (followed_by d e)"
  by (induction d) auto

lemma safe_need: "safe K (need x k) \<longleftrightarrow> (\<exists>v. x = Some v \<and> safe K (k v))"
  by (cases x) auto

lemma safe_echo [simp]: "safe K (echo t d) = safe K d"
  by (simp add: echo_def)

lemma safe_say [simp]: "safe K (say ts d) = safe K d" "safe K (tell ts d) = safe K d" "safe K (echo_if b t d) = safe K d" "safe K (echo_either b t u)"
  by (simp_all add: say_def tell_def echo_if_def echo_either_def)

lemma safe_ask_int:
  "safe K (ask_int p k) \<longleftrightarrow> (\<forall>b. line_ok K p b \<longrightarrow> terminated b \<and> safe K (k (c_atoi (c_str b))))"
  by (auto simp: ask_int_def safe_need arr_text_def)

lemma line_copy_eq: "line_copy n b = (if terminated b \<and> length (c_str b) \<le> n then Some (c_str b @ replicate (n - length (c_str b)) 0) else None)"
  by (simp add: line_copy_def arr_text_def buf_write_def)

lemma c_str_padded: "c_str (c_str b @ replicate k 0) = c_str b"
  unfolding c_str_def by (induction b) (auto simp: takeWhile_eq_Nil_iff)

lemma line_copy_text:
  "do { a \<leftarrow> line_copy n b; arr_text a } = (if terminated b \<and> length (c_str b) < n then Some (c_str b) else None)"
proof (cases "terminated b \<and> length (c_str b) \<le> n")
  case True
  have "0 \<notin> set (c_str b)" by (auto simp: c_str_def dest: set_takeWhileD)
  with True show ?thesis by (auto simp: line_copy_eq arr_text_def terminated_def c_str_padded)
qed (auto simp: line_copy_eq)

end
