(* ===== verification/CliOs.thy ===== *)
theory CliOs
  imports Dialog
begin

text \<open>
  The operating-system and device functions of the test program, src/nwy_test_cli/modules/nwy_test_cli_os.c, as dialogs:
  virtual AT commands with the callbacks for unsolicited results, device information, timers, the clock, and the semaphore
  test, whose two threads are run under every interleaving.
\<close>

section \<open>Variables\<close>

record os_vars =
  s_nwy_test_timer :: int
  s_nwy_semaphore_count :: int
  s_nwy_cli_semaphore :: int
  s_nwy_at_init_flag :: int

definition os_timer_cb :: "'a os_vars_scheme dialog" where
  "os_timer_cb = Print (crlf @ str ''nwy_test_cli timer start'') Done"

section \<open>The semaphore test\<close>

text \<open>The loops of the two threads: \<open>n\<close> rounds are left. The priorities of the threads, constants of the module, are left out.\<close>

fun taskA_loop :: "nat \<Rightarrow> 'a os_vars_scheme dialog \<Rightarrow> 'a os_vars_scheme dialog" where
  "taskA_loop 0 d = d"
| "taskA_loop (Suc n) d =
     Put (\<lambda>s. s\<lparr>s_nwy_semaphore_count := s_nwy_semaphore_count s + 1\<rparr>)
       (Get (\<lambda>s. Print (crlf @ str ''TaskA semaphore_count = '' @ fmt_d (s_nwy_semaphore_count s)) (Pause 10 (taskA_loop n d))))"

fun taskB_loop :: "nat \<Rightarrow> 'a os_vars_scheme dialog \<Rightarrow> 'a os_vars_scheme dialog" where
  "taskB_loop 0 d = d"
| "taskB_loop (Suc n) d =
     Put (\<lambda>s. s\<lparr>s_nwy_semaphore_count := s_nwy_semaphore_count s - 1\<rparr>)
       (Get (\<lambda>s. Print (crlf @ str ''TaskB semaphore_count = '' @ fmt_d (s_nwy_semaphore_count s)) (Pause 10 (taskB_loop n d))))"

definition task_end :: "'a os_vars_scheme dialog" where
  "task_end = Get (\<lambda>s. Call ''nwy_semahpore_release'' [I (s_nwy_cli_semaphore s)] (\<lambda>a. Call ''nwy_exit_thread'' [] (\<lambda>a. Done)))"

definition nwy_cli_semaphore_taskA_proc :: "'a os_vars_scheme dialog" where
  "nwy_cli_semaphore_taskA_proc =
     Get (\<lambda>s. Call ''nwy_semaphore_acquire'' [I (s_nwy_cli_semaphore s), I 0] (\<lambda>a. taskA_loop 100 task_end))"

definition nwy_cli_semaphore_taskB_proc :: "'a os_vars_scheme dialog" where
  "nwy_cli_semaphore_taskB_proc =
     Get (\<lambda>s. Call ''nwy_semaphore_acquire'' [I (s_nwy_cli_semaphore s), I 0] (\<lambda>a. taskB_loop 50 task_end))"

definition nwy_test_cli_set_semp :: "'a os_vars_scheme dialog" where
  "nwy_test_cli_set_semp =
     Put (\<lambda>s. s\<lparr>s_nwy_semaphore_count := 0\<rparr>)
       (Call ''nwy_semaphore_create'' [I 1, I 1] (\<lambda>a. Put (\<lambda>s. s\<lparr>s_nwy_cli_semaphore := ret a\<rparr>)
         (Call ''nwy_create_thread'' [T (str ''nwy_test_cli_semaphoreA''), I 1024, I 4] (\<lambda>a.
           Call ''nwy_create_thread'' [T (str ''nwy_test_cli_semaphoreB''), I 1024, I 4] (\<lambda>a. Done)))))"

section \<open>Virtual AT commands\<close>

text \<open>The command with its line end, as a text, in the 1024 bytes of \<open>at_command\<close>.\<close>

definition at_command :: "buf \<Rightarrow> buf option" where
  "at_command b =
     do { c \<leftarrow> line_copy 1024 b;
          t \<leftarrow> arr_text b;
          c1 \<leftarrow> wr c (length t) 13;
          c2 \<leftarrow> wr c1 (length t + 1) 10;
          arr_text c2 }"

definition nwy_cli_virtual_at_test :: "'a os_vars_scheme dialog" where
  "nwy_cli_virtual_at_test =
     Pause 500 (Ask (prompt ''Send AT cmd :'') (\<lambda>b. need (at_command b) (\<lambda>c.
       Call ''nwy_sdk_at_cmd_send'' [T c, I (int (length c)), I 30] (\<lambda>a.
         if ret a = 0 then Print (crlf @ str '' Resp:'' @ text_of a 0) Done
         else if ret a = -101 then Print (crlf @ str '' AT timeout'') Done
         else Print (crlf @ str '' AT ERROR'') Done))))"

definition forward :: "int \<Rightarrow> buf \<Rightarrow> 's dialog \<Rightarrow> 's dialog" where
  "forward h t d = Call ''nwy_at_forward_send'' [I h, T t, I (int (length t))] (\<lambda>a. d)"

definition forward_para :: "int \<Rightarrow> buf option \<Rightarrow> 's dialog \<Rightarrow> 's dialog" where
  "forward_para h p d = (case p of None \<Rightarrow> d | Some t \<Rightarrow> forward h t d)"

definition nwy_at_cmd_process_callback :: "int \<Rightarrow> buf \<Rightarrow> int \<Rightarrow> buf option \<Rightarrow> buf option \<Rightarrow> buf option \<Rightarrow> 's dialog" where
  "nwy_at_cmd_process_callback handle atcmd type para0 para1 para2 =
     (if type = 0
      then forward handle crlf (forward handle atcmd (forward_para handle para0 (forward_para handle para1 (forward_para handle para2
             (forward handle (crlf @ str ''OK'' @ crlf) Done)))))
      else if type = 1 then forward handle (crlf @ str ''TEST'' @ crlf) Done
      else if type = 2 then forward handle (crlf @ str ''READ'' @ crlf) Done
      else if type = 3 then forward handle (crlf @ str ''EXE'' @ crlf) Done
      else Done)"

definition nwy_cli_pull_out_sim :: "'s dialog" where
  "nwy_cli_pull_out_sim = Print (crlf @ str '' SIM pull out'') Done"

text \<open>\<open>num\<close>: \<open>cnmi_mt\<close>, \<open>nIndex\<close>; \<open>text_of\<close>: \<open>oa\<close>, \<open>pData\<close>.\<close>

definition nwy_cli_recv_sms :: "'s dialog" where
  "nwy_cli_recv_sms =
     Call ''nwy_sms_recv_message'' [] (\<lambda>a.
       if num a 0 = 1 then Print (crlf @ str '' recv one sms index:'' @ fmt_d (num a 1)) Done
       else if num a 0 = 2 then Print (crlf @ str '' recv one sms from:'' @ text_of a 0 @ str '' msg_context:'' @ text_of a 1) Done
       else Done)"

definition nwy_cli_incom_voice :: "'s dialog" where
  "nwy_cli_incom_voice = Call ''nwy_get_voice_callerid'' [] (\<lambda>a. Print (crlf @ str '' '' @ text_of a 0) Done)"

definition nwy_cli_voice_ind :: "'s dialog" where
  "nwy_cli_voice_ind = Call ''nwy_get_voice_state'' [] (\<lambda>a. Print (crlf @ str '' '' @ text_of a 0) Done)"

text \<open>The callbacks that print the data after a title.\<close>

definition nwy_cli_print_cb :: "string \<Rightarrow> buf \<Rightarrow> 's dialog" where
  "nwy_cli_print_cb title data = Print (crlf @ str title) (Print (data @ crlf) Done)"

definition nwy_cli_tcpsetup_cb :: "buf \<Rightarrow> 's dialog" where
  "nwy_cli_tcpsetup_cb data = nwy_cli_print_cb ''TCPSETUP: '' data"

definition nwy_cli_tcprecvs_cb :: "buf \<Rightarrow> 's dialog" where
  "nwy_cli_tcprecvs_cb data = nwy_cli_print_cb ''TCPRECV(S): '' data"

definition nwy_cli_tcp_close_cb :: "buf \<Rightarrow> 's dialog" where
  "nwy_cli_tcp_close_cb data = nwy_cli_print_cb ''TCPCLOSE:'' data"

definition nwy_cli_tcprecv_cb :: "buf \<Rightarrow> 's dialog" where
  "nwy_cli_tcprecv_cb data = nwy_cli_print_cb ''TCPRECV:'' data"

definition nwy_cli_acpt_close_cb :: "buf \<Rightarrow> 's dialog" where
  "nwy_cli_acpt_close_cb data = nwy_cli_print_cb ''CLOSECLIENT: '' data"

definition nwy_cli_udprecv_cb :: "buf \<Rightarrow> 's dialog" where
  "nwy_cli_udprecv_cb data = nwy_cli_print_cb ''UDPRECV:'' data"

definition nwy_cli_client_acpt_cb :: "buf \<Rightarrow> 's dialog" where
  "nwy_cli_client_acpt_cb data = nwy_cli_print_cb ''Connect AcceptSocket='' data"

definition nwy_cli_gprs_disconnect_cb :: "buf \<Rightarrow> 's dialog" where
  "nwy_cli_gprs_disconnect_cb data = nwy_cli_print_cb ''GPRS DISCONNECTION'' data"

definition nwy_cli_sms_list_resp_cb :: "buf \<Rightarrow> 's dialog" where
  "nwy_cli_sms_list_resp_cb data = nwy_cli_print_cb ''+CMGL: '' data"

text \<open>The registered prefixes with their functions; the functions without parameter ignore the data.\<close>

definition unsol_table :: "(string \<times> (buf \<Rightarrow> 's dialog)) list" where
  "unsol_table =
     [(''+EUSIM'', \<lambda>data. nwy_cli_pull_out_sim), (''+CMT'', \<lambda>data. nwy_cli_recv_sms), (''+CLIP'', \<lambda>data. nwy_cli_incom_voice),
      (''+ATD'', \<lambda>data. nwy_cli_voice_ind), (''Connect AcceptSocket='', nwy_cli_client_acpt_cb), (''+TCPRECV(S): '', nwy_cli_tcprecvs_cb),
      (''+CLOSECLIENT: '', nwy_cli_acpt_close_cb), (''+TCPSETUP: '', nwy_cli_tcpsetup_cb), (''+TCPRECV: '', nwy_cli_tcprecv_cb),
      (''+TCPCLOSE: '', nwy_cli_tcp_close_cb), (''+UDPRECV: '', nwy_cli_udprecv_cb), (''GPRS DISCONNECTION'', nwy_cli_gprs_disconnect_cb),
      (''+CMGL: '', nwy_cli_sms_list_resp_cb)]"

definition nwy_cli_init_unsol_reg :: "'s dialog \<Rightarrow> 's dialog" where
  "nwy_cli_init_unsol_reg d =
     foldr (\<lambda>p e. Call ''nwy_sdk_at_unsolicited_cb_reg'' [T (str p)] (\<lambda>a. e)) (map fst (unsol_table :: (string \<times> (buf \<Rightarrow> 's dialog)) list)) d"

definition nwy_test_cli_send_virt_at :: "'a os_vars_scheme dialog" where
  "nwy_test_cli_send_virt_at =
     Get (\<lambda>s. if s_nwy_at_init_flag s = 0
       then Call ''nwy_sdk_at_parameter_init'' [] (\<lambda>a. nwy_cli_init_unsol_reg
              (Put (\<lambda>s. s\<lparr>s_nwy_at_init_flag := 1\<rparr>) nwy_cli_virtual_at_test))
       else nwy_cli_virtual_at_test)"

definition nwy_test_cli_reg_at_fwd :: "'s dialog" where
  "nwy_test_cli_reg_at_fwd = Call ''nwy_set_at_forward_cb'' [I 1, T (str ''+FYTEST1'')] (\<lambda>a. Done)"

section \<open>Device information\<close>

definition nwy_test_cli_get_model :: "'s dialog" where
  "nwy_test_cli_get_model = Call ''nwy_dm_get_dev_model'' [I 100] (\<lambda>a. Print (crlf @ str ''Dev model : '' @ text_of a 0) Done)"

definition nwy_test_cli_get_imei :: "'s dialog" where
  "nwy_test_cli_get_imei =
     Call ''nwy_sim_get_imei'' [] (\<lambda>a.
       if ret a \<noteq> 0 then Print (crlf @ str '' Get IMEI error '' @ crlf) Done
       else Print (crlf @ str ''IMEI:'' @ text_of a 0 @ str '' '' @ crlf) Done)"

definition nwy_test_cli_get_chipid :: "'s dialog" where
  "nwy_test_cli_get_chipid =
     Call ''nwy_get_chip_id'' [] (\<lambda>a.
       Print (crlf @ str ''Chip ID : 0x'')
         (foldr (\<lambda>i d. Print (fmt_02x (nat (to_u8 (num a i)))) d) [0..<8] (Print crlf Done)))"

definition boot_causes :: "(nat \<times> string) list" where
  "boot_causes = [(0, ''PWRKEY''), (1, ''PIN_RESET''), (2, ''ALARM''), (3, ''CHARGE''), (4, ''WDG''), (5, ''PIN_WAKEUP''), (6, ''PSM_WAKEUP'')]"

text \<open>The text that the calls of \<open>sprintf\<close> put into \<open>string_buf\<close>.\<close>

definition boot_cause_text :: "u32 \<Rightarrow> buf" where
  "boot_cause_text causes =
     str ''boot cause['' @ fmt_02x (unat causes) @ str '']:'' @
     (if causes = 0 then str '' UNKNOWN''
      else concat (map (\<lambda>(i, n). if bit causes i then str '' '' @ str n else []) boot_causes))"

definition nwy_test_cli_get_boot_cause :: "'s dialog" where
  "nwy_test_cli_get_boot_cause =
     Call ''nwy_get_boot_causes'' [] (\<lambda>a.
       need (c_strcat (replicate 256 0) (boot_cause_text (word_of_int (ret a)))) (\<lambda>b.
         need (arr_text b) (\<lambda>t. Print (crlf @ t @ crlf) Done)))"

definition nwy_test_cli_get_sw_ver :: "'s dialog" where
  "nwy_test_cli_get_sw_ver = Call ''nwy_dm_get_inner_version'' [I 64] (\<lambda>a. Print (crlf @ str ''The sw ver is :'' @ text_of a 0) Done)"

definition nwy_test_cli_get_hw_ver :: "'s dialog" where
  "nwy_test_cli_get_hw_ver = Call ''nwy_dm_get_hw_version'' [I 64] (\<lambda>a. Print (crlf @ str ''The hw ver is :'' @ text_of a 0) Done)"

definition nwy_test_cli_get_heap_info :: "'s dialog" where
  "nwy_test_cli_get_heap_info =
     Call ''nwy_dm_get_device_heapinfo'' [] (\<lambda>a. Print (crlf @ str '' dev heapinfo:'' @ text_of a 0 @ crlf) Done)"

text \<open>\<open>text_of a 0\<close>: the temperature as \<open>%.2f\<close> prints it.\<close>

definition nwy_test_cli_get_cpu_temp :: "'s dialog" where
  "nwy_test_cli_get_cpu_temp =
     Call ''nwy_dm_get_rftemperature'' [] (\<lambda>a. Print (crlf @ str '' temperature is '' @ text_of a 0 @ crlf) Done)"

section \<open>Timers and the clock\<close>

definition start_periodic :: "'a os_vars_scheme dialog" where
  "start_periodic = Get (\<lambda>s. Call ''nwy_start_timer_periodic'' [I (s_nwy_test_timer s), I 1000] (\<lambda>a. Done))"

definition nwy_test_cli_start_timer :: "'a os_vars_scheme dialog" where
  "nwy_test_cli_start_timer =
     Get (\<lambda>s. if s_nwy_test_timer s = 0
       then Call ''nwy_timer_init'' [] (\<lambda>a. Put (\<lambda>s. s\<lparr>s_nwy_test_timer := ret a\<rparr>) start_periodic)
       else start_periodic)"

definition nwy_test_cli_stop_timer :: "'a os_vars_scheme dialog" where
  "nwy_test_cli_stop_timer =
     Get (\<lambda>s. Call ''nwy_stop_timer'' [I (s_nwy_test_timer s)] (\<lambda>a.
       if ret a \<noteq> 0 then Print (crlf @ str ''Stop timer sucess'') Done else Print (crlf @ str ''Stop timer fail'') Done))"

text \<open>\<open>num\<close>: year, month, day, hour, minute, second.\<close>

definition nwy_test_cli_get_time :: "'s dialog" where
  "nwy_test_cli_get_time =
     Call ''nwy_get_time'' [] (\<lambda>a.
       Print (crlf @ fmt_d (num a 0) @ str ''-'' @ fmt_d (num a 1) @ str ''-'' @ fmt_d (num a 2) @ str '' '' @
         fmt_d (num a 3) @ str '':'' @ fmt_d (num a 4) @ str '':'' @ fmt_d (num a 5) @ crlf) Done)"

text \<open>\<open>strtok\<close> with a separator of one character: the successive tokens. A token that is missing is a null pointer, which
  \<open>atoi\<close> follows.\<close>

function strtok_all :: "u8 \<Rightarrow> buf \<Rightarrow> buf list" where
  "strtok_all c t =
     (let t1 = dropWhile (\<lambda>x. x = c) t
      in if t1 = [] then [] else takeWhile (\<lambda>x. x \<noteq> c) t1 # strtok_all c (dropWhile (\<lambda>x. x \<noteq> c) t1))"
  by pat_completeness auto
termination
proof (relation "measure (\<lambda>(c, t). length t)")
  fix c :: u8 and t t1 :: buf
  assume "t1 = dropWhile (\<lambda>x. x = c) t" and "t1 \<noteq> []"
  then have "hd t1 \<noteq> c" using hd_dropWhile [of "\<lambda>x. x = c" t] by simp
  with \<open>t1 \<noteq> []\<close> have "length (dropWhile (\<lambda>x. x \<noteq> c) t1) < length t1"
    using length_dropWhile_le [of "\<lambda>x. x \<noteq> c" "tl t1"] by (cases t1) simp_all
  moreover have "length t1 \<le> length t" using \<open>t1 = _\<close> by (simp add: length_dropWhile_le)
  ultimately show "((c, dropWhile (\<lambda>x. x \<noteq> c) t1), c, t) \<in> measure (\<lambda>(c, t). length t)" by simp
qed simp

declare strtok_all.simps [simp del]

definition token_int :: "u8 \<Rightarrow> buf \<Rightarrow> nat \<Rightarrow> int option" where
  "token_int c t i = map_option c_atoi (rd (strtok_all c t) i)"

definition three_ints :: "u8 \<Rightarrow> buf \<Rightarrow> (int \<times> int \<times> int) option" where
  "three_ints c b = do { t \<leftarrow> arr_text b; x \<leftarrow> token_int c t 0; y \<leftarrow> token_int c t 1; z \<leftarrow> token_int c t 2; Some (x, y, z) }"

definition nwy_test_cli_set_time :: "'s dialog" where
  "nwy_test_cli_set_time =
     Ask (prompt ''Please input data(2020-1-1): '') (\<lambda>b. need (three_ints 0x2D b) (\<lambda>(year, mon, day).
       Ask (prompt ''Please input time(1:1:1): '') (\<lambda>b. need (three_ints 0x3A b) (\<lambda>(hour, min, sec).
         Call ''nwy_set_time'' [I (to_u16 year), I (to_u8 mon), I (to_u8 day), I (to_u8 hour), I (to_u8 min), I (to_u8 sec), I 0] (\<lambda>a.
           echo ''set time sucess'' nwy_test_cli_get_time)))))"

section \<open>Commands, causes and times\<close>

lemma c_str_no_zero: "0 \<notin> set (c_str b)"
  by (auto simp: c_str_def dest: set_takeWhileD)

text \<open>A command fits with its line end and a terminator.\<close>

lemma at_command_eq: "at_command b = (if terminated b \<and> length (c_str b) < 1022 then Some (c_str b @ [13, 10]) else None)"
proof (cases "terminated b \<and> length (c_str b) \<le> 1024")
  case True
  let ?t = "c_str b"
  have z: "0 \<notin> set (?t @ [13, 10])" using c_str_no_zero [of b] by simp
  show ?thesis
  proof (cases "length ?t < 1022")
    case fits: True
    have "1024 - length ?t = Suc (Suc (Suc (1021 - length ?t)))" using fits by simp
    then obtain k where k: "1024 - length ?t = Suc (Suc (Suc k))" ..
    have "(?t @ replicate (1024 - length ?t) 0)[length ?t := 13, Suc (length ?t) := 10] = (?t @ [13, 10]) @ 0 # replicate k 0"
      by (simp add: k list_update_append)
    moreover have "c_str ((?t @ [13, 10]) @ 0 # replicate k 0) = ?t @ [13, 10]" "terminated ((?t @ [13, 10]) @ 0 # replicate k 0)"
      using c_str_append_zero [OF z] by (simp_all add: terminated_def)
    ultimately show ?thesis using True fits by (simp add: at_command_def line_copy_eq wr_def)
  next
    case False
    then consider "length ?t = 1022" | "length ?t = 1023" | "length ?t = 1024" using True by linarith
    then show ?thesis
    proof cases
      case 1
      then show ?thesis using True z by (simp add: at_command_def line_copy_eq wr_def list_update_append numeral_2_eq_2 arr_text_def terminated_def)
    qed (use True in \<open>simp_all add: at_command_def line_copy_eq wr_def\<close>)
  qed
next
  case False
  then show ?thesis by (auto simp: at_command_def line_copy_eq arr_text_def)
qed

lemma hex_digits_length: "n < 16 ^ Suc k \<Longrightarrow> length (hex_digits n) \<le> Suc k"
proof (induction k arbitrary: n)
  case 0
  then show ?case by (subst hex_digits.simps) simp
next
  case (Suc k)
  then have "n div 16 < 16 ^ Suc k" by (simp add: less_mult_imp_div_less mult.commute)
  from Suc.IH [OF this] show ?case by (subst hex_digits.simps) auto
qed

text \<open>A text printed into a cleared array of \<open>n\<close> bytes and read back.\<close>

lemma cleared_cat_text:
  assumes "0 \<notin> set t" and "length t < n"
  shows "\<exists>b. c_strcat (replicate n 0) t = Some b \<and> arr_text b = Some t"
proof -
  have "c_strcat (replicate n 0) t = Some (t @ 0 # drop (length t + 1) (replicate n 0))"
    using c_strcat_Some [of "replicate n 0" t] assms by simp
  then show ?thesis using assms(1) by (simp add: arr_text_def terminated_def c_str_append_zero)
qed

lemma boot_cause_fits: "0 \<notin> set (boot_cause_text c)" "length (boot_cause_text c) < 256"
proof -
  have "unat c < 16 ^ Suc 7" using unsigned_less [of c, where ?'a = nat] by simp
  then have "length (hex_digits (unat c)) \<le> Suc 7" by (rule hex_digits_length)
  then have "length (fmt_02x (unat c)) \<le> 8" by (simp add: fmt_02x_def Let_def)
  then show "length (boot_cause_text c) < 256" by (auto simp: boot_cause_text_def boot_causes_def)
  show "0 \<notin> set (boot_cause_text c)" by (simp add: boot_cause_text_def boot_causes_def str_def)
qed

text \<open>Three numbers, printed with a separator, are read back.\<close>

lemma strtok_all_cons:
  assumes "t \<noteq> []" and "c \<notin> set t"
  shows "strtok_all c (t @ c # r) = t # strtok_all c r" and "strtok_all c t = [t]"
proof -
  have d: "dropWhile (\<lambda>x. x = c) (t @ r') = t @ r'" for r' using assms by (cases t) auto
  have w: "takeWhile (\<lambda>x. x \<noteq> c) (t @ c # r) = t" "dropWhile (\<lambda>x. x \<noteq> c) (t @ c # r) = c # r"
    using assms(2) by (induction t) auto
  have "strtok_all c (c # r) = strtok_all c r" by (subst (1 2) strtok_all.simps) simp
  then show "strtok_all c (t @ c # r) = t # strtok_all c r"
    using assms(1) d [of "c # r"] w by (subst strtok_all.simps) (simp add: Let_def)
  have e: "takeWhile (\<lambda>x. x \<noteq> c) t = t" "dropWhile (\<lambda>x. x \<noteq> c) t = []" using assms(2) by auto
  show "strtok_all c t = [t]" using assms(1) d [of "[]"] by (subst strtok_all.simps) (simp add: Let_def e strtok_all.simps [of c "[]"])
qed

lemma separator_notin_fmt_d: "0 \<le> v \<Longrightarrow> \<not> is_digit c \<Longrightarrow> c \<notin> set (fmt_d v)"
  using dec_digits_are_digits [of "nat v"] by (auto simp: fmt_d_def list_all_iff)

lemma three_ints_printed:
  assumes "0 \<le> x" "x \<le> int_max" "0 \<le> y" "y \<le> int_max" "0 \<le> z" "z \<le> int_max" and "\<not> is_digit c" and "c \<noteq> 0"
  shows "three_ints c (fmt_d x @ c # fmt_d y @ c # fmt_d z @ 0 # r) = Some (x, y, z)"
proof -
  let ?t = "fmt_d x @ c # fmt_d y @ c # fmt_d z"
  have "0 \<notin> set ?t" using assms(8) by simp
  then have "c_str (?t @ 0 # r) = ?t" by (rule c_str_append_zero)
  then have t: "arr_text (fmt_d x @ c # fmt_d y @ c # fmt_d z @ 0 # r) = Some ?t" by (simp add: arr_text_def terminated_def)
  have ne: "fmt_d v \<noteq> []" for v by (simp add: fmt_d_def)
  have "strtok_all c ?t = [fmt_d x, fmt_d y, fmt_d z]"
    using strtok_all_cons [OF ne separator_notin_fmt_d [OF _ assms(7)]] assms(1,3,5) by simp
  then show ?thesis using assms by (simp add: three_ints_def t token_int_def rd_def atoi_fmt_d)
qed

lemma three_ints_iff: "three_ints c b \<noteq> None \<longleftrightarrow> terminated b \<and> 3 \<le> length (strtok_all c (c_str b))"
  by (auto simp: three_ints_def arr_text_def token_int_def rd_def Option.bind_eq_Some_conv)

end
