(* ===== verification/CliMobile.thy ===== *)
theory CliMobile
  imports CliOs
begin

text \<open>
  The mobile-network functions of the test program, src/nwy_test_cli/modules/nwy_test_cli_mobile.c, as dialogs: SIM card, data
  calls, network, voice calls and short messages. Two callbacks of the module change variables the functions read: the state of
  the data calls and the result of the network scan.
\<close>

section \<open>Variables\<close>

text \<open>\<open>nwy_nw_net_scan_item_t\<close> with the names that are used, \<open>nwy_nw_net_scan_list_t\<close> with its 10 places, and the serving cell
  record that \<open>nwy_nw_get_netmsg\<close> fills later.\<close>

record scan_item =
  net_status :: int
  net_rat :: int
  net_mcc :: buf
  net_mnc :: buf
  long_eons :: buf
  short_eons :: buf

record scan_list =
  scan_result :: int
  scan_num :: int
  net_list :: "scan_item list"

record netmsg =
  is_over :: int
  curr_rat :: int
  cell_values :: "nat \<Rightarrow> int"

record mobile_vars = os_vars +
  ppp_state :: "int list"
  scan_finish :: int
  nw_scan_list :: scan_list
  pNetmsg :: netmsg

section \<open>The SIM card\<close>

definition nwy_test_cli_get_sim_status :: "'s dialog" where
  "nwy_test_cli_get_sim_status =
     Call ''nwy_sim_get_card_status'' [] (\<lambda>a.
       if ret a = 0 then echo ''NWY_SIM_STATUS_READY!'' Done
       else if ret a = 1 then echo ''NWY_SIM_STATUS_NOT_INSERT!'' Done
       else if ret a = 2 then echo ''NWY_SIM_STATUS_PIN1!'' Done
       else if ret a = 3 then echo ''NWY_SIM_STATUS_PUK1!'' Done
       else if ret a = 4 then echo ''NWY_SIM_STATUS_BUSY!'' Done
       else echo ''NWY_SIM_STATUS_GET_ERROR!'' Done)"

text \<open>The message that depends on the returned number.\<close>

definition verdict :: "answer \<Rightarrow> string \<Rightarrow> string \<Rightarrow> 's dialog" where
  "verdict a good bad = (if ret a \<noteq> 0 then echo bad Done else echo good Done)"

definition nwy_test_cli_verify_pin :: "'s dialog" where
  "nwy_test_cli_verify_pin =
     ask_int (prompt ''Please input simid: '') (\<lambda>simid.
       Ask (prompt ''Please input pin string: '') (\<lambda>b. need (line_copy 10 b) (\<lambda>pin. need (arr_text pin) (\<lambda>pin.
         Call ''nwy_sim_verify_pin'' [I simid, T pin] (\<lambda>a. verdict a ''nwy verify pin success!'' ''nwy verify pin fail!'')))))"

definition nwy_test_cli_get_pin_mode :: "'s dialog" where
  "nwy_test_cli_get_pin_mode =
     Call ''nwy_sim_get_pin_mode'' [] (\<lambda>a.
       if ret a = 0 then Print (crlf @ str ''pin_mode: '' @ fmt_d (num a 0) @ crlf) Done else echo ''get pin mode fail!'' Done)"

definition option_not_supported :: "'s dialog" where
  "option_not_supported = echo ''Option not Supported!'' Done"

definition nwy_test_cli_set_pin_mode :: "'s dialog" where
  "nwy_test_cli_set_pin_mode = option_not_supported"

definition nwy_test_cli_change_pin :: "'s dialog" where
  "nwy_test_cli_change_pin = option_not_supported"

definition nwy_test_cli_verify_puk :: "'s dialog" where
  "nwy_test_cli_verify_puk =
     ask_int (prompt ''Please input simid: '') (\<lambda>simid.
       Ask (prompt ''Please input puk string: '') (\<lambda>b. need (line_copy 10 b) (\<lambda>puk.
         Ask (prompt ''Please input new pin string: '') (\<lambda>b. need (line_copy 10 b) (\<lambda>new_pin.
           need (arr_text puk) (\<lambda>puk. need (arr_text new_pin) (\<lambda>new_pin.
             Call ''nwy_sim_unblock'' [I simid, T puk, T new_pin] (\<lambda>a.
               verdict a ''nwy verify puk success!'' ''nwy verify puk fail!''))))))))"

definition nwy_test_cli_get_imsi :: "'s dialog" where
  "nwy_test_cli_get_imsi =
     Call ''nwy_sim_get_imsi'' [] (\<lambda>a.
       if ret a = 0 then Print (crlf @ str ''imsi: '' @ text_of a 0 @ crlf) Done else echo ''get imsi fail!!'' Done)"

definition nwy_test_cli_get_iccid :: "'s dialog" where
  "nwy_test_cli_get_iccid =
     Call ''nwy_sim_get_iccid'' [] (\<lambda>a.
       if ret a = 0 then Pause 1000 (Print (crlf @ str ''iccid: '' @ text_of a 0 @ crlf) Done) else echo ''get sim iccid fail!!'' Done)"

definition nwy_test_cli_get_msisdn :: "'s dialog" where
  "nwy_test_cli_get_msisdn =
     ask_int (prompt ''Please input simid: '') (\<lambda>simid.
       Call ''nwy_sim_get_msisdn'' [I simid, I 128] (\<lambda>a.
         if ret a \<noteq> 0 then echo ''get msisdn fail!!'' Done else Print (crlf @ str ''msisdn: '' @ text_of a 0 @ crlf) Done))"

definition nwy_test_cli_set_msisdn :: "'s dialog" where
  "nwy_test_cli_set_msisdn = option_not_supported"

definition nwy_test_cli_get_sim_slot :: "'s dialog" where
  "nwy_test_cli_get_sim_slot =
     Call ''nwy_sim_get_simid'' [] (\<lambda>a. Print (crlf @ str '' simid: '' @ fmt_d (to_u8 (ret a)) @ str '' '' @ crlf) Done)"

definition nwy_test_cli_set_sim_slot :: "'s dialog" where
  "nwy_test_cli_set_sim_slot =
     ask_int (prompt ''Please input switch simid: '') (\<lambda>v.
       Call ''nwy_sim_set_simid'' [I (to_u8 v)] (\<lambda>a. verdict a ''nwy set switch simid success!'' ''nwy set switch simid fail!''))"

section \<open>Data calls\<close>

definition NWY_DATA_CALL_MAX_NUM :: nat where
  "NWY_DATA_CALL_MAX_NUM = 7"

text \<open>The callback of the data service, and the question whether a call is connected.\<close>

definition nwy_test_cli_data_cb_fun :: "int \<Rightarrow> int \<Rightarrow> 'a mobile_vars_scheme dialog" where
  "nwy_test_cli_data_cb_fun hndl ind_state =
     (if 0 < hndl \<and> hndl \<le> 8
      then Get (\<lambda>s. need (wr (ppp_state s) (nat (hndl - 1)) ind_state) (\<lambda>ps. Put (\<lambda>s. s\<lparr>ppp_state := ps\<rparr>)
             (Print (crlf @ str ''Data call status update, handle_id:'' @ fmt_d hndl @ str '',state:'' @ fmt_d ind_state @ crlf) Done)))
      else Done)"

fun check_connect_from :: "nat \<Rightarrow> nat \<Rightarrow> int list \<Rightarrow> int option" where
  "check_connect_from 0 i ps = Some 0"
| "check_connect_from (Suc n) i ps = do { v \<leftarrow> rd ps i; if v = 1 then Some 1 else check_connect_from n (i + 1) ps }"

definition nwy_test_cli_check_data_connect :: "'a mobile_vars_scheme \<Rightarrow> int option" where
  "nwy_test_cli_check_data_connect s = check_connect_from NWY_DATA_CALL_MAX_NUM 0 (ppp_state s)"

definition nwy_test_cli_data_create :: "'s dialog" where
  "nwy_test_cli_data_create =
     Call ''nwy_data_get_srv_handle'' [] (\<lambda>a.
       if 0 < ret a then Print (crlf @ str ''Create a Resource Handle id: '' @ fmt_d (ret a) @ str '' success'' @ crlf) Done
       else Print (crlf @ str ''Create a Resource Handle id: '' @ fmt_d (ret a) @ str '' fail'' @ crlf) Done)"

definition ask_profile_id :: "string \<Rightarrow> (int \<Rightarrow> 's dialog) \<Rightarrow> 's dialog" where
  "ask_profile_id p k =
     ask_int (prompt p) (\<lambda>profile_id.
       if profile_id \<le> 0 \<or> 7 < profile_id then Print (crlf @ str ''Invaild profile id: '' @ fmt_d profile_id @ crlf) Done
       else k profile_id)"

text \<open>\<open>num\<close>: \<open>pdp_type\<close>, \<open>auth_proto\<close>; \<open>text_of\<close>: \<open>apn\<close>, \<open>user_name\<close>, \<open>pwd\<close>.\<close>

definition nwy_test_cli_get_profile :: "'s dialog" where
  "nwy_test_cli_get_profile =
     ask_profile_id ''Please input profile index: (1-7)'' (\<lambda>profile_id.
       Call ''nwy_data_get_profile'' [I profile_id, I 0] (\<lambda>a.
         if ret a \<noteq> 0 then Print (crlf @ str ''Read profile '' @ fmt_d profile_id @ str '' info fail, result'' @ fmt_d (ret a) @ crlf) Done
         else Print (crlf @ str ''Profile '' @ fmt_d profile_id @ str '' info: <pdp_type>,<auth_proto>,<apn>,<user_name>,<password>'' @ crlf @
                fmt_d (num a 0) @ str '','' @ fmt_d (num a 1) @ str '','' @ text_of a 0 @ str '','' @ text_of a 1 @ str '','' @ text_of a 2 @ crlf) Done))"

text \<open>A text of the profile: at most \<open>m\<close> characters, of which \<open>m + 1\<close> bytes of the input array are copied.\<close>

definition ask_profile_text :: "string \<Rightarrow> nat \<Rightarrow> string \<Rightarrow> (buf \<Rightarrow> 's dialog) \<Rightarrow> 's dialog" where
  "ask_profile_text p m bad k =
     Ask (prompt p @ fmt_d (int m) @ str '')'' @ crlf) (\<lambda>b. need (arr_text b) (\<lambda>t.
       if m < length t then echo bad Done else need (buf_read b 0 (m + 1)) k))"

definition nwy_test_cli_set_profile :: "'s dialog" where
  "nwy_test_cli_set_profile =
     ask_profile_id ''Please input profile info: profile_id <1-7>'' (\<lambda>profile_id.
       ask_int (prompt ''Please input profile info: auth_proto <0-2>'' @ crlf @ str ''0:NONE, 1:PAP, 2:CHAP'' @ crlf) (\<lambda>auth_proto.
         if auth_proto < 0 \<or> 2 < auth_proto then Print (crlf @ str ''Invaild auth_proto value: '' @ fmt_d auth_proto @ crlf) Done
         else ask_int (prompt ''Please input profile info: pdp_type <1-3,6>'' @ crlf @ str ''1:IPV4, 2:IPV6, 3:IPV4V6, 6:PPP'' @ crlf) (\<lambda>pdp_type.
           if pdp_type \<noteq> 1 \<and> pdp_type \<noteq> 2 \<and> pdp_type \<noteq> 3 \<and> pdp_type \<noteq> 6
           then Print (crlf @ str ''Invaild pdp_type value: '' @ fmt_d pdp_type @ crlf) Done
           else ask_profile_text ''Please input profile info: apn (length 0-'' 50 ''Invaild apn len'' (\<lambda>apn.
             ask_profile_text ''Please input profile info: user name (length 0-'' 21 ''Invaild user name len'' (\<lambda>user_name.
               ask_profile_text ''Please input profile info: password(length 0-'' 20 ''Invaild password len'' (\<lambda>pwd.
                 Call ''nwy_data_set_profile'' [I profile_id, I 0, I pdp_type, T apn, I auth_proto, T user_name, T pwd] (\<lambda>a.
                   if ret a \<noteq> 0 then Print (crlf @ str ''Set profile '' @ fmt_d profile_id @ str '' info fail, result<'' @ fmt_d (ret a) @ str ''>'' @ crlf) Done
                   else Print (crlf @ str ''Set profile '' @ fmt_d profile_id @ str '' info success'' @ crlf) Done)))))))"

definition handle_prompt :: buf where
  "handle_prompt = prompt ''Please select resource handle id <1-'' @ fmt_d (int NWY_DATA_CALL_MAX_NUM) @ str ''>''"

definition invalid_handle :: "int \<Rightarrow> 's dialog" where
  "invalid_handle hndl = Print (crlf @ str ''Invaild resource handle id: '' @ fmt_d hndl @ crlf) Done"

definition ask_handle :: "(int \<Rightarrow> 's dialog) \<Rightarrow> 's dialog" where
  "ask_handle k =
     ask_int handle_prompt (\<lambda>hndl. if hndl \<le> 0 \<or> int NWY_DATA_CALL_MAX_NUM < hndl then invalid_handle hndl else k hndl)"

text \<open>\<open>param_t\<close> is passed as its fields: profile, automatic reconnection, number of attempts, interval.\<close>

definition start_data_call :: "int \<Rightarrow> int \<Rightarrow> int \<Rightarrow> int \<Rightarrow> int \<Rightarrow> 's dialog" where
  "start_data_call hndl profile_idx is_auto_recon auto_re_max auto_interval_ms =
     Call ''nwy_data_start_call'' [I hndl, I profile_idx, I (to_u8 is_auto_recon), I (to_u16 auto_re_max), I (to_u32 auto_interval_ms)] (\<lambda>a.
       if ret a \<noteq> 0 then Print (crlf @ str ''Start data call fail, result<'' @ fmt_d (ret a) @ str ''>'' @ crlf) Done
       else echo ''Start data call ...'' Done)"

definition nwy_test_cli_data_start :: "'s dialog" where
  "nwy_test_cli_data_start =
     ask_handle (\<lambda>hndl. ask_profile_id ''Please select profile: profile_id <1-7>'' (\<lambda>profile_id.
       ask_int (prompt ''Please set auto_connect: 0 Disable, 1 Enable'') (\<lambda>is_auto_recon.
         if is_auto_recon \<noteq> 0 \<and> is_auto_recon \<noteq> 1 then Print (crlf @ str ''Invaild auto_connect: '' @ fmt_d is_auto_recon @ crlf) Done
         else if is_auto_recon = 1
         then ask_int (prompt ''Please set auto_connect maximum times: 0 Always Re_connect, [1-65535] maximum_times'') (\<lambda>auto_re_max.
           if auto_re_max < 0 \<or> 65535 < auto_re_max
           then Print (crlf @ str ''Invaild auto_connect maximum times : '' @ fmt_d auto_re_max @ crlf) Done
           else ask_int (prompt ''Please set auto_connect interval (ms): [100,86400000]'') (\<lambda>auto_interval_ms.
             if auto_interval_ms < 100 \<or> 86400000 < auto_interval_ms
             then Print (crlf @ str ''Invaild auto_connect interval: '' @ fmt_d auto_interval_ms @ crlf) Done
             else start_data_call hndl profile_id is_auto_recon auto_re_max auto_interval_ms))
         else start_data_call hndl profile_id is_auto_recon 0 0)))"

text \<open>\<open>text_of\<close>: the addresses as the module prints them, IPv4 and IPv6 of the interface and of the two name servers.\<close>

definition nwy_test_cli_data_info :: "'s dialog" where
  "nwy_test_cli_data_info =
     ask_handle (\<lambda>hndl. Call ''nwy_data_get_ip_addr'' [I hndl] (\<lambda>a.
       if ret a \<noteq> 0 then Print (crlf @ str ''Get data info fail, result<'' @ fmt_d (ret a) @ str ''>'' @ crlf) Done
       else Print (crlf @ str ''Get data info success'' @ crlf @ str ''Iface address: '' @ text_of a 0 @ str '','' @ text_of a 1 @ crlf)
         (Print (str ''Dnsp address: '' @ text_of a 2 @ str '','' @ text_of a 3 @ crlf)
           (Print (str ''Dnss address: '' @ text_of a 4 @ str '','' @ text_of a 5 @ crlf) Done))))"

definition nwy_test_cli_data_stop :: "'s dialog" where
  "nwy_test_cli_data_stop =
     ask_handle (\<lambda>hndl. Call ''nwy_data_stop_call'' [I hndl] (\<lambda>a.
       if ret a \<noteq> 0 then Print (crlf @ str ''Stop data call fail, result<'' @ fmt_d (ret a) @ str ''>'' @ crlf) Done
       else echo ''Stop data call ...'' Done))"

definition nwy_test_cli_data_release :: "'s dialog" where
  "nwy_test_cli_data_release =
     ask_int handle_prompt (\<lambda>hndl.
       if hndl < 0 \<or> int NWY_DATA_CALL_MAX_NUM < hndl then invalid_handle hndl
       else Call ''nwy_data_relealse_srv_handle'' [I hndl] (\<lambda>a. Print (crlf @ str ''Release resource handle id '' @ fmt_d hndl @ crlf) Done))"

section \<open>Connected calls\<close>

lemma check_connect_eq:
  "i + n \<le> length ps \<Longrightarrow> check_connect_from n i ps = Some (if \<exists>k. i \<le> k \<and> k < i + n \<and> ps ! k = 1 then 1 else 0)"
proof (induction n arbitrary: i)
  case (Suc n)
  have "(\<exists>k. i \<le> k \<and> k < i + Suc n \<and> ps ! k = 1) \<longleftrightarrow> ps ! i = 1 \<or> (\<exists>k. Suc i \<le> k \<and> k < Suc i + n \<and> ps ! k = 1)"
    by (metis Suc_leD Suc_leI add_Suc_right add_Suc_shift le_neq_implies_less le_refl less_add_Suc1)
  with Suc.IH [of "Suc i"] Suc.prems show ?case by (simp add: rd_def)
qed simp

text \<open>connected data calls are noticed. The callback never leaves its array, whatever handle the module reports; and after
  it has reported a connection, the test for a connection says yes if the handle is one of 1 to 7, and otherwise what it said before:
  handle 8 is stored but not looked at, all others are ignored.\<close>

theorem data_connection_noticed:
  assumes "length (ppp_state s) = 10"
  shows "\<exists>s'. snd (run (nwy_test_cli_data_cb_fun hndl 1) s es) = Returned s' es \<and> length (ppp_state s') = 10 \<and>
    nwy_test_cli_check_data_connect s' = (if 1 \<le> hndl \<and> hndl \<le> 7 then Some 1 else nwy_test_cli_check_data_connect s)"
proof (cases "1 \<le> hndl \<and> hndl \<le> 8")
  case True
  then have k: "nat (hndl - 1) < length (ppp_state s)" using assms by auto
  have "(\<exists>k<7. (ppp_state s)[nat (hndl - 1) := 1] ! k = 1) \<longleftrightarrow> hndl \<le> 7 \<or> (\<exists>k<7. ppp_state s ! k = 1)"
  proof (cases "hndl \<le> 7")
    case le: True
    then have "nat (hndl - 1) < 7" "(ppp_state s)[nat (hndl - 1) := 1] ! nat (hndl - 1) = 1" using k True by auto
    with le show ?thesis by blast
  next
    case False
    then have "nat (hndl - 1) = 7" using True by auto
    with False show ?thesis by (auto simp: nth_list_update)
  qed
  then show ?thesis using True k assms
    by (simp add: nwy_test_cli_data_cb_fun_def nwy_test_cli_check_data_connect_def check_connect_eq NWY_DATA_CALL_MAX_NUM_def wr_def)
next
  case False
  then show ?thesis using assms by (auto simp: nwy_test_cli_data_cb_fun_def)
qed

theorem data_connection_noticed_witness:
  "\<exists>s'. snd (run (nwy_test_cli_data_cb_fun 3 1) \<lparr>s_nwy_test_timer = 0, s_nwy_semaphore_count = 0, s_nwy_cli_semaphore = 0, s_nwy_at_init_flag = 0,
       ppp_state = replicate 10 0, scan_finish = 0, nw_scan_list = \<lparr>scan_result = 0, scan_num = 0, net_list = []\<rparr>,
       pNetmsg = \<lparr>is_over = 0, curr_rat = 0, cell_values = \<lambda>i. 0\<rparr>\<rparr> []) = Returned s' [] \<and>
     nwy_test_cli_check_data_connect s' = Some 1"
  using data_connection_noticed [of "\<lparr>s_nwy_test_timer = 0, s_nwy_semaphore_count = 0, s_nwy_cli_semaphore = 0, s_nwy_at_init_flag = 0,
       ppp_state = replicate 10 0, scan_finish = 0, nw_scan_list = \<lparr>scan_result = 0, scan_num = 0, net_list = []\<rparr>,
       pNetmsg = \<lparr>is_over = 0, curr_rat = 0, cell_values = \<lambda>i. 0\<rparr>\<rparr>" 3 "[]"] by auto

end
