(* ===== verification/CliNetwork.thy ===== *)
theory CliNetwork
  imports CliMobile HexText
begin

text \<open>
  The second half of src/nwy_test_cli/modules/nwy_test_cli_mobile.c: network, voice calls and short messages.
\<close>

section \<open>Operators\<close>

definition cmcc_plmn :: "string list" where
  "cmcc_plmn = [''46000'', ''46002'', ''46004'', ''46007'', ''46008'', ''46013'', ''46020'', ''45412'', ''45413'']"

definition unicom_plmn :: "string list" where
  "unicom_plmn = [''46001'', ''46006'', ''46009'', ''46010'']"

definition ct_plmn :: "string list" where
  "ct_plmn = [''46003'', ''46005'', ''46011'', ''46012'', ''46059'', ''45502'', ''45507'']"

text \<open>\<open>strncmp (plmn, p, strlen (p)) == 0\<close> for a text \<open>plmn\<close>.\<close>

definition plmn_matches :: "buf \<Rightarrow> string \<Rightarrow> bool" where
  "plmn_matches plmn p = (take (length p) plmn = str p)"

definition nwy_network_util_get_oper_type :: "buf option \<Rightarrow> int" where
  "nwy_network_util_get_oper_type plmn_buf =
     (case plmn_buf of None \<Rightarrow> 3 | Some plmn \<Rightarrow>
        if list_ex (plmn_matches plmn) cmcc_plmn then 0
        else if list_ex (plmn_matches plmn) unicom_plmn then 1
        else if list_ex (plmn_matches plmn) ct_plmn then 2
        else 3)"

section \<open>The network\<close>

definition nwy_test_cli_nw_get_mode :: "'s dialog" where
  "nwy_test_cli_nw_get_mode =
     Call ''nwy_nw_get_network_mode'' [] (\<lambda>a.
       if ret a = 0
       then if num a 0 = 2 then Print (crlf @ str ''Current Network mode: GSM ('' @ fmt_d (num a 0) @ str '')'' @ crlf) Done
            else if num a 0 = 4 then Print (crlf @ str ''Current Network mode: LTE ('' @ fmt_d (num a 0) @ str '')'' @ crlf) Done
            else Done
       else echo ''Get Network mode Failed!!!'' Done)"

definition nwy_test_cli_nw_set_mode :: "'s dialog" where
  "nwy_test_cli_nw_set_mode =
     ask_int (prompt ''Please select network mode (0 - AUTO,2 - GSM,4 - LTE):'') (\<lambda>mode.
       if mode = 0 \<or> mode = 2 \<or> mode = 4
       then Call ''nwy_nw_set_network_mode'' [I mode] (\<lambda>a. echo ''Set network mode over'' Done)
       else echo ''Input Wrong network mode!!!'' Done)"

definition NWY_NW_FPLMN_LIST_MAX :: nat where
  "NWY_NW_FPLMN_LIST_MAX = 64"

definition NWY_NW_SCAN_LIST_MAX :: nat where
  "NWY_NW_SCAN_LIST_MAX = 10"

text \<open>\<open>num a 0\<close>: the number of entries; \<open>text_of\<close>: country and network code of the entries in turn. The array has 64 entries.\<close>

fun fplmn_loop :: "nat \<Rightarrow> nat \<Rightarrow> answer \<Rightarrow> 's dialog \<Rightarrow> 's dialog" where
  "fplmn_loop 0 i a d = d"
| "fplmn_loop (Suc n) i a d =
     (if NWY_NW_FPLMN_LIST_MAX \<le> i then Fault
      else Print (crlf @ text_of a (2 * i) @ str '' - '' @ text_of a (2 * i + 1)) (fplmn_loop n (i + 1) a d))"

definition nwy_test_cli_nw_get_fplmn :: "'s dialog" where
  "nwy_test_cli_nw_get_fplmn =
     Call ''nwy_nw_get_forbidden_plmn'' [] (\<lambda>a.
       if ret a = 0
       then Print (crlf @ str ''Get FPLMN list '' @ fmt_d (num a 0)) (fplmn_loop (nat (num a 0)) 0 a (Print crlf Done))
       else echo ''Get FPLMN List Failed!!!'' Done)"

text \<open>The callback of the scan.\<close>

definition scan_net_rat :: "string list" where
  "scan_net_rat = [''GSM'', ''GSM compact'', ''UTRAN'', ''GSM w/EGPRS'', ''UTRAN w/HSDPA'', ''UTRAN w/HSUPA'', ''UTRAN w/HSDPA and HSUPA'',
     ''E-UTRAN'', ''EC-GSM-Iot(A/Gb mode)'']"

definition scan_net_status :: "string list" where
  "scan_net_status = [''UNKNOWN'', ''AVAILABLE'', ''CURRENT'', ''FORBIDDEN'']"

definition rd_at :: "'a list \<Rightarrow> int \<Rightarrow> 'a option" where
  "rd_at xs i = (if i < 0 then None else rd xs (nat i))"

fun scan_print :: "nat \<Rightarrow> nat \<Rightarrow> scan_item list \<Rightarrow> 's dialog \<Rightarrow> 's dialog" where
  "scan_print 0 i items d = d"
| "scan_print (Suc n) i items d =
     Print (crlf @ str ''Index: '' @ fmt_d (int i) @ crlf) (need (rd items i) (\<lambda>it.
       need (arr_text (net_mcc it)) (\<lambda>mcc. need (arr_text (net_mnc it)) (\<lambda>mnc. Print (str ''MCC-MNC:'' @ mcc @ str ''-'' @ mnc @ crlf)
         (need (arr_text (long_eons it)) (\<lambda>le. Print (str ''Long EONS:'' @ le @ crlf)
           (need (arr_text (short_eons it)) (\<lambda>se. Print (str ''Short EONS:'' @ se @ crlf)
             (need (rd_at scan_net_status (net_status it)) (\<lambda>st. Print (str ''Net Status:'' @ str st @ crlf)
               (need (rd_at scan_net_rat (net_rat it)) (\<lambda>rat. Print (str ''Net Rat:'' @ str rat @ crlf)
                 (scan_print n (i + 1) items d)))))))))))))"

definition nwy_network_test_scan_cb :: "scan_list option \<Rightarrow> 'a mobile_vars_scheme dialog" where
  "nwy_network_test_scan_cb l =
     (case l of None \<Rightarrow> Done | Some l \<Rightarrow>
        let store = Print (crlf @ str ''Start Test Select Network...'' @ crlf)
              (Put (\<lambda>s. s\<lparr>nw_scan_list := l\<rparr>) (Put (\<lambda>s. s\<lparr>scan_finish := 1\<rparr>) Done))
        in if scan_result l \<noteq> 1 then Print (crlf @ str ''Manual network Scan failed'' @ crlf) store
           else Print (crlf @ str ''Manual Scan Result: '' @ fmt_d (scan_num l)) (scan_print (nat (scan_num l)) 0 (net_list l) store))"

text \<open>The networks offered: those of the operator of the card. \<open>plmn_str\<close> has 10 bytes.\<close>

fun select_list :: "nat \<Rightarrow> nat \<Rightarrow> int \<Rightarrow> scan_item list \<Rightarrow> 's dialog \<Rightarrow> 's dialog" where
  "select_list 0 i opertor_type items d = d"
| "select_list (Suc n) i opertor_type items d =
     need (rd items i) (\<lambda>it. need (arr_text (net_mcc it)) (\<lambda>mcc. need (arr_text (net_mnc it)) (\<lambda>mnc.
       need (c_strcat (replicate 10 0) (mcc @ mnc)) (\<lambda>p. need (arr_text p) (\<lambda>plmn_str.
         if nwy_network_util_get_oper_type (Some plmn_str) = opertor_type
         then Print (crlf @ str ''Index:'' @ fmt_d (int i) @ str '' Rat:'' @ fmt_d (net_rat it) @ str '' '')
                (Print (str ''MCC-MNC:'' @ mcc @ str ''-'' @ mnc) (select_list n (i + 1) opertor_type items d))
         else select_list n (i + 1) opertor_type items d)))))"

definition select_prompt :: buf where
  "select_prompt = prompt ''Please select index at before table:''"

definition nwy_network_test_nw_select :: "'a mobile_vars_scheme dialog" where
  "nwy_network_test_nw_select =
     Call ''nwy_sim_get_imsi'' [] (\<lambda>a.
       if ret a = 0
       then Pause 1000 (let opertor_type = nwy_network_util_get_oper_type (Some (text_of a 0)) in
         Print (crlf @ str ''Operator type: '' @ fmt_d opertor_type @ str ''(0-CMCC,1-CU,2-CT,3-OTHER),Current netwrok list: '')
           (Get (\<lambda>s. select_list (nat (scan_num (nw_scan_list s))) 0 opertor_type (net_list (nw_scan_list s))
             (ask_int select_prompt (\<lambda>id. Get (\<lambda>s. need (rd_at (net_list (nw_scan_list s)) id) (\<lambda>it.
               need (buf_read (net_mcc it) 0 4) (\<lambda>mcc. need (buf_read (net_mnc it) 0 4) (\<lambda>mnc.
                 Call ''nwy_nw_manual_network_select'' [T mcc, T mnc, I (net_rat it)] (\<lambda>a.
                   Print (crlf @ str ''Select index '' @ fmt_d id @ str '' network over!!!'') Done))))))))))
       else Print (crlf @ str ''Get Current operator type FAILED!!!'') Done)"

text \<open>The wait for the callback: at most 180 rounds.\<close>

fun scan_wait :: "nat \<Rightarrow> 'a mobile_vars_scheme dialog \<Rightarrow> 'a mobile_vars_scheme dialog" where
  "scan_wait 0 d = d"
| "scan_wait (Suc n) d = Get (\<lambda>s. if scan_finish s = 1 then d else Pause 1000 (scan_wait n d))"

definition nwy_test_cli_nw_manual_scan :: "'a mobile_vars_scheme dialog" where
  "nwy_test_cli_nw_manual_scan =
     Call ''nwy_nw_manual_network_scan'' [] (\<lambda>a.
       if ret a = 0
       then Print (crlf @ str ''Waiting Scan result...'') (Put (\<lambda>s. s\<lparr>scan_finish := 0\<rparr>) (scan_wait 180 (Get (\<lambda>s.
         if scan_result (nw_scan_list s) = 1 then nwy_network_test_nw_select else echo ''Scan network Failed!!!'' Done))))
       else echo ''Scan network Failed!!!'' Done)"

definition nwy_test_cli_nw_band_lock :: "'s dialog" where
  "nwy_test_cli_nw_band_lock =
     ask_int (prompt ''Please set rat mode(2-GSM,4-LTE): '') (\<lambda>act.
       Ask (prompt ''Please set bandlock mask(limit 256bits): '') (\<lambda>b. need (line_copy 64 b) (\<lambda>set_band. need (arr_text set_band) (\<lambda>set_band.
         Call ''nwy_nw_band_lock'' [I (to_u32 act), T set_band] (\<lambda>a. Done)))))"

text \<open>The loop also clears the text of the last line, which the USB callback does as well before the next one.\<close>

fun freq_loop :: "nat \<Rightarrow> nat \<Rightarrow> int list \<Rightarrow> (int list \<Rightarrow> 's dialog) \<Rightarrow> 's dialog" where
  "freq_loop 0 i nfreq k = k nfreq"
| "freq_loop (Suc n) i nfreq k =
     ask_int (prompt ''Please enter freq number(max,65535): '') (\<lambda>v.
       need (wr nfreq i (if v < 65535 then to_u16 v else 65535)) (\<lambda>nfreq. freq_loop n (i + 1) nfreq k))"

definition nwy_test_cli_nw_freq_lock :: "'s dialog" where
  "nwy_test_cli_nw_freq_lock =
     ask_int (prompt ''Please enter freq count(max,9):'') (\<lambda>freq_num.
       if 9 < freq_num \<or> freq_num < 1 then echo ''input number of freq is error!'' Done
       else freq_loop (nat freq_num) 0 (replicate 9 0) (\<lambda>nfreq.
         Call ''nwy_nw_freq_lock'' [Ns nfreq, I freq_num] (\<lambda>a. Done)))"

definition nwy_test_cli_nw_get_ims_st :: "'s dialog" where
  "nwy_test_cli_nw_get_ims_st = Call ''nwy_nw_get_IMS_state'' [] (\<lambda>a. Print (crlf @ str ''IMS state '' @ fmt_d (to_u8 (num a 0))) Done)"

definition set_ims_state :: "int \<Rightarrow> 's dialog" where
  "set_ims_state v =
     Call ''nwy_nw_set_IMS_state'' [I (to_u8 v)] (\<lambda>a. verdict a ''IMS SET Success!!!'' ''IMS SET Failed!!!'')"

definition nwy_test_cli_nw_set_ims_st :: "'s dialog" where
  "nwy_test_cli_nw_set_ims_st =
     ask_int (prompt ''Please set IMS state(0-off,1-on):'') (\<lambda>v.
       if v = 1 then Call ''nwy_nw_set_network_mode'' [I 4] (\<lambda>a. Pause 2000 (set_ims_state v)) else set_ims_state v)"

definition nwy_test_cli_nw_get_def_pdn :: "'s dialog" where
  "nwy_test_cli_nw_get_def_pdn =
     Call ''nwy_nw_get_default_pdn_apn'' [] (\<lambda>a.
       if ret a = 0 then echo ''Get Default Pdn Info Failed!!'' Done else Print (crlf @ str ''Default Pdn Apn:'' @ text_of a 0 @ crlf) Done)"

definition nwy_test_cli_nw_set_def_pdn :: "'s dialog" where
  "nwy_test_cli_nw_set_def_pdn = option_not_supported"

definition nwy_test_cli_nw_get_radio_st :: "'s dialog" where
  "nwy_test_cli_nw_get_radio_st =
     Call ''nwy_nw_get_radio_st'' [] (\<lambda>a.
       if ret a \<noteq> 0 then echo ''get radio state error!'' Done else Print (crlf @ str ''radio state:'' @ fmt_d (num a 0) @ crlf) Done)"

definition nwy_test_cli_nw_set_radio_st :: "'s dialog" where
  "nwy_test_cli_nw_set_radio_st =
     ask_int (prompt ''Please set radio state(0-off,1-on):'') (\<lambda>fn.
       Call ''nwy_nw_set_radio_st'' [I fn] (\<lambda>a. verdict a ''Set radio state OK!'' ''Set radio state error!''))"

definition nwy_test_cli_nw_get_radio_sign :: "'s dialog" where
  "nwy_test_cli_nw_get_radio_sign =
     Call ''nwy_nw_get_signal_csq'' [] (\<lambda>a. Print (crlf @ str ''CSQ is '' @ fmt_d (to_u8 (num a 0)) @ str '' '' @ crlf) Done)"

text \<open>The texts for the registration states, shared by the two domains.\<close>

definition reg_state_text :: "int \<Rightarrow> string" where
  "reg_state_text status =
     (if status = 0 then ''(not register)'' else if status = 1 then ''(register,homework)'' else if status = 2 then ''(searching)''
      else if status = 3 then ''(register denied)'' else if status = 4 then ''(unknow)'' else if status = 5 then ''(register roaming)''
      else if status = 6 then ''(register for \"SMS only\",home network)'' else if status = 7 then ''(register for \"SMS only\",roaming)''
      else ''(unknow state)'')"

definition nwy_test_cli_nw_cs_st :: "'s dialog" where
  "nwy_test_cli_nw_cs_st =
     Call ''nwy_nw_get_cs_st'' [] (\<lambda>a.
       if ret a = 0 then Print (crlf @ str '' CS STATE: '' @ fmt_d (num a 0) @ str '' '' @ str (reg_state_text (num a 0)) @ crlf) Done
       else echo '' CS STATE ERROR!'' Done)"

definition nwy_test_cli_nw_ps_st :: "'s dialog" where
  "nwy_test_cli_nw_ps_st =
     Call ''nwy_nw_get_ps_st'' [] (\<lambda>a.
       if ret a = 0 then Print (crlf @ str '' PS STATE: '' @ fmt_d (num a 0) @ str '' '' @ str (reg_state_text (num a 0)) @ crlf) Done
       else echo '' PS STATE ERROR!'' Done)"

definition nwy_test_cli_nw_lte_st :: "'s dialog" where
  "nwy_test_cli_nw_lte_st = option_not_supported"

text \<open>The \<open>%X\<close> conversion of an \<open>int\<close>.\<close>

definition fmt_X :: "int \<Rightarrow> buf" where
  "fmt_X v = map c_toupper (hex_digits (nat (to_u32 v)))"

definition print_regs :: "string \<Rightarrow> int \<Rightarrow> int \<Rightarrow> int \<Rightarrow> 's dialog \<Rightarrow> 's dialog" where
  "print_regs dm regs roam tech d =
     Print (str ''Network '' @ str dm @ str '' Reg state: '' @ fmt_d regs @ crlf @
            str ''Network '' @ str dm @ str '' Roam state: '' @ fmt_d roam @ crlf @
            str ''Network '' @ str dm @ str '' Radio Tech: '' @ fmt_d tech @ crlf) d"

text \<open>\<open>num\<close> of the registration: valid flag, state, roaming and technology for data (0 to 3) and voice (4 to 7).\<close>

definition nwy_test_cli_nw_operator_info :: "'s dialog" where
  "nwy_test_cli_nw_operator_info =
     Call ''nwy_nw_get_register_info'' [] (\<lambda>r.
       if ret r = 0
       then let signal = Call ''nwy_nw_get_signal_csq'' [] (\<lambda>c. Print (crlf @ str ''CSQ is '' @ fmt_d (to_u8 (num c 0)) @ str '' '' @ crlf)
                  (Call ''nwy_sim_get_lacid'' [] (\<lambda>l. Print (crlf @ str ''LAC: '' @ fmt_X (num l 0) @ str '', CELL_ID: '' @ fmt_X (num l 1) @ str '' '' @ crlf) Done)));
                names = (if num r 5 \<noteq> 0
                  then Call ''nwy_nw_get_operator_name'' [] (\<lambda>nm.
                    if ret nm = 0
                    then Print (str ''Long EONS: '' @ text_of nm 0 @ crlf @ str ''Short EONS: '' @ text_of nm 1 @ crlf @
                           str ''MCC and MNC: '' @ text_of nm 2 @ str '' '' @ text_of nm 3 @ crlf @ str ''SPN: '' @ text_of nm 4 @ crlf) signal
                    else signal)
                  else signal);
                voice = (if num r 4 = 1 then print_regs ''Voice'' (num r 5) (num r 6) (num r 7) names else names)
            in if num r 0 = 1 then print_regs ''Data'' (num r 1) (num r 2) (num r 3) voice else voice
       else echo ''Get Register Information Failed!!!'' Done)"

definition nwy_test_cli_nw_get_ehplmn :: "'s dialog" where
  "nwy_test_cli_nw_get_ehplmn = option_not_supported"

definition nwy_test_cli_nw_get_signal_rssi :: "'s dialog" where
  "nwy_test_cli_nw_get_signal_rssi =
     Call ''nwy_nw_get_signal_rssi'' [] (\<lambda>a.
       if ret a = 0 then Print (crlf @ str ''RSSI: '' @ fmt_d (to_u8 (num a 0)) @ crlf) Done else Print (str ''Get RSSI Failed!'') Done)"

text \<open>The record of the serving cell is filled while the function polls it, at most 11 times. \<open>cell_values\<close>: cell, physical
  cell, RSRQ, RSRP, SINR, downlink and uplink error rate, transmit and receive power.\<close>

fun netmsg_wait :: "nat \<Rightarrow> 'a mobile_vars_scheme dialog \<Rightarrow> 'a mobile_vars_scheme dialog \<Rightarrow> 'a mobile_vars_scheme dialog" where
  "netmsg_wait 0 found timeout = timeout"
| "netmsg_wait (Suc n) found timeout = Get (\<lambda>s. if is_over (pNetmsg s) = 1 then found else Pause 200 (netmsg_wait n found timeout))"

definition netmsg_text :: "netmsg \<Rightarrow> buf" where
  "netmsg_text m =
     (let v = cell_values m
      in if curr_rat m = 4
         then crlf @ str ''LTE NETMSG: CELL_ID='' @ fmt_X (v 0) @ str '', PCI='' @ fmt_d (v 1) @ str '', RSRQ='' @ fmt_d (v 2) @
              str '', RSRP='' @ fmt_d (v 3) @ str '', SINR='' @ fmt_d (v 4) @ str '', dlBler='' @ fmt_d (v 5) @ str '', ulBler='' @ fmt_d (v 6) @ crlf
         else if curr_rat m = 2
         then crlf @ str ''GSM NETMSG: CELL_ID='' @ fmt_X (v 0) @ str '', PCI='' @ fmt_d (v 1) @ str '', TxPwr='' @ fmt_d (v 7) @
              str '', RxPwr='' @ fmt_d (v 8) @ str '', Bler='' @ fmt_d (v 6) @ crlf
         else crlf @ str ''Get NETMSG Failed!!!'' @ crlf)"

definition nwy_test_cli_nw_get_netmsg :: "'a mobile_vars_scheme dialog" where
  "nwy_test_cli_nw_get_netmsg =
     (let free = Call ''free'' [] (\<lambda>a. Done)
      in Call ''malloc'' [] (\<lambda>m. if ret m = 0 then Fault
           else Put (\<lambda>s. s\<lparr>pNetmsg := \<lparr>is_over = 0, curr_rat = 0, cell_values = \<lambda>i. 0\<rparr>\<rparr>) (Call ''nwy_nw_get_netmsg'' [] (\<lambda>a.
             if ret a = 0
             then netmsg_wait 11 (Get (\<lambda>s. Print (netmsg_text (pNetmsg s)) free)) (echo ''Get NETMSG Timeout!!!'' free)
             else echo ''Get NETMSG Failed!!!'' free))))"

section \<open>Voice calls\<close>

definition dial :: "string \<Rightarrow> string \<Rightarrow> 's dialog" where
  "dial good bad =
     Ask (prompt ''Please input dest phone number: '') (\<lambda>b. need (line_copy 32 b) (\<lambda>phone_num. need (arr_text phone_num) (\<lambda>t.
       if 128 < length t then Done
       else Print (crlf @ str '' input dest phone number:'' @ t @ crlf)
         (Call ''nwy_voice_call_start'' [I 0, T t] (\<lambda>a. verdict a good bad)))))"

definition nwy_test_cli_voice_call_start :: "'s dialog" where
  "nwy_test_cli_voice_call_start = dial '' nwy call success!'' '' nwy call fail!''"

fun repeat_call :: "nat \<Rightarrow> string \<Rightarrow> arg list \<Rightarrow> 's dialog" where
  "repeat_call 0 f as = Done"
| "repeat_call (Suc n) f as = Call f as (\<lambda>a. Pause 20 (repeat_call n f as))"

definition nwy_test_cli_voice_call_end :: "'s dialog" where
  "nwy_test_cli_voice_call_end = repeat_call 20 ''nwy_voice_call_end'' [I 0]"

definition nwy_test_cli_voice_auto_answ :: "'s dialog" where
  "nwy_test_cli_voice_auto_answ = repeat_call 50 ''nwy_voice_call_autoanswver'' []"

definition nwy_test_cli_voice_volte_set :: "'s dialog" where
  "nwy_test_cli_voice_volte_set =
     ask_int (prompt '' Please set volte 0-close 1-open:'') (\<lambda>setvolte.
       Print (crlf @ str '' set volte value :'' @ fmt_d setvolte)
         (Call ''nwy_voice_setvolte'' [I 0, I (to_u8 setvolte)] (\<lambda>a.
           followed_by (if ret a = 0 then echo '' nwy set volte success!'' Done else echo '' nwy set volte fail!'' Done)
             (dial '' nwy volte call success!'' '' nwy volte call fail!''))))"

definition nwy_test_cli_voice_caller_id :: "'a os_vars_scheme dialog" where
  "nwy_test_cli_voice_caller_id = Print (crlf @ str '' please open clip at+clip = 1 '' @ crlf) nwy_test_cli_send_virt_at"

definition nwy_test_cli_voice_call_hold :: "'s dialog" where
  "nwy_test_cli_voice_call_hold = option_not_supported"

definition nwy_test_cli_voice_call_unhold :: "'s dialog" where
  "nwy_test_cli_voice_call_unhold = option_not_supported"

section \<open>Short messages\<close>

text \<open>The message is passed as its fields; \<open>phone_num\<close> has 22 bytes, \<open>msg_contxet\<close> 801.\<close>

definition nwy_test_cli_sms_send :: "'s dialog" where
  "nwy_test_cli_sms_send =
     Ask (prompt ''Please input dest phone number: '') (\<lambda>b. need (line_copy 22 b) (\<lambda>phone_num.
       ask_int (prompt ''Please input msg len: '') (\<lambda>msg_context_len.
         Ask (prompt ''Please input msg data: '') (\<lambda>b. need (line_copy 801 b) (\<lambda>msg_contxet.
           ask_int (prompt ''Please input msg format(0:GSM7 2:UNICODE): '') (\<lambda>msg_format.
             need (arr_text phone_num) (\<lambda>phone_num.
               Call ''nwy_sms_send_message'' [T phone_num, I (to_u32 msg_context_len), T msg_contxet, I msg_format] (\<lambda>a.
                 verdict a ''nwy send sms success!'' ''nwy send sms fail!''))))))))"

definition nwy_test_cli_sms_del :: "'s dialog" where
  "nwy_test_cli_sms_del =
     ask_int (prompt ''Please input sms index: '') (\<lambda>nindex. ask_int (prompt ''Please input sms storage: '') (\<lambda>nStorage.
       Call ''nwy_sms_delete_message'' [I (to_u16 nindex), I nStorage] (\<lambda>a. verdict a ''nwy del sms success!'' ''nwy del sms fail!'')))"

definition nwy_test_cli_sms_get_sca :: "'s dialog" where
  "nwy_test_cli_sms_get_sca =
     Call ''nwy_sms_get_sca'' [] (\<lambda>a.
       if ret a \<noteq> 0 then echo ''nwy get sms sca fail!'' Done else Print (crlf @ str ''sca: '' @ text_of a 0 @ str '' '' @ crlf) Done)"

definition nwy_test_cli_sms_set_sca :: "'s dialog" where
  "nwy_test_cli_sms_set_sca =
     Ask (prompt ''Please input sca number: '') (\<lambda>b. need (line_copy 21 b) (\<lambda>sca.
       ask_int (prompt ''Please input sca type: '') (\<lambda>tosca. need (arr_text sca) (\<lambda>sca.
         Call ''nwy_sms_set_sca'' [T sca, I (to_u32 tosca)] (\<lambda>a. verdict a ''nwy set SMS sca success!'' ''nwy set SMS sca fail!'')))))"

text \<open>In the prompt of the source, \<open>\2\<close> inside the literal is the character with code 2.\<close>

definition nwy_test_cli_sms_set_storage :: "'s dialog" where
  "nwy_test_cli_sms_set_storage =
     ask_int (prompt ''Please input sms storage(1-ME'' @ [2] @ str ''-SM): '') (\<lambda>sms_storage.
       Call ''nwy_sms_set_storage'' [I sms_storage] (\<lambda>a. verdict a ''nwy set sms storage success!'' ''nwy set sms storage fail!''))"

definition nwy_test_cli_sms_get_storage :: "'s dialog" where
  "nwy_test_cli_sms_get_storage = Call ''nwy_sms_get_storage'' [] (\<lambda>a. Print (crlf @ str ''sms_storage: '' @ fmt_d (ret a)) Done)"

definition nwy_test_cli_sms_set_report_md :: "'s dialog" where
  "nwy_test_cli_sms_set_report_md =
     ask_int (prompt ''Please input sms mode: '') (\<lambda>mode. ask_int (prompt ''Please input sms mt: '') (\<lambda>mt.
       Call ''nwy_set_report_option'' [I (to_u8 mode), I (to_u8 mt), I 0, I 0, I 0] (\<lambda>a.
         verdict a ''Set sms report mode success!'' ''nwy set sms report mode fail!'')))"

definition nwy_test_cli_sms_read :: "'s dialog" where
  "nwy_test_cli_sms_read =
     ask_int (prompt ''Please input sms index: '') (\<lambda>index.
       Call ''nwy_sms_read_message'' [I (to_u32 index)] (\<lambda>a.
         if ret a \<noteq> 0 then echo ''nwy read sms fail!'' Done
         else Pause 2000 (Print (crlf @ str '' read one sms oa:'' @ text_of a 0 @ crlf @ str ''msg_context:'' @ text_of a 1) Done)))"

definition nwy_test_cli_sms_pdu_send :: "'s dialog" where
  "nwy_test_cli_sms_pdu_send =
     Ask (prompt ''Please input sms pdu data: '') (\<lambda>b. need (arr_text b) (\<lambda>t.
       need (nwy_HexStrToByte b (length t) (replicate 1024 0)) (\<lambda>pbuf.
         Call ''nwy_sms_send_pdu_message'' [T pbuf, I (int (length t div 2))] (\<lambda>a.
           verdict a ''nwy send pdu sms success!'' ''nwy send pdu sms fail!''))))"

text \<open>\<open>num\<close>: option and coding; \<open>text_of\<close>: the text.\<close>

definition nwy_test_cli_ussd_send :: "'s dialog" where
  "nwy_test_cli_ussd_send =
     ask_int (prompt ''Please input dcs: '') (\<lambda>dcs. ask_int (prompt ''Please input simid: '') (\<lambda>simid.
       Ask (prompt ''Please input ussd string: '') (\<lambda>b. need (line_copy 160 b) (\<lambda>ussd_string. need (arr_text ussd_string) (\<lambda>ussd_string.
         Call ''nwy_ussd_send_msg'' [I (to_u8 simid), T ussd_string, I (to_u8 dcs)] (\<lambda>a.
           if ret a \<noteq> 0 then echo ''nwy send ussd fail!'' Done
           else Print (crlf @ str '' ussd info Option: '' @ fmt_d (num a 0))
             (Print (crlf @ str '' ussd info Dcs: '' @ fmt_d (num a 1)) (Print (crlf @ str '' ussd info usd: '' @ text_of a 0) Done))))))))"

end
