(* ===== verification/Lcd.thy ===== *)
theory Lcd
  imports CString
begin

text \<open>
  The display driver, src/nwy_drv_lcd_st7735.c (the same code is repeated in
  src/nwy_test_cli/modules/nwy_test_cli_driver.c): the bytes and commands written to the bus of the ST7735 controller, glyphs
  read from font files, and a line of mixed GBK and ASCII text drawn into a window of the 128 by 128 display.

  The two macros of the driver repeat a write until the bus accepts it. What is written does not depend on the answers of the
  bus, so an operation yields the list of its writes and waits, and \<open>transmit\<close> sends such a list over a bus that may refuse.

  The font files are not part of the sources. They are the parameter \<open>font\<close>: a file that can be opened gives, for an offset
  and a length, the bytes that seeking and reading deliver.
\<close>

section \<open>The bus\<close>

datatype lcd_item =
    Cmd u8
  | Dat u8
  | Wait nat
  | SubPower int bool bool
  | BusInit int
  | BusDeinit

text \<open>\<open>while (write (v) != true);\<close> where \<open>ans k\<close> is the answer to the attempt number \<open>k\<close>: the number of the next attempt.\<close>

partial_function (option) bus_retry :: "(nat \<Rightarrow> bool) \<Rightarrow> nat \<Rightarrow> nat option" where
  "bus_retry ans k = (if ans k then Some (k + 1) else bus_retry ans (k + 1))"

fun bus_item :: "(nat \<Rightarrow> bool) \<Rightarrow> lcd_item \<Rightarrow> nat \<Rightarrow> nat option" where
  "bus_item ans (Cmd c) k = bus_retry ans k"
| "bus_item ans (Dat d) k = bus_retry ans k"
| "bus_item ans (Wait n) k = Some k"
| "bus_item ans (SubPower p e l) k = Some k"
| "bus_item ans (BusInit f) k = Some k"
| "bus_item ans BusDeinit k = Some k"

primrec transmit :: "(nat \<Rightarrow> bool) \<Rightarrow> lcd_item list \<Rightarrow> nat \<Rightarrow> nat option" where
  "transmit ans [] k = Some k"
| "transmit ans (i # is) k = do { k' \<leftarrow> bus_item ans i k; transmit ans is k' }"

section \<open>The driver\<close>

text \<open>The static arrays \<open>display_buf\<close> (128 by 128) and \<open>tmp_buf\<close> (256 places), the flag \<open>lcd_init\<close>, and what was sent.\<close>

record lcd =
  display_buf :: "u16 list"
  tmp_buf :: "u16 list"
  lcd_init :: bool
  sent :: "lcd_item list"

definition emit_items :: "lcd_item list \<Rightarrow> lcd \<Rightarrow> lcd" where
  "emit_items is s = s\<lparr>sent := sent s @ is\<rparr>"

text \<open>An array of 16-bit values as bytes: the lower half first.\<close>

definition words_le :: "u16 list \<Rightarrow> buf" where
  "words_le ws = concat (map (\<lambda>w. [ucast w, ucast (drop_bit 8 w)]) ws)"

definition nwy_write_data_buf :: "buf \<Rightarrow> nat \<Rightarrow> lcd \<Rightarrow> lcd option" where
  "nwy_write_data_buf b len s = do { bs \<leftarrow> buf_read b 0 len; Some (emit_items (map Dat bs) s) }"

definition nwy_lcd_block_write :: "u8 \<Rightarrow> u8 \<Rightarrow> u8 \<Rightarrow> u8 \<Rightarrow> lcd \<Rightarrow> lcd" where
  "nwy_lcd_block_write startx starty endx endy =
     emit_items [Cmd 0x2A, Dat 0, Dat startx, Dat 0, Dat endx, Cmd 0x2B, Dat 0, Dat starty, Dat 0, Dat endy, Cmd 0x2C]"

section \<open>Glyphs\<close>

type_synonym fonts = "string \<Rightarrow> (int \<Rightarrow> nat \<Rightarrow> buf) option"

text \<open>\<open>GBK_W\<close>, \<open>GBK_H\<close>, \<open>ASC_W\<close>, \<open>ASC_H\<close>; the callers clear the four variables before.\<close>

definition GetFontSize :: "nat \<Rightarrow> nat \<times> nat \<times> nat \<times> nat" where
  "GetFontSize fontSize =
     (if fontSize = 12 then (12, 12, 6, 12) else if fontSize = 16 then (16, 16, 8, 16) else (0, 0, 0, 0))"

text \<open>The three nested loops over the rows, the bytes of a row and the bits of a byte; \<open>p b i\<close> is the test of bit \<open>i\<close>.\<close>

fun glyph_bits :: "nat \<Rightarrow> nat \<Rightarrow> nat \<Rightarrow> nat \<Rightarrow> (nat \<Rightarrow> bool) \<Rightarrow> u16 \<Rightarrow> u16 \<Rightarrow> nat \<Rightarrow> u16 list \<Rightarrow> (nat \<times> u16 list) option" where
  "glyph_bits 0 i j w p tc bc n out = Some (n, out)"
| "glyph_bits (Suc m) i j w p tc bc n out =
     (if w \<le> j * 8 + i then Some (n, out)
      else do { out' \<leftarrow> wr out n (if p i then tc else bc); glyph_bits m (i + 1) j w p tc bc (n + 1) out' })"

fun glyph_row :: "nat \<Rightarrow> nat \<Rightarrow> nat \<Rightarrow> nat \<Rightarrow> nat \<Rightarrow> (u8 \<Rightarrow> nat \<Rightarrow> bool) \<Rightarrow> buf \<Rightarrow> u16 \<Rightarrow> u16 \<Rightarrow> nat \<Rightarrow> u16 list \<Rightarrow> (nat \<times> u16 list) option" where
  "glyph_row 0 j k tw w p b tc bc n out = Some (n, out)"
| "glyph_row (Suc m) j k tw w p b tc bc n out =
     do { x \<leftarrow> rd b (k * tw + j);
          (n', out') \<leftarrow> glyph_bits 8 0 j w (p x) tc bc n out;
          glyph_row m (j + 1) k tw w p b tc bc n' out' }"

fun glyph_rows :: "nat \<Rightarrow> nat \<Rightarrow> nat \<Rightarrow> nat \<Rightarrow> (u8 \<Rightarrow> nat \<Rightarrow> bool) \<Rightarrow> buf \<Rightarrow> u16 \<Rightarrow> u16 \<Rightarrow> nat \<Rightarrow> u16 list \<Rightarrow> u16 list option" where
  "glyph_rows 0 k tw w p b tc bc n out = Some out"
| "glyph_rows (Suc m) k tw w p b tc bc n out =
     do { (n', out') \<leftarrow> glyph_row tw 0 k tw w p b tc bc n out;
          glyph_rows m (k + 1) tw w p b tc bc n' out' }"

text \<open>The tests of a bit: with the table \<open>key\<close>, and by a shift.\<close>

definition key_test :: "u8 \<Rightarrow> nat \<Rightarrow> bool" where
  "key_test b i = (b AND [0x80, 0x40, 0x20, 0x10, 0x08, 0x04, 0x02, 0x01] ! i \<noteq> 0)"

definition shift_test :: "u8 \<Rightarrow> nat \<Rightarrow> bool" where
  "shift_test b i = (push_bit i (ucast b) AND (0x80 :: u32) \<noteq> 0)"

text \<open>A glyph of \<open>WORD_SIZE\<close> bytes at an offset of a font file, decoded to pixels; without the file the array keeps its contents,
  and bytes that are not read are 0.\<close>

definition glyph_of_file :: "fonts \<Rightarrow> string \<Rightarrow> int \<Rightarrow> nat \<Rightarrow> nat \<Rightarrow> nat \<Rightarrow> (u8 \<Rightarrow> nat \<Rightarrow> bool) \<Rightarrow> u16 \<Rightarrow> u16 \<Rightarrow> u16 list \<Rightarrow> u16 list option" where
  "glyph_of_file font name offset WORD_SIZE w h p tc bc out =
     (case font name of None \<Rightarrow> Some out
      | Some f \<Rightarrow> do { b \<leftarrow> buf_write (replicate 100 0) 0 (f offset WORD_SIZE); glyph_rows h 0 (WORD_SIZE div h) w p b tc bc 0 out })"

definition GetGbkOneBuf :: "fonts \<Rightarrow> nat \<Rightarrow> u8 \<Rightarrow> u8 \<Rightarrow> u16 list \<Rightarrow> u16 \<Rightarrow> u16 \<Rightarrow> u16 list option" where
  "GetGbkOneBuf font fontSize g0 g1 out tc bc =
     (let (GBK_W, GBK_H, _, _) = GetFontSize fontSize;
          qh = uint g0 - 0xA0;
          wh = uint g1 - 0xA0
      in if fontSize = 12 then glyph_of_file font ''/HZK12'' ((94 * (qh - 1) + (wh - 1)) * 24) 24 GBK_W GBK_H key_test tc bc out
         else if fontSize = 16 then glyph_of_file font ''/HZK16'' ((94 * (qh - 1) + (wh - 1)) * 32) 32 GBK_W GBK_H key_test tc bc out
         else Some out)"

definition GetOneCharBuf :: "fonts \<Rightarrow> nat \<Rightarrow> u8 \<Rightarrow> u16 list \<Rightarrow> u16 \<Rightarrow> u16 \<Rightarrow> u16 list option" where
  "GetOneCharBuf font fontSize ord out tc bc =
     (let (_, _, ASC_W, ASC_H) = GetFontSize fontSize
      in if fontSize = 12 then glyph_of_file font ''/ASC12'' (uint ord * 12) 12 ASC_W ASC_H shift_test tc bc out
         else if fontSize = 16 then glyph_of_file font ''/ASC16'' (uint ord * 16) 16 ASC_W ASC_H shift_test tc bc out
         else Some out)"

section \<open>A line of text\<close>

text \<open>\<open>display_buf[i * line_len + str_index + j] = tmp_buf[i * w + j]\<close> for all rows \<open>i\<close> and columns \<open>j\<close>.\<close>

fun copy_row :: "nat \<Rightarrow> nat \<Rightarrow> nat \<Rightarrow> nat \<Rightarrow> u16 list \<Rightarrow> u16 list \<Rightarrow> u16 list option" where
  "copy_row 0 j to from tmp d = Some d"
| "copy_row (Suc m) j to from tmp d =
     do { v \<leftarrow> rd tmp (from + j); d' \<leftarrow> wr d (to + j) v; copy_row m (j + 1) to from tmp d' }"

fun copy_rows :: "nat \<Rightarrow> nat \<Rightarrow> nat \<Rightarrow> nat \<Rightarrow> nat \<Rightarrow> u16 list \<Rightarrow> u16 list \<Rightarrow> u16 list option" where
  "copy_rows 0 i w line_len str_index tmp d = Some d"
| "copy_rows (Suc m) i w line_len str_index tmp d =
     do { d' \<leftarrow> copy_row w 0 (i * line_len + str_index) (i * w) tmp d;
          copy_rows m (i + 1) w line_len str_index tmp d' }"

text \<open>The loop over the text from place \<open>p\<close>; its result is the changed \<open>Xstart\<close> and the arrays. The parameters \<open>Xstart\<close> and
  \<open>Ystart\<close> are unsigned.\<close>

function disp_loop :: "fonts \<Rightarrow> nat \<Rightarrow> buf \<Rightarrow> nat \<Rightarrow> nat \<Rightarrow> nat \<Rightarrow> u32 \<Rightarrow> u32 \<Rightarrow> u16 \<Rightarrow> u16 \<Rightarrow> lcd \<Rightarrow> (u32 \<times> lcd) option" where
  "disp_loop font fontSize t p line_len str_index Xstart Ystart tc bc s =
     (if length t \<le> p then None
      else if t ! p = 0 then Some (Xstart, s)
      else let (GBK_W, GBK_H, ASC_W, ASC_H) = GetFontSize fontSize
           in if 0x80 < t ! p
              then do { g1 \<leftarrow> rd t (p + 1);
                        tmp \<leftarrow> GetGbkOneBuf font fontSize (t ! p) g1 (tmp_buf s) tc bc;
                        d \<leftarrow> copy_rows GBK_H 0 GBK_W line_len str_index tmp (display_buf s);
                        let s1 = s\<lparr>tmp_buf := tmp, display_buf := d\<rparr>;
                        let X = (if 128 - of_nat GBK_W < Xstart then 128 - of_nat GBK_W else Xstart);
                        if 128 - of_nat GBK_H < Ystart then Some (X, s1)
                        else disp_loop font fontSize t (p + 2) line_len (str_index + GBK_W) X Ystart tc bc s1 }
              else do { tmp \<leftarrow> GetOneCharBuf font fontSize (t ! p) (tmp_buf s) tc bc;
                        d \<leftarrow> copy_rows ASC_H 0 ASC_W line_len str_index tmp (display_buf s);
                        let s1 = s\<lparr>tmp_buf := tmp, display_buf := d\<rparr>;
                        let X = (if 128 - of_nat ASC_W * 2 < Xstart then 128 - of_nat ASC_W * 2 else Xstart);
                        if 128 - of_nat ASC_H < Ystart then Some (X, s1)
                        else disp_loop font fontSize t (p + 1) line_len (str_index + ASC_W) X Ystart tc bc s1 })"
  by pat_completeness auto

termination by (relation "measure (\<lambda>(f, n, t, p, r). length t - p)") auto

declare disp_loop.simps [simp del]

definition nwy_dispstrline :: "fonts \<Rightarrow> nat \<Rightarrow> buf \<Rightarrow> u32 \<Rightarrow> u32 \<Rightarrow> u16 \<Rightarrow> u16 \<Rightarrow> lcd \<Rightarrow> lcd option" where
  "nwy_dispstrline font fontSize t Xstart Ystart tc bc s =
     (let (GBK_W, GBK_H, ASC_W, ASC_H) = GetFontSize fontSize
      in do { n \<leftarrow> c_strlen t;
              let line_len = n * ASC_W;
              if 128 < of_nat line_len + Xstart then Some s
              else do { (X, s1) \<leftarrow> disp_loop font fontSize t 0 line_len 0 Xstart Ystart tc bc s;
                        let s2 = nwy_lcd_block_write (ucast X) (ucast Ystart) (ucast (X + of_nat line_len - 1)) (ucast (Ystart + (of_nat GBK_H - 1))) s1;
                        nwy_write_data_buf (words_le (display_buf s2)) (line_len * GBK_H * 2) s2 } })"

section \<open>Switching the display on and off\<close>

definition prvLcdClear :: "lcd \<Rightarrow> lcd option" where
  "prvLcdClear s =
     do { d \<leftarrow> buf_fill (display_buf s) 0 0xFFFF (128 * 128);
          let s1 = nwy_lcd_block_write 0 0 127 127 (s\<lparr>display_buf := d\<rparr>);
          nwy_write_data_buf (words_le (display_buf s1)) (128 * 128 * 2) s1 }"

definition st7735_registers :: "(u8 \<times> buf) list" where
  "st7735_registers =
     [(0xB1, [0x05, 0x3C, 0x3C]), (0xB2, [0x05, 0x3C, 0x3C]), (0xB3, [0x05, 0x3C, 0x3C, 0x05, 0x3C, 0x3C]), (0xB4, [0x03]),
      (0xC0, [0x62, 0x02, 0x04]), (0xC1, [0xC0]), (0xC2, [0x0D, 0x00]), (0xC3, [0x8D, 0x6A]), (0xC4, [0x8D, 0xEE]), (0xC5, [0x12]),
      (0x36, [0x60]),
      (0xE0, [0x03, 0x1B, 0x12, 0x11, 0x3F, 0x3A, 0x32, 0x34, 0x2F, 0x2B, 0x30, 0x3A, 0x00, 0x01, 0x02, 0x05]),
      (0xE1, [0x03, 0x1B, 0x12, 0x11, 0x32, 0x2F, 0x2A, 0x2F, 0x2E, 0x2C, 0x35, 0x3F, 0x00, 0x00, 0x01, 0x05]),
      (0xFC, [0x8C]), (0x3A, [0x05])]"

definition st7735Init :: "lcd \<Rightarrow> lcd" where
  "st7735Init = emit_items ([Wait 200, Cmd 0x11, Wait 200] @ concat (map (\<lambda>(c, ds). Cmd c # map Dat ds) st7735_registers) @ [Cmd 0x29])"

definition NWY_POWER_LCD :: int where "NWY_POWER_LCD = 0"
definition NWY_POWER_BACK_LIGHT :: int where "NWY_POWER_BACK_LIGHT = 2"
definition NWY_POWER_RGB_IB0 :: int where "NWY_POWER_RGB_IB0 = 3"

definition nwy_lcd_init :: "lcd \<Rightarrow> lcd option" where
  "nwy_lcd_init s =
     (if lcd_init s then Some s
      else do { let s1 = emit_items [SubPower NWY_POWER_LCD True True, SubPower NWY_POWER_BACK_LIGHT True True, SubPower NWY_POWER_RGB_IB0 True True,
                               Wait 256, BusInit 20000000, Wait 32] s;
                let s2 = emit_items [Wait 32] (st7735Init s1);
                s3 \<leftarrow> prvLcdClear s2;
                Some (s3\<lparr>lcd_init := True\<rparr>) })"

definition nwy_lcd_deinit :: "lcd \<Rightarrow> lcd" where
  "nwy_lcd_deinit s =
     (emit_items [BusDeinit, SubPower NWY_POWER_BACK_LIGHT False False, SubPower NWY_POWER_RGB_IB0 False False, SubPower NWY_POWER_LCD False False] s)\<lparr>lcd_init := False\<rparr>"

section \<open>The bus delivers\<close>

lemma bus_retry_accepted: "ans (k + n) \<Longrightarrow> \<forall>i < n. \<not> ans (k + i) \<Longrightarrow> bus_retry ans k = Some (k + n + 1)"
proof (induction n arbitrary: k)
  case 0
  then show ?case by (simp add: bus_retry.simps)
next
  case (Suc n)
  have "\<forall>i < n. \<not> ans (Suc k + i)" using Suc.prems(2) by (metis Suc_less_eq add_Suc_shift)
  then show ?case using Suc.IH [of "Suc k"] Suc.prems by (subst bus_retry.simps) force
qed

lemma bus_retry_Some: "bus_retry ans k = Some m \<Longrightarrow> k < m \<and> ans (m - 1)"
  by (rule bus_retry.raw_induct [where P = "\<lambda>ans k m. k < m \<and> ans (m - 1)"]) (auto split: if_splits dest: Suc_lessD)

text \<open>A transfer ends on every bus that never refuses for ever; the attempts it takes do not decrease.\<close>

lemma transmit_ends:
  assumes "\<forall>k. \<exists>m \<ge> k. ans m"
  shows "\<exists>k'. transmit ans is k = Some k' \<and> k \<le> k'"
proof (induction "is" arbitrary: k)
  case (Cons i "is")
  define n where "n = (LEAST n. ans (k + n))"
  have "\<exists>n. ans (k + n)" using assms by (metis le_iff_add)
  then have "ans (k + n)" "\<forall>j < n. \<not> ans (k + j)" unfolding n_def by (auto intro: LeastI_ex dest: not_less_Least)
  from bus_retry_accepted [OF this] obtain k1 where "bus_item ans i k = Some k1" "k \<le> k1" by (cases i) auto
  then show ?case using Cons.IH [of k1] by force
qed simp

lemma transmit_stuck:
  assumes "\<forall>m \<ge> k. \<not> ans m" and "\<exists>i \<in> set is. \<exists>b. i = Cmd b \<or> i = Dat b"
  shows "transmit ans is k = None"
proof -
  have n: "bus_retry ans k = None" using bus_retry_Some [of ans k] assms(1) by (cases "bus_retry ans k") force+
  show ?thesis using assms(2)
  proof (induction "is")
    case (Cons i "is")
    then show ?case using n by (cases i) auto
  qed simp
qed

section \<open>Sequential writes\<close>

definition put_at :: "'a list \<Rightarrow> nat \<Rightarrow> 'a list \<Rightarrow> 'a list" where
  "put_at out n xs = take n out @ xs @ drop (n + length xs) out"

lemma put_at_length [simp]: "n + length xs \<le> length out \<Longrightarrow> length (put_at out n xs) = length out"
  by (simp add: put_at_def)

lemma put_at_Nil [simp]: "put_at out n [] = out"
  by (simp add: put_at_def)

lemma put_at_append: "n + length xs \<le> length out \<Longrightarrow> put_at (put_at out n xs) (n + length xs) ys = put_at out n (xs @ ys)"
  by (simp add: put_at_def add.commute add.left_commute)

lemma wr_put_at: "n < length out \<Longrightarrow> wr out n v = Some (put_at out n [v])"
  by (simp add: put_at_def wr_def upd_conv_take_nth_drop)

lemma put_at_Cons: "n < length out \<Longrightarrow> put_at (put_at out n [v]) (Suc n) ys = put_at out n (v # ys)"
  using put_at_append [of n "[v]" out ys] by simp

lemma put_at_nth: "n + length xs \<le> length out \<Longrightarrow> i < length out \<Longrightarrow> put_at out n xs ! i = (if i < n \<or> n + length xs \<le> i then out ! i else xs ! (i - n))"
  by (auto simp: put_at_def nth_append min_def)

section \<open>Glyphs decode to pixels\<close>

definition pixel :: "u16 \<Rightarrow> u16 \<Rightarrow> bool \<Rightarrow> u16" where
  "pixel tc bc b = (if b then tc else bc)"

lemma glyph_bits_eq:
  assumes "xs = map (\<lambda>i. pixel tc bc (p i)) [i..<min (i + m) (w - j * 8)]" and "n + length xs \<le> length out"
  shows "glyph_bits m i j w p tc bc n out = Some (n + length xs, put_at out n xs)"
  using assms
proof (induction m arbitrary: i n out xs)
  case (Suc m)
  show ?case
  proof (cases "w \<le> j * 8 + i")
    case True
    then show ?thesis using Suc.prems by simp
  next
    case False
    define ys where "ys = map (\<lambda>i. pixel tc bc (p i)) [Suc i..<min (Suc i + m) (w - j * 8)]"
    have xs: "xs = pixel tc bc (p i) # ys" using False Suc.prems(1) by (simp add: ys_def upt_conv_Cons)
    have n: "n < length out" using Suc.prems(2) xs by simp
    have "glyph_bits m (Suc i) j w p tc bc (Suc n) (put_at out n [pixel tc bc (p i)]) = Some (Suc n + length ys, put_at (put_at out n [pixel tc bc (p i)]) (Suc n) ys)"
      by (rule Suc.IH) (use Suc.prems(2) xs n in \<open>simp_all add: ys_def\<close>)
    then show ?thesis using False n xs by (simp add: wr_put_at put_at_Cons pixel_def del: wr_in_range)
  qed
qed simp

lemma glyph_row_eq:
  assumes "xs = concat (map (\<lambda>j. map (\<lambda>i. pixel tc bc (p (b ! (k * tw + j)) i)) [0..<min 8 (w - j * 8)]) [j..<j + m])"
    and "n + length xs \<le> length out" and "k * tw + j + m \<le> length b"
  shows "glyph_row m j k tw w p b tc bc n out = Some (n + length xs, put_at out n xs)"
  using assms
proof (induction m arbitrary: j n out xs)
  case (Suc m)
  define u where "u = map (\<lambda>i. pixel tc bc (p (b ! (k * tw + j)) i)) [0..<min 8 (w - j * 8)]"
  define ys where "ys = concat (map (\<lambda>j. map (\<lambda>i. pixel tc bc (p (b ! (k * tw + j)) i)) [0..<min 8 (w - j * 8)]) [Suc j..<Suc j + m])"
  have xs: "xs = u @ ys" using Suc.prems(1) by (simp add: u_def ys_def upt_conv_Cons del: upt_Suc)
  have "glyph_bits 8 0 j w (p (b ! (k * tw + j))) tc bc n out = Some (n + length u, put_at out n u)"
    by (rule glyph_bits_eq) (use Suc.prems(2) xs in \<open>simp_all add: u_def\<close>)
  moreover have "glyph_row m (Suc j) k tw w p b tc bc (n + length u) (put_at out n u) = Some (n + length u + length ys, put_at (put_at out n u) (n + length u) ys)"
    by (rule Suc.IH) (use Suc.prems(2,3) xs in \<open>simp_all add: ys_def\<close>)
  ultimately show ?case using Suc.prems(2,3) xs by (simp add: put_at_append)
qed simp

text \<open>The bits of the bytes of a row are its columns.\<close>

lemma concat_bytes:
  "concat (map (\<lambda>j. map (g j) [0..<min 8 (w - j * 8)]) [0..<m]) = map (\<lambda>x. g (x div 8) (x mod 8)) [0..<min w (m * 8)]"
proof (induction m)
  case (Suc m)
  have "map (\<lambda>x. g (x div 8) (x mod 8)) [m * 8..<m * 8 + r] = map (g m) [0..<r]" if "r \<le> 8" for r
    using that by (intro nth_equalityI) auto
  moreover have "[0..<min w (Suc m * 8)] = [0..<min w (m * 8)] @ [m * 8..<m * 8 + min 8 (w - m * 8)]"
  proof (cases "w \<le> m * 8")
    case False
    then have "min w (Suc m * 8) = m * 8 + min 8 (w - m * 8)" by auto
    then show ?thesis using False upt_add_eq_append [of 0 "m * 8"] by (simp add: min_def)
  qed simp
  ultimately show ?case using Suc by simp
qed simp

definition glyph_line :: "buf \<Rightarrow> nat \<Rightarrow> nat \<Rightarrow> u16 \<Rightarrow> u16 \<Rightarrow> nat \<Rightarrow> u16 list" where
  "glyph_line g tw w tc bc i = map (\<lambda>x. pixel tc bc (bit (g ! (i * tw + x div 8)) (7 - x mod 8))) [0..<w]"

lemma glyph_line_length [simp]: "length (glyph_line g tw w tc bc i) = w"
  by (simp add: glyph_line_def)

lemma glyph_rows_eq:
  assumes "\<forall>x. \<forall>i < 8. p x i = bit x (7 - i)" and "w \<le> tw * 8" and "n + m * w \<le> length out" and "(k + m) * tw \<le> length b"
  shows "glyph_rows m k tw w p b tc bc n out = Some (put_at out n (concat (map (glyph_line b tw w tc bc) [k..<k + m])))"
  using assms(3,4)
proof (induction m arbitrary: k n out)
  case (Suc m)
  let ?l = "glyph_line b tw w tc bc"
  have row: "glyph_row tw 0 k tw w p b tc bc n out = Some (n + w, put_at out n (?l k))"
  proof (subst glyph_row_eq [OF refl])
    have e: "concat (map (\<lambda>j. map (\<lambda>i. pixel tc bc (p (b ! (k * tw + j)) i)) [0..<min 8 (w - j * 8)]) [0..<0 + tw]) = ?l k"
      using assms(1,2) concat_bytes [where g = "\<lambda>j i. pixel tc bc (p (b ! (k * tw + j)) i)"] by (simp add: glyph_line_def min_def)
    show "n + length (concat (map (\<lambda>j. map (\<lambda>i. pixel tc bc (p (b ! (k * tw + j)) i)) [0..<min 8 (w - j * 8)]) [0..<0 + tw])) \<le> length out"
      unfolding e using Suc.prems(1) by simp
    show "k * tw + 0 + tw \<le> length b" using Suc.prems(2) by (simp add: algebra_simps)
    show "Some (n + length (concat (map (\<lambda>j. map (\<lambda>i. pixel tc bc (p (b ! (k * tw + j)) i)) [0..<min 8 (w - j * 8)]) [0..<0 + tw])),
        put_at out n (concat (map (\<lambda>j. map (\<lambda>i. pixel tc bc (p (b ! (k * tw + j)) i)) [0..<min 8 (w - j * 8)]) [0..<0 + tw]))) = Some (n + w, put_at out n (?l k))"
      unfolding e by simp
  qed
  have "glyph_rows m (Suc k) tw w p b tc bc (n + w) (put_at out n (?l k)) = Some (put_at (put_at out n (?l k)) (n + w) (concat (map ?l [Suc k..<Suc k + m])))"
    by (rule Suc.IH) (use Suc.prems in simp_all)
  moreover have "put_at (put_at out n (?l k)) (n + w) (concat (map ?l [Suc k..<Suc k + m])) = put_at out n (concat (map ?l [k..<k + Suc m]))"
    using put_at_append [of n "?l k" out] Suc.prems(1) by (simp add: upt_conv_Cons del: upt_Suc)
  ultimately show ?case using row by simp
qed simp

lemma key_test_bit: "i < 8 \<Longrightarrow> key_test b i = bit b (7 - i)"
proof -
  have e: "(b AND push_bit n 1 \<noteq> 0) = bit b n" for n
    by (simp add: bit_iff_and_push_bit_not_eq_0)
  assume "i < 8"
  then have "i \<in> {0, 1, 2, 3, 4, 5, 6, 7}" by auto
  then show ?thesis using e [of 0] e [of 1] e [of 2] e [of 3] e [of 4] e [of 5] e [of 6] e [of 7]
    unfolding key_test_def by (elim insertE) (auto simp: push_bit_eq_mult)
qed

lemma shift_test_bit: "i < 8 \<Longrightarrow> shift_test b i = bit b (7 - i)"
proof -
  assume i: "i < 8"
  have "(push_bit i (ucast b) AND (0x80 :: u32) \<noteq> 0) = bit (push_bit i (ucast b :: u32)) 7"
    using bit_iff_and_push_bit_not_eq_0 [of "push_bit i (ucast b :: u32)" 7] by (simp add: push_bit_eq_mult and.commute)
  then show ?thesis using i by (auto simp: shift_test_def bit_push_bit_iff bit_unsigned_iff)
qed

lemma glyph_of_file_eq:
  assumes "font name = Some f" and "length (f offset WORD_SIZE) = WORD_SIZE" and "WORD_SIZE = h * tw" and "WORD_SIZE \<le> 100" and "0 < h"
    and "w \<le> tw * 8" and "h * w \<le> length out" and "\<forall>x. \<forall>i < 8. p x i = bit x (7 - i)"
  shows "glyph_of_file font name offset WORD_SIZE w h p tc bc out =
    Some (put_at out 0 (concat (map (glyph_line (f offset WORD_SIZE) tw w tc bc) [0..<h])))"
proof -
  define b :: buf where "b = f offset WORD_SIZE @ replicate (100 - WORD_SIZE) 0"
  have b: "buf_write (replicate 100 0) 0 (f offset WORD_SIZE) = Some b" "length b = 100"
    using assms(2,4) by (simp_all add: buf_write_def b_def)
  have "i * tw + x div 8 < WORD_SIZE" if "i < h" "x < w" for i x
  proof -
    have "x div 8 < tw" using that(2) assms(6) by auto
    then have "i * tw + x div 8 < (i + 1) * tw" by simp
    also have "\<dots> \<le> h * tw" using that(1) by (intro mult_right_mono) auto
    finally show ?thesis using assms(3) by simp
  qed
  then have "glyph_line b tw w tc bc i = glyph_line (f offset WORD_SIZE) tw w tc bc i" if "i < h" for i
    using that assms(2) by (auto simp: glyph_line_def b_def nth_append)
  then have e: "map (glyph_line b tw w tc bc) [0..<h] = map (glyph_line (f offset WORD_SIZE) tw w tc bc) [0..<h]" by simp
  have "glyph_rows h 0 tw w p b tc bc 0 out = Some (put_at out 0 (concat (map (glyph_line b tw w tc bc) [0..<0 + h])))"
    by (rule glyph_rows_eq [OF assms(8,6)]) (use b assms(3,4,7) in simp_all)
  then show ?thesis unfolding add_0 e using b assms(1,3,5) by (simp add: glyph_of_file_def)
qed

section \<open>The reference image\<close>

text \<open>The glyphs of the two font files, and row \<open>i\<close> of the image of a text: the rows of its characters side by side.\<close>

definition asc_glyph :: "fonts \<Rightarrow> nat \<Rightarrow> u8 \<Rightarrow> buf" where
  "asc_glyph font fontSize c = the (font (if fontSize = 12 then ''/ASC12'' else ''/ASC16'')) (uint c * int fontSize) fontSize"

definition gbk_glyph :: "fonts \<Rightarrow> nat \<Rightarrow> u8 \<Rightarrow> u8 \<Rightarrow> buf" where
  "gbk_glyph font fontSize c d =
     the (font (if fontSize = 12 then ''/HZK12'' else ''/HZK16'')) ((94 * (uint c - 0xA1) + (uint d - 0xA1)) * (2 * int fontSize)) (2 * fontSize)"

fun text_row :: "fonts \<Rightarrow> nat \<Rightarrow> u16 \<Rightarrow> u16 \<Rightarrow> buf \<Rightarrow> nat \<Rightarrow> u16 list" where
  "text_row font fontSize tc bc [] i = []"
| "text_row font fontSize tc bc (c # t) i =
     (if 0x80 < c
      then case t of [] \<Rightarrow> []
           | d # t' \<Rightarrow> glyph_line (gbk_glyph font fontSize c d) 2 fontSize tc bc i @ text_row font fontSize tc bc t' i
      else glyph_line (asc_glyph font fontSize c) 1 (fontSize div 2) tc bc i @ text_row font fontSize tc bc t i)"

text \<open>Texts in which every lead byte is followed by a second byte, for which the fonts have all glyphs.\<close>

fun drawable :: "fonts \<Rightarrow> nat \<Rightarrow> buf \<Rightarrow> bool" where
  "drawable font fontSize [] = True"
| "drawable font fontSize (c # t) =
     (if 0x80 < c
      then case t of [] \<Rightarrow> False
           | d # t' \<Rightarrow> d \<noteq> 0 \<and> font (if fontSize = 12 then ''/HZK12'' else ''/HZK16'') \<noteq> None \<and>
                      length (gbk_glyph font fontSize c d) = 2 * fontSize \<and> drawable font fontSize t'
      else c \<noteq> 0 \<and> font (if fontSize = 12 then ''/ASC12'' else ''/ASC16'') \<noteq> None \<and>
           length (asc_glyph font fontSize c) = fontSize \<and> drawable font fontSize t)"

lemma text_row_length: "fontSize = 12 \<or> fontSize = 16 \<Longrightarrow> drawable font fontSize t \<Longrightarrow> length (text_row font fontSize tc bc t i) = length t * (fontSize div 2)"
  by (induction font fontSize tc bc t i rule: text_row.induct) (auto split: list.splits)

lemma gbk_glyph_drawn:
  assumes "fontSize = 12 \<or> fontSize = 16" and "length out = 256" and "drawable font fontSize (c # d # t)" and "0x80 < c"
  shows "GetGbkOneBuf font fontSize c d out tc bc =
    Some (put_at out 0 (concat (map (glyph_line (gbk_glyph font fontSize c d) 2 fontSize tc bc) [0..<fontSize])))"
  using assms by (auto simp: GetGbkOneBuf_def GetFontSize_def gbk_glyph_def key_test_bit intro!: glyph_of_file_eq [where tw = 2, simplified])

lemma asc_glyph_drawn:
  assumes "fontSize = 12 \<or> fontSize = 16" and "length out = 256" and "drawable font fontSize (c # t)" and "\<not> 0x80 < c"
  shows "GetOneCharBuf font fontSize c out tc bc =
    Some (put_at out 0 (concat (map (glyph_line (asc_glyph font fontSize c) 1 (fontSize div 2) tc bc) [0..<fontSize])))"
  using assms by (auto simp: GetOneCharBuf_def GetFontSize_def asc_glyph_def shift_test_bit intro!: glyph_of_file_eq [where tw = 1, simplified])

section \<open>Glyphs land in their columns\<close>

lemma copy_row_eq:
  "from + j + m \<le> length tmp \<Longrightarrow> to + j + m \<le> length d \<Longrightarrow>
   copy_row m j to from tmp d = Some (put_at d (to + j) (take m (drop (from + j) tmp)))"
proof (induction m arbitrary: j d)
  case (Suc m)
  have "take (Suc m) (drop (from + j) tmp) = tmp ! (from + j) # take m (drop (Suc (from + j)) tmp)"
    using Suc.prems(1) by (simp add: take_Suc_conv_app_nth Cons_nth_drop_Suc [symmetric])
  then show ?case using Suc by (simp add: wr_put_at put_at_Cons del: wr_in_range)
qed simp

lemma grid_unique:
  fixes r c i e w :: nat
  assumes "c < w" and "e < w" and "r * w + c = i * w + e"
  shows "r = i \<and> c = e"
  using assms by (metis add_left_cancel add.commute div_mult_self3 div_less add_0 not_less_zero)

text \<open>The place of row \<open>r\<close>, column \<open>c\<close> is the address of column \<open>si\<close> to \<open>si + w - 1\<close> of row \<open>i\<close> exactly for \<open>r = i\<close> and
  these columns.\<close>

lemma grid_range:
  fixes r c i w si ll :: nat
  assumes "c < ll" and "si + w \<le> ll"
  shows "(i * ll + si \<le> r * ll + c \<and> r * ll + c < i * ll + si + w) = (r = i \<and> si \<le> c \<and> c < si + w)"
proof
  assume h: "i * ll + si \<le> r * ll + c \<and> r * ll + c < i * ll + si + w"
  define e where "e = r * ll + c - i * ll"
  have "r * ll + c = i * ll + e" "si \<le> e" "e < si + w" using h by (auto simp: e_def)
  then show "r = i \<and> si \<le> c \<and> c < si + w" using grid_unique [of c ll e r i] assms by auto
qed auto

definition same_but :: "nat \<Rightarrow> nat \<Rightarrow> nat \<Rightarrow> (nat \<Rightarrow> u16 list) \<Rightarrow> nat set \<Rightarrow> u16 list \<Rightarrow> u16 list \<Rightarrow> bool" where
  "same_but ll si w G R d d' = (length d' = length d \<and> (\<forall>r c. r * ll + c < length d \<longrightarrow> c < ll \<longrightarrow>
     d' ! (r * ll + c) = (if r \<in> R \<and> si \<le> c \<and> c < si + w then G r ! (c - si) else d ! (r * ll + c))))"

lemma copy_rows_eq:
  assumes "si + w \<le> ll"
  shows "(i + m) * w \<le> length tmp \<Longrightarrow> (i + m) * ll \<le> length d \<Longrightarrow>
    \<exists>d'. copy_rows m i w ll si tmp d = Some d' \<and> same_but ll si w (\<lambda>r. take w (drop (r * w) tmp)) {i..<i + m} d d'"
proof (induction m arbitrary: i d)
  case (Suc m)
  define g where "g = take w (drop (i * w) tmp)"
  define d1 where "d1 = put_at d (i * ll + si) g"
  have l: "i * w + w \<le> length tmp" "i * ll + ll \<le> length d" using Suc.prems by (simp_all add: add_mult_distrib)
  then have g: "length g = w" by (simp add: g_def)
  have d1: "copy_row w 0 (i * ll + si) (i * w) tmp d = Some d1" "length d1 = length d"
    using copy_row_eq [of "i * w" 0 w tmp "i * ll + si" d] l assms g by (simp_all add: d1_def g_def)
  have at: "d1 ! (r * ll + c) = (if r = i \<and> si \<le> c \<and> c < si + w then g ! (c - si) else d ! (r * ll + c))"
    if "r * ll + c < length d" "c < ll" for r c
    using put_at_nth [of "i * ll + si" g d "r * ll + c"] grid_range [OF that(2) assms, of i r] that(1) g l assms by (auto simp: d1_def)
  obtain d' where d': "copy_rows m (Suc i) w ll si tmp d1 = Some d'" "same_but ll si w (\<lambda>r. take w (drop (r * w) tmp)) {Suc i..<Suc i + m} d1 d'"
    using Suc.IH [of "Suc i" d1] Suc.prems d1(2) by auto
  have "same_but ll si w (\<lambda>r. take w (drop (r * w) tmp)) {i..<i + Suc m} d d'"
    using d'(2) at d1(2) unfolding same_but_def by (auto simp: g_def)
  then show ?case using d1(1) d'(1) by simp
qed (simp add: same_but_def)

lemma concat_rows_nth:
  assumes "\<forall>r. length (G r) = w" and "r < h"
  shows "take w (drop (r * w) (concat (map G [0..<h]) @ ys)) = G r"
  using assms(2)
proof (induction h)
  case (Suc h)
  have l: "length (concat (map G [0..<k])) = k * w" for k using assms(1) by (induction k) auto
  show ?case
  proof (cases "r = h")
    case True
    then show ?thesis using l [of h] assms(1) by simp
  next
    case False
    have "r * w + w \<le> h * w" using False Suc.prems by (metis less_SucE Suc_leI mult_Suc add.commute mult_le_mono1)
    then show ?thesis using False Suc l [of h] by (simp add: drop_append)
  qed
qed simp

lemma glyph_copied:
  assumes "\<forall>r. length (G r) = w" and "si + w \<le> ll" and "h * w \<le> length out" and "h * ll \<le> length d"
  shows "\<exists>d'. copy_rows h 0 w ll si (put_at out 0 (concat (map G [0..<h]))) d = Some d' \<and> same_but ll si w G {0..<h} d d'"
proof -
  define tmp where "tmp = put_at out 0 (concat (map G [0..<h]))"
  have lg: "length (concat (map G [0..<h])) = h * w" using assms(1) by (induction h) auto
  then have "length tmp = length out" using assms(3) by (simp add: tmp_def)
  then obtain d' where d': "copy_rows h 0 w ll si tmp d = Some d'" "same_but ll si w (\<lambda>r. take w (drop (r * w) tmp)) {0..<h} d d'"
    using copy_rows_eq [OF assms(2), of 0 h tmp d] assms(3,4) by auto
  have "take w (drop (r * w) tmp) = G r" if "r < h" for r
    by (simp only: tmp_def put_at_def take_0 append_Nil concat_rows_nth [OF assms(1) that])
  then have "same_but ll si w G {0..<h} d d'" using d'(2) by (auto simp: same_but_def)
  then show ?thesis using d'(1) tmp_def by blast
qed

lemma same_but_trans:
  assumes "same_but ll si w G R d d1" and "same_but ll (si + w) v H R d1 d2" and "\<forall>r. length (G r) = w"
  shows "same_but ll si (w + v) (\<lambda>r. G r @ H r) R d d2"
  using assms unfolding same_but_def by (auto simp: nth_append)

section \<open>A line of text is drawn\<close>

definition lcd_ok :: "lcd \<Rightarrow> bool" where
  "lcd_ok s = (length (display_buf s) = 16384 \<and> length (tmp_buf s) = 256)"

text \<open>One character: its glyph in \<open>tmp_buf\<close>, then in its columns of \<open>display_buf\<close>.\<close>

lemma font_size_eq: "fontSize = 12 \<or> fontSize = 16 \<Longrightarrow> GetFontSize fontSize = (fontSize, fontSize, fontSize div 2, fontSize)"
  by (auto simp: GetFontSize_def)

lemma char_step:
  assumes "fontSize = 12 \<or> fontSize = 16" and "line_len \<le> 128" and "lcd_ok s" and "\<forall>r. length (G r) = w" and "w \<le> fontSize" and "si + w \<le> line_len"
  shows "\<exists>d. copy_rows fontSize 0 w line_len si (put_at (tmp_buf s) 0 (concat (map G [0..<fontSize]))) (display_buf s) = Some d \<and>
    same_but line_len si w G {0..<fontSize} (display_buf s) d \<and>
    lcd_ok (s\<lparr>tmp_buf := put_at (tmp_buf s) 0 (concat (map G [0..<fontSize])), display_buf := d\<rparr>)"
proof -
  have a: "fontSize * w \<le> 256" using assms(1,5) by auto
  have b: "fontSize * line_len \<le> 16384" using assms(1,2) by auto
  have l: "length (concat (map G [0..<k])) = k * w" for k using assms(4) by (induction k) auto
  obtain d where "copy_rows fontSize 0 w line_len si (put_at (tmp_buf s) 0 (concat (map G [0..<fontSize]))) (display_buf s) = Some d"
      "same_but line_len si w G {0..<fontSize} (display_buf s) d"
    using glyph_copied [OF assms(4,6), of fontSize "tmp_buf s" "display_buf s"] a b assms(3) by (auto simp: lcd_ok_def)
  then show ?thesis using assms(3) a l [of fontSize] by (auto simp: lcd_ok_def same_but_def)
qed

text \<open>One round of the loop, for either kind of character.\<close>

definition same_rest :: "lcd \<Rightarrow> lcd \<Rightarrow> bool" where
  "same_rest s s' = (lcd_ok s' \<and> sent s' = sent s \<and> lcd_init s' = lcd_init s)"

lemma min_word: "(if b < X then b else X) = min X b" for b X :: u32
  by (auto simp: min_def)

lemma disp_loop_gbk:
  assumes "fontSize = 12 \<or> fontSize = 16" and "line_len \<le> 128" and "Ystart \<le> 128 - of_nat fontSize" and "lcd_ok s"
    and "0x80 < c" and "drawable font fontSize (c # d # t)" and "si + fontSize \<le> line_len"
  shows "\<exists>s1. disp_loop font fontSize (pre @ c # d # t @ 0 # post) (length pre) line_len si X Ystart tc bc s =
        disp_loop font fontSize (pre @ c # d # t @ 0 # post) (length pre + 2) line_len (si + fontSize) (min X (128 - of_nat fontSize)) Ystart tc bc s1 \<and>
      same_rest s s1 \<and> same_but line_len si fontSize (glyph_line (gbk_glyph font fontSize c d) 2 fontSize tc bc) {0..<fontSize} (display_buf s) (display_buf s1)"
proof -
  let ?G = "glyph_line (gbk_glyph font fontSize c d) 2 fontSize tc bc"
  have y: "\<not> 128 - of_nat fontSize < Ystart" and c: "c \<noteq> 0" using assms(3,5) by (auto simp: not_less)
  from char_step [OF assms(1,2,4), of ?G fontSize si] assms(7) obtain e where
    e: "copy_rows fontSize 0 fontSize line_len si (put_at (tmp_buf s) 0 (concat (map ?G [0..<fontSize]))) (display_buf s) = Some e"
      "same_but line_len si fontSize ?G {0..<fontSize} (display_buf s) e" and
    ok: "lcd_ok (s\<lparr>tmp_buf := put_at (tmp_buf s) 0 (concat (map ?G [0..<fontSize])), display_buf := e\<rparr>)" (is "lcd_ok ?s") by auto
  have "GetGbkOneBuf font fontSize c d (tmp_buf s) tc bc = Some (put_at (tmp_buf s) 0 (concat (map ?G [0..<fontSize])))"
    by (rule gbk_glyph_drawn) (use assms(1,4,5,6) in \<open>auto simp: lcd_ok_def\<close>)
  then have "disp_loop font fontSize (pre @ c # d # t @ 0 # post) (length pre) line_len si X Ystart tc bc s =
      disp_loop font fontSize (pre @ c # d # t @ 0 # post) (length pre + 2) line_len (si + fontSize) (min X (128 - of_nat fontSize)) Ystart tc bc ?s"
    using assms(5) y c font_size_eq [OF assms(1)] e(1) by (subst disp_loop.simps) (simp add: nth_append Let_def rd_def min_word)
  then show ?thesis using ok e(2) by (intro exI [of _ ?s]) (simp add: same_rest_def)
qed

lemma disp_loop_asc:
  assumes "fontSize = 12 \<or> fontSize = 16" and "line_len \<le> 128" and "Ystart \<le> 128 - of_nat fontSize" and "lcd_ok s"
    and "\<not> 0x80 < c" and "drawable font fontSize (c # t)" and "si + fontSize div 2 \<le> line_len"
  shows "\<exists>s1. disp_loop font fontSize (pre @ c # t @ 0 # post) (length pre) line_len si X Ystart tc bc s =
        disp_loop font fontSize (pre @ c # t @ 0 # post) (length pre + 1) line_len (si + fontSize div 2) (min X (128 - of_nat fontSize)) Ystart tc bc s1 \<and>
      same_rest s s1 \<and> same_but line_len si (fontSize div 2) (glyph_line (asc_glyph font fontSize c) 1 (fontSize div 2) tc bc) {0..<fontSize} (display_buf s) (display_buf s1)"
proof -
  let ?G = "glyph_line (asc_glyph font fontSize c) 1 (fontSize div 2) tc bc"
  have two: "of_nat (fontSize div 2) * 2 = (of_nat fontSize :: u32)" and c: "c \<noteq> 0" using assms(1,5,6) by auto
  have y: "\<not> 128 - of_nat fontSize < Ystart" using assms(3) by (simp add: not_less)
  from char_step [OF assms(1,2,4), of ?G "fontSize div 2" si] assms(7) obtain e where
    e: "copy_rows fontSize 0 (fontSize div 2) line_len si (put_at (tmp_buf s) 0 (concat (map ?G [0..<fontSize]))) (display_buf s) = Some e"
      "same_but line_len si (fontSize div 2) ?G {0..<fontSize} (display_buf s) e" and
    ok: "lcd_ok (s\<lparr>tmp_buf := put_at (tmp_buf s) 0 (concat (map ?G [0..<fontSize])), display_buf := e\<rparr>)" (is "lcd_ok ?s") by auto
  have "GetOneCharBuf font fontSize c (tmp_buf s) tc bc = Some (put_at (tmp_buf s) 0 (concat (map ?G [0..<fontSize])))"
    by (rule asc_glyph_drawn) (use assms(1,4,5,6) in \<open>auto simp: lcd_ok_def\<close>)
  then have "disp_loop font fontSize (pre @ c # t @ 0 # post) (length pre) line_len si X Ystart tc bc s =
      disp_loop font fontSize (pre @ c # t @ 0 # post) (length pre + 1) line_len (si + fontSize div 2) (min X (128 - of_nat fontSize)) Ystart tc bc ?s"
    using assms(5) y c two font_size_eq [OF assms(1)] e(1) by (subst disp_loop.simps) (simp add: nth_append Let_def min_word)
  then show ?thesis using ok e(2) by (intro exI [of _ ?s]) (simp add: same_rest_def)
qed

lemma disp_loop_draws:
  assumes "fontSize = 12 \<or> fontSize = 16" and "line_len \<le> 128" and "Ystart \<le> 128 - of_nat fontSize"
  shows "drawable font fontSize u \<Longrightarrow> lcd_ok s \<Longrightarrow> si + length u * (fontSize div 2) \<le> line_len \<Longrightarrow>
    \<exists>s'. disp_loop font fontSize (pre @ u @ 0 # post) (length pre) line_len si X Ystart tc bc s =
           Some (if u = [] then X else min X (128 - of_nat fontSize), s') \<and> same_rest s s' \<and>
      same_but line_len si (length u * (fontSize div 2)) (text_row font fontSize tc bc u) {0..<fontSize} (display_buf s) (display_buf s')"
proof (induction "length u" arbitrary: u pre si X s rule: less_induct)
  case less
  have aw: "2 * (fontSize div 2) = fontSize" using assms(1) by auto
  let ?M = "min X (128 - of_nat fontSize)"
  consider "u = []" | c d t where "u = c # d # t" "0x80 < c" "drawable font fontSize t" | c t where "u = c # t" "\<not> 0x80 < c" "drawable font fontSize t"
    using less.prems(1) by (cases u) (auto split: if_splits list.splits)
  then show ?case
  proof cases
    case 1
    then show ?thesis using less.prems by (subst disp_loop.simps) (auto simp: same_but_def same_rest_def)
  next
    case 2
    have ll: "si + fontSize + length t * (fontSize div 2) \<le> line_len" using less.prems(3) 2 aw by (auto simp: algebra_simps)
    from disp_loop_gbk [OF assms less.prems(2) 2(2), of font d t si pre post X tc bc] less.prems(1) 2 ll obtain s1 where
      s1: "disp_loop font fontSize (pre @ u @ 0 # post) (length pre) line_len si X Ystart tc bc s =
          disp_loop font fontSize (pre @ u @ 0 # post) (length pre + 2) line_len (si + fontSize) ?M Ystart tc bc s1" "same_rest s s1"
        "same_but line_len si fontSize (glyph_line (gbk_glyph font fontSize c d) 2 fontSize tc bc) {0..<fontSize} (display_buf s) (display_buf s1)" by auto
    from less.hyps [of t s1 "si + fontSize" "pre @ [c, d]" ?M] 2 ll s1(2) obtain s' where
      s': "disp_loop font fontSize (pre @ u @ 0 # post) (length pre + 2) line_len (si + fontSize) ?M Ystart tc bc s1 = Some (?M, s')" "same_rest s1 s'"
        "same_but line_len (si + fontSize) (length t * (fontSize div 2)) (text_row font fontSize tc bc t) {0..<fontSize} (display_buf s1) (display_buf s')"
      by (auto simp: same_rest_def split: if_splits)
    have "text_row font fontSize tc bc u = (\<lambda>r. glyph_line (gbk_glyph font fontSize c d) 2 fontSize tc bc r @ text_row font fontSize tc bc t r)"
      "length u * (fontSize div 2) = fontSize + length t * (fontSize div 2)" using 2 aw by auto
    then have "same_but line_len si (length u * (fontSize div 2)) (text_row font fontSize tc bc u) {0..<fontSize} (display_buf s) (display_buf s')"
      using same_but_trans [OF s1(3) s'(3)] by simp
    then show ?thesis using s1(1,2) s'(1,2) 2(1) by (intro exI [of _ s']) (auto simp: same_rest_def)
  next
    case 3
    have ll: "si + fontSize div 2 + length t * (fontSize div 2) \<le> line_len" using less.prems(3) 3 by auto
    from disp_loop_asc [OF assms less.prems(2) 3(2), of font t si pre post X tc bc] less.prems(1) 3 ll obtain s1 where
      s1: "disp_loop font fontSize (pre @ u @ 0 # post) (length pre) line_len si X Ystart tc bc s =
          disp_loop font fontSize (pre @ u @ 0 # post) (length pre + 1) line_len (si + fontSize div 2) ?M Ystart tc bc s1" "same_rest s s1"
        "same_but line_len si (fontSize div 2) (glyph_line (asc_glyph font fontSize c) 1 (fontSize div 2) tc bc) {0..<fontSize} (display_buf s) (display_buf s1)" by auto
    from less.hyps [of t s1 "si + fontSize div 2" "pre @ [c]" ?M] 3 ll s1(2) obtain s' where
      s': "disp_loop font fontSize (pre @ u @ 0 # post) (length pre + 1) line_len (si + fontSize div 2) ?M Ystart tc bc s1 = Some (?M, s')" "same_rest s1 s'"
        "same_but line_len (si + fontSize div 2) (length t * (fontSize div 2)) (text_row font fontSize tc bc t) {0..<fontSize} (display_buf s1) (display_buf s')"
      by (auto simp: same_rest_def split: if_splits)
    have "text_row font fontSize tc bc u = (\<lambda>r. glyph_line (asc_glyph font fontSize c) 1 (fontSize div 2) tc bc r @ text_row font fontSize tc bc t r)"
      "length u * (fontSize div 2) = fontSize div 2 + length t * (fontSize div 2)" using 3 by auto
    then have "same_but line_len si (length u * (fontSize div 2)) (text_row font fontSize tc bc u) {0..<fontSize} (display_buf s) (display_buf s')"
      using same_but_trans [OF s1(3) s'(3)] by simp
    then show ?thesis using s1(1,2) s'(1,2) 3(1) by (intro exI [of _ s']) (auto simp: same_rest_def)
  qed
qed

text \<open>The rows of the drawn columns are the rows of the image.\<close>

lemma drawn_rows:
  assumes "same_but ll 0 ll G {0..<h} d d'" and "h * ll \<le> length d" and "\<forall>r. length (G r) = ll"
  shows "k \<le> h \<Longrightarrow> take (k * ll) d' = concat (map G [0..<k])"
proof (induction k)
  case (Suc k)
  have l: "k * ll + ll \<le> length d" using assms(2) Suc.prems by (metis add.commute le_trans mult_Suc mult_le_mono1)
  have "take ll (drop (k * ll) d') = G k"
    using assms l Suc.prems by (intro nth_equalityI) (auto simp: same_but_def)
  then show ?case using Suc take_add [of "k * ll" ll d'] by (simp add: add.commute [of ll])
qed simp

lemma words_le_take: "n \<le> length ws \<Longrightarrow> buf_read (words_le ws) 0 (n * 2) = Some (words_le (take n ws))"
proof -
  have l: "length (words_le ws) = 2 * length ws" for ws by (induction ws) (simp_all add: words_le_def)
  have "words_le (take n ws @ drop n ws) = words_le (take n ws) @ words_le (drop n ws)" by (simp only: words_le_def map_append concat_append)
  then show "n \<le> length ws \<Longrightarrow> ?thesis" using l [of ws] l [of "take n ws"] by (simp add: buf_read_def min_def)
qed

lemma c_strlen_text_lcd: "0 \<notin> set u \<Longrightarrow> c_strlen (u @ 0 # post) = Some (length u)"
  by (induction u) auto

lemma drawable_no_zero: "drawable font fontSize u \<Longrightarrow> 0 \<notin> set u"
  by (induction font fontSize u rule: drawable.induct) (auto split: if_splits list.splits)

definition window :: "u32 \<Rightarrow> u32 \<Rightarrow> nat \<Rightarrow> nat \<Rightarrow> lcd_item list" where
  "window x y w h = [Cmd 0x2A, Dat 0, Dat (ucast x), Dat 0, Dat (ucast (x + of_nat w - 1)),
     Cmd 0x2B, Dat 0, Dat (ucast y), Dat 0, Dat (ucast (y + (of_nat h - 1))), Cmd 0x2C]"

text \<open>C12: drawing a line of text. For a text of ASCII and two-byte GBK characters whose glyphs the font files hold, that fits
  the display, in either font size, no access leaves an array, and what reaches the controller is a window of exactly the
  size of the text, followed by the pixels of the reference image row by row: the rows of the glyphs side by side, text
  colour where the bit of the font is set, background colour elsewhere, lower byte first. The window starts at the given
  column, except for a single character near the right edge, which is moved left to column 128 minus the font size.\<close>

theorem nwy_dispstrline_draws:
  assumes "fontSize = 12 \<or> fontSize = 16" and "drawable font fontSize u" and "lcd_ok s"
    and "unat Xstart + length u * (fontSize div 2) \<le> 128" and "Ystart \<le> 128 - of_nat fontSize"
  shows "\<exists>s'. nwy_dispstrline font fontSize (u @ 0 # post) Xstart Ystart tc bc s = Some s' \<and> lcd_ok s' \<and>
    sent s' = sent s @ window (if length u = 1 then min Xstart (128 - of_nat fontSize) else Xstart) Ystart (length u * (fontSize div 2)) fontSize @
      map Dat (words_le (concat (map (text_row font fontSize tc bc u) [0..<fontSize])))"
proof -
  define ll where "ll = length u * (fontSize div 2)"
  have ll: "ll \<le> 128" "unat Xstart + ll \<le> 128" using assms(4) by (simp_all add: ll_def)
  then have "unat (of_nat ll + Xstart) = ll + unat Xstart" by (simp add: unat_word_ariths unat_of_nat)
  then have fits: "\<not> 128 < of_nat ll + Xstart" using ll(2) by (simp add: word_less_nat_alt not_less)
  have H: "fontSize * ll \<le> 16384" using assms(1) ll(1) by auto
  obtain s1 where s1: "disp_loop font fontSize (u @ 0 # post) 0 ll 0 Xstart Ystart tc bc s =
        Some (if u = [] then Xstart else min Xstart (128 - of_nat fontSize), s1)" "same_rest s s1"
      "same_but ll 0 ll (text_row font fontSize tc bc u) {0..<fontSize} (display_buf s) (display_buf s1)"
    using disp_loop_draws [OF assms(1) ll(1) assms(5,2,3), of 0 "[]" post Xstart tc bc] ll_def by auto
  have x: "(if u = [] then Xstart else min Xstart (128 - of_nat fontSize)) = (if length u = 1 then min Xstart (128 - of_nat fontSize) else Xstart)"
  proof (cases "2 \<le> length u")
    case True
    then have "2 * (fontSize div 2) \<le> ll" unfolding ll_def by (rule mult_le_mono1)
    then have "Xstart \<le> 128 - of_nat fontSize" using assms(1,4) by (auto simp: word_le_nat_alt ll_def)
    then show ?thesis using True by (auto simp: min_def)
  qed (cases u, auto simp: Suc_le_eq)
  have "take (fontSize * ll) (display_buf s1) = concat (map (text_row font fontSize tc bc u) [0..<fontSize])"
    by (rule drawn_rows [OF s1(3)]) (use H assms(1,3) text_row_length [OF assms(1,2)] in \<open>auto simp: lcd_ok_def ll_def\<close>)
  then have "buf_read (words_le (display_buf s1)) 0 (ll * fontSize * 2) = Some (words_le (concat (map (text_row font fontSize tc bc u) [0..<fontSize])))"
    using words_le_take [of "fontSize * ll" "display_buf s1"] H s1(2) by (simp add: same_rest_def lcd_ok_def mult.commute)
  then show ?thesis using s1(1,2) fits x c_strlen_text_lcd [OF drawable_no_zero [OF assms(2)], of post] font_size_eq [OF assms(1)]
    by (simp add: nwy_dispstrline_def ll_def [symmetric] Let_def nwy_write_data_buf_def nwy_lcd_block_write_def emit_items_def window_def same_rest_def lcd_ok_def del: of_nat_mult)
qed

text \<open>The state at the start of the program, and a font in which all glyphs are two vertical strokes.\<close>

definition lcd_start :: lcd where
  "lcd_start = \<lparr>display_buf = replicate 16384 0, tmp_buf = replicate 256 0, lcd_init = False, sent = []\<rparr>"

definition stroke_font :: fonts where
  "stroke_font name = Some (\<lambda>offset n. replicate n 0x24)"

lemma lcd_start_ok: "lcd_ok lcd_start"
  by (simp add: lcd_ok_def lcd_start_def)

theorem nwy_dispstrline_draws_witness:
  "\<exists>s'. nwy_dispstrline stroke_font 16 ([0x41, 0xD3, 0xD0] @ 0 # [7]) 16 19 0 0xF81F lcd_start = Some s' \<and> lcd_ok s' \<and>
    sent s' = sent lcd_start @ window 16 19 24 16 @ map Dat (words_le (concat (map (text_row stroke_font 16 0 0xF81F [0x41, 0xD3, 0xD0]) [0..<16])))"
  using nwy_dispstrline_draws [where fontSize = 16 and font = stroke_font and u = "[0x41, 0xD3, 0xD0]" and s = lcd_start and Xstart = 16 and Ystart = 19 and
      post = "[7]" and tc = 0 and bc = "0xF81F"]
  by (simp add: lcd_start_ok stroke_font_def asc_glyph_def gbk_glyph_def)

text \<open>Switching the display on: it is cleared to white once, and a second call does nothing.\<close>

lemma nwy_lcd_init_clears:
  assumes "lcd_ok s"
  shows "\<exists>s'. nwy_lcd_init s = Some s' \<and> lcd_ok s' \<and> lcd_init s' \<and> nwy_lcd_init s' = Some s' \<and>
    (if lcd_init s then s' = s
     else display_buf s' = replicate 16384 0xFFFF \<and>
       (\<exists>setup. sent s' = sent s @ setup @ window 0 0 128 128 @ map Dat (words_le (replicate 16384 0xFFFF))))"
proof (cases "lcd_init s")
  case False
  have f: "buf_fill (display_buf s) 0 0xFFFF 16384 = Some (replicate 16384 0xFFFF)" using assms by (simp add: buf_fill_def buf_write_def lcd_ok_def)
  have r: "buf_read (words_le (replicate 16384 0xFFFF)) 0 32768 = Some (words_le (replicate 16384 0xFFFF))"
    using words_le_take [of 16384 "replicate 16384 (0xFFFF :: u16)"] by simp
  show ?thesis using assms False f r
    by (auto simp: nwy_lcd_init_def prvLcdClear_def Let_def nwy_write_data_buf_def nwy_lcd_block_write_def emit_items_def window_def st7735Init_def lcd_ok_def)
qed (simp add: nwy_lcd_init_def assms)

section \<open>Drawing stays inside the arrays\<close>

text \<open>Whatever the font files hold, as long as a read delivers at most the bytes it was asked for.\<close>

definition fonts_ok :: "fonts \<Rightarrow> bool" where
  "fonts_ok font = (\<forall>name f offset n. font name = Some f \<longrightarrow> length (f offset n) \<le> n)"

text \<open>Every lead byte is followed by another byte.\<close>

fun paired :: "buf \<Rightarrow> bool" where
  "paired [] = True"
| "paired (c # t) = (c \<noteq> 0 \<and> (if 0x80 < c then (case t of [] \<Rightarrow> False | d # t' \<Rightarrow> paired t') else paired t))"

lemma glyph_of_file_total:
  assumes "fonts_ok font" and "WORD_SIZE = h * tw" and "WORD_SIZE \<le> 100" and "0 < h" and "w \<le> tw * 8" and "h * w \<le> length out"
    and "\<forall>x. \<forall>i < 8. p x i = bit x (7 - i)"
  shows "\<exists>out'. glyph_of_file font name offset WORD_SIZE w h p tc bc out = Some out' \<and> length out' = length out"
proof (cases "font name")
  case (Some f)
  have l: "length (f offset WORD_SIZE) \<le> 100" using assms(1,3) Some unfolding fonts_ok_def by (meson le_trans)
  then obtain b where b: "buf_write (replicate 100 0) 0 (f offset WORD_SIZE) = Some b" "length b = 100" by (simp add: buf_write_def)
  have "length (concat (map (glyph_line b tw w tc bc) [0..<k])) = k * w" for k by (induction k) auto
  then show ?thesis using glyph_rows_eq [OF assms(7,5), of 0 h out 0 b tc bc] Some b assms(2,3,4,6) by (simp add: glyph_of_file_def)
qed (simp add: glyph_of_file_def)

lemma glyphs_total:
  assumes "fontSize = 12 \<or> fontSize = 16" and "fonts_ok font" and "length out = 256"
  shows "\<exists>out'. GetGbkOneBuf font fontSize c d out tc bc = Some out' \<and> length out' = 256"
    and "\<exists>out'. GetOneCharBuf font fontSize c out tc bc = Some out' \<and> length out' = 256"
  using assms glyph_of_file_total [OF assms(2), of 24 12 2 12 out key_test] glyph_of_file_total [OF assms(2), of 32 16 2 16 out key_test]
    glyph_of_file_total [OF assms(2), of 12 12 1 6 out shift_test] glyph_of_file_total [OF assms(2), of 16 16 1 8 out shift_test]
  by (auto simp: GetGbkOneBuf_def GetOneCharBuf_def GetFontSize_def key_test_bit shift_test_bit)

lemma char_copied:
  assumes "fontSize = 12 \<or> fontSize = 16" and "lcd_ok s" and "line_len \<le> 128" and "length tmp = 256" and "w \<le> fontSize" and "si + w \<le> line_len"
  shows "\<exists>d. copy_rows fontSize 0 w line_len si tmp (display_buf s) = Some d \<and> length d = 16384"
proof -
  have "fontSize * w \<le> 256" "fontSize * line_len \<le> 16384" using assms(1,3,5) by auto
  then show ?thesis using copy_rows_eq [OF assms(6), of 0 fontSize tmp "display_buf s"] assms(2,4) by (auto simp: lcd_ok_def same_but_def)
qed

lemma disp_loop_total:
  assumes "fontSize = 12 \<or> fontSize = 16" and "line_len \<le> 128" and "fonts_ok font"
  shows "paired u \<Longrightarrow> lcd_ok s \<Longrightarrow> si + length u * (fontSize div 2) \<le> line_len \<Longrightarrow>
    \<exists>X' s'. disp_loop font fontSize (pre @ u @ 0 # post) (length pre) line_len si X Ystart tc bc s = Some (X', s') \<and> lcd_ok s'"
proof (induction "length u" arbitrary: u pre si X s rule: less_induct)
  case less
  have aw: "2 * (fontSize div 2) = fontSize" using assms(1) by auto
  have t: "length (tmp_buf s) = 256" using less.prems(2) by (simp add: lcd_ok_def)
  consider "u = []" | c d v where "u = c # d # v" "0x80 < c" "paired v" | c v where "u = c # v" "\<not> 0x80 < c" "paired v" "c \<noteq> 0"
    using less.prems(1) by (cases u) (auto split: if_splits list.splits)
  then show ?case
  proof cases
    case 1
    then show ?thesis using less.prems by (subst disp_loop.simps) simp
  next
    case 2
    have ll: "si + fontSize \<le> line_len" "si + fontSize + length v * (fontSize div 2) \<le> line_len"
      using less.prems(3) 2 aw by (auto simp: algebra_simps)
    obtain tmp where tmp: "GetGbkOneBuf font fontSize c d (tmp_buf s) tc bc = Some tmp" "length tmp = 256" using glyphs_total(1) [OF assms(1,3) t] by blast
    obtain e where e: "copy_rows fontSize 0 fontSize line_len si tmp (display_buf s) = Some e" "length e = 16384"
      using char_copied [OF assms(1) less.prems(2) assms(2) tmp(2) le_refl ll(1)] by blast
    have ok: "lcd_ok (s\<lparr>tmp_buf := tmp, display_buf := e\<rparr>)" using tmp(2) e(2) by (simp add: lcd_ok_def)
    have c: "c \<noteq> 0" using 2(2) by auto
    show ?thesis using less.hyps [of v _ "si + fontSize" "pre @ [c, d]"] 2 ok ll(2) tmp(1) e(1) c font_size_eq [OF assms(1)]
      by (subst disp_loop.simps) (simp add: nth_append Let_def rd_def)
  next
    case 3
    have ll: "si + fontSize div 2 \<le> line_len" "si + fontSize div 2 + length v * (fontSize div 2) \<le> line_len"
      using less.prems(3) 3 by auto
    obtain tmp where tmp: "GetOneCharBuf font fontSize c (tmp_buf s) tc bc = Some tmp" "length tmp = 256" using glyphs_total(2) [OF assms(1,3) t] by blast
    obtain e where e: "copy_rows fontSize 0 (fontSize div 2) line_len si tmp (display_buf s) = Some e" "length e = 16384"
      using char_copied [OF assms(1) less.prems(2) assms(2) tmp(2) _ ll(1)] by auto
    have ok: "lcd_ok (s\<lparr>tmp_buf := tmp, display_buf := e\<rparr>)" using tmp(2) e(2) by (simp add: lcd_ok_def)
    show ?thesis using less.hyps [of v _ "si + fontSize div 2" "pre @ [c]"] 3 ok ll(2) tmp(1) e(1) font_size_eq [OF assms(1)]
      by (subst disp_loop.simps) (simp add: nth_append Let_def)
  qed
qed

text \<open>A text that does not fit the line is not drawn; every other one is.\<close>

lemma nwy_dispstrline_total:
  assumes "fontSize = 12 \<or> fontSize = 16" and "fonts_ok font" and "lcd_ok s" and "paired u" and "0 \<notin> set u"
    and "length u * (fontSize div 2) + unat Xstart < 2 ^ 32"
  shows "\<exists>s'. nwy_dispstrline font fontSize (u @ 0 # post) Xstart Ystart tc bc s = Some s' \<and> lcd_ok s'"
proof -
  define ll where "ll = length u * (fontSize div 2)"
  note len = c_strlen_text_lcd [OF assms(5), of post] and fs = font_size_eq [OF assms(1)]
  show ?thesis
  proof (cases "128 < of_nat ll + Xstart")
    case True
    then show ?thesis using len fs assms(3) by (simp add: nwy_dispstrline_def ll_def [symmetric] Let_def del: of_nat_mult)
  next
    case False
    have "ll + unat Xstart < 2 ^ 32" using assms(6) by (simp add: ll_def)
    then have "unat (of_nat ll + Xstart) = ll + unat Xstart" by (simp add: unat_word_ariths unat_of_nat)
    then have ll: "ll \<le> 128" using False by (simp add: word_less_nat_alt not_less)
    obtain X' s1 where s1: "disp_loop font fontSize (u @ 0 # post) 0 ll 0 Xstart Ystart tc bc s = Some (X', s1)" "lcd_ok s1"
      using disp_loop_total [OF assms(1) ll assms(2,4,3), of 0 "[]" post Xstart Ystart tc bc] ll_def by auto
    have "ll * fontSize \<le> 16384" using assms(1) ll by auto
    then show ?thesis using words_le_take [of "ll * fontSize" "display_buf s1"] False s1 len fs
      by (simp add: nwy_dispstrline_def ll_def [symmetric] Let_def nwy_write_data_buf_def nwy_lcd_block_write_def emit_items_def lcd_ok_def del: of_nat_mult)
  qed
qed

end
