(* ===== verification/CliDriver.thy ===== *)
theory CliDriver
  imports CliNetwork Lcd
begin

text \<open>
  The driver functions of the test program, src/nwy_test_cli/modules/nwy_test_cli_driver.c, as dialogs: serial ports, I2C, SPI,
  GPIO, power management, display, speech and sound (the files and directories are in \<open>CliFiles\<close>, the downloads of firmware
  in \<open>CliInput\<close>).

  Some functions read local variables that were never set. Such a variable holds whatever its register or stack place
  contained; it is read from the field \<open>junk\<close>, about which nothing is known. The enumerations of the module are single bytes
  (the target's default).
\<close>

section \<open>Variables\<close>

record driver_vars = mobile_vars +
  junk :: "string \<Rightarrow> int"
  uart_hd :: int
  i2c_bus :: int
  spi_bus :: int
  test_p :: int
  display :: lcd
  font_files :: fonts
  display_buffer :: "u16 list"
  tts_buff :: buf
  encode_type :: int
  capture_len :: int
  audio_buf :: "buf option"
  sio_recv_copy :: buf
  nwy_test_fs_fd :: int
  nwy_test_file_name :: buf
  nwy_test_fs_dir :: int
  nwy_test_dir_name :: buf

section \<open>Serial ports\<close>

definition NWY_MAKE_TAG :: "int \<Rightarrow> int \<Rightarrow> int \<Rightarrow> int \<Rightarrow> int" where
  "NWY_MAKE_TAG a b c d = a + b * 256 + c * 65536 + d * 16777216"

definition nwy_test_cli_uart_init :: "'a driver_vars_scheme dialog" where
  "nwy_test_cli_uart_init =
     ask_int (prompt ''Please input the uart id(1-URT1,2-URT2 or 3-URT3):'') (\<lambda>v. let port = to_u8 v in Get (\<lambda>s.
       let name = (if port = 1 then NWY_MAKE_TAG 0x55 0x52 0x54 0x31 else if port = 2 then NWY_MAKE_TAG 0x55 0x52 0x54 0x32
                   else if port = 3 then NWY_MAKE_TAG 0x55 0x52 0x54 0x33 else to_u32 (junk s ''name''))
       in say [str ''Test port = '', fmt_d port, str ''!'']
         (ask_int (prompt ''Please input the uart mode(0-AT,1-DATA):'') (\<lambda>m. say [str ''Test port = '', fmt_d (to_u8 m), str ''!'']
           (Call ''nwy_uart_init'' [I name, I (to_u8 m)] (\<lambda>a. Put (\<lambda>s. s\<lparr>uart_hd := ret a\<rparr>)
             (echo_if (ret a < 0) ''Test uart error!'' (echo ''Test uart success!'' Done))))))))"

definition nwy_test_cli_uart_set_baud :: "'a driver_vars_scheme dialog" where
  "nwy_test_cli_uart_set_baud =
     ask_int (prompt ''Please input the uart baud:'') (\<lambda>baud. Get (\<lambda>s.
       say [str ''Test baud = '', fmt_d baud, str '',hd = '', fmt_d (uart_hd s), str ''!'']
         (if 1200 \<le> to_u32 baud \<and> to_u32 baud \<le> 8000000
          then Call ''nwy_uart_set_baud'' [I (uart_hd s), I (to_u32 baud)] (\<lambda>a. echo ''Set uart baud success!'' Done)
          else echo ''Set uart baud param error!'' Done)))"

definition nwy_test_cli_uart_get_baud :: "'a driver_vars_scheme dialog" where
  "nwy_test_cli_uart_get_baud =
     Get (\<lambda>s. Call ''nwy_uart_get_baud'' [I (uart_hd s)] (\<lambda>a.
       say [str ''Read uart id = '', fmt_d (uart_hd s + 1), str '', baud = '', fmt_d (num a 0), str ''!''] Done))"

text \<open>\<open>num\<close>: \<open>parity\<close>, \<open>data_size\<close>, \<open>stop_size\<close>, \<open>flow_ctrl\<close>.\<close>

definition get_para :: "(int \<Rightarrow> answer \<Rightarrow> 'a driver_vars_scheme dialog) \<Rightarrow> 'a driver_vars_scheme dialog" where
  "get_para k = Get (\<lambda>s. Call ''nwy_uart_get_para'' [I (uart_hd s)] (\<lambda>a. k (uart_hd s) a))"

definition set_para :: "int \<Rightarrow> int \<Rightarrow> int \<Rightarrow> int \<Rightarrow> int \<Rightarrow> 's dialog \<Rightarrow> 's dialog" where
  "set_para h parity data_size stop_size flow_ctrl d =
     Call ''nwy_uart_set_para'' [I h, I parity, I data_size, I stop_size, I flow_ctrl] (\<lambda>a. d)"

definition nwy_test_cli_uart_set_para :: "'a driver_vars_scheme dialog" where
  "nwy_test_cli_uart_set_para =
     Ask (prompt ''Test in set the uart param:'') (\<lambda>b. need (arr_text b) (\<lambda>t. case t of [] \<Rightarrow> Done | c # r \<Rightarrow>
       let v = to_u8 (c_atoi r)
       in if c = 0x70
          then get_para (\<lambda>h a. if v \<le> 2 then set_para h v (num a 1) (num a 2) (num a 3) (say [str ''Switch parity to:'', fmt_d v] Done)
                 else echo ''Test invalid parity Supported!'' Done)
          else if c = 0x64
          then get_para (\<lambda>h a. if 7 \<le> v \<and> v \<le> 8 then set_para h (num a 0) v (num a 2) (num a 3) (say [str ''Switch data_size to:'', fmt_d v] Done)
                 else say [str ''Invalid data_size:'', fmt_d v] Done)
          else if c = 0x73
          then get_para (\<lambda>h a. if 1 \<le> v \<and> v \<le> 2 then set_para h (num a 0) (num a 1) v (num a 3) (say [str ''Switch stop_size to:'', fmt_d v] Done)
                 else say [str ''Invalid stop_size:'', fmt_d v] Done)
          else if c = 0x66
          then let flow_ctrl = (if c_atoi r = 0 then 0 else 1)
               in get_para (\<lambda>h a. if to_u8 (num a 0) \<le> 1 then set_para h (num a 0) (num a 1) (num a 2) flow_ctrl (say [str ''Switch flow_ctrl to:'', fmt_d flow_ctrl] Done)
                    else say [str ''Invalid flow_ctrl:'', fmt_d flow_ctrl] Done)
          else Done))"

definition nwy_test_cli_uart_get_para :: "'a driver_vars_scheme dialog" where
  "nwy_test_cli_uart_get_para =
     get_para (\<lambda>h a. say [str ''Uart parity = '', fmt_d (num a 0)] (say [str ''Uart data_size = '', fmt_d (num a 1)]
       (say [str ''Uart stop_size = '', fmt_d (num a 2)] (say [str ''Uart flow_ctrl = '', fmt_d (num a 3)] Done))))"

definition nwy_test_cli_uart_set_tout :: "'a driver_vars_scheme dialog" where
  "nwy_test_cli_uart_set_tout =
     ask_int (prompt ''Test in set the uart receive timeout(default:32ms):'') (\<lambda>timeout. Get (\<lambda>s.
       Call ''nwy_set_rx_frame_timeout'' [I (uart_hd s), I timeout] (\<lambda>a. say [str ''Set rx frame timeout = '', fmt_d timeout] Done)))"

definition nwy_test_cli_uart_send :: "'a driver_vars_scheme dialog" where
  "nwy_test_cli_uart_send =
     Ask (prompt ''Test in set the uart send data:'') (\<lambda>b. need (arr_text b) (\<lambda>t. Get (\<lambda>s.
       Call ''nwy_uart_send_data'' [I (uart_hd s), T t, I (int (length t))] (\<lambda>a. Done))))"

definition nwy_uart_recv_handle :: "buf \<Rightarrow> 'a driver_vars_scheme dialog" where
  "nwy_uart_recv_handle t =
     Get (\<lambda>s. Call ''nwy_uart_send_data'' [I (uart_hd s), T t, I (int (length t))] (\<lambda>a.
       say [str ''Uart send data length = '', fmt_d (int (length t))] Done))"

definition nwy_test_cli_uart_reg_rx_cb :: "'a driver_vars_scheme dialog" where
  "nwy_test_cli_uart_reg_rx_cb = Get (\<lambda>s. Call ''nwy_uart_reg_recv_cb'' [I (uart_hd s)] (\<lambda>a. Done))"

definition nwy_rs485_direction_switch :: "int \<Rightarrow> int \<Rightarrow> 's dialog \<Rightarrow> 's dialog" where
  "nwy_rs485_direction_switch port v d =
     Call ''nwy_gpio_set_direction'' [I port, I 1] (\<lambda>a. Call ''nwy_gpio_set_value'' [I port, I v] (\<lambda>a. d))"

definition nwy_uart_send_complet_handle :: "'s dialog" where
  "nwy_uart_send_complet_handle = Pause 10 (nwy_rs485_direction_switch 2 0 (echo ''Uart send complet handle success!'' Done))"

definition nwy_test_cli_uart_reg_tx_cb :: "'a driver_vars_scheme dialog" where
  "nwy_test_cli_uart_reg_tx_cb =
     nwy_rs485_direction_switch 2 0 (Get (\<lambda>s. Call ''nwy_uart_reg_tx_cb'' [I (uart_hd s)] (\<lambda>a.
       nwy_rs485_direction_switch 2 1 (Call ''nwy_uart_send_data'' [I (uart_hd s), T (str ''hellors485''), I 10] (\<lambda>a. Done)))))"

text \<open>\<open>if (close) deinit (h)\<close>, where \<open>close\<close> was never set.\<close>

definition close_if_junk :: "string \<Rightarrow> string \<Rightarrow> ('a driver_vars_scheme \<Rightarrow> int) \<Rightarrow> 'a driver_vars_scheme dialog" where
  "close_if_junk p f h = Ask (prompt p) (\<lambda>b. Get (\<lambda>s. if junk s ''close'' \<noteq> 0 then Call f [I (h s)] (\<lambda>a. Done) else Done))"

definition nwy_test_cli_uart_deinit :: "'a driver_vars_scheme dialog" where
  "nwy_test_cli_uart_deinit = close_if_junk ''Sure to close this uart(0-no, 1-yes):'' ''nwy_uart_deinit'' uart_hd"

section \<open>I2C and SPI\<close>

text \<open>The name of a bus is a text; in the place of a name that was not set, \<open>%s\<close> would print from an arbitrary address.\<close>

definition print_name :: "buf option \<Rightarrow> (buf \<Rightarrow> 's dialog) \<Rightarrow> 's dialog" where
  "print_name name k = need name k"

definition bus_name :: "string list \<Rightarrow> int \<Rightarrow> buf option" where
  "bus_name ns port = (if 1 \<le> port \<and> port \<le> int (length ns) then Some (str (ns ! nat (port - 1))) else None)"

definition nwy_test_cli_i2c_init :: "'a driver_vars_scheme dialog" where
  "nwy_test_cli_i2c_init =
     ask_int (prompt ''Please input the I2C id(1-I2C1,2-I2C2 or 3-I2C3):'') (\<lambda>v. Get (\<lambda>s.
       let name = bus_name [''I2C1'', ''I2C2'', ''I2C3''] (to_u8 v)
       in Call ''nwy_i2c_init'' [(case name of None \<Rightarrow> I (junk s ''name'') | Some n \<Rightarrow> T n), I 0] (\<lambda>a. Put (\<lambda>s. s\<lparr>i2c_bus := ret a\<rparr>)
         (if ret a < 0 then print_name name (\<lambda>n. say [str ''I2c Error : bus:'', n, str '' init fail''] Done) else Done))))"

definition nwy_test_cli_i2c_read :: "'a driver_vars_scheme dialog" where
  "nwy_test_cli_i2c_read =
     Get (\<lambda>s. Call ''nwy_i2c_read'' [I (i2c_bus s), I 0x14, I 0, I 1] (\<lambda>a.
       if to_u8 (ret a) = 0 then say [str ''NWY get sensor id = 0x'', hex_digits (nat (to_u8 (num a 0))), str ''!''] Done
       else echo ''NWY read I2C error!'' Done))"

definition nwy_test_cli_i2c_write :: "'a driver_vars_scheme dialog" where
  "nwy_test_cli_i2c_write =
     Get (\<lambda>s. Call ''nwy_i2c_write'' [I (i2c_bus s), I 0x14, I 0xF4, T [0x1C], I 1] (\<lambda>a.
       echo_either (to_u8 (ret a) = 0) ''NWY write I2C success!'' ''NWY write I2C error!''))"

definition nwy_test_cli_i2c_put_raw :: "'s dialog" where "nwy_test_cli_i2c_put_raw = option_not_supported"
definition nwy_test_cli_i2c_get_raw :: "'s dialog" where "nwy_test_cli_i2c_get_raw = option_not_supported"

definition nwy_test_cli_i2c_deinit :: "'a driver_vars_scheme dialog" where
  "nwy_test_cli_i2c_deinit = close_if_junk ''Sure to close this i2c(0-no, 1-yes):'' ''nwy_i2c_deinit'' i2c_bus"

text \<open>The chosen bus is not the one that is opened: \<open>name\<close> is used in the message only.\<close>

definition nwy_test_cli_spi_init :: "'a driver_vars_scheme dialog" where
  "nwy_test_cli_spi_init =
     ask_int (prompt ''Please input the spi id(1-spi1,2-spi1):'') (\<lambda>v.
       Call ''nwy_spi_init'' [T (str ''SPI1''), I 0, I 1000000, I 8] (\<lambda>a. Put (\<lambda>s. s\<lparr>spi_bus := ret a\<rparr>)
         (if ret a < 0 then print_name (bus_name [''SPI1'', ''SPI2''] (to_u8 v)) (\<lambda>n. say [str ''SPI Error : bus:'', n, str '' init fail''] Done) else Done)))"

text \<open>\<open>num\<close>: the bytes of \<open>FlashId\<close>.\<close>

definition nwy_test_cli_spi_trans :: "'a driver_vars_scheme dialog" where
  "nwy_test_cli_spi_trans =
     Get (\<lambda>s. Call ''nwy_spi_transfer'' [I (spi_bus s), I 0, T [0x9F, 0xFF, 0xFF, 0xFF], I 4] (\<lambda>a.
       let x = (\<lambda>i. fmt_02x (nat (to_u8 (num a i))))
       in if ret a = 0 then say [str ''Spi flash read id '', x 1, str '','', x 2, str '','', x 3] Done else echo ''Spi error:transfer fail!'' Done))"

definition nwy_test_cli_spi_deinit :: "'a driver_vars_scheme dialog" where
  "nwy_test_cli_spi_deinit = close_if_junk ''Sure to close this spi(0-no, 1-yes):'' ''nwy_spi_deinit'' spi_bus"

section \<open>GPIO, ADC, power and keys\<close>

definition ask_gpio :: "(int \<Rightarrow> 's dialog) \<Rightarrow> 's dialog" where
  "ask_gpio k = ask_int (prompt ''Set the GPIO id:'') k"

definition nwy_test_cli_gpio_set_val :: "'s dialog" where
  "nwy_test_cli_gpio_set_val =
     ask_gpio (\<lambda>port. ask_int (prompt ''Set the gpio value(0-low level,1-high level):'') (\<lambda>vol.
       Call ''nwy_gpio_set_value'' [I (to_u8 port), I (to_u8 vol)] (\<lambda>a. Done)))"

definition nwy_test_cli_gpio_get_val :: "'s dialog" where
  "nwy_test_cli_gpio_get_val =
     ask_gpio (\<lambda>port. Call ''nwy_gpio_get_value'' [I (to_u32 port)] (\<lambda>a. say [str ''Get the GPIO value = '', fmt_d (ret a)] Done))"

definition nwy_test_cli_gpio_set_dirt :: "'s dialog" where
  "nwy_test_cli_gpio_set_dirt =
     ask_gpio (\<lambda>port. ask_int (prompt ''Set the GPIO dir(0-input,1-output):'') (\<lambda>dir.
       Call ''nwy_gpio_set_direction'' [I (to_u8 port), I (to_u8 dir)] (\<lambda>a. Done)))"

definition nwy_test_cli_gpio_get_dirt :: "'s dialog" where
  "nwy_test_cli_gpio_get_dirt =
     ask_gpio (\<lambda>port. Call ''nwy_gpio_get_direction'' [I (to_u8 port)] (\<lambda>a. say [str ''Get the GPIO dir = '', fmt_d (to_u8 (ret a))] Done))"

definition cli_gpioisropen :: "'s dialog" where
  "cli_gpioisropen = echo ''GPIO isr set success'' Done"

definition nwy_test_cli_gpio_config_irq :: "'s dialog" where
  "nwy_test_cli_gpio_config_irq =
     ask_gpio (\<lambda>port. ask_int (prompt ''Set the GPIO irq mode(0-rising,2-rising&falling,3-high):'') (\<lambda>mode.
       Call ''nwy_close_gpio'' [I (to_u8 port)] (\<lambda>a. Call ''nwy_open_gpio_irq_config'' [I (to_u8 port), I (to_u8 mode)] (\<lambda>a.
         echo_either (ret a \<noteq> 0) ''Gpio isr config success!'' ''Gpio isr config failed!''))))"

definition nwy_test_cli_gpio_enable_irq :: "'s dialog" where
  "nwy_test_cli_gpio_enable_irq =
     ask_gpio (\<lambda>port. Call ''nwy_gpio_open_irq_enable'' [I (to_u8 port)] (\<lambda>a. echo ''Gpio enable isr success!'' Done))"

definition nwy_test_cli_gpio_disable_irq :: "'s dialog" where
  "nwy_test_cli_gpio_disable_irq =
     ask_gpio (\<lambda>port. Call ''nwy_gpio_open_irq_disable'' [I (to_u8 port)] (\<lambda>a. echo ''Gpio enable isr success!'' Done))"

definition nwy_test_cli_gpio_close :: "'s dialog" where
  "nwy_test_cli_gpio_close = ask_gpio (\<lambda>port. Call ''nwy_close_gpio'' [I (to_u8 port)] (\<lambda>a. option_not_supported))"

definition nwy_test_cli_adc_read :: "'s dialog" where
  "nwy_test_cli_adc_read =
     ask_int (prompt ''Choose the ADC channel(2-CHANNEL2,3-CHANNEL3,4-VBAT):'') (\<lambda>port.
       ask_int (prompt ''Choose the ADC scale(0-1V250,1-2V444,2-3V233,3-5V000):'') (\<lambda>mode.
         Call ''nwy_adc_get'' [I (to_u8 port), I (to_u8 mode)] (\<lambda>a. say [str ''Adc get value = '', fmt_d (ret a)] Done)))"

definition nwy_test_cli_pm_save_md :: "'s dialog" where "nwy_test_cli_pm_save_md = option_not_supported"

definition nwy_test_cli_pm_get_pwr_st :: "'s dialog" where
  "nwy_test_cli_pm_get_pwr_st =
     Call ''nwy_power_state'' [] (\<lambda>a. echo_either (ret a = 1) ''Power state in normal!'' ''Power state in drop!'')"

definition nwy_test_cli_pm_pwr_off :: "'s dialog" where
  "nwy_test_cli_pm_pwr_off =
     ask_int (prompt ''Choose the power off mode(0-quickly,1-normal,2-reset):'') (\<lambda>mode. Call ''nwy_power_off'' [I (to_u8 mode)] (\<lambda>a. Done))"

definition nwy_test_cli_pm_set_dtr :: "'s dialog" where "nwy_test_cli_pm_set_dtr = option_not_supported"

definition nwy_test_cli_pm_pwr_key :: "'s dialog" where
  "nwy_test_cli_pm_pwr_key =
     ask_int (prompt ''Please input status(0-close,1(default)-open:'') (\<lambda>mode.
       Call ''nwy_powerkey_poweroff_ctrl'' [I (to_u8 mode)] (\<lambda>a. say [str ''Close key poweroff test in '', fmt_d (to_u8 mode)] Done))"

definition nwy_test_cli_pm_switch_sub_pwr :: "'s dialog" where
  "nwy_test_cli_pm_switch_sub_pwr =
     ask_int (prompt ''Please input sub power id:'') (\<lambda>v. let power_id = to_u8 v in
       Call ''nwy_subpower_switch'' [I power_id, I 1, I 0] (\<lambda>a. say [str ''Set the power '', fmt_d power_id, str '' open!'']
         (ask_int (prompt ''Please sure to close this sub power:'') (\<lambda>mode.
           let e = say [str ''Set the power '', fmt_d power_id, str '' already open!''] Done
           in if to_u8 mode \<noteq> 0
              then Call ''nwy_subpower_switch'' [I power_id, I 0, I 0] (\<lambda>a. say [str ''Set the power '', fmt_d power_id, str '' closed!''] e)
              else e))))"

definition nwy_test_cli_pm_set_sub_pwr :: "'s dialog" where
  "nwy_test_cli_pm_set_sub_pwr =
     ask_int (prompt ''Please input sub power id:'') (\<lambda>power_id. ask_int (prompt ''Please set the sub power level you want(mV):'') (\<lambda>level.
       Call ''nwy_set_pmu_power_level'' [I (to_u8 power_id), I (to_u8 level)] (\<lambda>a.
         say [str ''Set the power '', fmt_d (to_u8 power_id), str '' in '', fmt_d (to_u8 level), str '' mV!''] Done)))"

definition nwy_test_cli_pm_set_auto_off :: "'s dialog" where
  "nwy_test_cli_pm_set_auto_off =
     ask_int (prompt ''Please input shutdown vol:'') (\<lambda>shut_vol. ask_int (prompt ''Please input deadline vol:'') (\<lambda>dead_vol.
       ask_int (prompt ''Please input count:'') (\<lambda>count.
         Call ''nwy_set_auto_poweroff'' [I (to_u16 shut_vol), I (to_u16 dead_vol), I (to_u16 count)] (\<lambda>a. Done))))"

definition nwy_test_cli_pm_reg_charger_cb :: "'s dialog" where
  "nwy_test_cli_pm_reg_charger_cb = Call ''nwy_chargering_instructions'' [] (\<lambda>a. echo ''Test in chager cb!'' Done)"

definition openkeypad :: "int \<Rightarrow> int \<Rightarrow> 's dialog" where
  "openkeypad key evt =
     (if evt = 1 then say [str ''This key'', fmt_d key, str '' is press''] Done else say [str ''This key'', fmt_d key, str '' released''] Done)"

definition nwy_test_cli_keypad_reg_cb :: "'s dialog" where
  "nwy_test_cli_keypad_reg_cb = echo ''Test in keypad cb!'' (Call ''reg_nwy_key_cb'' [] (\<lambda>a. Done))"

definition nwy_test_cli_keypad_set_debouce :: "'s dialog" where "nwy_test_cli_keypad_set_debouce = option_not_supported"

definition nwy_test_cli_pwm_init :: "'a driver_vars_scheme dialog" where
  "nwy_test_cli_pwm_init =
     Call ''nwy_pwm_init'' [T (str ''PWM1''), I 100, I 40] (\<lambda>a. Put (\<lambda>s. s\<lparr>test_p := ret a\<rparr>)
       (echo_if (ret a = 0) ''PWM init failed!'' (echo ''PWM init success!'' Done)))"

definition pwm_call :: "string \<Rightarrow> string \<Rightarrow> 'a driver_vars_scheme dialog" where
  "pwm_call f t = Get (\<lambda>s. Call f [I (test_p s)] (\<lambda>a. echo t Done))"

definition nwy_test_cli_pwm_start :: "'a driver_vars_scheme dialog" where
  "nwy_test_cli_pwm_start = pwm_call ''nwy_pwm_start'' ''Test in pwm start!''"

definition nwy_test_cli_pwm_stop :: "'a driver_vars_scheme dialog" where
  "nwy_test_cli_pwm_stop = pwm_call ''nwy_pwm_stop'' ''Test in pwm stop!''"

definition nwy_test_cli_pwm_deinit :: "'a driver_vars_scheme dialog" where
  "nwy_test_cli_pwm_deinit = pwm_call ''nwy_pwm_deinit'' ''Test in pwm deinit!''"

section \<open>The display\<close>

definition on_lcd :: "(fonts \<Rightarrow> lcd \<Rightarrow> lcd option) \<Rightarrow> 'a driver_vars_scheme dialog \<Rightarrow> 'a driver_vars_scheme dialog" where
  "on_lcd f d = Get (\<lambda>s. need (f (font_files s) (display s)) (\<lambda>l. Put (\<lambda>s. s\<lparr>display := l\<rparr>) d))"

definition nwy_test_cli_lcd_open :: "'a driver_vars_scheme dialog" where
  "nwy_test_cli_lcd_open = on_lcd (\<lambda>f. nwy_lcd_init) (echo ''lcd open success!'' Done)"

definition OLIVE :: u16 where "OLIVE = 0x7BE0"
definition BLACK :: u16 where "BLACK = 0"
definition MAGENTA :: u16 where "MAGENTA = 0xF81F"

definition nwy_test_cli_lcd_draw_line :: "'a driver_vars_scheme dialog" where
  "nwy_test_cli_lcd_draw_line =
     on_lcd (\<lambda>f l. Some (nwy_lcd_block_write 0 96 127 96 l))
       (Get (\<lambda>s. need (buf_fill (display_buffer s) 0 OLIVE 128) (\<lambda>b. Put (\<lambda>s. s\<lparr>display_buffer := b\<rparr>)
         (on_lcd (\<lambda>f l. nwy_write_data_buf (words_le b) (128 * 2) l) (echo ''lcd draw line success!'' Done)))))"

definition chinese_string :: buf where
  "chinese_string = [0xD3, 0xD0, 0xB7, 0xBD, 0xBA, 0xBA, 0xD7, 0xD6, 0xD1, 0xDD, 0xCA, 0xBE, 0]"

definition nwy_test_cli_lcd_draw_chinese :: "'a driver_vars_scheme dialog" where
  "nwy_test_cli_lcd_draw_chinese =
     on_lcd (\<lambda>f l. nwy_dispstrline f 16 chinese_string 16 19 BLACK MAGENTA (nwy_lcd_block_write 16 19 (16 + 16 * 6) 34 l))
       (echo ''lcd draw chinese success!'' Done)"

definition nwy_test_cli_lcd_close :: "'a driver_vars_scheme dialog" where
  "nwy_test_cli_lcd_close = on_lcd (\<lambda>f l. Some (nwy_lcd_deinit l)) (echo ''lcd close success!'' Done)"

definition back_light :: "bool \<Rightarrow> fonts \<Rightarrow> lcd \<Rightarrow> lcd option" where
  "back_light b f l = Some (emit_items [SubPower NWY_POWER_BACK_LIGHT b b, SubPower NWY_POWER_RGB_IB0 b b] l)"

definition nwy_test_cli_lcd_open_bl :: "'a driver_vars_scheme dialog" where
  "nwy_test_cli_lcd_open_bl = on_lcd (back_light True) (echo ''lcd backlight open success!'' Done)"

definition nwy_test_cli_lcd_close_bl :: "'a driver_vars_scheme dialog" where
  "nwy_test_cli_lcd_close_bl = on_lcd (back_light False) (echo ''lcd backlight close success!'' Done)"

definition nwy_test_cli_lcd_set_bl_level :: "'s dialog" where
  "nwy_test_cli_lcd_set_bl_level =
     ask_int (prompt '' Please input light level[0~63]:'') (\<lambda>level.
       Call ''nwy_set_back_light_level'' [I 3, I level] (\<lambda>a. Call ''nwy_set_back_light_level'' [I 4, I level] (\<lambda>a.
         Call ''nwy_set_back_light_level'' [I 5, I level] (\<lambda>a. echo ''lcd backlight set success!'' Done))))"

section \<open>SD card and flash\<close>

definition nwy_test_cli_sd_get_st :: "'s dialog" where
  "nwy_test_cli_sd_get_st = Call ''nwy_read_sdcart_status'' [] (\<lambda>a. say [str ''sd state:'', fmt_d (ret a)] Done)"

definition nwy_test_cli_sd_mnt :: "'s dialog" where
  "nwy_test_cli_sd_mnt = Call ''nwy_sdk_sdcard_mount'' [] (\<lambda>a. say [str ''sd mount:'', fmt_d (ret a)] Done)"

definition nwy_test_cli_sd_unmnt :: "'s dialog" where
  "nwy_test_cli_sd_unmnt = Call ''nwy_sdk_sdcard_unmount'' [] (\<lambda>a. echo ''sd unmount success'' Done)"

definition nwy_test_cli_flash_open :: "'s dialog" where "nwy_test_cli_flash_open = option_not_supported"
definition nwy_test_cli_flash_erase :: "'s dialog" where "nwy_test_cli_flash_erase = option_not_supported"
definition nwy_test_cli_flash_write :: "'s dialog" where "nwy_test_cli_flash_write = option_not_supported"
definition nwy_test_cli_flash_read :: "'s dialog" where "nwy_test_cli_flash_read = option_not_supported"

section \<open>Speech\<close>

definition tts_play_callback :: "int \<Rightarrow> 's dialog" where
  "tts_play_callback result = (if result = 4 then echo '' tts test down '' Done else Done)"

definition nwy_test_cli_tts_input :: "'a driver_vars_scheme dialog" where
  "nwy_test_cli_tts_input =
     Put (\<lambda>s. s\<lparr>tts_buff := replicate 1024 0\<rparr>)
       (ask_int (prompt ''Please input encode mode(0-gbk,1-utf16le,2-utf16be,3-utf8): '') (\<lambda>v. Put (\<lambda>s. s\<lparr>encode_type := to_u8 v\<rparr>)
         (Ask (prompt ''Please input content: '') (\<lambda>b. need (line_copy 1024 b) (\<lambda>t. Put (\<lambda>s. s\<lparr>tts_buff := t\<rparr>) Done)))))"

definition tts_default :: buf where
  "tts_default = str ''b8b8c4b8d4daa3acb2bbd4b6d3cea3acd3ceb1d8d3d0b7bd''"

definition nwy_test_cli_tts_play_start :: "'a driver_vars_scheme dialog" where
  "nwy_test_cli_tts_play_start =
     Get (\<lambda>s. need (arr_text (tts_buff s)) (\<lambda>t.
       if t = [] then Call ''nwy_tts_playbuf'' [T tts_default, I (int (length tts_default)), I 0] (\<lambda>a. Done)
       else Call ''nwy_tts_playbuf'' [T t, I (int (length t)), I (encode_type s)] (\<lambda>a. Done)))"

definition nwy_test_cli_tts_play_stop :: "'s dialog" where
  "nwy_test_cli_tts_play_stop = Call ''nwy_tts_stop_play'' [] (\<lambda>a. Done)"

section \<open>Sound\<close>

definition AUDIO_RECORDER_DATA_LEN :: nat where
  "AUDIO_RECORDER_DATA_LEN = 1024 * 48"

text \<open>The callback of the recorder.\<close>

definition capture_callback :: "buf \<Rightarrow> 'a driver_vars_scheme dialog" where
  "capture_callback data =
     Get (\<lambda>s. if capture_len s + int (length data) < int AUDIO_RECORDER_DATA_LEN
       then need (audio_buf s) (\<lambda>ab. need (buf_write ab (nat (capture_len s)) data) (\<lambda>ab'.
              Put (\<lambda>s. s\<lparr>audio_buf := Some ab', capture_len := capture_len s + int (length data)\<rparr>) Done))
       else Print (str ''recorder data is overflow'' @ crlf) Done)"

text \<open>The loop of the player: blocks of 320 bytes. \<open>capture_len\<close> stays below 49152, so that 154 rounds are enough; should
  the loop go on after them, the run counts as faulty.\<close>

fun play_loop :: "nat \<Rightarrow> nat \<Rightarrow> 'a driver_vars_scheme dialog \<Rightarrow> 'a driver_vars_scheme dialog" where
  "play_loop 0 i d = Get (\<lambda>s. if int i < capture_len s then Fault else d)"
| "play_loop (Suc n) i d =
     Get (\<lambda>s. if int i < capture_len s
       then need (audio_buf s) (\<lambda>ab. need (buf_read ab i 320) (\<lambda>x. Call ''nwy_audio_player_play'' [T x, I 320] (\<lambda>a. play_loop n (i + 320) d)))
       else d)"

definition nwy_test_cli_audio_play :: "'a driver_vars_scheme dialog" where
  "nwy_test_cli_audio_play =
     echo ''audio player is running'' (Call ''nwy_audio_player_open'' [] (\<lambda>a. play_loop 154 0
       (Call ''nwy_audio_player_stop'' [] (\<lambda>a. Call ''nwy_audio_player_close'' [] (\<lambda>a. Get (\<lambda>s.
         if audio_buf s \<noteq> None then Put (\<lambda>s. s\<lparr>capture_len := 0, audio_buf := None\<rparr>) (echo ''audio play done'' Done)
         else echo ''audio play done'' Done))))))"

definition nwy_test_cli_audio_rec :: "'a driver_vars_scheme dialog" where
  "nwy_test_cli_audio_rec =
     Put (\<lambda>s. s\<lparr>capture_len := 0\<rparr>) (Call ''malloc'' [I (int AUDIO_RECORDER_DATA_LEN)] (\<lambda>a.
       if ret a = 0 then Put (\<lambda>s. s\<lparr>audio_buf := None\<rparr>) (Print (str ''audio malloc failed'' @ crlf) Done)
       else Put (\<lambda>s. s\<lparr>audio_buf := Some (replicate AUDIO_RECORDER_DATA_LEN 0)\<rparr>) (echo ''audio recorder is running''
         (Call ''nwy_audio_recorder_open'' [] (\<lambda>a. Call ''nwy_audio_recorder_start'' [] (\<lambda>a. Pause 3000
           (Call ''nwy_audio_recorder_stop'' [] (\<lambda>a. Call ''nwy_audio_recorder_close'' [] (\<lambda>a. Done)))))))))"

text \<open>The tone comes from an array of this file, not from the line that was entered.\<close>

definition nwy_test_cli_audio_dtmf :: "'a driver_vars_scheme dialog" where
  "nwy_test_cli_audio_dtmf =
     Ask (prompt ''Please input DTMF: '') (\<lambda>b. Get (\<lambda>s. need (arr_text (sio_recv_copy s)) (\<lambda>tone.
       Call ''nwy_audio_tone_play'' [T tone, I 200, I 15] (\<lambda>a. Done))))"

end
