(* ===== verification/CliFiles.thy ===== *)
theory CliFiles
  imports CliDriver
begin

text \<open>
  The file system functions of the test program, the last part of src/nwy_test_cli/modules/nwy_test_cli_driver.c, as dialogs:
  one open file, one open directory, and the safe files of the module. Two loops end when the module says so; their dialogs
  have the number of rounds that are considered as an argument, and a run is cut after them.
\<close>

section \<open>Files\<close>

definition c_strcpy :: "buf \<Rightarrow> buf \<Rightarrow> buf option" where
  "c_strcpy dst t = buf_write dst 0 (t @ [0])"

text \<open>A name of at most 64 characters.\<close>

definition ask_name :: "string \<Rightarrow> string \<Rightarrow> (buf \<Rightarrow> buf \<Rightarrow> 's dialog) \<Rightarrow> 's dialog" where
  "ask_name p bad k = Ask (prompt p) (\<lambda>b. need (arr_text b) (\<lambda>t. if 64 < length t then tell [str bad] Done else k b t))"

definition ask_filename :: "(buf \<Rightarrow> buf \<Rightarrow> 's dialog) \<Rightarrow> 's dialog" where
  "ask_filename k = ask_name ''Please input filename(len <= 64): '' ''file name can't beyond 64'' k"

definition ask_dirname :: "(buf \<Rightarrow> buf \<Rightarrow> 's dialog) \<Rightarrow> 's dialog" where
  "ask_dirname k = ask_name ''Please input dir name(len <= 64): '' ''dir name can't beyond 64'' k"

text \<open>\<open>%s\<close> of the file name and of the directory name.\<close>

definition with_file :: "('a driver_vars_scheme \<Rightarrow> buf \<Rightarrow> 'a driver_vars_scheme dialog) \<Rightarrow> 'a driver_vars_scheme dialog" where
  "with_file k = Get (\<lambda>s. need (arr_text (nwy_test_file_name s)) (k s))"

definition with_dir :: "('a driver_vars_scheme \<Rightarrow> buf \<Rightarrow> 'a driver_vars_scheme dialog) \<Rightarrow> 'a driver_vars_scheme dialog" where
  "with_dir k = Get (\<lambda>s. need (arr_text (nwy_test_dir_name s)) (k s))"

text \<open>The report of an operation: the file, whether it succeeded, and a number.\<close>

definition report :: "string \<Rightarrow> buf \<Rightarrow> string \<Rightarrow> int \<Rightarrow> 's dialog" where
  "report kind name verb v = say [str kind, str '' '', name, str '' '', str verb, str '':'', fmt_d v] Done"

definition nwy_test_cli_fs_open :: "'a driver_vars_scheme dialog" where
  "nwy_test_cli_fs_open =
     Put (\<lambda>s. s\<lparr>nwy_test_file_name := replicate 65 0\<rparr>)
       (ask_filename (\<lambda>b t. Get (\<lambda>s. need (c_strcpy (nwy_test_file_name s) t) (\<lambda>fn. Put (\<lambda>s. s\<lparr>nwy_test_file_name := fn\<rparr>)
         (Call ''nwy_sdk_fopen'' [T t, I 0x602] (\<lambda>a. Put (\<lambda>s. s\<lparr>nwy_test_fs_fd := ret a\<rparr>)
           (with_file (\<lambda>s n. report ''file'' n (if ret a < 0 then ''open error'' else ''open success'') (ret a))))))))) "

definition nwy_test_cli_fs_write :: "'a driver_vars_scheme dialog" where
  "nwy_test_cli_fs_write =
     Ask (prompt ''Please input file write data(len <= 2000): '') (\<lambda>b. need (arr_text b) (\<lambda>t.
       if 2000 < length t then tell [str ''file write data can't beyond 2000''] Done
       else Get (\<lambda>s. Call ''nwy_sdk_fwrite'' [I (nwy_test_fs_fd s), T t, I (int (length t))] (\<lambda>a.
         with_file (\<lambda>s n. report ''file'' n (if ret a \<noteq> int (length t) then ''write error'' else ''write success'') (ret a))))))"

text \<open>\<open>text_of\<close>: the 128 bytes of \<open>buffer\<close>.\<close>

fun read_loop :: "nat \<Rightarrow> int \<Rightarrow> (int \<Rightarrow> 'a driver_vars_scheme dialog) \<Rightarrow> 'a driver_vars_scheme dialog" where
  "read_loop 0 sz k = Done"
| "read_loop (Suc n) sz k =
     Get (\<lambda>s. Call ''nwy_sdk_fread'' [I (nwy_test_fs_fd s), I 128] (\<lambda>a.
       if 0 < ret a then need (buf_read (text_of a 0) 0 (nat (ret a))) (\<lambda>x. Print x (read_loop n (sz + ret a) k)) else k sz))"

definition nwy_test_cli_fs_read :: "nat \<Rightarrow> 'a driver_vars_scheme dialog" where
  "nwy_test_cli_fs_read n =
     Print crlf (read_loop n 0 (\<lambda>sz. if sz \<noteq> 0 then with_file (\<lambda>s f. report ''file'' f ''read success'' sz) else Done))"

definition file_call :: "string \<Rightarrow> string \<Rightarrow> 'a driver_vars_scheme dialog" where
  "file_call f verb = Get (\<lambda>s. Call f [I (nwy_test_fs_fd s)] (\<lambda>a. with_file (\<lambda>s n. report ''file'' n verb (ret a))))"

definition nwy_test_cli_fs_fsize :: "'a driver_vars_scheme dialog" where
  "nwy_test_cli_fs_fsize = file_call ''nwy_sdk_fsize_fd'' ''size''"

definition nwy_test_cli_fs_seek :: "'a driver_vars_scheme dialog" where
  "nwy_test_cli_fs_seek =
     ask_int (prompt ''Please input file seek offset: '') (\<lambda>offset. Get (\<lambda>s.
       Call ''nwy_sdk_fseek'' [I (nwy_test_fs_fd s), I offset, I 0] (\<lambda>a.
         with_file (\<lambda>s n. report ''file'' n (if ret a \<noteq> offset then ''seek error'' else ''seek success'') (ret a)))))"

definition nwy_test_cli_fs_sync :: "'a driver_vars_scheme dialog" where
  "nwy_test_cli_fs_sync = file_call ''nwy_sdk_fsync'' ''sync''"

definition nwy_test_cli_fs_fstate :: "'a driver_vars_scheme dialog" where
  "nwy_test_cli_fs_fstate =
     Get (\<lambda>s. Call ''nwy_sdk_get_stat_fd'' [I (nwy_test_fs_fd s)] (\<lambda>a. with_file (\<lambda>s n.
       say [str ''file '', n, str '' stat:'', fmt_d (ret a), str '' st_size:'', fmt_d (num a 0)] Done)))"

definition nwy_test_cli_fs_trunc :: "'a driver_vars_scheme dialog" where
  "nwy_test_cli_fs_trunc =
     ask_int (prompt ''Please input file trunc size: '') (\<lambda>sz. Get (\<lambda>s.
       Call ''nwy_sdk_ftrunc_fd'' [I (nwy_test_fs_fd s), I sz] (\<lambda>a.
         with_file (\<lambda>s n. report ''file'' n (if ret a \<noteq> sz then ''trunc error'' else ''trunc success'') (ret a)))))"

definition nwy_test_cli_fs_close :: "'a driver_vars_scheme dialog" where
  "nwy_test_cli_fs_close =
     Get (\<lambda>s. Call ''nwy_sdk_fclose'' [I (nwy_test_fs_fd s)] (\<lambda>a. with_file (\<lambda>s n.
       say [str ''file '', n, str '' close:'', fmt_d (ret a)] (Put (\<lambda>s. s\<lparr>nwy_test_fs_fd := -1\<rparr>) Done))))"

definition nwy_test_cli_fs_remove :: "'s dialog" where
  "nwy_test_cli_fs_remove =
     Ask (prompt ''Please input file name: '') (\<lambda>b. need (arr_text b) (\<lambda>t. Call ''nwy_sdk_file_unlink'' [T t] (\<lambda>a.
       report ''file'' t (if ret a \<noteq> 0 then ''remove error'' else ''remove success'') (ret a))))"

text \<open>\<open>strncpy\<close> into a cleared array of 64 bytes leaves no terminator after a name of 64 characters and more.\<close>

definition name_copy :: "buf \<Rightarrow> (buf \<Rightarrow> 's dialog) \<Rightarrow> 's dialog" where
  "name_copy b k = need (arr_text b) (\<lambda>t. need (c_strncpy (replicate 64 0) 0 b 64) (\<lambda>fn. need (arr_text fn) k))"

definition nwy_test_cli_fs_rename :: "'s dialog" where
  "nwy_test_cli_fs_rename =
     Ask (prompt ''Please input file old name: '') (\<lambda>b. need (c_strncpy (replicate 64 0) 0 b 64) (\<lambda>old.
       Ask (prompt ''Please input file new name: '') (\<lambda>b. need (c_strncpy (replicate 64 0) 0 b 64) (\<lambda>new.
         need (arr_text old) (\<lambda>old. need (arr_text new) (\<lambda>new. Call ''nwy_sdk_frename'' [T old, T new] (\<lambda>a.
           if ret a \<noteq> 0 then report ''file'' old ''rename error'' (ret a) else report ''file'' new ''rename success'' (ret a))))))))"

section \<open>Directories\<close>

definition nwy_test_cli_dir_open :: "'a driver_vars_scheme dialog" where
  "nwy_test_cli_dir_open =
     Put (\<lambda>s. s\<lparr>nwy_test_dir_name := replicate 65 0\<rparr>)
       (ask_dirname (\<lambda>b t. Get (\<lambda>s. need (c_strcpy (nwy_test_dir_name s) t) (\<lambda>fn. Put (\<lambda>s. s\<lparr>nwy_test_dir_name := fn\<rparr>)
         (Call ''nwy_sdk_vfs_opendir'' [T t] (\<lambda>a. Put (\<lambda>s. s\<lparr>nwy_test_fs_dir := ret a\<rparr>)
           (with_dir (\<lambda>s n. report ''dir'' n (if ret a = 0 then ''open error'' else ''open success'') (ret a)))))))))"

text \<open>\<open>sprintf (rsp, ..)\<close> into the 276 bytes of \<open>rsp\<close>, read back as a text.\<close>

definition rsp_text :: "buf list \<Rightarrow> (buf \<Rightarrow> 's dialog) \<Rightarrow> 's dialog" where
  "rsp_text ts k = need (c_strcpy (replicate 276 0) (concat ts)) (\<lambda>r. need (arr_text r) k)"

text \<open>The loop over the entries; \<open>ret\<close>: the entry (0: no more), \<open>num\<close>: its type, \<open>text_of\<close>: its name. A directory name that
  ends in a slash is not followed by another one in the output.\<close>

fun dir_loop :: "nat \<Rightarrow> bool \<Rightarrow> 'a driver_vars_scheme dialog" where
  "dir_loop 0 trail_slash = Done"
| "dir_loop (Suc n) trail_slash =
     Get (\<lambda>s. Call ''nwy_sdk_vfs_readdir'' [I (nwy_test_fs_dir s)] (\<lambda>e.
       let sep = (if trail_slash then [] else str ''/'')
       in if ret e = 0 then Print crlf Done
          else if num e 0 = 8
          then with_dir (\<lambda>s d. rsp_text [d, str ''/'', text_of e 0] (\<lambda>path. Pause 50 (Call ''nwy_sdk_get_stat_path'' [T path] (\<lambda>a.
                 if ret a \<noteq> 0 then dir_loop n trail_slash
                 else with_dir (\<lambda>s d. rsp_text [str ''dir read \"'', d, sep, text_of e 0, str ''\",'', fmt_d (num a 0)] (\<lambda>r. tell [r] (dir_loop n trail_slash)))))))
          else if num e 0 = 4
          then with_dir (\<lambda>s d. rsp_text [str ''dir read \"'', d, sep, text_of e 0, str ''\"''] (\<lambda>r. tell [r] (dir_loop n trail_slash)))
          else dir_loop n trail_slash))"

definition nwy_test_cli_dir_read :: "nat \<Rightarrow> 'a driver_vars_scheme dialog" where
  "nwy_test_cli_dir_read n = with_dir (\<lambda>s d. dir_loop n (d \<noteq> [] \<and> last d = 0x2F))"

definition nwy_test_cli_dir_tell :: "'a driver_vars_scheme dialog" where
  "nwy_test_cli_dir_tell = Get (\<lambda>s. Call ''nwy_sdk_vfs_telldir'' [I (nwy_test_fs_dir s)] (\<lambda>a. with_dir (\<lambda>s n. report ''dir'' n ''tell'' (ret a))))"

definition nwy_test_cli_dir_seek :: "'a driver_vars_scheme dialog" where
  "nwy_test_cli_dir_seek =
     ask_int (prompt ''Please input dir seek offset: '') (\<lambda>offset. Get (\<lambda>s.
       Call ''nwy_sdk_vfs_seekdir'' [I (nwy_test_fs_dir s), I offset] (\<lambda>a. with_dir (\<lambda>s n. report ''dir'' n ''seek success'' offset))))"

definition nwy_test_cli_dir_rewind :: "'a driver_vars_scheme dialog" where
  "nwy_test_cli_dir_rewind =
     Get (\<lambda>s. Call ''nwy_sdk_vfs_rewinddir'' [I (nwy_test_fs_dir s)] (\<lambda>a. with_dir (\<lambda>s n. say [str ''dir '', n, str '' rewind success''] Done)))"

definition nwy_test_cli_dir_close :: "'a driver_vars_scheme dialog" where
  "nwy_test_cli_dir_close =
     Get (\<lambda>s. Call ''nwy_sdk_vfs_closedir'' [I (nwy_test_fs_dir s)] (\<lambda>a. with_dir (\<lambda>s n.
       say [str ''dir '', n, str '' close:'', fmt_d (ret a)] (Put (\<lambda>s. s\<lparr>nwy_test_fs_dir := 0\<rparr>) Done))))"

definition nwy_test_cli_dir_mk :: "'s dialog" where
  "nwy_test_cli_dir_mk = ask_dirname (\<lambda>b t. Call ''nwy_sdk_vfs_mkdir'' [T t] (\<lambda>a. report ''dir'' t ''mk'' (ret a)))"

definition nwy_test_cli_dir_remove :: "'s dialog" where
  "nwy_test_cli_dir_remove = ask_dirname (\<lambda>b t. Call ''nwy_sdk_vfs_rmdir_recursive'' [T t] (\<lambda>a. report ''dir'' t ''remove'' (ret a)))"

definition nwy_test_cli_fs_free_size :: "'s dialog" where
  "nwy_test_cli_fs_free_size = Call ''nwy_sdk_vfs_ls'' [] (\<lambda>a. say [str ''fs free size:'', fmt_d (ret a)] Done)"

section \<open>Safe files\<close>

definition nwy_test_cli_safe_fs_init :: "'s dialog" where
  "nwy_test_cli_safe_fs_init = ask_filename (\<lambda>b t. Call ''nwy_sdk_sfile_init'' [T t] (\<lambda>a. report ''sfile'' t ''init'' (ret a)))"

text \<open>\<open>text_of\<close>: the bytes of the allocated block after the call.\<close>

definition nwy_test_cli_safe_fs_read :: "'s dialog" where
  "nwy_test_cli_safe_fs_read =
     ask_filename (\<lambda>b t. name_copy b (\<lambda>fn. Call ''nwy_sdk_sfile_size'' [T fn] (\<lambda>a. let sz = ret a in
       if sz \<le> 0 then report ''sfile'' fn ''read error'' sz
       else Call ''malloc'' [I sz] (\<lambda>a. if ret a = 0 then Done
         else Call ''nwy_sdk_sfile_read'' [T fn, I sz] (\<lambda>a.
           if 0 < ret a then Print crlf (need (buf_read (text_of a 0) 0 (nat (ret a))) (\<lambda>x. Print x (report ''file'' fn ''read success'' (ret a))))
           else report ''file'' fn ''read error'' (ret a))))))"

definition nwy_test_cli_safe_fs_write :: "'s dialog" where
  "nwy_test_cli_safe_fs_write =
     ask_filename (\<lambda>b t. need (c_strncpy (replicate 64 0) 0 b 64) (\<lambda>fn.
       Ask (prompt ''Please input sfile write data(len <= 2000): '') (\<lambda>b'. need (arr_text b') (\<lambda>t'.
         if 2000 < length t' then tell [str ''sfile write data can't beyond 2000''] Done
         else need (arr_text fn) (\<lambda>fn. Call ''nwy_sdk_sfile_write'' [T fn, T t', I (int (length t'))] (\<lambda>a.
           report ''sfile'' fn (if ret a \<noteq> int (length t') then ''write error'' else ''write success'') (ret a)))))))"

definition nwy_test_cli_safe_fs_fszie :: "'s dialog" where
  "nwy_test_cli_safe_fs_fszie = ask_filename (\<lambda>b t. Call ''nwy_sdk_sfile_size'' [T t] (\<lambda>a. report ''sfile'' t ''size'' (ret a)))"

end
