(* ===== verification/CliBle.thy ===== *)
theory CliBle
  imports CliFiles
begin

text \<open>
  The short-range and location functions of the test program, as dialogs: Bluetooth server, Bluetooth client and WiFi
  (src/nwy_test_cli/modules/nwy_test_cli_sdw.c), satellite and cell location (src/nwy_test_cli/modules/nwy_test_cli_lbs.c).
\<close>

section \<open>Variables\<close>

record ble_vars = driver_vars +
  srv_num :: int
  scan_sel :: int
  scan_dev_flag :: bool

section \<open>Bluetooth server\<close>

definition nwy_test_cli_ble_open :: "'s dialog" where
  "nwy_test_cli_ble_open = Call ''nwy_ble_enable'' [] (\<lambda>a. echo_if (ret a \<noteq> 0) '' Ble Opened Successfully!'' Done)"

text \<open>The argument of \<open>nwy_ble_set_adv\<close> is a boolean.\<close>

definition nwy_test_cli_ble_set_adv :: "'s dialog" where
  "nwy_test_cli_ble_set_adv =
     ask_int (prompt ''set the adv enable(0-disable,1-enable): '') (\<lambda>valu. Call ''nwy_ble_set_adv'' [I (if valu = 0 then 0 else 1)] (\<lambda>a.
       if valu = 1 then say [str '' '', fmt_d valu, str ''->Ble Adv Open ''] Done else say [str '' '', fmt_d valu, str ''->Ble Adv Close ''] Done))"

text \<open>The whole array of 1024 bytes is sent, whatever the length of the text.\<close>

definition nwy_test_cli_ble_send :: "'s dialog" where
  "nwy_test_cli_ble_send =
     ask_int (prompt '' ble send mode(0-notify,1-indify): '') (\<lambda>v. Ask (prompt '' send data:'') (\<lambda>b. need (arr_text b) (\<lambda>t.
       need (c_strcpy (replicate 1024 0) t) (\<lambda>data_str. tell [str ''nwy_ble_send_data('', t, str '') '']
         (Call (if v = 0 then ''nwy_ble_send_data'' else ''nwy_ble_send_indify_data'') [I 1024, T data_str] (\<lambda>a.
           echo_if (ret a \<noteq> 0) ''Ble Send Successfully!'' Done))))))"

text \<open>The callback for received data: the length and the data are two pointers.\<close>

definition nwy_ble_recv_data_func :: "'s dialog" where
  "nwy_ble_recv_data_func =
     Call ''nwy_ble_receive_data'' [I 0] (\<lambda>l. Call ''nwy_ble_receive_data'' [I 1] (\<lambda>p.
       let e = Call ''nwy_ble_receive_data'' [I 2] (\<lambda>a. Done)
       in if ret p \<noteq> 0 \<and> ret l \<noteq> 0 then tell [str '' nwy_bel_receive_data:('', fmt_d (ret l), str ''),'', text_of p 0] e
          else Print (str ''nwy_ble receive data is null.'') e))"

definition nwy_test_cli_ble_recv :: "'s dialog" where
  "nwy_test_cli_ble_recv = Call ''nwy_ble_open_register_cb'' [I 1] (\<lambda>a. tell [str '' nwy ble register callback OK''] Done)"

definition nwy_test_cli_ble_updata_connt :: "'s dialog" where
  "nwy_test_cli_ble_updata_connt = Call ''nwy_ble_update_conn'' [I 0, I 60, I 80, I 4, I 500] (\<lambda>a. Done)"

definition nwy_test_cli_ble_get_st :: "'s dialog" where
  "nwy_test_cli_ble_get_st = Call ''nwy_read_ble_status'' [] (\<lambda>a. tell [str ''Ble status:'', fmt_d (if ret a \<noteq> 0 then 1 else 0)] Done)"

definition nwy_test_cli_ble_get_ver :: "'s dialog" where
  "nwy_test_cli_ble_get_ver =
     Call ''nwy_ble_get_version'' [] (\<lambda>a. if ret a \<noteq> 0 then say [str '' nwy_ble_get_version:'', text_of a 0] Done
       else Print (str ''nwy_ble version data is null.'') Done)"

definition nwy_test_cli_ble_set_dev_name :: "'s dialog" where
  "nwy_test_cli_ble_set_dev_name =
     Ask (prompt '' ble name: '') (\<lambda>b. need (arr_text b) (\<lambda>t. Call ''nwy_ble_set_device_name'' [T t] (\<lambda>a.
       say [str '' new_set_dev_name:('', t, str '') ''] Done)))"

definition nwy_test_cli_ble_set_beacon :: "'s dialog" where
  "nwy_test_cli_ble_set_beacon =
     Call ''nwy_ble_beacon'' [T [0xB9, 0x40, 0x7F, 0x30, 0xF5, 0xF8, 0x46, 0x6E, 0xAF, 0xF9, 0x25, 0x55, 0x6B, 0x57, 0xFE, 0x6D], T [0, 1], T [0, 2]] (\<lambda>a.
       echo_if (ret a \<noteq> 0) ''Set Beacon parm,OK!'' Done)"

definition nwy_test_cli_ble_set_manufacture :: "'s dialog" where
  "nwy_test_cli_ble_set_manufacture =
     Call ''nwy_set_manufacture'' [T [0x13, 0xFF, 0, 0, 0, 0, 0, 0]] (\<lambda>a. echo_if (ret a \<noteq> 0) ''Set manufacture parm,OK!'' Done)"

definition nwy_test_cli_ble_set_adv_server_uuid :: "'s dialog" where
  "nwy_test_cli_ble_set_adv_server_uuid =
     Call ''nwy_set_adv_server_uuid'' [T [0x13, 0xFF]] (\<lambda>a. echo_if (ret a \<noteq> 0) ''Set adv server uuid ok!'' Done)"

text \<open>The 16 bytes of an identifier that differs in two bytes.\<close>

definition uuid_of :: "u8 \<Rightarrow> u8 \<Rightarrow> u8 \<Rightarrow> u8 \<Rightarrow> buf" where
  "uuid_of a b x y = [a, b, 0x9B, 0x5F, 0x80, 0, 0, 0x80, 0, 0x10, 0, 0, x, y, 0, 0]"

definition nwy_test_cli_ble_set_srv :: "'s dialog" where
  "nwy_test_cli_ble_set_srv =
     Call ''nwy_ble_set_service'' [T (uuid_of 0xF5 0x89 0x10 0xFE)] (\<lambda>a. echo_if (ret a = 0) '' BLE HAS STARTED !'' Done)"

definition set_character :: "string \<Rightarrow> string \<Rightarrow> int \<Rightarrow> u8 \<Rightarrow> 's dialog \<Rightarrow> 's dialog" where
  "set_character t p i x d =
     echo t (ask_int (str p) (\<lambda>v. Call ''nwy_ble_set_character'' [I i, T (uuid_of 0xF5 0x89 x 0xFE), I (to_u8 v)] (\<lambda>a.
       echo_if (ret a = 0) '' BLE HAS STARTED !'' d)))"

definition nwy_test_cli_ble_set_char :: "'s dialog" where
  "nwy_test_cli_ble_set_char =
     set_character '' char_prop: 0:Write 1:Write | Notify | indify'' ''char index 0 prop:'' 0 0x11
       (set_character '' char_prop: 0:Read 1:Read | Notify | indify'' ''char index 1 prop:'' 1 0x12 Done)"

definition nwy_ble_conn_status_func :: "'s dialog" where
  "nwy_ble_conn_status_func =
     Call ''nwy_ble_get_conn_status'' [] (\<lambda>a.
       if ret a \<noteq> 0 then tell [str ''Ble connect,status:'', fmt_d (ret a)] Done else tell [str ''Ble disconnect,status:'', fmt_d (ret a)] Done)"

definition nwy_test_cli_ble_conn_status_report :: "'s dialog" where
  "nwy_test_cli_ble_conn_status_report = Call ''nwy_ble_conn_status_cb'' [] (\<lambda>a. Done)"

definition nwy_test_cli_ble_conn_status :: "'s dialog" where
  "nwy_test_cli_ble_conn_status = Call ''nwy_ble_get_conn_status'' [] (\<lambda>a. say [str ''nwy_ble_conn_status:'', fmt_d (ret a), str '' ''] Done)"

text \<open>Bytes as two hexadecimal digits each, joined by colons.\<close>

definition hex_byte :: "int \<Rightarrow> buf" where
  "hex_byte v = fmt_02x (nat (to_u8 v))"

definition mac_text :: "(nat \<Rightarrow> int) \<Rightarrow> nat list \<Rightarrow> buf" where
  "mac_text f is = tl (concat (map (\<lambda>i. 0x3A # hex_byte (f i)) is))"

definition nwy_test_cli_ble_mac_addr :: "'s dialog" where
  "nwy_test_cli_ble_mac_addr =
     Call ''nwy_ble_get_mac_addr'' [] (\<lambda>a.
       if ret a \<noteq> 0 then tell [str ''Ble mac addr:'', mac_text (num a) [5, 4, 3, 2, 1, 0]] Done else tell [str ''ble get mac addr is null.''] Done)"

text \<open>A service: index, identifier, number of characteristics, the flag \<open>p\<close>. \<open>!call\<close> prints an error.\<close>

definition tell_if :: "bool \<Rightarrow> string \<Rightarrow> 's dialog \<Rightarrow> 's dialog" where
  "tell_if b t d = (if b then tell [str t] d else d)"

definition add_service :: "int \<Rightarrow> buf \<Rightarrow> string \<Rightarrow> string \<Rightarrow> 's dialog \<Rightarrow> 's dialog" where
  "add_service i uuid e1 e2 d =
     Call ''nwy_ble_add_service'' [I i, T uuid, I 2, I 1] (\<lambda>a. tell_if (ret a = 0) e1
       (Call ''nwy_ble_start_service'' [I i] (\<lambda>a. tell_if (ret a = 0) e2 d)))"

definition nwy_test_cli_ble_add_server :: "'s dialog" where
  "nwy_test_cli_ble_add_server =
     add_service 1 (uuid_of 0xFB 0x34 0x00 0x89) ''add ble service 1 error'' ''start ble service 1 error''
       (add_service 2 (uuid_of 0xFB 0x34 0xE1 0xFF) ''add ble service 2 error'' ''start ble service 2 error''
         (add_service 3 (uuid_of 0xFB 0x34 0xE2 0xFF) ''add ble service 3 error'' ''start ble service 3 error'' Done))"

text \<open>A characteristic: indices of service and characteristic, identifier, descriptor, permission, properties.\<close>

definition add_character :: "int \<Rightarrow> u8 \<Rightarrow> int \<Rightarrow> string \<Rightarrow> 's dialog \<Rightarrow> 's dialog" where
  "add_character i x cp e d =
     Call ''nwy_add_ble_charcter'' [I 1, I i, T (uuid_of 0xFB 0x34 x 0x89), I 1, I 2, I (to_u8 cp)] (\<lambda>a. tell_if (ret a = 0) e d)"

definition nwy_test_cli_ble_add_char :: "'s dialog" where
  "nwy_test_cli_ble_add_char =
     tell [str ''properties: 0:write 1:read 2:notify 3:indify 4:write | notify 5:read | notify 6:all'']
       (ask_int (prompt ''char_info_0.char_cp:'') (\<lambda>c0. ask_int (prompt ''char_info_1.char_cp:'') (\<lambda>c1. ask_int (prompt ''char_info_2.char_cp:'') (\<lambda>c2.
         ask_int (prompt ''char_info_3.char_cp:'') (\<lambda>c3. ask_int (prompt ''char_info_4.char_cp:'') (\<lambda>c4.
           add_character 0 1 c0 ''add ble charcter 0 error'' (add_character 1 2 c1 ''add ble charcter 1 error''
             (add_character 2 3 c2 ''add ble charcter 2 error'' (add_character 3 4 c3 ''add ble charcter 3 error''
               (add_character 4 5 c4 ''add ble charcter 4 error'' Done))))))))))"

definition nwy_ble_add_recv_data_func :: "'s dialog" where
  "nwy_ble_add_recv_data_func =
     Call ''nwy_ble_add_recv_data'' [] (\<lambda>a. tell [str ''recv_data info:srv_id='', fmt_d (num a 0), str '',char_id='', fmt_d (num a 1)]
       (tell [str ''recv_data:('', fmt_d (num a 2), str ''):'', text_of a 0] Done))"

definition nwy_test_cli_ble_add_recv_data :: "'s dialog" where
  "nwy_test_cli_ble_add_recv_data =
     Call ''nwy_ble_open_register_cb'' [I 2] (\<lambda>a. if ret a \<noteq> 0 then tell [str '' recv data register ok''] Done
       else tell [str '' recv data register error''] Done)"

text \<open>\<open>DATA_SIZE\<close> bytes for the data of \<open>ble_send_data\<close>.\<close>

definition BLE_DATA_SIZE :: nat where
  "BLE_DATA_SIZE = 2048"

definition nwy_test_cli_ble_add_send_data :: "'s dialog" where
  "nwy_test_cli_ble_add_send_data =
     ask_int (prompt ''ser_id:'') (\<lambda>ser_id. ask_int (prompt ''char_id:'') (\<lambda>char_id. ask_int (prompt ''send mode(0-notify,1-indify):'') (\<lambda>op.
       Ask (prompt '' send data:'') (\<lambda>b. need (arr_text b) (\<lambda>t. need (c_strcpy (replicate BLE_DATA_SIZE 0) t) (\<lambda>data.
         tell [str ''nwy_ble_send_data('', fmt_d (int (length t)), str '')'', t, str '' '']
           (Call ''nwy_ble_add_send_data'' [I (to_u8 ser_id), I (to_u8 char_id), T t, I (int (length t)), I (to_u8 op)] (\<lambda>a.
             echo_if (ret a \<noteq> 0) ''Ble Send Successfully!'' Done)))))))) "

definition nwy_test_cli_ble_disconnect :: "'s dialog" where
  "nwy_test_cli_ble_disconnect = Call ''nwy_ble_disconnect'' [] (\<lambda>a. echo_either (ret a \<noteq> 0) ''Ble disconnect ok!'' ''Ble disconnect error!'')"

definition nwy_ble_read_info_func :: "'s dialog" where
  "nwy_ble_read_info_func =
     Call ''nwy_ble_read_req_info'' [] (\<lambda>a.
       tell [str ''read_req info:srv_id='', fmt_d (num a 0), str '',char_id='', fmt_d (num a 1), str '',rw_flag='', fmt_d (num a 2)] Done)"

definition nwy_test_cli_ble_read_req :: "'s dialog" where
  "nwy_test_cli_ble_read_req =
     Call ''nwy_ble_open_register_cb'' [I 0] (\<lambda>a. if ret a \<noteq> 0 then tell [str '' read info register ok''] Done
       else tell [str '' read info register error''] Done)"

text \<open>\<open>rsp_len\<close> bytes of the input are copied into the 244 bytes of \<open>read_rsp\<close>, which are then printed as a text; the rest of
  the array was never set.\<close>

definition nwy_test_cli_ble_read_rsp :: "'a ble_vars_scheme dialog" where
  "nwy_test_cli_ble_read_rsp =
     ask_int (prompt ''ser_id:(0~1)'') (\<lambda>ser_id. ask_int (prompt ''char_id:(ser_id:0,0~1;ser_id:1,0~4)'') (\<lambda>char_id.
       ask_int (prompt ''data_len:'') (\<lambda>l. let rsp_len = to_u8 l in Ask (prompt ''send_data:'') (\<lambda>b. Get (\<lambda>s.
         need (buf_read b 0 (nat rsp_len)) (\<lambda>x. need (buf_write (map (\<lambda>i. of_int (junk s (''read_rsp'' @ [char_of i]))) [0..<244]) 0 x) (\<lambda>rsp.
           need (arr_text rsp) (\<lambda>t. tell [str ''nwy_read_rsp_data:'', t, str '' '']
             (Call ''nwy_ble_read_rsp_info'' [I (to_u8 ser_id), I (to_u8 char_id), T rsp, I rsp_len] (\<lambda>a.
               tell_if (ret a = 0) ''nwy read rsp parm error'' Done))))))))))"

definition nwy_test_cli_ble_close :: "'s dialog" where
  "nwy_test_cli_ble_close = Call ''nwy_ble_disable'' [] (\<lambda>a. echo ''Ble Closed Successfully!'' Done)"

section \<open>Bluetooth client\<close>

definition nwy_test_cli_ble_client_set_enable :: "'s dialog" where
  "nwy_test_cli_ble_client_set_enable =
     echo ''set ble client open and close:1->open,0->close'' (ask_int (str ''select:'') (\<lambda>sel.
       Call ''nwy_ble_client_set_enable'' [I (to_u32 sel)] (\<lambda>a.
         if ret a \<noteq> 0 then Print (str ''Ble Client Open'') Done else Print (str ''Ble Client Close'') Done)))"

text \<open>The \<open>%04x\<close> conversion.\<close>

definition hex_word :: "int \<Rightarrow> buf" where
  "hex_word v = (let h = hex_digits (nat (to_u16 v)) in replicate (4 - length h) 48 @ h)"

text \<open>The callback for a found device; \<open>num\<close>: the address (0 to 5), its type (6), the signal strength (7), the identifier (8 to
  23), \<open>major\<close>, \<open>minor\<close>, \<open>tx_power_level\<close> of a beacon (24 to 26); \<open>text_of\<close>: the name.\<close>

definition nwy_ble_client_scan_dev_func_cli :: "'a ble_vars_scheme dialog" where
  "nwy_ble_client_scan_dev_func_cli =
     Call ''nwy_ble_client_scan_result'' [] (\<lambda>a.
       tell [str ''BLE--'', mac_text (num a) [0, 1, 2, 3, 4, 5], str '','', fmt_d (num a 6), str '','', text_of a 0, str '',-'', fmt_d (num a 7), str ''dBm'']
         (Get (\<lambda>s. if scan_sel s = 0
           then tell [str ''ibeacon info:''] (foldr (\<lambda>i d. Print (hex_byte (num a i)) d) [8..<24]
                  (tell [str ''major:'', hex_word (num a 24), str ''->'', fmt_d (num a 24), str '',minor:'', hex_word (num a 25), str ''->'', fmt_d (num a 25),
                     str '',tx_poer_l:'', hex_byte (num a 26), str ''->'', fmt_d (num a 26)] Done))
           else Done)))"

text \<open>The callback is registered once.\<close>

definition register_scan :: "'a ble_vars_scheme dialog \<Rightarrow> 'a ble_vars_scheme dialog" where
  "register_scan d =
     Get (\<lambda>s. if scan_dev_flag s
       then Put (\<lambda>s. s\<lparr>scan_dev_flag := False\<rparr>) (Call ''nwy_ble_client_register_cb'' [I 0] (\<lambda>a.
              if ret a \<noteq> 0 then Print (str ''nwy ble client scan dev cb register ok'') d else d))
       else d)"

definition start_scan :: "int \<Rightarrow> 'a ble_vars_scheme dialog" where
  "start_scan scan_time =
     tell [str ''nwy ble client scanning''] (Get (\<lambda>s.
       Call (if scan_sel s \<noteq> 0 then ''nwy_ble_client_scan'' else ''nwy_ble_client_scan_ibeacon'') [I scan_time] (\<lambda>a.
         tell_if (ret a \<noteq> 0) ''nwy ble client scan end'' Done)))"

definition nwy_test_cli_ble_client_scan :: "'a ble_vars_scheme dialog" where
  "nwy_test_cli_ble_client_scan =
     register_scan (ask_int (prompt ''sacn time:'') (\<lambda>t. ask_int (prompt ''sacn sel:ble->1,ibeacon->0:'') (\<lambda>v.
       Put (\<lambda>s. s\<lparr>scan_sel := to_u8 v\<rparr>) (start_scan (to_u8 t)))))"

definition nwy_test_cli_ble_client_scan_Para :: "buf \<Rightarrow> buf \<Rightarrow> 'a ble_vars_scheme dialog" where
  "nwy_test_cli_ble_client_scan_Para scan_TTT scan_type =
     register_scan (Put (\<lambda>s. s\<lparr>scan_sel := to_u8 (c_atoi scan_type)\<rparr>) (start_scan (to_u8 (c_atoi scan_TTT))))"

definition nwy_test_cli_ble_client_connect :: "'s dialog" where
  "nwy_test_cli_ble_client_connect =
     ask_int (prompt ''addr type:'') (\<lambda>sel. Ask (prompt '' mac addr:'') (\<lambda>b. need (arr_text b) (\<lambda>t.
       need (c_strcpy (replicate 18 0) t) (\<lambda>data_str. tell [str ''nwy_ble_send_data('', t, str '') '']
         (Call ''nwy_ble_client_connect'' [I (to_u32 sel), T t] (\<lambda>a.
           echo_either (ret a \<noteq> 0) ''Ble Client Conn Set Parm OK!'' ''Ble Client Conn Set Parm Error!''))))))"

definition nwy_test_cli_ble_client_disconnect :: "'s dialog" where
  "nwy_test_cli_ble_client_disconnect =
     Call ''nwy_ble_client_disconnect'' [] (\<lambda>a. echo_either (ret a \<noteq> 0) ''Ble Client Disconnect OK!'' ''Ble Client Disconnect Error!'')"

text \<open>The services are in an array of 20 places; \<open>num\<close>: their identifiers.\<close>

fun srv_loop :: "nat \<Rightarrow> nat \<Rightarrow> answer \<Rightarrow> 's dialog" where
  "srv_loop 0 i a = Done"
| "srv_loop (Suc n) i a =
     (if i < 20 then tell [str ''ser_id:'', fmt_d (int i), str '',0x'', hex_word (num a i)] (srv_loop n (i + 1) a) else Fault)"

definition nwy_test_cli_ble_client_discover_srv :: "'a ble_vars_scheme dialog" where
  "nwy_test_cli_ble_client_discover_srv =
     Call ''nwy_ble_client_discover_srv'' [] (\<lambda>a. Put (\<lambda>s. s\<lparr>srv_num := ret a\<rparr>) (srv_loop (nat (ret a)) 0 a))"

text \<open>The array for the characteristics has 10 places, each with 10 characteristics; \<open>num\<close>: their numbers (0 to 9), then
  identifiers (from 10) and properties (from 110).\<close>

fun char_loop :: "nat \<Rightarrow> nat \<Rightarrow> nat \<Rightarrow> answer \<Rightarrow> 's dialog \<Rightarrow> 's dialog" where
  "char_loop 0 i j a d = d"
| "char_loop (Suc n) i j a d =
     (if j < 10
      then tell [fmt_d (int i), str '','', fmt_d (int j), str '',0x'', hex_word (num a (10 + 10 * i + j)), str '',0x'', hex_byte (num a (110 + 10 * i + j))]
             (char_loop n i (j + 1) a d)
      else Fault)"

fun char_info_loop :: "nat \<Rightarrow> nat \<Rightarrow> answer \<Rightarrow> 's dialog" where
  "char_info_loop 0 i a = Done"
| "char_info_loop (Suc n) i a = (if i < 10 then char_loop (nat (to_u8 (num a i))) i 0 a (char_info_loop n (i + 1) a) else Fault)"

definition nwy_test_cli_ble_client_discover_char :: "'a ble_vars_scheme dialog" where
  "nwy_test_cli_ble_client_discover_char =
     Call ''nwy_ble_client_discover_char'' [] (\<lambda>a. tell [str ''discover_char printf format:srv_id,char_id,char uuid,prop'']
       (Get (\<lambda>s. char_info_loop (nat (srv_num s)) 0 a)))"

definition nwy_test_cli_ble_client_send_data :: "'s dialog" where
  "nwy_test_cli_ble_client_send_data =
     ask_int (prompt ''ser_id:'') (\<lambda>ser_id. ask_int (prompt ''char_id:'') (\<lambda>char_id.
       Ask (prompt '' send data:'') (\<lambda>b. need (arr_text b) (\<lambda>t. tell [str ''nwy_ble_send_data '']
         (tell [str ''nwy_ble_send_data('', fmt_d (int (length t)), str '')'', t, str '' '']
           (Call ''nwy_ble_client_send_data'' [I (to_u8 ser_id), I (to_u8 char_id), T t, I (int (length t))] (\<lambda>a.
             echo_if (ret a \<noteq> 0) ''Ble Send Successfully!'' Done)))))))"

definition nwy_ble_client_recv_data_func :: "'s dialog" where
  "nwy_ble_client_recv_data_func =
     Call ''nwy_ble_client_recv_data'' [] (\<lambda>a.
       say [str ''recv data:'', fmt_d (num a 0), str '','', fmt_d (num a 1), str '',['', fmt_d (num a 2), str '']'', text_of a 0] Done)"

definition nwy_test_cli_ble_client_recv_data :: "'s dialog" where
  "nwy_test_cli_ble_client_recv_data =
     Call ''nwy_ble_client_register_cb'' [I 1] (\<lambda>a. if ret a \<noteq> 0 then Print (str ''nwy ble client recv data register ok'') Done else Done)"

section \<open>WiFi\<close>

definition nwy_cli_test_wifi_get_st :: "'s dialog" where "nwy_cli_test_wifi_get_st = option_not_supported"
definition nwy_cli_test_wifi_enable :: "'s dialog" where "nwy_cli_test_wifi_enable = option_not_supported"
definition nwy_cli_test_wifi_set_work_md :: "'s dialog" where "nwy_cli_test_wifi_set_work_md = option_not_supported"
definition nwy_cli_test_wifi_set_ap_para :: "'s dialog" where "nwy_cli_test_wifi_set_ap_para = option_not_supported"
definition nwy_cli_test_wifi_set_ap_para_adv :: "'s dialog" where "nwy_cli_test_wifi_set_ap_para_adv = option_not_supported"
definition nwy_cli_test_wifi_get_clit_info :: "'s dialog" where "nwy_cli_test_wifi_get_clit_info = option_not_supported"
definition nwy_cli_test_wifi_sta_scan_ret :: "'s dialog" where "nwy_cli_test_wifi_sta_scan_ret = option_not_supported"
definition nwy_cli_test_wifi_sta_connt :: "'s dialog" where "nwy_cli_test_wifi_sta_connt = option_not_supported"
definition nwy_cli_test_wifi_sta_disconnt :: "'s dialog" where "nwy_cli_test_wifi_sta_disconnt = option_not_supported"
definition nwy_cli_test_wifi_sta_get_hostpot_info :: "'s dialog" where "nwy_cli_test_wifi_sta_get_hostpot_info = option_not_supported"
definition nwy_cli_test_wifi_disable :: "'s dialog" where "nwy_cli_test_wifi_disable = option_not_supported"

text \<open>\<open>ret\<close> is not used; \<open>num\<close>: the number of access points (0), then for each of the 16 places the six bytes of the address,
  the channel and the signal strength.\<close>

fun wifi_loop :: "nat \<Rightarrow> nat \<Rightarrow> answer \<Rightarrow> 's dialog \<Rightarrow> 's dialog" where
  "wifi_loop 0 i a d = d"
| "wifi_loop (Suc n) i a d =
     (if i < 16
      then tell [str ''wifi ap mac is '', mac_text (\<lambda>k. num a (1 + 8 * i + k)) [5, 4, 3, 2, 1, 0]]
             (Print (9 # str ''channel = '' @ fmt_d (num a (1 + 8 * i + 6))) (Print (9 # str ''rssi = '' @ fmt_d (num a (1 + 8 * i + 7)))
               (wifi_loop n (i + 1) a d)))
      else Fault)"

definition nwy_cli_test_wifi_sta_scan :: "'s dialog" where
  "nwy_cli_test_wifi_sta_scan =
     Call ''nwy_wifi_scan'' [] (\<lambda>a. wifi_loop (nat (num a 0)) 0 a (tell_if (num a 0 \<le> 0) '' Wifi scan nothing'' Done))"

section \<open>Location\<close>

definition nwy_test_cli_gnss_open :: "'s dialog" where
  "nwy_test_cli_gnss_open =
     Call ''nwy_loc_start_navigation'' [] (\<lambda>a. echo_either (0 < ret a) ''Test loc open success!'' ''Test loc open error!'')"

definition nwy_test_cli_gnss_set_position_md :: "'s dialog" where
  "nwy_test_cli_gnss_set_position_md =
     ask_int (prompt ''Please input loc mode(1-GPS 3-GPS+BD 5-GPS+GLO 7-GPS+BD+GLO):'') (\<lambda>v. let mode = to_u8 v in
       say [str ''Test mode = '', fmt_d mode, str ''!''] (Call ''nwy_loc_start_navigation'' [] (\<lambda>a. Call ''nwy_loc_set_position_mode'' [I mode] (\<lambda>a.
         echo_either (0 < ret a) ''Test loc set position success!'' ''Test loc set position error!''))))"

definition nwy_test_cli_gnss_set_updata_rate :: "'s dialog" where
  "nwy_test_cli_gnss_set_updata_rate =
     ask_int (prompt ''Please input loc frequency(1HZ-1000 2HZ-500):'') (\<lambda>frequency. Call ''nwy_loc_nmea_format_mode'' [I 2, I frequency] (\<lambda>a.
       echo_either (0 < ret a) ''Test loc set frequency success!'' ''Test loc set frequency error!''))"

definition nwy_test_cli_gnss_set_output_fmt :: "'s dialog" where
  "nwy_test_cli_gnss_set_output_fmt =
     ask_int (prompt ''Please input loc opt_format(128-255):'') (\<lambda>opt_format. Call ''nwy_loc_nmea_format_mode'' [I 3, I opt_format] (\<lambda>a.
       echo_either (0 < ret a) ''Test loc set opt_format success!'' ''Test loc set opt_format error!''))"

definition nwy_test_cli_gnss_set_startup_fmt :: "'s dialog" where
  "nwy_test_cli_gnss_set_startup_fmt =
     ask_int (prompt ''Please input loc startup_mode(0-HOT 1-WARM 2-COLD 4-FAC:'') (\<lambda>m. Call ''nwy_loc_set_startup_mode'' [I m] (\<lambda>a.
       echo_either (0 < ret a) ''Test loc set startup_mode success!'' ''Test loc set startup_mode error!''))"

definition nwy_test_cli_gnss_get_nmea :: "'s dialog" where
  "nwy_test_cli_gnss_get_nmea = Call ''nwy_loc_get_nmea_data'' [] (\<lambda>a. say [str '' nmea data: '', text_of a 0] Done)"

definition nwy_test_cli_gnss_dialing :: "'s dialog" where "nwy_test_cli_gnss_dialing = option_not_supported"

text \<open>The four lines are read, and the constants of the file are used.\<close>

definition nwy_test_cli_gnss_set_server :: "'s dialog" where
  "nwy_test_cli_gnss_set_server =
     Ask (prompt ''Please input agps server url:'') (\<lambda>url. ask_int (prompt ''Please input agps server port:'') (\<lambda>port.
       Ask (prompt ''Please input agps server user:'') (\<lambda>user. Ask (prompt ''Please input agps server pass:'') (\<lambda>pass.
         Call ''nwy_loc_set_server'' [T (str ''www.gnss-aide.com''), I 2621, T (str ''freetrial''), T (str ''123456'')] (\<lambda>a.
           echo_either (0 < ret a) ''Test loc set server success!'' ''Test loc set server error!'')))))"

text \<open>The callbacks for a position: the result, the three numbers as printed, and the error text.\<close>

definition show_position :: "int \<Rightarrow> buf \<Rightarrow> buf \<Rightarrow> buf \<Rightarrow> buf \<Rightarrow> 's dialog" where
  "show_position result lat lng alt errmsg =
     (if result = 0 then Print (str ''lat '' @ lat @ str '' '' @ crlf) (Print (str ''lng '' @ lng @ str '' '' @ crlf) (Print (str ''accuracy '' @ alt @ str '' '' @ crlf) Done))
      else Print (str '' '' @ errmsg @ crlf) Done)"

definition nwy_cipgsmloc_cb_cli :: "(int \<times> buf \<times> buf \<times> buf \<times> buf) option \<Rightarrow> 's dialog" where
  "nwy_cipgsmloc_cb_cli param = (case param of None \<Rightarrow> Done
     | Some (result, lat, lng, alt, errmsg) \<Rightarrow> echo '' cipgsmloc info'' (show_position result lat lng alt errmsg))"

definition nwy_wifigsmloc_cb :: "(int \<times> buf \<times> buf \<times> buf \<times> buf) option \<Rightarrow> 's dialog" where
  "nwy_wifigsmloc_cb param = (case param of None \<Rightarrow> Done | Some (result, lat, lng, alt, errmsg) \<Rightarrow> show_position result lat lng alt errmsg)"

text \<open>A data connection is noted, or the user is asked for AT commands.\<close>

definition need_connection :: "'a mobile_vars_scheme dialog \<Rightarrow> 'a mobile_vars_scheme dialog" where
  "need_connection d =
     Get (\<lambda>s. need (nwy_test_cli_check_data_connect s) (\<lambda>c.
       if c = 1 then Call ''nwy_pdp_set_status'' [I 1] (\<lambda>a. d)
       else tell [str '' need module dail at+xiic = 1''] (followed_by nwy_test_cli_send_virt_at d)))"

definition nwy_test_cli_gnss_open_base :: "'a mobile_vars_scheme dialog" where
  "nwy_test_cli_gnss_open_base =
     ask_int (prompt ''Please open lbs(1-open,0-close):'') (\<lambda>v. need_connection (Call ''nwy_loc_cipgsmloc_open'' [I v] (\<lambda>a.
       echo_either (0 < ret a) ''Test loc open lbs success!'' ''Test loc open lbs error!'')))"

definition nwy_test_cli_wifi_open_base :: "'s dialog" where
  "nwy_test_cli_wifi_open_base =
     ask_int (prompt ''Please open wifi lbs(1-open,0-close):'') (\<lambda>v. Call ''nwy_loc_wifigsmloc_open'' [I v] (\<lambda>a.
       echo_either (0 < ret a) ''Test open wifi loc success!'' ''Test open wifi loc error!''))"

definition nwy_test_cli_gnss_open_assisted :: "'a mobile_vars_scheme dialog" where
  "nwy_test_cli_gnss_open_assisted =
     need_connection (Call ''nwy_loc_cipgsmloc_open'' [I 1] (\<lambda>a. ask_int (prompt ''Please open A-GPS(1-open,0-close):'') (\<lambda>v.
       Call ''nwy_loc_agps_open'' [I v] (\<lambda>a. echo_either (0 < ret a) ''Test open A-GPS success!'' ''Test open A-GPS error!''))))"

definition nwy_test_cli_gnss_close :: "'s dialog" where
  "nwy_test_cli_gnss_close =
     Call ''nwy_loc_stop_navigation'' [] (\<lambda>a. echo_either (0 < ret a) ''Test loc close success!'' ''Test loc close error!'')"

end
