(* ===== verification/CliSocket.thy ===== *)
theory CliSocket
  imports CliBle
begin

text \<open>
  The socket functions of the test program, the first part of src/nwy_test_cli/modules/nwy_test_cli_tcpip.c: the checks of
  addresses and ports, the set-up of a TCP or UDP connection, sending, closing and the receiving threads. The lines that are
  sent contain no zero byte, so that the number of bytes entered is the length of the text. Loops that only the module ends
  have the number of rounds as an argument.
\<close>

section \<open>Variables\<close>

record recv_context =
  rc_size :: int
  rc_pos :: int
  rc_data :: buf

record net_vars = ble_vars +
  s_nwy_cli_tcp_fd :: int
  s_nwy_cli_udp_fd :: int
  s_nwy_tcp_connect_flag :: int
  s_nwy_udp_connect_flag :: int
  s_nwy_tcp_recv_thread :: int
  s_nwy_udp_recv_thread :: int
  nwy_cli_update_flag :: int
  s_nwy_ftp_recv :: "recv_context option"
  s_nwy_ftp_current_thread :: int
  ftp_is_vaild :: int
  ftp_filename :: buf
  ftp_pos :: int
  s_nwy_http_choice :: bool

section \<open>Addresses and ports\<close>

primrec nwy_cli_check_str_isdigit :: "buf \<Rightarrow> bool" where
  "nwy_cli_check_str_isdigit [] = True"
| "nwy_cli_check_str_isdigit (c # t) = (if \<not> (48 \<le> c \<and> c \<le> 57) then False else nwy_cli_check_str_isdigit t)"

datatype nwy_ip_type_or_dns = DNS_NONE | DNS_IPV4 | DNS_IPV6 | DNS_DNS

definition is_hex_letter :: "u8 \<Rightarrow> bool" where
  "is_hex_letter c = (97 \<le> c \<and> c \<le> 102 \<or> 65 \<le> c \<and> c \<le> 70)"

text \<open>The place at which a loop over the characters stops.\<close>

definition span_len :: "(u8 \<Rightarrow> bool) \<Rightarrow> buf \<Rightarrow> nat" where
  "span_len p t = length (takeWhile p t)"

definition nwy_judge_ip_or_dns_cli :: "buf \<Rightarrow> nwy_ip_type_or_dns" where
  "nwy_judge_ip_or_dns_cli t =
     (if length t \<le> 0 then DNS_NONE
      else if span_len (\<lambda>c. is_digit c \<or> c = 46) t = length t then DNS_IPV4
      else if span_len (\<lambda>c. is_digit c \<or> is_hex_letter c \<or> c = 58) t = length t then DNS_IPV6
      else DNS_DNS)"

text \<open>\<open>%d\<close> of \<open>sscanf\<close>: the number and the rest of the text; the values of the library saturate.\<close>

definition scan_d_cli :: "buf \<Rightarrow> (int \<times> buf) option" where
  "scan_d_cli t =
     (let t1 = dropWhile is_space t;
          neg = (t1 \<noteq> [] \<and> hd t1 = 45);
          t2 = (if t1 \<noteq> [] \<and> (hd t1 = 45 \<or> hd t1 = 43) then tl t1 else t1);
          v = digits_val (takeWhile is_digit t2)
      in if takeWhile is_digit t2 = [] then None
         else Some (if neg then max (- int_max - 1) (- v) else min int_max v, dropWhile is_digit t2))"

definition scan_dot_cli :: "buf \<Rightarrow> buf option" where
  "scan_dot_cli t = (case t of c # r \<Rightarrow> if c = 46 then Some r else None | [] \<Rightarrow> None)"

definition scan_quad :: "buf \<Rightarrow> (int \<times> int \<times> int \<times> int) option" where
  "scan_quad t =
     do { (a, t1) \<leftarrow> scan_d_cli t; t2 \<leftarrow> scan_dot_cli t1;
          (b, t3) \<leftarrow> scan_d_cli t2; t4 \<leftarrow> scan_dot_cli t3;
          (c, t5) \<leftarrow> scan_d_cli t4; t6 \<leftarrow> scan_dot_cli t5;
          (d, t7) \<leftarrow> scan_d_cli t6;
          Some (a, b, c, d) }"

definition dotted_cli :: "int \<Rightarrow> int \<Rightarrow> int \<Rightarrow> int \<Rightarrow> buf" where
  "dotted_cli a b c d = fmt_d a @ 46 # fmt_d b @ 46 # fmt_d c @ 46 # fmt_d d"

text \<open>The array with the name, rewritten as four numbers: \<open>None\<close> for an access outside of an array, \<open>Inl\<close> for the error.
  \<open>memset (hostname, 0, sizeof (hostname))\<close> clears the four bytes of a pointer.\<close>

definition nwy_hostname_check_cli :: "buf \<Rightarrow> (int + buf) option" where
  "nwy_hostname_check_cli hostname =
     do { t \<leftarrow> arr_text hostname;
          if 15 < length t then Some (Inl (-1))
          else case scan_quad t of None \<Rightarrow> Some (Inl (-1))
               | Some (a, b, c, d) \<Rightarrow>
                   if \<not> (a \<le> 255 \<and> 0 \<le> a \<and> b \<le> 255 \<and> 0 \<le> b \<and> c \<le> 255 \<and> 0 \<le> c) then Some (Inl (-1))
                   else do { temp \<leftarrow> c_strcpy (replicate 32 0) (dotted_cli a b c d);
                             x \<leftarrow> arr_text temp;
                             h1 \<leftarrow> buf_fill hostname 0 0 4;
                             h2 \<leftarrow> c_strcpy h1 x;
                             Some (Inr h2) } }"

text \<open>The comparisons with line ends in the loop compare addresses and never succeed, so that every character has to be a
  digit.\<close>

fun port_loop :: "buf \<Rightarrow> bool" where
  "port_loop [] = True"
| "port_loop (c # t) = (if c < 48 \<or> 57 < c then False else port_loop t)"

definition nwy_port_get_cli :: "buf \<Rightarrow> int + int" where
  "nwy_port_get_cli t =
     (if \<not> port_loop t then Inl (-2)
      else let port = c_atoi t in if port < 1 \<or> 65535 < port then Inl (-2) else Inr port)"

text \<open>The address for a name: status, the array \<open>ip_str\<close> and whether it is an IPv6 address.\<close>

definition nwy_get_ip_str_cli :: "buf \<Rightarrow> buf \<Rightarrow> (int + buf \<times> bool \<Rightarrow> 's dialog) \<Rightarrow> 's dialog" where
  "nwy_get_ip_str_cli url ip_str k =
     (let done = (\<lambda>ip. need (arr_text ip) (\<lambda>x. k (Inr (ip, 58 \<in> set x))))
      in if nwy_judge_ip_or_dns_cli url = DNS_DNS
         then Call ''nwy_gethostbyname1'' [T url] (\<lambda>a.
                if ret a = 0 \<or> text_of a 0 = [] then say [str ''input ip or url '', url, str '' invalid''] (k (Inl (-1)))
                else need (buf_write ip_str 0 (text_of a 0)) (\<lambda>ip. need (arr_text ip) (\<lambda>x. say [url, str '' get ip:'', x] (done ip))))
         else need (buf_write ip_str 0 url) done)"

section \<open>Sockets\<close>

definition nwy_cli_socket_destory :: "('s \<Rightarrow> int) \<Rightarrow> ('s \<Rightarrow> 's) \<Rightarrow> 's dialog \<Rightarrow> 's dialog" where
  "nwy_cli_socket_destory socketid clear d =
     Get (\<lambda>s. Call ''nwy_socket_close'' [I (socketid s)] (\<lambda>a.
       if ret a \<noteq> 0 then tell [str ''Socket close fail''] d else Put clear (tell [str ''Socket close sucess''] d)))"

definition destory_tcp :: "'a net_vars_scheme dialog \<Rightarrow> 'a net_vars_scheme dialog" where
  "destory_tcp d = nwy_cli_socket_destory s_nwy_cli_tcp_fd (\<lambda>s. s\<lparr>s_nwy_cli_tcp_fd := 0\<rparr>) d"

definition destory_udp :: "'a net_vars_scheme dialog \<Rightarrow> 'a net_vars_scheme dialog" where
  "destory_udp d = nwy_cli_socket_destory s_nwy_cli_udp_fd (\<lambda>s. s\<lparr>s_nwy_cli_udp_fd := 0\<rparr>) d"

text \<open>The end of a receiving thread.\<close>

definition tcp_exit :: "string \<Rightarrow> 'a net_vars_scheme dialog" where
  "tcp_exit t = echo t (destory_tcp (Put (\<lambda>s. s\<lparr>s_nwy_tcp_connect_flag := 0\<rparr>) (Call ''nwy_exit_thread'' [] (\<lambda>a. Done))))"

definition udp_exit :: "string \<Rightarrow> 'a net_vars_scheme dialog" where
  "udp_exit t = echo t (destory_udp (Put (\<lambda>s. s\<lparr>s_nwy_udp_connect_flag := 0\<rparr>) (Call ''nwy_exit_thread'' [] (\<lambda>a. Done))))"

text \<open>Received bytes in an array of \<open>n\<close> bytes that was cleared before, printed as a text.\<close>

definition show_received :: "nat \<Rightarrow> string \<Rightarrow> answer \<Rightarrow> 's dialog \<Rightarrow> 's dialog" where
  "show_received n t a d =
     need (buf_write (replicate n 0) 0 (text_of a 0)) (\<lambda>b. need (arr_text b) (\<lambda>x. say [str t, fmt_d (ret a), str '':'', x] d))"

text \<open>The threads, \<open>n\<close> rounds of them. \<open>nwy_socket_select\<close>: \<open>num\<close> tells whether the socket is in the set for reading (0) and in
  the set for errors (1). \<open>nwy_socket_recv\<close>: \<open>text_of\<close> are the received bytes.\<close>

fun nwy_cli_tcp_recv_func :: "nat \<Rightarrow> 'a net_vars_scheme dialog" where
  "nwy_cli_tcp_recv_func 0 = Done"
| "nwy_cli_tcp_recv_func (Suc n) =
     Get (\<lambda>s. Call ''nwy_socket_select'' [I (s_nwy_cli_tcp_fd s + 1), I 20] (\<lambda>a.
       let next = Pause 1000 (nwy_cli_tcp_recv_func n);
           ex = (if num a 1 \<noteq> 0 then tcp_exit ''tcp select ex_fd:'' else next)
       in if ret a < 0 then tcp_exit ''tcp select error:''
          else if 0 < ret a
          then if num a 0 \<noteq> 0
               then Get (\<lambda>s. Call ''nwy_socket_recv'' [I (s_nwy_cli_tcp_fd s), I 512, I 0] (\<lambda>r.
                      if 0 < ret r then show_received 513 ''tcp read:'' r ex
                      else if ret r = 0 then tcp_exit ''tcp close by server'' else tcp_exit ''tcp connection error''))
               else ex
          else next))"

fun nwy_cli_udp_recv_func :: "nat \<Rightarrow> 'a net_vars_scheme dialog" where
  "nwy_cli_udp_recv_func 0 = Done"
| "nwy_cli_udp_recv_func (Suc n) =
     Get (\<lambda>s. Call ''nwy_socket_select'' [I (s_nwy_cli_udp_fd s + 1), I 20] (\<lambda>a.
       let next = nwy_cli_udp_recv_func n;
           ex = (if num a 1 \<noteq> 0 then udp_exit ''udp select ex_fd:'' else next)
       in if ret a < 0 then udp_exit ''udp select error:''
          else if 0 < ret a
          then if num a 0 \<noteq> 0
               then Get (\<lambda>s. Call ''nwy_socket_recv'' [I (s_nwy_cli_udp_fd s), I 512, I 0] (\<lambda>r.
                      if 0 < ret r then show_received 512 ''udp read:'' r ex
                      else if ret r = 0 then echo ''udp close by server'' ex else udp_exit ''udp connection error''))
               else ex
          else next))"

text \<open>The loop that connects, \<open>n\<close> rounds of it. The clock is the module's, in milliseconds; the error number is asked for anew
  in every test. A connection that succeeds at once is tried again, until the module says that it exists.\<close>

definition tcp_connected :: "(int \<Rightarrow> 'a net_vars_scheme dialog) \<Rightarrow> 'a net_vars_scheme dialog" where
  "tcp_connected k =
     Get (\<lambda>s. if s_nwy_tcp_connect_flag s \<noteq> 0
       then Call ''nwy_create_thread'' [T (str ''s_nwy_cli_recv_thread''), I 2048, I 4] (\<lambda>a. Put (\<lambda>s. s\<lparr>s_nwy_tcp_recv_thread := ret a\<rparr>)
              (if ret a = 0 then tell [str ''create tcp recv thread failed, close connect''] (destory_tcp (Put (\<lambda>s. s\<lparr>s_nwy_tcp_connect_flag := 0\<rparr>) (k 0)))
               else k 0))
       else k (-1))"

fun connect_loop :: "nat \<Rightarrow> int \<Rightarrow> arg list \<Rightarrow> (int \<Rightarrow> 'a net_vars_scheme dialog) \<Rightarrow> 'a net_vars_scheme dialog" where
  "connect_loop 0 start addr k = Done"
| "connect_loop (Suc n) start addr k =
     Call ''nwy_get_ms'' [] (\<lambda>t.
       if 10000 \<le> ret t - start then echo ''socket connect timeout'' (k (-1))
       else Get (\<lambda>s. Call ''nwy_socket_connect'' (I (s_nwy_cli_tcp_fd s) # addr) (\<lambda>a.
         let next = Pause 1000 (connect_loop n start addr k)
         in if ret a = 0 then next
            else Call ''nwy_socket_errno'' [] (\<lambda>e.
              if ret e = 127 then tell [str ''nwy_net_connect_tcp connect ok..''] (Put (\<lambda>s. s\<lparr>s_nwy_tcp_connect_flag := 1\<rparr>) (tcp_connected k))
              else Call ''nwy_socket_errno'' [] (\<lambda>e.
                if ret e = 119 then next
                else Call ''nwy_socket_errno'' [] (\<lambda>e.
                  if ret e = 120 then next
                  else Call ''nwy_socket_errno'' [] (\<lambda>e. tell [str ''connect errno = '', fmt_d (ret e)] (destory_tcp (tcp_connected k)))))))))"

definition nwy_cli_tcp_connect :: "nat \<Rightarrow> arg list \<Rightarrow> (int \<Rightarrow> 'a net_vars_scheme dialog) \<Rightarrow> 'a net_vars_scheme dialog" where
  "nwy_cli_tcp_connect n addr k = Call ''nwy_get_ms'' [] (\<lambda>t. connect_loop n (ret t) addr k)"

text \<open>The set-up after the address is known. For TCP the test of the new socket looks at a variable that is always 0.\<close>

definition IPPROTO_TCP :: int where "IPPROTO_TCP = 6"
definition IPPROTO_UDP :: int where "IPPROTO_UDP = 17"

definition tcp_open :: "nat \<Rightarrow> int \<Rightarrow> arg list \<Rightarrow> (int \<Rightarrow> 'a net_vars_scheme dialog) \<Rightarrow> 'a net_vars_scheme dialog" where
  "tcp_open n af addr k =
     (let rest = Get (\<lambda>s. Call ''nwy_socket_setsockopt'' [I (s_nwy_cli_tcp_fd s), I 0xFFF, I 4, I 1] (\<lambda>a.
            Get (\<lambda>s. Call ''nwy_socket_setsockopt'' [I (s_nwy_cli_tcp_fd s), I 6, I 1, I 1] (\<lambda>a.
            Get (\<lambda>s. Call ''nwy_socket_set_nonblock'' [I (s_nwy_cli_tcp_fd s)] (\<lambda>a.
              if ret a \<noteq> 0 then echo ''socket set err'' (k (-2))
              else nwy_cli_tcp_connect n addr (\<lambda>r. echo_if (r = 0) ''socket set up sucess'' (k r))))))))
      in Get (\<lambda>s. if s_nwy_cli_tcp_fd s \<le> 0
           then Call ''nwy_socket_open'' [I af, I 1, I IPPROTO_TCP] (\<lambda>a. Put (\<lambda>s. s\<lparr>s_nwy_cli_tcp_fd := ret a\<rparr>) rest)
           else rest))"

definition udp_open :: "int \<Rightarrow> int \<Rightarrow> (int \<Rightarrow> 'a net_vars_scheme dialog) \<Rightarrow> 'a net_vars_scheme dialog" where
  "udp_open af r k =
     (let rest = Call ''nwy_create_thread'' [T (str ''nwy_udp_recv_thread''), I 2048, I 4] (\<lambda>a. Put (\<lambda>s. s\<lparr>s_nwy_udp_recv_thread := ret a\<rparr>)
            (if ret a = 0 then tell [str ''create udp recv thread failed''] (k (-2))
             else Put (\<lambda>s. s\<lparr>s_nwy_udp_connect_flag := 1\<rparr>) (tell [str ''UDP setup successful''] (k r))))
      in Get (\<lambda>s. if s_nwy_cli_udp_fd s \<le> 0
           then Call ''nwy_socket_open'' [I af, I 2, I IPPROTO_UDP] (\<lambda>a. Put (\<lambda>s. s\<lparr>s_nwy_cli_udp_fd := ret a\<rparr>)
                  (if ret a \<le> 0 then echo ''socket open fail:'' (k (-2)) else rest))
           else rest))"

definition nwy_cli_socket_setup_pro :: "nat \<Rightarrow> buf \<Rightarrow> int \<Rightarrow> int \<Rightarrow> (int \<Rightarrow> 'a net_vars_scheme dialog) \<Rightarrow> 'a net_vars_scheme dialog" where
  "nwy_cli_socket_setup_pro n url port socket_type k =
     (let go = (\<lambda>af ip. if socket_type = IPPROTO_TCP then tcp_open n af [I af, T ip, I port] k
                        else if socket_type = IPPROTO_UDP then udp_open af 0 k else k 0)
      in say [str ''url test start:'', url, str '':'', fmt_d port]
           (nwy_get_ip_str_cli url (replicate 129 0) (\<lambda>r. case r of Inl e \<Rightarrow> k (-2)
             | Inr (ip, isipv6) \<Rightarrow>
                 if isipv6
                 then need (arr_text ip) (\<lambda>x. Call ''ip6addr_aton'' [T x] (\<lambda>a.
                        if ret a = 0 then tell [str ''input ip or url is invalid''] (k (-2)) else go 10 x))
                 else need (nwy_hostname_check_cli ip) (\<lambda>h. case h of Inl e \<Rightarrow> tell [str ''input ip or url is invalid''] (k (-2))
                        | Inr ip \<Rightarrow> need (arr_text ip) (\<lambda>x. Call ''ip4addr_aton'' [T x] (\<lambda>a.
                            if ret a = 0 then echo ''input ip error:'' (k (-2)) else go 2 x))))))"

section \<open>The entries of the menus\<close>

definition ask_address :: "(buf \<Rightarrow> int \<Rightarrow> 's dialog) \<Rightarrow> 's dialog" where
  "ask_address k =
     Ask (prompt ''Please input url: '') (\<lambda>b. need (line_copy 129 b) (\<lambda>url. Ask (prompt ''Please input port: '') (\<lambda>b. need (arr_text b) (\<lambda>t.
       case nwy_port_get_cli t of Inl e \<Rightarrow> tell [str ''Input port error''] Done | Inr port \<Rightarrow> need (arr_text url) (\<lambda>u. k u port)))))"

definition nwy_test_cli_tcp_setup :: "nat \<Rightarrow> 'a net_vars_scheme dialog" where
  "nwy_test_cli_tcp_setup n =
     Get (\<lambda>s. if 0 < s_nwy_cli_tcp_fd s then tell [str ''Socket has been setup''] Done
       else ask_address (\<lambda>url port. nwy_cli_socket_setup_pro n url port IPPROTO_TCP (\<lambda>r.
         if r \<noteq> 0 then destory_tcp (tell [str ''TCP setup error''] Done) else Done)))"

definition ask_send :: "(buf \<Rightarrow> 's dialog) \<Rightarrow> 's dialog" where
  "ask_send k =
     Ask (prompt ''Please input send data(<=512): '') (\<lambda>b. need (arr_text b) (\<lambda>t.
       if 512 < length t then tell [str ''No more than 512 bytes at a time to send ''] Done else k t))"

definition sent_report :: "buf \<Rightarrow> answer \<Rightarrow> 's dialog" where
  "sent_report t a =
     (if ret a \<noteq> int (length t) then tell [str ''send len='', fmt_d (int (length t)), str '', return len='', fmt_d (ret a)] Done
      else tell [str ''send ok''] Done)"

definition nwy_test_cli_tcp_send :: "'a net_vars_scheme dialog" where
  "nwy_test_cli_tcp_send =
     Get (\<lambda>s. if s_nwy_tcp_connect_flag s = 0 then tell [str ''tcp not setup''] Done
       else ask_send (\<lambda>t. Get (\<lambda>s. Call ''nwy_socket_send'' [I (s_nwy_cli_tcp_fd s), T t, I (int (length t)), I 0] (\<lambda>a. sent_report t a))))"

definition nwy_test_cli_tcp_close :: "'a net_vars_scheme dialog" where
  "nwy_test_cli_tcp_close = destory_tcp Done"

definition nwy_test_cli_udp_setup :: "'a net_vars_scheme dialog" where
  "nwy_test_cli_udp_setup =
     Get (\<lambda>s. if 0 < s_nwy_cli_udp_fd s then tell [str ''Socket has been setup''] Done
       else ask_address (\<lambda>url port. nwy_cli_socket_setup_pro 0 url port IPPROTO_UDP (\<lambda>r. Done)))"

definition nwy_test_cli_udp_send :: "'a net_vars_scheme dialog" where
  "nwy_test_cli_udp_send =
     ask_send (\<lambda>t. Get (\<lambda>s. Call ''nwy_socket_send'' [I (s_nwy_cli_udp_fd s), T t, I (int (length t)), I 0] (\<lambda>a. sent_report t a)))"

definition nwy_test_cli_udp_close :: "'a net_vars_scheme dialog" where
  "nwy_test_cli_udp_close = destory_udp Done"

end
