(* ===== verification/CliFtp.thy ===== *)
theory CliFtp
  imports CliSocket
begin

text \<open>
  FTP and HTTP in the test program, the second part of src/nwy_test_cli/modules/nwy_test_cli_tcpip.c: the callbacks that receive
  a file from the console, write a file that comes by FTP and print what comes by HTTP, and the functions behind the menus.
\<close>

section \<open>A file from the console\<close>

definition NWY_EXT_FOTA_DATA_REC_END :: int where "NWY_EXT_FOTA_DATA_REC_END = 2102"
definition NWY_EXT_APPIMG_FOTA_DATA_REC_END :: int where "NWY_EXT_APPIMG_FOTA_DATA_REC_END = 2103"

text \<open>The bytes are appended, the reached length is printed; the thread is woken when the size is reached.\<close>

definition append_received :: "int \<Rightarrow> buf \<Rightarrow> ('a net_vars_scheme dialog \<Rightarrow> 'a net_vars_scheme dialog) \<Rightarrow> 'a net_vars_scheme dialog" where
  "append_received sig data over =
     Get (\<lambda>s. need (s_nwy_ftp_recv s) (\<lambda>rc. need (buf_write (rc_data rc) (nat (rc_pos rc)) data) (\<lambda>d.
       let pos = rc_pos rc + int (length data);
           wake = (\<lambda>e. Get (\<lambda>s. Call ''nwy_test_cli_send_sig'' [I (s_nwy_ftp_current_thread s), I sig] (\<lambda>a. Put (\<lambda>s. s\<lparr>nwy_cli_update_flag := 0\<rparr>) e)))
       in Put (\<lambda>s. s\<lparr>s_nwy_ftp_recv := Some (rc\<lparr>rc_data := d, rc_pos := pos\<rparr>)\<rparr>)
            (say [str '' nwy_app_info.rev_len = '', fmt_d pos, str '' length = '', fmt_d (int (length data))]
              (if pos = rc_size rc then wake Done else if rc_size rc < pos then wake (over Done) else Done)))))"

definition nwy_cli_app_info_proc :: "buf \<Rightarrow> 'a net_vars_scheme dialog" where
  "nwy_cli_app_info_proc data =
     Get (\<lambda>s. tell_if (s_nwy_ftp_current_thread s = 0) '' FTP error :nwy_cli_app_info_proc''
       (Get (\<lambda>s. need (s_nwy_ftp_recv s) (\<lambda>rc.
         let room = to_u32 (rc_size rc - rc_pos rc)
         in append_received NWY_EXT_FOTA_DATA_REC_END (if room \<le> int (length data) then take (nat room) data else data) (\<lambda>d. d)))))"

definition nwy_cli_appimg_info_proc :: "buf \<Rightarrow> 'a net_vars_scheme dialog" where
  "nwy_cli_appimg_info_proc data =
     Get (\<lambda>s. tell_if (s_nwy_ftp_current_thread s = 0) '' FTP error:nwy_cli_appimg_info_proc''
       (append_received NWY_EXT_APPIMG_FOTA_DATA_REC_END data (tell [str ''APP info is error,upgrade fail''])))"

definition nwy_cli_ftp_put_proc :: "buf \<Rightarrow> 'a net_vars_scheme dialog" where
  "nwy_cli_ftp_put_proc data =
     Get (\<lambda>s. if nwy_cli_update_flag s = 1 then nwy_cli_app_info_proc data
       else if nwy_cli_update_flag s = 2 then nwy_cli_appimg_info_proc data else Done)"

section \<open>A file by FTP\<close>

text \<open>The block is written to /nwy/ and the name of the file, at the position reached so far.\<close>

definition nwy_cli_ftp_write_file :: "buf \<Rightarrow> (int \<Rightarrow> 'a net_vars_scheme dialog) \<Rightarrow> 'a net_vars_scheme dialog" where
  "nwy_cli_ftp_write_file data k =
     Get (\<lambda>s. need (arr_text (ftp_filename s)) (\<lambda>f. need (c_strcat (str ''/nwy/'' @ replicate 124 0) f) (\<lambda>fn. need (arr_text fn) (\<lambda>path.
       Call ''nwy_sdk_fopen'' [T path, I 0x202] (\<lambda>fs.
         if ret fs < 0 then k (-1)
         else Get (\<lambda>s. Call ''nwy_sdk_fseek'' [I (ret fs), I (ftp_pos s), I 0] (\<lambda>a. Call ''nwy_sdk_fwrite'' [I (ret fs), T data, I (int (length data))] (\<lambda>a.
           Call ''nwy_sdk_fclose'' [I (ret fs)] (\<lambda>a. Put (\<lambda>s. s\<lparr>ftp_pos := ftp_pos s + int (length data)\<rparr>) (k 0)))))))))) "

text \<open>The events of the module by number, with the data of the event; a null parameter is reported and then read.\<close>

definition ftp_messages :: "(int \<times> string) list" where
  "ftp_messages =
     [(8, ''Ftp login success''), (11, ''Ftp passwd error''), (12, ''Ftp file not found''), (13, ''Ftp file size error''), (3, ''Ftp logout''),
      (2, ''Ftp connection closed''), (10, ''Ftp size is zero''), (14, ''Ftp file del success''), (15, ''Ftp put file success''),
      (0, ''Ftp login fail''), (1, ''Ftp login fail'')]"

definition nwy_cli_ftp_result_cb :: "(int \<times> int \<times> buf option) option \<Rightarrow> 'a net_vars_scheme dialog" where
  "nwy_cli_ftp_result_cb param = (case param of None \<Rightarrow> Print (str ''event is NULL'' @ crlf) Fault
     | Some (event, num0, data) \<Rightarrow>
         (case map_of ftp_messages event of Some t \<Rightarrow> tell [str t] Done
          | None \<Rightarrow>
              if event = 9 then tell [str ''Ftp size is '', fmt_d num0] Done
              else if event = 5
              then (case data of None \<Rightarrow> tell [str ''recved data is NULL''] Done
                    | Some d \<Rightarrow> Get (\<lambda>s. if ftp_is_vaild s = 1 \<and> d \<noteq> []
                        then nwy_cli_ftp_write_file d (\<lambda>r. tell_if (r \<noteq> 0) ''write failed'' Done) else Done))
              else if event = 7
              then Put (\<lambda>s. s\<lparr>ftp_is_vaild := 0\<rparr>) (Get (\<lambda>s. need (arr_text (ftp_filename s)) (\<lambda>f. tell [str ''file '', f, str '' download success.''] Done)))
              else Done))"

section \<open>FTP in the menus\<close>

text \<open>A line of digits; \<open>err\<close> is the message for another one.\<close>

definition ask_digits :: "string \<Rightarrow> (int \<Rightarrow> 's dialog) \<Rightarrow> 's dialog" where
  "ask_digits p k =
     Ask (prompt p) (\<lambda>b. need (arr_text b) (\<lambda>t. if \<not> nwy_cli_check_str_isdigit t then tell [str '' input error''] Done else k (c_atoi t)))"

text \<open>A line copied by \<open>strcpy\<close> into a cleared array of \<open>n\<close> bytes.\<close>

definition ask_text :: "nat \<Rightarrow> string \<Rightarrow> (buf \<Rightarrow> 's dialog) \<Rightarrow> 's dialog" where
  "ask_text n p k = Ask (prompt p) (\<lambda>b. need (arr_text b) (\<lambda>t. need (c_strcpy (replicate n 0) t) (\<lambda>x. k t)))"

definition tell_result :: "answer \<Rightarrow> string \<Rightarrow> 's dialog" where
  "tell_result a f = tell [str '' '', str f, str (if ret a = 0 then '' success'' else '' fail'')] Done"

definition nwy_test_cli_ftp_login :: "'s dialog" where
  "nwy_test_cli_ftp_login =
     ask_digits '' input channel(1-7):'' (\<lambda>c. let channel = to_u16 c in
       if channel < 1 \<or> 7 < channel then tell [str '' input error''] Done
       else ask_text 256 '' input ip:'' (\<lambda>host. ask_digits '' input port:'' (\<lambda>port. ask_digits '' input FTPtype (active mode = 1 passive mode = 0):'' (\<lambda>m.
         let mode = to_u8 m in
         if mode < 0 \<or> 1 < mode then tell [str '' input error''] Done
         else ask_text 256 '' input username:'' (\<lambda>username. ask_text 256 '' input passwd:'' (\<lambda>passwd.
           Call ''nwy_ftp_login'' [I channel, T host, I (to_u16 port), T username, T passwd, I mode, I 180] (\<lambda>a. tell_result a ''nwy_ftp_login'')))))))"

definition ask_type :: "(int \<Rightarrow> 's dialog) \<Rightarrow> 's dialog" where
  "ask_type k = ask_digits '' input type:(1 ASCII 2 Binary)'' (\<lambda>type. if type < 1 \<or> 2 < type then tell [str '' input error''] Done else k type)"

definition nwy_test_cli_ftp_get :: "'a net_vars_scheme dialog" where
  "nwy_test_cli_ftp_get =
     ask_type (\<lambda>type. ask_text 128 '' input filename:'' (\<lambda>f. Put (\<lambda>s. s\<lparr>ftp_is_vaild := 1\<rparr>)
       (Get (\<lambda>s. need (c_strcpy (ftp_filename s) f) (\<lambda>fn. Put (\<lambda>s. s\<lparr>ftp_filename := fn\<rparr>)
         (Call ''nwy_ftp_get'' [T f, I type, I 0, I 0] (\<lambda>a. tell_result a ''nwy_ftp_get'')))))))"

text \<open>The receiving of \<open>len\<close> bytes from the console, in a block with \<open>extra\<close> more bytes; then, if the event says so, \<open>k\<close> on the
  data.\<close>

definition with_recv :: "(recv_context \<Rightarrow> 'a net_vars_scheme dialog) \<Rightarrow> 'a net_vars_scheme dialog" where
  "with_recv k = Get (\<lambda>s. need (s_nwy_ftp_recv s) k)"

definition alloc_recv :: "int \<Rightarrow> nat \<Rightarrow> 'a net_vars_scheme dialog \<Rightarrow> 'a net_vars_scheme dialog" where
  "alloc_recv len extra d =
     Call ''malloc'' [I (8 + len + int extra)] (\<lambda>a.
       if ret a = 0 then Put (\<lambda>s. s\<lparr>s_nwy_ftp_recv := None\<rparr>) (tell [str '' malloc buffer fail''] Done)
       else Put (\<lambda>s. s\<lparr>s_nwy_ftp_recv := Some \<lparr>rc_size = len, rc_pos = 0, rc_data = replicate (nat len + extra) 0\<rparr>\<rparr>) d)"

definition nwy_test_cli_ftp_put :: "'a net_vars_scheme dialog" where
  "nwy_test_cli_ftp_put =
     ask_text 128 '' input fileneme:'' (\<lambda>filename. ask_type (\<lambda>type. ask_digits '' input mode:(1 STOR 2 APPE 3 DELE)'' (\<lambda>mode.
       if mode < 1 \<or> 3 < mode then tell [str '' input error''] Done
       else ask_digits '' input put data len:'' (\<lambda>len. alloc_recv len 0
         (Call ''nwy_get_current_thread'' [] (\<lambda>t. Put (\<lambda>s. s\<lparr>s_nwy_ftp_current_thread := ret t\<rparr>)
           (Call ''nwy_test_cli_sio_enter_trans_mode'' [] (\<lambda>a. Put (\<lambda>s. s\<lparr>nwy_cli_update_flag := 1\<rparr>) (tell [str ''please input data'']
             (Call ''nwy_wait_thead_event'' [I (ret t)] (\<lambda>e.
               if num e 0 = NWY_EXT_FOTA_DATA_REC_END
               then with_recv (\<lambda>rc. Call ''nwy_ftp_put'' [T filename, I type, I mode, T (take (nat (rc_size rc)) (rc_data rc)), I (rc_size rc)] (\<lambda>a.
                      tell [str '' nwy_ftp_put'', str (if ret a = 0 then '' success'' else '' fail'')] (Put (\<lambda>s. s\<lparr>s_nwy_ftp_recv := None\<rparr>) Done)))
               else Done)))))))))))"

definition nwy_test_cli_ftp_fsize :: "'s dialog" where
  "nwy_test_cli_ftp_fsize = ask_text 128 '' input filename:'' (\<lambda>f. Call ''nwy_ftp_filesize'' [T f, I 30] (\<lambda>a. tell_result a ''nwy_ftp_filesize''))"

definition nwy_test_cli_ftp_list :: "'s dialog" where "nwy_test_cli_ftp_list = option_not_supported"

definition nwy_test_cli_ftp_delet :: "'s dialog" where
  "nwy_test_cli_ftp_delet =
     tell [str '' delete get file''] (Ask (prompt '' input filename'') (\<lambda>b. need (arr_text b) (\<lambda>t.
       need (c_strcat (str ''/nwy/'' @ replicate 124 0) t) (\<lambda>fn. need (arr_text fn) (\<lambda>path. Call ''nwy_sdk_fopen'' [T path, I 0] (\<lambda>f.
         if ret f < 0 then say [str ''file '', path, str '' don't exist''] Done
         else Call ''nwy_sdk_fclose'' [I (ret f)] (\<lambda>a. Call ''nwy_sdk_file_unlink'' [T path] (\<lambda>a.
           tell [str '' delete '', path, str (if ret a = 0 then '' file success'' else '' file fail'')] Done))))))))"

definition nwy_test_cli_ftp_logout :: "'s dialog" where
  "nwy_test_cli_ftp_logout = tell [str '' ftp will logout''] (Call ''nwy_ftp_logout'' [I 30] (\<lambda>a. tell_result a ''nwy_ftp_logout''))"

section \<open>HTTP\<close>

definition nwy_cli_https_choice :: "'a net_vars_scheme dialog \<Rightarrow> 'a net_vars_scheme dialog" where
  "nwy_cli_https_choice d = ask_int (prompt '' input 0 for http, 1 for https:'') (\<lambda>v. Put (\<lambda>s. s\<lparr>s_nwy_http_choice := (v \<noteq> 0)\<rparr>) d)"

text \<open>Received data in pieces of at most 2048 bytes, each printed as a text from an array of 2048 bytes. \<open>data\<close> is the memory at
  the pointer of the event, at least \<open>data_len\<close> bytes.\<close>

function print_pieces :: "buf \<Rightarrow> 's dialog \<Rightarrow> 's dialog" where
  "print_pieces data d =
     (if data = [] then d
      else let m = min 2048 (length data)
           in need (buf_write (replicate 2048 0) 0 (take m data)) (\<lambda>b. need (arr_text b) (\<lambda>t. Print t (print_pieces (drop m data) d))))"
  by pat_completeness auto

termination by (relation "measure (\<lambda>(data, d). length data)") auto

declare print_pieces.simps [simp del]

definition http_data :: "string \<Rightarrow> buf \<Rightarrow> 's dialog" where
  "http_data t data =
     say [str t, fmt_d (int (length data)), str ''.''] (Call ''malloc'' [I 2048] (\<lambda>a.
       if ret a = 0 then need (arr_text data) (\<lambda>x. Print (x @ crlf) Done) else print_pieces data (Print crlf Done)))"

definition http_messages :: "(int \<times> string) list" where
  "http_messages =
     [(0, ''HTTP dns err''), (1, ''HTTP open fail''), (2, ''HTTP setup success''), (4, ''HTTP closed''), (5, ''HTTP closed''),
      (7, ''HTTP request send error''), (11, ''HTTP request send OK'')]"

definition https_messages :: "(int \<times> string) list" where
  "https_messages =
     [(0, ''HTTPS dns err''), (1, ''HTTPS open fail''), (3, ''HTTPS setup success''), (4, ''HTTPS closed''), (5, ''HTTPS closed''),
      (7, ''HTTPS request send error''), (11, ''HTTP request send ok''), (9, ''HTTPS SSL init fail''), (10, ''HTTPS SSL handshare fail''),
      (8, ''HTTPS SSL Authentication fail'')]"

definition nwy_cli_http_result_cb :: "(int \<times> buf) option \<Rightarrow> 's dialog" where
  "nwy_cli_http_result_cb param = (case param of None \<Rightarrow> Print (str ''event is NULL'' @ crlf) Fault
     | Some (event, data) \<Rightarrow>
         if event = 6 then http_data ''HTTP recv data len '' data
         else (case map_of http_messages event of Some t \<Rightarrow> tell [str t] Done | None \<Rightarrow> tell [str ''HTTP unkown error''] Done))"

definition nwy_cli_https_result_cb :: "(int \<times> buf) option \<Rightarrow> 's dialog" where
  "nwy_cli_https_result_cb param = (case param of None \<Rightarrow> Print (str ''event is NULL'' @ crlf) Fault
     | Some (event, data) \<Rightarrow>
         if event = 6 then http_data ''HTTPS recv data len '' data
         else (case map_of https_messages event of Some t \<Rightarrow> tell [str t] Done | None \<Rightarrow> tell [str ''HTTPS unkown error''] Done))"

text \<open>The certificates of \<open>ssl_cfg\<close> have names of at most 50 characters.\<close>

definition tell_choice :: "answer \<Rightarrow> string \<Rightarrow> 'a net_vars_scheme dialog" where
  "tell_choice a verb =
     Get (\<lambda>s. tell [str '' '', str (if s_nwy_http_choice s then ''nwy_https_'' else ''nwy_http_''), str verb, str (if ret a = 0 then '' success'' else '' fail'')] Done)"

definition https_setup :: "int \<Rightarrow> buf \<Rightarrow> int \<Rightarrow> int \<Rightarrow> int \<Rightarrow> buf \<Rightarrow> buf \<Rightarrow> buf \<Rightarrow> 'a net_vars_scheme dialog" where
  "https_setup channel url port ssl_version authmode cacert clientcert clientkey =
     Call ''nwy_https_setup'' [I channel, T url, I port, I ssl_version, I authmode, T cacert, T clientcert, T clientkey] (\<lambda>a. tell_choice a ''setup'')"

definition nwy_test_cli_http_setup :: "'a net_vars_scheme dialog" where
  "nwy_test_cli_http_setup =
     ask_int (prompt '' input channel:(1-7)'') (\<lambda>c. let channel = to_u8 c in
       ask_text 512 '' input url:'' (\<lambda>url. Ask (prompt '' input port:'') (\<lambda>b. need (arr_text b) (\<lambda>t.
         if \<not> nwy_cli_check_str_isdigit t then Print (str ''input error'') Done
         else let port = c_atoi t in nwy_cli_https_choice (Get (\<lambda>s.
           if s_nwy_http_choice s
           then ask_int (prompt '' input ssl version: 0:SSL3.0 1:TLS1.0 2:TLS1.1 3:TLS1.2'') (\<lambda>v.
                  ask_int (prompt '' input authmode: 0:No authentication 1:Manage server authentication 2:Manage server and client authentication'') (\<lambda>m.
                    if to_u8 m \<noteq> 0
                    then ask_text 51 '' input cacert name:'' (\<lambda>ca. ask_text 51 '' input clientcert name:'' (\<lambda>cc. ask_text 51 '' input clientkey name:'' (\<lambda>ck.
                           https_setup channel url port (to_u8 v) (to_u8 m) ca cc ck)))
                    else https_setup channel url port (to_u8 v) (to_u8 m) [] [] []))
           else Call ''nwy_http_setup'' [I channel, T url, I port] (\<lambda>a. tell_choice a ''setup'')))))))"

definition nwy_test_cli_http_get :: "'a net_vars_scheme dialog" where
  "nwy_test_cli_http_get =
     ask_int (prompt '' input whether keepalive:(0 1)'') (\<lambda>keepalive. ask_int (prompt '' input offset:'') (\<lambda>offset. ask_int (prompt '' input size:'') (\<lambda>sz.
       nwy_cli_https_choice (Get (\<lambda>s. Call ''nwy_http_get'' [I keepalive, I offset, I sz, I (if s_nwy_http_choice s then 1 else 0)] (\<lambda>a.
         tell_result a ''nwy_http_get''))))))"

definition nwy_test_cli_http_head :: "'a net_vars_scheme dialog" where
  "nwy_test_cli_http_head =
     ask_int (prompt '' input whether keepalive:(0 1)'') (\<lambda>keepalive. nwy_cli_https_choice (Get (\<lambda>s.
       Call ''nwy_http_head'' [I keepalive, I (if s_nwy_http_choice s then 1 else 0)] (\<lambda>a. tell_result a ''nwy_http_head''))))"

text \<open>The data are still in the input array when the choice is asked for: what is posted is the last line, the choice.\<close>

definition nwy_test_cli_http_post :: "'a net_vars_scheme dialog" where
  "nwy_test_cli_http_post =
     ask_int (prompt '' input whether keepalive:(0 1)'') (\<lambda>keepalive.
       ask_int (prompt '' input type: 0:x-www-form-urlencoded 1:text 2:json 3:xml 4:html 99:User-defined mode'') (\<lambda>type.
         Ask (prompt '' input data:'') (\<lambda>sptr. Ask (prompt '' input 0 for http, 1 for https:'') (\<lambda>b. need (arr_text b) (\<lambda>t.
           Put (\<lambda>s. s\<lparr>s_nwy_http_choice := (c_atoi t \<noteq> 0)\<rparr>) (Get (\<lambda>s.
             Call ''nwy_http_post'' [I keepalive, I type, T t, I (int (length t)), I (if s_nwy_http_choice s then 1 else 0)] (\<lambda>a.
               tell_result a ''nwy_http_post''))))))))"

definition nwy_test_cli_http_close :: "'a net_vars_scheme dialog" where
  "nwy_test_cli_http_close =
     nwy_cli_https_choice (Get (\<lambda>s. Call ''nwy_http_close'' [I (if s_nwy_http_choice s then 1 else 0)] (\<lambda>a. tell_choice a ''close'')))"

definition nwy_test_cli_https_add_cert :: "'a net_vars_scheme dialog" where
  "nwy_test_cli_https_add_cert =
     ask_text 128 '' begin input cacert name:'' (\<lambda>filename. ask_int (prompt '' input cacert length:'') (\<lambda>l. let len = to_u32 l in
       if len \<le> 0 then tell [str '' invalid cacert size:'', fmt_d len] Done
       else alloc_recv len 5 (Call ''nwy_test_cli_sio_enter_trans_mode'' [] (\<lambda>a. Put (\<lambda>s. s\<lparr>nwy_cli_update_flag := 1\<rparr>) (tell [str ''please input cert'']
         (Call ''nwy_get_current_thread'' [] (\<lambda>t. Put (\<lambda>s. s\<lparr>s_nwy_ftp_current_thread := ret t\<rparr>)
           (Call ''nwy_wait_thead_event'' [I (ret t)] (\<lambda>e.
             if num e 0 = NWY_EXT_FOTA_DATA_REC_END
             then with_recv (\<lambda>rc. Call ''nwy_cert_add'' [T filename, T (take (nat (rc_size rc)) (rc_data rc)), I (rc_size rc)] (\<lambda>a.
                    tell [str (if to_u32 (ret a) \<noteq> rc_size rc then ''nwy_cert_add fail'' else ''nwy_cert_add success'')]
                      (Put (\<lambda>s. s\<lparr>s_nwy_ftp_recv := None\<rparr>) (tell [str ''add end''] Done))))
             else tell [str ''add end''] Done)))))))))"

definition nwy_test_cli_https_check_cert :: "'s dialog" where
  "nwy_test_cli_https_check_cert = ask_text 128 '' input cacert name:'' (\<lambda>f. Call ''nwy_cert_check'' [T f] (\<lambda>a. tell_result a ''nwy_cert_check''))"

definition nwy_test_cli_https_delet_cert :: "'s dialog" where
  "nwy_test_cli_https_delet_cert = ask_text 128 '' input cacert name:'' (\<lambda>f. Call ''nwy_cert_del'' [T f] (\<lambda>a. tell_result a ''nwy_cert_del''))"

definition nwy_test_cli_http_compute_md5 :: "'s dialog" where
  "nwy_test_cli_http_compute_md5 =
     ask_text 128 '' input file name:'' (\<lambda>f. Call ''compute_file_md5'' [T f] (\<lambda>a.
       if ret a = 0 then say [str '' compute md5 success:'', text_of a 0] Done else tell [str '' compute md5 fail''] Done))"

end
