(* ===== verification/CliContract.thy ===== *)
theory CliContract
  imports CliFtp
begin

text \<open>
  A contract for the sessions of the test program. It states, prompt by prompt, which lines fit the arrays of the source, which
  arguments the module is given, what the code relies on in the answers of the module, and an invariant of the variables. The
  functions for the mobile network and for the system keep it; the other functions are in \<open>CliSafety\<close>.
\<close>

section \<open>The contract\<close>

text \<open>What a line has to satisfy at a prompt; every other prompt takes any line.\<close>

definition line_rules :: "(string \<times> (buf \<Rightarrow> bool)) list" where
  "line_rules =
     [(''Please input pin string: '', \<lambda>t. length t < 10),
      (''Please input puk string: '', \<lambda>t. length t < 10),
      (''Please input new pin string: '', \<lambda>t. length t < 10),
      (''Please input dest phone number: '', \<lambda>t. length t < 22),
      (''Please input msg data: '', \<lambda>t. length t \<le> 801),
      (''Please input sca number: '', \<lambda>t. length t < 21),
      (''Please input ussd string: '', \<lambda>t. length t < 160),
      (''Please set bandlock mask(limit 256bits): '', \<lambda>t. length t < 64),
      (''Send AT cmd :'', \<lambda>t. length t < 1022),
      (''Please select index at before table:'', \<lambda>t. 0 \<le> c_atoi t \<and> c_atoi t < 10),
      (''Please input data(2020-1-1): '', \<lambda>t. 3 \<le> length (strtok_all 0x2D t)),
      (''Please input time(1:1:1): '', \<lambda>t. 3 \<le> length (strtok_all 0x3A t)),
      (''Please input the uart id(1-URT1,2-URT2 or 3-URT3):'', \<lambda>t. 1 \<le> to_u8 (c_atoi t) \<and> to_u8 (c_atoi t) \<le> 3),
      (''Please input the I2C id(1-I2C1,2-I2C2 or 3-I2C3):'', \<lambda>t. 1 \<le> to_u8 (c_atoi t) \<and> to_u8 (c_atoi t) \<le> 3),
      (''Please input the spi id(1-spi1,2-spi1):'', \<lambda>t. 1 \<le> to_u8 (c_atoi t) \<and> to_u8 (c_atoi t) \<le> 2),
      (''Please input content: '', \<lambda>t. length t < 1024),
      (''Please input filename(len <= 64): '', \<lambda>t. length t \<noteq> 64),
      (''Please input file old name: '', \<lambda>t. length t < 64),
      (''Please input file new name: '', \<lambda>t. length t < 64),
      ('' send data:'', \<lambda>t. length t < 1024),
      ('' mac addr:'', \<lambda>t. length t < 18),
      (''Please input url: '', \<lambda>t. length t < 129),
      ('' input ip:'', \<lambda>t. length t < 256),
      ('' input username:'', \<lambda>t. length t < 256),
      ('' input passwd:'', \<lambda>t. length t < 256),
      ('' input filename:'', \<lambda>t. length t < 124),
      ('' input filename'', \<lambda>t. length t < 124),
      ('' input url:'', \<lambda>t. length t < 512),
      ('' input cacert name:'', \<lambda>t. length t < 51),
      ('' input clientcert name:'', \<lambda>t. length t < 51),
      ('' input clientkey name:'', \<lambda>t. length t < 51),
      ('' input file name:'', \<lambda>t. length t < 128)]"

text \<open>The array of a line: 2048 bytes with a terminator.\<close>

definition input_array :: "buf \<Rightarrow> bool" where
  "input_array b = (length b = 2048 \<and> terminated b)"

definition line_fits :: "buf \<Rightarrow> buf \<Rightarrow> bool" where
  "line_fits p b = (input_array b \<and> list_all (\<lambda>(k, q). p = prompt k \<longrightarrow> q (c_str b)) line_rules)"

text \<open>What the module demands of the arguments, as far as its headers say so.\<close>

definition call_rules :: "(string \<times> (arg list \<Rightarrow> bool)) list" where
  "call_rules =
     [(''nwy_data_get_profile'', \<lambda>as. case as of [I p, I k] \<Rightarrow> 1 \<le> p \<and> p \<le> 7 \<and> k = 0 | _ \<Rightarrow> False),
      (''nwy_data_set_profile'', \<lambda>as. case as of [I p, I k, I pdp, T apn, I auth, T user, T pwd] \<Rightarrow>
         1 \<le> p \<and> p \<le> 7 \<and> k = 0 \<and> pdp \<in> {1, 2, 3, 6} \<and> 0 \<le> auth \<and> auth \<le> 2 \<and> length apn = 51 \<and> terminated apn \<and>
         length user = 22 \<and> terminated user \<and> length pwd = 21 \<and> terminated pwd | _ \<Rightarrow> False),
      (''nwy_data_start_call'', \<lambda>as. case as of [I h, I p, I auto, I m, I t] \<Rightarrow>
         1 \<le> h \<and> h \<le> 7 \<and> 1 \<le> p \<and> p \<le> 7 \<and> (auto = 0 \<and> m = 0 \<and> t = 0 \<or> auto = 1 \<and> 0 \<le> m \<and> m \<le> 65535 \<and> 100 \<le> t \<and> t \<le> 86400000) | _ \<Rightarrow> False),
      (''nwy_data_get_ip_addr'', \<lambda>as. case as of [I h] \<Rightarrow> 1 \<le> h \<and> h \<le> 7 | _ \<Rightarrow> False),
      (''nwy_data_stop_call'', \<lambda>as. case as of [I h] \<Rightarrow> 1 \<le> h \<and> h \<le> 7 | _ \<Rightarrow> False),
      (''nwy_data_relealse_srv_handle'', \<lambda>as. case as of [I h] \<Rightarrow> 0 \<le> h \<and> h \<le> 7 | _ \<Rightarrow> False),
      (''nwy_nw_set_network_mode'', \<lambda>as. case as of [I m] \<Rightarrow> m \<in> {0, 2, 4} | _ \<Rightarrow> False),
      (''nwy_nw_freq_lock'', \<lambda>as. case as of [Ns fs, I n] \<Rightarrow>
         length fs = 9 \<and> 1 \<le> n \<and> n \<le> 9 \<and> list_all (\<lambda>v. 0 \<le> v \<and> v \<le> 65535) fs | _ \<Rightarrow> False),
      (''nwy_nw_manual_network_select'', \<lambda>as. case as of [T mcc, T mnc, I r] \<Rightarrow> length mcc = 4 \<and> length mnc = 4 | _ \<Rightarrow> False),
      (''nwy_sms_send_pdu_message'', \<lambda>as. case as of [T p, I n] \<Rightarrow> 0 \<le> n \<and> n \<le> int (length p) | _ \<Rightarrow> False),
      (''nwy_set_time'', \<lambda>as. case as of [I y, I mo, I d, I h, I mi, I s, I z] \<Rightarrow>
         0 \<le> y \<and> y < 65536 \<and> list_all (\<lambda>v. 0 \<le> v \<and> v < 256) [mo, d, h, mi, s] | _ \<Rightarrow> False),
      (''nwy_uart_init'', \<lambda>as. case as of [I n, I m] \<Rightarrow> n \<in> {0x31545255, 0x32545255, 0x33545255} \<and> 0 \<le> m \<and> m < 256 | _ \<Rightarrow> False),
      (''nwy_uart_set_baud'', \<lambda>as. case as of [I h, I v] \<Rightarrow> 1200 \<le> v \<and> v \<le> 8000000 | _ \<Rightarrow> False),
      (''nwy_i2c_init'', \<lambda>as. case as of [T n, I k] \<Rightarrow> n \<in> {str ''I2C1'', str ''I2C2'', str ''I2C3''} | _ \<Rightarrow> False),
      (''nwy_audio_player_play'', \<lambda>as. case as of [T x, I n] \<Rightarrow> int (length x) = n | _ \<Rightarrow> False),
      (''nwy_ftp_login'', \<lambda>as. case as of [I c, T h, I p, T u, T w, I m, I t] \<Rightarrow>
         1 \<le> c \<and> c \<le> 7 \<and> length h < 256 \<and> 0 \<le> p \<and> p < 65536 \<and> length u < 256 \<and> length w < 256 \<and> (m = 0 \<or> m = 1) | _ \<Rightarrow> False),
      (''nwy_ftp_get'', \<lambda>as. case as of [T f, I t, I x, I n] \<Rightarrow> length f < 128 \<and> (t = 1 \<or> t = 2) | _ \<Rightarrow> False),
      (''nwy_socket_send'', \<lambda>as. case as of [I f, T t, I n, I k] \<Rightarrow> n = int (length t) \<and> n \<le> 512 | _ \<Rightarrow> False),
      (''nwy_sdk_fwrite'', \<lambda>as. case as of [I f, T t, I n] \<Rightarrow> n = int (length t) | _ \<Rightarrow> False)]"

definition call_fits :: "string \<Rightarrow> arg list \<Rightarrow> bool" where
  "call_fits f as = (case map_of call_rules f of None \<Rightarrow> True | Some q \<Rightarrow> q as)"

text \<open>What the code relies on: memory is available, and lists, names and blocks of the module fit their arrays.\<close>

definition reply_rules :: "(string \<times> (answer \<Rightarrow> bool)) list" where
  "reply_rules =
     [(''malloc'', \<lambda>a. ret a \<noteq> 0),
      (''nwy_nw_get_forbidden_plmn'', \<lambda>a. num a 0 \<le> 64),
      (''nwy_sdk_fread'', \<lambda>a. ret a \<le> int (length (text_of a 0))),
      (''nwy_sdk_sfile_read'', \<lambda>a. ret a \<le> int (length (text_of a 0))),
      (''nwy_sdk_vfs_readdir'', \<lambda>a. length (text_of a 0) \<le> 187),
      (''nwy_sdk_get_stat_path'', \<lambda>a. - int_max - 1 \<le> num a 0 \<and> num a 0 \<le> int_max),
      (''nwy_ble_client_discover_srv'', \<lambda>a. ret a \<le> 10),
      (''nwy_ble_client_discover_char'', \<lambda>a. list_all (\<lambda>i. to_u8 (num a i) \<le> 10) [0..<10]),
      (''nwy_wifi_scan'', \<lambda>a. num a 0 \<le> 16),
      (''nwy_gethostbyname1'', \<lambda>a. length (text_of a 0) < 129),
      (''nwy_socket_recv'', \<lambda>a. length (text_of a 0) < 512)]"

definition reply_fits :: "string \<Rightarrow> arg list \<Rightarrow> answer \<Rightarrow> bool" where
  "reply_fits f as a = list_all (\<lambda>(k, q). f = k \<longrightarrow> q a) reply_rules"

definition scan_item_ok :: "scan_item \<Rightarrow> bool" where
  "scan_item_ok it = (length (net_mcc it) = 4 \<and> terminated (net_mcc it) \<and> length (net_mnc it) = 4 \<and> terminated (net_mnc it))"

definition mobile_ok :: "'a mobile_vars_scheme \<Rightarrow> bool" where
  "mobile_ok s = (length (ppp_state s) = 10 \<and> scan_num (nw_scan_list s) \<le> 10 \<and> length (net_list (nw_scan_list s)) = 10 \<and>
     list_all scan_item_ok (net_list (nw_scan_list s)))"

text \<open>A recording that the player can play: its last block of 320 bytes ends inside the buffer.\<close>

definition audio_ok :: "'a driver_vars_scheme \<Rightarrow> bool" where
  "audio_ok s = (0 \<le> capture_len s \<and> capture_len s \<le> 48960 \<and>
     (0 < capture_len s \<longrightarrow> (\<exists>ab. audio_buf s = Some ab \<and> length ab = AUDIO_RECORDER_DATA_LEN)))"

definition array_ok :: "nat \<Rightarrow> buf \<Rightarrow> bool" where
  "array_ok n b = (length b = n \<and> terminated b)"

definition driver_ok :: "'a driver_vars_scheme \<Rightarrow> bool" where
  "driver_ok s = (lcd_ok (display s) \<and> fonts_ok (font_files s) \<and> length (display_buffer s) = 16384 \<and> array_ok 1024 (tts_buff s) \<and> audio_ok s \<and>
     terminated (sio_recv_copy s) \<and> array_ok 65 (nwy_test_file_name s) \<and> array_ok 65 (nwy_test_dir_name s))"

definition cli_ok :: "net_vars \<Rightarrow> bool" where
  "cli_ok s = (mobile_ok s \<and> driver_ok s \<and> srv_num s \<le> 10 \<and> array_ok 256 (ftp_filename s))"

definition cli_contract :: "net_vars contract" where
  "cli_contract = \<lparr>line_ok = line_fits, call_ok = call_fits, reply_ok = reply_fits, vars_ok = cli_ok\<rparr>"

lemma cli_contract_simps [simp]:
  "line_ok cli_contract = line_fits" "call_ok cli_contract = call_fits" "reply_ok cli_contract = reply_fits" "vars_ok cli_contract = cli_ok"
  by (simp_all add: cli_contract_def)

lemma line_fits_array: "line_fits p b \<Longrightarrow> terminated b \<and> length b = 2048"
  by (simp add: line_fits_def input_array_def)

lemma line_fits_rules:
  "line_fits (prompt ''Please input pin string: '') b \<Longrightarrow> length (c_str b) < 10"
  "line_fits (prompt ''Please input puk string: '') b \<Longrightarrow> length (c_str b) < 10"
  "line_fits (prompt ''Please input new pin string: '') b \<Longrightarrow> length (c_str b) < 10"
  "line_fits (prompt ''Please input dest phone number: '') b \<Longrightarrow> length (c_str b) < 22"
  "line_fits (prompt ''Please input msg data: '') b \<Longrightarrow> length (c_str b) \<le> 801"
  "line_fits (prompt ''Please input sca number: '') b \<Longrightarrow> length (c_str b) < 21"
  "line_fits (prompt ''Please input ussd string: '') b \<Longrightarrow> length (c_str b) < 160"
  "line_fits (prompt ''Please set bandlock mask(limit 256bits): '') b \<Longrightarrow> length (c_str b) < 64"
  "line_fits (prompt ''Send AT cmd :'') b \<Longrightarrow> length (c_str b) < 1022"
  "line_fits (prompt ''Please select index at before table:'') b \<Longrightarrow> 0 \<le> c_atoi (c_str b) \<and> c_atoi (c_str b) < 10"
  "line_fits (prompt ''Please input data(2020-1-1): '') b \<Longrightarrow> 3 \<le> length (strtok_all 0x2D (c_str b))"
  "line_fits (prompt ''Please input time(1:1:1): '') b \<Longrightarrow> 3 \<le> length (strtok_all 0x3A (c_str b))"
  "line_fits (prompt ''Please input the uart id(1-URT1,2-URT2 or 3-URT3):'') b \<Longrightarrow> 1 \<le> to_u8 (c_atoi (c_str b)) \<and> to_u8 (c_atoi (c_str b)) \<le> 3"
  "line_fits (prompt ''Please input the I2C id(1-I2C1,2-I2C2 or 3-I2C3):'') b \<Longrightarrow> 1 \<le> to_u8 (c_atoi (c_str b)) \<and> to_u8 (c_atoi (c_str b)) \<le> 3"
  "line_fits (prompt ''Please input the spi id(1-spi1,2-spi1):'') b \<Longrightarrow> 1 \<le> to_u8 (c_atoi (c_str b)) \<and> to_u8 (c_atoi (c_str b)) \<le> 2"
  "line_fits (prompt ''Please input content: '') b \<Longrightarrow> length (c_str b) < 1024"
  "line_fits (prompt ''Please input filename(len <= 64): '') b \<Longrightarrow> length (c_str b) \<noteq> 64"
  "line_fits (prompt ''Please input file old name: '') b \<Longrightarrow> length (c_str b) < 64"
  "line_fits (prompt ''Please input file new name: '') b \<Longrightarrow> length (c_str b) < 64"
  "line_fits (prompt '' send data:'') b \<Longrightarrow> length (c_str b) < 1024"
  "line_fits (prompt '' mac addr:'') b \<Longrightarrow> length (c_str b) < 18"
  "line_fits (prompt ''Please input url: '') b \<Longrightarrow> length (c_str b) < 129"
  "line_fits (prompt '' input ip:'') b \<Longrightarrow> length (c_str b) < 256"
  "line_fits (prompt '' input username:'') b \<Longrightarrow> length (c_str b) < 256"
  "line_fits (prompt '' input passwd:'') b \<Longrightarrow> length (c_str b) < 256"
  "line_fits (prompt '' input filename:'') b \<Longrightarrow> length (c_str b) < 124"
  "line_fits (prompt '' input filename'') b \<Longrightarrow> length (c_str b) < 124"
  "line_fits (prompt '' input url:'') b \<Longrightarrow> length (c_str b) < 512"
  "line_fits (prompt '' input cacert name:'') b \<Longrightarrow> length (c_str b) < 51"
  "line_fits (prompt '' input clientcert name:'') b \<Longrightarrow> length (c_str b) < 51"
  "line_fits (prompt '' input clientkey name:'') b \<Longrightarrow> length (c_str b) < 51"
  "line_fits (prompt '' input file name:'') b \<Longrightarrow> length (c_str b) < 128"
  unfolding line_fits_def line_rules_def by (simp_all only: list.pred_inject prod.case refl simp_thms)

section \<open>Every function keeps the contract\<close>

lemmas vars_unfold = cli_ok_def mobile_ok_def driver_ok_def audio_ok_def array_ok_def
lemmas reply_unfold = reply_fits_def reply_rules_def

lemma safe_int:
  "(\<And>v. safe cli_contract (k v)) \<Longrightarrow> safe cli_contract (ask_int p k)"
  by (simp add: safe_ask_int line_fits_array)

lemma safe_verdict [simp]: "safe K (verdict a g b)"
  by (simp add: verdict_def)

lemma safe_unsupported [simp]: "safe K option_not_supported"
  by (simp add: option_not_supported_def)

lemma call_fits_free [simp]: "map_of call_rules f = None \<Longrightarrow> call_fits f as"
  by (simp add: call_fits_def)

lemma safe_copy_text:
  assumes "terminated b" and "length (c_str b) < n" and "safe K (k (c_str b))"
  shows "safe K (need (line_copy n b) (\<lambda>a. need (arr_text a) k))"
  using line_copy_text [of n b] assms by (cases "line_copy n b") (auto simp: safe_need)


lemmas call_unfold = call_fits_def call_rules_def

lemma os_functions_safe:
  "safe cli_contract nwy_test_cli_reg_at_fwd" "safe cli_contract nwy_test_cli_get_model" "safe cli_contract nwy_test_cli_get_imei"
  "safe cli_contract nwy_test_cli_get_chipid" "safe cli_contract nwy_test_cli_get_sw_ver" "safe cli_contract nwy_test_cli_get_hw_ver"
  "safe cli_contract nwy_test_cli_get_heap_info" "safe cli_contract nwy_test_cli_get_cpu_temp" "safe cli_contract nwy_test_cli_get_time"
  "safe cli_contract nwy_test_cli_start_timer" "safe cli_contract nwy_test_cli_stop_timer" "safe cli_contract nwy_test_cli_set_semp"
  by (simp_all add: nwy_test_cli_reg_at_fwd_def nwy_test_cli_get_model_def nwy_test_cli_get_imei_def nwy_test_cli_get_chipid_def
      nwy_test_cli_get_sw_ver_def nwy_test_cli_get_hw_ver_def nwy_test_cli_get_heap_info_def nwy_test_cli_get_cpu_temp_def
      nwy_test_cli_get_time_def nwy_test_cli_start_timer_def start_periodic_def nwy_test_cli_stop_timer_def nwy_test_cli_set_semp_def
      call_unfold vars_unfold upt_rec)


lemma safe_three_ints:
  assumes "terminated b" and "3 \<le> length (strtok_all c (c_str b))" and "\<And>x y z. safe K (k (x, y, z))"
  shows "safe K (need (three_ints c b) k)"
  using three_ints_iff [of c b] assms by (cases "three_ints c b") auto

lemma conversions [simp]:
  "0 \<le> to_u8 v" "to_u8 v < 256" "0 \<le> to_u16 v" "to_u16 v < 65536" "to_u16 v \<le> 65535" "0 \<le> v \<Longrightarrow> v < 256 \<Longrightarrow> to_u8 v = v"
  "0 \<le> v \<Longrightarrow> v < 65536 \<Longrightarrow> to_u16 v = v" "0 \<le> v \<Longrightarrow> v < 4294967296 \<Longrightarrow> to_u32 v = v"
  by (simp_all add: to_u8_def to_u16_def to_u32_def)

lemma os_input_safe:
  "safe cli_contract nwy_test_cli_send_virt_at" "safe cli_contract nwy_test_cli_get_boot_cause" "safe cli_contract nwy_test_cli_set_time"
proof -
  have at: "safe cli_contract nwy_cli_virtual_at_test"
    by (simp add: nwy_cli_virtual_at_test_def at_command_eq line_fits_array line_fits_rules call_unfold)
  have "safe cli_contract (foldr (\<lambda>p e. Call ''nwy_sdk_at_unsolicited_cb_reg'' [T (str p)] (\<lambda>a. e)) ps d)" if "safe cli_contract d" for ps d
    using that by (induction ps) (simp_all add: call_unfold)
  then show "safe cli_contract nwy_test_cli_send_virt_at"
    using at by (simp add: nwy_test_cli_send_virt_at_def nwy_cli_init_unsol_reg_def call_unfold vars_unfold)
  have "\<exists>b. c_strcat (replicate 256 0) (boot_cause_text c) = Some b \<and> arr_text b = Some (boot_cause_text c)" for c
    using cleared_cat_text boot_cause_fits by blast
  then show "safe cli_contract nwy_test_cli_get_boot_cause"
    by (simp add: nwy_test_cli_get_boot_cause_def safe_need call_unfold) metis
  show "safe cli_contract nwy_test_cli_set_time"
    unfolding nwy_test_cli_set_time_def
    by (auto intro!: safe_three_ints simp: line_fits_array line_fits_rules os_functions_safe) (simp add: call_unfold)
qed


lemma line_array_text: "length (c_str b) < n \<Longrightarrow> arr_text (c_str b @ replicate (n - length (c_str b)) 0) = Some (c_str b)"
  by (simp add: arr_text_def terminated_def c_str_padded)

text \<open>The rules for a prompt, the copies it feeds and the calls.\<close>

lemmas dialog_rules = line_fits_array line_fits_rules line_copy_eq line_array_text call_unfold safe_ask_int

lemma safe_sim:
  "safe cli_contract nwy_test_cli_get_sim_status" "safe cli_contract nwy_test_cli_verify_pin" "safe cli_contract nwy_test_cli_get_pin_mode"
  "safe cli_contract nwy_test_cli_set_pin_mode" "safe cli_contract nwy_test_cli_change_pin" "safe cli_contract nwy_test_cli_verify_puk"
  "safe cli_contract nwy_test_cli_get_imsi" "safe cli_contract nwy_test_cli_get_iccid" "safe cli_contract nwy_test_cli_get_msisdn"
  "safe cli_contract nwy_test_cli_set_msisdn" "safe cli_contract nwy_test_cli_get_sim_slot" "safe cli_contract nwy_test_cli_set_sim_slot"
  by (simp_all add: nwy_test_cli_get_sim_status_def nwy_test_cli_verify_pin_def nwy_test_cli_get_pin_mode_def nwy_test_cli_set_pin_mode_def
      nwy_test_cli_change_pin_def nwy_test_cli_verify_puk_def nwy_test_cli_get_imsi_def nwy_test_cli_get_iccid_def nwy_test_cli_get_msisdn_def
      nwy_test_cli_set_msisdn_def nwy_test_cli_get_sim_slot_def nwy_test_cli_set_sim_slot_def dialog_rules less_imp_le)

lemma safe_handle:
  assumes "\<And>h. 1 \<le> h \<Longrightarrow> h \<le> 7 \<Longrightarrow> safe cli_contract (k h)"
  shows "safe cli_contract (ask_handle k)"
  using assms by (simp add: ask_handle_def safe_ask_int line_fits_array invalid_handle_def NWY_DATA_CALL_MAX_NUM_def)

lemma safe_profile_id:
  assumes "\<And>p. 1 \<le> p \<Longrightarrow> p \<le> 7 \<Longrightarrow> safe cli_contract (k p)"
  shows "safe cli_contract (ask_profile_id t k)"
  using assms by (simp add: ask_profile_id_def safe_ask_int line_fits_array)

lemma safe_profile_text:
  assumes "\<And>x. length x = m + 1 \<Longrightarrow> terminated x \<Longrightarrow> safe cli_contract (k x)" and "m < 2048"
  shows "safe cli_contract (ask_profile_text t m bad k)"
proof -
  have "terminated (take (m + 1) b)" if b: "terminated b" "length (c_str b) \<le> m" for b
  proof -
    obtain r where r: "b = c_str b @ 0 # r" using terminated_split [OF b(1)] ..
    have "take (m + 1) (c_str b @ 0 # r) = c_str b @ take (m + 1 - length (c_str b)) (0 # r)" using b(2) by simp
    moreover have "0 \<in> set (take (m + 1 - length (c_str b)) (0 # r))" using b(2) by (simp add: Suc_diff_le)
    ultimately show ?thesis using r by (metis Un_iff set_append terminated_def)
  qed
  then show ?thesis using assms by (auto simp: ask_profile_text_def safe_need line_fits_array buf_read_def)
qed

lemma safe_data:
  "safe cli_contract nwy_test_cli_data_create" "safe cli_contract nwy_test_cli_get_profile" "safe cli_contract nwy_test_cli_set_profile"
  "safe cli_contract nwy_test_cli_data_start" "safe cli_contract nwy_test_cli_data_info" "safe cli_contract nwy_test_cli_data_stop"
  "safe cli_contract nwy_test_cli_data_release"
proof -
  show "safe cli_contract nwy_test_cli_set_profile" unfolding nwy_test_cli_set_profile_def
    by (intro safe_profile_id safe_int) (auto intro!: safe_int safe_profile_text simp: call_unfold)
  show "safe cli_contract nwy_test_cli_data_start" unfolding nwy_test_cli_data_start_def
    by (intro safe_handle safe_profile_id safe_int) (auto intro!: safe_int simp: call_unfold start_data_call_def)
qed (auto intro!: safe_handle safe_profile_id simp: nwy_test_cli_data_create_def nwy_test_cli_get_profile_def nwy_test_cli_data_info_def
    nwy_test_cli_data_stop_def nwy_test_cli_data_release_def dialog_rules invalid_handle_def NWY_DATA_CALL_MAX_NUM_def)

lemma safe_fplmn: "i + n \<le> 64 \<Longrightarrow> safe K (fplmn_loop n i a d) = safe K d"
  by (induction n arbitrary: i) (simp_all add: NWY_NW_FPLMN_LIST_MAX_def)

lemma safe_freq:
  assumes "\<And>xs. length xs = 9 \<Longrightarrow> list_all (\<lambda>v. 0 \<le> v \<and> v \<le> 65535) xs \<Longrightarrow> safe cli_contract (k xs)"
  shows "i + n \<le> 9 \<Longrightarrow> length xs = 9 \<Longrightarrow> list_all (\<lambda>v. 0 \<le> v \<and> v \<le> 65535) xs \<Longrightarrow> safe cli_contract (freq_loop n i xs k)"
proof (induction n arbitrary: i xs)
  case 0
  then show ?case using assms by simp
next
  case (Suc n)
  have "list_all (\<lambda>v. 0 \<le> v \<and> v \<le> 65535) (xs[i := (if v < 65535 then to_u16 v else 65535)])" for v
    using Suc.prems by (auto simp: list_all_iff dest!: set_update_subset_insert [THEN subsetD])
  then show ?case using Suc by (simp add: safe_ask_int line_fits_array wr_def)
qed

lemma oper_type_cases: "nwy_network_util_get_oper_type p \<in> {0, 1, 2, 3}"
  by (simp add: nwy_network_util_get_oper_type_def split: option.split)

lemma plmn_str_fits:
  assumes "scan_item_ok it"
  shows "\<exists>b. c_strcat (replicate 10 0) (c_str (net_mcc it) @ c_str (net_mnc it)) = Some b \<and> arr_text b = Some (c_str (net_mcc it) @ c_str (net_mnc it))"
proof (rule cleared_cat_text)
  show "0 \<notin> set (c_str (net_mcc it) @ c_str (net_mnc it))" using c_str_no_zero by auto
  show "length (c_str (net_mcc it) @ c_str (net_mnc it)) < 10"
    using assms terminated_length [of "net_mcc it"] terminated_length [of "net_mnc it"] by (simp add: scan_item_ok_def)
qed

lemma safe_select_list:
  assumes "length items = 10" and "list_all scan_item_ok items" and "safe K d"
  shows "i + n \<le> 10 \<Longrightarrow> safe K (select_list n i ty items d)"
proof (induction n arbitrary: i)
  case 0
  then show ?case using assms(3) by simp
next
  case (Suc n)
  then have it: "scan_item_ok (items ! i)" using assms(1,2) by (simp add: list_all_length)
  from plmn_str_fits [OF it] show ?case using Suc it assms(1) by (auto simp: rd_def scan_item_ok_def)
qed

lemma run_select_list:
  assumes "length items = 10" and "list_all scan_item_ok items"
  shows "i + n \<le> 10 \<Longrightarrow> snd (run (select_list n i ty items d) s es) = snd (run d s es)"
proof (induction n arbitrary: i)
  case (Suc n)
  then have it: "scan_item_ok (items ! i)" using assms by (simp add: list_all_length)
  from plmn_str_fits [OF it] show ?case using Suc it assms(1) by (auto simp: rd_def scan_item_ok_def)
qed simp

lemma safe_select: "safe cli_contract nwy_network_test_nw_select"
proof -
  have k: "safe cli_contract (need (rd_at (net_list (nw_scan_list s)) v) (\<lambda>it. need (buf_read (net_mcc it) 0 4) (\<lambda>mcc. need (buf_read (net_mnc it) 0 4) (\<lambda>mnc.
      Call ''nwy_nw_manual_network_select'' [T mcc, T mnc, I (net_rat it)] (\<lambda>a. Print (f v) Done)))))"
    if "mobile_ok s" "0 \<le> v" "v < 10" for s :: net_vars and v f
  proof -
    have "scan_item_ok (net_list (nw_scan_list s) ! nat v)" using that by (simp add: vars_unfold list_all_length)
    then show ?thesis using that by (simp add: rd_at_def rd_def vars_unfold scan_item_ok_def buf_read_def call_unfold)
  qed
  show ?thesis unfolding nwy_network_test_nw_select_def select_prompt_def Let_def
    by (auto intro!: safe_select_list k simp: call_unfold safe_ask_int line_fits_array line_fits_rules) (auto simp: vars_unfold)
qed

lemma safe_scan_wait: "safe K d \<Longrightarrow> safe K (scan_wait n d)"
  by (induction n) simp_all

lemma safe_netmsg_wait: "safe K d \<Longrightarrow> safe K e \<Longrightarrow> safe K (netmsg_wait n d e)"
  by (induction n) simp_all

lemma safe_network:
  "safe cli_contract nwy_test_cli_nw_get_mode" "safe cli_contract nwy_test_cli_nw_set_mode" "safe cli_contract nwy_test_cli_nw_get_fplmn"
  "safe cli_contract nwy_test_cli_nw_manual_scan" "safe cli_contract nwy_test_cli_nw_band_lock" "safe cli_contract nwy_test_cli_nw_freq_lock"
  "safe cli_contract nwy_test_cli_nw_get_ims_st" "safe cli_contract nwy_test_cli_nw_set_ims_st" "safe cli_contract nwy_test_cli_nw_get_def_pdn"
  "safe cli_contract nwy_test_cli_nw_set_def_pdn" "safe cli_contract nwy_test_cli_nw_get_radio_st" "safe cli_contract nwy_test_cli_nw_set_radio_st"
  "safe cli_contract nwy_test_cli_nw_get_radio_sign" "safe cli_contract nwy_test_cli_nw_cs_st" "safe cli_contract nwy_test_cli_nw_ps_st"
  "safe cli_contract nwy_test_cli_nw_lte_st" "safe cli_contract nwy_test_cli_nw_operator_info" "safe cli_contract nwy_test_cli_nw_get_ehplmn"
  "safe cli_contract nwy_test_cli_nw_get_signal_rssi" "safe cli_contract nwy_test_cli_nw_get_netmsg"
proof -
  show "safe cli_contract nwy_test_cli_nw_get_fplmn"
    by (simp add: nwy_test_cli_nw_get_fplmn_def call_unfold reply_unfold safe_fplmn)
  show "safe cli_contract nwy_test_cli_nw_manual_scan" unfolding nwy_test_cli_nw_manual_scan_def
    by (auto intro!: safe_scan_wait simp: safe_select call_unfold vars_unfold)
  show "safe cli_contract nwy_test_cli_nw_freq_lock" unfolding nwy_test_cli_nw_freq_lock_def
    by (auto intro!: safe_int safe_freq simp: call_unfold list_all_iff)
  show "safe cli_contract nwy_test_cli_nw_get_netmsg" unfolding nwy_test_cli_nw_get_netmsg_def Let_def
    by (auto intro!: safe_netmsg_wait simp: call_unfold reply_unfold vars_unfold)
qed (simp_all add: nwy_test_cli_nw_get_mode_def nwy_test_cli_nw_set_mode_def nwy_test_cli_nw_band_lock_def nwy_test_cli_nw_get_ims_st_def
    nwy_test_cli_nw_set_ims_st_def set_ims_state_def nwy_test_cli_nw_get_def_pdn_def nwy_test_cli_nw_set_def_pdn_def nwy_test_cli_nw_get_radio_st_def
    nwy_test_cli_nw_set_radio_st_def nwy_test_cli_nw_get_radio_sign_def nwy_test_cli_nw_cs_st_def nwy_test_cli_nw_ps_st_def nwy_test_cli_nw_lte_st_def
    nwy_test_cli_nw_operator_info_def print_regs_def nwy_test_cli_nw_get_ehplmn_def nwy_test_cli_nw_get_signal_rssi_def dialog_rules less_imp_le Let_def)

lemma safe_repeat: "call_fits f as \<Longrightarrow> safe cli_contract (repeat_call n f as)"
  by (induction n) simp_all

lemma safe_dial: "safe cli_contract (dial g b)"
proof -
  have "length (c_str b) < 32 \<and> length (c_str b) \<le> 32" if "line_fits (prompt ''Please input dest phone number: '') b" for b
    using line_fits_rules(4) [OF that] by simp
  then show ?thesis by (simp add: dial_def dialog_rules)
qed

lemma HexStrToByte_loop_total:
  "2 * (k + n) \<le> length src \<Longrightarrow> k + n \<le> length dst \<Longrightarrow> \<exists>d. nwy_HexStrToByte_loop n k src dst = Some d \<and> length d = length dst"
proof (induction n arbitrary: k dst)
  case (Suc n)
  then show ?case using Suc.IH [of "Suc k" "dst[k := v]" for v] by (simp add: rd_def wr_def)
qed simp

lemma HexStrToByte_total:
  assumes "length b = 2048" and "terminated b"
  shows "\<exists>d. nwy_HexStrToByte b (length (c_str b)) (replicate 1024 0) = Some d \<and> length d = 1024"
  using HexStrToByte_loop_total [of 0 "(length (c_str b) + 1) div 2" b "replicate 1024 0"] terminated_length [OF assms(2)] assms(1)
  by (simp add: nwy_HexStrToByte_def)

lemma safe_voice_sms:
  "safe cli_contract nwy_test_cli_voice_call_start" "safe cli_contract nwy_test_cli_voice_call_end" "safe cli_contract nwy_test_cli_voice_auto_answ"
  "safe cli_contract nwy_test_cli_voice_volte_set" "safe cli_contract nwy_test_cli_voice_caller_id" "safe cli_contract nwy_test_cli_voice_call_hold"
  "safe cli_contract nwy_test_cli_voice_call_unhold" "safe cli_contract nwy_test_cli_sms_send" "safe cli_contract nwy_test_cli_sms_del"
  "safe cli_contract nwy_test_cli_sms_get_sca" "safe cli_contract nwy_test_cli_sms_set_sca" "safe cli_contract nwy_test_cli_sms_set_storage"
  "safe cli_contract nwy_test_cli_sms_get_storage" "safe cli_contract nwy_test_cli_sms_set_report_md" "safe cli_contract nwy_test_cli_sms_read"
  "safe cli_contract nwy_test_cli_sms_pdu_send" "safe cli_contract nwy_test_cli_ussd_send"
proof -
  have pdu: "safe cli_contract (need (nwy_HexStrToByte b (length (c_str b)) (replicate 1024 0)) (\<lambda>pbuf.
      Call ''nwy_sms_send_pdu_message'' [T pbuf, I (int (length (c_str b) div 2))] (\<lambda>a. verdict a g w)))"
    if "length b = 2048" "terminated b" for b g w
    using HexStrToByte_total [OF that] terminated_length [OF that(2)] that(1) by (auto simp: call_unfold)
  show "safe cli_contract nwy_test_cli_voice_call_end" "safe cli_contract nwy_test_cli_voice_auto_answ"
    unfolding nwy_test_cli_voice_call_end_def nwy_test_cli_voice_auto_answ_def by (auto intro!: safe_repeat simp: call_unfold)
  show "safe cli_contract nwy_test_cli_sms_pdu_send"
    unfolding nwy_test_cli_sms_pdu_send_def
    using pdu by (auto simp: line_fits_array)
qed (simp_all add: nwy_test_cli_voice_call_start_def nwy_test_cli_voice_volte_set_def nwy_test_cli_voice_caller_id_def nwy_test_cli_voice_call_hold_def
    nwy_test_cli_voice_call_unhold_def nwy_test_cli_sms_send_def nwy_test_cli_sms_del_def nwy_test_cli_sms_get_sca_def nwy_test_cli_sms_set_sca_def
    nwy_test_cli_sms_set_storage_def nwy_test_cli_sms_get_storage_def nwy_test_cli_sms_set_report_md_def nwy_test_cli_sms_read_def nwy_test_cli_ussd_send_def
    dialog_rules less_imp_le safe_dial os_input_safe echo_def)

end
