(* ===== verification/CliSafety.thy ===== *)
theory CliSafety
  imports CliContract
begin

text \<open>
  The driver, file, short-range, location and network functions of the test program keep the contract of \<open>CliContract\<close>.
\<close>

section \<open>The invariant under assignments\<close>

text \<open>Most variables do not occur in the invariant; for the others, what has to hold of the new value.\<close>

lemma cli_ok_free [simp]:
  "cli_ok (s\<lparr>uart_hd := v0\<rparr>) = cli_ok s" "cli_ok (s\<lparr>i2c_bus := v1\<rparr>) = cli_ok s" "cli_ok (s\<lparr>spi_bus := v2\<rparr>) = cli_ok s"
  "cli_ok (s\<lparr>test_p := v3\<rparr>) = cli_ok s" "cli_ok (s\<lparr>encode_type := v4\<rparr>) = cli_ok s" "cli_ok (s\<lparr>nwy_test_fs_fd := v5\<rparr>) = cli_ok s"
  "cli_ok (s\<lparr>nwy_test_fs_dir := v6\<rparr>) = cli_ok s" "cli_ok (s\<lparr>scan_sel := v7\<rparr>) = cli_ok s" "cli_ok (s\<lparr>scan_dev_flag := v8\<rparr>) = cli_ok s"
  "cli_ok (s\<lparr>s_nwy_cli_tcp_fd := v9\<rparr>) = cli_ok s" "cli_ok (s\<lparr>s_nwy_cli_udp_fd := v10\<rparr>) = cli_ok s" "cli_ok (s\<lparr>s_nwy_tcp_connect_flag := v11\<rparr>) = cli_ok s"
  "cli_ok (s\<lparr>s_nwy_udp_connect_flag := v12\<rparr>) = cli_ok s" "cli_ok (s\<lparr>s_nwy_tcp_recv_thread := v13\<rparr>) = cli_ok s" "cli_ok (s\<lparr>s_nwy_udp_recv_thread := v14\<rparr>) = cli_ok s"
  "cli_ok (s\<lparr>nwy_cli_update_flag := v15\<rparr>) = cli_ok s" "cli_ok (s\<lparr>s_nwy_ftp_recv := v16\<rparr>) = cli_ok s" "cli_ok (s\<lparr>s_nwy_ftp_current_thread := v17\<rparr>) = cli_ok s"
  "cli_ok (s\<lparr>ftp_is_vaild := v18\<rparr>) = cli_ok s" "cli_ok (s\<lparr>ftp_pos := v19\<rparr>) = cli_ok s" "cli_ok (s\<lparr>s_nwy_http_choice := v20\<rparr>) = cli_ok s"
  by (simp_all add: vars_unfold)

lemma cli_ok_bound:
  assumes "cli_ok s"
  shows "cli_ok (s\<lparr>display := l\<rparr>) = lcd_ok l" "cli_ok (s\<lparr>display_buffer := d\<rparr>) = (length d = 16384)" "cli_ok (s\<lparr>tts_buff := b\<rparr>) = array_ok 1024 b"
    "cli_ok (s\<lparr>nwy_test_file_name := b\<rparr>) = array_ok 65 b" "cli_ok (s\<lparr>nwy_test_dir_name := b\<rparr>) = array_ok 65 b"
    "cli_ok (s\<lparr>srv_num := n\<rparr>) = (n \<le> 10)" "cli_ok (s\<lparr>ftp_filename := b\<rparr>) = array_ok 256 b" "cli_ok (s\<lparr>capture_len := 0\<rparr>)"
    "cli_ok (s\<lparr>capture_len := 0, audio_buf := None\<rparr>)" "length ab = AUDIO_RECORDER_DATA_LEN \<Longrightarrow> cli_ok (s\<lparr>audio_buf := Some ab\<rparr>)"
  using assms by (simp_all add: vars_unfold)

lemma cli_ok_parts:
  assumes "cli_ok s"
  shows "lcd_ok (display s)" "fonts_ok (font_files s)" "length (display_buffer s) = 16384" "terminated (tts_buff s)" "terminated (sio_recv_copy s)"
    "terminated (nwy_test_file_name s)" "length (nwy_test_file_name s) = 65" "terminated (nwy_test_dir_name s)" "length (nwy_test_dir_name s) = 65"
    "srv_num s \<le> 10" "terminated (ftp_filename s)" "length (ftp_filename s) = 256"
  using assms by (simp_all add: vars_unfold)

lemma array_ok_zero [simp]: "0 < n \<Longrightarrow> array_ok n (replicate n 0)"
  by (simp add: array_ok_def terminated_def)

section \<open>Drivers\<close>

lemma safe_close_if_junk [simp]: "call_fits f [I 0] \<Longrightarrow> \<forall>v. call_fits f [I v] \<Longrightarrow> safe cli_contract (close_if_junk p f h)"
  by (simp add: close_if_junk_def)

lemma safe_get_para: "(\<And>h a. safe cli_contract (k h a)) \<Longrightarrow> safe cli_contract (get_para k)"
  by (simp add: get_para_def call_unfold)

lemma safe_set_para [simp]: "safe cli_contract e \<Longrightarrow> safe cli_contract (set_para h p d s f e)"
  by (simp add: set_para_def call_unfold)

lemma safe_direction [simp]: "safe cli_contract d \<Longrightarrow> safe cli_contract (nwy_rs485_direction_switch p v d)"
  by (simp add: nwy_rs485_direction_switch_def call_unfold)

lemma bus_name_Some: "1 \<le> port \<Longrightarrow> port \<le> int (length ns) \<Longrightarrow> bus_name ns port = Some (str (ns ! nat (port - 1)))"
  by (simp add: bus_name_def)

lemma three_cases: "1 \<le> v \<Longrightarrow> v \<le> 3 \<Longrightarrow> v = 1 \<or> v = 2 \<or> v = 3" for v :: int
  by auto

lemma safe_uart:
  "safe cli_contract nwy_test_cli_uart_init" "safe cli_contract nwy_test_cli_uart_set_baud" "safe cli_contract nwy_test_cli_uart_get_baud"
  "safe cli_contract nwy_test_cli_uart_set_para" "safe cli_contract nwy_test_cli_uart_get_para" "safe cli_contract nwy_test_cli_uart_set_tout"
  "safe cli_contract nwy_test_cli_uart_send" "safe cli_contract nwy_test_cli_uart_reg_rx_cb" "safe cli_contract nwy_test_cli_uart_reg_tx_cb"
  "safe cli_contract nwy_test_cli_uart_deinit"
proof -
  show "safe cli_contract nwy_test_cli_uart_init"
    using three_cases line_fits_rules(13)
    by (auto simp: nwy_test_cli_uart_init_def Let_def safe_ask_int line_fits_array call_unfold NWY_MAKE_TAG_def)
  show "safe cli_contract nwy_test_cli_uart_set_para"
    by (auto simp: nwy_test_cli_uart_set_para_def Let_def line_fits_array intro!: safe_get_para split: list.split)
qed (simp_all add: nwy_test_cli_uart_set_baud_def nwy_test_cli_uart_get_baud_def nwy_test_cli_uart_get_para_def safe_get_para nwy_test_cli_uart_set_tout_def
    nwy_test_cli_uart_send_def nwy_test_cli_uart_reg_rx_cb_def nwy_test_cli_uart_reg_tx_cb_def nwy_test_cli_uart_deinit_def dialog_rules)

lemma safe_buses:
  "safe cli_contract nwy_test_cli_i2c_init" "safe cli_contract nwy_test_cli_i2c_read" "safe cli_contract nwy_test_cli_i2c_write"
  "safe cli_contract nwy_test_cli_i2c_put_raw" "safe cli_contract nwy_test_cli_i2c_get_raw" "safe cli_contract nwy_test_cli_i2c_deinit"
  "safe cli_contract nwy_test_cli_spi_init" "safe cli_contract nwy_test_cli_spi_trans" "safe cli_contract nwy_test_cli_spi_deinit"
proof -
  have "bus_name [''I2C1'', ''I2C2'', ''I2C3''] v \<in> {Some (str ''I2C1''), Some (str ''I2C2''), Some (str ''I2C3'')}" if "1 \<le> v" "v \<le> 3" for v
    using three_cases [OF that] by (auto simp: bus_name_def)
  then show "safe cli_contract nwy_test_cli_i2c_init"
    using line_fits_rules(14) by (fastforce simp: nwy_test_cli_i2c_init_def Let_def safe_ask_int line_fits_array call_unfold print_name_def)
  show "safe cli_contract nwy_test_cli_spi_init"
    using line_fits_rules(15) by (auto simp: nwy_test_cli_spi_init_def safe_ask_int line_fits_array call_unfold bus_name_def print_name_def)
qed (simp_all add: nwy_test_cli_i2c_read_def nwy_test_cli_i2c_write_def nwy_test_cli_i2c_put_raw_def nwy_test_cli_i2c_get_raw_def nwy_test_cli_i2c_deinit_def
    nwy_test_cli_spi_trans_def nwy_test_cli_spi_deinit_def dialog_rules Let_def)

lemma safe_gpio [simp]: "(\<And>v. safe cli_contract (k v)) \<Longrightarrow> safe cli_contract (ask_gpio k)"
  by (simp add: ask_gpio_def safe_int)

lemma safe_pins:
  "safe cli_contract nwy_test_cli_gpio_set_val" "safe cli_contract nwy_test_cli_gpio_get_val" "safe cli_contract nwy_test_cli_gpio_set_dirt"
  "safe cli_contract nwy_test_cli_gpio_get_dirt" "safe cli_contract nwy_test_cli_gpio_config_irq" "safe cli_contract nwy_test_cli_gpio_enable_irq"
  "safe cli_contract nwy_test_cli_gpio_disable_irq" "safe cli_contract nwy_test_cli_gpio_close" "safe cli_contract nwy_test_cli_adc_read"
  by (simp_all add: nwy_test_cli_gpio_set_val_def nwy_test_cli_gpio_get_val_def nwy_test_cli_gpio_set_dirt_def nwy_test_cli_gpio_get_dirt_def
      nwy_test_cli_gpio_config_irq_def nwy_test_cli_gpio_enable_irq_def nwy_test_cli_gpio_disable_irq_def nwy_test_cli_gpio_close_def
      nwy_test_cli_adc_read_def safe_int call_unfold)

lemma safe_power:
  "safe cli_contract nwy_test_cli_pm_save_md" "safe cli_contract nwy_test_cli_pm_get_pwr_st" "safe cli_contract nwy_test_cli_pm_pwr_off"
  "safe cli_contract nwy_test_cli_pm_set_dtr" "safe cli_contract nwy_test_cli_pm_pwr_key" "safe cli_contract nwy_test_cli_pm_switch_sub_pwr"
  "safe cli_contract nwy_test_cli_pm_set_sub_pwr" "safe cli_contract nwy_test_cli_pm_set_auto_off" "safe cli_contract nwy_test_cli_pm_reg_charger_cb"
  "safe cli_contract nwy_test_cli_keypad_reg_cb" "safe cli_contract nwy_test_cli_keypad_set_debouce" "safe cli_contract nwy_test_cli_pwm_init"
  "safe cli_contract nwy_test_cli_pwm_start" "safe cli_contract nwy_test_cli_pwm_stop" "safe cli_contract nwy_test_cli_pwm_deinit"
  by (simp_all add: nwy_test_cli_pm_save_md_def nwy_test_cli_pm_get_pwr_st_def nwy_test_cli_pm_pwr_off_def nwy_test_cli_pm_set_dtr_def
      nwy_test_cli_pm_pwr_key_def nwy_test_cli_pm_switch_sub_pwr_def nwy_test_cli_pm_set_sub_pwr_def nwy_test_cli_pm_set_auto_off_def
      nwy_test_cli_pm_reg_charger_cb_def nwy_test_cli_keypad_reg_cb_def nwy_test_cli_keypad_set_debouce_def nwy_test_cli_pwm_init_def
      nwy_test_cli_pwm_start_def nwy_test_cli_pwm_stop_def nwy_test_cli_pwm_deinit_def pwm_call_def safe_int call_unfold Let_def)

section \<open>Display, speech and sound\<close>

lemma safe_on_lcd:
  assumes "\<And>f l. fonts_ok f \<Longrightarrow> lcd_ok l \<Longrightarrow> \<exists>l'. op f l = Some l' \<and> lcd_ok l'" and "safe cli_contract d"
  shows "safe cli_contract (on_lcd op d)"
proof -
  have "\<exists>l. op (font_files s) (display s) = Some l \<and> lcd_ok l" if "cli_ok s" for s
    using assms(1) cli_ok_parts(1,2) [OF that] by blast
  then show ?thesis using assms(2) by (fastforce simp: on_lcd_def safe_need cli_ok_bound)
qed

lemma emit_ok [simp]: "lcd_ok (emit_items is l) = lcd_ok l"
  by (simp add: emit_items_def lcd_ok_def)

lemma lcd_steps_ok [simp]: "lcd_ok (nwy_lcd_block_write a b c d l) = lcd_ok l" "lcd_ok (nwy_lcd_deinit l) = lcd_ok l"
  by (simp_all add: nwy_lcd_block_write_def nwy_lcd_deinit_def) (simp add: lcd_ok_def emit_items_def)

lemma safe_display:
  "safe cli_contract nwy_test_cli_lcd_open" "safe cli_contract nwy_test_cli_lcd_draw_line" "safe cli_contract nwy_test_cli_lcd_draw_chinese"
  "safe cli_contract nwy_test_cli_lcd_close" "safe cli_contract nwy_test_cli_lcd_open_bl" "safe cli_contract nwy_test_cli_lcd_close_bl"
  "safe cli_contract nwy_test_cli_lcd_set_bl_level"
proof -
  show "safe cli_contract nwy_test_cli_lcd_open"
    unfolding nwy_test_cli_lcd_open_def using nwy_lcd_init_clears by (intro safe_on_lcd) auto
  have w: "\<exists>l'. nwy_write_data_buf (words_le (take 128 b @ drop 128 b')) 256 l = Some l' \<and> lcd_ok l'" if "length b = 128" "lcd_ok l" for b b' l
    using words_le_take [of 128 "take 128 b @ drop 128 b'"] that by (simp add: nwy_write_data_buf_def)
  show "safe cli_contract nwy_test_cli_lcd_draw_line"
    unfolding nwy_test_cli_lcd_draw_line_def
  proof (intro safe_on_lcd)
    show "safe cli_contract (Get (\<lambda>s. need (buf_fill (display_buffer s) 0 OLIVE 128) (\<lambda>b. Put (\<lambda>s. s\<lparr>display_buffer := b\<rparr>)
         (on_lcd (\<lambda>f l. nwy_write_data_buf (words_le b) (128 * 2) l) (echo ''lcd draw line success!'' Done)))))"
      using w [of "replicate 128 OLIVE"]
      by (auto simp: safe_need buf_fill_def buf_write_def cli_ok_parts cli_ok_bound intro!: safe_on_lcd)
  qed auto
  show "safe cli_contract nwy_test_cli_lcd_draw_chinese"
    unfolding nwy_test_cli_lcd_draw_chinese_def
    using nwy_dispstrline_total [of 16 _ "nwy_lcd_block_write 16 19 112 34 l" "butlast chinese_string" 16 "[]" 19 BLACK MAGENTA for l]
    by (intro safe_on_lcd) (simp_all add: chinese_string_def)
  show "safe cli_contract nwy_test_cli_lcd_set_bl_level"
    by (simp add: nwy_test_cli_lcd_set_bl_level_def safe_int call_unfold)
qed (auto simp: nwy_test_cli_lcd_close_def nwy_test_cli_lcd_open_bl_def nwy_test_cli_lcd_close_bl_def back_light_def intro!: safe_on_lcd)

lemma safe_play_loop:
  assumes "safe cli_contract d"
  shows "48960 \<le> i + 320 * n \<Longrightarrow> 320 dvd i \<Longrightarrow> safe cli_contract (play_loop n i d)"
proof (induction n arbitrary: i)
  case 0
  then show ?case using assms by (auto simp: vars_unfold)
next
  case (Suc n)
  have "\<exists>ab x. audio_buf s = Some ab \<and> buf_read ab i 320 = Some x \<and> length x = 320" if "cli_ok s" "int i < capture_len s" for s
  proof -
    have "audio_ok s" "0 < capture_len s" using that by (simp_all add: cli_ok_def driver_ok_def)
    then obtain ab where "audio_buf s = Some ab" "length ab = 49152" "capture_len s \<le> 48960" by (auto simp: audio_ok_def AUDIO_RECORDER_DATA_LEN_def)
    moreover have "i + 320 \<le> 48960" if "i < 48960" using that Suc.prems(2) by presburger
    ultimately show ?thesis using that(2) by (auto simp: buf_read_def)
  qed
  then show ?case using Suc assms by (fastforce simp: safe_need call_unfold)
qed

lemma safe_sound:
  "safe cli_contract nwy_test_cli_sd_get_st" "safe cli_contract nwy_test_cli_sd_mnt" "safe cli_contract nwy_test_cli_sd_unmnt"
  "safe cli_contract nwy_test_cli_flash_open" "safe cli_contract nwy_test_cli_flash_erase" "safe cli_contract nwy_test_cli_flash_write"
  "safe cli_contract nwy_test_cli_flash_read" "safe cli_contract nwy_test_cli_tts_input" "safe cli_contract nwy_test_cli_tts_play_start"
  "safe cli_contract nwy_test_cli_tts_play_stop" "safe cli_contract nwy_test_cli_audio_play" "safe cli_contract nwy_test_cli_audio_rec"
  "safe cli_contract nwy_test_cli_audio_dtmf"
proof -
  have "array_ok 1024 (c_str b @ replicate (1024 - length (c_str b)) 0)" if "length (c_str b) < 1024" for b
    using that by (simp add: array_ok_def terminated_def)
  then show "safe cli_contract nwy_test_cli_tts_input"
    using line_fits_rules(16) by (simp add: nwy_test_cli_tts_input_def safe_int dialog_rules less_imp_le cli_ok_bound)
  show "safe cli_contract nwy_test_cli_tts_play_start" "safe cli_contract nwy_test_cli_audio_dtmf"
    using cli_ok_parts(4,5) by (simp_all add: nwy_test_cli_tts_play_start_def nwy_test_cli_audio_dtmf_def arr_text_def call_unfold)
  show "safe cli_contract nwy_test_cli_audio_play"
    unfolding nwy_test_cli_audio_play_def by (auto intro!: safe_play_loop simp: call_unfold cli_ok_bound)
qed (simp_all add: nwy_test_cli_sd_get_st_def nwy_test_cli_sd_mnt_def nwy_test_cli_sd_unmnt_def nwy_test_cli_flash_open_def nwy_test_cli_flash_erase_def
    nwy_test_cli_flash_write_def nwy_test_cli_flash_read_def nwy_test_cli_tts_play_stop_def nwy_test_cli_audio_rec_def
    dialog_rules cli_ok_bound reply_unfold)

section \<open>Files\<close>

lemma array_ok_strcpy:
  assumes "length b = n" and "length t < n"
  shows "\<exists>fn. c_strcpy b t = Some fn \<and> array_ok n fn"
  using assms by (auto simp: c_strcpy_def buf_write_def array_ok_def terminated_def)

lemma arr_text_bounded: "array_ok n b \<Longrightarrow> \<exists>t. arr_text b = Some t \<and> length t < n"
  using terminated_length [of b] by (auto simp: array_ok_def arr_text_def)

lemma safe_report [simp]: "safe K (report k n v x)"
  by (simp add: report_def)

lemma safe_with_file:
  assumes "\<And>s t. safe cli_contract (k s t)"
  shows "safe cli_contract (with_file k)"
  using assms cli_ok_parts(6) by (auto simp: with_file_def safe_need arr_text_def)

lemma safe_with_dir:
  assumes "\<And>s t. length t \<le> 64 \<Longrightarrow> safe cli_contract (k s t)"
  shows "safe cli_contract (with_dir k)"
proof -
  have "\<exists>t. arr_text (nwy_test_dir_name s) = Some t \<and> length t \<le> 64" if "cli_ok s" for s
    using arr_text_bounded [of 65 "nwy_test_dir_name s"] that by (auto simp: vars_unfold)
  then show ?thesis using assms by (fastforce simp: with_dir_def safe_need)
qed

lemma safe_ask_name:
  assumes "\<And>b. line_fits (prompt p) b \<Longrightarrow> length (c_str b) \<le> 64 \<Longrightarrow> safe cli_contract (k b (c_str b))"
  shows "safe cli_contract (ask_name p bad k)"
  using assms by (auto simp: ask_name_def safe_need arr_text_def line_fits_array)

lemmas safe_names = safe_ask_name safe_with_file safe_with_dir

lemma safe_read_loop: "(\<And>sz. safe cli_contract (k sz)) \<Longrightarrow> safe cli_contract (read_loop n sz k)"
  by (induction n arbitrary: sz) (auto simp: safe_need buf_read_def reply_unfold call_unfold)

lemma safe_file_call [simp]: "map_of call_rules f = None \<Longrightarrow> safe cli_contract (file_call f v)"
  by (auto simp: file_call_def intro!: safe_with_file)

lemma safe_set_name:
  assumes "length t \<le> 64" and "safe cli_contract d"
  shows "safe cli_contract (Get (\<lambda>s. need (c_strcpy (nwy_test_file_name s) t) (\<lambda>fn. Put (\<lambda>s. s\<lparr>nwy_test_file_name := fn\<rparr>) d)))"
    "safe cli_contract (Get (\<lambda>s. need (c_strcpy (nwy_test_dir_name s) t) (\<lambda>fn. Put (\<lambda>s. s\<lparr>nwy_test_dir_name := fn\<rparr>) d)))"
proof -
  have "\<exists>fn. c_strcpy (nwy_test_file_name s) t = Some fn \<and> array_ok 65 fn" "\<exists>fn. c_strcpy (nwy_test_dir_name s) t = Some fn \<and> array_ok 65 fn"
    if "cli_ok s" for s
    using assms(1) cli_ok_parts(7,9) [OF that] by (simp_all add: array_ok_strcpy)
  then show "safe cli_contract (Get (\<lambda>s. need (c_strcpy (nwy_test_file_name s) t) (\<lambda>fn. Put (\<lambda>s. s\<lparr>nwy_test_file_name := fn\<rparr>) d)))"
    "safe cli_contract (Get (\<lambda>s. need (c_strcpy (nwy_test_dir_name s) t) (\<lambda>fn. Put (\<lambda>s. s\<lparr>nwy_test_dir_name := fn\<rparr>) d)))"
    using assms(2) by (auto simp: safe_need cli_ok_bound)
qed

lemma safe_files:
  "safe cli_contract nwy_test_cli_fs_open" "safe cli_contract nwy_test_cli_fs_write" "safe cli_contract (nwy_test_cli_fs_read n)"
  "safe cli_contract nwy_test_cli_fs_fsize" "safe cli_contract nwy_test_cli_fs_seek" "safe cli_contract nwy_test_cli_fs_sync"
  "safe cli_contract nwy_test_cli_fs_fstate" "safe cli_contract nwy_test_cli_fs_trunc" "safe cli_contract nwy_test_cli_fs_close"
  "safe cli_contract nwy_test_cli_fs_remove" "safe cli_contract nwy_test_cli_fs_free_size"
proof -
  show "safe cli_contract nwy_test_cli_fs_open"
    by (auto simp: nwy_test_cli_fs_open_def ask_filename_def cli_ok_bound call_unfold intro!: safe_names safe_set_name)
  show "safe cli_contract nwy_test_cli_fs_write"
    by (auto simp: nwy_test_cli_fs_write_def safe_need arr_text_def line_fits_array call_unfold intro!: safe_names)
  show "safe cli_contract (nwy_test_cli_fs_read n)"
    by (auto simp: nwy_test_cli_fs_read_def intro!: safe_read_loop safe_names)
  show "safe cli_contract nwy_test_cli_fs_remove" "safe cli_contract nwy_test_cli_fs_free_size"
    by (simp_all add: nwy_test_cli_fs_remove_def nwy_test_cli_fs_free_size_def safe_need arr_text_def line_fits_array call_unfold)
qed (auto simp: nwy_test_cli_fs_fsize_def nwy_test_cli_fs_seek_def nwy_test_cli_fs_sync_def nwy_test_cli_fs_fstate_def nwy_test_cli_fs_trunc_def
    nwy_test_cli_fs_close_def call_unfold intro!: safe_names safe_int)

lemma strncpy_short:
  assumes "length (c_str b) < n"
  shows "\<exists>fn. c_strncpy (replicate n 0) 0 b n = Some fn \<and> terminated fn"
  using assms by (auto simp: c_strncpy_def buf_write_def terminated_def Let_def)

lemma safe_strncpy:
  assumes "length (c_str b) < n" and "\<And>fn. terminated fn \<Longrightarrow> safe K (k fn)"
  shows "safe K (need (c_strncpy (replicate n 0) 0 b n) k)"
  using strncpy_short [OF assms(1)] assms(2) by (auto simp: safe_need)

lemma safe_rename: "safe cli_contract nwy_test_cli_fs_rename"
proof -
  have l: "length (c_str b) < 64"
    if "line_fits (prompt ''Please input file old name: '') b \<or> line_fits (prompt ''Please input file new name: '') b" for b
    using that line_fits_rules(18,19) [of b] by auto
  show ?thesis unfolding nwy_test_cli_fs_rename_def
    by (auto simp: l arr_text_def call_unfold intro!: safe_strncpy)
qed

lemma safe_name_copy:
  assumes "line_fits (prompt ''Please input filename(len <= 64): '') b" and "length (c_str b) \<le> 64" and "\<And>t. safe cli_contract (k t)"
  shows "safe cli_contract (name_copy b k)"
  using strncpy_short [of b 64] line_fits_rules(17) [OF assms(1)] line_fits_array [OF assms(1)] assms(2,3)
  by (auto simp: name_copy_def safe_need arr_text_def)

lemma safe_safe_files:
  "safe cli_contract nwy_test_cli_safe_fs_init" "safe cli_contract nwy_test_cli_safe_fs_read" "safe cli_contract nwy_test_cli_safe_fs_write"
  "safe cli_contract nwy_test_cli_safe_fs_fszie"
proof -
  have "safe cli_contract (need (c_strncpy (replicate 64 0) 0 b 64) (\<lambda>fn. Ask p (\<lambda>b'. need (arr_text b') (\<lambda>t'.
      if 2000 < length t' then tell [str u] Done
      else need (arr_text fn) (\<lambda>fn. Call ''nwy_sdk_sfile_write'' [T fn, T t', I (int (length t'))] (\<lambda>a. report v fn (w a t') (ret a)))))))"
    if "line_fits (prompt ''Please input filename(len <= 64): '') b" "length (c_str b) \<le> 64" for b p u v w
    using strncpy_short [of b 64] line_fits_rules(17) [OF that(1)] that(2) by (auto simp: safe_need arr_text_def line_fits_array call_unfold)
  then show "safe cli_contract nwy_test_cli_safe_fs_write" unfolding nwy_test_cli_safe_fs_write_def ask_filename_def by (intro safe_ask_name) simp
qed (auto simp: nwy_test_cli_safe_fs_init_def nwy_test_cli_safe_fs_read_def nwy_test_cli_safe_fs_fszie_def ask_filename_def call_unfold Let_def
    safe_need buf_read_def reply_unfold intro!: safe_ask_name safe_name_copy)

section \<open>Directories\<close>

lemma dec_digits_length: "n < 10 ^ Suc k \<Longrightarrow> length (dec_digits n) \<le> Suc k"
proof (induction k arbitrary: n)
  case 0
  then show ?case by (simp add: dec_digits.simps)
next
  case (Suc k)
  then show ?case using Suc.IH [of "n div 10"] by (subst dec_digits.simps) (simp add: div_less_iff_less_mult mult.commute)
qed

lemma fmt_d_length:
  assumes "- int_max - 1 \<le> v" and "v \<le> int_max"
  shows "length (fmt_d v) \<le> 11"
proof -
  have "nat v < 10 ^ Suc 9" "nat (- v) < 10 ^ Suc 9" using assms by (simp_all add: int_max_def)
  from this [THEN dec_digits_length] show ?thesis by (simp add: fmt_d_def)
qed

lemma safe_rsp_text: "length (concat ts) < 276 \<Longrightarrow> (\<And>t. safe K (k t)) \<Longrightarrow> safe K (rsp_text ts k)"
  by (auto simp: rsp_text_def safe_need c_strcpy_def buf_write_def arr_text_def terminated_def)

lemma str_length [simp]: "length (str t) = length t"
  by (simp add: str_def)

lemma safe_dir_loop: "safe cli_contract (dir_loop n b)"
proof (induction n)
  case (Suc n)
  have e: "length (text_of a 0) \<le> 187" if "reply_fits ''nwy_sdk_vfs_readdir'' as a" for as a
    using that by (simp add: reply_unfold)
  have v: "length (fmt_d (num a 0)) \<le> 11" if "reply_fits ''nwy_sdk_get_stat_path'' as a" for as a
    using that by (intro fmt_d_length) (simp_all add: reply_unfold)
  show ?case using Suc
    by (simp add: Let_def call_unfold) (intro conjI allI impI safe_with_dir safe_rsp_text; auto simp: call_unfold dest!: e v intro!: safe_with_dir safe_rsp_text)
qed simp

lemma safe_dirs:
  "safe cli_contract nwy_test_cli_dir_open" "safe cli_contract (nwy_test_cli_dir_read n)" "safe cli_contract nwy_test_cli_dir_tell"
  "safe cli_contract nwy_test_cli_dir_seek" "safe cli_contract nwy_test_cli_dir_rewind" "safe cli_contract nwy_test_cli_dir_close"
  "safe cli_contract nwy_test_cli_dir_mk" "safe cli_contract nwy_test_cli_dir_remove"
proof -
  show "safe cli_contract nwy_test_cli_dir_open"
    by (auto simp: nwy_test_cli_dir_open_def ask_dirname_def cli_ok_bound call_unfold intro!: safe_names safe_set_name)
qed (auto simp: nwy_test_cli_dir_read_def safe_dir_loop nwy_test_cli_dir_tell_def nwy_test_cli_dir_seek_def nwy_test_cli_dir_rewind_def
    nwy_test_cli_dir_close_def nwy_test_cli_dir_mk_def nwy_test_cli_dir_remove_def ask_dirname_def call_unfold intro!: safe_names safe_int)

section \<open>Bluetooth, WiFi and location\<close>

lemma safe_need_text: "terminated b \<Longrightarrow> safe K (k (c_str b)) \<Longrightarrow> safe K (need (arr_text b) k)"
  by (simp add: arr_text_def)

lemma safe_need_strcpy: "length t < n \<Longrightarrow> (\<And>x. safe K (k x)) \<Longrightarrow> safe K (need (c_strcpy (replicate n 0) t) k)"
  using array_ok_strcpy [of "replicate n 0" n t] by (auto simp: safe_need)

lemma safe_tell_if [simp]: "safe K (tell_if b t d) = safe K d"
  by (simp add: tell_if_def)

lemma safe_ble_server:
  "safe cli_contract nwy_test_cli_ble_open" "safe cli_contract nwy_test_cli_ble_set_adv" "safe cli_contract nwy_test_cli_ble_send"
  "safe cli_contract nwy_test_cli_ble_recv" "safe cli_contract nwy_test_cli_ble_updata_connt" "safe cli_contract nwy_test_cli_ble_get_st"
  "safe cli_contract nwy_test_cli_ble_get_ver" "safe cli_contract nwy_test_cli_ble_set_dev_name" "safe cli_contract nwy_test_cli_ble_set_beacon"
  "safe cli_contract nwy_test_cli_ble_set_manufacture" "safe cli_contract nwy_test_cli_ble_set_adv_server_uuid" "safe cli_contract nwy_test_cli_ble_set_srv"
  "safe cli_contract nwy_test_cli_ble_set_char" "safe cli_contract nwy_test_cli_ble_conn_status_report" "safe cli_contract nwy_test_cli_ble_conn_status"
  "safe cli_contract nwy_test_cli_ble_mac_addr" "safe cli_contract nwy_test_cli_ble_add_server" "safe cli_contract nwy_test_cli_ble_add_char"
  "safe cli_contract nwy_test_cli_ble_add_recv_data" "safe cli_contract nwy_test_cli_ble_add_send_data" "safe cli_contract nwy_test_cli_ble_disconnect"
  "safe cli_contract nwy_test_cli_ble_read_req" "safe cli_contract nwy_test_cli_ble_close"
proof -
  have l: "length (c_str b) < 1024" "length (c_str b) < BLE_DATA_SIZE" if "line_fits (prompt '' send data:'') b" for b
    using line_fits_rules(20) [OF that] by (simp_all add: BLE_DATA_SIZE_def)
  show "safe cli_contract nwy_test_cli_ble_send" "safe cli_contract nwy_test_cli_ble_add_send_data"
    by (auto simp: nwy_test_cli_ble_send_def nwy_test_cli_ble_add_send_data_def l line_fits_array call_unfold intro!: safe_int safe_need_text safe_need_strcpy)
  show "safe cli_contract nwy_test_cli_ble_set_dev_name"
    by (auto simp: nwy_test_cli_ble_set_dev_name_def line_fits_array call_unfold intro!: safe_need_text)
qed (auto simp: nwy_test_cli_ble_open_def nwy_test_cli_ble_set_adv_def nwy_test_cli_ble_recv_def nwy_test_cli_ble_updata_connt_def nwy_test_cli_ble_get_st_def
    nwy_test_cli_ble_get_ver_def nwy_test_cli_ble_set_beacon_def nwy_test_cli_ble_set_manufacture_def nwy_test_cli_ble_set_adv_server_uuid_def
    nwy_test_cli_ble_set_srv_def nwy_test_cli_ble_set_char_def set_character_def nwy_test_cli_ble_conn_status_report_def nwy_test_cli_ble_conn_status_def
    nwy_test_cli_ble_mac_addr_def nwy_test_cli_ble_add_server_def add_service_def nwy_test_cli_ble_add_char_def add_character_def
    nwy_test_cli_ble_add_recv_data_def nwy_test_cli_ble_disconnect_def nwy_test_cli_ble_read_req_def nwy_test_cli_ble_close_def call_unfold intro!: safe_int)

lemma safe_scan_dialogs:
  "safe cli_contract d \<Longrightarrow> safe cli_contract (register_scan d)" "safe cli_contract (start_scan t)"
  by (simp_all add: register_scan_def start_scan_def call_unfold)

lemma safe_srv_loop: "i + n \<le> 20 \<Longrightarrow> safe K (srv_loop n i a)"
  by (induction n arbitrary: i) simp_all

lemma safe_char_loop: "j + n \<le> 10 \<Longrightarrow> safe K (char_loop n i j a d) = safe K d"
  by (induction n arbitrary: j) simp_all

lemma safe_char_info_loop: "i + n \<le> 10 \<Longrightarrow> \<forall>i < 10. to_u8 (num a i) \<le> 10 \<Longrightarrow> safe K (char_info_loop n i a)"
proof (induction n arbitrary: i)
  case (Suc n)
  then have "to_u8 (num a i) \<le> 10" by simp
  then show ?case using Suc by (subst char_info_loop.simps) (simp add: safe_char_loop nat_le_iff)
qed simp

lemma safe_ble_client:
  "safe cli_contract nwy_test_cli_ble_client_set_enable" "safe cli_contract nwy_test_cli_ble_client_scan" "safe cli_contract nwy_test_cli_ble_client_connect"
  "safe cli_contract nwy_test_cli_ble_client_disconnect" "safe cli_contract nwy_test_cli_ble_client_discover_srv"
  "safe cli_contract nwy_test_cli_ble_client_discover_char" "safe cli_contract nwy_test_cli_ble_client_send_data"
  "safe cli_contract nwy_test_cli_ble_client_recv_data"
proof -
  have l: "length (c_str b) < 18" if "line_fits (prompt '' mac addr:'') b" for b using line_fits_rules(21) [OF that] .
  show "safe cli_contract nwy_test_cli_ble_client_connect"
    by (auto simp: nwy_test_cli_ble_client_connect_def l line_fits_array call_unfold intro!: safe_int safe_need_text safe_need_strcpy)
  show "safe cli_contract nwy_test_cli_ble_client_send_data"
    by (auto simp: nwy_test_cli_ble_client_send_data_def line_fits_array call_unfold intro!: safe_int safe_need_text)
  show "safe cli_contract nwy_test_cli_ble_client_discover_srv"
    by (auto simp: nwy_test_cli_ble_client_discover_srv_def reply_unfold cli_ok_bound call_unfold intro!: safe_srv_loop)
  show "safe cli_contract nwy_test_cli_ble_client_discover_char"
    by (auto simp: nwy_test_cli_ble_client_discover_char_def reply_unfold call_unfold list_all_iff nat_le_iff dest!: cli_ok_parts(10) intro!: safe_char_info_loop)
qed (auto simp: nwy_test_cli_ble_client_set_enable_def nwy_test_cli_ble_client_scan_def nwy_test_cli_ble_client_disconnect_def
    nwy_test_cli_ble_client_recv_data_def call_unfold intro!: safe_int safe_scan_dialogs)

lemma safe_wifi_loop: "i + n \<le> 16 \<Longrightarrow> safe K (wifi_loop n i a d) = safe K d"
  by (induction n arbitrary: i) simp_all

lemma safe_wifi:
  "safe cli_contract nwy_cli_test_wifi_get_st" "safe cli_contract nwy_cli_test_wifi_enable" "safe cli_contract nwy_cli_test_wifi_set_work_md"
  "safe cli_contract nwy_cli_test_wifi_set_ap_para" "safe cli_contract nwy_cli_test_wifi_set_ap_para_adv" "safe cli_contract nwy_cli_test_wifi_get_clit_info"
  "safe cli_contract nwy_cli_test_wifi_sta_scan_ret" "safe cli_contract nwy_cli_test_wifi_sta_connt" "safe cli_contract nwy_cli_test_wifi_sta_disconnt"
  "safe cli_contract nwy_cli_test_wifi_sta_get_hostpot_info" "safe cli_contract nwy_cli_test_wifi_disable" "safe cli_contract nwy_cli_test_wifi_sta_scan"
  by (auto simp: nwy_cli_test_wifi_get_st_def nwy_cli_test_wifi_enable_def nwy_cli_test_wifi_set_work_md_def nwy_cli_test_wifi_set_ap_para_def
      nwy_cli_test_wifi_set_ap_para_adv_def nwy_cli_test_wifi_get_clit_info_def nwy_cli_test_wifi_sta_scan_ret_def nwy_cli_test_wifi_sta_connt_def
      nwy_cli_test_wifi_sta_disconnt_def nwy_cli_test_wifi_sta_get_hostpot_info_def nwy_cli_test_wifi_disable_def nwy_cli_test_wifi_sta_scan_def
      call_unfold reply_unfold safe_wifi_loop)

lemma safe_need_connection: "safe cli_contract d \<Longrightarrow> safe cli_contract (need_connection d)"
proof -
  assume d: "safe cli_contract d"
  have "\<exists>c. nwy_test_cli_check_data_connect s = Some c" if "cli_ok s" for s
    using that by (simp add: nwy_test_cli_check_data_connect_def check_connect_eq NWY_DATA_CALL_MAX_NUM_def cli_ok_def mobile_ok_def)
  then show ?thesis using d by (fastforce simp: need_connection_def safe_need call_unfold os_input_safe intro!: safe_followed_byI)
qed

lemma safe_location:
  "safe cli_contract nwy_test_cli_gnss_open" "safe cli_contract nwy_test_cli_gnss_set_position_md" "safe cli_contract nwy_test_cli_gnss_set_updata_rate"
  "safe cli_contract nwy_test_cli_gnss_set_output_fmt" "safe cli_contract nwy_test_cli_gnss_set_startup_fmt" "safe cli_contract nwy_test_cli_gnss_get_nmea"
  "safe cli_contract nwy_test_cli_gnss_dialing" "safe cli_contract nwy_test_cli_gnss_set_server" "safe cli_contract nwy_test_cli_gnss_open_base"
  "safe cli_contract nwy_test_cli_wifi_open_base" "safe cli_contract nwy_test_cli_gnss_open_assisted" "safe cli_contract nwy_test_cli_gnss_close"
  by (auto simp: nwy_test_cli_gnss_open_def nwy_test_cli_gnss_set_position_md_def nwy_test_cli_gnss_set_updata_rate_def nwy_test_cli_gnss_set_output_fmt_def
      nwy_test_cli_gnss_set_startup_fmt_def nwy_test_cli_gnss_get_nmea_def nwy_test_cli_gnss_dialing_def nwy_test_cli_gnss_set_server_def
      nwy_test_cli_gnss_open_base_def nwy_test_cli_wifi_open_base_def nwy_test_cli_gnss_open_assisted_def nwy_test_cli_gnss_close_def
      Let_def call_unfold intro!: safe_int safe_need_connection)

section \<open>Sockets\<close>

lemma digits_val_ge: "0 \<le> digits_val (takeWhile is_digit t)"
  by (rule digits_val_nonneg) (auto simp: list_all_iff dest: set_takeWhileD)

lemma scan_d_range: "scan_d_cli t = Some (v, r) \<Longrightarrow> - int_max - 1 \<le> v \<and> v \<le> int_max"
  using digits_val_ge [of "tl (dropWhile is_space t)"] digits_val_ge [of "dropWhile is_space t"]
  by (auto simp: scan_d_cli_def Let_def int_max_def split: if_splits)

lemma fmt_d_byte: "0 \<le> v \<Longrightarrow> v \<le> 255 \<Longrightarrow> length (fmt_d v) \<le> 3"
  using dec_digits_length [of "nat v" 2] by (simp add: fmt_d_def)

lemma hostname_check_total:
  assumes "array_ok n b" and "32 \<le> n"
  shows "\<exists>r. nwy_hostname_check_cli b = Some r \<and> (\<forall>h. r = Inr h \<longrightarrow> terminated h)"
proof -
  have rw: "\<exists>x h1 h2. c_strcpy (replicate 32 0) (dotted_cli a' b' c d) = Some x \<and> arr_text x = Some (c_str x) \<and> buf_fill b 0 0 4 = Some h1 \<and>
      c_strcpy h1 (c_str x) = Some h2 \<and> terminated h2"
    if "a' \<le> 255" "0 \<le> a'" "b' \<le> 255" "0 \<le> b'" "c \<le> 255" "0 \<le> c" "- int_max - 1 \<le> d" "d \<le> int_max" for a' b' c d
  proof -
    have "length (dotted_cli a' b' c d) < 32"
      using fmt_d_byte [of a'] fmt_d_byte [of b'] fmt_d_byte [of c] fmt_d_length [of d] that by (simp add: dotted_cli_def)
    then obtain x where x: "c_strcpy (replicate 32 0) (dotted_cli a' b' c d) = Some x" "array_ok 32 x"
      using array_ok_strcpy [of "replicate 32 0" 32] by auto
    obtain h1 where h1: "buf_fill b 0 0 4 = Some h1" "length h1 = n"
      using assms by (auto simp: buf_fill_def buf_write_def array_ok_def)
    have "length (c_str x) < n" using arr_text_bounded [OF x(2)] x(2) assms(2) by (auto simp: arr_text_def array_ok_def)
    from array_ok_strcpy [OF h1(2) this] x h1 show ?thesis by (auto simp: array_ok_def arr_text_def)
  qed
  have q: "- int_max - 1 \<le> d \<and> d \<le> int_max" if "scan_quad t = Some (a', b', c, d)" for t a' b' c d
    using that scan_d_range by (auto simp: scan_quad_def Option.bind_eq_Some_conv)
  have t: "arr_text b = Some (c_str b)" using assms(1) by (simp add: array_ok_def arr_text_def)
  show ?thesis
  proof (cases "scan_quad (c_str b)")
    case (Some r)
    obtain a' b' c d where r: "r = (a', b', c, d)" by (cases r) auto
    show ?thesis using Some r t rw [of a' b' c d] q [of "c_str b" a' b' c d] by (auto simp: nwy_hostname_check_cli_def)
  qed (simp add: nwy_hostname_check_cli_def t)
qed

lemma safe_destory [simp]:
  "safe cli_contract d \<Longrightarrow> safe cli_contract (destory_tcp d)" "safe cli_contract d \<Longrightarrow> safe cli_contract (destory_udp d)"
  by (simp_all add: destory_tcp_def destory_udp_def nwy_cli_socket_destory_def call_unfold)

lemma safe_tcp_connected: "(\<And>r. safe cli_contract (k r)) \<Longrightarrow> safe cli_contract (tcp_connected k)"
  by (simp add: tcp_connected_def call_unfold)

lemma safe_connect_loop: "(\<And>r. safe cli_contract (k r)) \<Longrightarrow> safe cli_contract (connect_loop n start addr k)"
  by (induction n) (simp_all add: Let_def call_unfold safe_tcp_connected)

lemma safe_set_up:
  assumes "\<And>r. safe cli_contract (k r)"
  shows "safe cli_contract (tcp_open n af addr k)" "safe cli_contract (udp_open af r k)"
  using assms by (simp_all add: tcp_open_def udp_open_def nwy_cli_tcp_connect_def safe_connect_loop Let_def call_unfold)

lemma safe_get_ip_str:
  assumes "length url < 129" and "\<And>e. safe cli_contract (k (Inl e))" and "\<And>ip v. array_ok 129 ip \<Longrightarrow> safe cli_contract (k (Inr (ip, v)))"
  shows "safe cli_contract (nwy_get_ip_str_cli url (replicate 129 0) k)"
proof -
  have "\<exists>ip. buf_write (replicate 129 0) 0 t = Some ip \<and> array_ok 129 ip" if "length t < 129" for t
    using that by (auto simp: buf_write_def array_ok_def terminated_def)
  then have w: "safe cli_contract (need (buf_write (replicate 129 0) 0 t) d)" if "length t < 129" "\<And>ip. array_ok 129 ip \<Longrightarrow> safe cli_contract (d ip)" for t d
    using that by (metis safe_need)
  have x: "safe cli_contract (need (arr_text ip) d)" if "array_ok 129 ip" "\<And>t. safe cli_contract (d t)" for ip d
    using that by (auto simp: array_ok_def arr_text_def)
  show ?thesis unfolding nwy_get_ip_str_cli_def Let_def
    using assms by (auto simp: call_unfold reply_unfold intro!: w x)
qed

lemma safe_setup_pro:
  assumes "length url < 129" and "\<And>r. safe cli_contract (k r)"
  shows "safe cli_contract (nwy_cli_socket_setup_pro n url port ty k)"
proof -
  have ip4: "safe cli_contract (need (nwy_hostname_check_cli ip) (\<lambda>h. case h of Inl e \<Rightarrow> tell [str m] (k (-2))
      | Inr ip \<Rightarrow> need (arr_text ip) (\<lambda>x. Call ''ip4addr_aton'' [T x] (\<lambda>a. if ret a = 0 then echo m' (k (-2)) else g x))))"
    if "array_ok 129 ip" "\<And>x. safe cli_contract (g x)" for ip m m' g
    using hostname_check_total [OF that(1)] that(2) assms(2) by (auto simp: safe_need arr_text_def call_unfold split: sum.split)
  have ip6: "safe cli_contract (need (arr_text ip) (\<lambda>x. Call ''ip6addr_aton'' [T x] (\<lambda>a. if ret a = 0 then tell [str m] (k (-2)) else g x)))"
    if "array_ok 129 ip" "\<And>x. safe cli_contract (g x)" for ip m g
    using that assms(2) by (auto simp: array_ok_def arr_text_def call_unfold)
  show ?thesis using assms unfolding nwy_cli_socket_setup_pro_def Let_def
    by (auto intro!: safe_get_ip_str ip4 ip6 safe_set_up)
qed

lemma safe_ask_address:
  assumes "\<And>u p. length u < 129 \<Longrightarrow> safe cli_contract (k u p)"
  shows "safe cli_contract (ask_address k)"
  using line_fits_rules(22) assms
  by (auto simp: ask_address_def line_copy_eq line_fits_array less_imp_le line_array_text arr_text_def [of "line x" for x] intro!: safe_need_text split: sum.split)

lemma safe_send: "(\<And>t. length t \<le> 512 \<Longrightarrow> safe cli_contract (k t)) \<Longrightarrow> safe cli_contract (ask_send k)"
  by (auto simp: ask_send_def line_fits_array intro!: safe_need_text)

lemma safe_sockets:
  "safe cli_contract (nwy_test_cli_tcp_setup n)" "safe cli_contract nwy_test_cli_tcp_send" "safe cli_contract nwy_test_cli_tcp_close"
  "safe cli_contract nwy_test_cli_udp_setup" "safe cli_contract nwy_test_cli_udp_send" "safe cli_contract nwy_test_cli_udp_close"
  by (auto simp: nwy_test_cli_tcp_setup_def nwy_test_cli_tcp_send_def nwy_test_cli_tcp_close_def nwy_test_cli_udp_setup_def nwy_test_cli_udp_send_def
      nwy_test_cli_udp_close_def sent_report_def call_unfold intro!: safe_ask_address safe_setup_pro safe_send)

section \<open>FTP and HTTP\<close>

lemma safe_ask_digits: "(\<And>v. safe cli_contract (k v)) \<Longrightarrow> safe cli_contract (ask_digits p k)"
  by (auto simp: ask_digits_def line_fits_array intro!: safe_need_text)

lemma safe_ask_text:
  assumes "\<And>b. line_fits (prompt p) b \<Longrightarrow> length (c_str b) < n" and "\<And>t. length t < n \<Longrightarrow> safe cli_contract (k t)"
  shows "safe cli_contract (ask_text n p k)"
  using assms by (auto simp: ask_text_def line_fits_array intro!: safe_need_text safe_need_strcpy)

lemma safe_ask_type: "(\<And>t. t = 1 \<or> t = 2 \<Longrightarrow> safe cli_contract (k t)) \<Longrightarrow> safe cli_contract (ask_type k)"
proof -
  assume k: "\<And>t. t = 1 \<or> t = 2 \<Longrightarrow> safe cli_contract (k t)"
  have "safe cli_contract (k v)" if "\<not> v < 1" "\<not> 2 < v" for v using that by (intro k) linarith
  then show ?thesis by (auto simp: ask_type_def intro!: safe_ask_digits)
qed

lemma safe_tell_result [simp]: "safe K (tell_result a f)" "safe K (tell_choice a f)"
  by (simp_all add: tell_result_def tell_choice_def)

lemma ftp_rules:
  "line_fits (prompt '' input ip:'') b \<Longrightarrow> length (c_str b) < 256" "line_fits (prompt '' input username:'') b \<Longrightarrow> length (c_str b) < 256"
  "line_fits (prompt '' input passwd:'') b \<Longrightarrow> length (c_str b) < 256" "line_fits (prompt '' input filename:'') b \<Longrightarrow> length (c_str b) < 128"
  "line_fits (prompt '' input url:'') b \<Longrightarrow> length (c_str b) < 512" "line_fits (prompt '' input cacert name:'') b \<Longrightarrow> length (c_str b) < 51"
  "line_fits (prompt '' input cacert name:'') b \<Longrightarrow> length (c_str b) < 128"
  "line_fits (prompt '' input clientcert name:'') b \<Longrightarrow> length (c_str b) < 51" "line_fits (prompt '' input clientkey name:'') b \<Longrightarrow> length (c_str b) < 51"
  "line_fits (prompt '' input file name:'') b \<Longrightarrow> length (c_str b) < 128" "line_fits (prompt '' input filename'') b \<Longrightarrow> length (c_str b) < 124"
  using line_fits_rules(23-32) [of b] by simp_all

lemma safe_ftp:
  "safe cli_contract nwy_test_cli_ftp_login" "safe cli_contract nwy_test_cli_ftp_get" "safe cli_contract nwy_test_cli_ftp_fsize"
  "safe cli_contract nwy_test_cli_ftp_list" "safe cli_contract nwy_test_cli_ftp_delet" "safe cli_contract nwy_test_cli_ftp_logout"
proof -
  show "safe cli_contract nwy_test_cli_ftp_login"
    by (auto simp: nwy_test_cli_ftp_login_def Let_def call_unfold to_u16_def intro!: safe_ask_digits safe_ask_text simp: ftp_rules)
  have "\<exists>fn. c_strcpy (ftp_filename s) f = Some fn \<and> array_ok 256 fn" if "cli_ok s" "length f < 128" for s f
    using array_ok_strcpy [of "ftp_filename s" 256 f] cli_ok_parts(12) [OF that(1)] that(2) by simp
  then have f: "safe cli_contract (need (c_strcpy (ftp_filename s) f) (\<lambda>fn. Put (\<lambda>s. s\<lparr>ftp_filename := fn\<rparr>) d))"
    if "cli_ok s" "length f < 128" "safe cli_contract d" for s f d
    using that by (fastforce simp: safe_need cli_ok_bound)
  show "safe cli_contract nwy_test_cli_ftp_get"
    by (auto simp: nwy_test_cli_ftp_get_def call_unfold intro!: f safe_ask_type safe_ask_text simp: ftp_rules)
  have "\<exists>fn. c_strcat (str ''/nwy/'' @ replicate 124 0) t = Some fn \<and> terminated fn" if "length t < 124" for t
  proof -
    have "c_str (str ''/nwy/'' @ replicate 124 0) = str ''/nwy/''" by (rule trans [OF _ c_str_append_zero [of _ "replicate 123 0"]]) (simp_all add: str_def flip: replicate_Suc)
    then show ?thesis using c_strcat_Some [of "str ''/nwy/'' @ replicate 124 0" t] that by (simp add: terminated_def)
  qed
  then show "safe cli_contract nwy_test_cli_ftp_delet"
    using ftp_rules(11) by (auto simp: nwy_test_cli_ftp_delet_def line_fits_array call_unfold safe_need arr_text_def)
qed (auto simp: nwy_test_cli_ftp_fsize_def nwy_test_cli_ftp_list_def nwy_test_cli_ftp_logout_def call_unfold intro!: safe_ask_text simp: ftp_rules)

lemma safe_https_choice: "safe cli_contract d \<Longrightarrow> safe cli_contract (nwy_cli_https_choice d)"
  by (simp add: nwy_cli_https_choice_def safe_int)

lemma safe_http:
  "safe cli_contract nwy_test_cli_http_setup" "safe cli_contract nwy_test_cli_http_get" "safe cli_contract nwy_test_cli_http_head"
  "safe cli_contract nwy_test_cli_http_post" "safe cli_contract nwy_test_cli_http_close" "safe cli_contract nwy_test_cli_https_check_cert"
  "safe cli_contract nwy_test_cli_https_delet_cert" "safe cli_contract nwy_test_cli_http_compute_md5"
proof -
  have s: "safe cli_contract (https_setup c u p v m x y z)" for c u p v m x y z
    by (simp add: https_setup_def call_unfold)
  show "safe cli_contract nwy_test_cli_http_setup"
    by (auto simp: nwy_test_cli_http_setup_def Let_def line_fits_array call_unfold
        intro!: s safe_int safe_need_text safe_https_choice safe_ask_text simp: ftp_rules)
  show "safe cli_contract nwy_test_cli_http_post"
    by (auto simp: nwy_test_cli_http_post_def line_fits_array call_unfold intro!: safe_int safe_need_text)
qed (auto simp: nwy_test_cli_http_get_def nwy_test_cli_http_head_def nwy_test_cli_http_close_def nwy_test_cli_https_check_cert_def
    nwy_test_cli_https_delet_cert_def nwy_test_cli_http_compute_md5_def call_unfold intro!: safe_int safe_https_choice safe_ask_text simp: ftp_rules)

end
