(* ===== verification/CliProgram.thy ===== *)
theory CliProgram
  imports CliMenu CliInput CliSafety
begin

text \<open>
  The test program as a whole: the main loop of src/nwy_test_cli/comm/nwy_test_cli_adpt.c with the functions behind the entries
  of the menus. Those for which a contract of single lines and answers cannot suffice, and those that are not modelled, are an
  argument. Under the contract of \<open>CliContract\<close> every session stays inside its arrays.
\<close>

section \<open>The program\<close>

text \<open>The functions by the names in the tables of the menus; \<open>n\<close> bounds the rounds of the loops that only the module ends. The
  functions of a table keep the contract, and the table is made of the entries of the menus; \<open>modelled xs\<close> leaves out \<open>xs\<close>.\<close>

definition modelled :: "string list \<Rightarrow> menu_item list list \<Rightarrow> string list" where
  "modelled xs ms = filter (\<lambda>f. f \<notin> set xs) (concat (map (List.map_filter func) ms))"

lemmas menu_simps = modelled_def List.map_filter_simps

definition mobile_functions :: "(string \<times> net_vars dialog) list" where
  "mobile_functions =
    [(''nwy_test_cli_get_sim_status'', nwy_test_cli_get_sim_status), (''nwy_test_cli_verify_pin'', nwy_test_cli_verify_pin),
     (''nwy_test_cli_get_pin_mode'', nwy_test_cli_get_pin_mode), (''nwy_test_cli_set_pin_mode'', nwy_test_cli_set_pin_mode),
     (''nwy_test_cli_change_pin'', nwy_test_cli_change_pin), (''nwy_test_cli_verify_puk'', nwy_test_cli_verify_puk),
     (''nwy_test_cli_get_imsi'', nwy_test_cli_get_imsi), (''nwy_test_cli_get_iccid'', nwy_test_cli_get_iccid),
     (''nwy_test_cli_get_msisdn'', nwy_test_cli_get_msisdn), (''nwy_test_cli_set_msisdn'', nwy_test_cli_set_msisdn),
     (''nwy_test_cli_get_sim_slot'', nwy_test_cli_get_sim_slot), (''nwy_test_cli_set_sim_slot'', nwy_test_cli_set_sim_slot),
     (''nwy_test_cli_data_create'', nwy_test_cli_data_create), (''nwy_test_cli_get_profile'', nwy_test_cli_get_profile),
     (''nwy_test_cli_set_profile'', nwy_test_cli_set_profile), (''nwy_test_cli_data_start'', nwy_test_cli_data_start),
     (''nwy_test_cli_data_info'', nwy_test_cli_data_info), (''nwy_test_cli_data_stop'', nwy_test_cli_data_stop),
     (''nwy_test_cli_data_release'', nwy_test_cli_data_release), (''nwy_test_cli_nw_get_mode'', nwy_test_cli_nw_get_mode),
     (''nwy_test_cli_nw_set_mode'', nwy_test_cli_nw_set_mode), (''nwy_test_cli_nw_get_fplmn'', nwy_test_cli_nw_get_fplmn),
     (''nwy_test_cli_nw_manual_scan'', nwy_test_cli_nw_manual_scan), (''nwy_test_cli_nw_band_lock'', nwy_test_cli_nw_band_lock),
     (''nwy_test_cli_nw_freq_lock'', nwy_test_cli_nw_freq_lock), (''nwy_test_cli_nw_get_ims_st'', nwy_test_cli_nw_get_ims_st),
     (''nwy_test_cli_nw_set_ims_st'', nwy_test_cli_nw_set_ims_st), (''nwy_test_cli_nw_get_def_pdn'', nwy_test_cli_nw_get_def_pdn),
     (''nwy_test_cli_nw_set_def_pdn'', nwy_test_cli_nw_set_def_pdn), (''nwy_test_cli_nw_get_radio_st'', nwy_test_cli_nw_get_radio_st),
     (''nwy_test_cli_nw_set_radio_st'', nwy_test_cli_nw_set_radio_st), (''nwy_test_cli_nw_get_radio_sign'', nwy_test_cli_nw_get_radio_sign),
     (''nwy_test_cli_nw_cs_st'', nwy_test_cli_nw_cs_st), (''nwy_test_cli_nw_ps_st'', nwy_test_cli_nw_ps_st),
     (''nwy_test_cli_nw_lte_st'', nwy_test_cli_nw_lte_st), (''nwy_test_cli_nw_operator_info'', nwy_test_cli_nw_operator_info),
     (''nwy_test_cli_nw_get_ehplmn'', nwy_test_cli_nw_get_ehplmn), (''nwy_test_cli_nw_get_signal_rssi'', nwy_test_cli_nw_get_signal_rssi),
     (''nwy_test_cli_nw_get_netmsg'', nwy_test_cli_nw_get_netmsg), (''nwy_test_cli_voice_call_start'', nwy_test_cli_voice_call_start),
     (''nwy_test_cli_voice_call_end'', nwy_test_cli_voice_call_end), (''nwy_test_cli_voice_auto_answ'', nwy_test_cli_voice_auto_answ),
     (''nwy_test_cli_voice_volte_set'', nwy_test_cli_voice_volte_set), (''nwy_test_cli_voice_caller_id'', nwy_test_cli_voice_caller_id),
     (''nwy_test_cli_voice_call_hold'', nwy_test_cli_voice_call_hold), (''nwy_test_cli_voice_call_unhold'', nwy_test_cli_voice_call_unhold),
     (''nwy_test_cli_sms_send'', nwy_test_cli_sms_send), (''nwy_test_cli_sms_del'', nwy_test_cli_sms_del),
     (''nwy_test_cli_sms_get_sca'', nwy_test_cli_sms_get_sca), (''nwy_test_cli_sms_set_sca'', nwy_test_cli_sms_set_sca),
     (''nwy_test_cli_sms_set_storage'', nwy_test_cli_sms_set_storage), (''nwy_test_cli_sms_get_storage'', nwy_test_cli_sms_get_storage),
     (''nwy_test_cli_sms_set_report_md'', nwy_test_cli_sms_set_report_md), (''nwy_test_cli_sms_read'', nwy_test_cli_sms_read),
     (''nwy_test_cli_sms_pdu_send'', nwy_test_cli_sms_pdu_send), (''nwy_test_cli_ussd_send'', nwy_test_cli_ussd_send)]"

lemma mobile_functions_safe: "list_all (\<lambda>(f, d). safe cli_contract d) mobile_functions"
  unfolding mobile_functions_def
  by (simp only: list.pred_inject prod.case safe_sim safe_data safe_network safe_voice_sms simp_thms)

lemma mobile_functions_complete:
  "modelled [] [sim_menu_arry, data_menu_arry, nw_menu_arry, voice_menu_arry, sms_menu_arry] = map fst mobile_functions"
  by (simp add: menu_simps mobile_functions_def
      sim_menu_arry_def data_menu_arry_def nw_menu_arry_def voice_menu_arry_def sms_menu_arry_def)

definition driver_functions :: "(string \<times> net_vars dialog) list" where
  "driver_functions =
    [(''nwy_test_cli_uart_init'', nwy_test_cli_uart_init), (''nwy_test_cli_uart_set_baud'', nwy_test_cli_uart_set_baud),
     (''nwy_test_cli_uart_get_baud'', nwy_test_cli_uart_get_baud), (''nwy_test_cli_uart_set_para'', nwy_test_cli_uart_set_para),
     (''nwy_test_cli_uart_get_para'', nwy_test_cli_uart_get_para), (''nwy_test_cli_uart_set_tout'', nwy_test_cli_uart_set_tout),
     (''nwy_test_cli_uart_send'', nwy_test_cli_uart_send), (''nwy_test_cli_uart_reg_rx_cb'', nwy_test_cli_uart_reg_rx_cb),
     (''nwy_test_cli_uart_reg_tx_cb'', nwy_test_cli_uart_reg_tx_cb), (''nwy_test_cli_uart_deinit'', nwy_test_cli_uart_deinit),
     (''nwy_test_cli_i2c_init'', nwy_test_cli_i2c_init), (''nwy_test_cli_i2c_read'', nwy_test_cli_i2c_read),
     (''nwy_test_cli_i2c_write'', nwy_test_cli_i2c_write), (''nwy_test_cli_i2c_put_raw'', nwy_test_cli_i2c_put_raw),
     (''nwy_test_cli_i2c_get_raw'', nwy_test_cli_i2c_get_raw), (''nwy_test_cli_i2c_deinit'', nwy_test_cli_i2c_deinit),
     (''nwy_test_cli_spi_init'', nwy_test_cli_spi_init), (''nwy_test_cli_spi_trans'', nwy_test_cli_spi_trans),
     (''nwy_test_cli_spi_deinit'', nwy_test_cli_spi_deinit), (''nwy_test_cli_gpio_set_val'', nwy_test_cli_gpio_set_val),
     (''nwy_test_cli_gpio_get_val'', nwy_test_cli_gpio_get_val), (''nwy_test_cli_gpio_set_dirt'', nwy_test_cli_gpio_set_dirt),
     (''nwy_test_cli_gpio_get_dirt'', nwy_test_cli_gpio_get_dirt), (''nwy_test_cli_gpio_config_irq'', nwy_test_cli_gpio_config_irq),
     (''nwy_test_cli_gpio_enable_irq'', nwy_test_cli_gpio_enable_irq), (''nwy_test_cli_gpio_disable_irq'', nwy_test_cli_gpio_disable_irq),
     (''nwy_test_cli_gpio_close'', nwy_test_cli_gpio_close), (''nwy_test_cli_pm_save_md'', nwy_test_cli_pm_save_md),
     (''nwy_test_cli_pm_get_pwr_st'', nwy_test_cli_pm_get_pwr_st), (''nwy_test_cli_pm_pwr_off'', nwy_test_cli_pm_pwr_off),
     (''nwy_test_cli_pm_set_dtr'', nwy_test_cli_pm_set_dtr), (''nwy_test_cli_pm_pwr_key'', nwy_test_cli_pm_pwr_key),
     (''nwy_test_cli_pm_switch_sub_pwr'', nwy_test_cli_pm_switch_sub_pwr), (''nwy_test_cli_pm_set_sub_pwr'', nwy_test_cli_pm_set_sub_pwr),
     (''nwy_test_cli_pm_set_auto_off'', nwy_test_cli_pm_set_auto_off), (''nwy_test_cli_pm_reg_charger_cb'', nwy_test_cli_pm_reg_charger_cb),
     (''nwy_test_cli_keypad_reg_cb'', nwy_test_cli_keypad_reg_cb), (''nwy_test_cli_keypad_set_debouce'', nwy_test_cli_keypad_set_debouce),
     (''nwy_test_cli_pwm_init'', nwy_test_cli_pwm_init), (''nwy_test_cli_pwm_start'', nwy_test_cli_pwm_start),
     (''nwy_test_cli_pwm_stop'', nwy_test_cli_pwm_stop), (''nwy_test_cli_pwm_deinit'', nwy_test_cli_pwm_deinit),
     (''nwy_test_cli_adc_read'', nwy_test_cli_adc_read), (''nwy_test_cli_lcd_open'', nwy_test_cli_lcd_open),
     (''nwy_test_cli_lcd_draw_line'', nwy_test_cli_lcd_draw_line), (''nwy_test_cli_lcd_draw_chinese'', nwy_test_cli_lcd_draw_chinese),
     (''nwy_test_cli_lcd_close'', nwy_test_cli_lcd_close), (''nwy_test_cli_lcd_open_bl'', nwy_test_cli_lcd_open_bl),
     (''nwy_test_cli_lcd_close_bl'', nwy_test_cli_lcd_close_bl), (''nwy_test_cli_lcd_set_bl_level'', nwy_test_cli_lcd_set_bl_level),
     (''nwy_test_cli_sd_get_st'', nwy_test_cli_sd_get_st), (''nwy_test_cli_sd_mnt'', nwy_test_cli_sd_mnt),
     (''nwy_test_cli_sd_unmnt'', nwy_test_cli_sd_unmnt), (''nwy_test_cli_flash_open'', nwy_test_cli_flash_open),
     (''nwy_test_cli_flash_erase'', nwy_test_cli_flash_erase), (''nwy_test_cli_flash_write'', nwy_test_cli_flash_write),
     (''nwy_test_cli_flash_read'', nwy_test_cli_flash_read), (''nwy_test_cli_tts_input'', nwy_test_cli_tts_input),
     (''nwy_test_cli_tts_play_start'', nwy_test_cli_tts_play_start), (''nwy_test_cli_tts_play_stop'', nwy_test_cli_tts_play_stop),
     (''nwy_test_cli_audio_play'', nwy_test_cli_audio_play), (''nwy_test_cli_audio_rec'', nwy_test_cli_audio_rec),
     (''nwy_test_cli_audio_dtmf'', nwy_test_cli_audio_dtmf)]"

lemma driver_functions_safe: "list_all (\<lambda>(f, d). safe cli_contract d) driver_functions"
  unfolding driver_functions_def
  by (simp only: list.pred_inject prod.case safe_uart safe_buses safe_pins safe_power safe_display safe_sound simp_thms)

lemma driver_functions_complete:
  "modelled [] [uart_menu_arry, i2c_menu_arry, spi_menu_arry, gpio_menu_arry, pm_menu_arry, keypad_menu_arry, pwm_menu_arry, peripherals_menu_arry, lcd_menu_arry, sd_menu_arry, flash_menu_arry, tts_menu_arry, audio_menu_arry] = map fst driver_functions"
  by (simp add: menu_simps driver_functions_def
      uart_menu_arry_def i2c_menu_arry_def spi_menu_arry_def gpio_menu_arry_def pm_menu_arry_def keypad_menu_arry_def pwm_menu_arry_def peripherals_menu_arry_def lcd_menu_arry_def sd_menu_arry_def flash_menu_arry_def tts_menu_arry_def audio_menu_arry_def)

definition file_functions :: "nat \<Rightarrow> (string \<times> net_vars dialog) list" where
  "file_functions n =
    [(''nwy_test_cli_fs_open'', nwy_test_cli_fs_open), (''nwy_test_cli_fs_write'', nwy_test_cli_fs_write),
     (''nwy_test_cli_fs_read'', nwy_test_cli_fs_read n), (''nwy_test_cli_fs_fsize'', nwy_test_cli_fs_fsize),
     (''nwy_test_cli_fs_seek'', nwy_test_cli_fs_seek), (''nwy_test_cli_fs_sync'', nwy_test_cli_fs_sync),
     (''nwy_test_cli_fs_fstate'', nwy_test_cli_fs_fstate), (''nwy_test_cli_fs_trunc'', nwy_test_cli_fs_trunc),
     (''nwy_test_cli_fs_close'', nwy_test_cli_fs_close), (''nwy_test_cli_fs_remove'', nwy_test_cli_fs_remove),
     (''nwy_test_cli_fs_rename'', nwy_test_cli_fs_rename), (''nwy_test_cli_dir_open'', nwy_test_cli_dir_open),
     (''nwy_test_cli_dir_read'', nwy_test_cli_dir_read n), (''nwy_test_cli_dir_tell'', nwy_test_cli_dir_tell),
     (''nwy_test_cli_dir_seek'', nwy_test_cli_dir_seek), (''nwy_test_cli_dir_rewind'', nwy_test_cli_dir_rewind),
     (''nwy_test_cli_dir_close'', nwy_test_cli_dir_close), (''nwy_test_cli_dir_mk'', nwy_test_cli_dir_mk),
     (''nwy_test_cli_dir_remove'', nwy_test_cli_dir_remove), (''nwy_test_cli_fs_free_size'', nwy_test_cli_fs_free_size),
     (''nwy_test_cli_safe_fs_init'', nwy_test_cli_safe_fs_init), (''nwy_test_cli_safe_fs_read'', nwy_test_cli_safe_fs_read),
     (''nwy_test_cli_safe_fs_write'', nwy_test_cli_safe_fs_write), (''nwy_test_cli_safe_fs_fszie'', nwy_test_cli_safe_fs_fszie)]"

lemma file_functions_safe: "list_all (\<lambda>(f, d). safe cli_contract d) (file_functions n)"
  unfolding file_functions_def
  by (simp only: list.pred_inject prod.case safe_files safe_rename safe_safe_files safe_dirs simp_thms)

lemma file_functions_complete:
  "modelled [] [fs_menu_arry] = map fst (file_functions n)"
  by (simp add: menu_simps file_functions_def
      fs_menu_arry_def)

definition wireless_functions :: "(string \<times> net_vars dialog) list" where
  "wireless_functions =
    [(''nwy_test_cli_ble_open'', nwy_test_cli_ble_open), (''nwy_test_cli_ble_set_adv'', nwy_test_cli_ble_set_adv),
     (''nwy_test_cli_ble_send'', nwy_test_cli_ble_send), (''nwy_test_cli_ble_recv'', nwy_test_cli_ble_recv),
     (''nwy_test_cli_ble_updata_connt'', nwy_test_cli_ble_updata_connt), (''nwy_test_cli_ble_get_st'', nwy_test_cli_ble_get_st),
     (''nwy_test_cli_ble_get_ver'', nwy_test_cli_ble_get_ver), (''nwy_test_cli_ble_set_dev_name'', nwy_test_cli_ble_set_dev_name),
     (''nwy_test_cli_ble_set_beacon'', nwy_test_cli_ble_set_beacon), (''nwy_test_cli_ble_set_manufacture'', nwy_test_cli_ble_set_manufacture),
     (''nwy_test_cli_ble_set_adv_server_uuid'', nwy_test_cli_ble_set_adv_server_uuid), (''nwy_test_cli_ble_set_srv'', nwy_test_cli_ble_set_srv),
     (''nwy_test_cli_ble_set_char'', nwy_test_cli_ble_set_char), (''nwy_test_cli_ble_conn_status_report'', nwy_test_cli_ble_conn_status_report),
     (''nwy_test_cli_ble_conn_status'', nwy_test_cli_ble_conn_status), (''nwy_test_cli_ble_mac_addr'', nwy_test_cli_ble_mac_addr),
     (''nwy_test_cli_ble_add_server'', nwy_test_cli_ble_add_server), (''nwy_test_cli_ble_add_char'', nwy_test_cli_ble_add_char),
     (''nwy_test_cli_ble_add_send_data'', nwy_test_cli_ble_add_send_data), (''nwy_test_cli_ble_add_recv_data'', nwy_test_cli_ble_add_recv_data),
     (''nwy_test_cli_ble_read_req'', nwy_test_cli_ble_read_req), (''nwy_test_cli_ble_disconnect'', nwy_test_cli_ble_disconnect),
     (''nwy_test_cli_ble_close'', nwy_test_cli_ble_close), (''nwy_test_cli_ble_client_set_enable'', nwy_test_cli_ble_client_set_enable),
     (''nwy_test_cli_ble_client_scan'', nwy_test_cli_ble_client_scan), (''nwy_test_cli_ble_client_connect'', nwy_test_cli_ble_client_connect),
     (''nwy_test_cli_ble_client_disconnect'', nwy_test_cli_ble_client_disconnect),
     (''nwy_test_cli_ble_client_discover_srv'', nwy_test_cli_ble_client_discover_srv),
     (''nwy_test_cli_ble_client_discover_char'', nwy_test_cli_ble_client_discover_char),
     (''nwy_test_cli_ble_client_send_data'', nwy_test_cli_ble_client_send_data),
     (''nwy_test_cli_ble_client_recv_data'', nwy_test_cli_ble_client_recv_data), (''nwy_cli_test_wifi_get_st'', nwy_cli_test_wifi_get_st),
     (''nwy_cli_test_wifi_enable'', nwy_cli_test_wifi_enable), (''nwy_cli_test_wifi_set_work_md'', nwy_cli_test_wifi_set_work_md),
     (''nwy_cli_test_wifi_set_ap_para'', nwy_cli_test_wifi_set_ap_para), (''nwy_cli_test_wifi_set_ap_para_adv'', nwy_cli_test_wifi_set_ap_para_adv),
     (''nwy_cli_test_wifi_get_clit_info'', nwy_cli_test_wifi_get_clit_info), (''nwy_cli_test_wifi_sta_scan'', nwy_cli_test_wifi_sta_scan),
     (''nwy_cli_test_wifi_sta_scan_ret'', nwy_cli_test_wifi_sta_scan_ret), (''nwy_cli_test_wifi_sta_connt'', nwy_cli_test_wifi_sta_connt),
     (''nwy_cli_test_wifi_sta_disconnt'', nwy_cli_test_wifi_sta_disconnt),
     (''nwy_cli_test_wifi_sta_get_hostpot_info'', nwy_cli_test_wifi_sta_get_hostpot_info),
     (''nwy_cli_test_wifi_disable'', nwy_cli_test_wifi_disable), (''nwy_test_cli_gnss_open'', nwy_test_cli_gnss_open),
     (''nwy_test_cli_gnss_set_position_md'', nwy_test_cli_gnss_set_position_md),
     (''nwy_test_cli_gnss_set_updata_rate'', nwy_test_cli_gnss_set_updata_rate),
     (''nwy_test_cli_gnss_set_output_fmt'', nwy_test_cli_gnss_set_output_fmt),
     (''nwy_test_cli_gnss_set_startup_fmt'', nwy_test_cli_gnss_set_startup_fmt), (''nwy_test_cli_gnss_get_nmea'', nwy_test_cli_gnss_get_nmea),
     (''nwy_test_cli_gnss_dialing'', nwy_test_cli_gnss_dialing), (''nwy_test_cli_gnss_set_server'', nwy_test_cli_gnss_set_server),
     (''nwy_test_cli_gnss_open_base'', nwy_test_cli_gnss_open_base), (''nwy_test_cli_gnss_open_assisted'', nwy_test_cli_gnss_open_assisted),
     (''nwy_test_cli_gnss_close'', nwy_test_cli_gnss_close), (''nwy_test_cli_wifi_open_base'', nwy_test_cli_wifi_open_base)]"

lemma wireless_functions_safe: "list_all (\<lambda>(f, d). safe cli_contract d) wireless_functions"
  unfolding wireless_functions_def
  by (simp only: list.pred_inject prod.case safe_ble_server safe_ble_client safe_wifi safe_location simp_thms)

lemma wireless_functions_complete:
  "modelled [''nwy_test_cli_ble_read_rsp''] [ble_service_menu_arry, ble_client_menu_arry, wifi_menu_arry, gnss_menu_arry] = map fst wireless_functions"
  by (simp add: menu_simps wireless_functions_def
      ble_service_menu_arry_def ble_client_menu_arry_def wifi_menu_arry_def gnss_menu_arry_def)

definition internet_functions :: "nat \<Rightarrow> (string \<times> net_vars dialog) list" where
  "internet_functions n =
    [(''nwy_test_cli_tcp_setup'', nwy_test_cli_tcp_setup n), (''nwy_test_cli_tcp_send'', nwy_test_cli_tcp_send),
     (''nwy_test_cli_tcp_close'', nwy_test_cli_tcp_close), (''nwy_test_cli_udp_setup'', nwy_test_cli_udp_setup),
     (''nwy_test_cli_udp_send'', nwy_test_cli_udp_send), (''nwy_test_cli_udp_close'', nwy_test_cli_udp_close),
     (''nwy_test_cli_ftp_login'', nwy_test_cli_ftp_login), (''nwy_test_cli_ftp_get'', nwy_test_cli_ftp_get),
     (''nwy_test_cli_ftp_fsize'', nwy_test_cli_ftp_fsize), (''nwy_test_cli_ftp_list'', nwy_test_cli_ftp_list),
     (''nwy_test_cli_ftp_delet'', nwy_test_cli_ftp_delet), (''nwy_test_cli_ftp_logout'', nwy_test_cli_ftp_logout),
     (''nwy_test_cli_http_setup'', nwy_test_cli_http_setup), (''nwy_test_cli_http_get'', nwy_test_cli_http_get),
     (''nwy_test_cli_http_head'', nwy_test_cli_http_head), (''nwy_test_cli_http_post'', nwy_test_cli_http_post),
     (''nwy_test_cli_http_close'', nwy_test_cli_http_close), (''nwy_test_cli_https_check_cert'', nwy_test_cli_https_check_cert),
     (''nwy_test_cli_https_delet_cert'', nwy_test_cli_https_delet_cert), (''nwy_test_cli_http_compute_md5'', nwy_test_cli_http_compute_md5)]"

lemma internet_functions_safe: "list_all (\<lambda>(f, d). safe cli_contract d) (internet_functions n)"
  unfolding internet_functions_def
  by (simp only: list.pred_inject prod.case safe_sockets safe_ftp safe_http simp_thms)

lemma internet_functions_complete:
  "modelled [''nwy_test_cli_ftp_put'', ''nwy_test_cli_https_add_cert''] [tcp_cli_menu_arry, udp_cli_menu_arry, ftp_cli_menu_arry, http_cli_menu_arry] = map fst (internet_functions n)"
  by (simp add: menu_simps internet_functions_def
      tcp_cli_menu_arry_def udp_cli_menu_arry_def ftp_cli_menu_arry_def http_cli_menu_arry_def)

definition device_functions :: "(string \<times> net_vars dialog) list" where
  "device_functions =
    [(''nwy_test_cli_send_virt_at'', nwy_test_cli_send_virt_at), (''nwy_test_cli_reg_at_fwd'', nwy_test_cli_reg_at_fwd),
     (''nwy_test_cli_get_model'', nwy_test_cli_get_model), (''nwy_test_cli_get_sw_ver'', nwy_test_cli_get_sw_ver),
     (''nwy_test_cli_get_hw_ver'', nwy_test_cli_get_hw_ver), (''nwy_test_cli_get_imei'', nwy_test_cli_get_imei),
     (''nwy_test_cli_get_heap_info'', nwy_test_cli_get_heap_info), (''nwy_test_cli_get_cpu_temp'', nwy_test_cli_get_cpu_temp),
     (''nwy_test_cli_get_boot_cause'', nwy_test_cli_get_boot_cause), (''nwy_test_cli_get_chipid'', nwy_test_cli_get_chipid),
     (''nwy_test_cli_start_timer'', nwy_test_cli_start_timer), (''nwy_test_cli_stop_timer'', nwy_test_cli_stop_timer),
     (''nwy_test_cli_get_time'', nwy_test_cli_get_time), (''nwy_test_cli_set_time'', nwy_test_cli_set_time),
     (''nwy_test_cli_set_semp'', nwy_test_cli_set_semp)]"

lemma device_functions_safe: "list_all (\<lambda>(f, d). safe cli_contract d) device_functions"
  unfolding device_functions_def
  by (simp only: list.pred_inject prod.case os_functions_safe os_input_safe simp_thms)

lemma device_functions_complete:
  "modelled [] [virtual_at_menu_arry, dev_info_menu_arry, os_api_menu_arry] = map fst device_functions"
  by (simp add: menu_simps device_functions_def
      virtual_at_menu_arry_def dev_info_menu_arry_def os_api_menu_arry_def)

definition cli_functions :: "nat \<Rightarrow> (string \<times> net_vars dialog) list" where
  "cli_functions n = mobile_functions @ driver_functions @ file_functions n @ wireless_functions @ internet_functions n @ device_functions"

definition cli_function :: "nat \<Rightarrow> (string \<Rightarrow> net_vars dialog) \<Rightarrow> string \<Rightarrow> net_vars dialog" where
  "cli_function n other f = (case map_of (cli_functions n) f of None \<Rightarrow> other f | Some d \<Rightarrow> d)"

lemma cli_functions_safe: "list_all (\<lambda>(f, d). safe cli_contract d) (cli_functions n)"
  by (simp add: cli_functions_def mobile_functions_safe driver_functions_safe file_functions_safe wireless_functions_safe internet_functions_safe device_functions_safe)

lemma cli_function_safe: "\<forall>f. safe cli_contract (other f) \<Longrightarrow> \<forall>f. safe cli_contract (cli_function n other f)"
  using cli_functions_safe [of n] by (auto simp: cli_function_def list_all_iff split: option.split dest!: map_of_SomeD)

text \<open>The main loop: what the menu shows and starts, in between the line of the user.\<close>

definition new_events :: "cli_menu \<Rightarrow> cli_menu \<Rightarrow> cli_event list" where
  "new_events m m' = drop (length (cli_trace m)) (cli_trace m')"

primrec play :: "(string \<Rightarrow> 's dialog) \<Rightarrow> cli_event list \<Rightarrow> 's dialog \<Rightarrow> 's dialog" where
  "play fs [] d = d"
| "play fs (e # es) d = (case e of Echo t \<Rightarrow> Print t (play fs es d) | Run f \<Rightarrow> followed_by (fs f) (play fs es d))"

primrec cli_main :: "(string \<Rightarrow> 's dialog) \<Rightarrow> nat \<Rightarrow> cli_menu \<Rightarrow> 's dialog" where
  "cli_main fs 0 m = Done"
| "cli_main fs (Suc n) m =
     need (nwy_test_cli_menu_display m) (\<lambda>m1. play fs (new_events m m1)
       (Ask (prompt ''Please input option: '') (\<lambda>b. need (arr_text b) (\<lambda>t.
         need (if is_quit t then nwy_test_cli_menu_back m1 else nwy_test_cli_menu_select (c_atoi t) m1) (\<lambda>m2.
           play fs (new_events m1 m2) (cli_main fs n m2))))))"

lemma safe_play: "\<forall>f. safe K (fs f) \<Longrightarrow> safe K d \<Longrightarrow> safe K (play fs es d)"
  by (induction es) (auto intro: safe_followed_byI split: cli_event.split)

lemma cli_main_safe:
  assumes "\<forall>f. safe cli_contract (fs f)" and "menu_ok 3 main"
  shows "at_pos main p m \<Longrightarrow> safe cli_contract (cli_main fs n m)"
proof (induction n arbitrary: p m)
  case 0
  then show ?case by simp
next
  case (Suc n)
  obtain m1 where m1: "nwy_test_cli_menu_display m = Some m1"
    using main_func_refines [OF assms(2) Suc.prems, of "[]"] by (auto simp: nwy_test_cli_main_func_def Option.bind_eq_Some_conv)
  have "\<exists>m2 q. (if is_quit t then nwy_test_cli_menu_back m1 else nwy_test_cli_menu_select (c_atoi t) m1) = Some m2 \<and> at_pos main q m2" for t
    using main_func_refines [OF assms(2) Suc.prems, of t] m1 by (auto simp: nwy_test_cli_main_func_def)
  then have "safe cli_contract (need (if is_quit t then nwy_test_cli_menu_back m1 else nwy_test_cli_menu_select (c_atoi t) m1) (\<lambda>m2.
      play fs (new_events m1 m2) (cli_main fs n m2)))" for t
    using Suc.IH safe_play [OF assms(1)] unfolding safe_need by blast
  then show ?case using m1 by (auto intro!: safe_play assms(1) simp: line_fits_array)
qed

text \<open>C9: the test program stays inside its arrays. Whatever the features it is compiled with, and as long as the functions
  outside of the table keep the contract: in every session in which each line fits its prompt (PIN and PUK below 10 characters,
  phone numbers below 22, file names of other than 64 characters, and so on), memory is available and the module's lists,
  names and blocks fit their arrays, no access leaves an array, and every call to the module has arguments the module allows:
  data handles and profiles 1 to 7, existing serial ports and buses, reconnection intervals, authentication and address types in
  their ranges, as many bytes as announced to the player, the sockets and the files, terminated texts.\<close>

theorem cli_session_safe:
  assumes "\<forall>f. safe cli_contract (other f)" and "cli_ok s"
    and "events_ok cli_contract (cli_main (cli_function k other) n (cli_start feat)) s es"
  shows "snd (run (cli_main (cli_function k other) n (cli_start feat)) s es) \<noteq> Faulted \<and>
    (\<forall>f as. Called f as \<in> set (fst (run (cli_main (cli_function k other) n (cli_start feat)) s es)) \<longrightarrow> call_fits f as)"
proof -
  have "safe cli_contract (cli_main (cli_function k other) n (cli_start feat))"
    using cli_main_safe [OF cli_function_safe [OF assms(1)] main_menu_ok start_at_pos] .
  from safe_run [OF this _ assms(3)] assms(2) show ?thesis by (auto simp: run_ok_def calls_ok_def)
qed


text \<open>Events: a line, an answer without data, and variables as at the start of the program.\<close>

definition enter :: "buf \<Rightarrow> 's event" where
  "enter t = \<lparr>line = t @ replicate (2048 - length t) 0, reply = \<lparr>ret = 0, num = \<lambda>i. 0, text_of = \<lambda>i. []\<rparr>, meanwhile = \<lambda>s. s\<rparr>"

definition mobile_start :: mobile_vars where
  "mobile_start = \<lparr>s_nwy_test_timer = 0, s_nwy_semaphore_count = 0, s_nwy_cli_semaphore = 0, s_nwy_at_init_flag = 0,
     ppp_state = replicate 10 0, scan_finish = 0,
     nw_scan_list = \<lparr>scan_result = 0, scan_num = 0, net_list = replicate 10 \<lparr>net_status = 0, net_rat = 0,
       net_mcc = replicate 4 0, net_mnc = replicate 4 0, long_eons = replicate 129 0, short_eons = replicate 129 0\<rparr>\<rparr>,
     pNetmsg = \<lparr>is_over = 0, curr_rat = 0, cell_values = \<lambda>i. 0\<rparr>\<rparr>"

lemma mobile_start_ok: "mobile_ok mobile_start"
  by (simp add: mobile_start_def mobile_ok_def scan_item_ok_def list_all_iff terminated_def)

definition net_start :: net_vars where
  "net_start = \<lparr>s_nwy_test_timer = 0, s_nwy_semaphore_count = 0, s_nwy_cli_semaphore = 0, s_nwy_at_init_flag = 0,
     ppp_state = replicate 10 0, scan_finish = 0, nw_scan_list = nw_scan_list mobile_start, pNetmsg = pNetmsg mobile_start,
     junk = \<lambda>v. 0, uart_hd = 0, i2c_bus = 0, spi_bus = 0, test_p = 0,
     display = \<lparr>display_buf = replicate 16384 0, tmp_buf = replicate 256 0, lcd_init = False, sent = []\<rparr>, font_files = \<lambda>f. None,
     display_buffer = replicate 16384 0, tts_buff = replicate 1024 0, encode_type = 0, capture_len = 0, audio_buf = None, sio_recv_copy = [0],
     nwy_test_fs_fd = -1, nwy_test_file_name = replicate 65 0, nwy_test_fs_dir = 0, nwy_test_dir_name = replicate 65 0,
     srv_num = 0, scan_sel = 0, scan_dev_flag = True,
     s_nwy_cli_tcp_fd = 0, s_nwy_cli_udp_fd = 0, s_nwy_tcp_connect_flag = 0, s_nwy_udp_connect_flag = 0, s_nwy_tcp_recv_thread = 0,
     s_nwy_udp_recv_thread = 0, nwy_cli_update_flag = 0, s_nwy_ftp_recv = None, s_nwy_ftp_current_thread = 0, ftp_is_vaild = 0,
     ftp_filename = replicate 256 0, ftp_pos = 0, s_nwy_http_choice = False\<rparr>"

lemma net_start_ok: "cli_ok net_start"
  using mobile_start_ok by (simp add: net_start_def vars_unfold lcd_ok_def fonts_ok_def terminated_def)

lemma line_of_enter:
  assumes "0 \<notin> set t" and "length t < 2048"
  shows "c_str (line (enter t)) = t" "terminated (line (enter t))" "length (line (enter t)) = 2048"
proof -
  obtain k where "2048 - length t = Suc k" using assms(2) by (metis Suc_diff_Suc)
  then show "c_str (line (enter t)) = t" "terminated (line (enter t))" "length (line (enter t)) = 2048"
    using c_str_append_zero [OF assms(1)] assms(2) by (simp_all add: enter_def terminated_def)
qed

lemma enter_simps [simp]: "reply (enter t) = \<lparr>ret = 0, num = \<lambda>i. 0, text_of = \<lambda>i. []\<rparr>" "meanwhile (enter t) s = s"
  by (simp_all add: enter_def)

lemma arr_text_enter: "0 \<notin> set t \<Longrightarrow> length t < 2048 \<Longrightarrow> arr_text (line (enter t)) = Some t"
  by (simp add: line_of_enter arr_text_def)

lemma run_ask_int:
  "0 \<notin> set t \<Longrightarrow> length t < 2048 \<Longrightarrow> run (ask_int p k) s (enter t # es) = logged (Prompted p) (run (k (c_atoi t)) s es)"
  by (simp add: ask_int_def arr_text_enter)

lemma line_copy_enter:
  "0 \<notin> set t \<Longrightarrow> length t < 2048 \<Longrightarrow> line_copy n (line (enter t)) = (if length t \<le> n then Some (t @ replicate (n - length t) 0) else None)"
  by (simp add: line_of_enter line_copy_eq)

lemma arr_text_fill: "0 \<notin> set t \<Longrightarrow> arr_text (t @ replicate k 0) = (if 0 < k then Some t else None)"
  using c_str_append_zero [of t] by (cases k) (simp_all add: arr_text_def terminated_def)

lemma arr_text_open: "0 \<notin> set t \<Longrightarrow> arr_text t = None"
  by (simp add: arr_text_def terminated_def)

lemma need_if: "need (if b then x else y) k = (if b then need x k else need y k)"
  by simp

lemma str_no_zero [simp]: "0 \<notin> set (str ''0'')" "0 \<notin> set (str ''1234'')" "0 \<notin> set (str ''2'')" "0 \<notin> set (str ''hi'')" "0 \<notin> set (str ''145'')" "0 \<notin> set (str ''4'')"
  by (simp_all add: str_def)

text \<open>C36: the lines for which the functions leave their arrays, exactly: a PIN or PUK of 10 characters and more, a phone number
  of 32 for a call and of 22 for a short message, a service-centre number of 21, a USSD text of 160, a band mask of 64, an AT
  command of 1022.\<close>

theorem cli_text_limits:
  assumes "0 \<notin> set t" and "length t < 2048"
  shows "(snd (run nwy_test_cli_verify_pin s [enter (str ''0''), enter t, ok]) = Faulted \<longleftrightarrow> 10 \<le> length t) \<and>
    (snd (run nwy_test_cli_verify_puk s [enter (str ''0''), enter t, enter (str ''1234''), ok]) = Faulted \<longleftrightarrow> 10 \<le> length t) \<and>
    (snd (run nwy_test_cli_voice_call_start s [enter t, ok]) = Faulted \<longleftrightarrow> 32 \<le> length t) \<and>
    (snd (run nwy_test_cli_sms_send s [enter t, enter (str ''2''), enter (str ''hi''), enter (str ''0''), ok]) = Faulted \<longleftrightarrow> 22 \<le> length t) \<and>
    (snd (run nwy_test_cli_sms_set_sca s [enter t, enter (str ''145''), ok]) = Faulted \<longleftrightarrow> 21 \<le> length t) \<and>
    (snd (run nwy_test_cli_ussd_send s [enter (str ''0''), enter (str ''0''), enter t, ok]) = Faulted \<longleftrightarrow> 160 \<le> length t) \<and>
    (snd (run nwy_test_cli_nw_band_lock s [enter (str ''4''), enter t, ok]) = Faulted \<longleftrightarrow> 64 \<le> length t) \<and>
    (snd (run nwy_cli_virtual_at_test v [ok, enter t, ok]) = Faulted \<longleftrightarrow> 1022 \<le> length t)"
  using assms by (simp add: line_copy_enter arr_text_enter run_ask_int arr_text_fill nwy_test_cli_verify_pin_def nwy_test_cli_verify_puk_def
      nwy_test_cli_voice_call_start_def dial_def nwy_test_cli_sms_send_def nwy_test_cli_sms_set_sca_def nwy_test_cli_ussd_send_def
      nwy_test_cli_nw_band_lock_def nwy_cli_virtual_at_test_def at_command_eq line_of_enter verdict_def echo_def need_if arr_text_open)


theorem cli_text_limits_witness:
  "snd (run nwy_test_cli_verify_pin mobile_start [enter (str ''0''), enter (replicate 10 49), enter []]) = Faulted \<and>
   snd (run nwy_test_cli_voice_call_start mobile_start [enter (replicate 31 49), enter []]) \<noteq> Faulted"
  using cli_text_limits [of "replicate 10 49" mobile_start "enter []" mobile_start] cli_text_limits [of "replicate 31 49" mobile_start "enter []" mobile_start] by simp

text \<open>setting the clock. The date and the time, entered as printed numbers with their separators, reach the module as these
  numbers, in one call, and the clock is read back for display.\<close>

theorem set_time_entered:
  assumes "0 \<le> y" "y < 65536" and "list_all (\<lambda>v. 0 \<le> v \<and> v < 256) [mo, d, h, mi, sec]"
    and "line e1 = fmt_d y @ 0x2D # fmt_d mo @ 0x2D # fmt_d d @ 0 # ra" and "line e2 = fmt_d h @ 0x3A # fmt_d mi @ 0x3A # fmt_d sec @ 0 # rb"
  shows "\<exists>shown s'. run nwy_test_cli_set_time s [e1, e2, e3, e4] =
    ([Prompted (prompt ''Please input data(2020-1-1): ''), Prompted (prompt ''Please input time(1:1:1): ''),
      Called ''nwy_set_time'' [I y, I mo, I d, I h, I mi, I sec, I 0], Printed (crlf @ str ''set time sucess'' @ crlf),
      Called ''nwy_get_time'' [], Printed shown], Returned s' [])"
proof -
  have "three_ints 0x2D (line e1) = Some (y, mo, d)" "three_ints 0x3A (line e2) = Some (h, mi, sec)"
    unfolding assms(4,5) using assms(1-3) by (auto intro!: three_ints_printed simp: is_digit_def int_max_def)
  then show ?thesis using assms(1-3) by (simp add: nwy_test_cli_set_time_def nwy_test_cli_get_time_def echo_def logged_def)
qed

theorem set_time_entered_witness:
  "\<exists>shown s'. run nwy_test_cli_set_time mobile_start [enter (str ''2021-12-1''), enter (str ''8:5:0''), enter [], enter []] =
    ([Prompted (prompt ''Please input data(2020-1-1): ''), Prompted (prompt ''Please input time(1:1:1): ''),
      Called ''nwy_set_time'' [I 2021, I 12, I 1, I 8, I 5, I 0, I 0], Printed (crlf @ str ''set time sucess'' @ crlf),
      Called ''nwy_get_time'' [], Printed shown], Returned s' [])"
proof -
  have f: "fmt_d 2021 = [50, 48, 50, 49]" "fmt_d 12 = [49, 50]" "fmt_d 1 = [49]" "fmt_d 8 = [56]" "fmt_d 5 = [53]" "fmt_d 0 = [48]"
    by (simp_all add: fmt_d_def dec_digits.simps)
  have z: "replicate 2039 0 = 0 # replicate 2038 (0 :: u8)" "replicate 2043 0 = 0 # replicate 2042 (0 :: u8)"
    by (simp_all flip: replicate_Suc)
  show ?thesis
    by (rule set_time_entered [where ra = "replicate 2038 0" and rb = "replicate 2042 0"]) (simp_all add: enter_def str_def f z)
qed

text \<open>What the USB callback leaves for a function: an array of 2048 bytes with a terminator.\<close>

lemma callback_input_array:
  assumes "cli_inv s" and "0 \<notin> set data" and "sio_line_proc data s = Some t"
  shows "input_array (nwy_cli_opt_input_buff t)"
proof -
  obtain x where x: "cli_clear s = Some (s\<lparr>nwy_cli_opt_input_buff := x @ replicate (2048 - cli_len s) 0, cli_sio_len := int (cli_len s)\<rparr>)"
      "0 \<notin> set x" "length x = cli_len s" using cli_clear_inv [OF assms(1)] by blast
  have l: "cli_len s < 2048" using assms(1) by (simp add: cli_inv_def)
  show ?thesis using assms(3) l x
    by (auto simp: sio_line_proc_def Let_def input_array_def Option.bind_eq_Some_conv cli_line_end_def nwy_test_cli_select_enter_def
        buf_write_def wr_def wr_int_def c_strlen_eq terminated_def set_update_memI split: if_splits)
qed


text \<open>Events that fit everywhere fit every safe dialog.\<close>

lemma events_fit_anywhere:
  assumes "\<forall>e \<in> set es. (\<forall>p. line_ok K p (line e)) \<and> (\<forall>f as. reply_ok K f as (reply e)) \<and> (\<forall>s. vars_ok K s \<longrightarrow> vars_ok K (meanwhile e s))"
  shows "safe K d \<Longrightarrow> vars_ok K s \<Longrightarrow> events_ok K d s es"
  using assms
proof (induction d arbitrary: s es)
  case (Ask p k)
  then show ?case by (cases es) (simp_all add: range_eqI)
next
  case (Call f as k)
  then show ?case by (cases es) (simp_all add: range_eqI)
next
  case (Pause n d)
  then show ?case by (cases es) simp_all
next
  case (Get k)
  then show ?case by (simp add: range_eqI)
qed simp_all

theorem cli_session_safe_witness:
  "let f = \<lparr>feat_ali = False, feat_paho = False, feat_nippon = False\<rparr>;
       e = (enter (str ''1-1-1:1:1''))\<lparr>reply := \<lparr>ret = 1, num = \<lambda>i. 1, text_of = \<lambda>i. [65]\<rparr>\<rparr>;
       r = run (cli_main (cli_function 9 (\<lambda>f. Done)) 50 (cli_start f)) net_start (replicate 100 e)
   in snd r \<noteq> Faulted \<and> (\<forall>f as. Called f as \<in> set (fst r) \<longrightarrow> call_fits f as)"
proof -
  define f where "f = \<lparr>feat_ali = False, feat_paho = False, feat_nippon = False\<rparr>"
  define e :: "net_vars event" where "e = (enter (str ''1-1-1:1:1''))\<lparr>reply := \<lparr>ret = 1, num = \<lambda>i. 1, text_of = \<lambda>i. [65]\<rparr>\<rparr>"
  let ?d = "cli_main (cli_function 9 (\<lambda>f. Done)) 50 (cli_start f)"
  have t: "0 \<notin> set (str ''1-1-1:1:1'')" "length (str ''1-1-1:1:1'') = 9" by (simp_all add: str_def)
  have a: "c_atoi (str ''1-1-1:1:1'') = 1" by (simp add: str_def c_atoi_def is_space_def is_digit_def digits_val_def int_max_def)
  have k: "strtok_all 0x2D (str ''1-1-1:1:1'') = [[49], [49], [49, 58, 49, 58, 49]]" "strtok_all 0x3A (str ''1-1-1:1:1'') = [[49, 45, 49, 45, 49], [49], [49]]"
    by (simp_all add: str_def strtok_all.simps)
  have "c_str (line e) = str ''1-1-1:1:1''" "terminated (line e)" "length (line e) = 2048" using t by (simp_all add: e_def line_of_enter)
  then have "line_fits p (line e)" for p using t a k by (simp add: line_fits_def input_array_def line_rules_def to_u8_def)
  moreover have "reply_fits g as (reply e)" "meanwhile e v = v" for g as v by (simp_all add: e_def reply_unfold int_max_def to_u8_def list_all_iff)
  ultimately have ev: "\<forall>x \<in> set (replicate 100 e). (\<forall>p. line_ok cli_contract p (line x)) \<and> (\<forall>f as. reply_ok cli_contract f as (reply x)) \<and>
      (\<forall>s. vars_ok cli_contract s \<longrightarrow> vars_ok cli_contract (meanwhile x s))" by simp
  have d: "\<forall>g. safe cli_contract ((\<lambda>f. Done) g)" by simp
  have "events_ok cli_contract ?d net_start (replicate 100 e)"
    using events_fit_anywhere [OF ev cli_main_safe [OF cli_function_safe [OF d] main_menu_ok start_at_pos]] net_start_ok by simp
  from cli_session_safe [OF d net_start_ok this] show ?thesis unfolding Let_def f_def [symmetric] e_def [symmetric] .
qed


section \<open>The network scan\<close>

text \<open>After a scan the user chooses a network by its index, which is not checked: the function leaves the list of ten
  places exactly for a number below 0 or above 9.\<close>

theorem select_index_limit:
  assumes "mobile_ok s" and "0 \<notin> set t" and "length t < 2048"
  shows "snd (run nwy_network_test_nw_select s [enter i, enter p, enter t, ok]) = Faulted \<longleftrightarrow> c_atoi t < 0 \<or> 10 \<le> c_atoi t"
proof -
  note m = assms(1) [unfolded mobile_ok_def]
  have n: "nat (scan_num (nw_scan_list s)) \<le> 10" using m by auto
  have it: "scan_item_ok (net_list (nw_scan_list s) ! nat v)" if "0 \<le> v" "v < 10" for v using m that by (simp add: list_all_length)
  have len: "length (net_list (nw_scan_list s)) = 10" "list_all scan_item_ok (net_list (nw_scan_list s))" using m by blast+
  show ?thesis
    using it [of "c_atoi t"] n len
    by (auto simp: nwy_network_test_nw_select_def Let_def run_select_list run_ask_int assms(2,3) rd_at_def rd_def scan_item_ok_def buf_read_def)
qed

lemma run_scan_wait:
  assumes "\<forall>e \<in> set es. \<forall>v. scan_finish v \<noteq> 1 \<longrightarrow> scan_finish (meanwhile e v) \<noteq> 1" and "scan_finish s \<noteq> 1"
  shows "fst (run (scan_wait (length es) d) s (es @ fs)) = replicate (length es) (Paused 1000) @ fst (run d (foldl (\<lambda>v e. meanwhile e v) s es) fs)"
  using assms by (induction es arbitrary: s) simp_all

theorem select_index_limit_witness:
  "snd (run nwy_network_test_nw_select mobile_start [enter [], enter [], enter (str ''10''), enter []]) = Faulted"
  using select_index_limit [OF mobile_start_ok, of "str ''10''" "[]" "[]" "enter []"]
  by (simp add: str_def c_atoi_def is_space_def is_digit_def digits_val_def int_max_def)

text \<open>A scan whose callback runs before the call returns is not noticed: the flag is cleared afterwards, and the function
  sleeps for the whole three minutes before it looks at the result.\<close>

theorem scan_early_result:
  assumes "ret (reply e) = 0" and "length es = 180" and "\<forall>x \<in> set es. \<forall>v. meanwhile x v = v"
  shows "\<exists>l. fst (run nwy_test_cli_nw_manual_scan s ((e\<lparr>meanwhile := (\<lambda>v. v\<lparr>nw_scan_list := found, scan_finish := 1\<rparr>)\<rparr>) # es @ fs)) =
    Called ''nwy_nw_manual_network_scan'' [] # Printed (crlf @ str ''Waiting Scan result...'') # replicate 180 (Paused 1000) @ l"
  using assms run_scan_wait [of es "s\<lparr>nw_scan_list := found, scan_finish := 0\<rparr>" _ fs]
  by (simp add: nwy_test_cli_nw_manual_scan_def)


theorem scan_early_result_witness:
  "\<exists>l. fst (run nwy_test_cli_nw_manual_scan mobile_start (((enter [])\<lparr>meanwhile := (\<lambda>v. v\<lparr>nw_scan_list := nw_scan_list mobile_start, scan_finish := 1\<rparr>)\<rparr>) #
       replicate 180 (enter []) @ [])) =
    Called ''nwy_nw_manual_network_scan'' [] # Printed (crlf @ str ''Waiting Scan result...'') # replicate 180 (Paused 1000) @ l"
  by (rule scan_early_result) simp_all

end
