(* ===== verification/CliEffects.thy ===== *)
theory CliEffects
  imports CliProgram
begin

text \<open>
  What the functions of the test program do, across their parts: a file that comes in over the console, through the dispatcher
  of \<open>CliInput\<close>, and goes out by FTP, a file that comes by FTP and is stored, data that come by HTTP and are printed, a
  recording that is played, the check of an address, and the lengths of names.
\<close>

section \<open>Answers and sequences of callbacks\<close>

text \<open>An answer of the module that is only a number, and does nothing in the meantime.\<close>

definition answers :: "int \<Rightarrow> 's event" where
  "answers v = \<lparr>line = [], reply = \<lparr>ret = v, num = \<lambda>i. 0, text_of = \<lambda>i. []\<rparr>, meanwhile = \<lambda>s. s\<rparr>"

lemma answers_simps [simp]: "ret (reply (answers v)) = v" "num (reply (answers v)) i = 0" "meanwhile (answers v) s = s"
  by (simp_all add: answers_def)

text \<open>The calls of a function in a log.\<close>

definition called :: "string \<Rightarrow> item \<Rightarrow> bool" where
  "called f i = (case i of Called g as \<Rightarrow> g = f | _ \<Rightarrow> False)"

lemma called_simps [simp]:
  "called f (Called g as) = (g = f)" "\<not> called f (Printed t)" "\<not> called f (Prompted t)" "\<not> called f (Paused n)"
  by (simp_all add: called_def)

text \<open>The variables after a dialog.\<close>

definition vars_after :: "'s dialog \<Rightarrow> 's event list \<Rightarrow> 's \<Rightarrow> 's" where
  "vars_after d es s = (case snd (run d s es) of Returned s' es' \<Rightarrow> s' | _ \<Rightarrow> s)"

lemma run_say [simp]: "run (say ts d) s es = logged (Printed (crlf @ concat ts @ crlf)) (run d s es)"
    "run (tell ts d) s es = logged (Printed (crlf @ concat ts)) (run d s es)"
  by (simp_all add: say_def tell_def)

section \<open>A file from the console to an FTP server\<close>

definition collecting :: "nat \<Rightarrow> buf \<Rightarrow> recv_context option" where
  "collecting n x = Some \<lparr>rc_size = int n, rc_pos = int (length x), rc_data = x @ replicate (n - length x) 0\<rparr>"

lemma put_proc_whole:
  assumes "nwy_cli_update_flag s = 1" and "s_nwy_ftp_current_thread s \<noteq> 0" and "s_nwy_ftp_recv s = collecting n []"
    and "0 < n" and "int n \<le> int_max" and "n \<le> length p"
  shows "\<exists>l. run (nwy_cli_ftp_put_proc p) s (answers v # es) =
      (l, Returned (s\<lparr>s_nwy_ftp_recv := collecting n (take n p), nwy_cli_update_flag := 0\<rparr>) es) \<and>
    filter (called ''nwy_test_cli_send_sig'') l = [Called ''nwy_test_cli_send_sig'' [I (s_nwy_ftp_current_thread s), I NWY_EXT_FOTA_DATA_REC_END]]"
proof -
  have room: "to_u32 (int n) = int n" using assms(5) by (simp add: to_u32_def int_max_def)
  have w: "buf_write (replicate n 0) 0 (take n p) = Some (take n p)" using assms(6) by (simp add: buf_write_def)
  show ?thesis
    using assms w by (auto simp: nwy_cli_ftp_put_proc_def nwy_cli_app_info_proc_def append_received_def collecting_def room Let_def tell_if_def logged_def)
qed

lemma put_proc_part:
  assumes "nwy_cli_update_flag s = 1" and "s_nwy_ftp_current_thread s \<noteq> 0" and "s_nwy_ftp_recv s = collecting n []"
    and "int n \<le> int_max" and "length p < n"
  shows "\<exists>l. run (nwy_cli_ftp_put_proc p) s es = (l, Returned (s\<lparr>s_nwy_ftp_recv := collecting n p\<rparr>) es) \<and>
    filter (called ''nwy_test_cli_send_sig'') l = []"
proof -
  have room: "to_u32 (int n) = int n" using assms(4) by (simp add: to_u32_def int_max_def)
  have w: "buf_write (replicate n 0) 0 p = Some (p @ replicate (n - length p) 0)" using assms(5) by (simp add: buf_write_def)
  show ?thesis
    using assms w by (auto simp: nwy_cli_ftp_put_proc_def nwy_cli_app_info_proc_def append_received_def collecting_def room Let_def tell_if_def logged_def)
qed

text \<open>What the dispatcher hands to the function of the transfer mode.\<close>

lemma first_piece_handed:
  assumes "nwy_sio_mode c = 0" and "run_machine (\<lambda>c d. nwy_test_cli_sio_data_proc d c) (snd (nwy_test_cli_sio_enter_trans_mode c)) (p # ps) = Some c'"
  shows "trans_pieces c' = trans_pieces c @ [p]"
proof -
  let ?u = "c\<lparr>trans_pieces := trans_pieces c @ [p], nwy_sio_mode := 0\<rparr>"
  have "run_machine (\<lambda>c d. nwy_test_cli_sio_data_proc d c) ?u ps = Some c'"
    using assms by (simp add: nwy_test_cli_sio_enter_trans_mode_def nwy_test_cli_sio_data_proc_def)
  from line_mode_run [OF _ this] show ?thesis by simp
qed

lemma digits_accepted: "0 \<le> v \<Longrightarrow> nwy_cli_check_str_isdigit (fmt_d v)"
proof -
  have "list_all is_digit t \<Longrightarrow> nwy_cli_check_str_isdigit t" for t by (induction t) (auto simp: is_digit_def)
  then show "0 \<le> v \<Longrightarrow> nwy_cli_check_str_isdigit (fmt_d v)" by (simp add: fmt_d_def dec_digits_are_digits)
qed

lemma run_ask_digits:
  assumes "0 \<le> v" and "v \<le> int_max"
  shows "run (ask_digits p k) s (enter (fmt_d v) # es) = logged (Prompted (prompt p)) (run (k v) s es)"
proof -
  have "length (fmt_d v) < 2048" using fmt_d_length [of v] assms by (simp add: int_max_def)
  then show ?thesis using assms by (simp add: ask_digits_def arr_text_enter digits_accepted atoi_fmt_d)
qed

lemma run_ask_text:
  assumes "0 \<notin> set t" and "length t < n" and "n \<le> 2048"
  shows "run (ask_text n p k) s (enter t # es) = logged (Prompted (prompt p)) (run (k t) s es)"
  using array_ok_strcpy [of "replicate n 0" n t] assms by (auto simp: ask_text_def arr_text_enter)



section \<open>A file from an FTP server\<close>

text \<open>What the calls do to a file: a block is written at the position of the last \<open>nwy_sdk_fseek\<close>; a gap is filled with zeros.\<close>

definition file_write :: "nat \<Rightarrow> buf \<Rightarrow> buf \<Rightarrow> buf" where
  "file_write p d c = take p (c @ replicate (p - length c) 0) @ d @ drop (p + length d) c"

primrec replay :: "item list \<Rightarrow> nat \<Rightarrow> buf \<Rightarrow> buf" where
  "replay [] p c = c"
| "replay (i # l) p c = (case i of
     Called f [I fd, I q, I w] \<Rightarrow> replay l (if f = ''nwy_sdk_fseek'' then nat q else p) c
   | Called f [I fd, T d, I n] \<Rightarrow> (if f = ''nwy_sdk_fwrite'' then replay l (p + length d) (file_write p d c) else replay l p c)
   | _ \<Rightarrow> replay l p c)"

lemma file_write_twice: "file_write (p + length d) e (file_write p d c) = file_write p (d @ e) c"
proof -
  have "length (take p (c @ replicate (p - length c) 0)) = p" by simp
  then show ?thesis by (simp add: file_write_def add.assoc ac_simps)
qed

definition ftp_block :: "buf \<Rightarrow> 'a net_vars_scheme dialog" where
  "ftp_block d = nwy_cli_ftp_result_cb (Some (5, 0, Some d))"

lemma ftp_block_run:
  assumes "ftp_is_vaild s = 1" and "c_str (ftp_filename s) = f" and "terminated (ftp_filename s)" and "length f \<le> 123" and "d \<noteq> []" and "0 \<le> fd"
  shows "run (ftp_block d) s (answers fd # answers a # answers b # answers c # es) =
    ([Called ''nwy_sdk_fopen'' [T (str ''/nwy/'' @ f), I 0x202], Called ''nwy_sdk_fseek'' [I fd, I (ftp_pos s), I 0],
      Called ''nwy_sdk_fwrite'' [I fd, T d, I (int (length d))], Called ''nwy_sdk_fclose'' [I fd]],
     Returned (s\<lparr>ftp_pos := ftp_pos s + int (length d)\<rparr>) es)"
proof -
  have "c_str (str ''/nwy/'' @ replicate 124 0) = str ''/nwy/''" by (rule trans [OF _ c_str_append_zero [of _ "replicate 123 0"]]) (simp_all add: str_def flip: replicate_Suc)
  then have cat: "c_strcat (str ''/nwy/'' @ replicate 124 0) f = Some (str ''/nwy/'' @ f @ 0 # drop (5 + length f + 1) (str ''/nwy/'' @ replicate 124 0))"
    using c_strcat_Some [of "str ''/nwy/'' @ replicate 124 0" f] assms(4) by (simp add: terminated_def)
  have "0 \<notin> set f" using assms(2) by (auto simp: c_str_def dest: set_takeWhileD)
  then have "0 \<notin> set (str ''/nwy/'' @ f)" by (simp add: str_def)
  from c_str_append_zero [OF this] have t: "arr_text (str ''/nwy/'' @ f @ 0 # r) = Some (str ''/nwy/'' @ f)" for r
    by (simp add: arr_text_def terminated_def)
  show ?thesis using assms cat t by (simp add: ftp_block_def nwy_cli_ftp_result_cb_def ftp_messages_def nwy_cli_ftp_write_file_def tell_if_def logged_def)
qed

text \<open>C17: a file that comes by FTP. Whatever the blocks, one after the other they are written behind each other into the file
  /nwy/ and the name, beginning at the position that was reached before: the file holds the concatenation of the blocks from
  that position on, and no other file is opened. The position is never set back, so that the first download of a session is
  stored as sent, and each later one has as many bytes of gap in front as were received before.\<close>

theorem ftp_download:
  assumes "ftp_is_vaild s = 1" and "c_str (ftp_filename s) = f" and "terminated (ftp_filename s)" and "length f \<le> 123" and "0 \<le> ftp_pos s"
    and "\<forall>d \<in> set ds. d \<noteq> []" and "\<forall>v \<in> set vs. 0 \<le> v" and "length vs = 4 * length ds"
  shows "let r = run (each ftp_block ds) s (map answers vs)
    in snd r = Returned (s\<lparr>ftp_pos := ftp_pos s + int (length (concat ds))\<rparr>) [] \<and>
      (ds \<noteq> [] \<longrightarrow> replay (fst r) 0 c = file_write (nat (ftp_pos s)) (concat ds) c) \<and>
      filter (called ''nwy_sdk_fopen'') (fst r) = replicate (length ds) (Called ''nwy_sdk_fopen'' [T (str ''/nwy/'' @ f), I 0x202])"
proof -
  have "let r = run (each ftp_block ds) s (map answers vs)
    in snd r = Returned (s\<lparr>ftp_pos := ftp_pos s + int (length (concat ds))\<rparr>) [] \<and>
      (ds \<noteq> [] \<longrightarrow> replay (fst r) p c = file_write (nat (ftp_pos s)) (concat ds) c) \<and>
      filter (called ''nwy_sdk_fopen'') (fst r) = replicate (length ds) (Called ''nwy_sdk_fopen'' [T (str ''/nwy/'' @ f), I 0x202])" for p
    using assms
  proof (induction ds arbitrary: s vs p c)
    case (Cons d ds)
    obtain v0 v1 v2 v3 ws where vs: "vs = v0 # v1 # v2 # v3 # ws" "length ws = 4 * length ds"
    proof -
      have "length vs = Suc (Suc (Suc (Suc (4 * length ds))))" using Cons.prems(8) by simp
      then show thesis using that by (auto simp: length_Suc_conv)
    qed
    let ?s = "s\<lparr>ftp_pos := ftp_pos s + int (length d)\<rparr>" and ?c = "file_write (nat (ftp_pos s)) d c"
    have IH: "let r = run (each ftp_block ds) ?s (map answers ws)
      in snd r = Returned (?s\<lparr>ftp_pos := ftp_pos ?s + int (length (concat ds))\<rparr>) [] \<and>
        (ds \<noteq> [] \<longrightarrow> replay (fst r) (nat (ftp_pos s) + length d) ?c = file_write (nat (ftp_pos ?s)) (concat ds) ?c) \<and>
        filter (called ''nwy_sdk_fopen'') (fst r) = replicate (length ds) (Called ''nwy_sdk_fopen'' [T (str ''/nwy/'' @ f), I 0x202])"
      using Cons.prems vs by (intro Cons.IH) auto
    have n: "nat (ftp_pos s + int (length d)) = nat (ftp_pos s) + length d" using Cons.prems(5) by (simp add: nat_add_distrib)
    have v0: "d \<noteq> []" "0 \<le> v0" using Cons.prems(6,7) vs(1) by auto
    note st = ftp_block_run [OF Cons.prems(1-4) v0]
    show ?case
      using IH st [of v1 v2 v3 "map answers ws"] n
      by (cases "ds = []") (simp_all add: vs(1) run_followed_by Let_def file_write_twice add.assoc)
  qed simp
  then show ?thesis .
qed

theorem ftp_download_witness:
  "let s = net_start\<lparr>ftp_is_vaild := 1, ftp_pos := 2\<rparr>; r = run (each ftp_block [[1, 2], [3]]) s (map answers (replicate 8 5))
    in snd r = Returned (s\<lparr>ftp_pos := ftp_pos s + int (length (concat [[1 :: u8, 2], [3]]))\<rparr>) [] \<and>
      ([[1, 2], [3 :: u8]] \<noteq> [] \<longrightarrow> replay (fst r) 0 [9] = file_write (nat (ftp_pos s)) (concat [[1, 2], [3]]) [9]) \<and>
      filter (called ''nwy_sdk_fopen'') (fst r) = replicate (length [[1 :: u8, 2], [3]]) (Called ''nwy_sdk_fopen'' [T (str ''/nwy/'' @ []), I 0x202])"
  unfolding Let_def [of "net_start\<lparr>ftp_is_vaild := 1, ftp_pos := 2\<rparr>"]
  by (rule ftp_download) (simp_all add: net_start_def c_str_def)

lemma later_download_has_gap: "file_write 2 [1, 2, 3] [] = [0, 0, 1, 2, 3]"
  by (simp add: file_write_def eval_nat_numeral)

section \<open>Data that come by HTTP\<close>

lemma print_pieces_run:
  assumes "0 \<notin> set data"
  shows "run (print_pieces data d) s es =
    (if data = [] then run d s es else if length data < 2048 then logged (Printed data) (run d s es) else ([], Faulted))"
proof (cases "length data < 2048")
  case True
  have n: "print_pieces [] d = d" by (simp add: print_pieces.simps)
  have "buf_write (replicate 2048 0) 0 data = Some (data @ replicate (2048 - length data) 0)" using True by (simp add: buf_write_def)
  then show ?thesis using True arr_text_fill [OF assms, of "2048 - length data"] n by (subst print_pieces.simps) (simp add: Let_def)
next
  case False
  have z: "0 \<notin> set (take 2048 data)" using assms by (auto dest: in_set_takeD)
  have "buf_write (replicate 2048 0) 0 (take 2048 data) = Some (take 2048 data)" using False by (simp add: buf_write_def)
  then show ?thesis using False z by (subst print_pieces.simps) (auto simp: Let_def arr_text_open)
qed

text \<open>what HTTP and HTTPS deliver is shown as it came, in one piece, as long as it is shorter than 2048 bytes; with 2048
  bytes and more (none of them zero) the block that is printed as a text has no terminator, and the callback reads behind it.\<close>

theorem http_data_shown:
  assumes "0 \<notin> set data" and "m \<noteq> 0" and "(cb, head) \<in> {(nwy_cli_http_result_cb, ''HTTP recv data len ''), (nwy_cli_https_result_cb, ''HTTPS recv data len '')}"
  shows "run (cb (Some (6, data))) s [answers m] =
    (Printed (crlf @ str head @ fmt_d (int (length data)) @ str ''.'' @ crlf) # Called ''malloc'' [I 2048] #
       (if length data < 2048 then (if data = [] then [] else [Printed data]) @ [Printed crlf] else []),
     if length data < 2048 then Returned s [] else Faulted)"
  using assms by (auto simp: nwy_cli_http_result_cb_def nwy_cli_https_result_cb_def http_data_def print_pieces_run logged_def)

theorem http_data_shown_witness:
  "snd (run (nwy_cli_http_result_cb (Some (6, replicate 2048 65))) net_start [answers 1]) = Faulted"
  using http_data_shown [of "replicate 2048 65" 1 nwy_cli_http_result_cb "''HTTP recv data len ''" net_start] by simp

section \<open>Addresses and ports\<close>

lemma scan_d_fmt:
  assumes "0 \<le> v" and "v \<le> int_max" and "r = [] \<or> \<not> is_digit (hd r)"
  shows "scan_d_cli (fmt_d v @ r) = Some (v, r)"
proof -
  let ?ds = "dec_digits (nat v)"
  have d: "list_all is_digit ?ds" "?ds \<noteq> []" by (simp_all add: dec_digits_are_digits)
  then have h: "is_digit (hd ?ds)" by (cases ?ds) auto
  then have s: "\<not> is_space (hd ?ds)" "hd ?ds \<noteq> 45" "hd ?ds \<noteq> 43" by (auto simp: is_digit_def is_space_def word_le_def)
  have sp: "dropWhile is_space (?ds @ r) = ?ds @ r" using d(2) s(1) by (cases ?ds) auto
  have t: "takeWhile is_digit (?ds @ r) = ?ds" "dropWhile is_digit (?ds @ r) = r"
    using d(1) assms(3) by (auto simp: list_all_iff takeWhile_append2 dropWhile_append2 takeWhile_eq_Nil_iff dropWhile_eq_self_iff)
  show ?thesis using assms d(2) s t sp by (simp add: scan_d_cli_def fmt_d_def Let_def digits_val_dec_digits hd_append2)
qed

lemma dot_no_digit: "\<not> is_digit 46"
  by (simp add: is_digit_def)

text \<open>C30: the addresses of the socket functions. A text of four numbers, at most 15 characters, is accepted exactly if the first
  three are below 256; the fourth is not looked at, nor is what follows it. An accepted address is kept as its four numbers,
  without what follows. A port is accepted exactly if it is made of digits and lies between 1 and 65535.\<close>

theorem address_check:
  assumes "0 \<le> a" "0 \<le> b" "0 \<le> c" "0 \<le> d" and "list_all (\<lambda>v. v \<le> int_max) [a, b, c, d]" and "r = [] \<or> \<not> is_digit (hd r)" and "0 \<notin> set r"
    and "length (dotted_cli a b c d @ r) \<le> 15" and "16 \<le> length post"
  shows "(if a \<le> 255 \<and> b \<le> 255 \<and> c \<le> 255
      then \<exists>h. nwy_hostname_check_cli ((dotted_cli a b c d @ r) @ 0 # post) = Some (Inr h) \<and> arr_text h = Some (dotted_cli a b c d)
      else nwy_hostname_check_cli ((dotted_cli a b c d @ r) @ 0 # post) = Some (Inl (-1))) \<and>
    nwy_port_get_cli t = (if t \<noteq> [] \<and> list_all is_digit t \<and> 1 \<le> digits_val t \<and> digits_val t \<le> 65535 then Inr (digits_val t) else Inl (-2))"
proof
  let ?host = "(dotted_cli a b c d @ r) @ 0 # post"
  have z: "0 \<notin> set (dotted_cli a b c d)" by (simp add: dotted_cli_def)
  then have "0 \<notin> set (dotted_cli a b c d @ r)" using assms(7) by simp
  from c_str_append_zero [OF this] have t: "arr_text ?host = Some (dotted_cli a b c d @ r)"
    by (simp add: arr_text_def terminated_def)
  have q: "scan_quad (dotted_cli a b c d @ r) = Some (a, b, c, d)"
    using assms(1-6) by (simp add: scan_quad_def dotted_cli_def scan_d_fmt dot_no_digit scan_dot_cli_def)
  show "if a \<le> 255 \<and> b \<le> 255 \<and> c \<le> 255
      then \<exists>h. nwy_hostname_check_cli ?host = Some (Inr h) \<and> arr_text h = Some (dotted_cli a b c d) else nwy_hostname_check_cli ?host = Some (Inl (-1))"
  proof (cases "a \<le> 255 \<and> b \<le> 255 \<and> c \<le> 255")
    case True
    have l: "length (dotted_cli a b c d) \<le> 15" using assms(8) by simp
    have x: "c_strcpy (replicate 32 0) (dotted_cli a b c d) = Some (dotted_cli a b c d @ 0 # replicate (31 - length (dotted_cli a b c d)) 0)"
      using l by (simp add: c_strcpy_def buf_write_def)
    have x2: "arr_text (dotted_cli a b c d @ 0 # rest) = Some (dotted_cli a b c d)" for rest
      using c_str_append_zero [OF z] by (simp add: arr_text_def terminated_def)
    obtain h1 where h1: "buf_fill ?host 0 0 4 = Some h1" "length h1 = length ?host" using assms(9) by (auto simp: buf_fill_def buf_write_def)
    have "c_strcpy h1 (dotted_cli a b c d) = Some (dotted_cli a b c d @ 0 # drop (Suc (length (dotted_cli a b c d))) h1)"
      using l h1(2) assms(9) by (simp add: c_strcpy_def buf_write_def)
    then show ?thesis using True t q x x2 h1 assms(1-4,8) by (simp add: nwy_hostname_check_cli_def)
  qed (use t q assms(8) in \<open>auto simp: nwy_hostname_check_cli_def\<close>)
  have p: "port_loop t = list_all is_digit t" for t by (induction t) (auto simp: is_digit_def)
  have e: "c_atoi [] = 0" by (simp add: c_atoi_def int_max_def)
  show "nwy_port_get_cli t = (if t \<noteq> [] \<and> list_all is_digit t \<and> 1 \<le> digits_val t \<and> digits_val t \<le> 65535 then Inr (digits_val t) else Inl (-2))"
    using atoi_digits [of t "[]"] e by (cases "t = []") (auto simp: nwy_port_get_cli_def p Let_def int_max_def)
qed

theorem address_check_witness:
  "(\<exists>h. nwy_hostname_check_cli ((dotted_cli 10 0 0 999 @ str ''.7'') @ 0 # replicate 116 0) = Some (Inr h) \<and> arr_text h = Some (dotted_cli 10 0 0 999)) \<and>
   nwy_port_get_cli (str ''80'') = Inr 80"
proof -
  have f: "fmt_d 10 = [49, 48]" "fmt_d 0 = [48]" "fmt_d 999 = [57, 57, 57]" by (simp_all add: fmt_d_def dec_digits.simps)
  show ?thesis
    using address_check [where a = 10 and b = 0 and c = 0 and d = 999 and r = "str ''.7''" and post = "replicate 116 0" and t = "str ''80''"]
    by (simp add: int_max_def str_def is_digit_def dotted_cli_def f digits_val_def)
qed

section \<open>A recording and its playback\<close>

text \<open>How much of the pieces is kept: a piece that would fill the buffer is left out.\<close>

definition captured :: "int \<Rightarrow> buf list \<Rightarrow> int" where
  "captured c ps = foldl (\<lambda>c p. if c + int (length p) < int AUDIO_RECORDER_DATA_LEN then c + int (length p) else c) c ps"

lemma captured_simps [simp]: "captured c [] = c"
    "captured c (p # ps) = captured (if c + int (length p) < int AUDIO_RECORDER_DATA_LEN then c + int (length p) else c) ps"
  by (simp_all add: captured_def)

lemma capture_run:
  assumes "audio_buf s = Some ab" and "length ab = AUDIO_RECORDER_DATA_LEN" and "0 \<le> capture_len s" and "capture_len s < int AUDIO_RECORDER_DATA_LEN"
  shows "\<exists>l ab'. run (each capture_callback ps) s es = (l, Returned (s\<lparr>audio_buf := Some ab', capture_len := captured (capture_len s) ps\<rparr>) es) \<and>
    length ab' = AUDIO_RECORDER_DATA_LEN \<and> 0 \<le> captured (capture_len s) ps \<and> captured (capture_len s) ps < int AUDIO_RECORDER_DATA_LEN"
  using assms
proof (induction ps arbitrary: s ab)
  case Nil
  have eq: "s\<lparr>audio_buf := Some ab, capture_len := capture_len s\<rparr> = s" using Nil(1) by (cases s) simp
  show ?case unfolding each_simps run.simps captured_simps
    by (rule exI [of _ "[]"], rule exI [of _ ab]) (use Nil(2-4) in \<open>simp only: eq simp_thms\<close>)
next
  case (Cons p ps)
  show ?case
  proof (cases "capture_len s + int (length p) < int AUDIO_RECORDER_DATA_LEN")
    case True
    obtain ab1 where w: "buf_write ab (nat (capture_len s)) p = Some ab1" "length ab1 = AUDIO_RECORDER_DATA_LEN"
    proof -
      have "nat (capture_len s) + length p \<le> length ab" using True Cons.prems(2,3) by linarith
      then show thesis using that Cons.prems(2) by (simp add: buf_write_def)
    qed
    let ?s = "s\<lparr>audio_buf := Some ab1, capture_len := capture_len s + int (length p)\<rparr>"
    obtain l ab' where "run (each capture_callback ps) ?s es = (l, Returned (?s\<lparr>audio_buf := Some ab', capture_len := captured (capture_len ?s) ps\<rparr>) es)"
        "length ab' = AUDIO_RECORDER_DATA_LEN" "0 \<le> captured (capture_len ?s) ps" "captured (capture_len ?s) ps < int AUDIO_RECORDER_DATA_LEN"
      using Cons.IH [of ?s ab1] w Cons.prems(3) True by auto
    moreover have "run (capture_callback p) s es = ([], Returned ?s es)" using True w Cons.prems(1) by (simp add: capture_callback_def)
    ultimately show ?thesis using True by (auto simp: run_followed_by)
  next
    case False
    then have "run (capture_callback p) s es = ([Printed (str ''recorder data is overflow'' @ crlf)], Returned s es)" by (simp add: capture_callback_def logged_def)
    then show ?thesis using False Cons.IH [OF Cons.prems] by (auto simp: run_followed_by)
  qed
qed

lemma play_loop_faults_iff:
  assumes "audio_buf s = Some ab" and "length ab = AUDIO_RECORDER_DATA_LEN" and "\<And>es. snd (run d s es) \<noteq> Faulted"
  shows "n \<le> length vs \<Longrightarrow> i \<le> 48960 \<Longrightarrow> 49152 \<le> i + 320 * n \<Longrightarrow> 320 dvd i \<Longrightarrow>
    snd (run (play_loop n i d) s (map answers vs)) = Faulted \<longleftrightarrow> 48960 < capture_len s"
proof (induction n arbitrary: i vs)
  case (Suc n)
  obtain v ws where vs: "vs = v # ws" "n \<le> length ws" using Suc.prems(1) by (cases vs) auto
  show ?case
  proof (cases "int i < capture_len s")
    case True
    show ?thesis
    proof (cases "i = 48960")
      case False
      then have i: "i + 320 \<le> 48960" using Suc.prems(2,4) by presburger
      then have "buf_read ab i 320 = Some (take 320 (drop i ab))" using assms(2) by (simp add: buf_read_def AUDIO_RECORDER_DATA_LEN_def)
      moreover have "49152 \<le> (i + 320) + 320 * n" "320 dvd i + 320" using Suc.prems(3,4) by simp_all
      ultimately show ?thesis using True assms(1) Suc.IH [OF vs(2) i] vs(1) by simp
    qed (use True assms(1,2) in \<open>simp add: buf_read_def AUDIO_RECORDER_DATA_LEN_def\<close>)
  qed (use assms(3) Suc.prems(2) in \<open>simp\<close>)
qed simp

text \<open>C20: what is recorded can be played, almost always. However the recorder delivers its data, the callback stays inside the
  buffer of 49152 bytes and keeps less than that; the player, which takes blocks of 320 bytes, reads behind the buffer exactly
  if more than 48960 bytes (153 blocks) were kept.\<close>

theorem recording_played:
  assumes "audio_buf s = Some ab" and "length ab = AUDIO_RECORDER_DATA_LEN" and "capture_len s = 0" and "160 \<le> length vs"
  shows "\<exists>l s'. run (each capture_callback ps) s es = (l, Returned s' es) \<and> capture_len s' = captured 0 ps \<and>
    captured 0 ps < 49152 \<and> (snd (run nwy_test_cli_audio_play s' (map answers vs)) = Faulted \<longleftrightarrow> 48960 < captured 0 ps)"
proof -
  obtain l ab' where r: "run (each capture_callback ps) s es = (l, Returned (s\<lparr>audio_buf := Some ab', capture_len := captured 0 ps\<rparr>) es)"
      and l: "length ab' = AUDIO_RECORDER_DATA_LEN" "captured 0 ps < int AUDIO_RECORDER_DATA_LEN"
    using capture_run [OF assms(1,2), of ps es] assms(3) by (auto simp: AUDIO_RECORDER_DATA_LEN_def)
  obtain v ws where vs: "vs = v # ws" "154 \<le> length ws" using assms(4) by (cases vs) auto
  let ?s = "s\<lparr>audio_buf := Some ab', capture_len := captured 0 ps\<rparr>"
  have "snd (run nwy_test_cli_audio_play ?s (map answers vs)) = Faulted \<longleftrightarrow> 48960 < capture_len ?s"
    unfolding nwy_test_cli_audio_play_def vs(1)
    using play_loop_faults_iff [OF _ l(1), of ?s _ 154 ws 0] vs(2) by (simp add: echo_def split: list.split)
  with r l(2) show ?thesis by (auto simp: AUDIO_RECORDER_DATA_LEN_def)
qed

theorem recording_played_witness:
  "let s = net_start\<lparr>audio_buf := Some (replicate AUDIO_RECORDER_DATA_LEN 0)\<rparr>; ps = [replicate 49000 1]
   in \<exists>l s'. run (each capture_callback ps) s [] = (l, Returned s' []) \<and> capture_len s' = captured 0 ps \<and>
    captured 0 ps < 49152 \<and> (snd (run nwy_test_cli_audio_play s' (map answers (replicate 160 0))) = Faulted \<longleftrightarrow> 48960 < captured 0 ps)"
  unfolding Let_def by (rule recording_played [where ab = "replicate AUDIO_RECORDER_DATA_LEN 0"]) (simp_all add: net_start_def)

section \<open>Names\<close>

text \<open>C37: the lengths of names for which the functions leave their arrays, exactly: a safe file with a name of just 64
  characters (longer ones are refused), 64 and more for either name of a renamed file, 128 for a file to fetch by FTP, 124 for one
  to delete, 18 for a Bluetooth address, 129 for the address of a connection, 512 for a URL.\<close>

theorem cli_name_limits:
  assumes "0 \<notin> set t" and "length t < 2048"
  shows "(snd (run nwy_test_cli_safe_fs_write s [enter t, enter (str ''hi''), ok]) = Faulted \<longleftrightarrow> length t = 64) \<and>
    (snd (run nwy_test_cli_fs_rename s [enter t, enter (str ''hi''), ok]) = Faulted \<longleftrightarrow> 64 \<le> length t) \<and>
    (snd (run nwy_test_cli_fs_rename s [enter (str ''hi''), enter t, ok]) = Faulted \<longleftrightarrow> 64 \<le> length t) \<and>
    (snd (run nwy_test_cli_ftp_fsize s [enter t, ok]) = Faulted \<longleftrightarrow> 128 \<le> length t) \<and>
    (snd (run nwy_test_cli_ftp_delet s [enter t, answers (-1)]) = Faulted \<longleftrightarrow> 124 \<le> length t) \<and>
    (snd (run nwy_test_cli_ble_client_connect s [enter (str ''0''), enter t, ok]) = Faulted \<longleftrightarrow> 18 \<le> length t) \<and>
    (snd (run (ask_address (\<lambda>url port. Done)) s [enter t, enter (str ''80'')]) = Faulted \<longleftrightarrow> 129 \<le> length t) \<and>
    (snd (run nwy_test_cli_http_setup s [enter (str ''2''), enter t, enter (str ''0''), enter (str ''0''), ok]) = Faulted \<longleftrightarrow> 512 \<le> length t)"
proof -
  have nc: "c_strncpy (replicate n 0) 0 (line (enter x)) n = Some (take n x @ replicate (n - length x) 0)" if "0 \<notin> set x" "length x < 2048" for n x
    using that by (simp add: c_strncpy_def buf_write_def line_of_enter)
  have at: "arr_text (take n x @ replicate (n - length x) 0) = (if length x < n then Some x else None)" if "0 \<notin> set x" for n x
    using that arr_text_fill [of x "n - length x"] arr_text_open [of "take n x"] by (cases "length x < n") (auto dest: in_set_takeD)
  have cp: "c_strcpy (replicate n 0) x = (if length x < n then Some (x @ 0 # replicate (n - length x - 1) 0) else None)" for n x
    by (simp add: c_strcpy_def buf_write_def)
  have "c_str (str ''/nwy/'' @ replicate 124 0) = str ''/nwy/''" by (rule trans [OF _ c_str_append_zero [of _ "replicate 123 0"]]) (simp_all add: str_def flip: replicate_Suc)
  then have cat: "c_strcat (str ''/nwy/'' @ replicate 124 0) t = (if length t < 124 then Some (str ''/nwy/'' @ t @ 0 # drop (5 + length t + 1) (str ''/nwy/'' @ replicate 124 0)) else None)"
    using c_strcat_Some [of "str ''/nwy/'' @ replicate 124 0" t] c_strcat_None [of "str ''/nwy/'' @ replicate 124 0" t] by (simp add: terminated_def)
  have d: "nwy_cli_check_str_isdigit (str ''0'')" "c_atoi (str ''0'') = 0" by (simp_all add: str_def c_atoi_def is_space_def is_digit_def digits_val_def int_max_def)
  have p: "nwy_port_get_cli (str ''80'') = Inr 80" by (simp add: nwy_port_get_cli_def str_def c_atoi_def is_space_def is_digit_def digits_val_def int_max_def)
  have hi: "0 \<notin> set (str ''80'')" "c_atoi (str ''2'') = 2" by (simp_all add: str_def c_atoi_def is_space_def is_digit_def digits_val_def int_max_def)
  note facts = p hi arr_text_fill [OF assms(1)] arr_text_fill [of "str ''hi''"] arr_text_open assms nc at cp cat d arr_text_enter run_ask_int line_copy_enter need_if Let_def
  show ?thesis
    by (intro conjI) (simp_all add: facts nwy_test_cli_safe_fs_write_def ask_filename_def ask_name_def report_def nwy_test_cli_fs_rename_def
        nwy_test_cli_ftp_fsize_def ask_text_def tell_result_def nwy_test_cli_ftp_delet_def terminated_def nwy_test_cli_ble_client_connect_def
        echo_either_def echo_def ask_address_def nwy_test_cli_http_setup_def nwy_cli_https_choice_def tell_choice_def)
qed

theorem cli_name_limits_witness:
  "snd (run nwy_test_cli_safe_fs_write net_start [enter (replicate 64 65), enter (str ''hi''), answers 0]) = Faulted \<and>
   snd (run nwy_test_cli_safe_fs_write net_start [enter (replicate 63 65), enter (str ''hi''), answers 0]) \<noteq> Faulted"
  using cli_name_limits [of "replicate 64 65" net_start "answers 0"] cli_name_limits [of "replicate 63 65" net_start "answers 0"] by simp

section \<open>Two functions that do something else\<close>

text \<open>The data that are posted by HTTP are not those that were entered: the choice between HTTP and HTTPS is asked for afterwards,
  into the same array, and its line is what is sent.\<close>

lemma http_post_posts_choice:
  assumes "0 \<notin> set t" and "length t < 2048"
  shows "Called ''nwy_http_post'' [I (c_atoi (str ''0'')), I (c_atoi (str ''2'')), T t, I (int (length t)), I (if c_atoi t \<noteq> 0 then 1 else 0)]
    \<in> set (fst (run nwy_test_cli_http_post s [enter (str ''0''), enter (str ''2''), data, enter t, ok]))"
  using assms by (simp add: nwy_test_cli_http_post_def run_ask_int arr_text_enter)

text \<open>A connection that is refused is reported as set up, and a thread is started for it, if the flag of an earlier connection is
  still set; closing a connection from the menu does not clear it.\<close>

lemma refused_connection:
  assumes "n = Suc m" and "start \<le> now" and "now - start < 10000" and "c \<noteq> 0" and "e \<notin> {119, 120, 127}" and "th \<noteq> 0"
  shows "\<exists>l. run (nwy_cli_tcp_connect n addr k) s (map answers ([start, now, c, e, e, e, e, 0] @ (if s_nwy_tcp_connect_flag s \<noteq> 0 then [th] else []))) =
    (if s_nwy_tcp_connect_flag s \<noteq> 0
     then (l @ fst (run (k 0) (s\<lparr>s_nwy_cli_tcp_fd := 0, s_nwy_tcp_recv_thread := th\<rparr>) []), snd (run (k 0) (s\<lparr>s_nwy_cli_tcp_fd := 0, s_nwy_tcp_recv_thread := th\<rparr>) []))
     else (l @ fst (run (k (-1)) (s\<lparr>s_nwy_cli_tcp_fd := 0\<rparr>) []), snd (run (k (-1)) (s\<lparr>s_nwy_cli_tcp_fd := 0\<rparr>) [])))"
proof (cases "s_nwy_tcp_connect_flag s \<noteq> 0")
  case True
  then show ?thesis using assms
    by (intro exI [of _ "fst (run (nwy_cli_tcp_connect n addr (\<lambda>r. Done)) s (map answers ([start, now, c, e, e, e, e, 0] @ [th])))"])
      (simp add: nwy_cli_tcp_connect_def destory_tcp_def nwy_cli_socket_destory_def tcp_connected_def Let_def logged_def)
next
  case False
  then show ?thesis using assms
    by (intro exI [of _ "fst (run (nwy_cli_tcp_connect n addr (\<lambda>r. Done)) s (map answers [start, now, c, e, e, e, e, 0]))"])
      (simp add: nwy_cli_tcp_connect_def destory_tcp_def nwy_cli_socket_destory_def tcp_connected_def Let_def logged_def)
qed

lemma close_keeps_flag: "snd (run nwy_test_cli_tcp_close s [answers 0]) = Returned (s\<lparr>s_nwy_cli_tcp_fd := 0\<rparr>) []"
  by (simp add: nwy_test_cli_tcp_close_def destory_tcp_def nwy_cli_socket_destory_def)

end
