(* ===== verification/Semaphore.thy ===== *)
theory Semaphore
  imports CliOs
begin

text \<open>
  The semaphore test of src/nwy_test_cli/modules/nwy_test_cli_os.c under every interleaving. The two threads are dialogs of
  theory \<open>CliOs\<close>; a schedule chooses, statement by statement, which one goes on. A thread that acquires the semaphore while
  the other holds it is blocked. Whatever the schedule, the counting loops do not overlap.
\<close>

section \<open>Two threads and a semaphore\<close>

text \<open>One statement of a thread: the new variables and semaphore count, the rest of the thread and what it prints. \<open>None\<close>: the
  thread is blocked or has ended.\<close>

definition no_answer :: answer where
  "no_answer = \<lparr>ret = 0, num = \<lambda>i. 0, text_of = \<lambda>i. []\<rparr>"

fun task_next :: "os_vars \<Rightarrow> nat \<Rightarrow> os_vars dialog \<Rightarrow> (os_vars \<times> nat \<times> os_vars dialog \<times> buf list) option" where
  "task_next v n Done = None"
| "task_next v n Fault = None"
| "task_next v n (Print t d) = Some (v, n, d, [t])"
| "task_next v n (Ask p k) = None"
| "task_next v n (Call f as k) =
     (if f = ''nwy_semaphore_acquire'' then (if n = 0 then None else Some (v, n - 1, k no_answer, []))
      else Some (v, if f = ''nwy_semahpore_release'' then n + 1 else n, k no_answer, []))"
| "task_next v n (Pause m d) = Some (v, n, d, [])"
| "task_next v n (Get k) = Some (v, n, k v, [])"
| "task_next v n (Put f d) = Some (f v, n, d, [])"

record two_tasks =
  task_vars :: os_vars
  sem :: nat
  taskA :: "os_vars dialog"
  taskB :: "os_vars dialog"
  shown :: "buf list"

text \<open>\<open>True\<close> lets the first thread go on, \<open>False\<close> the second; a blocked thread leaves everything as it is.\<close>

definition schedule_step :: "two_tasks \<Rightarrow> bool \<Rightarrow> two_tasks" where
  "schedule_step st b =
     (case task_next (task_vars st) (sem st) (if b then taskA st else taskB st) of
        None \<Rightarrow> st
      | Some (v, n, d, out) \<Rightarrow>
          if b then st\<lparr>task_vars := v, sem := n, taskA := d, shown := shown st @ out\<rparr>
          else st\<lparr>task_vars := v, sem := n, taskB := d, shown := shown st @ out\<rparr>)"

definition interleave :: "two_tasks \<Rightarrow> bool list \<Rightarrow> two_tasks" where
  "interleave st bs = foldl schedule_step st bs"

text \<open>After \<open>nwy_test_cli_set_semp\<close>: the count is 0 and the semaphore \<open>h\<close>, created with the values 1 and 1, is free.\<close>

definition sem_start :: "int \<Rightarrow> two_tasks" where
  "sem_start h =
     \<lparr>task_vars = \<lparr>s_nwy_test_timer = 0, s_nwy_semaphore_count = 0, s_nwy_cli_semaphore = h, s_nwy_at_init_flag = 0\<rparr>,
      sem = 1, taskA = nwy_cli_semaphore_taskA_proc, taskB = nwy_cli_semaphore_taskB_proc, shown = []\<rparr>"

section \<open>The positions of a thread\<close>

text \<open>Both threads count in a loop: by \<open>st\<close>, for \<open>N\<close> rounds, printing a label.\<close>

fun count_loop :: "string \<Rightarrow> int \<Rightarrow> nat \<Rightarrow> os_vars dialog \<Rightarrow> os_vars dialog" where
  "count_loop l st 0 d = d"
| "count_loop l st (Suc n) d =
     Put (\<lambda>s. s\<lparr>s_nwy_semaphore_count := s_nwy_semaphore_count s + st\<rparr>)
       (Get (\<lambda>s. Print (crlf @ str l @ fmt_d (s_nwy_semaphore_count s)) (Pause 10 (count_loop l st n d))))"

lemma taskA_loop_eq: "taskA_loop n d = count_loop ''TaskA semaphore_count = '' 1 n d"
  by (induction n) simp_all

lemma taskB_loop_eq: "taskB_loop n d = count_loop ''TaskB semaphore_count = '' (- 1) n d"
  by (induction n) simp_all

datatype phase = Start | Acquire | Top nat | Bump nat | Show nat int | Nap nat | Release | Exit | Over

record counter =
  label :: string
  stride :: int
  rounds :: nat

fun dialog_at :: "int \<Rightarrow> counter \<Rightarrow> phase \<Rightarrow> os_vars dialog" where
  "dialog_at h c Start = Get (\<lambda>s. Call ''nwy_semaphore_acquire'' [I (s_nwy_cli_semaphore s), I 0] (\<lambda>a. count_loop (label c) (stride c) (rounds c) task_end))"
| "dialog_at h c Acquire = Call ''nwy_semaphore_acquire'' [I h, I 0] (\<lambda>a. count_loop (label c) (stride c) (rounds c) task_end)"
| "dialog_at h c (Top k) = count_loop (label c) (stride c) k task_end"
| "dialog_at h c (Bump k) = Get (\<lambda>s. Print (crlf @ str (label c) @ fmt_d (s_nwy_semaphore_count s)) (Pause 10 (count_loop (label c) (stride c) k task_end)))"
| "dialog_at h c (Show k v) = Print (crlf @ str (label c) @ fmt_d v) (Pause 10 (count_loop (label c) (stride c) k task_end))"
| "dialog_at h c (Nap k) = Pause 10 (count_loop (label c) (stride c) k task_end)"
| "dialog_at h c Release = Call ''nwy_semahpore_release'' [I h] (\<lambda>a. Call ''nwy_exit_thread'' [] (\<lambda>a. Done))"
| "dialog_at h c Exit = Call ''nwy_exit_thread'' [] (\<lambda>a. Done)"
| "dialog_at h c Over = Done"

text \<open>The same step on positions: count, semaphore, next position, the number printed.\<close>

fun phase_next :: "counter \<Rightarrow> int \<Rightarrow> nat \<Rightarrow> phase \<Rightarrow> (int \<times> nat \<times> phase \<times> int list) option" where
  "phase_next c v n Start = Some (v, n, Acquire, [])"
| "phase_next c v n Acquire = (if n = 0 then None else Some (v, n - 1, Top (rounds c), []))"
| "phase_next c v n (Top 0) = Some (v, n, Release, [])"
| "phase_next c v n (Top (Suc k)) = Some (v + stride c, n, Bump k, [])"
| "phase_next c v n (Bump k) = Some (v, n, Show k v, [])"
| "phase_next c v n (Show k w) = Some (v, n, Nap k, [w])"
| "phase_next c v n (Nap k) = Some (v, n, Top k, [])"
| "phase_next c v n Release = Some (v, n + 1, Exit, [])"
| "phase_next c v n Exit = Some (v, n, Over, [])"
| "phase_next c v n Over = None"

definition show_line :: "counter \<Rightarrow> int \<Rightarrow> buf" where
  "show_line c v = crlf @ str (label c) @ fmt_d v"

definition with_count :: "int \<Rightarrow> int \<Rightarrow> os_vars" where
  "with_count h v = \<lparr>s_nwy_test_timer = 0, s_nwy_semaphore_count = v, s_nwy_cli_semaphore = h, s_nwy_at_init_flag = 0\<rparr>"

lemma task_next_phase:
  "task_next (with_count h v) n (dialog_at h c p) =
     map_option (\<lambda>(v', n', p', ws). (with_count h v', n', dialog_at h c p', map (show_line c) ws)) (phase_next c v n p)"
  by (cases "(c, v, n, p)" rule: phase_next.cases) (simp_all add: with_count_def task_end_def show_line_def)

section \<open>The loops do not overlap\<close>

fun holds :: "phase \<Rightarrow> nat" where
  "holds Start = 0" | "holds Acquire = 0" | "holds Exit = 0" | "holds Over = 0" | "holds p = 1"

definition started :: "phase \<Rightarrow> bool" where
  "started p = (p \<noteq> Start \<and> p \<noteq> Acquire)"

definition finished :: "phase \<Rightarrow> bool" where
  "finished p = (p = Exit \<or> p = Over)"

text \<open>Rounds counted and rounds printed, and whether a position occurs in a run that began at the count \<open>base\<close>.\<close>

fun counted :: "counter \<Rightarrow> phase \<Rightarrow> nat" where
  "counted c Start = 0" | "counted c Acquire = 0" | "counted c (Top k) = rounds c - k" | "counted c (Bump k) = rounds c - k"
| "counted c (Show k v) = rounds c - k" | "counted c (Nap k) = rounds c - k" | "counted c p = rounds c"

fun printed :: "counter \<Rightarrow> phase \<Rightarrow> nat" where
  "printed c (Bump k) = rounds c - k - 1" | "printed c (Show k v) = rounds c - k - 1" | "printed c p = counted c p"

fun phase_ok :: "counter \<Rightarrow> int \<Rightarrow> phase \<Rightarrow> bool" where
  "phase_ok c base (Top k) = (k \<le> rounds c)" | "phase_ok c base (Bump k) = (k < rounds c)"
| "phase_ok c base (Show k v) = (k < rounds c \<and> v = base + stride c * int (rounds c - k))" | "phase_ok c base (Nap k) = (k < rounds c)"
| "phase_ok c base p = True"

definition count_lines :: "counter \<Rightarrow> int \<Rightarrow> nat \<Rightarrow> buf list" where
  "count_lines c base m = map (\<lambda>i. show_line c (base + stride c * int (Suc i))) [0..<m]"

lemma count_lines_Suc: "count_lines c base (Suc m) = count_lines c base m @ [show_line c (base + stride c * int (Suc m))]"
  by (simp add: count_lines_def)

lemma count_lines_show:
  "k < rounds c \<Longrightarrow> base + stride c * int (rounds c) = v + int k * stride c \<Longrightarrow>
    count_lines c base (rounds c - Suc k) @ [show_line c v] = count_lines c base (rounds c - k)"
proof -
  assume k: "k < rounds c" and v: "base + stride c * int (rounds c) = v + int k * stride c"
  have "v = base + stride c * int (rounds c - k)" using v k by (simp add: of_nat_diff algebra_simps)
  moreover have "rounds c - k = Suc (rounds c - Suc k)" using k by simp
  ultimately show ?thesis using count_lines_Suc [of c base "rounds c - Suc k"] by simp
qed

lemmas count_lines_show0 = count_lines_show [where base = 0, simplified]

text \<open>The thread \<open>c\<close> goes first.\<close>

definition goes_first :: "counter \<Rightarrow> phase \<Rightarrow> counter \<Rightarrow> phase \<Rightarrow> int \<Rightarrow> nat \<Rightarrow> buf list \<Rightarrow> bool" where
  "goes_first c p c' p' v n out =
     (phase_ok c 0 p \<and> phase_ok c' (stride c * int (rounds c)) p' \<and> n + holds p + holds p' = 1 \<and>
      v = stride c * int (counted c p) + stride c' * int (counted c' p') \<and> (started p' \<longrightarrow> finished p) \<and>
      out = count_lines c 0 (printed c p) @ count_lines c' (stride c * int (rounds c)) (printed c' p'))"

lemma first_steps:
  assumes "goes_first c p c' p' v n out" and "phase_next c v n p = Some (v1, n1, p1, ws)"
  shows "goes_first c p1 c' p' v1 n1 (out @ map (show_line c) ws)"
proof -
  have waits: "counted c' p' = 0 \<and> printed c' p' = 0" if "\<not> started p'" using that by (auto simp: started_def)
  show ?thesis
  proof (cases "finished p")
    case True
    then show ?thesis using assms by (auto simp: goes_first_def finished_def)
  next
    case False
    then have "\<not> started p'" using assms(1) by (auto simp: goes_first_def)
    with waits assms show ?thesis
      by (cases "(c, v, n, p)" rule: phase_next.cases)
        (auto simp: goes_first_def finished_def count_lines_show0 Suc_diff_le count_lines_def [of c' _ 0] algebra_simps split: if_splits)
  qed
qed

lemma second_steps:
  assumes "goes_first c p c' p' v n out" and "phase_next c' v n p' = Some (v1, n1, p1, ws)"
  shows "goes_first c p c' p1 v1 n1 (out @ map (show_line c') ws) \<or> goes_first c' p1 c p v1 n1 (out @ map (show_line c') ws)"
proof (cases "finished p")
  case True
  then have f: "holds p = 0" "counted c p = rounds c" "printed c p = rounds c" by (auto simp: finished_def)
  have "goes_first c p c' p1 v1 n1 (out @ map (show_line c') ws)"
    using assms f True
    by (cases "(c', v, n, p')" rule: phase_next.cases)
      (auto simp: goes_first_def finished_def started_def count_lines_show Suc_diff_le algebra_simps count_lines_def [of c' _ 0] split: if_splits)
  then show ?thesis ..
next
  case False
  then have w: "\<not> started p'" using assms(1) by (auto simp: goes_first_def)
  show ?thesis
  proof (cases "p' = Acquire \<and> \<not> started p")
    case True
    then have "goes_first c' p1 c p v1 n1 (out @ map (show_line c') ws)"
      using assms by (auto simp: goes_first_def started_def count_lines_def split: if_splits)
    then show ?thesis ..
  next
    case free: False
    then have "p' = Start \<or> p' = Acquire \<and> holds p = 1"
      using w False by (cases p) (auto simp: started_def finished_def)
    then have "goes_first c p c' p1 v1 n1 (out @ map (show_line c') ws)"
      using assms by (auto simp: goes_first_def started_def)
    then show ?thesis ..
  qed
qed

section \<open>Every schedule\<close>

definition countA :: counter where
  "countA = \<lparr>label = ''TaskA semaphore_count = '', stride = 1, rounds = 100\<rparr>"

definition countB :: counter where
  "countB = \<lparr>label = ''TaskB semaphore_count = '', stride = - 1, rounds = 50\<rparr>"

definition at_phases :: "int \<Rightarrow> two_tasks \<Rightarrow> phase \<Rightarrow> phase \<Rightarrow> int \<Rightarrow> bool" where
  "at_phases h st p q v =
     (task_vars st = with_count h v \<and> taskA st = dialog_at h countA p \<and> taskB st = dialog_at h countB q \<and>
      (goes_first countA p countB q v (sem st) (shown st) \<or> goes_first countB q countA p v (sem st) (shown st)))"

lemma start_phases: "at_phases h (sem_start h) Start Start 0"
  by (simp add: at_phases_def sem_start_def with_count_def nwy_cli_semaphore_taskA_proc_def nwy_cli_semaphore_taskB_proc_def
      taskA_loop_eq taskB_loop_eq countA_def countB_def goes_first_def started_def count_lines_def)

text \<open>The steps a thread has left.\<close>

fun steps_left :: "counter \<Rightarrow> phase \<Rightarrow> nat" where
  "steps_left c Start = 4 * rounds c + 5" | "steps_left c Acquire = 4 * rounds c + 4" | "steps_left c (Top k) = 4 * k + 3"
| "steps_left c (Bump k) = 4 * k + 6" | "steps_left c (Show k v) = 4 * k + 5" | "steps_left c (Nap k) = 4 * k + 4"
| "steps_left c Release = 2" | "steps_left c Exit = 1" | "steps_left c Over = 0"

lemma phase_next_left: "phase_next c v n p = Some (v1, n1, p1, ws) \<Longrightarrow> steps_left c p1 < steps_left c p"
  by (cases "(c, v, n, p)" rule: phase_next.cases) (auto split: if_splits)

lemma step_phases:
  assumes "at_phases h st p q v"
  shows "\<exists>p' q' v'. at_phases h (schedule_step st b) p' q' v' \<and>
    (if (if b then phase_next countA v (sem st) p else phase_next countB v (sem st) q) = None then schedule_step st b = st \<and> p' = p \<and> q' = q
     else steps_left countA p' + steps_left countB q' < steps_left countA p + steps_left countB q)"
proof -
  have v: "task_vars st = with_count h v" "taskA st = dialog_at h countA p" "taskB st = dialog_at h countB q" using assms by (auto simp: at_phases_def)
  show ?thesis
  proof (cases "if b then phase_next countA v (sem st) p else phase_next countB v (sem st) q")
    case None
    then have "schedule_step st b = st" by (auto simp: schedule_step_def v task_next_phase split: if_splits)
    with None assms show ?thesis by auto
  next
    case (Some r)
    obtain v1 n1 p1 ws where r: "r = (v1, n1, p1, ws)" by (cases r)
    show ?thesis
    proof (cases b)
      case True
      with Some r have s: "phase_next countA v (sem st) p = Some (v1, n1, p1, ws)" by simp
      then have "at_phases h (schedule_step st b) p1 q v1"
        using assms True first_steps [OF _ s, of countB q] second_steps [OF _ s, of countB q] v
        by (auto simp: at_phases_def schedule_step_def task_next_phase)
      then show ?thesis using phase_next_left [OF s] s True by fastforce
    next
      case False
      with Some r have s: "phase_next countB v (sem st) q = Some (v1, n1, p1, ws)" by simp
      then have "at_phases h (schedule_step st b) p p1 v1"
        using assms False first_steps [OF _ s, of countA p] second_steps [OF _ s, of countA p] v
        by (auto simp: at_phases_def schedule_step_def task_next_phase)
      then show ?thesis using phase_next_left [OF s] s False by fastforce
    qed
  qed
qed

lemma interleave_phases: "at_phases h st p q v \<Longrightarrow> \<exists>p' q' v'. at_phases h (interleave st bs) p' q' v'"
  unfolding interleave_def by (induction bs arbitrary: st p q v) (auto, metis step_phases)

text \<open>No deadlock: while a thread is not at its end, one of them can go on.\<close>

lemma can_step:
  assumes "at_phases h st p q v" and "p \<noteq> Over \<or> q \<noteq> Over"
  shows "\<exists>b. (if b then phase_next countA v (sem st) p else phase_next countB v (sem st) q) \<noteq> None"
proof (rule ccontr)
  assume "\<not> ?thesis"
  then have all: "\<forall>b. (if b then phase_next countA v (sem st) p else phase_next countB v (sem st) q) = None" by blast
  have n: "phase_next countA v (sem st) p = None" "phase_next countB v (sem st) q = None" using all [rule_format, of True] all [rule_format, of False] by simp_all
  have stuck: "x = Over \<or> x = Acquire \<and> sem st = 0" if "phase_next c v (sem st) x = None" for c x
    using that by (cases "(c, v, sem st, x)" rule: phase_next.cases) (simp_all split: if_splits)
  note stuck [OF n(1)] stuck [OF n(2)]
  then show False using assms by (auto simp: at_phases_def goes_first_def)
qed

lemma can_finish:
  "at_phases h st p q v \<Longrightarrow> \<exists>bs v'. at_phases h (interleave st bs) Over Over v'"
proof (induction "steps_left countA p + steps_left countB q" arbitrary: st p q v rule: less_induct)
  case less
  show ?case
  proof (cases "p = Over \<and> q = Over")
    case True
    then show ?thesis using less.prems by (intro exI [of _ "[]"]) (auto simp: interleave_def)
  next
    case False
    then obtain b where b: "(if b then phase_next countA v (sem st) p else phase_next countB v (sem st) q) \<noteq> None"
      using can_step [OF less.prems] by blast
    obtain p' q' v' where n: "at_phases h (schedule_step st b) p' q' v'"
        "steps_left countA p' + steps_left countB q' < steps_left countA p + steps_left countB q"
      using step_phases [OF less.prems, of b] b by auto
    from less.hyps [OF n(2,1)] obtain bs w where "at_phases h (interleave (schedule_step st b) bs) Over Over w" by blast
    then show ?thesis by (intro exI [of _ "b # bs"]) (auto simp: interleave_def)
  qed
qed

lemma count_lines_prefix: "m \<le> k \<Longrightarrow> \<exists>r. count_lines c base m @ r = count_lines c base k"
  unfolding count_lines_def by (metis le_iff_add map_append upt_add_eq_append zero_le)

lemma printed_le: "phase_ok c base p \<Longrightarrow> printed c p \<le> rounds c"
  by (cases p) auto

lemma first_text:
  assumes "goes_first c p c' p' v n out"
  shows "\<exists>rest. out @ rest = count_lines c 0 (rounds c) @ count_lines c' (stride c * int (rounds c)) (rounds c')"
proof (cases "finished p")
  case True
  then have "printed c p = rounds c" by (auto simp: finished_def)
  moreover obtain r where "count_lines c' (stride c * int (rounds c)) (printed c' p') @ r = count_lines c' (stride c * int (rounds c)) (rounds c')"
    using count_lines_prefix printed_le assms unfolding goes_first_def by blast
  ultimately show ?thesis using assms by (auto simp: goes_first_def)
next
  case False
  then have "\<not> started p'" using assms by (auto simp: goes_first_def)
  then have "printed c' p' = 0" by (auto simp: started_def)
  moreover obtain r where "count_lines c 0 (printed c p) @ r = count_lines c 0 (rounds c)"
    using count_lines_prefix printed_le assms unfolding goes_first_def by blast
  ultimately show ?thesis using assms
    by (intro exI [of _ "r @ count_lines c' (stride c * int (rounds c)) (rounds c')"])
      (auto simp: goes_first_def count_lines_def [of _ _ 0] simp flip: append_assoc)
qed

lemma dialog_done: "dialog_at h c p = Done \<longleftrightarrow> p = Over"
proof (cases p)
  case (Top k)
  then show ?thesis by (cases k) (simp_all add: task_end_def)
qed simp_all

lemma first_over:
  assumes "goes_first c Over c' Over v n out"
  shows "out = count_lines c 0 (rounds c) @ count_lines c' (stride c * int (rounds c)) (rounds c')"
    and "v = stride c * int (rounds c) + stride c' * int (rounds c')"
  using assms by (simp_all add: goes_first_def)

text \<open>C10: the semaphore test under every schedule of its two threads. What is printed is always a beginning of one of two texts:
  the 100 lines of the first thread counting up and then the 50 of the second counting down, or the other way round; the lines
  never mix. When both threads have ended, the text is complete and the count is 50. And from every state the threads can still be run to
  their end: there is no deadlock.\<close>

theorem semaphore_test_serial:
  "\<exists>whole \<in> {count_lines countA 0 100 @ count_lines countB 100 50, count_lines countB 0 50 @ count_lines countA (- 50) 100}.
     (\<exists>rest. shown (interleave (sem_start h) bs) @ rest = whole) \<and>
     (taskA (interleave (sem_start h) bs) = Done \<and> taskB (interleave (sem_start h) bs) = Done \<longrightarrow>
        shown (interleave (sem_start h) bs) = whole \<and> s_nwy_semaphore_count (task_vars (interleave (sem_start h) bs)) = 50) \<and>
     (\<exists>more. taskA (interleave (sem_start h) (bs @ more)) = Done \<and> taskB (interleave (sem_start h) (bs @ more)) = Done)"
proof -
  let ?st = "interleave (sem_start h) bs"
  obtain p q v where st: "at_phases h ?st p q v" using interleave_phases [OF start_phases] by blast
  obtain more w where "at_phases h (interleave ?st more) Over Over w" using can_finish [OF st] by blast
  then have m: "taskA (interleave (sem_start h) (bs @ more)) = Done \<and> taskB (interleave (sem_start h) (bs @ more)) = Done"
    by (simp add: at_phases_def interleave_def)
  have over: "p = Over \<and> q = Over" if "taskA ?st = Done" "taskB ?st = Done"
    using st that dialog_done [of h countA p] dialog_done [of h countB q] unfolding at_phases_def by metis
  have cnt: "s_nwy_semaphore_count (task_vars ?st) = v" using st by (simp add: at_phases_def with_count_def)
  have n: "stride countA * int (rounds countA) = 100" "stride countB * int (rounds countB) = - 50" "rounds countA = 100" "rounds countB = 50"
    by (simp_all add: countA_def countB_def)
  from st consider "goes_first countA p countB q v (sem ?st) (shown ?st)" | "goes_first countB q countA p v (sem ?st) (shown ?st)"
    by (auto simp: at_phases_def)
  then show ?thesis
  proof cases
    case 1
    then show ?thesis using first_text [OF 1] first_over [of countA countB v "sem ?st" "shown ?st"] over m cnt n by auto
  next
    case 2
    then show ?thesis using first_text [OF 2] first_over [of countB countA v "sem ?st" "shown ?st"] over m cnt n by auto
  qed
qed

theorem semaphore_test_serial_witness:
  "\<exists>bs. taskA (interleave (sem_start 1) bs) = Done \<and> taskB (interleave (sem_start 1) bs) = Done \<and>
     s_nwy_semaphore_count (task_vars (interleave (sem_start 1) bs)) = 50"
proof -
  obtain bs where "taskA (interleave (sem_start 1) bs) = Done \<and> taskB (interleave (sem_start 1) bs) = Done"
    using semaphore_test_serial [of 1 "[]"] by auto
  then show ?thesis using semaphore_test_serial [of 1 bs] by blast
qed

end
