(* ===== verification/RhinoLog.thy ===== *)
theory RhinoLog
  imports Dialog
begin

text \<open>
  The log of intrusion warnings, nwy_rhino_ids_test.c: each warning is stored in one of two files of at most 50 warnings, which
  are used in turn; a menu prints a file and sets the debug level. The functions are dialogs. The interface of the files is the
  locale \<open>warning_files\<close>; under it the two files hold exactly the last warnings.
\<close>

section \<open>Variables\<close>

record rhino_vars =
  s_waring_count1 :: int
  s_waring_count2 :: int
  s_file1_fd :: int
  s_file2_fd :: int
  s_file_lock :: int
  file_flag :: int
  enter_flag :: bool

definition NWY_PACKET_WARING_FILE_1 :: buf where "NWY_PACKET_WARING_FILE_1 = str ''nwy_waring_file_1''"
definition NWY_PACKET_WARING_FILE_2 :: buf where "NWY_PACKET_WARING_FILE_2 = str ''nwy_waring_file_2''"
definition NWY_WARING_MAX :: int where "NWY_WARING_MAX = 50"

section \<open>Storing a warning\<close>

text \<open>Created, for reading and writing, to append; the result of the function is not used.\<close>

definition nwy_create_waring_file :: "rhino_vars dialog \<Rightarrow> rhino_vars dialog" where
  "nwy_create_waring_file d =
     Call ''nwy_sdk_fopen'' [T NWY_PACKET_WARING_FILE_1, I 0x20A] (\<lambda>a. Put (\<lambda>s. s\<lparr>s_file1_fd := ret a\<rparr>)
       (Call ''nwy_sdk_fopen'' [T NWY_PACKET_WARING_FILE_2, I 0x20A] (\<lambda>a. Put (\<lambda>s. s\<lparr>s_file2_fd := ret a\<rparr>) (Get (\<lambda>s.
         if s_file1_fd s < 0 \<or> s_file2_fd s < 0 then d
         else Call ''nwy_sdk_fseek'' [I (s_file1_fd s), I 0, I 2] (\<lambda>a. Call ''nwy_sdk_fseek'' [I (s_file2_fd s), I 0, I 2] (\<lambda>a. d)))))))"

text \<open>\<open>k\<close> is given whether the warning was written. \<open>waring_info\<close> are the \<open>len\<close> bytes.\<close>

definition nwy_write_waring_to_file :: "int \<Rightarrow> buf \<Rightarrow> (bool \<Rightarrow> 's dialog) \<Rightarrow> 's dialog" where
  "nwy_write_waring_to_file fd waring_info k =
     (if fd \<le> 0 then k False
      else Call ''nwy_sdk_fwrite'' [I fd, T waring_info, I (int (length waring_info))] (\<lambda>a. k (ret a = int (length waring_info))))"

definition nwy_clean_and_write_info :: "int \<Rightarrow> buf \<Rightarrow> (bool \<Rightarrow> 's dialog) \<Rightarrow> 's dialog" where
  "nwy_clean_and_write_info fd waring_info k =
     Call ''nwy_sdk_ftrunc_fd'' [I fd, I 0] (\<lambda>a. Call ''nwy_sdk_fseek'' [I fd, I 0, I 0] (\<lambda>a. nwy_write_waring_to_file fd waring_info k))"

text \<open>The statements at the label \<open>END\<close>.\<close>

definition store_end :: "rhino_vars dialog" where
  "store_end =
     Get (\<lambda>s. Call ''nwy_sdk_fclose'' [I (s_file1_fd s)] (\<lambda>a. Call ''nwy_sdk_fclose'' [I (s_file2_fd s)] (\<lambda>a.
       Call ''nwy_unlock_mutex'' [I (s_file_lock s)] (\<lambda>a. Done))))"

definition nwy_store_waring_proc :: "buf \<Rightarrow> rhino_vars dialog" where
  "nwy_store_waring_proc data =
     (let stored1 = (\<lambda>ok. if \<not> ok then store_end else Put (\<lambda>s. s\<lparr>file_flag := 1, s_waring_count1 := s_waring_count1 s + 1\<rparr>) store_end);
          stored2 = (\<lambda>ok. if \<not> ok then store_end else Put (\<lambda>s. s\<lparr>file_flag := 2, s_waring_count2 := s_waring_count2 s + 1\<rparr>) store_end)
      in Get (\<lambda>s. Call ''nwy_lock_mutex'' [I (s_file_lock s), I 0] (\<lambda>a. nwy_create_waring_file (Get (\<lambda>s.
        if s_waring_count1 s < NWY_WARING_MAX then nwy_write_waring_to_file (s_file1_fd s) data stored1
        else if s_waring_count2 s < NWY_WARING_MAX then nwy_write_waring_to_file (s_file2_fd s) data stored2
        else if file_flag s = 1
        then Put (\<lambda>s. s\<lparr>s_waring_count2 := 0\<rparr>) (nwy_clean_and_write_info (s_file2_fd s) data stored2)
        else Put (\<lambda>s. s\<lparr>s_waring_count1 := 0\<rparr>) (nwy_clean_and_write_info (s_file1_fd s) data stored1))))))"

section \<open>The menu\<close>

text \<open>Printing in blocks of 1024 bytes; \<open>text_of\<close> of \<open>nwy_sdk_fread\<close>: what it stores into the array of 1025 bytes, which is zero
  before. \<open>num\<close> of \<open>nwy_sdk_get_stat_fd\<close>: the size of the file.\<close>

primrec print_blocks :: "nat \<Rightarrow> int \<Rightarrow> rhino_vars dialog \<Rightarrow> rhino_vars dialog" where
  "print_blocks 0 fd d = d"
| "print_blocks (Suc n) fd d =
     Call ''nwy_sdk_fread'' [I fd, I 1024] (\<lambda>a. need (buf_write (replicate 1025 0) 0 (text_of a 0)) (\<lambda>b. need (arr_text b) (\<lambda>t.
       tell [t] (print_blocks n fd d))))"

definition nwy_waring_file_print :: "rhino_vars dialog" where
  "nwy_waring_file_print =
     (let show = (\<lambda>fd count. Call ''nwy_sdk_fseek'' [I fd, I 0, I 0] (\<lambda>a. Call ''nwy_sdk_get_stat_fd'' [I fd] (\<lambda>st.
            tell [str ''Waring count = '', fmt_d count] (print_blocks (nat (num st 0) div 1024 + (if num st 0 mod 1024 \<noteq> 0 then 1 else 0)) fd
              (Call ''nwy_sdk_fclose'' [I fd] (\<lambda>a. Get (\<lambda>s. Call ''nwy_unlock_mutex'' [I (s_file_lock s)] (\<lambda>a. Done))))))))
      in ask_int (prompt ''Please file id : '') (\<lambda>id. Get (\<lambda>s. Call ''nwy_lock_mutex'' [I (s_file_lock s), I 0] (\<lambda>a. Get (\<lambda>s.
           if id = 1 then Call ''nwy_sdk_fopen'' [T NWY_PACKET_WARING_FILE_1, I 0] (\<lambda>f. show (ret f) (s_waring_count1 s))
           else if id = 2 then Call ''nwy_sdk_fopen'' [T NWY_PACKET_WARING_FILE_2, I 0] (\<lambda>f. show (ret f) (s_waring_count2 s))
           else show 0 0)))))"

definition nwy_set_rhino_debug_switch :: "'s dialog" where
  "nwy_set_rhino_debug_switch = ask_int (prompt ''Please debug switch(0-1) : '') (\<lambda>level. Call ''nwy_ids_config_debuglvl'' [I level] (\<lambda>a. Done))"

definition nwy_rhino_test_menu :: "'s dialog \<Rightarrow> 's dialog" where
  "nwy_rhino_test_menu d = tell [str ''1. get waring file''] (tell [str ''2. set debug level (0-1)''] (tell [str ''0. exit''] d))"

text \<open>\<open>n\<close> rounds of the menu; the user ends it.\<close>

primrec rhino_loop :: "nat \<Rightarrow> rhino_vars dialog" where
  "rhino_loop 0 = Done"
| "rhino_loop (Suc n) = nwy_rhino_test_menu (ask_int (prompt ''Please input : '') (\<lambda>v.
     if v = 0 then Done
     else if v = 1 then followed_by nwy_waring_file_print (rhino_loop n)
     else if v = 2 then followed_by nwy_set_rhino_debug_switch (rhino_loop n)
     else rhino_loop n))"

definition nwy_rhino_ids_test :: "nat \<Rightarrow> rhino_vars dialog" where
  "nwy_rhino_ids_test n =
     Get (\<lambda>s. if \<not> enter_flag s
       then Call ''nwy_create_mutex'' [] (\<lambda>a. Put (\<lambda>s. s\<lparr>s_file_lock := ret a\<rparr>)
              (if ret a = 0 then tell [str ''create s_file_lock fail''] Done
               else Call ''nwy_sdk_file_unlink'' [T NWY_PACKET_WARING_FILE_1] (\<lambda>a. Call ''nwy_sdk_file_unlink'' [T NWY_PACKET_WARING_FILE_2] (\<lambda>a.
                 Call ''nwy_ids_init'' [] (\<lambda>a.
                   if ret a \<noteq> 0 then tell [str ''nwy_ids_init init fail''] Done
                   else Call ''nwy_ids_config_debuglvl'' [I 0] (\<lambda>a. Call ''nwy_get_warning_packet_reg'' [] (\<lambda>a.
                     Put (\<lambda>s. s\<lparr>enter_flag := True\<rparr>) (rhino_loop n))))))))
       else rhino_loop n)"

section \<open>The files\<close>

text \<open>What is kept of the warnings: they fall into groups of 50; the last group is in one file, the group before it in the other.\<close>

definition warning_group :: "nat \<Rightarrow> buf list \<Rightarrow> buf" where
  "warning_group i ds = concat (take 50 (drop (50 * i) ds))"

definition last_group :: "buf list \<Rightarrow> nat" where
  "last_group ds = (length ds - 1) div 50"

definition kept :: "buf list \<Rightarrow> buf \<times> buf" where
  "kept ds =
     (let b = last_group ds; new = warning_group b ds; old = (if b = 0 then [] else warning_group (b - 1) ds)
      in if even b then (new, old) else (old, new))"

lemma group_append: "50 * (i + 1) \<le> length ds \<Longrightarrow> warning_group i (ds @ [d]) = warning_group i ds"
    "50 * i \<le> length ds \<Longrightarrow> length ds < 50 * (i + 1) \<Longrightarrow> warning_group i (ds @ [d]) = warning_group i ds @ d"
  by (simp_all add: warning_group_def)

lemma group_beyond: "length ds \<le> 50 * i \<Longrightarrow> warning_group i ds = []"
  by (simp add: warning_group_def)

text \<open>Read in the order of their age, the files are the end of the sequence of warnings.\<close>

lemma kept_suffix:
  assumes "kept ds = (x, y)"
  shows "\<exists>k. (x @ y = concat (drop k ds) \<or> y @ x = concat (drop k ds)) \<and> length ds - k \<le> 100 \<and> (k = 0 \<or> 50 < length ds - k)"
proof -
  let ?b = "last_group ds"
  have l: "length ds \<le> 50 * ?b + 50" "ds \<noteq> [] \<Longrightarrow> 50 * ?b < length ds" by (cases ds; simp add: last_group_def)+
  have g: "warning_group ?b ds = concat (drop (50 * ?b) ds)" using l(1) by (simp add: warning_group_def)
  show ?thesis
  proof (cases "?b = 0")
    case True
    then show ?thesis using assms g l(1) by (intro exI [of _ 0]) (simp add: kept_def)
  next
    case False
    then have m: "50 * ?b = 50 * (?b - 1) + 50" by (cases ?b) simp_all
    have "warning_group (?b - 1) ds @ warning_group ?b ds = concat (drop (50 * (?b - 1)) ds)"
      unfolding g by (subst m) (metis append_take_drop_id concat_append drop_drop add.commute warning_group_def)
    moreover have "ds \<noteq> []" using False by (auto simp: last_group_def)
    ultimately show ?thesis using assms False l m by (intro exI [of _ "50 * (?b - 1)"]) (auto simp: kept_def Let_def split: if_splits)
  qed
qed

text \<open>What the log relies on: the two names open two files with positive descriptors; a write appends all of its bytes to its file
  and says so; a file can be cut to nothing; the other calls leave the contents alone.\<close>

locale warning_files =
  fixes M :: "string \<Rightarrow> arg list \<Rightarrow> 'w \<Rightarrow> answer \<times> 'w"
    and c1 c2 :: "'w \<Rightarrow> buf"
    and h1 h2 :: int
  assumes handles: "0 < h1" "0 < h2"
    and open1: "ret (fst (M ''nwy_sdk_fopen'' [T NWY_PACKET_WARING_FILE_1, I 0x20A] w)) = h1"
    and open2: "ret (fst (M ''nwy_sdk_fopen'' [T NWY_PACKET_WARING_FILE_2, I 0x20A] w)) = h2"
    and write1: "ret (fst (M ''nwy_sdk_fwrite'' [I h1, T d, I (int (length d))] w)) = int (length d)"
      "c1 (snd (M ''nwy_sdk_fwrite'' [I h1, T d, I (int (length d))] w)) = c1 w @ d"
      "c2 (snd (M ''nwy_sdk_fwrite'' [I h1, T d, I (int (length d))] w)) = c2 w"
    and write2: "ret (fst (M ''nwy_sdk_fwrite'' [I h2, T d, I (int (length d))] w)) = int (length d)"
      "c1 (snd (M ''nwy_sdk_fwrite'' [I h2, T d, I (int (length d))] w)) = c1 w"
      "c2 (snd (M ''nwy_sdk_fwrite'' [I h2, T d, I (int (length d))] w)) = c2 w @ d"
    and cut1: "c1 (snd (M ''nwy_sdk_ftrunc_fd'' [I h1, I 0] w)) = []" "c2 (snd (M ''nwy_sdk_ftrunc_fd'' [I h1, I 0] w)) = c2 w"
    and cut2: "c1 (snd (M ''nwy_sdk_ftrunc_fd'' [I h2, I 0] w)) = c1 w" "c2 (snd (M ''nwy_sdk_ftrunc_fd'' [I h2, I 0] w)) = []"
    and quiet: "f \<in> {''nwy_sdk_fopen'', ''nwy_sdk_fseek'', ''nwy_sdk_fclose'', ''nwy_lock_mutex'', ''nwy_unlock_mutex''} \<Longrightarrow>
      c1 (snd (M f as w)) = c1 w \<and> c2 (snd (M f as w)) = c2 w"
begin

lemma quiet_calls:
  "c1 (snd (M ''nwy_sdk_fopen'' as w)) = c1 w" "c2 (snd (M ''nwy_sdk_fopen'' as w)) = c2 w"
  "c1 (snd (M ''nwy_sdk_fseek'' as w)) = c1 w" "c2 (snd (M ''nwy_sdk_fseek'' as w)) = c2 w"
  "c1 (snd (M ''nwy_sdk_fclose'' as w)) = c1 w" "c2 (snd (M ''nwy_sdk_fclose'' as w)) = c2 w"
  "c1 (snd (M ''nwy_lock_mutex'' as w)) = c1 w" "c2 (snd (M ''nwy_lock_mutex'' as w)) = c2 w"
  "c1 (snd (M ''nwy_unlock_mutex'' as w)) = c1 w" "c2 (snd (M ''nwy_unlock_mutex'' as w)) = c2 w"
  using quiet by blast+

lemmas file_calls = handles open1 open2 write1 write2 cut1 cut2 quiet_calls

text \<open>One warning: where it goes, by the counters and the flag.\<close>

lemma store_one:
  "\<exists>s' w'. serve M (nwy_store_waring_proc d) s w = Some (s', w') \<and>
    (if s_waring_count1 s < 50 then c1 w' = c1 w @ d \<and> c2 w' = c2 w \<and> s_waring_count1 s' = s_waring_count1 s + 1 \<and> s_waring_count2 s' = s_waring_count2 s \<and> file_flag s' = 1
     else if s_waring_count2 s < 50 then c1 w' = c1 w \<and> c2 w' = c2 w @ d \<and> s_waring_count1 s' = s_waring_count1 s \<and> s_waring_count2 s' = s_waring_count2 s + 1 \<and> file_flag s' = 2
     else if file_flag s = 1 then c1 w' = c1 w \<and> c2 w' = d \<and> s_waring_count1 s' = s_waring_count1 s \<and> s_waring_count2 s' = 1 \<and> file_flag s' = 2
     else c1 w' = d \<and> c2 w' = c2 w \<and> s_waring_count1 s' = 1 \<and> s_waring_count2 s' = s_waring_count2 s \<and> file_flag s' = 1)"
  using handles
  by (simp add: nwy_store_waring_proc_def Let_def nwy_create_waring_file_def nwy_write_waring_to_file_def nwy_clean_and_write_info_def store_end_def
      NWY_WARING_MAX_def file_calls not_less [symmetric])

text \<open>The state of the log after the warnings \<open>ds\<close>.\<close>

definition logged_warnings :: "buf list \<Rightarrow> rhino_vars \<Rightarrow> 'w \<Rightarrow> bool" where
  "logged_warnings ds s w =
     (let b = last_group ds; r = int (length ds) - 50 * int b
      in (c1 w, c2 w) = kept ds \<and>
         (if even b then s_waring_count1 s = r \<and> s_waring_count2 s = (if b = 0 then 0 else 50) \<and> (ds \<noteq> [] \<longrightarrow> file_flag s = 1)
          else s_waring_count1 s = 50 \<and> s_waring_count2 s = r \<and> file_flag s = 2))"

lemma store_keeps_log:
  assumes "logged_warnings ds s w"
  shows "\<exists>s' w'. serve M (nwy_store_waring_proc d) s w = Some (s', w') \<and> logged_warnings (ds @ [d]) s' w'"
proof -
  let ?b = "last_group ds" and ?n = "length ds"
  obtain s' w' where st: "serve M (nwy_store_waring_proc d) s w = Some (s', w')"
    and e: "if s_waring_count1 s < 50 then c1 w' = c1 w @ d \<and> c2 w' = c2 w \<and> s_waring_count1 s' = s_waring_count1 s + 1 \<and> s_waring_count2 s' = s_waring_count2 s \<and> file_flag s' = 1
     else if s_waring_count2 s < 50 then c1 w' = c1 w \<and> c2 w' = c2 w @ d \<and> s_waring_count1 s' = s_waring_count1 s \<and> s_waring_count2 s' = s_waring_count2 s + 1 \<and> file_flag s' = 2
     else if file_flag s = 1 then c1 w' = c1 w \<and> c2 w' = d \<and> s_waring_count1 s' = s_waring_count1 s \<and> s_waring_count2 s' = 1 \<and> file_flag s' = 2
     else c1 w' = d \<and> c2 w' = c2 w \<and> s_waring_count1 s' = 1 \<and> s_waring_count2 s' = s_waring_count2 s \<and> file_flag s' = 1"
    using store_one [of d s w] by blast
  have "logged_warnings (ds @ [d]) s' w'"
  proof (cases "?n = 50 * (?b + 1)")
    case full: True
    then have b': "last_group (ds @ [d]) = ?b + 1" by (simp add: last_group_def)
    have g: "warning_group (?b + 1) (ds @ [d]) = d" "warning_group ?b (ds @ [d]) = warning_group ?b ds"
      using full group_append(2) [of "?b + 1" ds d] group_beyond [of ds "?b + 1"] group_append(1) [of ?b ds d] by simp_all
    have "ds \<noteq> []" using full by auto
    then show ?thesis using assms e full b' g
      by (cases "even ?b"; cases "?b = 0") (auto simp: logged_warnings_def kept_def Let_def split: if_splits)
  next
    case False
    have n: "50 * ?b \<le> ?n" "?n < 50 * (?b + 1)" using False by (auto simp: last_group_def)
    then have b': "last_group (ds @ [d]) = ?b" by (simp add: last_group_def)
    have g: "warning_group ?b (ds @ [d]) = warning_group ?b ds @ d" using n by (rule group_append(2))
    have g': "warning_group (?b - 1) (ds @ [d]) = warning_group (?b - 1) ds" if "?b \<noteq> 0" using n(1) that by (intro group_append(1)) auto
    have "int ?n - 50 * int ?b < 50" using n(2) by presburger
    then show ?thesis using assms e b' g g'
      by (cases "even ?b"; cases "?b = 0") (auto simp: logged_warnings_def kept_def Let_def)
  qed
  with st show ?thesis by blast
qed

lemma all_logged:
  assumes "s_waring_count1 s = 0" and "s_waring_count2 s = 0" and "c1 w = []" and "c2 w = []"
  shows "\<exists>s' w'. serve M (each nwy_store_waring_proc ds) s w = Some (s', w') \<and> logged_warnings ds s' w'"
proof (induction ds rule: rev_induct)
  case Nil
  then show ?case using assms by (simp add: logged_warnings_def kept_def last_group_def warning_group_def)
next
  case (snoc d ds)
  then obtain s1 w1 where "serve M (each nwy_store_waring_proc ds) s w = Some (s1, w1)" "logged_warnings ds s1 w1" by blast
  then show ?case using store_keeps_log [of ds s1 w1 d] by (auto simp: serve_each_append serve_followed_by)
qed

end

text \<open>Files in memory: the two contents.\<close>

definition zero_answer :: answer where
  "zero_answer = \<lparr>ret = 0, num = \<lambda>i. 0, text_of = \<lambda>i. []\<rparr>"

definition memory_files :: "string \<Rightarrow> arg list \<Rightarrow> buf \<times> buf \<Rightarrow> answer \<times> (buf \<times> buf)" where
  "memory_files f as w =
     (if f = ''nwy_sdk_fopen'' then (zero_answer\<lparr>ret := if hd as = T NWY_PACKET_WARING_FILE_1 then 1 else 2\<rparr>, w)
      else if f = ''nwy_sdk_fwrite''
      then (case as of [I h, T d, I n] \<Rightarrow> (zero_answer\<lparr>ret := n\<rparr>, if h = 1 then (fst w @ d, snd w) else (fst w, snd w @ d)) | _ \<Rightarrow> (zero_answer, w))
      else if f = ''nwy_sdk_ftrunc_fd'' then (zero_answer, if hd as = I 1 then ([], snd w) else (fst w, []))
      else (zero_answer, w))"

interpretation memory: warning_files memory_files fst snd 1 2
  by unfold_locales (auto simp: memory_files_def NWY_PACKET_WARING_FILE_1_def NWY_PACKET_WARING_FILE_2_def str_def)

text \<open>C29: the log of warnings. Whatever the module, as long as its files behave as files: however many warnings arrive after the
  files were emptied, each is stored without fault, and the two files then hold the last group of 50 (or what there is of it)
  and the group before it. So in the order of their age the two files are the end of the sequence of warnings: all of them up
  to 100, and always more than the last 50.\<close>

theorem warnings_kept:
  assumes "warning_files M c1 c2 h1 h2" and "s_waring_count1 s = 0" and "s_waring_count2 s = 0" and "c1 w = []" and "c2 w = []"
  shows "\<exists>s' w' k. serve M (each nwy_store_waring_proc ds) s w = Some (s', w') \<and> (c1 w', c2 w') = kept ds \<and>
    (c1 w' @ c2 w' = concat (drop k ds) \<or> c2 w' @ c1 w' = concat (drop k ds)) \<and> length ds - k \<le> 100 \<and> (k = 0 \<or> 50 < length ds - k)"
proof -
  obtain s' w' where w': "serve M (each nwy_store_waring_proc ds) s w = Some (s', w')" "(c1 w', c2 w') = kept ds"
    using warning_files.all_logged [OF assms, of ds] unfolding warning_files.logged_warnings_def [OF assms(1)] Let_def by blast
  with kept_suffix [of ds "c1 w'" "c2 w'"] show ?thesis by metis
qed

definition rhino_start :: rhino_vars where
  "rhino_start = \<lparr>s_waring_count1 = 0, s_waring_count2 = 0, s_file1_fd = 0, s_file2_fd = 0, s_file_lock = 0, file_flag = 0, enter_flag = False\<rparr>"

theorem warnings_kept_witness:
  "\<exists>s' w' k. serve memory_files (each nwy_store_waring_proc (replicate 120 [7])) rhino_start ([], []) = Some (s', w') \<and>
    (fst w', snd w') = kept (replicate 120 [7]) \<and>
    (fst w' @ snd w' = concat (drop k (replicate 120 [7])) \<or> snd w' @ fst w' = concat (drop k (replicate 120 [7]))) \<and>
    length (replicate 120 [7 :: u8]) - k \<le> 100 \<and> (k = 0 \<or> 50 < length (replicate 120 [7 :: u8]) - k)"
  by (rule warnings_kept [OF memory.warning_files_axioms]) (simp_all add: rhino_start_def)

end
