(* ===== verification/MultiSocket.thy ===== *)
theory MultiSocket
  imports Dialog
begin

text \<open>
  Two data connections at once, nwy_multi_socket_test.c: two data calls, and a socket on each of them over which a few bytes are
  sent. The functions are dialogs. The sockets and the clock of the module are the locale \<open>socket_module\<close>; under it every attempt
  ends and leaves no socket open.
\<close>

section \<open>Variables\<close>

text \<open>The arrays of two elements are two variables each.\<close>

record nwy_multi_call_info =
  hndl :: int
  call_state :: int
  profile_id :: int

record multi_vars =
  multi_call0 :: nwy_multi_call_info
  multi_call1 :: nwy_multi_call_info
  multi_socket0 :: int
  multi_socket1 :: int

section \<open>Data calls\<close>

definition nwy_multi_main_menu :: "'s dialog \<Rightarrow> 's dialog" where
  "nwy_multi_main_menu d =
     Print (crlf @ str ''1. create  data call'' @ crlf) (Print (str ''2. multi socket test '' @ crlf) (Print (str ''3. exit '' @ crlf) d))"

text \<open>The arguments of a call: profile, automatic reconnection, its number and interval.\<close>

definition nwy_start_multi_call :: "multi_vars dialog" where
  "nwy_start_multi_call =
     Call ''nwy_data_get_srv_handle'' [] (\<lambda>a. Put (\<lambda>s. s\<lparr>multi_call0 := (multi_call0 s)\<lparr>hndl := ret a\<rparr>\<rparr>)
       (Call ''nwy_data_get_srv_handle'' [] (\<lambda>a. Put (\<lambda>s. s\<lparr>multi_call1 := (multi_call1 s)\<lparr>hndl := ret a\<rparr>\<rparr>) (Get (\<lambda>s.
         if hndl (multi_call0 s) \<le> 0 \<or> hndl (multi_call1 s) \<le> 0 then Done
         else Call ''nwy_data_start_call'' [I (hndl (multi_call0 s)), I 1, I 1, I 100, I 100] (\<lambda>a.
           if ret a < 0 then Done
           else Get (\<lambda>s. Call ''nwy_data_start_call'' [I (hndl (multi_call1 s)), I 2, I 1, I 100, I 100] (\<lambda>a.
             if ret a < 0 then Done
             else Put (\<lambda>s. s\<lparr>multi_call0 := (multi_call0 s)\<lparr>profile_id := 1\<rparr>, multi_call1 := (multi_call1 s)\<lparr>profile_id := 2\<rparr>\<rparr>) (Pause 1000 Done)))))))))"

definition no_call :: nwy_multi_call_info where
  "no_call = \<lparr>hndl = 0, call_state = 0, profile_id = 0\<rparr>"

definition nwy_realse_multi_call :: "multi_vars dialog" where
  "nwy_realse_multi_call =
     Get (\<lambda>s. Call ''nwy_data_stop_call'' [I (hndl (multi_call0 s))] (\<lambda>a. Pause 1000 (Get (\<lambda>s. Call ''nwy_data_relealse_srv_handle'' [I (hndl (multi_call0 s))] (\<lambda>a.
       Get (\<lambda>s. Call ''nwy_data_stop_call'' [I (hndl (multi_call1 s))] (\<lambda>a. Pause 1000 (Get (\<lambda>s. Call ''nwy_data_relealse_srv_handle'' [I (hndl (multi_call1 s))] (\<lambda>a.
         Put (\<lambda>s. s\<lparr>multi_call0 := no_call, multi_call1 := no_call\<rparr>) Done))))))))))"

section \<open>Sockets\<close>

definition nwy_multi_socket_destory :: "multi_vars dialog \<Rightarrow> multi_vars dialog" where
  "nwy_multi_socket_destory d =
     (let second = Get (\<lambda>s. if 0 < multi_socket1 s
            then Call ''nwy_socket_close'' [I (multi_socket1 s)] (\<lambda>a. Put (\<lambda>s. s\<lparr>multi_socket1 := 0\<rparr>) d) else d)
      in Get (\<lambda>s. if 0 < multi_socket0 s
           then Call ''nwy_socket_close'' [I (multi_socket0 s)] (\<lambda>a. Put (\<lambda>s. s\<lparr>multi_socket0 := 0\<rparr>) second) else second))"

text \<open>The loop that connects, \<open>n\<close> rounds of it; should it go on after them, the run counts as faulty. The error number is asked for
  anew in every test.\<close>

primrec multi_connect_loop :: "nat \<Rightarrow> int \<Rightarrow> int \<Rightarrow> (int \<Rightarrow> 's dialog) \<Rightarrow> 's dialog" where
  "multi_connect_loop 0 start socket k = Fault"
| "multi_connect_loop (Suc n) start socket k =
     Call ''nwy_get_ms'' [] (\<lambda>t.
       if 10000 \<le> ret t - start then echo ''socket connect timeout'' (k (-1))
       else Call ''nwy_socket_connect'' [I socket] (\<lambda>a.
         let again = Pause 1000 (multi_connect_loop n start socket k)
         in if ret a = 0 then again
            else Call ''nwy_socket_errno'' [] (\<lambda>e.
              if ret e = 127 then tell [str ''nwy_net_connect_tcp connect ok..''] (k 0)
              else Call ''nwy_socket_errno'' [] (\<lambda>e. if ret e = 119 then again
                else Call ''nwy_socket_errno'' [] (\<lambda>e. if ret e = 120 then again
                  else Call ''nwy_socket_errno'' [] (\<lambda>e. tell [str ''connect errno = '', fmt_d (ret e)] (k (-1))))))))"

definition nwy_multi_socket_connect :: "nat \<Rightarrow> int \<Rightarrow> (int \<Rightarrow> 's dialog) \<Rightarrow> 's dialog" where
  "nwy_multi_socket_connect n socket k = Call ''nwy_get_ms'' [] (\<lambda>t. multi_connect_loop n (ret t) socket k)"

definition send_four :: "int \<Rightarrow> string \<Rightarrow> 's dialog \<Rightarrow> 's dialog" where
  "send_four socket t d =
     Call ''nwy_socket_send'' [I socket, T (str t), I 4, I 0] (\<lambda>a.
       if ret a \<noteq> 4 then tell [str ''send len='', fmt_d 4, str '', return len='', fmt_d (ret a)] d else tell [str ''send ok''] d)"

definition nwy_multi_socket_communite :: "nat \<Rightarrow> multi_vars dialog" where
  "nwy_multi_socket_communite n =
     Call ''nwy_socket_open'' [I 2, I 1, I 6] (\<lambda>a. Put (\<lambda>s. s\<lparr>multi_socket0 := ret a\<rparr>)
       (Call ''nwy_socket_open'' [I 2, I 1, I 6] (\<lambda>a. Put (\<lambda>s. s\<lparr>multi_socket1 := ret a\<rparr>) (Get (\<lambda>s.
         if multi_socket0 s \<le> 0 \<or> multi_socket1 s \<le> 0 then nwy_multi_socket_destory Done
         else Call ''nwy_sim_get_simid'' [] (\<lambda>sim.
           Call ''nwy_socket_bind_netif'' [I (multi_socket0 s), I (ret sim), I (profile_id (multi_call0 s))] (\<lambda>a.
           Call ''nwy_socket_bind_netif'' [I (multi_socket1 s), I (ret sim), I (profile_id (multi_call1 s))] (\<lambda>a.
           Call ''ipaddr_aton'' [T (str ''123.139.59.166'')] (\<lambda>a.
             if ret a = 0 then tell [str ''nwy ipaddr_aton fail''] Done
             else nwy_multi_socket_connect n (multi_socket0 s) (\<lambda>r.
               if r < 0 then tell [str ''nwy_multi_socket_connect1 fail''] (nwy_multi_socket_destory Done)
               else nwy_multi_socket_connect n (multi_socket1 s) (\<lambda>r.
                 if r < 0 then tell [str ''nwy_multi_socket_connect2 fail''] (nwy_multi_socket_destory Done)
                 else send_four (multi_socket0 s) ''1234'' (send_four (multi_socket1 s) ''abcd'' (nwy_multi_socket_destory Done)))))))))))))"

text \<open>The menu, \<open>m\<close> rounds of it.\<close>

primrec nwy_multi_socket_test :: "nat \<Rightarrow> nat \<Rightarrow> multi_vars dialog" where
  "nwy_multi_socket_test n 0 = Done"
| "nwy_multi_socket_test n (Suc m) = nwy_multi_main_menu (ask_int (prompt ''Please input : '') (\<lambda>v.
     if v = 1 then followed_by nwy_start_multi_call (nwy_multi_socket_test n m)
     else if v = 2 then followed_by (nwy_multi_socket_communite n) (nwy_multi_socket_test n m)
     else if v = 3 then nwy_realse_multi_call
     else nwy_multi_socket_test n m))"

section \<open>The module\<close>

text \<open>What the module does to the open sockets and to its clock: a socket is opened with a fresh positive number or not at all, a
  close closes it, no other call opens or closes; the clock does not go back, and a pause takes at least its time.\<close>

locale socket_module =
  fixes M :: "string \<Rightarrow> arg list \<Rightarrow> 'w \<Rightarrow> answer \<times> 'w"
    and opened :: "'w \<Rightarrow> int set"
    and clock :: "'w \<Rightarrow> int"
  assumes socket_open: "M ''nwy_socket_open'' as w = (a, w') \<Longrightarrow>
      (if 0 < ret a then ret a \<notin> opened w \<and> opened w' = insert (ret a) (opened w) else opened w' = opened w)"
    and socket_close: "opened (snd (M ''nwy_socket_close'' [I h] w)) = opened w - {h}"
    and quiet: "f \<noteq> ''nwy_socket_open'' \<Longrightarrow> f \<noteq> ''nwy_socket_close'' \<Longrightarrow> opened (snd (M f as w)) = opened w"
    and now: "ret (fst (M ''nwy_get_ms'' as w)) = clock w"
    and forward: "clock w \<le> clock (snd (M f as w))"
    and sleep: "clock w + n \<le> clock (snd (M ''nwy_sleep'' [I n] w))"
begin

text \<open>Connecting ends: every round takes a second, and after ten seconds no further one is begun.\<close>

definition after_calls :: "'w \<Rightarrow> 'w \<Rightarrow> bool" where
  "after_calls w w' = (opened w' = opened w \<and> clock w \<le> clock w')"

lemma after_refl [simp]: "after_calls w w"
  by (simp add: after_calls_def)

lemma after_quiet [simp]:
  assumes "after_calls v w" and "f \<noteq> ''nwy_socket_open''" and "f \<noteq> ''nwy_socket_close''"
  shows "after_calls v (snd (M f as w))"
proof -
  have "opened (snd (M f as w)) = opened w" using quiet [OF assms(2,3)] .
  moreover have "clock w \<le> clock (snd (M f as w))" by (rule forward)
  ultimately show ?thesis using assms(1) by (simp add: after_calls_def)
qed

lemma connect_loop_ends:
  assumes "start + 10000 \<le> clock w + 1000 * int n" and "\<And>r w'. after_calls w w' \<Longrightarrow> P (serve M (k r) s w')"
  shows "P (serve M (multi_connect_loop (Suc n) start socket k) s w)"
  using assms
proof (induction n arbitrary: w)
  case 0
  show ?case using 0(1) by (simp add: now echo_def) (intro 0(2); simp)
next
  case (Suc n)
  have again: "P (serve M (multi_connect_loop (Suc n) start socket k) s (snd (M ''nwy_sleep'' [I 1000] w')))" if "after_calls w w'" for w'
  proof (rule Suc.IH)
    show "start + 10000 \<le> clock (snd (M ''nwy_sleep'' [I 1000] w')) + 1000 * int n"
      using Suc.prems(1) sleep [of w' 1000] that by (simp add: after_calls_def)
    show "P (serve M (k r) s w'')" if "after_calls (snd (M ''nwy_sleep'' [I 1000] w')) w''" for r w''
    proof (rule Suc.prems(2))
      have "after_calls w (snd (M ''nwy_sleep'' [I 1000] w'))" using \<open>after_calls w w'\<close> by simp
      then show "after_calls w w''" using that by (simp add: after_calls_def)
    qed
  qed
  show ?case
    by (subst multi_connect_loop.simps, simp add: Let_def echo_def tell_def del: multi_connect_loop.simps)
      (intro conjI impI; (rule again | rule Suc.prems(2)); simp)
qed

lemma connect_ends:
  assumes "\<And>r w'. after_calls w w' \<Longrightarrow> P (serve M (k r) s w')"
  shows "P (serve M (nwy_multi_socket_connect 11 socket k) s w)"
proof -
  have "P (serve M (multi_connect_loop (Suc 10) (clock w) socket k) s (snd (M ''nwy_get_ms'' [] w)))"
  proof (rule connect_loop_ends)
    show "clock w + 10000 \<le> clock (snd (M ''nwy_get_ms'' [] w)) + 1000 * int 10" using forward [of w "''nwy_get_ms''" "[]"] by simp
    show "P (serve M (k r) s w')" if "after_calls (snd (M ''nwy_get_ms'' [] w)) w'" for r w'
    proof (rule assms)
      have "after_calls w (snd (M ''nwy_get_ms'' [] w))" by simp
      then show "after_calls w w'" using that by (simp add: after_calls_def)
    qed
  qed
  then show ?thesis by (simp add: nwy_multi_socket_connect_def now)
qed

text \<open>The two sockets are closed at the end.\<close>

definition all_closed :: "(multi_vars \<times> 'w) option \<Rightarrow> bool" where
  "all_closed r = (\<exists>s' w'. r = Some (s', w') \<and> opened w' = {} \<and> multi_socket0 s' \<le> 0 \<and> multi_socket1 s' \<le> 0)"

lemma destory_closes:
  assumes "opened w = {h. 0 < h \<and> (h = multi_socket0 s \<or> h = multi_socket1 s)}"
  shows "all_closed (serve M (nwy_multi_socket_destory Done) s w)"
  using assms by (auto simp: nwy_multi_socket_destory_def Let_def all_closed_def socket_close)

lemma after_opened: "after_calls w w' \<Longrightarrow> opened w' = opened w"
  by (simp add: after_calls_def)

lemma open_two:
  assumes "opened w = {}" and "M ''nwy_socket_open'' as w = (a, w1)" and "M ''nwy_socket_open'' as w1 = (b, w2)"
  shows "opened w2 = {h. 0 < h \<and> (h = ret a \<or> h = ret b)}"
  using socket_open [OF assms(2)] socket_open [OF assms(3)] assms(1) by (auto split: if_splits)

lemma send_four_quiet: "serve M (send_four h t d) s w = serve M d s (snd (M ''nwy_socket_send'' [I h, T (str t), I 4, I 0] w))"
  by (simp add: send_four_def tell_def)

lemma communite_closes:
  assumes "opened w = {}" and "\<And>as v. ret (fst (M ''ipaddr_aton'' as v)) \<noteq> 0"
  shows "all_closed (serve M (nwy_multi_socket_communite 11) s w)"
proof -
  obtain a w1 where a: "M ''nwy_socket_open'' [I 2, I 1, I 6] w = (a, w1)" by fastforce
  obtain b w2 where b: "M ''nwy_socket_open'' [I 2, I 1, I 6] w1 = (b, w2)" by fastforce
  let ?s = "s\<lparr>multi_socket0 := ret a, multi_socket1 := ret b\<rparr>"
  have closing: "all_closed (serve M (nwy_multi_socket_destory Done) ?s v)" if "after_calls w2 v" for v
    using open_two [OF assms(1) a b] after_opened [OF that] by (intro destory_closes) simp
  have step: "all_closed (serve M (nwy_multi_socket_connect 11 h k) ?s v)"
    if "after_calls w2 v" and "\<And>r v'. after_calls w2 v' \<Longrightarrow> all_closed (serve M (k r) ?s v')" for h k v
  proof (rule connect_ends [where P = all_closed])
    show "all_closed (serve M (k r) ?s v')" if "after_calls v v'" for r v'
      using \<open>after_calls w2 v\<close> that by (intro \<open>\<And>r v'. after_calls w2 v' \<Longrightarrow> all_closed (serve M (k r) ?s v')\<close>) (simp add: after_calls_def)
  qed
  have second: "all_closed (serve M (if r < 0 then tell t (nwy_multi_socket_destory Done)
      else send_four g u (send_four h t' (nwy_multi_socket_destory Done))) ?s v)" if "after_calls w2 v" for r :: int and t t' u g h v
    using that by (simp add: send_four_quiet tell_def closing)
  have first: "all_closed (serve M (if r < 0 then tell t (nwy_multi_socket_destory Done)
      else nwy_multi_socket_connect 11 h (\<lambda>r. if r < 0 then tell u (nwy_multi_socket_destory Done)
        else send_four g x (send_four h y (nwy_multi_socket_destory Done)))) ?s v)" if "after_calls w2 v" for r :: int and t u x y g h v
    using step [OF that second] closing [OF that] by (simp add: tell_def)
  show ?thesis
    by (simp add: nwy_multi_socket_communite_def a b assms(2) closing tell_def [of _ Done]) (intro impI step first; simp)
qed

end

text \<open>Sockets in memory: the open ones, the next number and the time.\<close>

definition memory_sockets :: "string \<Rightarrow> arg list \<Rightarrow> int set \<times> nat \<times> int \<Rightarrow> answer \<times> (int set \<times> nat \<times> int)" where
  "memory_sockets f as w =
     (case w of (hs, n, t) \<Rightarrow>
       let value = (\<lambda>v. \<lparr>ret = v, num = \<lambda>i. 0, text_of = \<lambda>i. []\<rparr>)
       in if f = ''nwy_socket_open'' then (if int n + 1 \<in> hs then (value (-1), w) else (value (int n + 1), insert (int n + 1) hs, n + 1, t))
          else if f = ''nwy_socket_close'' then (value 0, (case as of [I h] \<Rightarrow> hs - {h} | _ \<Rightarrow> hs), n, t)
          else if f = ''nwy_sleep'' then (value 0, hs, n, t + (case as of [I k] \<Rightarrow> max 0 k | _ \<Rightarrow> 0))
          else if f = ''nwy_get_ms'' then (value t, w)
          else if f = ''nwy_socket_errno'' then (value 119, w)
          else if f = ''ipaddr_aton'' then (value 1, w)
          else (value (-1), w))"

interpretation sockets: socket_module memory_sockets fst "snd \<circ> snd"
  by unfold_locales (auto simp: memory_sockets_def Let_def split: if_splits list.splits arg.splits)

text \<open>C40: no connection is left behind. Whatever the module, as long as its sockets open and close, its clock does not go back and a
  pause takes its time: from a state with no socket open, and if the address can be read, the test of the two sockets ends with no
  fault and no socket open, however the openings, the two connections (both may be refused, or stay in progress until the ten
  seconds are over) and the sendings turn out; 11 rounds of the connecting loop are always enough.\<close>

theorem multi_sockets_closed:
  assumes "socket_module M opened clock" and "opened w = {}" and "\<And>as v. ret (fst (M ''ipaddr_aton'' as v)) \<noteq> 0"
  shows "\<exists>s' w'. serve M (nwy_multi_socket_communite 11) s w = Some (s', w') \<and> opened w' = {} \<and> multi_socket0 s' \<le> 0 \<and> multi_socket1 s' \<le> 0"
  using socket_module.communite_closes [OF assms, of s] unfolding socket_module.all_closed_def [OF assms(1)] .

definition multi_start :: multi_vars where
  "multi_start = \<lparr>multi_call0 = no_call, multi_call1 = no_call, multi_socket0 = 0, multi_socket1 = 0\<rparr>"

theorem multi_sockets_closed_witness:
  "\<exists>s' w'. serve memory_sockets (nwy_multi_socket_communite 11) multi_start ({}, 0, 0) = Some (s', w') \<and>
    fst w' = {} \<and> multi_socket0 s' \<le> 0 \<and> multi_socket1 s' \<le> 0"
  by (rule multi_sockets_closed [OF sockets.socket_module_axioms]) (simp_all add: memory_sockets_def)

end
