(* ===== verification/HelloMobile.thy ===== *)
theory HelloMobile
  imports CliContract
begin

text \<open>
  The menus of hello_world.c for the mobile network: SIM card, USSD, short messages, two cards, data calls, voice calls, and the
  device. They are older than those of src/nwy_test_cli and read their lines from \<open>nwy_ext_input_gets\<close>. As there, a function
  is a dialog; a menu that repeats has the number of its rounds as an argument. Prompts and checks that are the same in both
  programs (handles, profiles, the start of a data call) are those of \<open>CliMobile\<close>.

  A function that returns 0 or -1 is given what follows as a function of whether it returned 0.
\<close>

section \<open>Variables\<close>

text \<open>\<open>nwy_ext_sio_len\<close>, the length of the last line, which the USB callback stores (see \<open>Console\<close>), the timer, and the variables of the semaphore test.\<close>

record hello_vars =
  ext_sio_len :: int
  g_timer :: int
  semaphore_count :: int
  nwy_semaphore :: int

text \<open>The lines of a menu, each with its line end, and the message that depends on the result.\<close>

definition print_menu :: "string list \<Rightarrow> 's dialog \<Rightarrow> 's dialog" where
  "print_menu ls d = foldr (\<lambda>l e. Print (str l @ crlf) e) ls d"

definition tell_done :: "string \<Rightarrow> string \<Rightarrow> bool \<Rightarrow> 's dialog" where
  "tell_done good bad ok = (if \<not> ok then echo bad Done else echo good Done)"

definition ask_option :: "(int \<Rightarrow> 's dialog) \<Rightarrow> 's dialog" where
  "ask_option k = ask_int (prompt ''Please input option: '') k"

definition invalid_input :: "'s dialog" where
  "invalid_input = echo '' invalid input '' Done"

section \<open>The SIM card\<close>

definition nwy_csim_test :: "'s dialog" where
  "nwy_csim_test =
     Ask (prompt '' input data:'') (\<lambda>b. need (arr_text b) (\<lambda>t. need (c_strcpy (replicate 1024 0) t) (\<lambda>data. need (arr_text data) (\<lambda>t.
       Call ''nwy_sim_csim'' [I 0, T t, I (int (length t)), I 1024] (\<lambda>a.
         if ret a < 0 then Print (10 # str '' nwy_sim_csim open error'') Done
         else Print (10 # str '' nwy_sim_csim success ['' @ text_of a 0 @ str '']'') Done)))))"

definition nwy_ext_sim_menu :: "'s dialog \<Rightarrow> 's dialog" where
  "nwy_ext_sim_menu d =
     echo ''Please select an option to data test from the items listed below. ''
       (print_menu [''1. pin test'', ''2. get sim status '', ''3. ccid & imsi'', ''4. get pin mode'', ''5. exit''] d)"

text \<open>\<open>n\<close> rounds. \<open>unlock\<close> and \<open>lock\<close> are the passwords in \<open>sim\<close>, arrays of 12 bytes that keep what is not overwritten; \<open>result\<close> is
  \<open>None\<close> as long as it has no value.\<close>

primrec nwy_sim_ready_handle :: "nat \<Rightarrow> buf \<Rightarrow> buf \<Rightarrow> int option \<Rightarrow> 's dialog" where
  "nwy_sim_ready_handle 0 unlock lock result = Done"
| "nwy_sim_ready_handle (Suc n) unlock lock result = nwy_ext_sim_menu (ask_option (\<lambda>v.
     if v = 1
     then ask_int (prompt ''Please set pin mode:0-disable,1-enable: '') (\<lambda>pin_mode.
       Ask (prompt ''Please input lock password: '') (\<lambda>b. need (arr_text b) (\<lambda>t.
         need (buf_write unlock 0 t) (\<lambda>unlock. need (buf_write lock 0 t) (\<lambda>lock.
           let shown = (\<lambda>result. Pause 1000 (need result (\<lambda>r.
                 tell [if r = 0 then str '' pin operate success'' else str '' pin operate fail''] (nwy_sim_ready_handle n unlock lock (Some r)))))
           in if pin_mode = 0 then Call ''nwy_sim_disable_pin'' [T unlock, T lock] (\<lambda>a. shown (Some (ret a)))
              else if pin_mode = 1 then Call ''nwy_sim_enable_pin'' [T unlock, T lock] (\<lambda>a. shown (Some (ret a)))
              else shown result)))))
     else if v = 2
     then Call ''nwy_sim_get_card_status'' [] (\<lambda>a.
       tell [str '' status is '', fmt_d (ret a), str ''(0-ready,1-not insert,2-pin;3-puk,4-busy)''] (nwy_sim_ready_handle n unlock lock result))
     else if v = 3
     then Call ''nwy_sim_get_iccid'' [] (\<lambda>a. Pause 1000 (Call ''nwy_sim_get_imsi'' [] (\<lambda>a'.
       tell [str '' iccid:'', text_of a 0, str '', imsi:'', text_of a' 0, str '')'']
         (nwy_sim_ready_handle n (replicate 12 0) (replicate 12 0) (Some (ret a'))))))
     else if v = 4
     then Call ''nwy_sim_get_pin_mode'' [] (\<lambda>a.
       if ret a \<noteq> 0 then tell [str ''get pin error''] (nwy_sim_ready_handle n (replicate 12 0) (replicate 12 0) result)
       else Pause 2000 (tell [str ''pin mode :'', fmt_d (num a 0)] (nwy_sim_ready_handle n (replicate 12 0) (replicate 12 0) result)))
     else if v = 5 then Done
     else nwy_sim_ready_handle n unlock lock result))"

definition nwy_sim_test :: "nat \<Rightarrow> 's dialog" where
  "nwy_sim_test n =
     ask_int (10 # str '' input 0 == test csim / 1 == SIM test / 2 == set sim detect trigger mode / 3 == set sim detect mode'') (\<lambda>v.
       if v = 0 then nwy_csim_test
       else if v = 2
       then ask_int (10 # str '' select sim detect trigger mode(0-low level,1-high level)'') (\<lambda>mode.
         Call ''nwy_set_sim_detect_trigger_mode'' [I mode] (\<lambda>a. Done))
       else if v = 3
       then ask_int (10 # str '' select sim detect mode(0-disable,1-enable)'') (\<lambda>enable. Call ''nwy_set_sim_detect_mode'' [I enable] (\<lambda>a. Done))
       else tell [str '' SIM test''] (Call ''nwy_sim_get_card_status'' [] (\<lambda>a.
         if ret a = 0 then tell [str '' SIM card ready, Proactive verification'']
           (nwy_sim_ready_handle n (replicate 12 0) (replicate 12 0) None)
         else if ret a = 1 then tell [str '' SIM card not insert''] Done
         else if ret a = 2 then tell [str '' SIM card lock pin''] Done
         else if ret a = 3 then tell [str '' SIM card lock puk''] Done
         else if ret a = 4 then tell [str '' SIM card busy''] Done
         else Done)))"

section \<open>USSD\<close>

definition test_send_ussd :: "(bool \<Rightarrow> 's dialog) \<Rightarrow> 's dialog" where
  "test_send_ussd k =
     ask_int (prompt ''Please input dcs: '') (\<lambda>dcs. ask_int (prompt ''Please input simid: '') (\<lambda>simid.
       Ask (prompt ''Please input ussd string: '') (\<lambda>b. need (line_copy 160 b) (\<lambda>ussd_string. need (arr_text ussd_string) (\<lambda>ussd_string.
         Call ''nwy_ussd_send_msg'' [I (to_u8 simid), T ussd_string, I (to_u8 dcs)] (\<lambda>a.
           if ret a \<noteq> 0 then k False
           else tell [str '' ussd info Option:'', fmt_d (num a 0)]
             (tell [str '' ussd info Dcs:'', fmt_d (num a 1)] (tell [str '' ussd info usd:'', text_of a 0] (k True)))))))))"

definition nwy_ussd_test :: "'s dialog" where
  "nwy_ussd_test =
     echo ''Please select an option to test ussd below. '' (print_menu [''1. send ussd test ''] (ask_option (\<lambda>v.
       if v = 1 then test_send_ussd (tell_done '' send ussd success '' '' send ussd fail '') else invalid_input)))"

section \<open>Short messages\<close>

text \<open>As in \<open>CliNetwork\<close>, the message is passed as its fields.\<close>

definition test_send_sms :: "(bool \<Rightarrow> 's dialog) \<Rightarrow> 's dialog" where
  "test_send_sms k =
     Ask (prompt ''Please input dest phone number: '') (\<lambda>b. need (line_copy 22 b) (\<lambda>phone_num.
       Ask (prompt ''Please input msg len: '') (\<lambda>b. need (arr_text b) (\<lambda>t.
         if 3 < length t then tell [str '' invalid msg len''] (k False)
         else Ask (prompt ''Please input msg data: '') (\<lambda>b. need (line_copy 801 b) (\<lambda>msg_contxet.
           ask_int (prompt ''Please input msg format(0:GSM7 2:UNICODE): '') (\<lambda>msg_format.
             need (arr_text phone_num) (\<lambda>phone_num.
               Call ''nwy_sms_send_message'' [T phone_num, I (to_u32 (c_atoi t)), T msg_contxet, I msg_format] (\<lambda>a. k (ret a = 0))))))))))"

definition test_del_sms :: "(bool \<Rightarrow> 's dialog) \<Rightarrow> 's dialog" where
  "test_del_sms k =
     ask_int (prompt ''Please input sms index: '') (\<lambda>nindex. ask_int (prompt ''Please input sms storage: '') (\<lambda>nStorage.
       Call ''nwy_sms_delete_message'' [I (to_u16 nindex), I nStorage] (\<lambda>a. k (ret a = 0))))"

definition test_del_sms_by_type :: "(bool \<Rightarrow> 's dialog) \<Rightarrow> 's dialog" where
  "test_del_sms_by_type k =
     ask_int (prompt ''Please input sms delete type: '') (\<lambda>dflag. ask_int (prompt ''Please input sms storage: '') (\<lambda>nStorage.
       Call ''nwy_sms_delete_message_by_type'' [I dflag, I nStorage] (\<lambda>a. k (ret a = 0))))"

definition test_get_sca_sms :: "(bool \<Rightarrow> 's dialog) \<Rightarrow> 's dialog" where
  "test_get_sca_sms k =
     Call ''nwy_sms_get_sca'' [] (\<lambda>a. if ret a \<noteq> 0 then k False else say [str '' sca:'', text_of a 0, str '' ''] (k True))"

definition test_set_sca_sms :: "(bool \<Rightarrow> 's dialog) \<Rightarrow> 's dialog" where
  "test_set_sca_sms k =
     Ask (prompt ''Please input sca number: '') (\<lambda>b. need (line_copy 21 b) (\<lambda>sca.
       ask_int (prompt ''Please input sca type: '') (\<lambda>tosca. need (arr_text sca) (\<lambda>sca.
         Call ''nwy_sms_set_sca'' [T sca, I (to_u32 tosca)] (\<lambda>a. k (ret a = 0))))))"

definition test_set_storage_sms :: "(bool \<Rightarrow> 's dialog) \<Rightarrow> 's dialog" where
  "test_set_storage_sms k =
     ask_int (prompt ''Please input sms storage: '') (\<lambda>sms_storage. Call ''nwy_sms_set_storage'' [I sms_storage] (\<lambda>a. k (ret a = 0)))"

definition test_get_storage_sms :: "'s dialog" where
  "test_get_storage_sms = Call ''nwy_sms_get_storage'' [] (\<lambda>a. tell [str '' sms_storage:'', fmt_d (ret a)] Done)"

definition test_set_report_mode_sms :: "(bool \<Rightarrow> 's dialog) \<Rightarrow> 's dialog" where
  "test_set_report_mode_sms k =
     ask_int (prompt ''Please input sms mode: '') (\<lambda>mode. ask_int (prompt ''Please input sms mt: '') (\<lambda>mt.
       Call ''nwy_set_report_option'' [I (to_u8 mode), I (to_u8 mt), I 0, I 0, I 0] (\<lambda>a. k (ret a = 0))))"

definition test_read_sms_by_index :: "(bool \<Rightarrow> 's dialog) \<Rightarrow> 's dialog" where
  "test_read_sms_by_index k =
     ask_int (prompt ''Please input sms index: '') (\<lambda>index.
       Call ''nwy_sms_read_message'' [I (to_u32 index)] (\<lambda>a.
         if ret a \<noteq> 0 then k False
         else Pause 2000 (tell [str '' read one sms oa:'', text_of a 0, str '' msg_context:'', text_of a 1] (k True))))"

text \<open>The loop over the list: the array of the status of a message gets its index behind what it holds. Each of the four arrays has
  500 bytes, the list of the module 500 entries; \<open>num\<close> is the count, then index and status of each entry.\<close>

definition append_index :: "buf \<Rightarrow> int \<Rightarrow> buf option" where
  "append_index b index = do { t \<leftarrow> arr_text b; buf_write b (length t) (fmt_d index @ [0x2C, 0]) }"

fun sort_indexes :: "nat \<Rightarrow> nat \<Rightarrow> (nat \<Rightarrow> int) \<Rightarrow> (int \<Rightarrow> buf) \<Rightarrow> (int \<Rightarrow> buf) option" where
  "sort_indexes 0 temp info arrays = Some arrays"
| "sort_indexes (Suc n) temp info arrays =
     (if 500 \<le> temp then None
      else let ty = info (2 * temp + 2)
           in if 1 \<le> ty \<and> ty \<le> 4
              then do { b \<leftarrow> append_index (arrays ty) (info (2 * temp + 1)); sort_indexes n (temp + 1) info (arrays(ty := b)) }
              else sort_indexes n (temp + 1) info arrays)"

definition cut_comma :: "buf \<Rightarrow> buf option" where
  "cut_comma b = do { t \<leftarrow> arr_text b; if t = [] then None else wr b (length t - 1) 0 }"

definition test_read_sms_by_list :: "(bool \<Rightarrow> 's dialog) \<Rightarrow> 's dialog" where
  "test_read_sms_by_list k =
     Call ''nwy_sms_read_message_list'' [] (\<lambda>a.
       if ret a = -1 then tell [str '' nwy_sms_read_message_list fail!''] (k False)
       else Pause 6000 (tell [str '' sms number='', fmt_d (num a 0)]
         (need (sort_indexes (nat (num a 0)) 0 (num a) (\<lambda>ty. replicate 500 0)) (\<lambda>arrays.
           need (cut_comma (arrays 1)) (\<lambda>unread. need (cut_comma (arrays 2)) (\<lambda>readed.
             need (cut_comma (arrays 3)) (\<lambda>unsent. need (cut_comma (arrays 4)) (\<lambda>sent.
               need (arr_text unread) (\<lambda>u. tell [str '' unread message index: '', u] (need (arr_text readed) (\<lambda>r.
                 tell [str '' read message index: '', r] (need (arr_text unsent) (\<lambda>us. tell [str '' unsent message index: '', us]
                   (need (arr_text sent) (\<lambda>s. tell [str '' sent message index: '', s] (k True))))))))))))))))"

definition test_send_pdu_sms :: "(bool \<Rightarrow> 's dialog) \<Rightarrow> 's dialog" where
  "test_send_pdu_sms k =
     Ask (prompt ''Please input sms pdu data: '') (\<lambda>b. need (arr_text b) (\<lambda>t.
       need (nwy_HexStrToByte b (length t) (replicate 1024 0)) (\<lambda>pbuf.
         Call ''nwy_sms_send_pdu_message'' [T pbuf, I (int (length t div 2))] (\<lambda>a. k (ret a = 0)))))"

definition nwy_sms_test :: "'s dialog" where
  "nwy_sms_test =
     Call ''nwy_init_sms_option'' [] (\<lambda>a. echo ''Please select an option to test sms below. ''
       (print_menu [''1. send sms test '', ''2. delete sms test '', ''3. get sca test '', ''4. set sca test '', ''5. set storage test '',
          ''6. get storage test '', ''7. set report mode test '', ''8. read sms by index test '', ''9. send pdu sms '', ''10. del sms by type '',
          ''11. read sms list '', ''0. do nothing waiting ''] (ask_option (\<lambda>v.
         if v = 0 then Done
         else if v = 1 then test_send_sms (tell_done '' send sms success '' '' send sms fail '')
         else if v = 2 then test_del_sms (tell_done '' del sms success '' '' del sms fail '')
         else if v = 3 then test_get_sca_sms (tell_done '' get sms sca success '' '' get sms sca fail '')
         else if v = 4 then test_set_sca_sms (tell_done '' set sms sca success '' '' set sms sca fail '')
         else if v = 5 then test_set_storage_sms (tell_done '' set sms storage success '' '' set sms storage fail '')
         else if v = 6 then test_get_storage_sms
         else if v = 7 then test_set_report_mode_sms (tell_done '' set sms report mode success '' '' set sms report mode fail '')
         else if v = 8 then test_read_sms_by_index (tell_done '' read sms success '' '' read sms fail '')
         else if v = 9 then test_send_pdu_sms (tell_done '' send sms success '' '' send sms fail '')
         else if v = 10 then test_del_sms_by_type (tell_done '' del sms by type success '' '' del sms by type fail '')
         else if v = 11 then test_read_sms_by_list (tell_done '' test_read_sms_by_list success '' ''test_read_sms_by_list fail '')
         else invalid_input))))"

section \<open>Two cards\<close>

text \<open>A query whose answer \<open>bad\<close> stands for a failure, and a setting.\<close>

definition get_setting :: "string \<Rightarrow> int \<Rightarrow> string \<Rightarrow> (bool \<Rightarrow> 's dialog) \<Rightarrow> 's dialog" where
  "get_setting f bad t k = Call f [] (\<lambda>a. if ret a = bad then k False else tell [str t, fmt_d (ret a)] (k True))"

definition set_setting :: "string \<Rightarrow> string \<Rightarrow> (bool \<Rightarrow> 's dialog) \<Rightarrow> 's dialog" where
  "set_setting f p k = ask_int (prompt p) (\<lambda>v. Call f [I v] (\<lambda>a. k (ret a = 0)))"

definition test_get_switch_poc_dsds :: "(bool \<Rightarrow> 's dialog) \<Rightarrow> 's dialog" where
  "test_get_switch_poc_dsds = get_setting ''nwy_poc_dsds_get_on_off'' 2 '' poc dsds switch on/off:''"

definition test_set_switch_poc_dsds :: "(bool \<Rightarrow> 's dialog) \<Rightarrow> 's dialog" where
  "test_set_switch_poc_dsds = set_setting ''nwy_poc_dsds_set_on_off'' ''Please input switch type: ''"

definition test_get_default_card :: "(bool \<Rightarrow> 's dialog) \<Rightarrow> 's dialog" where
  "test_get_default_card = get_setting ''nwy_poc_dsds_get_default_card'' 256 '' get default card:''"

definition test_set_default_card :: "(bool \<Rightarrow> 's dialog) \<Rightarrow> 's dialog" where
  "test_set_default_card = set_setting ''nwy_poc_dsds_set_default_card'' ''Please input default card: ''"

definition test_get_auto_switch_card :: "(bool \<Rightarrow> 's dialog) \<Rightarrow> 's dialog" where
  "test_get_auto_switch_card = get_setting ''nwy_poc_dsds_get_auto_switch_card'' 2 '' get auto switch card:''"

definition test_set_auto_switch_card :: "(bool \<Rightarrow> 's dialog) \<Rightarrow> 's dialog" where
  "test_set_auto_switch_card = set_setting ''nwy_poc_dsds_set_auto_switch_card'' ''Please input auto switch: ''"

definition test_get_master_card :: "(bool \<Rightarrow> 's dialog) \<Rightarrow> 's dialog" where
  "test_get_master_card = get_setting ''nwy_poc_dsds_get_mastercard_card'' 255 '' get master card:''"

definition test_set_master_card :: "(bool \<Rightarrow> 's dialog) \<Rightarrow> 's dialog" where
  "test_set_master_card = set_setting ''nwy_poc_dsds_set_mastercard_card'' ''Please input master card: ''"

definition nwy_poc_dsds_test :: "'s dialog" where
  "nwy_poc_dsds_test =
     echo ''Please select an option to test poc dsds below. '' (print_menu [''1. get poc dsds func on/off '', ''2. set poc dsds func on/off '',
       ''3. get poc dsds default card '', ''4. set poc dsds default card '', ''5. get poc dsds auto switch card '',
       ''6. set poc dsds auto switch card '', ''7. get poc dsds master card '', ''8. set poc dsds master card ''] (ask_option (\<lambda>v.
         if v = 0 then Done
         else if v = 1 then test_get_switch_poc_dsds (tell_done '' get switch poc dsds success '' '' get switch poc dsds fail '')
         else if v = 2 then test_set_switch_poc_dsds (tell_done '' set switch poc dsds success '' '' set switch poc dsds fail '')
         else if v = 3 then test_get_default_card (tell_done '' get default card success '' '' get default card fail '')
         else if v = 4 then test_set_default_card (tell_done '' set default card success '' '' set default card fail '')
         else if v = 5 then test_get_auto_switch_card (tell_done '' get auto switch card success '' '' get auto switch card fail '')
         else if v = 6 then test_set_auto_switch_card (tell_done '' set auto switch card success '' '' set auto switch card fail '')
         else if v = 7 then test_get_master_card (tell_done '' get master success '' '' get master fail '')
         else if v = 8 then test_set_master_card (tell_done '' set master success '' '' set master fail '')
         else invalid_input)))"

section \<open>The device\<close>

definition test_get_imei :: "(bool \<Rightarrow> 's dialog) \<Rightarrow> 's dialog" where
  "test_get_imei k = Call ''nwy_sim_get_imei'' [] (\<lambda>a. if ret a \<noteq> 0 then k False else say [str '' imei:'', text_of a 0, str '' ''] (k True))"

definition test_get_simid :: "(bool \<Rightarrow> 's dialog) \<Rightarrow> 's dialog" where
  "test_get_simid k = Call ''nwy_sim_get_simid'' [] (\<lambda>a. say [str '' simid:'', fmt_d (to_u8 (ret a)), str '' ''] (k True))"

definition test_set_simid :: "(bool \<Rightarrow> 's dialog) \<Rightarrow> 's dialog" where
  "test_set_simid k = ask_int (prompt ''Please input switch simid: '') (\<lambda>v. Call ''nwy_sim_set_simid'' [I (to_u8 v)] (\<lambda>a. k (ret a = 0)))"

definition test_get_msisdn :: "(bool \<Rightarrow> 's dialog) \<Rightarrow> 's dialog" where
  "test_get_msisdn k =
     ask_int (prompt ''Please input simid: '') (\<lambda>simid. Call ''nwy_sim_get_msisdn'' [I simid, I 128] (\<lambda>a.
       if ret a \<noteq> 0 then k False else say [str '' msisdn:'', text_of a 0, str '' ''] (k True)))"

definition test_verify_pin :: "(bool \<Rightarrow> 's dialog) \<Rightarrow> 's dialog" where
  "test_verify_pin k =
     ask_int (prompt ''Please input simid: '') (\<lambda>simid.
       Ask (prompt ''Please input pin string: '') (\<lambda>b. need (line_copy 10 b) (\<lambda>pin. need (arr_text pin) (\<lambda>pin.
         Call ''nwy_sim_verify_pin'' [I simid, T pin] (\<lambda>a. k (ret a = 0))))))"

definition test_verify_puk :: "(bool \<Rightarrow> 's dialog) \<Rightarrow> 's dialog" where
  "test_verify_puk k =
     ask_int (prompt ''Please input simid: '') (\<lambda>simid.
       Ask (prompt ''Please input puk string: '') (\<lambda>b. need (line_copy 10 b) (\<lambda>puk.
         Ask (prompt ''Please input new pin string: '') (\<lambda>b. need (line_copy 10 b) (\<lambda>new_pin.
           need (arr_text puk) (\<lambda>puk. need (arr_text new_pin) (\<lambda>new_pin.
             Call ''nwy_sim_unblock'' [I simid, T puk, T new_pin] (\<lambda>a. k (ret a = 0)))))))))"

definition nwy_device_test :: "'s dialog" where
  "nwy_device_test =
     echo ''Please select an option to test below. '' (print_menu [''1. get imei test '', ''2. get simid test '', ''3. set simid test '',
       ''4. get msisdn test '', ''5. verify pin test '', ''6. verify puk test ''] (ask_option (\<lambda>v.
         if v = 1 then test_get_imei (tell_done '' get imei success '' '' get imei fail '')
         else if v = 2 then test_get_simid (tell_done '' get simid success '' '' get simid fail '')
         else if v = 3 then test_set_simid (tell_done '' set simid success '' '' set simid fail '')
         else if v = 4 then test_get_msisdn (tell_done '' get msisdn success '' '' get msisdn fail '')
         else if v = 5 then test_verify_pin (tell_done '' verify pin success '' '' verify pin fail '')
         else if v = 6 then test_verify_puk (tell_done '' verify puk success '' '' verify puk fail '')
         else invalid_input)))"

section \<open>Data calls\<close>

definition nwy_ext_data_menu :: "'s dialog \<Rightarrow> 's dialog" where
  "nwy_ext_data_menu d =
     echo ''Please select an option to data test from the items listed below. '' (print_menu [''1. Create resource handle'', ''2. Get profile info'',
       ''3. Set profile info'', ''4. Start data call '', ''5. Get data info '', ''6. Stop data call'', ''7. Release resource handle'',
       ''8. Get data traffic statistics info'', ''9. Get data auto reconnect status'', ''10. Exit data function''] d)"

text \<open>The cases of \<open>nwy_data_test\<close>; a \<open>break\<close> ends the dialog of its case.\<close>

definition data_create :: "'s dialog" where
  "data_create =
     Call ''nwy_data_get_srv_handle'' [] (\<lambda>a.
       if 0 < ret a \<and> ret a \<le> int NWY_DATA_CALL_MAX_NUM then say [str ''Create a Resource Handle id: '', fmt_d (ret a), str '' success''] Done
       else say [str ''Create a Resource Handle failed, result<'', fmt_d (ret a), str ''>''] Done)"

text \<open>A text is copied only if it is not empty; the profile is cleared before.\<close>

definition ask_text_or_none :: "string \<Rightarrow> nat \<Rightarrow> string \<Rightarrow> (buf \<Rightarrow> 's dialog) \<Rightarrow> 's dialog" where
  "ask_text_or_none p m bad k =
     Ask (prompt p @ fmt_d (int m) @ str '')'' @ crlf) (\<lambda>b. need (arr_text b) (\<lambda>t.
       if m < length t then echo bad Done
       else if 0 < length t then need (buf_read b 0 (m + 1)) k else k (replicate (m + 1) 0)))"

definition data_set_profile :: "'s dialog" where
  "data_set_profile =
     ask_profile_id ''Please input profile info: profile_id <1-7>'' (\<lambda>profile_id.
       ask_int (prompt ''Please input profile info: auth_proto <0-2>'' @ crlf @ str ''0:NONE, 1:PAP, 2:CHAP'' @ crlf) (\<lambda>auth_proto.
         if auth_proto < 0 \<or> 2 < auth_proto then say [str ''Invaild auth_proto value: '', fmt_d auth_proto] Done
         else ask_int (prompt ''Please input profile info: pdp_type <1-3,6>'' @ crlf @ str ''1:IPV4, 2:IPV6, 3:IPV4V6, 6:PPP'' @ crlf) (\<lambda>pdp_type.
           if pdp_type \<noteq> 1 \<and> pdp_type \<noteq> 2 \<and> pdp_type \<noteq> 3 \<and> pdp_type \<noteq> 6 then say [str ''Invaild pdp_type value: '', fmt_d pdp_type] Done
           else ask_text_or_none ''Please input profile info: apn (length 0-'' 50 ''Invaild apn len'' (\<lambda>apn.
             ask_text_or_none ''Please input profile info: user name (length 0-'' 21 ''Invaild user name len'' (\<lambda>user_name.
               ask_text_or_none ''Please input profile info: password(length 0-'' 20 ''Invaild password len'' (\<lambda>pwd.
                 Call ''nwy_data_set_profile'' [I profile_id, I 0, I pdp_type, T apn, I auth_proto, T user_name, T pwd] (\<lambda>a.
                   if ret a \<noteq> 0 then say [str ''Set profile '', fmt_d profile_id, str '' info fail, result<'', fmt_d (ret a), str ''>''] Done
                   else say [str ''Set profile '', fmt_d profile_id, str '' info success''] Done)))))))"

text \<open>\<open>num\<close>: bytes and packets sent and received, unsigned. The text has 128 bytes.\<close>

definition data_flow :: "'s dialog" where
  "data_flow =
     Call ''nwy_data_get_flowcalc_info'' [] (\<lambda>a.
       say [str ''Get data traffic statistics success'', crlf, take 127 (str ''tx_bytes:'' @ fmt_d (num a 0) @ str '',rx_bytes:'' @ fmt_d (num a 1) @ crlf @
         str ''tx_packets:'' @ fmt_d (num a 2) @ str '',rx_packets:'' @ fmt_d (num a 3))] Done)"

definition data_reconnect_status :: "'s dialog" where
  "data_reconnect_status =
     ask_int handle_prompt (\<lambda>hndl.
       if hndl < 0 \<or> int NWY_DATA_CALL_MAX_NUM < hndl then invalid_handle hndl
       else Call ''nwy_data_get_auto_reconnect_status'' [I hndl] (\<lambda>a.
         if ret a = 0
         then say [str ''handle id '', fmt_d hndl, str '' auto reconnect status query success, state='', fmt_d (num a 0), str '',cnt='', fmt_d (num a 1)] Done
         else say [str ''handle id '', fmt_d hndl, str '' auto reconnect status query failed, ret='', fmt_d (ret a)] Done))"

text \<open>The cases that are the same as in the other program are its functions.\<close>

primrec data_rounds :: "nat \<Rightarrow> 's dialog" where
  "data_rounds 0 = Done"
| "data_rounds (Suc n) = nwy_ext_data_menu (ask_option (\<lambda>v.
     if v = 10 then Done
     else followed_by
       (if v = 1 then data_create
        else if v = 2 then nwy_test_cli_get_profile
        else if v = 3 then data_set_profile
        else if v = 4 then nwy_test_cli_data_start
        else if v = 5 then nwy_test_cli_data_info
        else if v = 6 then nwy_test_cli_data_stop
        else if v = 7 then nwy_test_cli_data_release
        else if v = 8 then data_flow
        else if v = 9 then data_reconnect_status
        else tell [str ''Please input vaild value''] Done) (data_rounds n)))"

definition nwy_data_test :: "nat \<Rightarrow> 's dialog" where
  "nwy_data_test n = Pause 500 (data_rounds n)"

section \<open>AT commands\<close>

text \<open>\<open>nwy_ext_sio_len\<close> bytes of the input array and a line end in the 1024 bytes of \<open>at_command\<close>; the module is given the array and
  the length. A negative length would be taken for a huge one.\<close>

definition nwy_ext_virtual_at_test :: "'a hello_vars_scheme dialog" where
  "nwy_ext_virtual_at_test =
     Pause 500 (Ask (prompt ''Send AT cmd :'') (\<lambda>b. need (arr_text b) (\<lambda>t.
       if 128 < length t then Done
       else Get (\<lambda>s. let n = nat (ext_sio_len s) in
         need (if ext_sio_len s < 0 then None else buf_read b 0 n) (\<lambda>c. need (buf_write (replicate 1024 0) 0 c) (\<lambda>at. need (wr at n 13) (\<lambda>at. need (wr at (n + 1) 10) (\<lambda>at.
           Call ''nwy_sdk_at_cmd_send'' [T at, I (int n + 2), I 30] (\<lambda>a.
             if ret a = 0 then tell [str '' Resp:'', text_of a 0] Done
             else if ret a = -101 then tell [str '' AT timeout''] Done
             else tell [str '' AT ERROR''] Done)))))))))"

section \<open>Voice calls\<close>

definition nwy_ext_voice_menu :: "'s dialog \<Rightarrow> 's dialog" where
  "nwy_ext_voice_menu d =
     echo ''Please select an option to test voice listed below. '' (print_menu [''1. call start '', ''2. call end test'', ''3. answver call '',
       ''4. set volte voice '', ''5. caller id test '', ''99. Exit voice function ''] d)"

text \<open>The loop over the characters of a number: digits, and a plus or asterisk in front.\<close>

fun phone_chars :: "nat \<Rightarrow> buf \<Rightarrow> bool" where
  "phone_chars i [] = True"
| "phone_chars i (c # cs) =
     (if c = 0x2B \<or> c = 0x2A then (if i \<noteq> 0 then False else phone_chars (i + 1) cs)
      else if 0x30 \<le> c \<and> c \<le> 0x39 then phone_chars (i + 1) cs
      else False)"

definition test_phone_num :: "buf \<Rightarrow> (bool \<Rightarrow> 's dialog) \<Rightarrow> 's dialog" where
  "test_phone_num phone_num k =
     (if length phone_num < 2 then Print (str ''number should large than 2'' @ [10]) (k False) else k (phone_chars 0 phone_num))"

text \<open>\<open>n\<close> rounds. \<open>phone_num\<close> is the array of 32 bytes, cleared once, before the loop.\<close>

primrec voice_rounds :: "nat \<Rightarrow> buf \<Rightarrow> 'a hello_vars_scheme dialog" where
  "voice_rounds 0 phone_num = Done"
| "voice_rounds (Suc n) phone_num = nwy_ext_voice_menu (ask_option (\<lambda>v.
     let dial = Ask (prompt '' input phone num:'') (\<lambda>b. need (arr_text b) (\<lambda>t.
           if 128 < length t then Done
           else need (buf_write phone_num 0 t) (\<lambda>phone_num. need (arr_text phone_num) (\<lambda>number.
             tell [str '' phone num :'', number] (test_phone_num number (\<lambda>ok.
               if \<not> ok then tell [str '' invaild phone num''] Done
               else Call ''nwy_voice_call_start'' [I 0, T number] (\<lambda>a.
                 if ret a = 0 then tell [str '' call success''] (voice_rounds n phone_num)
                 else tell [str '' call fail''] (voice_rounds n phone_num))))))))
     in if v = 1 then dial
        else if v = 4
        then ask_int (prompt '' open volte(1-on 0-off):'') (\<lambda>setvolte.
          tell [str '' volte value :'', fmt_d setvolte] (Call ''nwy_voice_setvolte'' [I 0, I (to_u8 setvolte)] (\<lambda>a. dial)))
        else if v = 2 then Call ''nwy_voice_call_end'' [I 0] (\<lambda>a. voice_rounds n phone_num)
        else if v = 3 then Call ''nwy_voice_call_autoanswver'' [] (\<lambda>a. voice_rounds n phone_num)
        else if v = 5 then tell [str '' need open clip at+clip = 1''] (followed_by nwy_ext_virtual_at_test (voice_rounds n phone_num))
        else if v = 99 then Done
        else voice_rounds n phone_num))"

definition nwy_voice_test :: "nat \<Rightarrow> 'a hello_vars_scheme dialog" where
  "nwy_voice_test n = Pause 50 (voice_rounds n (replicate 32 0))"

section \<open>Timer and semaphore\<close>

definition nwy_app_timer_cb :: "'s dialog" where
  "nwy_app_timer_cb = tell [str '' Timer test ok''] Done"

definition nwy_timer_test :: "'a hello_vars_scheme dialog" where
  "nwy_timer_test =
     Get (\<lambda>s. if g_timer s = 0 then tell [str '' Timer init fail''] Done
       else Ask (prompt '' Start timer(y/n): '') (\<lambda>b. need (arr_text b) (\<lambda>t. Get (\<lambda>s.
         if 0x79 \<in> set t then Call ''nwy_start_timer_periodic'' [I (g_timer s), I 1000] (\<lambda>a. Done)
         else if 0x6E \<in> set t then Call ''nwy_stop_timer'' [I (g_timer s)] (\<lambda>a. Done)
         else tell [str ''Input error''] Done))))"

text \<open>The loop of a thread, \<open>n\<close> further rounds of it: the counter by \<open>k\<close> and a line.\<close>

primrec count_rounds :: "string \<Rightarrow> int \<Rightarrow> nat \<Rightarrow> 'a hello_vars_scheme dialog" where
  "count_rounds t k 0 = Get (\<lambda>s. Call ''nwy_semahpore_release'' [I (nwy_semaphore s)] (\<lambda>a. Call ''nwy_exit_thread'' [] (\<lambda>a. Done)))"
| "count_rounds t k (Suc n) =
     Put (\<lambda>s. s\<lparr>semaphore_count := semaphore_count s + k\<rparr>) (Get (\<lambda>s. tell [str t, fmt_d (semaphore_count s)] (Pause 10 (count_rounds t k n))))"

definition nwy_semaphore_taskA_proc :: "'a hello_vars_scheme dialog" where
  "nwy_semaphore_taskA_proc =
     Get (\<lambda>s. Call ''nwy_semaphore_acquire'' [I (nwy_semaphore s), I 0] (\<lambda>a. count_rounds ''TaskA semaphore_count = '' 1 100))"

definition nwy_semaphore_taskB_proc :: "'a hello_vars_scheme dialog" where
  "nwy_semaphore_taskB_proc =
     Get (\<lambda>s. Call ''nwy_semaphore_acquire'' [I (nwy_semaphore s), I 0] (\<lambda>a. count_rounds ''TaskB semaphore_count = '' (-1) 50))"

definition nwy_semaphore_test :: "'a hello_vars_scheme dialog" where
  "nwy_semaphore_test =
     Put (\<lambda>s. s\<lparr>semaphore_count := 0\<rparr>)
       (Call ''nwy_semaphore_create'' [I 1, I 1] (\<lambda>a. Put (\<lambda>s. s\<lparr>nwy_semaphore := ret a\<rparr>)
         (Call ''nwy_create_thread'' [T (str ''semaphore_testA''), I 1024, I 4] (\<lambda>a.
           Call ''nwy_create_thread'' [T (str ''semaphore_testB''), I 1024, I 4] (\<lambda>a. Done)))))"

end
