(* ===== verification/HelloEffects.thy ===== *)
theory HelloEffects
  imports CliEffects HelloMobile
begin

text \<open>
  What the menus of \<open>HelloMobile\<close> do: the list of messages, which is only printed when there are messages of all four kinds; the
  numbers that are dialled one after the other; and the lines and answers under which no menu leaves its arrays.
\<close>

section \<open>The list of messages\<close>

text \<open>The indexes of the first \<open>m\<close> entries with a status, each with a comma.\<close>

definition index_list :: "(nat \<Rightarrow> int) \<Rightarrow> nat \<Rightarrow> int \<Rightarrow> buf" where
  "index_list info m ty = concat (map (\<lambda>i. fmt_d (info (2 * i + 1)) @ [0x2C]) (filter (\<lambda>i. info (2 * i + 2) = ty) [0..<m]))"

lemma index_list_simps:
  "index_list info 0 ty = []"
  "index_list info (Suc m) ty = index_list info m ty @ (if info (2 * m + 2) = ty then fmt_d (info (2 * m + 1)) @ [0x2C] else [])"
  by (simp_all add: index_list_def)

lemma index_list_nonzero: "0 \<notin> set (index_list info m ty)"
  by (auto simp: index_list_def)

lemma index_list_mono: "length (index_list info m ty) \<le> length (index_list info (m + n) ty)"
  by (induction n) (auto simp: index_list_simps)

definition fill500 :: "buf \<Rightarrow> buf" where
  "fill500 t = t @ replicate (500 - length t) 0"

lemma append_index_fill:
  assumes "0 \<notin> set t" and "length (t @ fmt_d v @ [0x2C]) < 500"
  shows "append_index (fill500 t) v = Some (fill500 (t @ fmt_d v @ [0x2C]))"
proof -
  define j where "j = 498 - length t - length (fmt_d v)"
  have j: "500 - length t = length (fmt_d v) + 2 + j" using assms(2) by (simp add: j_def)
  have "500 - length (t @ fmt_d v @ [0x2C]) = Suc j" using j by simp
  then show ?thesis using j assms arr_text_fill [OF assms(1), of "500 - length t"]
    by (simp add: append_index_def fill500_def buf_write_def)
qed

lemma sort_indexes_lists:
  assumes "m + n \<le> 500" and "\<And>ty. 1 \<le> ty \<Longrightarrow> ty \<le> 4 \<Longrightarrow> length (index_list info (m + n) ty) < 500"
    and "\<And>ty. 1 \<le> ty \<Longrightarrow> ty \<le> 4 \<Longrightarrow> arrays ty = fill500 (index_list info m ty)"
  shows "\<exists>arrays'. sort_indexes n m info arrays = Some arrays' \<and> (\<forall>ty. 1 \<le> ty \<and> ty \<le> 4 \<longrightarrow> arrays' ty = fill500 (index_list info (m + n) ty))"
  using assms
proof (induction n arbitrary: m arrays)
  case (Suc n)
  let ?ty = "info (2 * m + 2)"
  define arrays1 where "arrays1 = (if 1 \<le> ?ty \<and> ?ty \<le> 4 then arrays(?ty := fill500 (index_list info (Suc m) ?ty)) else arrays)"
  have l: "length (index_list info (Suc m) ty) < 500" if "1 \<le> ty" "ty \<le> 4" for ty
    using index_list_mono [of info "Suc m" ty n] Suc.prems(2) [OF that] by simp
  have step: "sort_indexes (Suc n) m info arrays = sort_indexes n (Suc m) info arrays1"
  proof (cases "1 \<le> ?ty \<and> ?ty \<le> 4")
    case True
    have "append_index (arrays ?ty) (info (2 * m + 1)) = Some (fill500 (index_list info (Suc m) ?ty))"
      using append_index_fill [OF index_list_nonzero [of info m ?ty]] l [of ?ty] Suc.prems(3) [of ?ty] True by (simp add: index_list_simps)
    with True Suc.prems(1) show ?thesis by (simp add: arrays1_def Let_def)
  qed (use Suc.prems(1) in \<open>auto simp: arrays1_def Let_def\<close>)
  have one: "arrays1 ty = fill500 (index_list info (Suc m) ty)" if "1 \<le> ty" "ty \<le> 4" for ty
    using Suc.prems(3) [OF that] that by (auto simp: arrays1_def index_list_simps)
  have "\<exists>arrays'. sort_indexes n (Suc m) info arrays1 = Some arrays' \<and> (\<forall>ty. 1 \<le> ty \<and> ty \<le> 4 \<longrightarrow> arrays' ty = fill500 (index_list info (Suc m + n) ty))"
    by (rule Suc.IH) (use Suc.prems(1,2) one in simp_all)
  then show ?case unfolding step by simp
qed simp

lemma cut_comma_fill:
  assumes "0 \<notin> set t" and "length t < 500"
  shows "cut_comma (fill500 t) = (if t = [] then None else Some (butlast t @ replicate (501 - length t) 0))"
proof (cases t rule: rev_cases)
  case (snoc u c)
  have "501 - length t = Suc (500 - length t)" using assms(2) by simp
  then show ?thesis using assms arr_text_fill [OF assms(1), of "500 - length t"] snoc by (simp add: cut_comma_def fill500_def wr_def list_update_append)
qed (simp add: cut_comma_def fill500_def arr_text_fill [of "[]", simplified])

text \<open>C35: the list of messages needs all four kinds. The module lists messages, each unread, read, unsent or sent. If there is at
  least one of each kind, the four lists of indexes are printed, without the comma at their end. If a kind is missing, the function
  writes in front of the array of that kind.\<close>

theorem sms_list_needs_all_kinds:
  assumes "ret a \<noteq> -1" and "num a 0 \<le> 500" and "\<And>ty. 1 \<le> ty \<Longrightarrow> ty \<le> 4 \<Longrightarrow> length (index_list (num a) (nat (num a 0)) ty) < 500"
  shows "let l = index_list (num a) (nat (num a 0)); r = run (test_read_sms_by_list (\<lambda>ok. Done)) s [(answers 0)\<lparr>reply := a\<rparr>, answers 0]
    in (if l 1 \<noteq> [] \<and> l 2 \<noteq> [] \<and> l 3 \<noteq> [] \<and> l 4 \<noteq> []
        then r = ([Called ''nwy_sms_read_message_list'' [], Paused 6000, Printed (crlf @ str '' sms number='' @ fmt_d (num a 0)),
          Printed (crlf @ str '' unread message index: '' @ butlast (l 1)), Printed (crlf @ str '' read message index: '' @ butlast (l 2)),
          Printed (crlf @ str '' unsent message index: '' @ butlast (l 3)), Printed (crlf @ str '' sent message index: '' @ butlast (l 4))], Returned s [])
        else snd r = Faulted)"
proof -
  let ?l = "index_list (num a) (nat (num a 0))"
  have n: "nat (num a 0) \<le> 500" using assms(2) by simp
  obtain arrays where arrays: "sort_indexes (nat (num a 0)) 0 (num a) (\<lambda>ty. replicate 500 0) = Some arrays"
      "\<And>ty. 1 \<le> ty \<Longrightarrow> ty \<le> 4 \<Longrightarrow> arrays ty = fill500 (?l ty)"
    using sort_indexes_lists [of 0 "nat (num a 0)" "num a" "\<lambda>ty. replicate 500 0"] n assms(3) by (auto simp: index_list_simps fill500_def)
  have cut: "cut_comma (arrays ty) = (if ?l ty = [] then None else Some (butlast (?l ty) @ replicate (501 - length (?l ty)) 0))" if "1 \<le> ty" "ty \<le> 4" for ty
    using cut_comma_fill [OF index_list_nonzero assms(3) [OF that]] arrays(2) [OF that] by simp
  have shown: "arr_text (butlast (?l ty) @ replicate (501 - length (?l ty)) 0) = Some (butlast (?l ty))" if "1 \<le> ty" "ty \<le> 4" for ty
    using arr_text_fill [of "butlast (?l ty)" "501 - length (?l ty)"] index_list_nonzero [of "num a" "nat (num a 0)" ty] assms(3) [OF that] by (auto dest: in_set_butlastD)
  show ?thesis using assms(1) arrays(1) cut shown by (simp add: test_read_sms_by_list_def Let_def logged_def)
qed

text \<open>One message of each kind, with the indexes 1 to 4, and with one kind missing.\<close>

definition four_messages :: "int \<Rightarrow> answer" where
  "four_messages n = \<lparr>ret = 0, num = \<lambda>i. if i = 0 then n else int ((i + 1) div 2), text_of = \<lambda>i. []\<rparr>"

theorem sms_list_needs_all_kinds_witness:
  "(\<exists>l. run (test_read_sms_by_list (\<lambda>ok. Done)) () [(answers 0)\<lparr>reply := four_messages 4\<rparr>, answers 0] = (l, Returned () []) \<and>
      Printed (crlf @ str '' unsent message index: '' @ str ''3'') \<in> set l) \<and>
   snd (run (test_read_sms_by_list (\<lambda>ok. Done)) () [(answers 0)\<lparr>reply := four_messages 3\<rparr>, answers 0]) = Faulted"
proof -
  have l: "index_list (num (four_messages n)) 4 1 = fmt_d 1 @ [0x2C]" "index_list (num (four_messages n)) 4 2 = fmt_d 2 @ [0x2C]"
    "index_list (num (four_messages n)) 4 3 = fmt_d 3 @ [0x2C]" "index_list (num (four_messages n)) 4 4 = fmt_d 4 @ [0x2C]"
    "index_list (num (four_messages n)) 3 4 = []" for n
    by (simp_all add: index_list_def four_messages_def upt_rec)
  have b: "length (index_list (num (four_messages n)) 4 ty) < 500" "length (index_list (num (four_messages n)) 3 ty) < 500" if "1 \<le> ty" "ty \<le> 4" for n ty
    by (simp_all add: index_list_def four_messages_def upt_rec fmt_d_def dec_digits.simps)
  have n: "nat (num (four_messages 4) 0) = 4" "nat (num (four_messages 3) 0) = 3" by (simp_all add: four_messages_def)
  have f: "fmt_d 3 = str ''3''" by (simp add: fmt_d_def dec_digits.simps str_def)
  have four: "ret (four_messages n) \<noteq> -1" "num (four_messages n) 0 = n" for n by (simp_all add: four_messages_def)
  show ?thesis
    using sms_list_needs_all_kinds [of "four_messages 4" "()"] sms_list_needs_all_kinds [of "four_messages 3" "()"] b
    by (simp add: four n l Let_def f)
qed

section \<open>Numbers that are dialled\<close>

text \<open>A number that is entered after another one covers its beginning.\<close>

fun dialled :: "buf \<Rightarrow> buf list \<Rightarrow> buf list" where
  "dialled old [] = []"
| "dialled old (t # ts) = (t @ drop (length t) old) # dialled (t @ drop (length t) old) ts"

definition phone_number :: "buf \<Rightarrow> bool" where
  "phone_number t = (2 \<le> length t \<and> length t < 32 \<and> phone_chars 0 t)"

definition dials :: "buf \<Rightarrow> 's event list" where
  "dials t = [enter (str ''1''), enter t, answers 0]"

lemma phone_chars_digits: "phone_chars (Suc i) t = list_all is_digit t"
  by (induction t arbitrary: i) (auto simp: is_digit_def)

lemma phone_chars_first: "phone_chars 0 (c # t) \<longleftrightarrow> (c = 0x2B \<or> c = 0x2A \<or> is_digit c) \<and> list_all is_digit t"
  using phone_chars_digits [of 0] by (auto simp: is_digit_def)

lemma phone_number_covers:
  assumes "phone_number t" and "old = [] \<or> phone_number old"
  shows "phone_number (t @ drop (length t) old)"
proof -
  obtain c u where t: "t = c # u" using assms(1) by (cases t) (auto simp: phone_number_def)
  have "list_all is_digit (drop (length t) old)"
    using assms(2) t by (cases old) (auto simp: phone_number_def phone_chars_first list_all_iff simp del: phone_chars.simps dest: in_set_dropD)
  then show ?thesis using assms t by (auto simp: phone_number_def phone_chars_first simp del: phone_chars.simps)
qed

lemma phone_nonzero: "phone_number t \<Longrightarrow> 0 \<notin> set t"
  by (cases t) (auto simp: phone_number_def phone_chars_first is_digit_def list_all_iff simp del: phone_chars.simps)

lemma menu_run: "run (print_menu ls d) s es = (map (\<lambda>l. Printed (str l @ crlf)) ls @ fst (run d s es), snd (run d s es))"
  by (induction ls) (simp_all add: print_menu_def logged_def)

lemma voice_round:
  assumes "phone_number t" and "old = [] \<or> phone_number old"
  shows "\<exists>l. filter (called ''nwy_voice_call_start'') l = [Called ''nwy_voice_call_start'' [I 0, T (t @ drop (length t) old)]] \<and>
    run (voice_rounds (Suc n) (old @ replicate (32 - length old) 0)) s (dials t @ es) =
      (l @ fst (run (voice_rounds n ((t @ drop (length t) old) @ replicate (32 - length (t @ drop (length t) old)) 0)) s es),
       snd (run (voice_rounds n ((t @ drop (length t) old) @ replicate (32 - length (t @ drop (length t) old)) 0)) s es))"
proof -
  let ?p = "t @ drop (length t) old"
  have p: "phone_number ?p" by (rule phone_number_covers [OF assms])
  have one: "0 \<notin> set (str ''1'')" "length (str ''1'') < 2048" "c_atoi (str ''1'') = 1"
    by (simp_all add: str_def c_atoi_def is_space_def is_digit_def digits_val_def int_max_def)
  have t: "0 \<notin> set t" "length t < 32" "2 \<le> length t" using phone_nonzero [OF assms(1)] assms(1) by (simp_all add: phone_number_def)
  have "length old < 32" using assms(2) by (auto simp: phone_number_def)
  then have w: "buf_write (old @ replicate (32 - length old) 0) 0 t = Some (?p @ replicate (32 - length ?p) 0)"
    using t by (cases "length t \<le> length old") (simp_all add: buf_write_def)
  have a: "arr_text (?p @ replicate (32 - length ?p) 0) = Some ?p"
    using arr_text_fill [OF phone_nonzero [OF p], of "32 - length ?p"] p by (simp add: phone_number_def)
  show ?thesis using t p w a one
    by (simp add: dials_def nwy_ext_voice_menu_def menu_run echo_def ask_option_def run_ask_int arr_text_enter Let_def test_phone_num_def phone_number_def logged_def)
qed

lemma voice_rounds_dial:
  assumes "list_all phone_number ts" and "old = [] \<or> phone_number old"
  shows "filter (called ''nwy_voice_call_start'') (fst (run (voice_rounds (length ts) (old @ replicate (32 - length old) 0)) s (concat (map dials ts))))
      = map (\<lambda>p. Called ''nwy_voice_call_start'' [I 0, T p]) (dialled old ts) \<and>
    snd (run (voice_rounds (length ts) (old @ replicate (32 - length old) 0)) s (concat (map dials ts))) = Returned s []"
  using assms
proof (induction ts arbitrary: old)
  case (Cons t ts)
  then have t: "phone_number t" by simp
  let ?p = "t @ drop (length t) old"
  let ?d = "voice_rounds (length ts) (?p @ replicate (32 - length ?p) 0)"
  let ?es = "concat (map dials ts)"
  obtain l where l: "filter (called ''nwy_voice_call_start'') l = [Called ''nwy_voice_call_start'' [I 0, T ?p]]"
      "run (voice_rounds (Suc (length ts)) (old @ replicate (32 - length old) 0)) s (dials t @ ?es) = (l @ fst (run ?d s ?es), snd (run ?d s ?es))"
    using voice_round [OF t Cons.prems(2)] by blast
  have "filter (called ''nwy_voice_call_start'') (fst (run ?d s ?es)) = map (\<lambda>p. Called ''nwy_voice_call_start'' [I 0, T p]) (dialled ?p ts) \<and>
      snd (run ?d s ?es) = Returned s []"
    by (rule Cons.IH) (use Cons.prems(1) phone_number_covers [OF t Cons.prems(2)] in simp_all)
  with l show ?case by (simp del: voice_rounds.simps length_append)
qed simp

lemma dialled_longer: "sorted (map length (old # ts)) \<Longrightarrow> dialled old ts = ts"
  by (induction ts arbitrary: old) simp_all

text \<open>C21: which numbers are dialled. The user calls numbers (at least two characters, digits, perhaps a plus or asterisk in front, at
  most 31 characters), one after the other. A number is dialled as it was entered only if it is not shorter than what was dialled
  before: the array of the number is never cleared again, so a shorter number is completed by the end of the one before. In
  particular, numbers that never get shorter are dialled as entered.\<close>

theorem voice_numbers_dialled:
  assumes "list_all phone_number ts"
  shows "let r = run (nwy_voice_test (length ts)) s (answers 0 # concat (map dials ts))
    in filter (called ''nwy_voice_call_start'') (fst r) = map (\<lambda>p. Called ''nwy_voice_call_start'' [I 0, T p]) (dialled [] ts) \<and>
      snd r = Returned s [] \<and> (sorted (map length ts) \<longrightarrow> dialled [] ts = ts)"
  using voice_rounds_dial [OF assms, of "[]"] dialled_longer [of "[]" ts] by (simp add: nwy_voice_test_def Let_def del: voice_rounds.simps)

theorem voice_numbers_dialled_witness:
  "filter (called ''nwy_voice_call_start'') (fst (run (nwy_voice_test 2) \<lparr>ext_sio_len = 0, g_timer = 0, semaphore_count = 0, nwy_semaphore = 0\<rparr>
      (answers 0 # concat (map dials [str ''10086'', str ''112''])))) =
    [Called ''nwy_voice_call_start'' [I 0, T (str ''10086'')], Called ''nwy_voice_call_start'' [I 0, T (str ''11286'')]]"
proof -
  have "list_all phone_number [str ''10086'', str ''112'']" by (simp add: phone_number_def str_def)
  from voice_numbers_dialled [OF this, of "\<lparr>ext_sio_len = 0, g_timer = 0, semaphore_count = 0, nwy_semaphore = 0\<rparr>"]
  show ?thesis by (simp add: Let_def numeral_2_eq_2 str_def)
qed

end
