(* ===== verification/HelloSafety.thy ===== *)
theory HelloSafety
  imports HelloEffects
begin

text \<open>
  A contract for the menus of \<open>HelloMobile\<close>: the rules of the other program for the prompts they share, rules for the others, and
  an invariant of the variables. Each menu keeps it.
\<close>

section \<open>The contract\<close>

definition hello_rules :: "(string \<times> (buf \<Rightarrow> bool)) list" where
  "hello_rules =
     [('' input data:'', \<lambda>t. length t < 1024),
      (''Please set pin mode:0-disable,1-enable: '', \<lambda>t. c_atoi t = 0 \<or> c_atoi t = 1),
      (''Please input lock password: '', \<lambda>t. length t \<le> 12),
      ('' input phone num:'', \<lambda>t. length t < 32 \<or> 128 < length t)]"

text \<open>A line stands in \<open>nwy_ext_sio_recv_buff\<close> of src/hello_world.c, an array of 2049 bytes.\<close>

definition hello_line :: "buf \<Rightarrow> buf \<Rightarrow> bool" where
  "hello_line p b = (length b = 2049 \<and> terminated b \<and> list_all (\<lambda>(k, q). p = prompt k \<longrightarrow> q (c_str b)) (line_rules @ hello_rules))"

text \<open>A list of messages of all four kinds whose indexes fit the arrays.\<close>

definition list_fits :: "answer \<Rightarrow> bool" where
  "list_fits a = (num a 0 \<le> 500 \<and>
     list_all (\<lambda>ty. let l = index_list (num a) (nat (num a 0)) ty in l \<noteq> [] \<and> length l < 500) [1, 2, 3, 4])"

definition hello_reply :: "string \<Rightarrow> arg list \<Rightarrow> answer \<Rightarrow> bool" where
  "hello_reply f as a = (f = ''nwy_sms_read_message_list'' \<longrightarrow> ret a \<noteq> -1 \<longrightarrow> list_fits a)"

definition hello_ok :: "hello_vars \<Rightarrow> bool" where
  "hello_ok s = (0 \<le> ext_sio_len s \<and> ext_sio_len s \<le> 1022)"

definition hello_contract :: "hello_vars contract" where
  "hello_contract = \<lparr>line_ok = hello_line, call_ok = call_fits, reply_ok = hello_reply, vars_ok = hello_ok\<rparr>"

lemma hello_contract_simps [simp]:
  "line_ok hello_contract = hello_line" "call_ok hello_contract = call_fits" "reply_ok hello_contract = hello_reply" "vars_ok hello_contract = hello_ok"
  by (simp_all add: hello_contract_def)

lemma hello_line_array: "hello_line p b \<Longrightarrow> terminated b \<and> length b = 2049"
  by (simp add: hello_line_def)

lemma hello_line_rules:
  "hello_line (prompt '' input data:'') b \<Longrightarrow> length (c_str b) < 1024"
  "hello_line (prompt ''Please set pin mode:0-disable,1-enable: '') b \<Longrightarrow> c_atoi (c_str b) = 0 \<or> c_atoi (c_str b) = 1"
  "hello_line (prompt ''Please input lock password: '') b \<Longrightarrow> length (c_str b) \<le> 12"
  "hello_line (prompt '' input phone num:'') b \<Longrightarrow> length (c_str b) < 32 \<or> 128 < length (c_str b)"
  unfolding hello_line_def hello_rules_def list.pred_set set_append by (simp_all add: ball_Un)

lemma hello_shared_rules:
  "hello_line (prompt ''Please input pin string: '') b \<Longrightarrow> length (c_str b) < 10"
  "hello_line (prompt ''Please input puk string: '') b \<Longrightarrow> length (c_str b) < 10"
  "hello_line (prompt ''Please input new pin string: '') b \<Longrightarrow> length (c_str b) < 10"
  "hello_line (prompt ''Please input dest phone number: '') b \<Longrightarrow> length (c_str b) < 22"
  "hello_line (prompt ''Please input msg data: '') b \<Longrightarrow> length (c_str b) \<le> 801"
  "hello_line (prompt ''Please input sca number: '') b \<Longrightarrow> length (c_str b) < 21"
  "hello_line (prompt ''Please input ussd string: '') b \<Longrightarrow> length (c_str b) < 160"
  "hello_line (prompt ''Please input data(2020-1-1): '') b \<Longrightarrow> 3 \<le> length (strtok_all 0x2D (c_str b))"
  "hello_line (prompt ''Please input time(1:1:1): '') b \<Longrightarrow> 3 \<le> length (strtok_all 0x3A (c_str b))"
  unfolding hello_line_def line_rules_def list.pred_set set_append by (simp_all add: ball_Un)

lemmas hello_dialog_rules = hello_line_array hello_line_rules hello_shared_rules line_copy_eq line_array_text call_unfold safe_ask_int

lemma hello_reply_free [simp]: "f \<noteq> ''nwy_sms_read_message_list'' \<Longrightarrow> hello_reply f as a"
  by (simp add: hello_reply_def)

section \<open>Every menu keeps it\<close>

lemma safe_print_menu [simp]: "safe K (print_menu ls d) = safe K d"
  by (induction ls) (simp_all add: print_menu_def)

lemma safe_tell_done [simp]: "safe K (tell_done g b ok)" "safe K invalid_input"
  by (simp_all add: tell_done_def invalid_input_def)

lemma safe_option: "(\<And>v. safe hello_contract (k v)) \<Longrightarrow> safe hello_contract (ask_option k)"
  by (simp add: ask_option_def safe_ask_int hello_line_array)

lemma safe_hello_int: "(\<And>v. safe hello_contract (k v)) \<Longrightarrow> safe hello_contract (ask_int p k)"
  by (simp add: safe_ask_int hello_line_array)

lemma strcpy_text: "0 \<notin> set t \<Longrightarrow> length t < n \<Longrightarrow> \<exists>d. c_strcpy (replicate n 0) t = Some d \<and> arr_text d = Some t"
  using arr_text_fill [of t "n - length t"] by (simp add: c_strcpy_def buf_write_def Suc_diff_Suc flip: replicate_Suc)

lemma csim_safe: "safe hello_contract nwy_csim_test"
proof -
  have "\<exists>d. c_strcpy (replicate 1024 0) (c_str b) = Some d \<and> arr_text d = Some (c_str b)" if "hello_line (prompt '' input data:'') b" for b
    using strcpy_text [OF c_str_nonzero hello_line_rules(1) [OF that]] .
  then show ?thesis by (fastforce simp: nwy_csim_test_def hello_line_array call_unfold)
qed

lemma sim_ready_safe:
  "length unlock = 12 \<Longrightarrow> length lock = 12 \<Longrightarrow> safe hello_contract (nwy_sim_ready_handle n unlock lock result)"
proof (induction n arbitrary: unlock lock result)
  case (Suc n)
  have w: "\<exists>u. buf_write x 0 (c_str b) = Some u \<and> length u = 12" if "hello_line (prompt ''Please input lock password: '') b" "length x = 12" for b x
    using hello_line_rules(3) [OF that(1)] that(2) by (simp add: buf_write_def)
  have pin: "\<exists>u l. buf_write unlock 0 (c_str b) = Some u \<and> buf_write lock 0 (c_str b) = Some l \<and> (\<forall>r. safe hello_contract (nwy_sim_ready_handle n u l r))"
    if "hello_line (prompt ''Please input lock password: '') b" for b
    using w [OF that Suc.prems(1)] w [OF that Suc.prems(2)] Suc.IH by blast
  have change: "safe hello_contract (need (buf_write unlock 0 (c_str ba)) (\<lambda>unlock. need (buf_write lock 0 (c_str ba)) (\<lambda>lock.
      let shown = (\<lambda>result. Pause 1000 (need result (\<lambda>r.
            tell [if r = 0 then str '' pin operate success'' else str '' pin operate fail''] (nwy_sim_ready_handle n unlock lock (Some r)))))
      in if c_atoi (c_str b) = 0 then Call ''nwy_sim_disable_pin'' [T unlock, T lock] (\<lambda>a. shown (Some (ret a)))
         else if c_atoi (c_str b) = 1 then Call ''nwy_sim_enable_pin'' [T unlock, T lock] (\<lambda>a. shown (Some (ret a)))
         else shown result)))"
    if "hello_line (prompt ''Please set pin mode:0-disable,1-enable: '') b" "hello_line (prompt ''Please input lock password: '') ba" for b ba
    using pin [OF that(2)] hello_line_rules(2) [OF that(1)] by (auto simp: call_unfold)
  show ?case
    unfolding nwy_sim_ready_handle.simps nwy_ext_sim_menu_def
    using Suc change by (auto intro!: safe_option simp: safe_ask_int hello_line_array call_unfold simp del: Let_def)
qed simp

lemma sim_test_safe: "safe hello_contract (nwy_sim_test n)"
  unfolding nwy_sim_test_def by (auto intro!: safe_hello_int csim_safe sim_ready_safe simp: call_unfold)

lemma ussd_safe: "safe hello_contract nwy_ussd_test"
  unfolding nwy_ussd_test_def test_send_ussd_def by (auto intro!: safe_option simp: hello_dialog_rules less_imp_le)
 
lemma dsds_safe: "safe hello_contract nwy_poc_dsds_test"
  unfolding nwy_poc_dsds_test_def
  by (auto intro!: safe_option simp: test_get_switch_poc_dsds_def test_set_switch_poc_dsds_def test_get_default_card_def test_set_default_card_def
      test_get_auto_switch_card_def test_set_auto_switch_card_def test_get_master_card_def test_set_master_card_def get_setting_def set_setting_def
      hello_dialog_rules)

lemma device_safe: "safe hello_contract nwy_device_test"
  unfolding nwy_device_test_def
  by (auto intro!: safe_option simp: test_get_imei_def test_get_simid_def test_set_simid_def test_get_msisdn_def test_verify_pin_def test_verify_puk_def
      hello_dialog_rules less_imp_le)

lemma sms_list_safe: "safe hello_contract (test_read_sms_by_list (tell_done g b))"
proof -
  have "safe hello_contract (need (sort_indexes (nat (num a 0)) 0 (num a) (\<lambda>ty. replicate 500 0)) (\<lambda>arrays.
      need (cut_comma (arrays 1)) (\<lambda>unread. need (cut_comma (arrays 2)) (\<lambda>readed.
        need (cut_comma (arrays 3)) (\<lambda>unsent. need (cut_comma (arrays 4)) (\<lambda>sent.
          need (arr_text unread) (\<lambda>u. tell (t1 u) (need (arr_text readed) (\<lambda>r.
            tell (t2 r) (need (arr_text unsent) (\<lambda>us. tell (t3 us)
              (need (arr_text sent) (\<lambda>s. tell (t4 s) (tell_done g b True))))))))))))))" if "list_fits a" for a t1 t2 t3 t4
  proof -
    let ?l = "index_list (num a) (nat (num a 0))"
    have "ty = 1 \<or> ty = 2 \<or> ty = 3 \<or> ty = 4" if "1 \<le> ty" "ty \<le> 4" for ty :: int using that by arith
    then have len: "?l ty \<noteq> []" "length (?l ty) < 500" if "1 \<le> ty" "ty \<le> 4" for ty
      using \<open>list_fits a\<close> that by (auto simp: list_fits_def Let_def)
    have "num a 0 \<le> 500" using that unfolding list_fits_def by blast
    then have n: "nat (num a 0) \<le> 500" by simp
    obtain arrays where arrays: "sort_indexes (nat (num a 0)) 0 (num a) (\<lambda>ty. replicate 500 0) = Some arrays"
        "\<And>ty. 1 \<le> ty \<Longrightarrow> ty \<le> 4 \<Longrightarrow> arrays ty = fill500 (?l ty)"
      using sort_indexes_lists [of 0 "nat (num a 0)" "num a" "\<lambda>ty. replicate 500 0"] n len(2) by (auto simp: index_list_simps fill500_def)
    have cut: "cut_comma (arrays ty) = Some (butlast (?l ty) @ replicate (501 - length (?l ty)) 0)" if "1 \<le> ty" "ty \<le> 4" for ty
      using cut_comma_fill [OF index_list_nonzero len(2) [OF that]] arrays(2) [OF that] len(1) [OF that] by simp
    have shown: "arr_text (butlast (?l ty) @ replicate (501 - length (?l ty)) 0) = Some (butlast (?l ty))" if "1 \<le> ty" "ty \<le> 4" for ty
      using arr_text_fill [of "butlast (?l ty)" "501 - length (?l ty)"] index_list_nonzero [of "num a" "nat (num a 0)" ty] len(2) [OF that] by (auto dest: in_set_butlastD)
    show ?thesis using arrays(1) cut shown by simp
  qed
  then show ?thesis by (simp add: test_read_sms_by_list_def call_unfold hello_reply_def)
qed

lemma hex_line_total:
  assumes "length b = 2049" and "terminated b"
  shows "\<exists>d. nwy_HexStrToByte b (length (c_str b)) (replicate 1024 0) = Some d \<and> length d = 1024"
  using HexStrToByte_loop_total [of 0 "(length (c_str b) + 1) div 2" b "replicate 1024 0"] terminated_length [OF assms(2)] assms(1)
  by (simp add: nwy_HexStrToByte_def)

lemma sms_safe: "safe hello_contract nwy_sms_test"
proof -
  have pdu: "safe hello_contract (need (nwy_HexStrToByte b (length (c_str b)) (replicate 1024 0)) (\<lambda>pbuf.
      Call ''nwy_sms_send_pdu_message'' [T pbuf, I (int (length (c_str b) div 2))] (\<lambda>a. tell_done g w (ret a = 0))))"
    if "length b = 2049" "terminated b" for b g w
    using hex_line_total [OF that] terminated_length [OF that(2)] that(1) by (auto simp: call_unfold)
  then have "safe hello_contract (test_send_pdu_sms (tell_done g w))" for g w
    by (auto simp: test_send_pdu_sms_def hello_line_array)
  then show ?thesis
    unfolding nwy_sms_test_def
    by (auto intro!: safe_option sms_list_safe simp: test_send_sms_def test_del_sms_def test_get_sca_sms_def test_set_sca_sms_def test_set_storage_sms_def
      test_get_storage_sms_def test_set_report_mode_sms_def test_read_sms_by_index_def test_del_sms_by_type_def hello_dialog_rules less_imp_le)
qed

lemma hello_handle:
  assumes "\<And>h. 1 \<le> h \<Longrightarrow> h \<le> 7 \<Longrightarrow> safe hello_contract (k h)"
  shows "safe hello_contract (ask_handle k)"
  using assms by (simp add: ask_handle_def safe_ask_int hello_line_array invalid_handle_def NWY_DATA_CALL_MAX_NUM_def)

lemma hello_profile_id:
  assumes "\<And>p. 1 \<le> p \<Longrightarrow> p \<le> 7 \<Longrightarrow> safe hello_contract (k p)"
  shows "safe hello_contract (ask_profile_id t k)"
  using assms by (simp add: ask_profile_id_def safe_ask_int hello_line_array)

lemma terminated_take: "terminated b \<Longrightarrow> length (c_str b) \<le> m \<Longrightarrow> terminated (take (m + 1) b)"
proof -
  assume b: "terminated b" "length (c_str b) \<le> m"
  obtain r where r: "b = c_str b @ 0 # r" using terminated_split [OF b(1)] ..
  have "take (m + 1) (c_str b @ 0 # r) = c_str b @ take (m + 1 - length (c_str b)) (0 # r)" using b(2) by simp
  moreover have "0 \<in> set (take (m + 1 - length (c_str b)) (0 # r))" using b(2) by (simp add: Suc_diff_le)
  ultimately show ?thesis using r by (metis Un_iff set_append terminated_def)
qed

lemma hello_profile_text:
  assumes "\<And>x. length x = m + 1 \<Longrightarrow> terminated x \<Longrightarrow> safe hello_contract (k x)" and "m < 2049"
  shows "safe hello_contract (ask_text_or_none t m bad k)"
proof -
  have "terminated (replicate (m + 1) 0)" by (simp add: terminated_def)
  then show ?thesis using assms terminated_take by (auto simp: ask_text_or_none_def safe_need hello_line_array buf_read_def)
qed

lemma data_safe: "safe hello_contract (nwy_data_test n)"
proof -
  have set: "safe hello_contract data_set_profile" unfolding data_set_profile_def
    by (intro hello_profile_id safe_hello_int) (auto intro!: safe_hello_int hello_profile_text simp: call_unfold)
  have start: "safe hello_contract nwy_test_cli_data_start" unfolding nwy_test_cli_data_start_def
    by (intro hello_handle hello_profile_id safe_hello_int) (auto intro!: safe_hello_int simp: call_unfold start_data_call_def)
  have others: "safe hello_contract data_create" "safe hello_contract nwy_test_cli_get_profile" "safe hello_contract nwy_test_cli_data_info"
    "safe hello_contract nwy_test_cli_data_stop" "safe hello_contract nwy_test_cli_data_release" "safe hello_contract data_flow"
    "safe hello_contract data_reconnect_status"
    by (auto intro!: hello_handle hello_profile_id simp: data_create_def nwy_test_cli_get_profile_def nwy_test_cli_data_info_def
      nwy_test_cli_data_stop_def nwy_test_cli_data_release_def data_flow_def data_reconnect_status_def invalid_handle_def NWY_DATA_CALL_MAX_NUM_def
      hello_dialog_rules)
  have "safe hello_contract (data_rounds n)"
    by (induction n) (auto intro!: safe_option safe_followed_byI set start others simp: nwy_ext_data_menu_def)
  then show ?thesis by (simp add: nwy_data_test_def)
qed

lemma at_array:
  assumes "length b = 2049" and "n \<le> 1022"
  shows "\<exists>c at. buf_read b 0 n = Some c \<and> buf_write (replicate 1024 0) 0 c = Some (at :: buf) \<and> length at = 1024"
  using assms by (simp add: buf_read_def buf_write_def)

lemma at_safe: "safe hello_contract nwy_ext_virtual_at_test"
proof -
  have "safe hello_contract (let n = nat (ext_sio_len s) in
      need (if ext_sio_len s < 0 then None else buf_read b 0 n) (\<lambda>c. need (buf_write (replicate 1024 0) 0 c) (\<lambda>at. need (wr at n 13) (\<lambda>at.
        need (wr at (n + 1) 10) (\<lambda>at. Call ''nwy_sdk_at_cmd_send'' [T at, I (int n + 2), I 30] (\<lambda>a.
          if ret a = 0 then tell (x a) Done else if ret a = -101 then tell y Done else tell z Done))))))"
    if "length b = 2049" "hello_ok s" for s b x y z
  proof -
    have len: "0 \<le> ext_sio_len s" "ext_sio_len s \<le> 1022" using that(2) unfolding hello_ok_def by blast+
    then have n: "nat (ext_sio_len s) \<le> 1022" by simp
    from at_array [OF that(1) n] obtain c at
      where "buf_read b 0 (nat (ext_sio_len s)) = Some c" "buf_write (replicate 1024 0) 0 c = Some at" "length at = 1024" by blast
    with n len show ?thesis by (simp add: Let_def wr_def call_unfold)
  qed
  then show ?thesis by (simp add: nwy_ext_virtual_at_test_def hello_line_array)
qed

lemma phone_write:
  assumes "length p = 32" and "last p = 0" and "length t < 32"
  shows "\<exists>q. buf_write p 0 t = Some q \<and> length q = 32 \<and> last q = 0 \<and> terminated q"
proof -
  have q: "buf_write p 0 t = Some (t @ drop (length t) p)" using assms by (simp add: buf_write_def)
  have "drop (length t) p \<noteq> []" using assms by simp
  then have l: "last (t @ drop (length t) p) = 0" "t @ drop (length t) p \<noteq> []" using assms by (simp_all add: last_drop)
  then have "terminated (t @ drop (length t) p)" unfolding terminated_def by (metis last_in_set)
  with q l assms show ?thesis by simp
qed

lemma voice_rounds_safe: "length p = 32 \<Longrightarrow> last p = 0 \<Longrightarrow> safe hello_contract (voice_rounds n p)"
proof (induction n arbitrary: p)
  case (Suc n)
  have dial: "safe hello_contract (need (buf_write p 0 (c_str b)) (\<lambda>phone_num. need (arr_text phone_num) (\<lambda>number.
      tell (x number) (test_phone_num number (\<lambda>ok.
        if \<not> ok then tell y Done
        else Call ''nwy_voice_call_start'' [I 0, T number] (\<lambda>a.
          if ret a = 0 then tell z (voice_rounds n phone_num) else tell w (voice_rounds n phone_num)))))))"
    if "length (c_str b) < 32" for b x y z w
    using phone_write [OF Suc.prems that] Suc.IH by (auto simp: test_phone_num_def call_unfold)
  show ?case
    unfolding voice_rounds.simps nwy_ext_voice_menu_def
    using Suc dial hello_line_rules(4) by (fastforce intro!: safe_option safe_hello_int safe_followed_byI at_safe simp: Let_def hello_line_array call_unfold)
qed simp

lemma other_safe:
  "safe hello_contract (nwy_voice_test n)" "safe hello_contract nwy_timer_test" "safe hello_contract nwy_semaphore_taskA_proc"
  "safe hello_contract nwy_semaphore_taskB_proc" "safe hello_contract nwy_semaphore_test"
proof -
  have "safe hello_contract (count_rounds t k n)" for t k n by (induction n) (simp_all add: call_unfold hello_ok_def)
  then show "safe hello_contract nwy_semaphore_taskA_proc" "safe hello_contract nwy_semaphore_taskB_proc"
    by (simp_all add: nwy_semaphore_taskA_proc_def nwy_semaphore_taskB_proc_def call_unfold)
  show "safe hello_contract (nwy_voice_test n)" using voice_rounds_safe [of "replicate 32 0"] by (simp add: nwy_voice_test_def)
qed (simp_all add: nwy_timer_test_def nwy_semaphore_test_def hello_line_array call_unfold hello_ok_def)

text \<open>All of them.\<close>

definition hello_menus :: "nat \<Rightarrow> hello_vars dialog list" where
  "hello_menus n =
     [nwy_sim_test n, nwy_ussd_test, nwy_sms_test, nwy_poc_dsds_test, nwy_device_test, nwy_data_test n, nwy_ext_virtual_at_test,
      nwy_voice_test n, nwy_timer_test, nwy_semaphore_taskA_proc, nwy_semaphore_taskB_proc, nwy_semaphore_test]"

lemma hello_menus_all_safe: "i < length (hello_menus n) \<Longrightarrow> safe hello_contract (hello_menus n ! i)"
proof -
  have "list_all (safe hello_contract) (hello_menus n)"
    by (simp add: hello_menus_def sim_test_safe ussd_safe sms_safe dsds_safe device_safe data_safe at_safe other_safe)
  then show "i < length (hello_menus n) \<Longrightarrow> safe hello_contract (hello_menus n ! i)" by (simp add: list_all_length)
qed

text \<open>C39: no menu leaves its arrays. If the lines keep the lengths of the contract, the length of the last line fits the array for AT
  commands and a list of messages has all four kinds, then a run of any menu, with any number of rounds, never faults, makes only
  calls within the ranges the module allows and keeps the invariant of the variables.\<close>

theorem hello_menus_safe:
  assumes "i < length (hello_menus n)" and "hello_ok s" and "events_ok hello_contract (hello_menus n ! i) s es"
  shows "run_ok hello_contract (run (hello_menus n ! i) s es)"
  using safe_run [OF hello_menus_all_safe [OF assms(1)], of s es] assms(2,3) by simp

theorem hello_menus_safe_witness:
  "let e = (enter (str ''1-1-1:1:1''))\<lparr>line := str ''1-1-1:1:1'' @ replicate 2040 0, reply := \<lparr>ret = -1, num = \<lambda>i. 1, text_of = \<lambda>i. [65]\<rparr>\<rparr>;
       s = \<lparr>ext_sio_len = 9, g_timer = 1, semaphore_count = 0, nwy_semaphore = 0\<rparr>
   in run_ok hello_contract (run (hello_menus 10 ! 5) s (replicate 40 e))"
proof -
  define e :: "hello_vars event" where "e = (enter (str ''1-1-1:1:1''))\<lparr>line := str ''1-1-1:1:1'' @ replicate 2040 0, reply := \<lparr>ret = -1, num = \<lambda>i. 1, text_of = \<lambda>i. [65]\<rparr>\<rparr>"
  define s where "s = \<lparr>ext_sio_len = 9, g_timer = 1, semaphore_count = 0, nwy_semaphore = 0\<rparr>"
  have t: "0 \<notin> set (str ''1-1-1:1:1'')" "length (str ''1-1-1:1:1'') = 9" by (simp_all add: str_def)
  have a: "c_atoi (str ''1-1-1:1:1'') = 1" by (simp add: str_def c_atoi_def is_space_def is_digit_def digits_val_def int_max_def)
  have k: "strtok_all 0x2D (str ''1-1-1:1:1'') = [[49], [49], [49, 58, 49, 58, 49]]" "strtok_all 0x3A (str ''1-1-1:1:1'') = [[49, 45, 49, 45, 49], [49], [49]]"
    by (simp_all add: str_def strtok_all.simps)
  have "c_str (line e) = str ''1-1-1:1:1''" "terminated (line e)" "length (line e) = 2049"
    using t arr_text_fill [of "str ''1-1-1:1:1''" 2040] by (simp_all add: e_def arr_text_def split: if_splits)
  then have "hello_line p (line e)" for p using t a k by (simp add: hello_line_def line_rules_def hello_rules_def to_u8_def)
  moreover have "hello_reply g as (reply e)" "meanwhile e v = v" for g as v by (simp_all add: e_def hello_reply_def)
  ultimately have ev: "\<forall>x \<in> set (replicate 40 e). (\<forall>p. line_ok hello_contract p (line x)) \<and> (\<forall>f as. reply_ok hello_contract f as (reply x)) \<and>
      (\<forall>s. vars_ok hello_contract s \<longrightarrow> vars_ok hello_contract (meanwhile x s))" by simp
  have s: "hello_ok s" by (simp add: s_def hello_ok_def)
  have i: "5 < length (hello_menus 10)" by (simp add: hello_menus_def)
  have "events_ok hello_contract (hello_menus 10 ! 5) s (replicate 40 e)"
    using events_fit_anywhere [OF ev hello_menus_all_safe [OF i]] s by simp
  from hello_menus_safe [OF i s this] show ?thesis unfolding Let_def s_def [symmetric] e_def [symmetric] .
qed

end
