(* ===== verification/HelloFtp.thy ===== *)
theory HelloFtp
  imports HelloEffects Fota
begin

text \<open>
  FTP, HTTP and certificates in the menus of hello_world.c, each also in a multiplex variant with a channel for every call. A
  file that is to be sent comes over the console: the receiving side is the \<open>updater\<close> of \<open>Fota\<close>, whose callback runs while the
  function waits. The events of the module are those of \<open>CliFtp\<close>.
\<close>

section \<open>Variables\<close>

text \<open>\<open>g_fileftp\<close>, the static \<open>choice\<close> of each of the two HTTP menus, and the receiving side.\<close>

record hello_net =
  fileftp_vaild :: int
  fileftp_name :: buf
  fileftp_pos :: int
  choice :: bool
  multiplex_choice :: bool
  receiver :: updater

section \<open>Callbacks\<close>

definition nwy_test_ftp_write_file :: "buf \<Rightarrow> (int \<Rightarrow> hello_net dialog) \<Rightarrow> hello_net dialog" where
  "nwy_test_ftp_write_file data k =
     Get (\<lambda>s. need (arr_text (fileftp_name s)) (\<lambda>f. need (c_strcat (str ''/nwy/'' @ replicate 124 0) f) (\<lambda>fn. need (arr_text fn) (\<lambda>path.
       Call ''nwy_sdk_fopen'' [T path, I 0x202] (\<lambda>fs.
         if ret fs < 0 then k (-1)
         else Get (\<lambda>s. Call ''nwy_sdk_fseek'' [I (ret fs), I (fileftp_pos s), I 0] (\<lambda>a. Call ''nwy_sdk_fwrite'' [I (ret fs), T data, I (int (length data))] (\<lambda>a.
           Call ''nwy_sdk_fclose'' [I (ret fs)] (\<lambda>a. Put (\<lambda>s. s\<lparr>fileftp_pos := fileftp_pos s + int (length data)\<rparr>) (k 0))))))))))"

definition nwy_ftp_result_cb :: "(int \<times> int \<times> buf option) option \<Rightarrow> hello_net dialog" where
  "nwy_ftp_result_cb param = (case param of None \<Rightarrow> Print (str ''event is NULL'' @ crlf) Fault
     | Some (event, num0, data) \<Rightarrow>
         (case map_of ftp_messages event of Some t \<Rightarrow> tell [str t] Done
          | None \<Rightarrow>
              if event = 9 then tell [str ''Ftp size is '', fmt_d num0] Done
              else if event = 5
              then (case data of None \<Rightarrow> tell [str ''recved data is NULL''] Done
                    | Some d \<Rightarrow> Get (\<lambda>s. if fileftp_vaild s = 1 \<and> d \<noteq> []
                        then nwy_test_ftp_write_file d (\<lambda>r. tell_if (r \<noteq> 0) ''write failed'' Done) else Done))
              else if event = 7
              then Put (\<lambda>s. s\<lparr>fileftp_vaild := 0\<rparr>) (Get (\<lambda>s. need (arr_text (fileftp_name s)) (\<lambda>f. tell [str ''file '', f, str '' download success.''] Done)))
              else Done))"

definition http_events :: "(int \<times> string) list" where
  "http_events =
     [(0, ''HTTP dns err''), (1, ''HTTP open fail''), (2, ''HTTP setup success''), (3, ''HTTPS setup success''), (4, ''HTTP closed''), (5, ''HTTP closed''),
      (7, ''data send error''), (11, ''data send finished''), (9, ''HTTPS SSL init fail''), (10, ''HTTPS SSL handshare fail''),
      (8, ''HTTPS SSL Authentication fail'')]"

definition http_event :: "int \<Rightarrow> buf \<Rightarrow> 's dialog" where
  "http_event event data =
     (if event = 6 then http_data ''HTTP recv data len '' data
      else (case map_of http_events event of Some t \<Rightarrow> tell [str t] Done | None \<Rightarrow> tell [str '' unkown error''] Done))"

definition nwy_http_result_cb :: "(int \<times> buf) option \<Rightarrow> 's dialog" where
  "nwy_http_result_cb param = (case param of None \<Rightarrow> Print (str ''event is NULL'' @ crlf) Fault | Some (event, data) \<Rightarrow> http_event event data)"

text \<open>\<open>address\<close> is how the C library prints the pointer, \<open>val\<close> the number it points to.\<close>

definition nwy_http_result_ex_cb :: "buf \<Rightarrow> int \<Rightarrow> (int \<times> buf) option \<Rightarrow> 's dialog" where
  "nwy_http_result_ex_cb address val param = (case param of None \<Rightarrow> Print (str ''event is NULL'' @ crlf) Done
     | Some (event, data) \<Rightarrow> Print (str ''context address is '' @ address @ str '' value is '' @ fmt_d val @ crlf) (http_event event data))"

section \<open>Questions\<close>

text \<open>\<open>again\<close> is what follows a \<open>break\<close>.\<close>

fun nwy_check_str_isdigit :: "buf \<Rightarrow> bool" where
  "nwy_check_str_isdigit [] = True"
| "nwy_check_str_isdigit (c # cs) = (if 0x30 \<le> c \<and> c \<le> 0x39 then nwy_check_str_isdigit cs else False)"

definition input_error :: "'s dialog \<Rightarrow> 's dialog" where
  "input_error again = tell [str '' input error''] again"

definition ask_number :: "string \<Rightarrow> 's dialog \<Rightarrow> (int \<Rightarrow> 's dialog) \<Rightarrow> 's dialog" where
  "ask_number p again k = Ask (prompt p) (\<lambda>b. need (arr_text b) (\<lambda>t. if \<not> nwy_check_str_isdigit t then input_error again else k (c_atoi t)))"

definition ask_channel :: "'s dialog \<Rightarrow> (int \<Rightarrow> 's dialog) \<Rightarrow> 's dialog" where
  "ask_channel again k = ask_number '' input channel(1-7):'' again (\<lambda>channel. if channel < 1 \<or> 7 < channel then input_error again else k channel)"

text \<open>The type is a \<open>char\<close>, which is unsigned here.\<close>

definition ask_file_type :: "'s dialog \<Rightarrow> (int \<Rightarrow> 's dialog) \<Rightarrow> 's dialog" where
  "ask_file_type again k = ask_number '' input type:(1 ASCII 2 Binary)'' again (\<lambda>v. let type = to_u8 v in
     if type < 1 \<or> 2 < type then input_error again else k type)"

definition tell_success :: "string \<Rightarrow> answer \<Rightarrow> 's dialog \<Rightarrow> 's dialog" where
  "tell_success f a again = tell [str '' '', str f, str (if ret a = 0 then '' success'' else '' fail'')] again"

definition invalid_value :: "'s dialog \<Rightarrow> 's dialog" where
  "invalid_value again = tell [str ''Please input vaild value''] again"

section \<open>FTP\<close>

text \<open>\<open>f\<close> is the function of the module, \<open>ch\<close> the arguments in front: none, or the channel.\<close>

definition ftp_login :: "string \<Rightarrow> 's dialog \<Rightarrow> 's dialog" where
  "ftp_login f again =
     ask_number '' input channel(1-7):'' again (\<lambda>c. let channel = to_u16 c in
       if channel < 1 \<or> 7 < channel then input_error again
       else ask_text 256 '' input ip:'' (\<lambda>host. ask_number '' input port:'' again (\<lambda>port.
         ask_number '' input FTPtype (active mode = 1 passive mode = 0):'' again (\<lambda>m. let mode = to_u8 m in
           if mode < 0 \<or> 1 < mode then input_error again
           else ask_text 256 '' input username:'' (\<lambda>username. ask_text 256 '' input passwd:'' (\<lambda>passwd.
             Call f [I channel, T host, I (to_u16 port), T username, T passwd, I mode, I 180] (\<lambda>a. tell_success ''nwy_ftp_login'' a again)))))))"

definition ftp_get :: "string \<Rightarrow> arg list \<Rightarrow> hello_net dialog \<Rightarrow> hello_net dialog" where
  "ftp_get f ch again =
     ask_file_type again (\<lambda>type. ask_text 128 '' input filename:'' (\<lambda>t. Put (\<lambda>s. s\<lparr>fileftp_vaild := 1\<rparr>)
       (Get (\<lambda>s. need (c_strcpy (fileftp_name s) t) (\<lambda>fn. Put (\<lambda>s. s\<lparr>fileftp_name := fn\<rparr>)
         (Call f (ch @ [T t, I type, I 0, I 0]) (\<lambda>a. tell_success ''nwy_ftp_get'' a again)))))))"

text \<open>The block for \<open>len\<close> bytes from the console and \<open>extra\<close> more; without memory the whole function returns. The thread then waits
  for an event; with the event that the bytes are there, \<open>k\<close> gets them.\<close>

definition receive :: "int \<Rightarrow> nat \<Rightarrow> string \<Rightarrow> hello_net dialog \<Rightarrow> (dataRecvContext \<Rightarrow> hello_net dialog) \<Rightarrow> hello_net dialog" where
  "receive len extra t other k =
     Call ''malloc'' [I (8 + len + int extra)] (\<lambda>a.
       if ret a = 0 then Put (\<lambda>s. s\<lparr>receiver := (receiver s)\<lparr>g_recv := None\<rparr>\<rparr>) (tell [str '' malloc buffer fail''] Done)
       else Put (\<lambda>s. s\<lparr>receiver := (receiver s)\<lparr>g_recv := Some \<lparr>dataRecvContext.rc_size = nat len, rc_pos = 0, rc_data = replicate (nat len + extra) 0\<rparr>\<rparr>\<rparr>)
         (Put (\<lambda>s. s\<lparr>receiver := (receiver s)\<lparr>nwy_update_flag := 1\<rparr>\<rparr>) (tell [str t] (Call ''nwy_wait_thead_event'' [] (\<lambda>e.
           if num e 0 = NWY_EXT_FOTA_DATA_REC_END then Get (\<lambda>s. need (g_recv (receiver s)) k) else other)))))"

definition free_recv :: "hello_net dialog \<Rightarrow> hello_net dialog" where
  "free_recv d = Put (\<lambda>s. s\<lparr>receiver := (receiver s)\<lparr>g_recv := None\<rparr>\<rparr>) d"

definition ftp_put :: "string \<Rightarrow> arg list \<Rightarrow> hello_net dialog \<Rightarrow> hello_net dialog" where
  "ftp_put f ch again =
     ask_text 128 '' input filename:'' (\<lambda>filename. ask_file_type again (\<lambda>type. ask_number '' input mode:(1 STOR 2 APPE 3 DELE)'' again (\<lambda>m.
       let mode = to_u8 m in
       if mode < 1 \<or> 3 < mode then input_error again
       else ask_number '' input put data len:'' again (\<lambda>len. receive len 0 ''please input data'' again (\<lambda>g.
         need (buf_read (dataRecvContext.rc_data g) 0 (dataRecvContext.rc_size g)) (\<lambda>data.
           Call f (ch @ [T filename, I type, I mode, T data, I (int (dataRecvContext.rc_size g))]) (\<lambda>a.
             tell_success ''nwy_ftp_put'' a (free_recv again))))))))"

definition ftp_filesize :: "string \<Rightarrow> arg list \<Rightarrow> 's dialog \<Rightarrow> 's dialog" where
  "ftp_filesize f ch again = ask_text 128 '' input filename:'' (\<lambda>t. Call f (ch @ [T t, I 30]) (\<lambda>a. tell_success ''nwy_ftp_filesize'' a again))"

text \<open>A file name behind /nwy/, in 129 bytes.\<close>

definition ask_path :: "(buf \<Rightarrow> 's dialog) \<Rightarrow> 's dialog" where
  "ask_path k =
     Ask (prompt '' input filename'') (\<lambda>b. need (arr_text b) (\<lambda>t. need (c_strcat (str ''/nwy/'' @ replicate 124 0) t) (\<lambda>fn. need (arr_text fn) k)))"

definition ftp_file_exists :: "string \<Rightarrow> 's dialog \<Rightarrow> 's dialog" where
  "ftp_file_exists t again =
     tell [str t] (ask_path (\<lambda>path. tell [str '' file_name is '', path] (Call ''nwy_sdk_fopen'' [T path, I 0] (\<lambda>f.
       if ret f < 0 then say [str ''file open '', path, str '' fail''] again
       else say [str ''file open '', path, str '' success''] (Call ''nwy_sdk_fclose'' [I (ret f)] (\<lambda>a.
         Call ''nwy_sdk_fsize'' [T path] (\<lambda>a. say [str '' get '', path, str '' file size = '', fmt_d (ret a)] again)))))))"

definition ftp_delete :: "'s dialog \<Rightarrow> 's dialog" where
  "ftp_delete again =
     tell [str '' delete get file''] (ask_path (\<lambda>path. Call ''nwy_sdk_fexist'' [T path] (\<lambda>a.
       if ret a = 0 then tell [str '' '', path, str '' not exist''] again
       else Call ''nwy_sdk_file_unlink'' [T path] (\<lambda>a. tell [str '' delete '', path, str '' file success''] again))))"

definition nwy_test_ftp_menu :: "'s dialog \<Rightarrow> 's dialog" where
  "nwy_test_ftp_menu d =
     echo ''Please select an option to test ftp below. '' (print_menu [''1. nwy_ftp_login '', ''2. nwy_ftp_get '', ''3. nwy_ftp_put '',
       ''4. nwy_ftp_filesize '', ''5. nwy_ftp_logout '', ''6. check file exist '', ''7. delete file '', ''8. Exit ftp function test ''] d)"

definition nwy_channel_test_ftp_menu :: "'s dialog \<Rightarrow> 's dialog" where
  "nwy_channel_test_ftp_menu d =
     echo ''Please select an option to test multiplex ftp below. '' (print_menu [''1. nwy_multiplex_ftp_login '', ''2. nwy_multiplex_ftp_get '',
       ''3. nwy_multiplex_ftp_put '', ''4. nwy_multiplex_ftp_filesize '', ''5. nwy_multiplex_ftp_logout '', ''6. check file exist '',
       ''7. delete file '', ''8. Exit ftp function test ''] d)"

text \<open>\<open>n\<close> rounds of each menu.\<close>

primrec ftp_rounds :: "nat \<Rightarrow> hello_net dialog" where
  "ftp_rounds 0 = Done"
| "ftp_rounds (Suc n) = nwy_test_ftp_menu (ask_option (\<lambda>opt. let again = ftp_rounds n in
     if opt = 1 then ftp_login ''nwy_ftp_login'' again
     else if opt = 2 then ftp_get ''nwy_ftp_get'' [] again
     else if opt = 3 then ftp_put ''nwy_ftp_put'' [] again
     else if opt = 4 then ftp_filesize ''nwy_ftp_filesize'' [] again
     else if opt = 5 then tell [str '' ftp will logout''] (Call ''nwy_ftp_logout'' [I 30] (\<lambda>a. tell_success ''nwy_ftp_logout'' a again))
     else if opt = 6 then ftp_file_exists '' Check if the file exists'' again
     else if opt = 7 then ftp_delete again
     else if opt = 8 then Done
     else invalid_value again))"

definition clear_fileftp :: "hello_net \<Rightarrow> hello_net" where
  "clear_fileftp s = s\<lparr>fileftp_vaild := 0, fileftp_name := replicate 256 0, fileftp_pos := 0\<rparr>"

definition nwy_ftp_test :: "nat \<Rightarrow> hello_net dialog" where
  "nwy_ftp_test n = Pause 100 (Put clear_fileftp (ftp_rounds n))"

text \<open>With a channel, the announcement of the logout is a question, whose answer is not used.\<close>

primrec multiplex_ftp_rounds :: "nat \<Rightarrow> hello_net dialog" where
  "multiplex_ftp_rounds 0 = Done"
| "multiplex_ftp_rounds (Suc n) = nwy_channel_test_ftp_menu (ask_option (\<lambda>opt. let again = multiplex_ftp_rounds n in
     if opt = 1 then ftp_login ''nwy_multiplex_ftp_login'' again
     else if opt = 2 then ask_channel again (\<lambda>channel. ftp_get ''nwy_multiplex_ftp_get'' [I channel] again)
     else if opt = 3 then ask_channel again (\<lambda>channel. ftp_put ''nwy_multiplex_ftp_put'' [I channel] again)
     else if opt = 4 then ask_channel again (\<lambda>channel. ftp_filesize ''nwy_multiplex_ftp_filesize'' [I channel] again)
     else if opt = 5 then ask_channel again (\<lambda>channel. Ask (prompt '' ftp will logout'') (\<lambda>b.
       Call ''nwy_multiplex_ftp_logout'' [I channel, I 30] (\<lambda>a. tell_success ''nwy_ftp_logout'' a again)))
     else if opt = 6 then ftp_file_exists '' test file is exist'' again
     else if opt = 7 then ftp_delete again
     else if opt = 8 then Done
     else invalid_value again))"

definition nwy_multiplex_ftp_test :: "nat \<Rightarrow> hello_net dialog" where
  "nwy_multiplex_ftp_test n = Pause 100 (Put clear_fileftp (multiplex_ftp_rounds n))"

section \<open>HTTP\<close>

definition nwy_test_http_menu :: "'s dialog \<Rightarrow> 's dialog" where
  "nwy_test_http_menu d =
     echo ''Please select an option to test http/https below. '' (print_menu [''0. nwy_http_setup_ex '', ''1. nwy_http_setup '', ''2. nwy_http_get '',
       ''3. nwy_http_head '', ''4. nwy_http_post '', ''5. nwy_http_close '', ''6. Exit http function test ''] d)"

definition nwy_test_multiplex_http_menu :: "'s dialog \<Rightarrow> 's dialog" where
  "nwy_test_multiplex_http_menu d =
     echo ''Please select an option to test multiplex http/https below. '' (print_menu [''1. nwy multiplex http setup '', ''2. nwy multiplex http get '',
       ''3. nwy multiplex http head'', ''4. nwy multiplex http post '', ''5. nwy multiplex http close '', ''6. Exit multiplex http function test ''] d)"

text \<open>The channel, an 8-bit number, which only the first menu checks.\<close>

definition ask_http_channel :: "bool \<Rightarrow> 's dialog \<Rightarrow> (int \<Rightarrow> 's dialog) \<Rightarrow> 's dialog" where
  "ask_http_channel check again k =
     ask_int (prompt '' input channel:(1-7)'') (\<lambda>c. let channel = to_u8 c in
       if check \<and> (channel \<le> 0 \<or> 7 < channel) then tell [str ''Invaild channel: '', fmt_d channel, str '' ''] again else k channel)"

definition ask_port :: "'s dialog \<Rightarrow> (int \<Rightarrow> 's dialog) \<Rightarrow> 's dialog" where
  "ask_port again k =
     Ask (prompt '' input port:'') (\<lambda>b. need (arr_text b) (\<lambda>t. if \<not> nwy_check_str_isdigit t then Print (str ''input error'') again else k (c_atoi t)))"

text \<open>Version, mode and the names of the certificates, each at most 50 characters.\<close>

definition ask_ssl :: "string \<Rightarrow> (arg list \<Rightarrow> 's dialog) \<Rightarrow> 's dialog" where
  "ask_ssl p k =
     ask_int (prompt p) (\<lambda>v.
       ask_int (prompt '' input authmode: 0:No authentication 1:Manage server authentication 2:Manage server and client authentication'') (\<lambda>m.
         if to_u8 m \<noteq> 0
         then ask_text 51 '' input cacert name:'' (\<lambda>ca. ask_text 51 '' input clientcert name:'' (\<lambda>cc. ask_text 51 '' input clientkey name:'' (\<lambda>ck.
                k [I (to_u8 v), I (to_u8 m), T ca, T cc, T ck])))
         else k [I (to_u8 v), I (to_u8 m), T [], T [], T []]))"

definition tell_http :: "bool \<Rightarrow> string \<Rightarrow> answer \<Rightarrow> 's dialog \<Rightarrow> 's dialog" where
  "tell_http c verb a again =
     tell [str '' '', str (if c then ''nwy_https_'' else ''nwy_http_''), str verb, str (if ret a = 0 then '' success'' else '' fail'')] again"

text \<open>\<open>address\<close> is how the C library prints the pointer to \<open>test\<close>, whose value is 10.\<close>

definition http_setup_ex :: "buf \<Rightarrow> 's dialog \<Rightarrow> 's dialog" where
  "http_setup_ex address again =
     ask_http_channel True again (\<lambda>channel. ask_text 512 '' input url:'' (\<lambda>url. ask_port again (\<lambda>port.
       tell [str '' test address is '', address, str '': value is '', fmt_d 10]
         (Call ''nwy_http_setup_ex'' [I channel, T url, I port] (\<lambda>a. tell_success ''nwy_http_setup_ex'' a again)))))"

definition ask_keepalive :: "(int \<Rightarrow> 's dialog) \<Rightarrow> 's dialog" where
  "ask_keepalive k = ask_int (prompt '' input whether keepalive:(0 1)'') k"

text \<open>Get, head and post; \<open>c\<close> is the choice as a number.\<close>

definition http_get :: "string \<Rightarrow> arg list \<Rightarrow> int \<Rightarrow> 's dialog \<Rightarrow> 's dialog" where
  "http_get f ch c again =
     ask_keepalive (\<lambda>keepalive. ask_int (prompt '' input offset:'') (\<lambda>offset. ask_int (prompt '' input size:'') (\<lambda>sz.
       Call f (ch @ [I keepalive, I offset, I sz, I c]) (\<lambda>a. tell_success ''nwy_http_get'' a again))))"

definition http_head :: "string \<Rightarrow> arg list \<Rightarrow> int \<Rightarrow> 's dialog \<Rightarrow> 's dialog" where
  "http_head f ch c again = ask_keepalive (\<lambda>keepalive. Call f (ch @ [I keepalive, I c]) (\<lambda>a. tell_success ''nwy_http_head'' a again))"

definition http_post :: "string \<Rightarrow> arg list \<Rightarrow> int \<Rightarrow> 's dialog \<Rightarrow> 's dialog" where
  "http_post f ch c again =
     ask_keepalive (\<lambda>keepalive.
       ask_int (prompt '' input type: 0:x-www-form-urlencoded 1:text 2:json 3:xml 4:html 99:User-defined mode'') (\<lambda>type.
         ask_text 4096 '' input data:'' (\<lambda>t.
           Call f (ch @ [I keepalive, I (to_u8 type), T t, I (int (length t)), I c]) (\<lambda>a. tell_success ''nwy_http_post'' a again))))"

definition choice_num :: "bool \<Rightarrow> int" where
  "choice_num c = (if c then 1 else 0)"

definition http_setup :: "hello_net dialog \<Rightarrow> hello_net dialog" where
  "http_setup again =
     ask_http_channel True again (\<lambda>channel. ask_text 512 '' input url:'' (\<lambda>url. ask_port again (\<lambda>port.
       ask_int (prompt '' input 0 setup http, 1 setup https:'') (\<lambda>c. Put (\<lambda>s. s\<lparr>choice := (c \<noteq> 0)\<rparr>)
         (if c \<noteq> 0
          then ask_ssl '' input ssl version: 0:SSL3.0 1:TLS1.0 2:TLS1.1 3:TLS1.2 '' (\<lambda>ssl.
                 Call ''nwy_https_setup'' ([I channel, T url, I port] @ ssl) (\<lambda>a. tell_http True ''setup'' a again))
          else Call ''nwy_http_setup'' [I channel, T url, I port] (\<lambda>a. tell_http False ''setup'' a again))))))"

definition multiplex_http_setup :: "hello_net dialog \<Rightarrow> hello_net dialog" where
  "multiplex_http_setup again =
     ask_http_channel False again (\<lambda>channel. ask_text 512 '' input url:'' (\<lambda>url. ask_port again (\<lambda>port.
       ask_int (prompt '' input input 0 setup http 1 setup https:'') (\<lambda>c. Put (\<lambda>s. s\<lparr>multiplex_choice := (c \<noteq> 0)\<rparr>)
         (if c \<noteq> 0
          then ask_ssl '' input ssl version: 0:SSL3.0 1:TLS1.0 2:TLS1.1 3:TLS1.2:'' (\<lambda>ssl.
                 Call ''nwy_multiplex_https_setup'' ([I channel, T url, I port] @ ssl) (\<lambda>a. tell_http True ''setup'' a again))
          else Call ''nwy_multiplex_http_setup'' [I channel, T url, I port] (\<lambda>a. tell_http False ''setup'' a again))))))"

primrec nwy_http_test :: "nat \<Rightarrow> buf \<Rightarrow> hello_net dialog" where
  "nwy_http_test 0 address = Done"
| "nwy_http_test (Suc n) address = nwy_test_http_menu (ask_option (\<lambda>opt. let again = nwy_http_test n address in
     if opt = 0 then http_setup_ex address again
     else if opt = 1 then http_setup again
     else if opt = 2 then Get (\<lambda>s. http_get ''nwy_http_get'' [] (choice_num (choice s)) again)
     else if opt = 3 then Get (\<lambda>s. http_head ''nwy_http_head'' [] (choice_num (choice s)) again)
     else if opt = 4 then Get (\<lambda>s. http_post ''nwy_http_post'' [] (choice_num (choice s)) again)
     else if opt = 5
     then ask_int (prompt '' input 0 close http, 1 close https:'') (\<lambda>c. Put (\<lambda>s. s\<lparr>choice := (c \<noteq> 0)\<rparr>)
            (Call ''nwy_http_close'' [I (choice_num (c \<noteq> 0))] (\<lambda>a. tell_http (c \<noteq> 0) ''close'' a again)))
     else if opt = 6 then Done
     else invalid_value again))"

primrec nwy_multiplex_http_test :: "nat \<Rightarrow> hello_net dialog" where
  "nwy_multiplex_http_test 0 = Done"
| "nwy_multiplex_http_test (Suc n) = nwy_test_multiplex_http_menu (ask_option (\<lambda>opt.
     let again = nwy_multiplex_http_test n; with = ask_http_channel False again; num = (\<lambda>s. choice_num (multiplex_choice s)) in
     if opt = 1 then multiplex_http_setup again
     else if opt = 2 then with (\<lambda>ch. Get (\<lambda>s. http_get ''nwy_multiplex_http_get'' [I ch] (num s) again))
     else if opt = 3 then with (\<lambda>ch. Get (\<lambda>s. http_head ''nwy_multiplex_http_head'' [I ch] (num s) again))
     else if opt = 4 then with (\<lambda>ch. Get (\<lambda>s. http_post ''nwy_multiplex_http_post'' [I ch] (num s) again))
     else if opt = 5 then with (\<lambda>ch. Get (\<lambda>s. Call ''nwy_multiplex_http_close'' [I ch, I (num s)] (\<lambda>a. tell_success ''nwy_http_close'' a again)))
     else if opt = 6 then Done
     else invalid_value again))"

section \<open>Certificates\<close>

definition nwy_cert_menu :: "'s dialog \<Rightarrow> 's dialog" where
  "nwy_cert_menu d =
     echo ''Please select an option to data test from the items listed below. ''
       (print_menu [''1. nwy add cert '', ''2. nwy cert check '', ''3. nwy cert del '', ''4. Exit cert function test ''] d)"

definition cert_add :: "hello_net dialog \<Rightarrow> hello_net dialog" where
  "cert_add again =
     ask_text 128 '' begin input cacert name:'' (\<lambda>filename. ask_int (prompt '' input cacert length:'') (\<lambda>len.
       if len \<le> 0 then tell [str '' invalid cacert size:'', fmt_d len] Done
       else let over = tell [str ''add end''] again in receive len 5 ''please input cert'' over (\<lambda>g.
         need (buf_read (dataRecvContext.rc_data g) 0 (dataRecvContext.rc_size g)) (\<lambda>data.
           Call ''nwy_cert_add'' [T filename, T data, I (int (dataRecvContext.rc_size g))] (\<lambda>a.
             tell [str (if to_u32 (ret a) \<noteq> int (dataRecvContext.rc_size g) then ''nwy_cert_add fail'' else ''nwy_cert_add success'')] (free_recv over))))))"

primrec nwy_cert_test :: "nat \<Rightarrow> hello_net dialog" where
  "nwy_cert_test 0 = Done"
| "nwy_cert_test (Suc n) = nwy_cert_menu (ask_option (\<lambda>opt. let again = nwy_cert_test n in
     if opt = 1 then cert_add again
     else if opt = 2 then ask_text 128 '' input cacert name:'' (\<lambda>t. Call ''nwy_cert_check'' [T t] (\<lambda>a. tell_success ''nwy_cert_check'' a again))
     else if opt = 3 then ask_text 128 '' input cacert name:'' (\<lambda>t. Call ''nwy_cert_del'' [T t] (\<lambda>a. tell_success ''nwy_cert_del'' a again))
     else if opt = 4 then Done
     else invalid_value again))"

section \<open>A file from the console to an FTP server\<close>

text \<open>What the callback of the console makes of pieces that arrive.\<close>

definition arrives :: "buf list \<Rightarrow> hello_net \<Rightarrow> hello_net" where
  "arrives ps s = (case run_machine (\<lambda>u p. nwy_ext_sio_data_cb p u) (receiver s) ps of None \<Rightarrow> s | Some u \<Rightarrow> s\<lparr>receiver := u\<rparr>)"

lemma session_collects:
  assumes "recv_ready 1 u" and "recv_want u = n" and "recv_got u = []" and "length (concat qs) < n" and "n \<le> length (concat qs @ p)"
  shows "\<exists>t g. run_machine (\<lambda>u p. nwy_ext_sio_data_cb p u) u (qs @ [p]) = Some t \<and> end_sigs t = end_sigs u @ [Fota_Data_Rec_End] \<and>
    nwy_update_flag t = 0 \<and> g_recv t = Some g \<and> dataRecvContext.rc_size g = n \<and> dataRecvContext.rc_data g = take n (concat qs @ p)"
proof -
  obtain v where v: "run_machine (\<lambda>u p. nwy_ext_sio_data_cb p u) u qs = Some v" "recv_ready 1 v" "recv_got v = concat qs" "recv_want v = n"
    using fw.feed_short [OF assms(1), of qs] assms(2-4) by auto
  obtain t where t: "nwy_ext_sio_data_cb p v = Some t" "recv_got t = take n (concat qs @ p)"
    using fw.feed_piece [OF v(2), of p] v by auto
  have full: "\<not> length (recv_got v @ p) < recv_want v" using v assms(5) by simp
  from feed_sigs(2) [OF v(2) t(1) full] v(4) obtain g where "nwy_update_flag t = 0" "g_recv t = Some g" "dataRecvContext.rc_data g = recv_got t"
      "dataRecvContext.rc_size g = n" by blast
  moreover have "end_sigs t = end_sigs u @ [Fota_Data_Rec_End]"
    using feed_sigs(1) [OF v(2) t(1)] full feeds_sigs [OF assms(1) _ v(1)] assms(2-4) by simp
  ultimately show ?thesis using t v(1) by (simp add: run_machine_append)
qed

lemma check_digits: "nwy_check_str_isdigit t = nwy_cli_check_str_isdigit t"
  by (induction t) simp_all

lemma run_ask_number:
  assumes "0 \<le> v" and "v \<le> int_max"
  shows "run (ask_number p again k) s (enter (fmt_d v) # es) = logged (Prompted (prompt p)) (run (k v) s es)"
proof -
  have "length (fmt_d v) < 2048" using fmt_d_length [of v] assms by (simp add: int_max_def)
  then show ?thesis using assms by (simp add: ask_number_def arr_text_enter check_digits digits_accepted atoi_fmt_d)
qed

text \<open>C13: a file goes from the console to an FTP server, on a channel. The user chooses the upload, a channel, a name, the type, the
  mode and the length n; while the function waits, the pieces of the file arrive at the callback of the console, cut anywhere,
  the last one perhaps with more behind the file. The module is then asked once to store on that channel, under that name and
  with that type and mode, exactly the first n bytes; the end of the file has been signalled once, the console is back in line
  mode and the block is given back.\<close>

theorem multiplex_upload:
  assumes "1 \<le> c" and "c \<le> 7" and "0 \<notin> set f" and "length f < 128" and "ty = 1 \<or> ty = 2" and "1 \<le> md" and "md \<le> 3" and "0 < n" and "int n \<le> int_max"
    and "length (concat qs) < n" and "n \<le> length (concat qs @ p)" and "m \<noteq> 0"
  shows "let r = run (nwy_multiplex_ftp_test 1) s [answers 0, enter (fmt_d 3), enter (fmt_d c), enter f, enter (fmt_d ty), enter (fmt_d md), enter (fmt_d (int n)),
        answers m, \<lparr>line = [], reply = \<lparr>ret = 0, num = \<lambda>i. NWY_EXT_FOTA_DATA_REC_END, text_of = \<lambda>i. []\<rparr>, meanwhile = arrives (qs @ [p])\<rparr>, answers a]
    in filter (called ''nwy_multiplex_ftp_put'') (fst r) =
        [Called ''nwy_multiplex_ftp_put'' [I c, T f, I ty, I md, T (take n (concat qs @ p)), I (int n)]] \<and>
      (\<exists>s'. snd r = Returned s' [] \<and> g_recv (receiver s') = None \<and> nwy_update_flag (receiver s') = 0 \<and>
        end_sigs (receiver s') = end_sigs (receiver s) @ [Fota_Data_Rec_End])"
proof -
  let ?u = "(receiver s)\<lparr>g_recv := Some \<lparr>dataRecvContext.rc_size = n, rc_pos = 0, rc_data = replicate n 0\<rparr>, nwy_update_flag := 1\<rparr>"
  have u: "recv_ready 1 ?u" "recv_want ?u = n" "recv_got ?u = []" using assms(8) by (simp_all add: recv_ready_def recv_want_def recv_got_def)
  obtain t g where t: "run_machine (\<lambda>u p. nwy_ext_sio_data_cb p u) ?u (qs @ [p]) = Some t" "end_sigs t = end_sigs (receiver s) @ [Fota_Data_Rec_End]"
      "nwy_update_flag t = 0" "g_recv t = Some g" "dataRecvContext.rc_size g = n" "dataRecvContext.rc_data g = take n (concat qs @ p)"
    using session_collects [OF u assms(10,11)] by auto
  have ar: "arrives (qs @ [p]) (clear_fileftp s\<lparr>receiver := ?u\<rparr>) = clear_fileftp s\<lparr>receiver := t\<rparr>"
    unfolding arrives_def using t(1) by (simp del: run_machine.simps)
  have g: "buf_read (dataRecvContext.rc_data g) 0 (dataRecvContext.rc_size g) = Some (take n (concat qs @ p))"
  proof -
    have "length (take n (concat qs @ p)) = n" using assms(11) by simp
    with t(5,6) show ?thesis by (simp add: buf_read_def del: take_append)
  qed
  have three: "run (ask_option k) s1 (enter (fmt_d 3) # es) = logged (Prompted (prompt ''Please input option: '')) (run (k 3) s1 es)" for k s1 and es :: "hello_net event list"
    using run_ask_int [of "fmt_d 3"] by (simp add: ask_option_def fmt_d_def dec_digits.simps c_atoi_def is_space_def is_digit_def digits_val_def int_max_def)
  have c: "receiver (clear_fileftp s) = receiver s" by (simp add: clear_fileftp_def)
  have b: "0 \<le> c" "c \<le> int_max" "0 \<le> ty" "ty \<le> int_max" "0 \<le> md" "md \<le> int_max" "to_u8 ty = ty" "to_u8 md = md" "\<not> (c < 1 \<or> 7 < c)" "\<not> (ty < 1 \<or> 2 < ty)" "\<not> (md < 1 \<or> 3 < md)"
    using assms(1,2,5,6,7) by (auto simp: int_max_def)
  show ?thesis
    using assms(3,4,9,12) b ar g t(2,3) c
    by (simp add: nwy_multiplex_ftp_test_def nwy_channel_test_ftp_menu_def menu_run echo_def three run_ask_number ask_channel_def ftp_put_def run_ask_text
        ask_file_type_def receive_def free_recv_def tell_success_def t(4,5) Let_def logged_def)
qed

definition hello_net_start :: hello_net where
  "hello_net_start = \<lparr>fileftp_vaild = 0, fileftp_name = replicate 256 0, fileftp_pos = 0, choice = False, multiplex_choice = False, receiver = updater_start\<rparr>"

theorem multiplex_upload_witness:
  "let r = run (nwy_multiplex_ftp_test 1) hello_net_start [answers 0, enter (fmt_d 3), enter (fmt_d 2), enter (str ''a.txt''), enter (fmt_d 1), enter (fmt_d 1),
        enter (fmt_d (int 3)), answers 1, \<lparr>line = [], reply = \<lparr>ret = 0, num = \<lambda>i. NWY_EXT_FOTA_DATA_REC_END, text_of = \<lambda>i. []\<rparr>, meanwhile = arrives ([[1, 2], []] @ [[3, 4]])\<rparr>,
        answers 0]
    in filter (called ''nwy_multiplex_ftp_put'') (fst r) = [Called ''nwy_multiplex_ftp_put'' [I 2, T (str ''a.txt''), I 1, I 1, T [1, 2, 3], I 3]] \<and>
      (\<exists>s'. snd r = Returned s' [] \<and> g_recv (receiver s') = None \<and> nwy_update_flag (receiver s') = 0 \<and> end_sigs (receiver s') = [Fota_Data_Rec_End])"
  using multiplex_upload [of 2 "str ''a.txt''" 1 1 3 "[[1, 2], []]" "[3, 4]" 1 hello_net_start 0]
  by (simp add: str_def int_max_def Let_def hello_net_start_def updater_start_def)

end
