(* ===== verification/Spec2Isabelle.thy ===== *)
theory Spec2Isabelle
  imports HexText Crc16 BleTable Report Storage Settings Rs485 NetCmd DataCall Mqtt Sampler System Console Md5 Utf8 Gbk Fota CliEffects Semaphore RhinoLog MultiSocket HelloSafety HelloFtp
begin

text \<open>
  A verification of the firmware of an RS485/MQTT gateway on a cellular module: the application code under src/ (call.c,
  parse.c, mqtt.c, main_xb.c, ble_test.c, file_save.c, parts of hello_world.c, components/include/prj.h), two libraries it
  is built with (components/md5, nwy_utf8_gbk_ucs2.c), and the menu-driven test program of the module under src/nwy_test_cli
  (its menus, its input and output, its firmware update, and its functions apart from those of nwy_test_cli_iot.c), and two
  tests of the module of their own, nwy_rhino_ids_test.c and nwy_multi_socket_test.c, and the menus of hello_world.c for the mobile
  network, FTP, HTTP and certificates.

  \<^bold>\<open>The program.\<close> Up to 31 sub-devices hang on an RS485 bus. At power-on \<open>appimg_enter\<close> starts a sampling thread, the data-call
  thread and the enumeration thread. The enumeration (\<open>Poll_Addr_Thread\<close>) gives the sub-devices their addresses and then
  starts the control thread (\<open>Rs485_Ctrl_Thread\<close>), which polls them and switches their relays. Frames from the bus arrive in
  \<open>handle_rec\<close>. The data call (\<open>prvThreadEntry_Call\<close>) brings up the connection and starts the MQTT threads: one connects, one
  sends. A message from the cloud goes through \<open>messageArrived\<close> to \<open>handle_Net_Cmd\<close>, which answers texts and binary zone
  commands, stores settings in files and wakes the control thread. A Bluetooth thread scans and keeps a table of devices. The
  parts exchange data through globals and signals. The test program, an application image of its own, shows menus over USB,
  reads lines, and runs functions that ask for further lines and call the module.

  \<^bold>\<open>How it is modelled.\<close> A C array is a list of fixed length; an access outside an array, or past a text without
  terminator, is the value \<open>None\<close>, so that \<open>Some\<close> means a run inside the arrays. Integers keep their width as machine words
  where the code computes in them. The globals are the record \<open>gateway\<close>; the calls into the module made for their effect
  (signals, UART, pins, sleeping, threads) are appended to its \<open>trace\<close>. A thread is a step function on one pass of its loop,
  with what the pass receives from outside as an argument. Answers of the module, of the TCP/IP stack and of the MQTT client
  library, the file system and uninitialised memory are arguments; what the code relies on is stated as a hypothesis or as a
  locale. Diagnostic output is left out.

  \<^bold>\<open>The theories.\<close>
  \<^item> \<open>Prelude\<close>, \<open>CString\<close>, \<open>Machine\<close>: arrays, C strings, decimal and hexadecimal printing, words of two bytes; the locale
    \<open>text_builder\<close> of texts built by appending (interpreted on \<open>strcat\<close>); the locales \<open>invariant_machine\<close> and
    \<open>total_machine\<close> of threads with an invariant, interpreted by every thread below.
  \<^item> \<open>Gateway\<close>: the structs of prj.h and the globals, the type invariant \<open>sized\<close>, single-precision numbers.
  \<^item> \<open>HexText\<close>: the hexadecimal conversions of mqtt.c, hello_world.c and nwy_utf8_gbk_ucs2.c over a locale of nibble codes;
    round trips, and the check that looks at the first character only.
  \<^item> \<open>Crc16\<close>: \<open>N_CRC16\<close> of call.c with its tables equals the bitwise Modbus checksum; frames with an appended checksum, and
    the errors it detects.
  \<^item> \<open>Rs485\<close>: call.c's transmitters, \<open>handle_rec\<close>, enumeration and control thread. Enumeration counts the answering devices;
    the control thread never fails, keeps its counters in range and leaves the bus idle; switching reaches every device;
    silent devices go offline; a waiting loop that never ends when entered with its flag set.
  \<^item> \<open>Settings\<close>, \<open>Storage\<close>: \<open>Handle_Set_Cmd\<close> and \<open>Is_Valid_IP\<close> of parse.c, the files of file_save.c over a file-system
    interface \<open>vfs_spec\<close> (with a memory file system as instance); what a command with an address and a user name stores, saves and
    keeps in force, settings survive a restart, what the name lists really do.
  \<^item> \<open>Report\<close>: the texts of main_xb.c, parse.c and mqtt.c; the report is exactly the specified text, and when it fits.
  \<^item> \<open>NetCmd\<close>: the zone commands of parse.c; replies carry a valid checksum, written limits are read back.
  \<^item> \<open>BleTable\<close>: the device table of ble_test.c; the table invariant over scan rounds, and the round that overruns.
  \<^item> \<open>DataCall\<close>: the data call and the TCP probe of call.c with the address helpers of hello_world.c; the connection attempts
    end, sockets do not leak.
  \<^item> \<open>Mqtt\<close>: the client calls and the threads of mqtt.c; memory safety of any sequence of steps, the connection request, what is
    published and when.
  \<^item> \<open>Sampler\<close>: the rest of main_xb.c, \<open>get_CCID_Fun\<close> and \<open>appimg_enter\<close> of hello_world.c; the rounds of the sampling thread, and
    the digit that the SIM numbers lose.
  \<^item> \<open>Console\<close>: the line mode of the USB callback \<open>nwy_ext_sio_data_cb\<close> of hello_world.c; the only input that leaves the buffer,
    and what happens to a typed line.
  \<^item> \<open>Collector\<close>: the locale \<open>collector\<close> of a receiver that gathers pieces until it has an announced number of bytes, interpreted
    by the two firmware updates below.
  \<^item> \<open>Fota\<close>: the two update modes of that callback and the update sessions of hello_world.c; the module is given exactly the
    announced bytes, the image file is flashed block by block, and when the receive buffer is overrun.
  \<^item> \<open>CliMenu\<close>: the menu tables and the menu stack of nwy_test_cli; the stack of five refines the walk in the tree of menus, and
    every entry can be reached.
  \<^item> \<open>CliInput\<close>: the USB callback of nwy_test_cli with line and transfer mode, sending, and the download of a firmware update,
    of which only the first piece is received.
  \<^item> \<open>Dialog\<close>: a language of dialogs (print, ask for a line, call the module, sleep, read and write shared variables), their
    runs, and a recursive safety condition with its soundness proof.
  \<^item> \<open>CliOs\<close>, \<open>CliMobile\<close>, \<open>CliNetwork\<close>: the functions of nwy_test_cli_os.c and nwy_test_cli_mobile.c as dialogs; what a
    date and a time that are entered do, and which data calls are noticed.
  \<^item> \<open>Semaphore\<close>: the two threads of the semaphore test under every interleaving; their output never mixes and they never
    deadlock.
  \<^item> \<open>Lcd\<close>: the display driver nwy_drv_lcd_st7735.c (driver.c of the test program holds the same code): commands and data for the
    bus, the characters of the font files, a line of text; what appears on the display is the picture of the text, and drawing
    stays inside the arrays.
  \<^item> \<open>CliDriver\<close>, \<open>CliFiles\<close>: nwy_test_cli_driver.c, peripherals, display, memory card, flash, speech, sound, files and
    directories, as dialogs.
  \<^item> \<open>CliBle\<close>: nwy_test_cli_sdw.c (Bluetooth server and client, WiFi) and nwy_test_cli_lbs.c (satellite and cell location).
  \<^item> \<open>CliSocket\<close>, \<open>CliFtp\<close>: nwy_test_cli_tcpip.c, the TCP and UDP connections with their receiving threads; FTP and HTTP with
    their callbacks.
  \<^item> \<open>CliContract\<close>, \<open>CliSafety\<close>: a contract, prompt by prompt and call by call, of the lines that fit the arrays, the arguments the
    module allows and the answers the code relies on, with an invariant of the variables; each function keeps it.
  \<^item> \<open>CliProgram\<close>: the main loop with these functions. Under the contract every session stays inside its arrays and respects the
    ranges of the module; the exact lengths at which the functions for the mobile network overflow.
  \<^item> \<open>CliEffects\<close>: what the functions do across their parts: of a file from the console only the first piece can get to an FTP server, a file
    from an FTP server is stored block behind block, data that come by HTTP are shown, a recording is played, an address is
    accepted for its first three numbers; the exact lengths of names at which functions overflow.
  \<^item> \<open>RhinoLog\<close>: nwy_rhino_ids_test.c, the log of network warnings in two files that take turns. Under the locale
    \<open>warning_files\<close> (what the module's files do, with files in memory as instance) the files always hold the end of the sequence
    of warnings.
  \<^item> \<open>MultiSocket\<close>: nwy_multi_socket_test.c, a socket on each of two data calls. Under the locale \<open>socket_module\<close> (what the module
    does to its sockets and clock, with sockets in memory as instance) the test ends and leaves no socket open.
  \<^item> \<open>HelloMobile\<close>, \<open>HelloFtp\<close>: the menus of hello_world.c, older than those of src/nwy_test_cli: SIM card, short messages, two
    cards, data and voice calls, device; FTP and HTTP with and without a channel for each call, certificates. A file for an FTP
    server comes through the console callback of \<open>Fota\<close>.
  \<^item> \<open>HelloEffects\<close>, \<open>HelloSafety\<close>: when the list of messages leaves its arrays, which numbers are really dialled, and a contract under
    which no menu for the mobile network leaves its arrays.
  \<^item> \<open>Md5\<close>: components/md5; a context refines the message so far, so that updates and final call compute the digest of the
    concatenated input, and the unrolled transformation the 64-step compression.
  \<^item> \<open>Utf8\<close>, \<open>GbkTable\<close>, \<open>Gbk\<close>: nwy_utf8_gbk_ucs2.c. \<open>GbkTable\<close> holds the whole code page and its check; \<open>Gbk\<close> interprets the
    locale \<open>code_page\<close> on it: the searches are lookups, GBK texts survive the way to UTF-8 and back. \<open>Utf8\<close> has the encoder,
    the decoders and the hexadecimal text, which loops for ever on a misplaced continuation byte.
  \<^item> \<open>System\<close>: all message handlers and thread rounds as one step relation on globals and files, with preservation and progress: in
    every reachable state the bus was used properly, no flag makes a handler wait for ever, the tables are in order, and the
    next step of every thread, and of the handlers that are named, does not fault.
  \<^item> This theory: a relay command from the MQTT message to the frames on the bus.

  \<^bold>\<open>Loops.\<close> Loops of the code are recursive functions with a termination proof, or structural recursions on the number of
  rounds the code fixes (16 rounds of the code-page search, 32 sub-devices, the length argument); a dialog is a finite value and ends by \<open>dialog_ends\<close>. The loops that may run for
  ever (\<open>Waiting_Mqtt\<close>, \<open>ucs2_text_loop\<close>, \<open>utf8_to_gbk_loop\<close>, \<open>MD5_loop\<close>, the connection loop) are partial functions; for each
  of them it is proved when they return. In the test program the loops that only the module ends (reading a file or a directory,
  connecting, the receiving threads) have a number of rounds as an argument, and what is proved of them holds for every number;
  the player has 154 rounds, which suffice for its buffer of 49152 bytes in blocks of 320, and the connecting of
  nwy_multi_socket_test.c 11 rounds, one for each second up to its time-out (a further round counts as a fault).

  \<^bold>\<open>Not modelled.\<close> The other interactive demonstrations of module functions: the menus of hello_world.c and ble_test.c beyond the
  parts above, nwy_test_cli_iot.c (calls into two MQTT libraries that are not part of the sources), nwy_aws_mqtt_test.c,
  nwy_azure_test.c and rs485.c, which the product build does not start and which consist of input and output around calls into the module; the vendored headers
  (module, C library, TLS, cloud libraries). Five functions of the test program are modelled but not in the table of
  \<open>cli_functions\<close>: the two firmware updates, the FTP upload and the storing of a certificate wait for a callback, which a contract
  of single lines and answers does not cover (the updates are in \<open>CliInput\<close>, the upload in \<open>CliEffects\<close>), and the answer to a
  Bluetooth read request has an unterminated array. In the gateway two threads never run inside each other's step: data races
  between threads on the globals are not modelled there; in the test program callbacks run where the function waits.
\<close>

section \<open>Properties across components\<close>

lemma relay_event_switch: "relay_event cmd = Some e \<Longrightarrow> is_switch_event e \<and> e \<noteq> EVENT_SND_485_CTRL"
  by (auto simp: relay_event_def is_switch_event_def RELAY_ALL_ON_def RELAY_ALL_OFF_def RELAY_ALL_RS_def RELAY_ALL_CLEAR_def
      EVENT_SND_485_CTRL_def split: if_splits)

text \<open>C1: From the cloud to the relays. A relay command that arrives in an MQTT message while the bus is free is turned into an event for
  the control thread, whose next round sends the checksummed switch frame to every sub-device in order; the sending thread, woken as
  well, then publishes the first six bytes of the command as the answer, once.\<close>

theorem cloud_relay_command:
  assumes "sized s" and "terminated (nImei (xb_sim s))" and "fg_Snding_485 s = 0"
    and "length topicName \<le> 128" and "6 \<le> len" and "len \<le> 1024" and "len \<le> length b"
    and "b ! 0 = 0" and "b ! 1 = 0x44" and "relay_event (join16 (b ! 3) (b ! 2)) = Some e"
    and "is_connected (in_env i)" and "in_event i = REPORT_MQTT_CTRL_CMD" and "sio_len m \<le> 512"
  shows "\<exists>s1 s2 s3 m'. messageArrived fs tmpN mem behind pad tmpZ ev topicName b len s w = Some (s1, w) \<and>
    Rs485_Ctrl_round uart s1 e = Some s2 \<and>
    trace s2 = trace s @ [Send_Sig RS485_Ctrl_thread e, Send_Sig Mqtt_Snd_task REPORT_MQTT_CTRL_CMD] @
      concat (map (\<lambda>k. uart1_effects uart (crc_frames.seal [word_of_nat k, 0x44, hi8 (ucast e), lo8 (ucast e)]) @ [Sleep 100])
        [1..<1 + unat (Dev_Num s)]) \<and>
    mqtt_Snd_round (s2, n, m, st) i = Some (s3, n, m', st) \<and>
    mqtt_calls m' = mqtt_calls m @ [Sem_Acquire, Mqtt_Publish (state_topic s) 2 0 (take 6 b), Sem_Release]"
proof -
  let ?s1 = "emit (Send_Sig Mqtt_Snd_task REPORT_MQTT_CTRL_CMD) (emit (Send_Sig RS485_Ctrl_thread e)
      (s\<lparr>mqtt_report_Msg := take 6 b @ replicate 506 0, mqtt_report_Len := 6\<rparr>))"
  have b6: "6 \<le> length b" using assms(5,7) by simp
  have arrived: "messageArrived fs tmpN mem behind pad tmpZ ev topicName b len s w = Some (?s1, w)"
    by (simp add: relay_command_eq [OF assms(1) b6 assms(8-10,3)] messageArrived_command [OF assms(4,6)])
  have sz1: "sized ?s1" using assms(1) b6 by (simp add: sized_def)
  obtain h where h: "length h = 2" "Rs485_Ctrl_round uart ?s1 e = Some (?s1\<lparr>thread_Fg := 2,
      poll_Ctrl_Cmd := crc_frames.seal [poll_id s, 0x4D, 0], fg_Snding_485 := 0, RS485_hd := h, trace := trace ?s1 @
      concat (map (\<lambda>k. uart1_effects uart (crc_frames.seal [word_of_nat k, 0x44, hi8 (ucast e), lo8 (ucast e)]) @ [Sleep 100])
        [1..<1 + unat (Dev_Num s)])\<rparr>)"
    using Ctrl_round_switch [OF sz1, of e uart] relay_event_switch [OF assms(10)] by auto
  let ?s2 = "?s1\<lparr>thread_Fg := 2, poll_Ctrl_Cmd := crc_frames.seal [poll_id s, 0x4D, 0], fg_Snding_485 := 0, RS485_hd := h,
      trace := trace ?s1 @ concat (map (\<lambda>k. uart1_effects uart (crc_frames.seal [word_of_nat k, 0x44, hi8 (ucast e), lo8 (ucast e)]) @ [Sleep 100])
        [1..<1 + unat (Dev_Num s)])\<rparr>"
  have sz2: "sized ?s2" using sz1 h(1) by (simp add: sized_def crc_frames.seal_def)
  have "state_topic ?s2 = state_topic s" "take 6 (take 6 b @ replicate 506 0) = take 6 b" using b6 by (simp_all add: state_topic_def)
  then obtain m' where "mqtt_Snd_round (?s2, n, m, st) i = Some (?s2\<lparr>Fg_Snding_Mqtt := 0\<rparr>, n, m', st)"
      "mqtt_calls m' = mqtt_calls m @ [Sem_Acquire, Mqtt_Publish (state_topic s) 2 0 (take 6 b), Sem_Release]"
    using snd_round_sends [OF sz2, of i m n st] assms(2,11-13) by auto
  with arrived h(2) show ?thesis by (intro exI conjI) (assumption | simp)+
qed

theorem cloud_relay_command_witness:
  "\<exists>s1 s2 s3 m'. messageArrived ram_fs [] True [] 0 [] 0 (str ''t'') [0, 0x44, 0x11, 0x55, 1, 2] 6 (init_gateway\<lparr>Dev_Num := 1\<rparr>) (\<lambda>_. [], []) =
      Some (s1, (\<lambda>_. [], [])) \<and>
    Rs485_Ctrl_round int s1 RELAY_ALL_OFF = Some s2 \<and>
    trace s2 = [Send_Sig RS485_Ctrl_thread RELAY_ALL_OFF, Send_Sig Mqtt_Snd_task REPORT_MQTT_CTRL_CMD] @
      uart1_effects int (crc_frames.seal [1, 0x44, 0x11, 0x55]) @ [Sleep 100] \<and>
    mqtt_Snd_round (s2, init_net, init_client, init_snd) (input_up REPORT_MQTT_CTRL_CMD) = Some (s3, init_net, m', init_snd) \<and>
    mqtt_calls m' = [Sem_Acquire, Mqtt_Publish (str ''Gateway/XBWG/state'') 2 0 [0, 0x44, 0x11, 0x55, 1, 2], Sem_Release]"
proof -
  let ?s = "init_gateway\<lparr>Dev_Num := 1\<rparr>"
  have sz: "sized ?s" using sized_init by (simp add: sized_def)
  have b: "hi8 (ucast RELAY_ALL_OFF) = 0x11" "lo8 (ucast RELAY_ALL_OFF) = 0x55" by (simp_all add: RELAY_ALL_OFF_def hi8_def lo8_def)
  have t: "state_topic ?s = str ''Gateway/XBWG/state''" by (simp add: state_topic_def str_def)
  have r: "relay_event (join16 ([0, 0x44, 0x11, 0x55, 1, 2] ! 3) ([0, 0x44, 0x11, 0x55, 1, 2] ! 2)) = Some RELAY_ALL_OFF"
    by (simp add: relay_event_def join16_def)
  have c: "mqtt_calls init_client = []" "sio_len init_client \<le> 512" by (simp_all add: init_client_def)
  show ?thesis
    using cloud_relay_command [OF sz _ _ _ _ _ _ _ _ r, where topicName = "str ''t''" and len = 6 and i = "input_up REPORT_MQTT_CTRL_CMD"
        and m = init_client and fs = ram_fs and w = "(\<lambda>_. [], [])" and uart = int and n = init_net and st = init_snd
        and tmpN = "[]" and mem = True and behind = "[]" and pad = 0 and tmpZ = "[]" and ev = 0]
    by (simp add: b t c imei_init input_up_def upt_rec str_def)
qed

end
